(* ===== verification/RS_Prelude.thy ===== *)
theory RS_Prelude
  imports Main "HOL-Library.AList" "HOL-Library.Sublist" "HOL-Library.Word"
begin

text \<open>
  Shared vocabulary of the development: Go values (maps, times, durations, 64-bit integers),
  the part of Go's \<open>strings\<close>, \<open>fmt\<close> and \<open>errors\<close> packages the sources use, and the generic
  lemmas on association lists and strings that the component theories rely on.

  A Go map is an association list with distinct keys. The order of the list stands for the
  iteration order of one run, which Go leaves open, so a theorem that quantifies over the list
  quantifies over every iteration order. A \<open>time.Time\<close> is the number of nanoseconds since
  Go's zero time, so the zero time is 0; a \<open>time.Duration\<close> is a number of nanoseconds.
\<close>

named_theorems op_defs \<open>definitions of the state operations\<close>
named_theorems inv_pres \<open>preservation of the accounting invariant, one rule per operation\<close>
named_theorems ledger_simps \<open>effect of the operations on the reservation ledger\<close>

type_synonym ('k, 'v) gomap = "('k \<times> 'v) list"
type_synonym time = int
type_synonym duration = int

abbreviation keys :: "('k, 'v) gomap \<Rightarrow> 'k list" where
  "keys m \<equiv> map fst m"

abbreviation wf_map :: "('k, 'v) gomap \<Rightarrow> bool" where
  "wf_map m \<equiv> distinct (keys m)"

definition lookup_or :: "'v \<Rightarrow> ('k, 'v) gomap \<Rightarrow> 'k \<Rightarrow> 'v" where
  "lookup_or d m k = (case map_of m k of None \<Rightarrow> d | Some v \<Rightarrow> v)"

definition gsum :: "('v \<Rightarrow> int) \<Rightarrow> ('k, 'v) gomap \<Rightarrow> int" where
  "gsum f m = sum_list (map (\<lambda>kv. f (snd kv)) m)"

definition gcount :: "('v \<Rightarrow> bool) \<Rightarrow> ('k, 'v) gomap \<Rightarrow> int" where
  "gcount P m = gsum (\<lambda>v. if P v then 1 else 0) m"

section \<open>Time and machine integers\<close>

definition zero_time :: time where
  "zero_time = 0"

definition IsZero :: "time \<Rightarrow> bool" where
  "IsZero t = (t = 0)"

definition time_Second :: duration where
  "time_Second = 1000000000"

definition time_Minute :: duration where
  "time_Minute = 60 * time_Second"

text \<open>Two's-complement wrap-around of a 64-bit signed integer.\<close>

definition i64 :: "int \<Rightarrow> int" where
  "i64 x = (x + 2 ^ 63) mod 2 ^ 64 - 2 ^ 63"

text \<open>\<open>Time.Sub\<close> saturates at the least and the greatest duration.\<close>

definition time_Sub :: "time \<Rightarrow> time \<Rightarrow> duration" where
  "time_Sub t u = max (- (2 ^ 63)) (min (2 ^ 63 - 1) (t - u))"

section \<open>Strings\<close>

definition HasPrefix :: "string \<Rightarrow> string \<Rightarrow> bool" where
  "HasPrefix s p = (take (length p) s = p)"

definition HasSuffix :: "string \<Rightarrow> string \<Rightarrow> bool" where
  "HasSuffix s p = (length p \<le> length s \<and> drop (length s - length p) s = p)"

definition TrimPrefix :: "string \<Rightarrow> string \<Rightarrow> string" where
  "TrimPrefix s p = (if HasPrefix s p then drop (length p) s else s)"

definition TrimSuffix :: "string \<Rightarrow> string \<Rightarrow> string" where
  "TrimSuffix s p = (if HasSuffix s p then take (length s - length p) s else s)"

fun Contains :: "string \<Rightarrow> string \<Rightarrow> bool" where
  "Contains [] p = (p = [])"
| "Contains (c # s) p = (HasPrefix (c # s) p \<or> Contains s p)"

text \<open>\<open>strings.Split\<close> with a one-character separator.\<close>

fun split_char :: "char \<Rightarrow> string \<Rightarrow> string list" where
  "split_char d [] = [[]]"
| "split_char d (c # s) =
     (if c = d then [] # split_char d s
      else (case split_char d s of [] \<Rightarrow> [[c]] | w # ws \<Rightarrow> (c # w) # ws))"

text \<open>\<open>strings.Cut\<close> at the first occurrence of a character: before, after, found.\<close>

fun cut_char :: "char \<Rightarrow> string \<Rightarrow> string \<times> string \<times> bool" where
  "cut_char d [] = ([], [], False)"
| "cut_char d (c # s) =
     (if c = d then ([], s, True)
      else (case cut_char d s of (b, a, f) \<Rightarrow> (c # b, a, f)))"

definition is_digit :: "char \<Rightarrow> bool" where
  "is_digit c = (48 \<le> (of_char c :: nat) \<and> (of_char c :: nat) \<le> 57)"

definition is_lower :: "char \<Rightarrow> bool" where
  "is_lower c = (97 \<le> (of_char c :: nat) \<and> (of_char c :: nat) \<le> 122)"

definition is_upper :: "char \<Rightarrow> bool" where
  "is_upper c = (65 \<le> (of_char c :: nat) \<and> (of_char c :: nat) \<le> 90)"

text \<open>\<open>strings.ToLower\<close> of ASCII text; other letters stay.\<close>

definition to_lower :: "string \<Rightarrow> string" where
  "to_lower s = map (\<lambda>c. if is_upper c then char_of ((of_char c :: nat) + 32) else c) s"

definition is_alnum :: "char \<Rightarrow> bool" where
  "is_alnum c = (is_digit c \<or> is_lower c \<or> is_upper c)"

definition digit_val :: "char \<Rightarrow> int" where
  "digit_val c = int (of_char c) - 48"

definition dec_val :: "string \<Rightarrow> int" where
  "dec_val s = foldl (\<lambda>a c. 10 * a + digit_val c) 0 s"

text \<open>Decimal rendering of an integer, as \<open>%d\<close> prints it.\<close>

definition digit_char :: "nat \<Rightarrow> char" where
  "digit_char n = char_of (48 + n mod 10)"

fun show_nat :: "nat \<Rightarrow> string" where
  "show_nat n = (if n < 10 then [digit_char n] else show_nat (n div 10) @ [digit_char n])"

declare show_nat.simps [simp del]

definition show_int :: "int \<Rightarrow> string" where
  "show_int z = (if z < 0 then CHR ''-'' # show_nat (nat (- z)) else show_nat (nat z))"

definition digits1 :: "string \<Rightarrow> bool" where
  "digits1 s = (s \<noteq> [] \<and> list_all is_digit s)"

definition int_part :: "string \<Rightarrow> bool" where
  "int_part s = (digits1 s \<and> (hd s = CHR ''0'' \<longrightarrow> s = ''0''))"

fun join_with :: "string \<Rightarrow> string list \<Rightarrow> string" where
  "join_with sep [] = []"
| "join_with sep [x] = x"
| "join_with sep (x # y # r) = x @ sep @ join_with sep (y # r)"

text \<open>\<open>path.Clean\<close>\<close>

fun clean_comps :: "bool \<Rightarrow> string list \<Rightarrow> string list \<Rightarrow> string list" where
  "clean_comps rooted acc [] = rev acc"
| "clean_comps rooted acc (c # cs) =
     (if c = [] \<or> c = ''.'' then clean_comps rooted acc cs
      else if c = ''..'' then
        (case acc of
           a # as \<Rightarrow> if a \<noteq> ''..'' then clean_comps rooted as cs else clean_comps rooted (c # acc) cs
         | [] \<Rightarrow> if rooted then clean_comps rooted [] cs else clean_comps rooted [c] cs)
      else clean_comps rooted (c # acc) cs)"

fun join_slash :: "string list \<Rightarrow> string" where
  "join_slash [] = []"
| "join_slash [x] = x"
| "join_slash (x # y # r) = x @ ''/'' @ join_slash (y # r)"

definition path_Clean :: "string \<Rightarrow> string" where
  "path_Clean p =
     (let rooted = HasPrefix p ''/''; out = join_slash (clean_comps rooted [] (split_char CHR ''/'' p))
      in if rooted then ''/'' @ out else if out = [] then ''.'' else out)"

text \<open>Text of a list of lines, each ended by a newline.\<close>

definition unlines :: "string list \<Rightarrow> string" where
  "unlines ls = concat (map (\<lambda>l. l @ [CHR 0x0A]) ls)"

section \<open>Lemmas on association lists\<close>

text \<open>Lookups stay lookups: they are not turned into membership.\<close>

declare map_of_eq_Some_iff [simp del] Some_eq_map_of_iff [simp del]

lemma lookup_or_Some [simp]: "map_of m k = Some v \<Longrightarrow> lookup_or d m k = v"
  by (simp add: lookup_or_def)

lemma lookup_or_None [simp]: "map_of m k = None \<Longrightarrow> lookup_or d m k = d"
  by (simp add: lookup_or_def)

lemma gsum_simps [simp]:
  "gsum f [] = 0" "gsum f ((k, v) # m) = f v + gsum f m" "gsum f (m @ n) = gsum f m + gsum f n"
  by (simp_all add: gsum_def)

lemma gsum_update:
  "gsum f (AList.update k v m) =
     gsum f m - (case map_of m k of None \<Rightarrow> 0 | Some w \<Rightarrow> f w) + f v"
  by (induction m) auto

lemma delete_notin [simp]: "k \<notin> set (keys m) \<Longrightarrow> AList.delete k m = m"
  by (induction m) auto

lemma delete_update_notin [simp]:
  "k \<notin> set (keys m) \<Longrightarrow> AList.delete k (AList.update k v m) = m"
  by (induction m) auto

lemma gsum_delete:
  "wf_map m \<Longrightarrow>
   gsum f (AList.delete k m) = gsum f m - (case map_of m k of None \<Rightarrow> 0 | Some w \<Rightarrow> f w)"
proof (induction m)
  case Nil
  then show ?case by simp
next
  case (Cons p m)
  then show ?case by (cases p) auto
qed

lemma gsum_mono: "(\<And>k v. (k, v) \<in> set m \<Longrightarrow> f v \<le> g v) \<Longrightarrow> gsum f m \<le> gsum g m"
proof (induction m)
  case (Cons p m)
  then have "f (snd p) \<le> g (snd p)" and "gsum f m \<le> gsum g m"
    by (auto intro: Cons.IH) (metis prod.collapse)
  then show ?case by (cases p) simp
qed simp

lemma gsum_cong: "(\<And>k v. (k, v) \<in> set m \<Longrightarrow> f v = g v) \<Longrightarrow> gsum f m = gsum g m"
  by (auto simp: gsum_def intro!: arg_cong [where f = sum_list])

lemma gsum_nonneg: "(\<And>k v. (k, v) \<in> set m \<Longrightarrow> 0 \<le> f v) \<Longrightarrow> 0 \<le> gsum f m"
  using gsum_mono [of m "\<lambda>_. 0" f] by (auto simp: gsum_def)

lemma gsum_add: "gsum (\<lambda>v. f v + g v) m = gsum f m + gsum g m"
  by (induction m) auto

lemma gsum_member_le:
  "\<lbrakk>map_of m k = Some v; \<And>k v. (k, v) \<in> set m \<Longrightarrow> 0 \<le> f v\<rbrakk> \<Longrightarrow> f v \<le> gsum f m"
proof (induction m)
  case Nil
  then show ?case by simp
next
  case (Cons p m)
  obtain k' v' where p: "p = (k', v')" by (cases p)
  have nonneg: "0 \<le> gsum f m" and "0 \<le> f v'"
    using Cons.prems(2) by (auto simp: p intro!: gsum_nonneg)
  show ?case
  proof (cases "k' = k")
    case True
    then show ?thesis using Cons.prems(1) nonneg by (simp add: p)
  next
    case False
    then have "f v \<le> gsum f m" using Cons.prems by (intro Cons.IH) (auto simp: p)
    then show ?thesis using \<open>0 \<le> f v'\<close> by (simp add: p)
  qed
qed

lemma gcount_update:
  "gcount P (AList.update k v m) =
     gcount P m - (case map_of m k of None \<Rightarrow> 0 | Some w \<Rightarrow> if P w then 1 else 0)
       + (if P v then 1 else 0)"
  by (simp add: gcount_def gsum_update)

lemma gcount_delete:
  "wf_map m \<Longrightarrow>
   gcount P (AList.delete k m) =
     gcount P m - (case map_of m k of None \<Rightarrow> 0 | Some w \<Rightarrow> if P w then 1 else 0)"
  by (simp add: gcount_def gsum_delete)

lemma gcount_nonneg [simp]: "0 \<le> gcount P m"
  by (auto simp: gcount_def intro: gsum_nonneg)

lemma gcount_simps [simp]:
  "gcount P [] = 0" "gcount P ((k, v) # m) = (if P v then 1 else 0) + gcount P m"
  by (simp_all add: gcount_def)

lemma gcount_pos:
  assumes "map_of m k = Some v" and "P v"
  shows "0 < gcount P m"
proof -
  have "(if P v then 1 else 0) \<le> gsum (\<lambda>v. if P v then 1 else 0) m"
    by (rule gsum_member_le [OF assms(1)]) auto
  with assms(2) show ?thesis by (simp add: gcount_def)
qed

lemma gcount_zero_iff: "gcount P m = 0 \<longleftrightarrow> (\<forall>kv \<in> set m. \<not> P (snd kv))"
proof (induction m)
  case (Cons p m)
  have "0 \<le> gcount P m" by simp
  then have "1 + gcount P m \<noteq> 0" by linarith
  with Cons show ?case by (cases p) auto
qed simp

lemma gcount_zero_map_of:
  "wf_map m \<Longrightarrow> gcount P m = 0 \<longleftrightarrow> (\<forall>k v. map_of m k = Some v \<longrightarrow> \<not> P v)"
  by (auto simp: gcount_zero_iff map_of_eq_Some_iff)

lemma gcount_pos_map_of:
  "wf_map m \<Longrightarrow> 0 < gcount P m \<longleftrightarrow> (\<exists>k v. map_of m k = Some v \<and> P v)"
  using gcount_zero_map_of [of m P] gcount_nonneg [of P m] by (metis less_le)

lemma gcount_cong: "(\<And>v. P v = Q v) \<Longrightarrow> gcount P m = gcount Q m"
  by (simp add: gcount_def)

lemma map_of_update [simp]: "map_of (AList.update k v m) = (map_of m)(k \<mapsto> v)"
  by (rule update_conv')

lemma map_of_delete [simp]: "map_of (AList.delete k m) = (map_of m)(k := None)"
  by (rule delete_conv')

lemma wf_update [simp]: "wf_map m \<Longrightarrow> wf_map (AList.update k v m)"
  by (rule distinct_update)

lemma wf_delete [simp]: "wf_map m \<Longrightarrow> wf_map (AList.delete k m)"
  by (rule distinct_delete)

lemma length_update [simp]:
  "length (AList.update k v m) = (if k \<in> set (keys m) then length m else Suc (length m))"
  by (induction m) auto

lemma map_of_Some_key: "map_of m k = Some v \<Longrightarrow> k \<in> fst ` set m"
  by (auto dest!: map_of_SomeD intro: rev_image_eqI)

lemma keys_update: "set (keys (AList.update k v m)) = insert k (set (keys m))"
  using dom_update [of k v m] by simp

section \<open>Lemmas on strings\<close>

lemma HasPrefix_append [simp]: "HasPrefix (p @ s) p"
  by (simp add: HasPrefix_def)

lemma HasSuffix_append [simp]: "HasSuffix (s @ p) p"
  by (simp add: HasSuffix_def)

lemma HasPrefix_iff: "HasPrefix s p \<longleftrightarrow> (\<exists>t. s = p @ t)"
  by (metis HasPrefix_append HasPrefix_def append_take_drop_id)

lemma split_char_ne [simp]: "split_char d s \<noteq> []"
  by (induction s) (auto split: list.splits)

lemma split_char_notin: "d \<notin> set s \<Longrightarrow> split_char d s = [s]"
  by (induction s) auto

lemma split_char_append:
  "d \<notin> set s \<Longrightarrow> split_char d (s @ d # t) = s # split_char d t"
  by (induction s) auto

lemma split_char_Cons:
  assumes "split_char d s = a # ws"
  shows "ws = [] \<and> s = a \<or> (\<exists>t. s = a @ d # t \<and> split_char d t = ws)"
  using assms
proof (induction s arbitrary: a)
  case (Cons c s)
  show ?case
  proof (cases "c = d")
    case False
    then obtain w where "split_char d s = w # ws" "a = c # w"
      using Cons.prems by (auto split: list.splits)
    with Cons.IH [of w] show ?thesis by auto
  qed (use Cons.prems in auto)
qed auto

lemma split_char_parts: "w \<in> set (split_char d s) \<Longrightarrow> d \<notin> set w"
proof (induction s arbitrary: w)
  case (Cons c s)
  then show ?case by (auto split: if_splits list.splits)
qed simp

lemma i64_id: "- (2 ^ 63) \<le> x \<Longrightarrow> x < 2 ^ 63 \<Longrightarrow> i64 x = x"
  by (simp add: i64_def)

lemma i64_bounds: "- (2 ^ 63) \<le> i64 x \<and> i64 x < 2 ^ 63"
proof -
  have "0 \<le> (x + 2 ^ 63) mod 2 ^ 64" and "(x + 2 ^ 63) mod 2 ^ 64 < (2 ^ 64 :: int)"
    by simp_all
  then show ?thesis by (simp add: i64_def)
qed

lemma time_Sub_exact: "- (2 ^ 63) \<le> t - u \<Longrightarrow> t - u < 2 ^ 63 \<Longrightarrow> time_Sub t u = t - u"
  by (simp add: time_Sub_def)

section \<open>Lemmas on decimal numbers\<close>

lemma digit_val_char: "n < 10 \<Longrightarrow> digit_val (digit_char n) = int n"
  by (simp add: digit_val_def digit_char_def)

lemma digit_val_char_mod: "digit_val (digit_char n) = int (n mod 10)"
  using digit_val_char [of "n mod 10"] by (simp add: digit_char_def)

lemma dec_val_snoc: "dec_val (s @ [c]) = 10 * dec_val s + digit_val c"
  by (simp add: dec_val_def)

lemma dec_val_show_nat [simp]: "dec_val (show_nat n) = int n"
proof (induction n rule: show_nat.induct)
  case (1 n)
  show ?case
  proof (cases "n < 10")
    case True
    then show ?thesis by (subst show_nat.simps) (simp add: dec_val_def digit_val_char)
  next
    case False
    then have "dec_val (show_nat n) = 10 * int (n div 10) + int (n mod 10)"
      using 1 by (subst show_nat.simps) (simp add: dec_val_snoc digit_val_char_mod)
    also have "\<dots> = int (10 * (n div 10) + n mod 10)" by (simp only: of_nat_add of_nat_mult of_nat_numeral)
    finally show ?thesis by (simp only: mult_div_mod_eq)
  qed
qed

lemma is_digit_char [simp]: "is_digit (digit_char n)"
proof -
  have "n mod 10 < 10" by simp
  then show ?thesis by (simp add: is_digit_def digit_char_def)
qed

lemma show_nat_digits: "list_all is_digit (show_nat n) \<and> show_nat n \<noteq> []"
proof (induction n rule: show_nat.induct)
  case (1 n)
  show ?case
  proof (cases "n < 10")
    case True
    then have "show_nat n = [digit_char n]" by (subst show_nat.simps) simp
    then show ?thesis by simp
  next
    case False
    then have "show_nat n = show_nat (n div 10) @ [digit_char n]" by (subst show_nat.simps) simp
    with 1 False show ?thesis by simp
  qed
qed

lemma show_nat_inj: "show_nat m = show_nat n \<longleftrightarrow> m = n"
  by (metis dec_val_show_nat of_nat_eq_iff)

lemma show_int_nonneg: "0 \<le> z \<Longrightarrow> show_int z = show_nat (nat z)"
  by (simp add: show_int_def)

text \<open>The same digits computed on integers, which evaluation represents in binary.\<close>

function int_digits :: "int \<Rightarrow> string" where
  "int_digits z = (if z < 10 then [digit_char (nat z)] else int_digits (z div 10) @ [digit_char (nat (z mod 10))])"
  by pat_completeness auto
termination by (relation "measure nat") auto

declare int_digits.simps [simp del]

lemma digit_char_mod: "digit_char (n mod 10) = digit_char n"
  by (simp add: digit_char_def)

lemma int_digits_nat: "int_digits (int n) = show_nat n"
proof (induction n rule: show_nat.induct)
  case (1 n)
  show ?case
  proof (cases "n < 10")
    case True
    then show ?thesis by (subst int_digits.simps, subst show_nat.simps) simp
  next
    case False
    have "int n div 10 = int (n div 10)" "nat (int n mod 10) = n mod 10" by (simp_all add: zdiv_int nat_mod_distrib)
    with False show ?thesis
      using 1 by (subst int_digits.simps, subst show_nat.simps) (simp add: digit_char_mod)
  qed
qed

lemma show_int_code [code]: "show_int z = (if z < 0 then CHR ''-'' # int_digits (- z) else int_digits z)"
  using int_digits_nat [of "nat z"] int_digits_nat [of "nat (- z)"] by (auto simp: show_int_def)

lemma length_show_nat: "n < 10 ^ Suc k \<Longrightarrow> length (show_nat n) \<le> Suc k"
proof (induction k arbitrary: n)
  case 0
  then show ?case by (subst show_nat.simps) simp
next
  case (Suc k)
  then have "n div 10 < 10 ^ Suc k" by (simp add: div_less_iff_less_mult mult.commute)
  from Suc.IH [OF this] show ?case by (subst show_nat.simps) simp
qed

lemma length_show_nat_ge: "10 ^ k \<le> n \<Longrightarrow> Suc k \<le> length (show_nat n)"
proof (induction k arbitrary: n)
  case 0
  then show ?case using show_nat_digits [of n] by (cases "show_nat n") auto
next
  case (Suc k)
  then have le: "10 ^ k \<le> n div 10" by (simp add: less_eq_div_iff_mult_less_eq mult.commute)
  have "(10::nat) * 1 \<le> 10 * 10 ^ k" by (intro mult_le_mono2) simp
  with Suc.prems have big: "\<not> n < 10" unfolding power_Suc by linarith
  from Suc.IH [OF le] big show ?case by (subst show_nat.simps) simp
qed

lemma digit_notin: "list_all is_digit s \<Longrightarrow> \<not> is_digit c \<Longrightarrow> c \<notin> set s"
  by (auto simp: list_all_iff)

lemma cut_char_found:
  "cut_char d s = (b, a, True) \<longleftrightarrow> s = b @ d # a \<and> d \<notin> set b"
proof (induction s arbitrary: b)
  case (Cons c s)
  show ?case
  proof (cases "c = d")
    case True
    then show ?thesis by (cases b) auto
  next
    case False
    then have "cut_char d (c # s) = (b, a, True) \<longleftrightarrow>
        (\<exists>bs. b = c # bs \<and> cut_char d s = (bs, a, True))"
      by (cases "cut_char d s") auto
    also have "\<dots> \<longleftrightarrow> c # s = b @ d # a \<and> d \<notin> set b"
      using False by (cases b) (auto simp: Cons.IH)
    finally show ?thesis .
  qed
qed simp

end
