(* ===== verification/State_Model.thy ===== *)
theory State_Model
  imports RS_Prelude
begin

text \<open>
  The orchestrator's in-memory scheduling state, package \<open>internal/state\<close>, file
  \<open>state.go\<close>: one record per Go struct and one function per method of \<open>*State\<close>. Every
  method holds the struct's mutex for its whole body, so a method is one atomic step; the
  interleaving of goroutines is a sequence of such steps (the type \<open>StateOp\<close> below).

  The accounting invariant \<open>state_inv\<close> says that every per-repository counter is the number
  of reservations it stands for, and that the global admission barrier is up exactly when
  some reservation is teardown debt. Each operation of the scheduler keeps it.
\<close>

section \<open>Data\<close>

datatype SpawnPhase = PhasePending | PhaseOnline | PhaseAssigned | PhaseTeardownBlocked

record SpawnState =
  ssSpawnID :: string
  ssRepo :: string
  ssPhase :: SpawnPhase
  ssRunnerID :: int
  ssRunnerName :: string
  ssReservedAt :: time
  ssOnlineAt :: time
  ssAssignedAt :: time
  ssTeardownBlockedAt :: time
  ssTeardownFailure :: string

record OperationError =
  oeClass :: string
  oeDetail :: string

record RepoState =
  rsInFlight :: int
  rsQueuedJobs :: int
  rsPending :: int
  rsOnline :: int
  rsAssigned :: int
  rsTeardownBlocked :: int
  rsBreakerOpen :: bool
  rsLastPollAt :: time
  rsLastPollSuccess :: time
  rsLastPollError :: string
  rsLastErrorDetail :: string
  rsRunnerOperationError :: "(string, OperationError) gomap"
  rsLastETag :: string

record State =
  perRepo :: "(string, RepoState) gomap"
  reservations :: "(string, SpawnState) gomap"
  rlRemaining :: int
  rlLimit :: int
  rlReset :: time
  rateLimited :: bool
  configuredCapacity :: int
  workerCapacity :: int
  version :: string
  buildSHA :: string
  configLoaded :: bool
  draining :: bool
  teardownBlocked :: bool
  assignmentsTotal :: int
  completedTotal :: int
  unassignedTotal :: int
  deregisteredTotal :: int
  teardownFailures :: int
  teardownReconciled :: int

definition zero_RepoState :: RepoState where
  "zero_RepoState = \<lparr>rsInFlight = 0, rsQueuedJobs = 0, rsPending = 0, rsOnline = 0,
     rsAssigned = 0, rsTeardownBlocked = 0, rsBreakerOpen = False, rsLastPollAt = zero_time,
     rsLastPollSuccess = zero_time, rsLastPollError = [], rsLastErrorDetail = [],
     rsRunnerOperationError = [], rsLastETag = []\<rparr>"

definition new_spawn :: "string \<Rightarrow> string \<Rightarrow> SpawnPhase \<Rightarrow> time \<Rightarrow> SpawnState" where
  "new_spawn sid repo ph at = \<lparr>ssSpawnID = sid, ssRepo = repo, ssPhase = ph, ssRunnerID = 0,
     ssRunnerName = [], ssReservedAt = at, ssOnlineAt = zero_time, ssAssignedAt = zero_time,
     ssTeardownBlockedAt = zero_time, ssTeardownFailure = []\<rparr>"

section \<open>Operations\<close>

definition New :: State where
  "New = \<lparr>perRepo = [], reservations = [], rlRemaining = 0, rlLimit = 0, rlReset = zero_time,
     rateLimited = False, configuredCapacity = 0, workerCapacity = 0, version = [],
     buildSHA = [], configLoaded = False, draining = False, teardownBlocked = False,
     assignmentsTotal = 0, completedTotal = 0, unassignedTotal = 0, deregisteredTotal = 0,
     teardownFailures = 0, teardownReconciled = 0\<rparr>"

text \<open>\<open>ensure\<close> returns the repository's entry and the state that holds it; the nil error map
  of Go is the empty map. The caller's writes through the returned pointer are \<open>put_repo\<close>.\<close>

definition ensure :: "State \<Rightarrow> string \<Rightarrow> RepoState \<times> State" where
  "ensure s repo =
     (case map_of (perRepo s) repo of
        Some r \<Rightarrow> (r, s)
      | None \<Rightarrow> (zero_RepoState,
                 s\<lparr>perRepo := AList.update repo zero_RepoState (perRepo s)\<rparr>))"

definition put_repo :: "string \<Rightarrow> RepoState \<Rightarrow> State \<Rightarrow> State" where
  "put_repo repo r s = s\<lparr>perRepo := AList.update repo r (perRepo s)\<rparr>"

definition put_spawn :: "string \<Rightarrow> SpawnState \<Rightarrow> State \<Rightarrow> State" where
  "put_spawn sid sp s = s\<lparr>reservations := AList.update sid sp (reservations s)\<rparr>"

definition with_repo :: "string \<Rightarrow> (RepoState \<Rightarrow> RepoState) \<Rightarrow> State \<Rightarrow> State" where
  "with_repo repo f s = (case ensure s repo of (r, s') \<Rightarrow> put_repo repo (f r) s')"

definition Configure :: "string list \<Rightarrow> int \<Rightarrow> int \<Rightarrow> string \<Rightarrow> string \<Rightarrow> State \<Rightarrow> State" where
  "Configure repos confCap workCap ver sha s =
     (fold (\<lambda>repo s. snd (ensure s repo)) repos s)
       \<lparr>configuredCapacity := confCap, workerCapacity := workCap, version := ver,
        buildSHA := sha, configLoaded := True\<rparr>"

definition InFlight :: "State \<Rightarrow> string \<Rightarrow> int" where
  "InFlight s repo = (case map_of (perRepo s) repo of Some r \<Rightarrow> rsInFlight r | None \<Rightarrow> 0)"

definition DemandCoverage :: "State \<Rightarrow> string \<Rightarrow> int" where
  "DemandCoverage s repo =
     (case map_of (perRepo s) repo of Some r \<Rightarrow> rsPending r + rsOnline r | None \<Rightarrow> 0)"

definition globalInFlightLocked :: "State \<Rightarrow> int" where
  "globalInFlightLocked s = gsum rsInFlight (perRepo s)"

definition GlobalInFlight :: "State \<Rightarrow> int" where
  "GlobalInFlight s = globalInFlightLocked s"

definition TryReserve :: "string \<Rightarrow> string \<Rightarrow> int \<Rightarrow> int \<Rightarrow> time \<Rightarrow> State \<Rightarrow> bool \<times> State" where
  "TryReserve sid repo repoCap globalCap now s =
     (if draining s \<or> teardownBlocked s then (False, s)
      else case map_of (reservations s) sid of
        Some existing \<Rightarrow> (ssRepo existing = repo, s)
      | None \<Rightarrow>
          (case ensure s repo of (r, s) \<Rightarrow>
             if rsInFlight r \<ge> repoCap \<or> globalInFlightLocked s \<ge> globalCap then (False, s)
             else (True,
                   put_spawn sid (new_spawn sid repo PhasePending now)
                     (put_repo repo (r\<lparr>rsInFlight := rsInFlight r + 1,
                                       rsPending := rsPending r + 1\<rparr>) s))))"

definition HasReservation :: "State \<Rightarrow> string \<Rightarrow> string \<Rightarrow> bool" where
  "HasReservation s sid repo =
     (case map_of (reservations s) sid of Some r \<Rightarrow> ssRepo r = repo | None \<Rightarrow> False)"

definition RecordJIT :: "string \<Rightarrow> int \<Rightarrow> string \<Rightarrow> State \<Rightarrow> State" where
  "RecordJIT sid runnerID runnerName s =
     (case map_of (reservations s) sid of
        Some spawn \<Rightarrow> put_spawn sid (spawn\<lparr>ssRunnerID := runnerID, ssRunnerName := runnerName\<rparr>) s
      | None \<Rightarrow> s)"

definition MarkOnline :: "string \<Rightarrow> time \<Rightarrow> State \<Rightarrow> bool \<times> State" where
  "MarkOnline sid now s =
     (case map_of (reservations s) sid of
        None \<Rightarrow> (False, s)
      | Some spawn \<Rightarrow>
          if ssPhase spawn \<noteq> PhasePending then (False, s)
          else (True,
                put_spawn sid (spawn\<lparr>ssPhase := PhaseOnline, ssOnlineAt := now\<rparr>)
                  (with_repo (ssRepo spawn)
                     (\<lambda>r. r\<lparr>rsPending := (if rsPending r > 0 then rsPending r - 1 else rsPending r),
                            rsOnline := rsOnline r + 1\<rparr>) s)))"

definition MarkAssigned :: "string \<Rightarrow> time \<Rightarrow> State \<Rightarrow> bool \<times> State" where
  "MarkAssigned sid now s =
     (case map_of (reservations s) sid of
        None \<Rightarrow> (False, s)
      | Some spawn \<Rightarrow>
          if ssPhase spawn \<noteq> PhasePending \<and> ssPhase spawn \<noteq> PhaseOnline then (False, s)
          else
            (let s1 = with_repo (ssRepo spawn)
                   (\<lambda>r. let r1 = (if ssPhase spawn = PhasePending \<and> rsPending r > 0
                                  then r\<lparr>rsPending := rsPending r - 1\<rparr> else r);
                            r2 = (if ssPhase spawn = PhaseOnline \<and> rsOnline r1 > 0
                                  then r1\<lparr>rsOnline := rsOnline r1 - 1\<rparr> else r1)
                        in r2\<lparr>rsAssigned := rsAssigned r2 + 1\<rparr>) s;
                 s2 = put_spawn sid (spawn\<lparr>ssPhase := PhaseAssigned, ssAssignedAt := now\<rparr>) s1
             in (True, s2\<lparr>assignmentsTotal := assignmentsTotal s2 + 1\<rparr>)))"

definition decrementPhaseLocked :: "SpawnPhase \<Rightarrow> RepoState \<Rightarrow> RepoState" where
  "decrementPhaseLocked phase r =
     (case phase of
        PhasePending \<Rightarrow> if rsPending r > 0 then r\<lparr>rsPending := rsPending r - 1\<rparr> else r
      | PhaseOnline \<Rightarrow> if rsOnline r > 0 then r\<lparr>rsOnline := rsOnline r - 1\<rparr> else r
      | PhaseAssigned \<Rightarrow> if rsAssigned r > 0 then r\<lparr>rsAssigned := rsAssigned r - 1\<rparr> else r
      | PhaseTeardownBlocked \<Rightarrow>
          if rsTeardownBlocked r > 0 then r\<lparr>rsTeardownBlocked := rsTeardownBlocked r - 1\<rparr> else r)"

definition MarkTeardownBlocked :: "string \<Rightarrow> string \<Rightarrow> string \<Rightarrow> time \<Rightarrow> State \<Rightarrow> bool \<times> State" where
  "MarkTeardownBlocked sid repo detail at s =
     (case map_of (reservations s) sid of
        None \<Rightarrow>
          (let s1 = with_repo repo
                 (\<lambda>r. r\<lparr>rsInFlight := rsInFlight r + 1,
                        rsTeardownBlocked := rsTeardownBlocked r + 1\<rparr>) s;
               s2 = put_spawn sid ((new_spawn sid repo PhaseTeardownBlocked at)
                      \<lparr>ssTeardownBlockedAt := at, ssTeardownFailure := detail\<rparr>) s1
           in (True, s2\<lparr>teardownBlocked := True, teardownFailures := teardownFailures s2 + 1\<rparr>))
      | Some spawn \<Rightarrow>
          if ssPhase spawn = PhaseTeardownBlocked
          then (False, put_spawn sid (spawn\<lparr>ssTeardownFailure := detail\<rparr>) s)
          else
            (let s1 = with_repo (ssRepo spawn)
                   (\<lambda>r. let r1 = decrementPhaseLocked (ssPhase spawn) r
                        in r1\<lparr>rsTeardownBlocked := rsTeardownBlocked r1 + 1\<rparr>) s;
                 s2 = put_spawn sid (spawn\<lparr>ssPhase := PhaseTeardownBlocked,
                        ssTeardownBlockedAt := at, ssTeardownFailure := detail\<rparr>) s1
             in (True, s2\<lparr>teardownBlocked := True, teardownFailures := teardownFailures s2 + 1\<rparr>)))"

definition UpdateTeardownFailure :: "string \<Rightarrow> string \<Rightarrow> State \<Rightarrow> State" where
  "UpdateTeardownFailure sid detail s =
     (case map_of (reservations s) sid of
        Some spawn \<Rightarrow>
          if ssPhase spawn = PhaseTeardownBlocked
          then put_spawn sid (spawn\<lparr>ssTeardownFailure := detail\<rparr>) s else s
      | None \<Rightarrow> s)"

text \<open>\<open>releaseReservationLocked\<close> reads the reservation without a presence check; both callers
  have checked it, so the model takes the reservation as an argument.\<close>

definition releaseReservationLocked :: "string \<Rightarrow> SpawnState \<Rightarrow> State \<Rightarrow> State" where
  "releaseReservationLocked sid spawn s =
     (let s1 = with_repo (ssRepo spawn)
            (\<lambda>r. decrementPhaseLocked (ssPhase spawn)
                   (if rsInFlight r > 0 then r\<lparr>rsInFlight := rsInFlight r - 1\<rparr> else r)) s
      in s1\<lparr>reservations := AList.delete sid (reservations s1)\<rparr>)"

definition ResolveTeardown :: "string \<Rightarrow> State \<Rightarrow> bool \<times> State" where
  "ResolveTeardown sid s =
     (case map_of (reservations s) sid of
        None \<Rightarrow> (False, s)
      | Some spawn \<Rightarrow>
          if ssPhase spawn \<noteq> PhaseTeardownBlocked then (False, s)
          else
            (let s1 = releaseReservationLocked sid spawn s
             in (True, s1\<lparr>teardownReconciled := teardownReconciled s1 + 1,
                          teardownBlocked :=
                            list_ex (\<lambda>kv. ssPhase (snd kv) = PhaseTeardownBlocked)
                              (reservations s1)\<rparr>)))"

definition SchedulingBlocked :: "State \<Rightarrow> bool" where
  "SchedulingBlocked s = (draining s \<or> teardownBlocked s)"

definition ReleaseReservation :: "string \<Rightarrow> State \<Rightarrow> State" where
  "ReleaseReservation sid s =
     (case map_of (reservations s) sid of
        None \<Rightarrow> s
      | Some spawn \<Rightarrow>
          if ssPhase spawn = PhaseTeardownBlocked then s
          else releaseReservationLocked sid spawn s)"

definition RecordCompleted :: "State \<Rightarrow> State" where
  "RecordCompleted s = s\<lparr>completedTotal := completedTotal s + 1\<rparr>"

definition RecordUnassignedExit :: "State \<Rightarrow> State" where
  "RecordUnassignedExit s = s\<lparr>unassignedTotal := unassignedTotal s + 1\<rparr>"

definition RecordDeregistered :: "State \<Rightarrow> State" where
  "RecordDeregistered s = s\<lparr>deregisteredTotal := deregisteredTotal s + 1\<rparr>"

definition RecordPollAttempt :: "string \<Rightarrow> time \<Rightarrow> State \<Rightarrow> State" where
  "RecordPollAttempt repo at s = with_repo repo (\<lambda>r. r\<lparr>rsLastPollAt := at\<rparr>) s"

definition RecordPollSuccess :: "string \<Rightarrow> int \<Rightarrow> time \<Rightarrow> State \<Rightarrow> State" where
  "RecordPollSuccess repo queued at s =
     with_repo repo (\<lambda>r. r\<lparr>rsQueuedJobs := queued, rsLastPollSuccess := at,
                           rsLastPollError := [], rsLastErrorDetail := []\<rparr>) s"

definition RecordPollFailure :: "string \<Rightarrow> string \<Rightarrow> string \<Rightarrow> State \<Rightarrow> State" where
  "RecordPollFailure repo cls detail s =
     with_repo repo (\<lambda>r. r\<lparr>rsLastPollError := cls, rsLastErrorDetail := detail\<rparr>) s"

definition RecordRunnerOperationFailure ::
    "string \<Rightarrow> string \<Rightarrow> string \<Rightarrow> string \<Rightarrow> State \<Rightarrow> State" where
  "RecordRunnerOperationFailure repo operation cls detail s =
     with_repo repo (\<lambda>r. r\<lparr>rsRunnerOperationError :=
       AList.update operation \<lparr>oeClass = cls, oeDetail = detail\<rparr> (rsRunnerOperationError r)\<rparr>) s"

definition RecordRunnerOperationSuccess :: "string \<Rightarrow> string \<Rightarrow> State \<Rightarrow> State" where
  "RecordRunnerOperationSuccess repo operation s =
     with_repo repo (\<lambda>r. r\<lparr>rsRunnerOperationError :=
       AList.delete operation (rsRunnerOperationError r)\<rparr>) s"

definition SetBreakerOpen :: "string \<Rightarrow> bool \<Rightarrow> State \<Rightarrow> State" where
  "SetBreakerOpen repo opn s = with_repo repo (\<lambda>r. r\<lparr>rsBreakerOpen := opn\<rparr>) s"

definition SetDraining :: "bool \<Rightarrow> State \<Rightarrow> State" where
  "SetDraining d s = s\<lparr>draining := d\<rparr>"

definition AcquireSemaphores :: "string \<Rightarrow> int \<Rightarrow> int \<Rightarrow> State \<Rightarrow> bool \<times> State" where
  "AcquireSemaphores repo repoCap globalCap s =
     (if draining s \<or> teardownBlocked s then (False, s)
      else case ensure s repo of (r, s) \<Rightarrow>
        if rsInFlight r \<ge> repoCap \<or> globalInFlightLocked s \<ge> globalCap then (False, s)
        else (True, put_repo repo (r\<lparr>rsInFlight := rsInFlight r + 1\<rparr>) s))"

definition ReleaseSemaphores :: "string \<Rightarrow> State \<Rightarrow> State" where
  "ReleaseSemaphores repo s =
     with_repo repo (\<lambda>r. if rsInFlight r > 0 then r\<lparr>rsInFlight := rsInFlight r - 1\<rparr> else r) s"

definition IncrementInFlight :: "string \<Rightarrow> State \<Rightarrow> State" where
  "IncrementInFlight repo s = with_repo repo (\<lambda>r. r\<lparr>rsInFlight := rsInFlight r + 1\<rparr>) s"

definition DecrementInFlight :: "string \<Rightarrow> State \<Rightarrow> State" where
  "DecrementInFlight repo s =
     with_repo repo (\<lambda>r. if rsInFlight r > 0 then r\<lparr>rsInFlight := rsInFlight r - 1\<rparr> else r) s"

definition SetRateLimit :: "int \<Rightarrow> int \<Rightarrow> time \<Rightarrow> State \<Rightarrow> State" where
  "SetRateLimit remaining limit reset s =
     s\<lparr>rlRemaining := remaining, rlLimit := limit, rlReset := reset\<rparr>"

definition RateLimit :: "State \<Rightarrow> int \<times> int \<times> time" where
  "RateLimit s = (rlRemaining s, rlLimit s, rlReset s)"

definition SetRateLimited :: "bool \<Rightarrow> State \<Rightarrow> State" where
  "SetRateLimited paused s = s\<lparr>rateLimited := paused\<rparr>"

record Snapshot =
  snPerRepo :: "(string, RepoState) gomap"
  snReservations :: "(string, SpawnState) gomap"
  snGlobalInFlight :: int
  snRateLimitRemaining :: int
  snRateLimitLimit :: int
  snRateLimitReset :: time
  snRateLimited :: bool
  snConfiguredCapacity :: int
  snWorkerCapacity :: int
  snVersion :: string
  snBuildSHA :: string
  snConfigLoaded :: bool
  snDraining :: bool
  snTeardownBlocked :: bool
  snAssignmentsTotal :: int
  snCompletedTotal :: int
  snUnassignedExitsTotal :: int
  snDeregistrationsTotal :: int
  snTeardownFailuresTotal :: int
  snTeardownReconciledTotal :: int

definition take_Snapshot :: "State \<Rightarrow> Snapshot" where
  "take_Snapshot s =
     \<lparr>snPerRepo = perRepo s, snReservations = reservations s,
      snGlobalInFlight = gsum rsInFlight (perRepo s),
      snRateLimitRemaining = rlRemaining s, snRateLimitLimit = rlLimit s,
      snRateLimitReset = rlReset s, snRateLimited = rateLimited s,
      snConfiguredCapacity = configuredCapacity s, snWorkerCapacity = workerCapacity s,
      snVersion = version s, snBuildSHA = buildSHA s, snConfigLoaded = configLoaded s,
      snDraining = draining s, snTeardownBlocked = teardownBlocked s,
      snAssignmentsTotal = assignmentsTotal s, snCompletedTotal = completedTotal s,
      snUnassignedExitsTotal = unassignedTotal s, snDeregistrationsTotal = deregisteredTotal s,
      snTeardownFailuresTotal = teardownFailures s,
      snTeardownReconciledTotal = teardownReconciled s\<rparr>"

definition LastETag :: "State \<Rightarrow> string \<Rightarrow> string" where
  "LastETag s repo = (case map_of (perRepo s) repo of Some r \<Rightarrow> rsLastETag r | None \<Rightarrow> [])"

definition SetLastETag :: "string \<Rightarrow> string \<Rightarrow> State \<Rightarrow> State" where
  "SetLastETag repo etag s = with_repo repo (\<lambda>r. r\<lparr>rsLastETag := etag\<rparr>) s"

definition AllRepos :: "State \<Rightarrow> string list" where
  "AllRepos s = keys (perRepo s)"

end
