(* ===== verification/State_Inv.thy ===== *)
theory State_Inv
  imports State_Model
begin

text \<open>
  The accounting invariant of the scheduling state and the lemmas the other components use:
  what every operation does to the reservation ledger, that every scheduler operation keeps
  the invariant, and the abstract view of the counters as cardinalities of the ledger.
\<close>

section \<open>Views and the invariant\<close>

definition repo_of :: "State \<Rightarrow> string \<Rightarrow> RepoState" where
  "repo_of s repo = lookup_or zero_RepoState (perRepo s) repo"

definition in_repo :: "string \<Rightarrow> SpawnState \<Rightarrow> bool" where
  "in_repo repo sp = (ssRepo sp = repo)"

definition in_phase :: "string \<Rightarrow> SpawnPhase \<Rightarrow> SpawnState \<Rightarrow> bool" where
  "in_phase repo ph sp = (ssRepo sp = repo \<and> ssPhase sp = ph)"

definition is_debt :: "SpawnState \<Rightarrow> bool" where
  "is_debt sp = (ssPhase sp = PhaseTeardownBlocked)"

definition repo_ok :: "string \<Rightarrow> RepoState \<Rightarrow> (string, SpawnState) gomap \<Rightarrow> bool" where
  "repo_ok repo r res \<longleftrightarrow>
     rsInFlight r = gcount (in_repo repo) res \<and>
     rsPending r = gcount (in_phase repo PhasePending) res \<and>
     rsOnline r = gcount (in_phase repo PhaseOnline) res \<and>
     rsAssigned r = gcount (in_phase repo PhaseAssigned) res \<and>
     rsTeardownBlocked r = gcount (in_phase repo PhaseTeardownBlocked) res"

definition state_inv :: "State \<Rightarrow> bool" where
  "state_inv s \<longleftrightarrow>
     wf_map (perRepo s) \<and> wf_map (reservations s) \<and>
     (\<forall>sid sp. map_of (reservations s) sid = Some sp \<longrightarrow> ssSpawnID sp = sid) \<and>
     (\<forall>repo. repo_ok repo (repo_of s repo) (reservations s)) \<and>
     teardownBlocked s = (0 < gcount is_debt (reservations s))"

section \<open>Frame lemmas of the helpers\<close>

lemma ensure_snd_fields [simp]:
  "reservations (snd (ensure s repo)) = reservations s"
  "teardownBlocked (snd (ensure s repo)) = teardownBlocked s"
  "draining (snd (ensure s repo)) = draining s"
  "repo_of (snd (ensure s repo)) = repo_of s"
  "gsum rsInFlight (perRepo (snd (ensure s repo))) = gsum rsInFlight (perRepo s)"
  "wf_map (perRepo s) \<Longrightarrow> wf_map (perRepo (snd (ensure s repo)))"
  by (auto simp: ensure_def repo_of_def lookup_or_def gsum_update zero_RepoState_def fun_eq_iff
      split: option.splits)

lemma ensure_fst [simp]: "fst (ensure s repo) = repo_of s repo"
  by (simp add: ensure_def repo_of_def split: option.splits)

lemma ensure_split: "ensure s repo = (repo_of s repo, snd (ensure s repo))"
  by (metis ensure_fst prod.collapse)

lemma put_repo_fields [simp]:
  "reservations (put_repo repo r s) = reservations s"
  "teardownBlocked (put_repo repo r s) = teardownBlocked s"
  "draining (put_repo repo r s) = draining s"
  "repo_of (put_repo repo r s) = (repo_of s)(repo := r)"
  "wf_map (perRepo s) \<Longrightarrow> wf_map (perRepo (put_repo repo r s))"
  by (auto simp: put_repo_def repo_of_def lookup_or_def fun_eq_iff)

lemma put_spawn_fields [simp]:
  "perRepo (put_spawn sid sp s) = perRepo s"
  "reservations (put_spawn sid sp s) = AList.update sid sp (reservations s)"
  "teardownBlocked (put_spawn sid sp s) = teardownBlocked s"
  "draining (put_spawn sid sp s) = draining s"
  "repo_of (put_spawn sid sp s) = repo_of s"
  by (auto simp: put_spawn_def repo_of_def)

lemma with_repo_fields [simp]:
  "reservations (with_repo repo f s) = reservations s"
  "teardownBlocked (with_repo repo f s) = teardownBlocked s"
  "draining (with_repo repo f s) = draining s"
  "repo_of (with_repo repo f s) = (repo_of s)(repo := f (repo_of s repo))"
  "wf_map (perRepo s) \<Longrightarrow> wf_map (perRepo (with_repo repo f s))"
  by (auto simp: with_repo_def split_def)

lemma repo_of_update_fields [simp]:
  "repo_of (s\<lparr>reservations := x\<rparr>) = repo_of s" "repo_of (s\<lparr>teardownBlocked := b\<rparr>) = repo_of s"
  "repo_of (s\<lparr>draining := b\<rparr>) = repo_of s" "repo_of (s\<lparr>rateLimited := b\<rparr>) = repo_of s"
  "repo_of (s\<lparr>teardownFailures := i\<rparr>) = repo_of s"
  "repo_of (s\<lparr>teardownReconciled := i\<rparr>) = repo_of s"
  "repo_of (s\<lparr>assignmentsTotal := i\<rparr>) = repo_of s" "repo_of (s\<lparr>completedTotal := i\<rparr>) = repo_of s"
  "repo_of (s\<lparr>unassignedTotal := i\<rparr>) = repo_of s" "repo_of (s\<lparr>deregisteredTotal := i\<rparr>) = repo_of s"
  "repo_of (s\<lparr>rlRemaining := i\<rparr>) = repo_of s" "repo_of (s\<lparr>rlLimit := i\<rparr>) = repo_of s"
  "repo_of (s\<lparr>rlReset := i\<rparr>) = repo_of s" "repo_of (s\<lparr>configuredCapacity := i\<rparr>) = repo_of s"
  "repo_of (s\<lparr>workerCapacity := i\<rparr>) = repo_of s" "repo_of (s\<lparr>version := v\<rparr>) = repo_of s"
  "repo_of (s\<lparr>buildSHA := v\<rparr>) = repo_of s" "repo_of (s\<lparr>configLoaded := b\<rparr>) = repo_of s"
  by (auto simp: repo_of_def fun_eq_iff)

lemma InFlight_repo_of: "InFlight s repo = rsInFlight (repo_of s repo)"
  by (simp add: InFlight_def repo_of_def lookup_or_def zero_RepoState_def split: option.splits)

lemma DemandCoverage_repo_of:
  "DemandCoverage s repo = rsPending (repo_of s repo) + rsOnline (repo_of s repo)"
  by (simp add: DemandCoverage_def repo_of_def lookup_or_def zero_RepoState_def split: option.splits)

section \<open>Using and establishing the invariant\<close>

lemma state_invD:
  assumes "state_inv s"
  shows "wf_map (perRepo s)" "wf_map (reservations s)"
    "map_of (reservations s) sid = Some sp \<Longrightarrow> ssSpawnID sp = sid"
    "rsInFlight (repo_of s repo) = gcount (in_repo repo) (reservations s)"
    "rsPending (repo_of s repo) = gcount (in_phase repo PhasePending) (reservations s)"
    "rsOnline (repo_of s repo) = gcount (in_phase repo PhaseOnline) (reservations s)"
    "rsAssigned (repo_of s repo) = gcount (in_phase repo PhaseAssigned) (reservations s)"
    "rsTeardownBlocked (repo_of s repo) = gcount (in_phase repo PhaseTeardownBlocked) (reservations s)"
    "teardownBlocked s = (0 < gcount is_debt (reservations s))"
  using assms by (auto simp: state_inv_def repo_ok_def)

text \<open>The phase counters of a reservation's repository are positive, so the guards of the
  decrements never skip one.\<close>

lemma state_inv_pos:
  assumes "state_inv s" and "map_of (reservations s) sid = Some sp"
  shows "0 < gcount (in_repo (ssRepo sp)) (reservations s)"
    and "0 < gcount (in_phase (ssRepo sp) (ssPhase sp)) (reservations s)"
  using gcount_pos [OF assms(2)] by (auto simp: in_repo_def in_phase_def)

lemma state_inv_frame:
  assumes "state_inv s" and "reservations s' = reservations s"
    and "teardownBlocked s' = teardownBlocked s" and "wf_map (perRepo s')"
    and "\<And>repo. rsInFlight (repo_of s' repo) = rsInFlight (repo_of s repo)"
    and "\<And>repo. rsPending (repo_of s' repo) = rsPending (repo_of s repo)"
    and "\<And>repo. rsOnline (repo_of s' repo) = rsOnline (repo_of s repo)"
    and "\<And>repo. rsAssigned (repo_of s' repo) = rsAssigned (repo_of s repo)"
    and "\<And>repo. rsTeardownBlocked (repo_of s' repo) = rsTeardownBlocked (repo_of s repo)"
  shows "state_inv s'"
  using assms by (auto simp: state_inv_def repo_ok_def)

lemma state_inv_same:
  assumes "state_inv s" and "perRepo s' = perRepo s" and "reservations s' = reservations s"
    and "teardownBlocked s' = teardownBlocked s"
  shows "state_inv s'"
  using assms by (simp add: state_inv_def repo_of_def)

section \<open>Preservation, one rule per operation\<close>

lemma New_inv [inv_pres]: "state_inv New"
  by (auto simp: state_inv_def New_def repo_ok_def repo_of_def zero_RepoState_def)

lemma ensure_inv: "state_inv s \<Longrightarrow> state_inv (snd (ensure s repo))"
  by (rule state_inv_frame) (auto dest: state_invD)

lemma fold_ensure_inv: "state_inv s \<Longrightarrow> state_inv (fold (\<lambda>repo s. snd (ensure s repo)) repos s)"
  by (induction repos arbitrary: s) (auto intro: ensure_inv)

lemma Configure_inv [inv_pres]: "state_inv s \<Longrightarrow> state_inv (Configure repos c w v sha s)"
  unfolding Configure_def
  by (rule state_inv_frame [OF fold_ensure_inv [of s repos]]) (auto dest: fold_ensure_inv state_invD)

lemma TryReserve_inv [inv_pres]:
  assumes "state_inv s"
  shows "state_inv (snd (TryReserve sid repo rc gc now s))"
proof -
  note d = state_invD [OF assms]
  show ?thesis
    using assms d
    by (auto simp: TryReserve_def split_def state_inv_def repo_ok_def gcount_update new_spawn_def
        in_repo_def in_phase_def is_debt_def split: option.splits)
qed

lemma put_spawn_same_inv:
  assumes "state_inv s" and "map_of (reservations s) sid = Some sp"
    and "ssSpawnID sp' = ssSpawnID sp" and "ssRepo sp' = ssRepo sp" and "ssPhase sp' = ssPhase sp"
  shows "state_inv (put_spawn sid sp' s)"
  using assms
  by (auto simp: state_inv_def repo_ok_def gcount_update in_repo_def in_phase_def is_debt_def)

lemma RecordJIT_inv [inv_pres]: "state_inv s \<Longrightarrow> state_inv (RecordJIT sid i n s)"
  by (auto simp: RecordJIT_def intro: put_spawn_same_inv split: option.splits)

lemma UpdateTeardownFailure_inv [inv_pres]:
  "state_inv s \<Longrightarrow> state_inv (UpdateTeardownFailure sid d s)"
  by (auto simp: UpdateTeardownFailure_def intro: put_spawn_same_inv split: option.splits)

lemma MarkOnline_inv [inv_pres]:
  assumes "state_inv s"
  shows "state_inv (snd (MarkOnline sid now s))"
proof (cases "map_of (reservations s) sid")
  case None
  then show ?thesis using assms by (simp add: MarkOnline_def)
next
  case (Some sp)
  note pos = state_inv_pos [OF assms Some] and d = state_invD [OF assms]
  from Some pos show ?thesis
    using assms d
    by (auto simp: MarkOnline_def state_inv_def repo_ok_def gcount_update
        in_repo_def in_phase_def is_debt_def)
qed

lemma MarkAssigned_inv [inv_pres]:
  assumes "state_inv s"
  shows "state_inv (snd (MarkAssigned sid now s))"
proof (cases "map_of (reservations s) sid")
  case None
  then show ?thesis using assms by (simp add: MarkAssigned_def)
next
  case (Some sp)
  note pos = state_inv_pos [OF assms Some] and d = state_invD [OF assms]
  from Some pos show ?thesis
    using assms d
    by (cases "ssPhase sp") (auto simp: MarkAssigned_def Let_def state_inv_def repo_ok_def
        gcount_update in_repo_def in_phase_def is_debt_def)
qed

lemma MarkTeardownBlocked_inv [inv_pres]:
  assumes "state_inv s"
  shows "state_inv (snd (MarkTeardownBlocked sid repo detail at s))"
proof (cases "map_of (reservations s) sid")
  case None
  then show ?thesis
    using assms state_invD [OF assms] gcount_nonneg [of is_debt "reservations s"]
    by (auto simp: MarkTeardownBlocked_def Let_def state_inv_def repo_ok_def gcount_update
        new_spawn_def in_repo_def in_phase_def is_debt_def)
next
  case (Some sp)
  note pos = state_inv_pos [OF assms Some] and d = state_invD [OF assms]
  show ?thesis
  proof (cases "ssPhase sp = PhaseTeardownBlocked")
    case True
    with Some assms show ?thesis
      by (auto simp: MarkTeardownBlocked_def intro: put_spawn_same_inv)
  next
    case False
    with Some pos show ?thesis
      using assms d gcount_nonneg [of is_debt "reservations s"]
      by (cases "ssPhase sp") (auto simp: MarkTeardownBlocked_def Let_def state_inv_def repo_ok_def
          gcount_update decrementPhaseLocked_def in_repo_def in_phase_def is_debt_def)
  qed
qed

text \<open>Releasing a reservation keeps every counter right; the barrier flag is the caller's.\<close>

lemma releaseReservationLocked_counts:
  assumes "state_inv s" and "map_of (reservations s) sid = Some sp"
  shows "wf_map (perRepo (releaseReservationLocked sid sp s))"
    and "reservations (releaseReservationLocked sid sp s) = AList.delete sid (reservations s)"
    and "repo_ok repo (repo_of (releaseReservationLocked sid sp s) repo) (AList.delete sid (reservations s))"
    and "teardownBlocked (releaseReservationLocked sid sp s) = teardownBlocked s"
proof -
  note pos = state_inv_pos [OF assms] and d = state_invD [OF assms(1)]
  show "repo_ok repo (repo_of (releaseReservationLocked sid sp s) repo) (AList.delete sid (reservations s))"
    using pos d assms(2)
    by (cases "ssPhase sp") (auto simp: releaseReservationLocked_def Let_def repo_ok_def
        gcount_delete decrementPhaseLocked_def in_repo_def in_phase_def)
qed (use state_invD [OF assms(1)] in \<open>auto simp: releaseReservationLocked_def Let_def\<close>)

lemma ReleaseReservation_inv [inv_pres]:
  assumes "state_inv s"
  shows "state_inv (ReleaseReservation sid s)"
proof (cases "map_of (reservations s) sid")
  case None
  then show ?thesis using assms by (simp add: ReleaseReservation_def)
next
  case (Some sp)
  note c = releaseReservationLocked_counts [OF assms Some]
  have "state_inv (releaseReservationLocked sid sp s)" if "ssPhase sp \<noteq> PhaseTeardownBlocked"
    using c that assms Some
    by (auto simp: state_inv_def gcount_delete is_debt_def)
  with Some assms show ?thesis by (simp add: ReleaseReservation_def)
qed

lemma list_ex_debt: "list_ex (\<lambda>kv. ssPhase (snd kv) = PhaseTeardownBlocked) m = (0 < gcount is_debt m)"
proof -
  have "list_ex (\<lambda>kv. ssPhase (snd kv) = PhaseTeardownBlocked) m \<longleftrightarrow> gcount is_debt m \<noteq> 0"
    by (simp add: gcount_zero_iff is_debt_def list_ex_iff)
  then show ?thesis using gcount_nonneg [of is_debt m] by linarith
qed

lemma ResolveTeardown_inv [inv_pres]:
  assumes "state_inv s"
  shows "state_inv (snd (ResolveTeardown sid s))"
proof (cases "map_of (reservations s) sid")
  case None
  then show ?thesis using assms by (simp add: ResolveTeardown_def)
next
  case (Some sp)
  note c = releaseReservationLocked_counts [OF assms Some]
  from Some c assms show ?thesis
    by (auto simp: ResolveTeardown_def Let_def state_inv_def list_ex_debt)
qed

lemma with_repo_frame_inv:
  assumes "state_inv s" and "\<And>r. rsInFlight (f r) = rsInFlight r" "\<And>r. rsPending (f r) = rsPending r"
    "\<And>r. rsOnline (f r) = rsOnline r" "\<And>r. rsAssigned (f r) = rsAssigned r"
    "\<And>r. rsTeardownBlocked (f r) = rsTeardownBlocked r"
  shows "state_inv (with_repo repo f s)"
  by (rule state_inv_frame [OF assms(1)]) (auto simp: assms(2-) state_invD(1) [OF assms(1)])

lemma Record_inv [inv_pres]:
  "state_inv s \<Longrightarrow> state_inv (RecordPollAttempt repo at s)"
  "state_inv s \<Longrightarrow> state_inv (RecordPollSuccess repo q at s)"
  "state_inv s \<Longrightarrow> state_inv (RecordPollFailure repo c dt s)"
  "state_inv s \<Longrightarrow> state_inv (RecordRunnerOperationFailure repo op c dt s)"
  "state_inv s \<Longrightarrow> state_inv (RecordRunnerOperationSuccess repo op s)"
  "state_inv s \<Longrightarrow> state_inv (SetBreakerOpen repo opn s)"
  "state_inv s \<Longrightarrow> state_inv (SetLastETag repo e s)"
  by (auto simp: RecordPollAttempt_def RecordPollSuccess_def RecordPollFailure_def
      RecordRunnerOperationFailure_def RecordRunnerOperationSuccess_def SetBreakerOpen_def
      SetLastETag_def intro!: with_repo_frame_inv)

lemma Set_inv [inv_pres]:
  "state_inv s \<Longrightarrow> state_inv (RecordCompleted s)"
  "state_inv s \<Longrightarrow> state_inv (RecordUnassignedExit s)"
  "state_inv s \<Longrightarrow> state_inv (RecordDeregistered s)"
  "state_inv s \<Longrightarrow> state_inv (SetDraining d s)"
  "state_inv s \<Longrightarrow> state_inv (SetRateLimit rem lim reset s)"
  "state_inv s \<Longrightarrow> state_inv (SetRateLimited d s)"
  by (auto simp: RecordCompleted_def RecordUnassignedExit_def RecordDeregistered_def
      SetDraining_def SetRateLimit_def SetRateLimited_def elim!: state_inv_same)

section \<open>Sequences of operations: the interleavings of the goroutines\<close>

text \<open>
  One constructor per mutating method the poll loop, the spawn workers and the shutdown path
  call. \<open>op_target\<close> is the reservation the operation may touch.
\<close>

datatype StateOp =
    OpConfigure "string list" int int string string
  | OpTryReserve string string int int time
  | OpRecordJIT string int string
  | OpMarkOnline string time
  | OpMarkAssigned string time
  | OpMarkTeardownBlocked string string string time
  | OpUpdateTeardownFailure string string
  | OpResolveTeardown string
  | OpReleaseReservation string
  | OpRecordCompleted
  | OpRecordUnassignedExit
  | OpRecordDeregistered
  | OpRecordPollAttempt string time
  | OpRecordPollSuccess string int time
  | OpRecordPollFailure string string string
  | OpRunnerOperationFailure string string string string
  | OpRunnerOperationSuccess string string
  | OpSetDraining bool
  | OpSetRateLimit int int time
  | OpSetRateLimited bool
  | OpSetLastETag string string

fun apply_op :: "StateOp \<Rightarrow> State \<Rightarrow> State" where
  "apply_op (OpConfigure rs c w v b) s = Configure rs c w v b s"
| "apply_op (OpTryReserve sid repo rc gc now) s = snd (TryReserve sid repo rc gc now s)"
| "apply_op (OpRecordJIT sid i n) s = RecordJIT sid i n s"
| "apply_op (OpMarkOnline sid now) s = snd (MarkOnline sid now s)"
| "apply_op (OpMarkAssigned sid now) s = snd (MarkAssigned sid now s)"
| "apply_op (OpMarkTeardownBlocked sid repo d at) s = snd (MarkTeardownBlocked sid repo d at s)"
| "apply_op (OpUpdateTeardownFailure sid d) s = UpdateTeardownFailure sid d s"
| "apply_op (OpResolveTeardown sid) s = snd (ResolveTeardown sid s)"
| "apply_op (OpReleaseReservation sid) s = ReleaseReservation sid s"
| "apply_op OpRecordCompleted s = RecordCompleted s"
| "apply_op OpRecordUnassignedExit s = RecordUnassignedExit s"
| "apply_op OpRecordDeregistered s = RecordDeregistered s"
| "apply_op (OpRecordPollAttempt repo at) s = RecordPollAttempt repo at s"
| "apply_op (OpRecordPollSuccess repo q at) s = RecordPollSuccess repo q at s"
| "apply_op (OpRecordPollFailure repo c d) s = RecordPollFailure repo c d s"
| "apply_op (OpRunnerOperationFailure repo op c d) s = RecordRunnerOperationFailure repo op c d s"
| "apply_op (OpRunnerOperationSuccess repo op) s = RecordRunnerOperationSuccess repo op s"
| "apply_op (OpSetDraining d) s = SetDraining d s"
| "apply_op (OpSetRateLimit rem lim reset) s = SetRateLimit rem lim reset s"
| "apply_op (OpSetRateLimited d) s = SetRateLimited d s"
| "apply_op (OpSetLastETag repo e) s = SetLastETag repo e s"

definition run_ops :: "StateOp list \<Rightarrow> State \<Rightarrow> State" where
  "run_ops ops s = fold apply_op ops s"

fun op_target :: "StateOp \<Rightarrow> string option" where
  "op_target (OpTryReserve sid repo rc gc now) = Some sid"
| "op_target (OpRecordJIT sid i n) = Some sid"
| "op_target (OpMarkOnline sid now) = Some sid"
| "op_target (OpMarkAssigned sid now) = Some sid"
| "op_target (OpMarkTeardownBlocked sid repo d at) = Some sid"
| "op_target (OpUpdateTeardownFailure sid d) = Some sid"
| "op_target (OpResolveTeardown sid) = Some sid"
| "op_target (OpReleaseReservation sid) = Some sid"
| "op_target _ = None"

lemma apply_op_inv: "state_inv s \<Longrightarrow> state_inv (apply_op op s)"
  by (cases op) (auto intro: inv_pres)

lemma run_ops_simps [simp]:
  "run_ops [] s = s" "run_ops (op # ops) s = run_ops ops (apply_op op s)"
  by (simp_all add: run_ops_def)

lemma run_ops_inv: "state_inv s \<Longrightarrow> state_inv (run_ops ops s)"
  by (induction ops arbitrary: s) (auto intro: apply_op_inv)

section \<open>What the operations do to the ledger\<close>

lemma fold_ensure_reservations [simp]:
  "reservations (fold (\<lambda>repo s. snd (ensure s repo)) repos s) = reservations s"
  by (induction repos arbitrary: s) auto

lemma ledger_frame [ledger_simps]:
  "reservations (Configure rs c w v b s) = reservations s"
  "reservations (RecordCompleted s) = reservations s"
  "reservations (RecordUnassignedExit s) = reservations s"
  "reservations (RecordDeregistered s) = reservations s"
  "reservations (RecordPollAttempt repo at s) = reservations s"
  "reservations (RecordPollSuccess repo q at s) = reservations s"
  "reservations (RecordPollFailure repo cl d s) = reservations s"
  "reservations (RecordRunnerOperationFailure repo op cl d s) = reservations s"
  "reservations (RecordRunnerOperationSuccess repo op s) = reservations s"
  "reservations (SetDraining dr s) = reservations s"
  "reservations (SetRateLimit rem lim reset s) = reservations s"
  "reservations (SetRateLimited dr s) = reservations s"
  "reservations (SetLastETag repo e s) = reservations s"
  by (auto simp: Configure_def RecordCompleted_def RecordUnassignedExit_def RecordDeregistered_def
      RecordPollAttempt_def RecordPollSuccess_def RecordPollFailure_def
      RecordRunnerOperationFailure_def RecordRunnerOperationSuccess_def SetDraining_def
      SetRateLimit_def SetRateLimited_def SetLastETag_def)

lemma ledger_MarkOnline [ledger_simps]:
  "map_of (reservations (snd (MarkOnline sid now s))) =
     (case map_of (reservations s) sid of
        Some sp \<Rightarrow> if ssPhase sp = PhasePending
                   then (map_of (reservations s))(sid \<mapsto> sp\<lparr>ssPhase := PhaseOnline, ssOnlineAt := now\<rparr>)
                   else map_of (reservations s)
      | None \<Rightarrow> map_of (reservations s))"
  by (simp add: MarkOnline_def split: option.splits)

lemma ledger_MarkAssigned [ledger_simps]:
  "map_of (reservations (snd (MarkAssigned sid now s))) =
     (case map_of (reservations s) sid of
        Some sp \<Rightarrow> if ssPhase sp = PhasePending \<or> ssPhase sp = PhaseOnline
                   then (map_of (reservations s))(sid \<mapsto> sp\<lparr>ssPhase := PhaseAssigned, ssAssignedAt := now\<rparr>)
                   else map_of (reservations s)
      | None \<Rightarrow> map_of (reservations s))"
  by (auto simp: MarkAssigned_def Let_def split: option.splits)

lemma ledger_MarkTeardownBlocked [ledger_simps]:
  "map_of (reservations (snd (MarkTeardownBlocked sid repo d at s))) =
     (map_of (reservations s))(sid \<mapsto>
       (case map_of (reservations s) sid of
          None \<Rightarrow> (new_spawn sid repo PhaseTeardownBlocked at)\<lparr>ssTeardownBlockedAt := at, ssTeardownFailure := d\<rparr>
        | Some sp \<Rightarrow> if ssPhase sp = PhaseTeardownBlocked then sp\<lparr>ssTeardownFailure := d\<rparr>
                     else sp\<lparr>ssPhase := PhaseTeardownBlocked, ssTeardownBlockedAt := at, ssTeardownFailure := d\<rparr>))"
  by (auto simp: MarkTeardownBlocked_def Let_def split: option.splits)

lemma ledger_UpdateTeardownFailure [ledger_simps]:
  "map_of (reservations (UpdateTeardownFailure sid d s)) =
     (case map_of (reservations s) sid of
        Some sp \<Rightarrow> if ssPhase sp = PhaseTeardownBlocked
                   then (map_of (reservations s))(sid \<mapsto> sp\<lparr>ssTeardownFailure := d\<rparr>)
                   else map_of (reservations s)
      | None \<Rightarrow> map_of (reservations s))"
  by (auto simp: UpdateTeardownFailure_def split: option.splits)

lemma ledger_RecordJIT [ledger_simps]:
  "map_of (reservations (RecordJIT sid i n s)) =
     (case map_of (reservations s) sid of
        Some sp \<Rightarrow> (map_of (reservations s))(sid \<mapsto> sp\<lparr>ssRunnerID := i, ssRunnerName := n\<rparr>)
      | None \<Rightarrow> map_of (reservations s))"
  by (auto simp: RecordJIT_def split: option.splits)

lemma ledger_ResolveTeardown [ledger_simps]:
  "map_of (reservations (snd (ResolveTeardown sid s))) =
     (case map_of (reservations s) sid of
        Some sp \<Rightarrow> if ssPhase sp = PhaseTeardownBlocked then (map_of (reservations s))(sid := None)
                   else map_of (reservations s)
      | None \<Rightarrow> map_of (reservations s))"
  by (auto simp: ResolveTeardown_def releaseReservationLocked_def Let_def split: option.splits)

lemma ledger_ReleaseReservation [ledger_simps]:
  "map_of (reservations (ReleaseReservation sid s)) =
     (case map_of (reservations s) sid of
        Some sp \<Rightarrow> if ssPhase sp = PhaseTeardownBlocked then map_of (reservations s)
                   else (map_of (reservations s))(sid := None)
      | None \<Rightarrow> map_of (reservations s))"
  by (auto simp: ReleaseReservation_def releaseReservationLocked_def Let_def split: option.splits)

lemma ledger_TryReserve [ledger_simps]:
  "map_of (reservations (snd (TryReserve sid repo rc gc now s))) =
     (if fst (TryReserve sid repo rc gc now s) \<and> map_of (reservations s) sid = None
      then (map_of (reservations s))(sid \<mapsto> new_spawn sid repo PhasePending now)
      else map_of (reservations s))"
  by (auto simp: TryReserve_def split_def split: option.splits)

text \<open>An operation changes no reservation but its target.\<close>

lemma apply_op_other:
  "op_target op \<noteq> Some sid \<Longrightarrow> map_of (reservations (apply_op op s)) sid = map_of (reservations s) sid"
  by (cases op) (auto simp: ledger_simps split: option.splits)

lemma run_ops_other:
  "(\<And>op. op \<in> set ops \<Longrightarrow> op_target op \<noteq> Some sid) \<Longrightarrow>
   map_of (reservations (run_ops ops s)) sid = map_of (reservations s) sid"
  by (induction ops arbitrary: s) (auto simp: apply_op_other)

end
