(* ===== verification/State_Thms.thy ===== *)
theory State_Thms
  imports State_Inv
begin

text \<open>
  Properties of the scheduling state: the counters are cardinalities of the reservation ledger
  after any interleaving, capacity limits hold in every reachable state, teardown debt is
  retained and blocks admission, and reservations are taken and given back exactly once.
  The locale \<open>spawn_ledger\<close> is the contract the spawn worker relies on; it is interpreted on
  the operations of \<open>state.go\<close>.
\<close>

section \<open>The contract of the ledger towards a spawn worker\<close>

locale spawn_ledger =
  fixes held :: "'s \<Rightarrow> 'i \<Rightarrow> bool"
    and debt :: "'s \<Rightarrow> 'i \<Rightarrow> bool"
    and release :: "'i \<Rightarrow> 's \<Rightarrow> 's"
    and block :: "'i \<Rightarrow> 'r \<Rightarrow> 's \<Rightarrow> 's"
    and resolve :: "'i \<Rightarrow> 's \<Rightarrow> 's"
  assumes debt_held: "debt s i \<Longrightarrow> held s i"
    and held_release: "held (release i s) i = debt s i"
    and debt_release: "debt (release i s) i = debt s i"
    and debt_block: "debt (block i r s) i"
    and held_resolve: "debt s i \<Longrightarrow> \<not> held (resolve i s) i"
    and resolve_free: "\<not> debt s i \<Longrightarrow> resolve i s = s"
begin

definition settled :: "'i \<Rightarrow> 's \<Rightarrow> bool" where
  "settled i s = (held s i \<longrightarrow> debt s i)"

lemma settled_release: "settled i (release i s)"
  by (simp add: settled_def held_release debt_release)

lemma settled_resolve: "settled i s \<Longrightarrow> settled i (resolve i s)"
  using held_resolve [of s i] resolve_free [of s i] by (cases "debt s i") (auto simp: settled_def)

lemma block_then_resolve: "\<not> held (resolve i (block i r s)) i"
  by (rule held_resolve) (rule debt_block)

lemma release_keeps_debt: "debt s i \<Longrightarrow> held (release i s) i"
  by (simp add: held_release)

lemma release_twice_held: "held (release i (release i s)) i = held (release i s) i"
  by (simp add: held_release debt_release)

end

definition ledger_held :: "State \<Rightarrow> string \<Rightarrow> bool" where
  "ledger_held s sid = (map_of (reservations s) sid \<noteq> None)"

definition ledger_debt :: "State \<Rightarrow> string \<Rightarrow> bool" where
  "ledger_debt s sid =
     (case map_of (reservations s) sid of Some sp \<Rightarrow> is_debt sp | None \<Rightarrow> False)"

definition ledger_block :: "string \<Rightarrow> string \<times> string \<times> time \<Rightarrow> State \<Rightarrow> State" where
  "ledger_block sid rda s = (case rda of (repo, d, at) \<Rightarrow> snd (MarkTeardownBlocked sid repo d at s))"

interpretation ledger: spawn_ledger ledger_held ledger_debt ReleaseReservation ledger_block
  "\<lambda>sid s. snd (ResolveTeardown sid s)"
proof (unfold_locales, goal_cases)
  case (4 i r s)
  then show ?case
    by (cases r) (auto simp: ledger_debt_def ledger_block_def ledger_simps is_debt_def new_spawn_def
        split: option.splits)
next
  case (6 s i)
  then show ?case
    by (auto simp: ledger_debt_def ResolveTeardown_def is_debt_def split: option.splits)
qed (auto simp: ledger_held_def ledger_debt_def ledger_simps is_debt_def split: option.splits)

section \<open>Counters are cardinalities of the ledger\<close>

lemma gcount_card:
  "wf_map m \<Longrightarrow> gcount P m = int (card {k. \<exists>v. map_of m k = Some v \<and> P v})"
proof (induction m)
  case Nil
  then show ?case by simp
next
  case (Cons p m)
  obtain k v where p: "p = (k, v)" by (cases p)
  let ?A = "{k. \<exists>v. map_of m k = Some v \<and> P v}"
  have fin: "finite ?A"
    by (rule finite_subset [of _ "set (keys m)"]) (auto dest: map_of_SomeD intro: rev_image_eqI)
  have "k \<notin> ?A" using Cons.prems by (auto simp: p dest: map_of_SomeD intro: rev_image_eqI)
  moreover have "{k'. \<exists>v'. map_of (p # m) k' = Some v' \<and> P v'} = (if P v then insert k ?A else ?A)"
    using \<open>k \<notin> ?A\<close> Cons.prems by (auto simp: p dest: map_of_SomeD intro: rev_image_eqI)
  ultimately show ?case using Cons fin by (simp add: p)
qed

lemma sum_gcount_keys:
  assumes "distinct ks" and "\<And>k v. (k, v) \<in> set m \<Longrightarrow> g v \<in> set ks"
  shows "sum_list (map (\<lambda>k. gcount (\<lambda>v. g v = k) m) ks) = int (length m)"
  using assms(2)
proof (induction m)
  case Nil
  show ?case by (induction ks) auto
next
  case (Cons p m)
  obtain k v where p: "p = (k, v)" by (cases p)
  have "g v \<in> set ks" using Cons.prems by (auto simp: p)
  have "sum_list (map (\<lambda>k. gcount (\<lambda>v. g v = k) (p # m)) ks) =
        sum_list (map (\<lambda>k. if g v = k then 1 else 0) ks) +
        sum_list (map (\<lambda>k. gcount (\<lambda>v. g v = k) m) ks)"
    by (simp add: p sum_list_addf)
  also have "sum_list (map (\<lambda>k. if g v = k then (1::int) else 0) ks) = 1"
    using assms(1) \<open>g v \<in> set ks\<close>
  proof (induction ks)
    case (Cons a ks)
    have "g v \<notin> set ks \<Longrightarrow> sum_list (map (\<lambda>k. if g v = k then (1::int) else 0) ks) = 0"
      by (induction ks) auto
    with Cons show ?case by auto
  qed simp
  finally show ?case using Cons by auto
qed

lemma state_inv_repo_present:
  assumes "state_inv s" and "(sid, sp) \<in> set (reservations s)"
  shows "ssRepo sp \<in> set (keys (perRepo s))"
proof (rule ccontr)
  assume "ssRepo sp \<notin> set (keys (perRepo s))"
  then have "map_of (perRepo s) (ssRepo sp) = None" by (simp add: map_of_eq_None_iff)
  then have "rsInFlight (repo_of s (ssRepo sp)) = 0"
    by (simp add: repo_of_def zero_RepoState_def)
  with state_invD(4) [OF assms(1)] have "gcount (in_repo (ssRepo sp)) (reservations s) = 0"
    by simp
  with assms(2) show False by (auto simp: gcount_zero_iff in_repo_def)
qed

lemma state_inv_global:
  assumes "state_inv s"
  shows "GlobalInFlight s = int (length (reservations s))"
proof -
  have *: "rsInFlight r = gcount (\<lambda>v. ssRepo v = k) (reservations s)" if "(k, r) \<in> set (perRepo s)" for k r
  proof -
    have "map_of (perRepo s) k = Some r"
      using that state_invD(1) [OF assms] by (simp add: map_of_eq_Some_iff)
    then have "repo_of s k = r" by (simp add: repo_of_def)
    then show ?thesis
      using state_invD(4) [OF assms, of k] by (simp add: in_repo_def [abs_def])
  qed
  have "GlobalInFlight s = sum_list (map (\<lambda>kv. rsInFlight (snd kv)) (perRepo s))"
    by (simp add: GlobalInFlight_def globalInFlightLocked_def gsum_def)
  also have "\<dots> = sum_list (map (\<lambda>kv. gcount (\<lambda>v. ssRepo v = fst kv) (reservations s)) (perRepo s))"
    using * by (intro arg_cong [where f = sum_list] map_cong) auto
  also have "\<dots> = sum_list (map (\<lambda>k. gcount (\<lambda>v. ssRepo v = k) (reservations s)) (keys (perRepo s)))"
    by (simp add: comp_def)
  also have "\<dots> = int (length (reservations s))"
    by (rule sum_gcount_keys) (use state_invD(1) [OF assms] state_inv_repo_present [OF assms] in auto)
  finally show ?thesis .
qed

lemma in_phase_sum:
  "gcount (in_phase repo PhasePending) m + gcount (in_phase repo PhaseOnline) m =
   gcount (\<lambda>sp. ssRepo sp = repo \<and> ssPhase sp \<in> {PhasePending, PhaseOnline}) m"
  unfolding gcount_def gsum_add [symmetric]
  by (rule gsum_cong) (auto simp: in_phase_def)


section \<open>Admission\<close>

lemma TryReserve_decision:
  "fst (TryReserve sid repo rc gc now s) \<longleftrightarrow>
     \<not> SchedulingBlocked s \<and>
     (case map_of (reservations s) sid of
        Some sp \<Rightarrow> ssRepo sp = repo
      | None \<Rightarrow> InFlight s repo < rc \<and> GlobalInFlight s < gc)"
  by (auto simp: TryReserve_def SchedulingBlocked_def split_def InFlight_repo_of GlobalInFlight_def
      globalInFlightLocked_def split: option.splits)

lemma TryReserve_global:
  "GlobalInFlight (snd (TryReserve sid repo rc gc now s)) =
     GlobalInFlight s +
     (if fst (TryReserve sid repo rc gc now s) \<and> map_of (reservations s) sid = None then 1 else 0)"
proof -
  have "gsum rsInFlight (AList.update repo r (perRepo (snd (ensure s repo)))) =
        gsum rsInFlight (perRepo s) - rsInFlight (repo_of s repo) + rsInFlight r" for r
    using ensure_snd_fields(5) [of s repo]
    by (auto simp: gsum_update ensure_def repo_of_def zero_RepoState_def lookup_or_def split: option.splits)
  then show ?thesis
    by (auto simp: TryReserve_def split_def GlobalInFlight_def globalInFlightLocked_def put_repo_def
        split: option.splits)
qed

lemma TryReserve_inflight:
  "InFlight (snd (TryReserve sid repo rc gc now s)) r =
     InFlight s r +
     (if r = repo \<and> fst (TryReserve sid repo rc gc now s) \<and> map_of (reservations s) sid = None then 1 else 0)"
  by (auto simp: TryReserve_def split_def InFlight_repo_of split: option.splits)

lemma gcount_mono_delete:
  "wf_map m \<Longrightarrow> gcount P (AList.delete k m) \<le> gcount P m"
  by (auto simp: gcount_delete split: option.splits)

lemma inflight_count: "state_inv s \<Longrightarrow> InFlight s repo = gcount (in_repo repo) (reservations s)"
  by (simp add: InFlight_repo_of state_invD)

text \<open>Operations other than reservation and fresh debt never raise a counter.\<close>

definition raises :: "StateOp \<Rightarrow> bool" where
  "raises op = (case op of OpTryReserve sid repo rc gc now \<Rightarrow> True
                         | OpMarkTeardownBlocked sid repo d at \<Rightarrow> True | _ \<Rightarrow> False)"

definition ledger_shrinks :: "(string, SpawnState) gomap \<Rightarrow> (string, SpawnState) gomap \<Rightarrow> bool" where
  "ledger_shrinks m m' \<longleftrightarrow>
     m' = m \<or>
     (\<exists>k sp sp'. map_of m k = Some sp \<and> ssRepo sp' = ssRepo sp \<and> m' = AList.update k sp' m) \<or>
     (\<exists>k. m' = AList.delete k m)"

lemma ledger_shrinks_intros:
  "ledger_shrinks m m"
  "map_of m k = Some sp \<Longrightarrow> ssRepo sp' = ssRepo sp \<Longrightarrow> ledger_shrinks m (AList.update k sp' m)"
  "ledger_shrinks m (AList.delete k m)"
  by (auto simp: ledger_shrinks_def)

lemma apply_op_shrinks:
  "\<not> raises op \<Longrightarrow> ledger_shrinks (reservations s) (reservations (apply_op op s))"
  by (cases op) (auto simp: raises_def ledger_simps RecordJIT_def MarkOnline_def MarkAssigned_def
      UpdateTeardownFailure_def ResolveTeardown_def ReleaseReservation_def
      releaseReservationLocked_def Let_def intro: ledger_shrinks_intros split: option.splits)

lemma ledger_shrinks_counts:
  assumes "ledger_shrinks m m'" and "wf_map m"
  shows "gcount (in_repo repo) m' \<le> gcount (in_repo repo) m" and "length m' \<le> length m"
  using assms
  by (auto simp: ledger_shrinks_def gcount_update gcount_mono_delete in_repo_def map_of_Some_key
      length_delete_le)

lemma apply_op_not_raising:
  assumes "state_inv s" and "\<not> raises op"
  shows "InFlight (apply_op op s) repo \<le> InFlight s repo"
    and "GlobalInFlight (apply_op op s) \<le> GlobalInFlight s"
proof -
  have inv': "state_inv (apply_op op s)" using assms(1) by (rule apply_op_inv)
  note c = ledger_shrinks_counts [OF apply_op_shrinks [OF assms(2), of s] state_invD(2) [OF assms(1)]]
  show "InFlight (apply_op op s) repo \<le> InFlight s repo"
    using c(1) [of repo] by (simp add: inflight_count [OF inv'] inflight_count [OF assms(1)])
  show "GlobalInFlight (apply_op op s) \<le> GlobalInFlight s"
    using c(2) by (simp add: state_inv_global [OF inv'] state_inv_global [OF assms(1)])
qed

text \<open>Debt on a reservation that is already held moves it between phases and raises nothing.\<close>

lemma block_held_counts:
  assumes "state_inv s" and "map_of (reservations s) sid = Some sp"
    and s'_def: "s' = snd (MarkTeardownBlocked sid repo d at s)"
  shows "InFlight s' r = InFlight s r" and "GlobalInFlight s' = GlobalInFlight s"
proof -
  have inv': "state_inv s'" unfolding s'_def using assms(1) by (rule MarkTeardownBlocked_inv)
  define sp' where "sp' = (if ssPhase sp = PhaseTeardownBlocked then sp\<lparr>ssTeardownFailure := d\<rparr>
    else sp\<lparr>ssPhase := PhaseTeardownBlocked, ssTeardownBlockedAt := at, ssTeardownFailure := d\<rparr>)"
  have u: "ssRepo sp' = ssRepo sp" "reservations s' = AList.update sid sp' (reservations s)"
    using assms(2) by (auto simp: s'_def sp'_def MarkTeardownBlocked_def Let_def)
  show "InFlight s' r = InFlight s r"
    using assms(2) u by (simp add: inflight_count [OF inv'] inflight_count [OF assms(1)] gcount_update in_repo_def)
  show "GlobalInFlight s' = GlobalInFlight s"
    using assms(2) u by (simp add: state_inv_global [OF inv'] state_inv_global [OF assms(1)] map_of_Some_key)
qed

section \<open>Capacity\<close>

text \<open>
  The steps of the running orchestrator under fixed limits: the poll loop and the workers
  reserve with the configured limits, a worker converts a reservation it holds into debt, and
  every other operation happens at will.
\<close>

inductive sched_step :: "(string \<Rightarrow> int) \<Rightarrow> int \<Rightarrow> State \<Rightarrow> State \<Rightarrow> bool"
  for caps :: "string \<Rightarrow> int" and globalCap :: int where
  reserve: "sched_step caps globalCap s (snd (TryReserve sid repo (caps repo) globalCap now s))"
| block_held: "HasReservation s sid repo \<Longrightarrow>
     sched_step caps globalCap s (snd (MarkTeardownBlocked sid repo d at s))"
| other: "\<not> raises op \<Longrightarrow> sched_step caps globalCap s (apply_op op s)"

inductive sched_reach :: "(string \<Rightarrow> int) \<Rightarrow> int \<Rightarrow> State \<Rightarrow> bool"
  for caps :: "string \<Rightarrow> int" and globalCap :: int where
  start: "sched_reach caps globalCap New"
| step: "sched_reach caps globalCap s \<Longrightarrow> sched_step caps globalCap s t \<Longrightarrow> sched_reach caps globalCap t"

definition within_caps :: "(string \<Rightarrow> int) \<Rightarrow> int \<Rightarrow> State \<Rightarrow> bool" where
  "within_caps caps globalCap s \<longleftrightarrow>
     (\<forall>repo. InFlight s repo \<le> caps repo) \<and> GlobalInFlight s \<le> globalCap"

lemma sched_step_inv: "sched_step caps globalCap s t \<Longrightarrow> state_inv s \<Longrightarrow> state_inv t"
  by (induction rule: sched_step.induct) (auto intro: inv_pres apply_op_inv)

lemma HasReservation_map_of:
  "HasReservation s sid repo \<longleftrightarrow> (\<exists>sp. map_of (reservations s) sid = Some sp \<and> ssRepo sp = repo)"
  by (auto simp: HasReservation_def split: option.splits)

lemma sched_step_within:
  assumes "sched_step caps globalCap s t" and "state_inv s" and "within_caps caps globalCap s"
  shows "within_caps caps globalCap t"
  using assms
proof (induction rule: sched_step.induct)
  case (reserve s sid repo now)
  let ?res = "fst (TryReserve sid repo (caps repo) globalCap now s)"
  have "?res \<and> map_of (reservations s) sid = None \<Longrightarrow> InFlight s repo < caps repo \<and> GlobalInFlight s < globalCap"
    using TryReserve_decision [of sid repo "caps repo" globalCap now s]
    by (auto split: option.splits)
  with reserve.prems show ?case
    by (auto simp: within_caps_def TryReserve_global TryReserve_inflight)
next
  case (block_held s sid repo d at)
  then obtain sp where "map_of (reservations s) sid = Some sp"
    by (auto simp: HasReservation_map_of)
  note b = block_held_counts [OF block_held.prems(1) this refl]
  show ?case using block_held.prems(2) by (simp add: within_caps_def b)
next
  case (other op s)
  note o = apply_op_not_raising [OF other.prems(1) other.hyps]
  show ?case
    using other.prems(2) o order_trans unfolding within_caps_def by blast
qed

lemma New_counts: "InFlight New repo = 0" "GlobalInFlight New = 0"
  by (simp_all add: New_def InFlight_def GlobalInFlight_def globalInFlightLocked_def)

lemma sched_reach_inv: "sched_reach caps globalCap s \<Longrightarrow> state_inv s"
  by (induction rule: sched_reach.induct) (auto intro: New_inv sched_step_inv)

lemma sched_reach_within:
  assumes "sched_reach caps globalCap s" and "\<And>r. 0 \<le> caps r" and "0 \<le> globalCap"
  shows "within_caps caps globalCap s"
  using assms(1)
proof (induction rule: sched_reach.induct)
  case start
  then show ?case using assms(2,3) by (simp add: within_caps_def New_counts)
next
  case (step s t)
  then show ?case by (blast intro: sched_step_within sched_reach_inv)
qed

text \<open>C2: with non-negative limits, no reachable state of the scheduler has more runners in
  flight than a repository's limit or than the global limit.\<close>

theorem capacity_never_exceeded:
  assumes "sched_reach caps globalCap s" and "\<And>r. 0 \<le> caps r" and "0 \<le> globalCap"
  shows "InFlight s repo \<le> caps repo \<and> GlobalInFlight s \<le> globalCap"
  using sched_reach_within [OF assms] by (simp add: within_caps_def)

definition example_caps :: "string \<Rightarrow> int" where
  "example_caps r = 2"

lemma capacity_never_exceeded_witness:
  "InFlight (snd (TryReserve ''a'' ''o/r'' (example_caps ''o/r'') 3 5 New)) ''o/r'' = 1 \<and>
   InFlight (snd (TryReserve ''a'' ''o/r'' (example_caps ''o/r'') 3 5 New)) ''o/r'' \<le> example_caps ''o/r'' \<and>
   GlobalInFlight (snd (TryReserve ''a'' ''o/r'' (example_caps ''o/r'') 3 5 New)) \<le> 3"
proof -
  have "sched_reach example_caps 3 (snd (TryReserve ''a'' ''o/r'' (example_caps ''o/r'') 3 5 New))"
    by (rule sched_reach.step [OF sched_reach.start]) (rule sched_step.reserve)
  then have "InFlight (snd (TryReserve ''a'' ''o/r'' (example_caps ''o/r'') 3 5 New)) ''o/r'' \<le> example_caps ''o/r'' \<and>
      GlobalInFlight (snd (TryReserve ''a'' ''o/r'' (example_caps ''o/r'') 3 5 New)) \<le> 3"
    by (rule capacity_never_exceeded) (simp_all add: example_caps_def)
  moreover have "InFlight (snd (TryReserve ''a'' ''o/r'' (example_caps ''o/r'') 3 5 New)) ''o/r'' = 1"
    by code_simp
  ultimately show ?thesis by simp
qed

section \<open>Teardown debt\<close>

lemma apply_op_debt:
  assumes "map_of (reservations s) sid = Some sp" and "is_debt sp" and "op \<noteq> OpResolveTeardown sid"
  shows "\<exists>sp'. map_of (reservations (apply_op op s)) sid = Some sp' \<and> is_debt sp' \<and> ssRepo sp' = ssRepo sp"
proof (cases "op_target op = Some sid")
  case False
  then show ?thesis using assms by (simp add: apply_op_other)
next
  case True
  with assms show ?thesis
    by (cases op) (auto simp: ledger_simps is_debt_def split: option.splits)
qed

lemma run_ops_debt:
  assumes "map_of (reservations s) sid = Some sp" and "is_debt sp" and "OpResolveTeardown sid \<notin> set ops"
  shows "\<exists>sp'. map_of (reservations (run_ops ops s)) sid = Some sp' \<and> is_debt sp' \<and> ssRepo sp' = ssRepo sp"
  using assms
proof (induction ops arbitrary: s sp)
  case (Cons op ops)
  then obtain sp1 where "map_of (reservations (apply_op op s)) sid = Some sp1" "is_debt sp1"
      "ssRepo sp1 = ssRepo sp"
    using apply_op_debt [of s sid sp op] by auto
  with Cons.IH [of "apply_op op s" sp1] Cons.prems(3) show ?case by simp
qed simp

lemma debt_blocks:
  assumes "state_inv s" and "map_of (reservations s) sid = Some sp" and "is_debt sp"
  shows "SchedulingBlocked s" and "TryReserve i r rc gc now s = (False, s)"
  using state_invD(9) [OF assms(1)] gcount_pos [of "reservations s" sid sp is_debt] assms(2,3)
  by (auto simp: SchedulingBlocked_def TryReserve_def)

text \<open>C3: once a reservation is teardown debt it stays charged to its repository, whatever any
  goroutine does, until its own teardown is resolved, and until then no reservation is admitted
  for any repository.\<close>

theorem debt_retained_until_resolved:
  assumes "state_inv s" and "map_of (reservations s) sid = Some sp"
    and "ssPhase sp = PhaseTeardownBlocked" and "OpResolveTeardown sid \<notin> set ops"
  shows "HasReservation (run_ops ops s) sid (ssRepo sp) \<and>
         1 \<le> InFlight (run_ops ops s) (ssRepo sp) \<and>
         TryReserve i r rc gc now (run_ops ops s) = (False, run_ops ops s)"
proof -
  have inv: "state_inv (run_ops ops s)" using assms(1) by (rule run_ops_inv)
  have "is_debt sp" using assms(3) by (simp add: is_debt_def)
  then obtain sp' where sp': "map_of (reservations (run_ops ops s)) sid = Some sp'" "is_debt sp'"
      "ssRepo sp' = ssRepo sp"
    using run_ops_debt [OF assms(2) _ assms(4)] by blast
  have "0 < gcount (in_repo (ssRepo sp')) (reservations (run_ops ops s))"
    using state_inv_pos(1) [OF inv sp'(1)] .
  then show ?thesis
    using sp' debt_blocks(2) [OF inv sp'(1,2)]
    by (simp add: HasReservation_def inflight_count [OF inv])
qed

definition example_debt :: State where
  "example_debt = snd (MarkTeardownBlocked ''a'' ''o/r'' ''docker 409'' 7
     (snd (TryReserve ''a'' ''o/r'' 2 3 5 New)))"

lemma debt_retained_until_resolved_witness:
  "HasReservation (run_ops [OpReleaseReservation ''a''] example_debt) ''a'' ''o/r'' \<and>
   TryReserve ''b'' ''o/x'' 2 3 9 (run_ops [OpReleaseReservation ''a''] example_debt) =
     (False, run_ops [OpReleaseReservation ''a''] example_debt)"
proof -
  have "state_inv example_debt"
    unfolding example_debt_def by (intro MarkTeardownBlocked_inv TryReserve_inv New_inv)
  moreover have "map_of (reservations example_debt) ''a'' = Some
      ((new_spawn ''a'' ''o/r'' PhasePending 5)\<lparr>ssPhase := PhaseTeardownBlocked,
        ssTeardownBlockedAt := 7, ssTeardownFailure := ''docker 409''\<rparr>)"
    by code_simp
  ultimately show ?thesis
    using debt_retained_until_resolved [of example_debt "''a''" "(new_spawn ''a'' ''o/r'' PhasePending 5)
        \<lparr>ssPhase := PhaseTeardownBlocked, ssTeardownBlockedAt := 7, ssTeardownFailure := ''docker 409''\<rparr>"
        "[OpReleaseReservation ''a'']" "''b''" "''o/x''" 2 3 9]
    by (simp add: new_spawn_def)
qed

section \<open>Reservations are taken and given back once\<close>

lemma release_counts:
  assumes "state_inv s" and "map_of (reservations s) sid = Some sp" and "ssPhase sp \<noteq> PhaseTeardownBlocked"
  shows "reservations (ReleaseReservation sid s) = AList.delete sid (reservations s)"
    and "InFlight (ReleaseReservation sid s) r = InFlight s r - (if r = ssRepo sp then 1 else 0)"
    and "GlobalInFlight (ReleaseReservation sid s) = GlobalInFlight s - 1"
proof -
  have inv': "state_inv (ReleaseReservation sid s)" using assms(1) by (rule ReleaseReservation_inv)
  show res: "reservations (ReleaseReservation sid s) = AList.delete sid (reservations s)"
    using assms(2,3) by (simp add: ReleaseReservation_def releaseReservationLocked_def Let_def)
  note wf = state_invD(2) [OF assms(1)]
  show "InFlight (ReleaseReservation sid s) r = InFlight s r - (if r = ssRepo sp then 1 else 0)"
    using assms(2) by (auto simp: inflight_count [OF inv'] inflight_count [OF assms(1)] res
        gcount_delete [OF wf] in_repo_def)
  have "gcount (\<lambda>_. True) m = int (length m)" for m :: "(string, SpawnState) gomap"
    by (induction m) auto
  then show "GlobalInFlight (ReleaseReservation sid s) = GlobalInFlight s - 1"
    using gcount_delete [OF wf, of "\<lambda>_. True" sid] assms(2)
    by (simp add: state_inv_global [OF inv'] state_inv_global [OF assms(1)] res)
qed



text \<open>A fresh reservation followed by its release gives every counter its old value, for
  every repository: reserving and releasing neither leaks nor invents capacity.\<close>

theorem reserve_release_roundtrip:
  assumes "state_inv s" and "map_of (reservations s) sid = None"
  shows "InFlight (ReleaseReservation sid (snd (TryReserve sid repo rc gc now s))) r = InFlight s r \<and>
         DemandCoverage (ReleaseReservation sid (snd (TryReserve sid repo rc gc now s))) r = DemandCoverage s r \<and>
         GlobalInFlight (ReleaseReservation sid (snd (TryReserve sid repo rc gc now s))) = GlobalInFlight s"
proof -
  let ?t = "snd (TryReserve sid repo rc gc now s)"
  have inv: "state_inv ?t" using assms(1) by (rule TryReserve_inv)
  have inv': "state_inv (ReleaseReservation sid ?t)" using inv by (rule ReleaseReservation_inv)
  have del: "AList.delete sid (AList.update sid v (reservations s)) = reservations s" for v
    using assms(2) by (simp add: map_of_eq_None_iff)
  have "reservations (ReleaseReservation sid ?t) = reservations s"
  proof (cases "fst (TryReserve sid repo rc gc now s)")
    case True
    then have "reservations ?t = AList.update sid (new_spawn sid repo PhasePending now) (reservations s)"
      using assms(2) by (auto simp: TryReserve_def split_def split: if_splits)
    with del show ?thesis
      by (simp add: ReleaseReservation_def releaseReservationLocked_def Let_def new_spawn_def)
  next
    case False
    then have "map_of (reservations ?t) sid = None" by (simp add: ledger_TryReserve assms(2))
    moreover have "reservations ?t = reservations s"
      using False assms(2) by (auto simp: TryReserve_def split_def split: if_splits)
    ultimately show ?thesis by (simp add: ReleaseReservation_def)
  qed
  then show ?thesis
    by (simp add: inflight_count [OF inv'] inflight_count [OF assms(1)] DemandCoverage_repo_of
        state_invD(5,6) [OF inv'] state_invD(5,6) [OF assms(1)]
        state_inv_global [OF inv'] state_inv_global [OF assms(1)])
qed

lemma reserve_release_roundtrip_witness:
  "GlobalInFlight (ReleaseReservation ''b'' (snd (TryReserve ''b'' ''o/x'' 2 3 9
     (snd (TryReserve ''a'' ''o/r'' 2 3 5 New))))) = 1"
proof -
  let ?s = "snd (TryReserve ''a'' ''o/r'' 2 3 5 New)"
  have "state_inv ?s" by (intro TryReserve_inv New_inv)
  moreover have "map_of (reservations ?s) ''b'' = None" and "GlobalInFlight ?s = 1" by code_simp+
  ultimately show ?thesis
    using reserve_release_roundtrip [of ?s "''b''" "''o/x''" 2 3 9] by simp
qed

end
