(* ===== verification/Breaker_Model.thy ===== *)
theory Breaker_Model
  imports RS_Prelude
begin

text \<open>
  The per-repository circuit breaker (\<open>internal/state/breaker.go\<close>) and the lazily filled map
  of breakers the orchestrator keeps (\<open>breakerMap\<close> in \<open>cmd/orchestrator/run.go\<close>). The Go
  struct holds a clock function; the model passes the value the clock returns to the methods
  that read it.

  The locale \<open>circuit_breaker\<close> is the contract the poll loop relies on. It is interpreted
  twice: on one breaker, and on the breaker of one repository inside the map.
\<close>

section \<open>The breaker\<close>

datatype BreakerState = BreakerClosed | BreakerOpen | BreakerHalfOpen

record Breaker =
  brState :: BreakerState
  consecutiveFailures :: int
  openedAt :: time
  threshold :: int
  cooldown :: duration

definition NewBreaker :: "int \<Rightarrow> duration \<Rightarrow> Breaker" where
  "NewBreaker th cd =
     \<lparr>brState = BreakerClosed, consecutiveFailures = 0, openedAt = zero_time,
      threshold = (if th \<le> 0 then 5 else th),
      cooldown = (if cd \<le> 0 then 5 * time_Minute else cd)\<rparr>"

definition breaker_State :: "Breaker \<Rightarrow> BreakerState" where
  "breaker_State b = brState b"

definition IsOpen :: "Breaker \<Rightarrow> bool" where
  "IsOpen b = (brState b = BreakerOpen)"

definition MaybeHalfOpen :: "time \<Rightarrow> Breaker \<Rightarrow> bool \<times> Breaker" where
  "MaybeHalfOpen now b =
     (if brState b = BreakerOpen \<and> cooldown b \<le> time_Sub now (openedAt b)
      then (True, b\<lparr>brState := BreakerHalfOpen\<rparr>)
      else (False, b))"

definition RecordSuccess :: "Breaker \<Rightarrow> bool \<times> Breaker" where
  "RecordSuccess b =
     (brState b \<noteq> BreakerClosed, b\<lparr>brState := BreakerClosed, consecutiveFailures := 0\<rparr>)"

definition RecordFailure :: "time \<Rightarrow> Breaker \<Rightarrow> (bool \<times> int) \<times> Breaker" where
  "RecordFailure now b =
     (let b1 = b\<lparr>consecutiveFailures := consecutiveFailures b + 1\<rparr>;
          b2 = (if brState b1 = BreakerHalfOpen \<or> threshold b1 \<le> consecutiveFailures b1
                then b1\<lparr>brState := BreakerOpen, openedAt := now\<rparr> else b1)
      in ((brState b \<noteq> BreakerOpen \<and> brState b2 = BreakerOpen, consecutiveFailures b2), b2))"

definition ConsecutiveFailures :: "Breaker \<Rightarrow> int" where
  "ConsecutiveFailures b = consecutiveFailures b"

section \<open>The map of breakers\<close>

type_synonym breakerMap = "(string, Breaker) gomap"

definition newBreakerMap :: breakerMap where
  "newBreakerMap = []"

definition bm_get :: "string \<Rightarrow> breakerMap \<Rightarrow> Breaker \<times> breakerMap" where
  "bm_get repo m =
     (case map_of m repo of
        Some br \<Rightarrow> (br, m)
      | None \<Rightarrow> (let br = NewBreaker 5 (5 * time_Minute) in (br, AList.update repo br m)))"

text \<open>The Go map holds pointers, so a method called on what \<open>get\<close> returned changes the entry.\<close>

definition bm_IsOpen :: "string \<Rightarrow> breakerMap \<Rightarrow> bool \<times> breakerMap" where
  "bm_IsOpen repo m = (let (br, m') = bm_get repo m in (IsOpen br, m'))"

definition bm_MaybeHalfOpen :: "time \<Rightarrow> string \<Rightarrow> breakerMap \<Rightarrow> bool \<times> breakerMap" where
  "bm_MaybeHalfOpen now repo m =
     (let (br, m') = bm_get repo m; (r, br') = MaybeHalfOpen now br in (r, AList.update repo br' m'))"

definition bm_RecordSuccess :: "string \<Rightarrow> breakerMap \<Rightarrow> bool \<times> breakerMap" where
  "bm_RecordSuccess repo m =
     (let (br, m') = bm_get repo m; (r, br') = RecordSuccess br in (r, AList.update repo br' m'))"

definition bm_RecordFailure :: "time \<Rightarrow> string \<Rightarrow> breakerMap \<Rightarrow> (bool \<times> int) \<times> breakerMap" where
  "bm_RecordFailure now repo m =
     (let (br, m') = bm_get repo m; (r, br') = RecordFailure now br in (r, AList.update repo br' m'))"

definition bm_snapshot :: "breakerMap \<Rightarrow> (string, bool) gomap" where
  "bm_snapshot m = map (\<lambda>(k, v). (k, IsOpen v)) m"

section \<open>Event traces and the abstract breaker\<close>

datatype BreakerEvent = EvSuccess | EvFailure time | EvProbe time

fun breaker_step :: "BreakerEvent \<Rightarrow> Breaker \<Rightarrow> Breaker" where
  "breaker_step EvSuccess b = snd (RecordSuccess b)"
| "breaker_step (EvFailure t) b = snd (RecordFailure t b)"
| "breaker_step (EvProbe t) b = snd (MaybeHalfOpen t b)"

definition breaker_run :: "BreakerEvent list \<Rightarrow> Breaker \<Rightarrow> Breaker" where
  "breaker_run es b = fold breaker_step es b"

text \<open>What the breaker is to remember of a trace: how many failures came since the last
  success.\<close>

fun trailing_failures :: "BreakerEvent list \<Rightarrow> int \<Rightarrow> int" where
  "trailing_failures [] n = n"
| "trailing_failures (EvSuccess # es) n = trailing_failures es 0"
| "trailing_failures (EvFailure t # es) n = trailing_failures es (n + 1)"
| "trailing_failures (EvProbe t # es) n = trailing_failures es n"

definition breaker_ok :: "Breaker \<Rightarrow> bool" where
  "breaker_ok b =
     (0 < threshold b \<and> 0 < cooldown b \<and> 0 \<le> consecutiveFailures b \<and>
      (brState b = BreakerClosed \<longleftrightarrow> consecutiveFailures b < threshold b))"

definition breaker_of :: "string \<Rightarrow> breakerMap \<Rightarrow> Breaker" where
  "breaker_of repo m = lookup_or (NewBreaker 5 (5 * time_Minute)) m repo"

datatype MapEvent = MapIsOpen string | MapProbe time string | MapSuccess string | MapFailure time string

fun map_step :: "MapEvent \<Rightarrow> breakerMap \<Rightarrow> breakerMap" where
  "map_step (MapIsOpen r) m = snd (bm_IsOpen r m)"
| "map_step (MapProbe t r) m = snd (bm_MaybeHalfOpen t r m)"
| "map_step (MapSuccess r) m = snd (bm_RecordSuccess r m)"
| "map_step (MapFailure t r) m = snd (bm_RecordFailure t r m)"

text \<open>The events of a trace that concern one repository.\<close>

fun repo_event :: "string \<Rightarrow> MapEvent \<Rightarrow> BreakerEvent list" where
  "repo_event q (MapIsOpen r) = []"
| "repo_event q (MapProbe t r) = (if r = q then [EvProbe t] else [])"
| "repo_event q (MapSuccess r) = (if r = q then [EvSuccess] else [])"
| "repo_event q (MapFailure t r) = (if r = q then [EvFailure t] else [])"

section \<open>The contract\<close>

text \<open>A breaker denies calls only after a failure; a success always readmits, and a probe
  readmits when the cooldown has passed.\<close>

locale circuit_breaker =
  fixes ok :: "'b \<Rightarrow> bool" and denies :: "'b \<Rightarrow> bool" and success :: "'b \<Rightarrow> 'b"
    and failure :: "time \<Rightarrow> 'b \<Rightarrow> 'b" and probe :: "time \<Rightarrow> 'b \<Rightarrow> 'b"
    and since :: "'b \<Rightarrow> time" and wait :: "'b \<Rightarrow> duration"
  assumes ok_success: "ok b \<Longrightarrow> ok (success b)"
    and ok_failure: "ok b \<Longrightarrow> ok (failure t b)"
    and ok_probe: "ok b \<Longrightarrow> ok (probe t b)"
    and success_admits: "ok b \<Longrightarrow> \<not> denies (success b)"
    and probe_denies: "ok b \<Longrightarrow> denies (probe t b) \<longleftrightarrow> denies b \<and> time_Sub t (since b) < wait b"
    and probe_keeps: "ok b \<Longrightarrow> denies (probe t b) \<Longrightarrow> probe t b = b"
    and failure_denies: "ok b \<Longrightarrow> denies b \<Longrightarrow> denies (failure t b)"
    and failure_since: "ok b \<Longrightarrow> denies b \<Longrightarrow> since (failure t b) = t"
    and failure_wait: "ok b \<Longrightarrow> wait (failure t b) = wait b"
begin

text \<open>While a breaker denies and no success is recorded, every probe before the end of the
  cooldown leaves it as it is.\<close>

lemma denies_until_cooldown:
  assumes "ok b" and "denies b" and "\<forall>t \<in> set ts. time_Sub t (since b) < wait b"
  shows "fold probe ts b = b"
  using assms
proof (induction ts)
  case (Cons t ts)
  then have "denies (probe t b)" by (simp add: probe_denies)
  with Cons.prems have "probe t b = b" by (intro probe_keeps)
  with Cons show ?case by simp
qed simp

lemma probe_admits_after_cooldown:
  "ok b \<Longrightarrow> wait b \<le> time_Sub t (since b) \<Longrightarrow> \<not> denies (probe t b)"
  by (simp add: probe_denies)

lemma failure_restarts_cooldown:
  assumes "ok b" and "denies b" and "time_Sub t' t < wait b"
  shows "denies (probe t' (failure t b))"
  using assms by (simp add: probe_denies ok_failure failure_denies failure_since failure_wait)

end

section \<open>The breaker keeps the contract\<close>

lemmas breaker_defs = breaker_State_def IsOpen_def MaybeHalfOpen_def RecordSuccess_def
  RecordFailure_def NewBreaker_def ConsecutiveFailures_def Let_def

lemma NewBreaker_ok: "breaker_ok (NewBreaker th cd)"
  by (simp add: breaker_ok_def NewBreaker_def time_Minute_def time_Second_def)

lemma breaker_step_ok: "breaker_ok b \<Longrightarrow> breaker_ok (breaker_step e b)"
  by (cases e; cases "brState b") (auto simp: breaker_ok_def breaker_defs)

lemma breaker_step_params [simp]:
  "threshold (breaker_step e b) = threshold b" "cooldown (breaker_step e b) = cooldown b"
  by (cases e; simp add: breaker_defs)+

lemma breaker_run_simps [simp]:
  "breaker_run [] b = b" "breaker_run (e # es) b = breaker_run es (breaker_step e b)"
  "breaker_run (xs @ ys) b = breaker_run ys (breaker_run xs b)"
  by (simp_all add: breaker_run_def)

lemma breaker_run_ok: "breaker_ok b \<Longrightarrow> breaker_ok (breaker_run es b)"
  by (induction es arbitrary: b) (simp_all add: breaker_step_ok)

lemma breaker_run_params [simp]:
  "threshold (breaker_run es b) = threshold b" "cooldown (breaker_run es b) = cooldown b"
  by (induction es arbitrary: b) simp_all

lemma breaker_run_failures:
  "consecutiveFailures (breaker_run es b) = trailing_failures es (consecutiveFailures b)"
proof (induction es arbitrary: b)
  case (Cons e es)
  then show ?case by (cases e) (simp_all add: breaker_defs)
qed simp

lemma breaker_ok_params [simp]:
  "threshold (snd (RecordFailure t b)) = threshold b" "cooldown (snd (RecordFailure t b)) = cooldown b"
  by (simp_all add: breaker_defs)

interpretation br: circuit_breaker breaker_ok IsOpen "breaker_step EvSuccess"
  "\<lambda>t. breaker_step (EvFailure t)" "\<lambda>t. breaker_step (EvProbe t)" openedAt cooldown
proof unfold_locales
  fix b :: Breaker and t :: time
  assume ok: "breaker_ok b"
  show "\<not> IsOpen (breaker_step EvSuccess b)" by (simp add: breaker_defs)
  show "IsOpen (breaker_step (EvProbe t) b) \<longleftrightarrow> IsOpen b \<and> time_Sub t (openedAt b) < cooldown b"
    by (auto simp: breaker_defs)
  show "IsOpen (breaker_step (EvProbe t) b) \<Longrightarrow> breaker_step (EvProbe t) b = b"
    by (auto simp: breaker_defs split: if_splits)
  show "IsOpen b \<Longrightarrow> IsOpen (breaker_step (EvFailure t) b)"
    by (simp add: breaker_defs)
  show "IsOpen b \<Longrightarrow> openedAt (breaker_step (EvFailure t) b) = t"
    using ok by (auto simp: breaker_defs breaker_ok_def)
  show "cooldown (breaker_step (EvFailure t) b) = cooldown b" by simp
qed (rule breaker_step_ok, assumption)+

section \<open>The map of breakers\<close>

lemma breaker_of_get [simp]: "fst (bm_get r m) = breaker_of r m"
  by (simp add: bm_get_def breaker_of_def lookup_or_def Let_def split: option.split)

lemma breaker_of_snd_get [simp]: "breaker_of q (snd (bm_get r m)) = breaker_of q m"
  by (auto simp: bm_get_def breaker_of_def lookup_or_def Let_def split: option.split)

lemma breaker_of_update [simp]:
  "breaker_of q (AList.update r b m) = (if q = r then b else breaker_of q m)"
  by (simp add: breaker_of_def lookup_or_def)

lemma bm_ops_breaker:
  "fst (bm_IsOpen r m) = IsOpen (breaker_of r m)"
  "fst (bm_MaybeHalfOpen t r m) = fst (MaybeHalfOpen t (breaker_of r m))"
  "fst (bm_RecordSuccess r m) = fst (RecordSuccess (breaker_of r m))"
  "fst (bm_RecordFailure t r m) = fst (RecordFailure t (breaker_of r m))"
  "breaker_of q (snd (bm_IsOpen r m)) = breaker_of q m"
  "breaker_of q (snd (bm_MaybeHalfOpen t r m)) =
     (if q = r then breaker_step (EvProbe t) (breaker_of r m) else breaker_of q m)"
  "breaker_of q (snd (bm_RecordSuccess r m)) =
     (if q = r then breaker_step EvSuccess (breaker_of r m) else breaker_of q m)"
  "breaker_of q (snd (bm_RecordFailure t r m)) =
     (if q = r then breaker_step (EvFailure t) (breaker_of r m) else breaker_of q m)"
  by (simp_all add: bm_IsOpen_def bm_MaybeHalfOpen_def bm_RecordSuccess_def bm_RecordFailure_def
      split_def Let_def)

lemma map_step_breaker: "breaker_of q (map_step e m) = breaker_run (repo_event q e) (breaker_of q m)"
  by (cases e) (simp_all add: bm_ops_breaker)

lemma fold_map_step_breaker:
  "breaker_of q (fold map_step es m) =
     breaker_run (concat (map (repo_event q) es)) (breaker_of q m)"
  by (induction es arbitrary: m) (simp_all add: map_step_breaker)

lemma update_same: "map_of m k = Some v \<Longrightarrow> AList.update k v m = m"
  by (induction m) auto

interpretation mb: circuit_breaker "\<lambda>m. breaker_ok (breaker_of r m)" "\<lambda>m. fst (bm_IsOpen r m)"
  "\<lambda>m. snd (bm_RecordSuccess r m)" "\<lambda>t m. snd (bm_RecordFailure t r m)"
  "\<lambda>t m. snd (bm_MaybeHalfOpen t r m)" "\<lambda>m. openedAt (breaker_of r m)"
  "\<lambda>m. cooldown (breaker_of r m)" for r
proof unfold_locales
  fix m :: breakerMap and t :: time
  assume "fst (bm_IsOpen r (snd (bm_MaybeHalfOpen t r m)))"
  then have "IsOpen (breaker_step (EvProbe t) (breaker_of r m))" by (simp add: bm_ops_breaker)
  then have opn: "IsOpen (breaker_of r m)" and no: "snd (MaybeHalfOpen t (breaker_of r m)) = breaker_of r m"
    by (auto simp: breaker_defs split: if_splits)
  from opn obtain v where "map_of m r = Some v"
    by (cases "map_of m r") (auto simp: breaker_of_def breaker_defs)
  with no show "snd (bm_MaybeHalfOpen t r m) = m"
    by (simp add: bm_MaybeHalfOpen_def bm_get_def breaker_of_def split_def Let_def update_same)
qed (simp_all add: bm_ops_breaker breaker_step_ok br.success_admits br.probe_denies br.failure_denies
    br.failure_since br.failure_wait del: breaker_step.simps)

section \<open>Properties\<close>


text \<open>Once a repository's breaker is open it denies every poll until the cooldown since it
  was opened has passed: probes before that change nothing, the first probe at or after it
  lets a poll through, and a failure recorded while it is open restarts the cooldown.\<close>

theorem breaker_open_until_cooldown:
  assumes "breaker_ok (breaker_of r m)" and "fst (bm_IsOpen r m)"
    and "\<forall>t \<in> set ts. time_Sub t (openedAt (breaker_of r m)) < cooldown (breaker_of r m)"
  shows "fold (\<lambda>t m. snd (bm_MaybeHalfOpen t r m)) ts m = m \<and>
         (cooldown (breaker_of r m) \<le> time_Sub t (openedAt (breaker_of r m)) \<longrightarrow>
            \<not> fst (bm_IsOpen r (snd (bm_MaybeHalfOpen t r m)))) \<and>
         (time_Sub t' t < cooldown (breaker_of r m) \<longrightarrow>
            fst (bm_IsOpen r (snd (bm_MaybeHalfOpen t' r (snd (bm_RecordFailure t r m))))))"
  using mb.denies_until_cooldown [OF assms] mb.probe_admits_after_cooldown [OF assms(1)]
    mb.failure_restarts_cooldown [OF assms(1,2)] by blast

lemma breaker_open_until_cooldown_witness:
  "let m = fold map_step (replicate 5 (MapFailure 10 ''o/r'')) newBreakerMap
   in fst (bm_IsOpen ''o/r'' m) \<and>
      fold (\<lambda>t m. snd (bm_MaybeHalfOpen t ''o/r'' m)) [20, 299 * time_Second] m = m"
proof -
  let ?m = "fold map_step (replicate 5 (MapFailure 10 ''o/r'')) newBreakerMap"
  have "breaker_ok (breaker_of ''o/r'' ?m)" "fst (bm_IsOpen ''o/r'' ?m)"
    "\<forall>t \<in> set [20, 299 * time_Second].
       time_Sub t (openedAt (breaker_of ''o/r'' ?m)) < cooldown (breaker_of ''o/r'' ?m)"
    by code_simp+
  then show ?thesis
    unfolding Let_def using breaker_open_until_cooldown by blast
qed

end
