(* ===== verification/Token_Bucket.thy ===== *)
theory Token_Bucket
  imports Complex_Main RS_Prelude
begin

text \<open>
  The spawn rate limiter (\<open>internal/state/ratelimit.go\<close>). Its level is a \<open>float64\<close>; the model
  holds the rational value of the float and rounds the result of every arithmetic operation
  to the nearest representable number, ties to even, as IEEE 754 prescribes (\<open>f64\<close>, with the
  subnormal range; the values here stay far below the overflow threshold).
\<close>

section \<open>Rounding to float64\<close>

fun bit_len :: "nat \<Rightarrow> nat" where
  "bit_len n = (if n = 0 then 0 else Suc (bit_len (n div 2)))"

declare bit_len.simps [simp del]

definition pow2 :: "int \<Rightarrow> rat" where
  "pow2 e = (if 0 \<le> e then 2 ^ nat e else 1 / 2 ^ nat (- e))"

definition f64_expt :: "rat \<Rightarrow> int" where
  "f64_expt x =
     (let (p, q) = quotient_of x; e = int (bit_len (nat p)) - int (bit_len (nat q))
      in if pow2 e \<le> x then e else e - 1)"

definition round_even :: "rat \<Rightarrow> int" where
  "round_even x =
     (let n = floor x; d = x - of_int n
      in if d < 1 / 2 then n else if 1 / 2 < d then n + 1 else if even n then n else n + 1)"

definition f64 :: "rat \<Rightarrow> rat" where
  "f64 x =
     (if x = 0 then 0
      else let u = pow2 (max (f64_expt \<bar>x\<bar> - 52) (- 1074))
           in sgn x * (of_int (round_even (\<bar>x\<bar> / u)) * u))"

text \<open>\<open>Duration.Seconds\<close>; Go's integer division truncates towards zero.\<close>

definition duration_Seconds :: "duration \<Rightarrow> rat" where
  "duration_Seconds d =
     (let s = sgn d * (\<bar>d\<bar> div time_Second); ns = sgn d * (\<bar>d\<bar> mod time_Second)
      in f64 (f64 (of_int s) + f64 (f64 (of_int ns) / 1000000000)))"

section \<open>The bucket\<close>

record TokenBucket =
  tbTokens :: rat
  tbMaxBurst :: rat
  tbRate :: rat
  tbLast :: time

definition NewTokenBucket :: "rat \<Rightarrow> rat \<Rightarrow> time \<Rightarrow> TokenBucket" where
  "NewTokenBucket ratePerSec burst now =
     (let rate = (if ratePerSec \<le> 0 then 1 else ratePerSec); b = (if burst \<le> 0 then 1 else burst)
      in \<lparr>tbTokens = b, tbMaxBurst = b, tbRate = rate, tbLast = now\<rparr>)"

definition TryTake :: "time \<Rightarrow> TokenBucket \<Rightarrow> bool \<times> TokenBucket" where
  "TryTake now b =
     (let elapsed = duration_Seconds (time_Sub now (tbLast b));
          b1 = b\<lparr>tbTokens := min (f64 (tbTokens b + f64 (elapsed * tbRate b))) (tbMaxBurst b),
                 tbLast := now\<rparr>
      in if 1 \<le> tbTokens b1 then (True, b1\<lparr>tbTokens := f64 (tbTokens b1 - 1)\<rparr>)
         else (False, b1))"

definition Available :: "TokenBucket \<Rightarrow> rat" where
  "Available b = tbTokens b"

text \<open>A sequence of attempts at the given clock readings: the answers and the final bucket.\<close>

fun take_all :: "time list \<Rightarrow> TokenBucket \<Rightarrow> bool list \<times> TokenBucket" where
  "take_all [] b = ([], b)"
| "take_all (t # ts) b =
     (let (r, b1) = TryTake t b; (rs, b2) = take_all ts b1 in (r # rs, b2))"

section \<open>Rounding keeps signs and integers\<close>

lemma pow2_pos [simp]: "0 < pow2 e"
  by (simp add: pow2_def)

lemma round_even_nonneg: "0 \<le> x \<Longrightarrow> 0 \<le> round_even x"
  by (auto simp: round_even_def Let_def)

lemma f64_nonneg: "0 \<le> x \<Longrightarrow> 0 \<le> f64 x"
proof (cases "x = 0")
  case False
  assume "0 \<le> x"
  moreover have "0 \<le> round_even (\<bar>x\<bar> / pow2 e)" for e
    by (rule round_even_nonneg) (simp add: less_imp_le)
  ultimately show ?thesis using False by (simp add: f64_def Let_def less_imp_le)
qed (simp add: f64_def)

lemma duration_Seconds_nonneg:
  assumes "0 \<le> d"
  shows "0 \<le> duration_Seconds d"
proof -
  have "0 \<le> sgn d * (\<bar>d\<bar> div time_Second)" "0 \<le> sgn d * (\<bar>d\<bar> mod time_Second)"
    using assms by (auto simp: sgn_if time_Second_def)
  then show ?thesis
    unfolding duration_Seconds_def Let_def
    by (intro f64_nonneg add_nonneg_nonneg divide_nonneg_nonneg) (simp_all del: of_int_mult)
qed

lemma bit_len_bounds: "0 < n \<Longrightarrow> 2 ^ (bit_len n - 1) \<le> n \<and> n < 2 ^ bit_len n"
proof (induction n rule: bit_len.induct)
  case (1 n)
  show ?case
  proof (cases "n = 1")
    case True
    then show ?thesis by (simp add: bit_len.simps)
  next
    case False
    with 1 have h: "0 < n div 2" "2 ^ (bit_len (n div 2) - 1) \<le> n div 2" "n div 2 < 2 ^ bit_len (n div 2)"
      by auto
    have bl: "bit_len n = Suc (bit_len (n div 2))" using 1(2) by (simp add: bit_len.simps)
    have "0 < bit_len (n div 2)" using h(1) by (simp add: bit_len.simps [of "n div 2"])
    then have "(2::nat) ^ bit_len (n div 2) = 2 * 2 ^ (bit_len (n div 2) - 1)"
      by (cases "bit_len (n div 2)") auto
    with h show ?thesis by (simp add: bl) linarith
  qed
qed

lemma pow2_diff: "pow2 (int a - int b) = 2 ^ a / 2 ^ b"
proof (cases "b \<le> a")
  case True
  then have "nat (int a - int b) = a - b" by simp
  with True show ?thesis by (simp add: pow2_def power_diff)
next
  case False
  then have "nat (- (int a - int b)) = b - a" by simp
  with False show ?thesis by (simp add: pow2_def power_diff)
qed

lemma f64_expt_le:
  assumes "0 < x"
  shows "pow2 (f64_expt x) \<le> x"
proof -
  obtain p q where pq: "quotient_of x = (p, q)" by force
  have x: "x = of_int p / of_int q" and q: "0 < q"
    using quotient_of_div [OF pq] quotient_of_denom_pos [OF pq] by auto
  with assms have p: "0 < p" by (simp add: zero_less_divide_iff)
  define a b where "a = bit_len (nat p)" and "b = bit_len (nat q)"
  have a: "2 ^ (a - 1) \<le> nat p" and b: "nat q < 2 ^ b"
    using bit_len_bounds [of "nat p"] bit_len_bounds [of "nat q"] p q by (auto simp: a_def b_def)
  have a1: "Suc (a - 1) = a" using p by (simp add: a_def bit_len.simps [of "nat p"])
  have "(2::int) ^ (a - 1) \<le> p" using of_nat_mono [OF a, where ?'a = int] p by simp
  then have "(of_int (2 ^ (a - 1)) :: rat) \<le> of_int p" by (simp only: of_int_le_iff)
  then have "(2::rat) ^ (a - 1) \<le> of_int p" by simp
  moreover have "q \<le> 2 ^ b" using of_nat_mono [OF less_imp_le [OF b], where ?'a = int] q by simp
  then have "(of_int q :: rat) \<le> of_int (2 ^ b)" by (simp only: of_int_le_iff)
  then have "(of_int q :: rat) \<le> 2 ^ b" by simp
  ultimately have "2 ^ (a - 1) / 2 ^ b \<le> x"
    unfolding x using p q by (intro frac_le) simp_all
  moreover have "pow2 (int a - int b - 1) = 2 ^ (a - 1) / 2 ^ b"
  proof -
    have "int a - int b - 1 = int (a - 1) - int b" using a1 by linarith
    then show ?thesis by (simp only: pow2_diff)
  qed
  ultimately show ?thesis
    by (auto simp: f64_expt_def pq Let_def a_def [symmetric] b_def [symmetric])
qed

lemma f64_of_nat:
  assumes "n < 2 ^ 53"
  shows "f64 (of_nat n) = of_nat n"
proof (cases "n = 0")
  case False
  define e where "e = f64_expt (of_nat n)"
  have "pow2 e \<le> of_nat n" using f64_expt_le [of "of_nat n"] False by (simp add: e_def)
  also have "(of_nat n :: rat) < 2 ^ 53"
    using of_nat_less_iff [of n "2 ^ 53", where ?'a = rat] assms by simp
  finally have lt: "pow2 e < 2 ^ 53" .
  have e52: "e \<le> 52"
  proof (rule ccontr)
    assume "\<not> e \<le> 52"
    then have "(53::nat) \<le> nat e" "0 \<le> e" by auto
    then have "(2::rat) ^ 53 \<le> pow2 e" by (simp add: pow2_def del: power_numeral)
    with lt show False by simp
  qed
  define k where "k = nat (- max (e - 52) (- 1074))"
  have u: "pow2 (max (e - 52) (- 1074)) = 1 / 2 ^ k"
    using e52 by (auto simp: pow2_def k_def max_def)
  have "(of_nat n :: rat) / (1 / 2 ^ k) = of_int (int n * 2 ^ k)" by simp
  moreover have "round_even (of_int z) = z" for z by (simp add: round_even_def)
  ultimately have "round_even (of_nat n / (1 / 2 ^ k)) = int n * 2 ^ k" by metis
  then show ?thesis
    using False by (simp add: f64_def Let_def e_def [symmetric] u)
qed (simp add: f64_def)

lemma f64_error:
  assumes "0 \<le> x"
  shows "f64 x \<le> x + x / 2 ^ 53 + 1 / 2"
proof (cases "x = 0")
  case False
  with assms have x: "0 < x" by simp
  define e u where "e = f64_expt x" and "u = pow2 (max (e - 52) (- 1074))"
  have r: "of_int (round_even y) \<le> y + 1 / 2" for y
    by (auto simp: round_even_def Let_def intro: order_trans [OF of_int_floor_le])
  have "f64 x = of_int (round_even (x / u)) * u"
    using x by (simp add: f64_def Let_def e_def [symmetric] u_def [symmetric])
  also have "\<dots> \<le> (x / u + 1 / 2) * u"
    by (intro mult_right_mono r) (simp add: u_def less_imp_le)
  also have "\<dots> = x + u / 2"
  proof -
    have "u \<noteq> 0" using pow2_pos [of "max (e - 52) (- 1074)"] by (simp only: u_def)
    then show ?thesis by (simp add: distrib_right)
  qed
  finally have le: "f64 x \<le> x + u / 2" .
  have "pow2 (e - 52) = pow2 e / 2 ^ 52"
    by (cases "0 \<le> e"; cases "52 \<le> e")
      (use pow2_diff [of "nat e" 52] pow2_diff [of 0 "nat (- e) + 52"] pow2_diff [of 0 "nat (- e)"]
        in \<open>auto simp: power_add\<close>, simp_all add: pow2_def)
  moreover have "pow2 e \<le> x" using f64_expt_le [OF x] by (simp add: e_def)
  ultimately have "pow2 (e - 52) \<le> x / 2 ^ 52" by (simp add: divide_right_mono)
  moreover have "pow2 (- 1074) \<le> 1" by (simp add: pow2_def)
  ultimately have "u \<le> x / 2 ^ 52 + 1" using x
    by (auto simp: u_def max_def intro: order_trans add_increasing add_increasing2)
  with le show ?thesis by (simp add: field_simps)
qed (simp add: f64_def)

section \<open>The level stays between empty and full\<close>

definition bucket_ok :: "TokenBucket \<Rightarrow> bool" where
  "bucket_ok b = (0 \<le> tbTokens b \<and> tbTokens b \<le> tbMaxBurst b \<and> tbMaxBurst b \<le> 2 ^ 52 \<and> 0 < tbRate b)"

lemma time_Sub_nonneg: "u \<le> t \<Longrightarrow> 0 \<le> time_Sub t u"
  by (simp add: time_Sub_def)

lemma TryTake_ok:
  assumes "bucket_ok b" and "tbLast b \<le> now"
  shows "bucket_ok (snd (TryTake now b))" "tbLast (snd (TryTake now b)) = now"
    "tbMaxBurst (snd (TryTake now b)) = tbMaxBurst b"
proof -
  let ?e = "duration_Seconds (time_Sub now (tbLast b))"
  let ?t = "min (f64 (tbTokens b + f64 (?e * tbRate b))) (tbMaxBurst b)"
  have b: "0 \<le> tbTokens b" "tbTokens b \<le> tbMaxBurst b" "tbMaxBurst b \<le> 2 ^ 52" "0 < tbRate b"
    using assms(1) by (auto simp: bucket_ok_def)
  have "0 \<le> ?e" by (intro duration_Seconds_nonneg time_Sub_nonneg assms(2))
  then have t0: "0 \<le> ?t" using b by (auto intro!: f64_nonneg add_nonneg_nonneg)
  have "f64 (?t - 1) \<le> tbMaxBurst b" if "1 \<le> ?t"
  proof -
    have "f64 (?t - 1) \<le> (?t - 1) + (?t - 1) / 2 ^ 53 + 1 / 2"
      by (rule f64_error) (use that in simp)
    also have "\<dots> \<le> (tbMaxBurst b - 1) + (tbMaxBurst b - 1) / 2 ^ 53 + 1 / 2"
      by (intro add_mono divide_right_mono) auto
    also have "\<dots> \<le> tbMaxBurst b" using b(3) by simp
    finally show ?thesis .
  qed
  moreover have "0 \<le> f64 (?t - 1)" if "1 \<le> ?t" using that by (intro f64_nonneg) simp
  ultimately show "bucket_ok (snd (TryTake now b))"
    using t0 b by (simp add: TryTake_def Let_def bucket_ok_def)
  show "tbLast (snd (TryTake now b)) = now" "tbMaxBurst (snd (TryTake now b)) = tbMaxBurst b"
    by (simp_all add: TryTake_def Let_def)
qed

lemma take_all_ok:
  assumes "bucket_ok b" and "sorted (tbLast b # ts)"
  shows "bucket_ok (snd (take_all ts b)) \<and> tbMaxBurst (snd (take_all ts b)) = tbMaxBurst b"
  using assms
proof (induction ts arbitrary: b)
  case (Cons t ts)
  then have "tbLast b \<le> t" by simp
  note t = TryTake_ok [OF Cons.prems(1) this]
  have "sorted (tbLast (snd (TryTake t b)) # ts)" using Cons.prems(2) t(2) by simp
  from Cons.IH [OF t(1) this] show ?case by (simp add: split_def Let_def t(3))
qed simp

text \<open>With no time passing, an integral level below \<open>2 ^ 53\<close> is handed out one token at a time
  with no rounding at all.\<close>

lemma duration_Seconds_zero: "duration_Seconds 0 = 0"
  by (simp add: duration_Seconds_def f64_def)

lemma TryTake_same_instant:
  assumes "tbTokens b = of_nat n" "n < 2 ^ 53" "tbTokens b \<le> tbMaxBurst b"
  shows "TryTake (tbLast b) b =
    (case n of 0 \<Rightarrow> (False, b) | Suc k \<Rightarrow> (True, b\<lparr>tbTokens := of_nat k\<rparr>))"
proof -
  have f0: "f64 0 = 0" by (simp add: f64_def)
  have "min (f64 (of_nat n)) (tbMaxBurst b) = of_nat n"
    using assms by (simp add: f64_of_nat min_def)
  then have lvl: "min (f64 (tbTokens b + f64 (duration_Seconds (time_Sub (tbLast b) (tbLast b)) * tbRate b)))
      (tbMaxBurst b) = of_nat n"
    by (simp add: time_Sub_def duration_Seconds_zero f0 assms(1))
  show ?thesis
  proof (cases n)
    case 0
    then show ?thesis using lvl assms(1) by (simp add: TryTake_def Let_def del: min.bounded_iff)
  next
    case (Suc k)
    then have "f64 (of_nat n - 1) = of_nat k" using f64_of_nat [of k] assms(2) by simp
    with Suc lvl show ?thesis by (simp add: TryTake_def Let_def del: min.bounded_iff)
  qed
qed

lemma take_all_same_instant:
  assumes "tbTokens b = of_nat n" "n < 2 ^ 53" "tbTokens b \<le> tbMaxBurst b"
  shows "fst (take_all (replicate k (tbLast b)) b) =
         replicate (min k n) True @ replicate (k - n) False"
  using assms
proof (induction k arbitrary: b n)
  case (Suc k)
  show ?case
  proof (cases n)
    case 0
    then show ?thesis
      using Suc.IH [OF Suc.prems] TryTake_same_instant [OF Suc.prems] by (simp add: split_def Let_def)
  next
    case (Suc j)
    let ?b = "b\<lparr>tbTokens := of_nat j\<rparr>"
    have "TryTake (tbLast b) b = (True, ?b)"
      using TryTake_same_instant [OF Suc.prems] Suc by simp
    moreover have "fst (take_all (replicate k (tbLast ?b)) ?b) =
        replicate (min k j) True @ replicate (k - j) False"
      using Suc.prems Suc by (intro Suc.IH) auto
    ultimately show ?thesis using Suc by (simp add: split_def Let_def)
  qed
qed simp

section \<open>Properties\<close>

text \<open>C12: for attempts at clock readings that never go back, the level of the bucket stays
  between empty and full despite the rounding of every \<open>float64\<close> operation, so idle time
  never builds up more than one burst.\<close>

theorem token_bucket_bounds:
  assumes "0 < burst" and "burst \<le> 2 ^ 52" and "0 < rate" and "sorted (t0 # ts)"
  shows "0 \<le> Available (snd (take_all ts (NewTokenBucket rate burst t0))) \<and>
         Available (snd (take_all ts (NewTokenBucket rate burst t0))) \<le> burst"
proof -
  let ?b = "NewTokenBucket rate burst t0"
  have "bucket_ok ?b" "tbLast ?b = t0" "tbMaxBurst ?b = burst"
    using assms by (simp_all add: bucket_ok_def NewTokenBucket_def Let_def)
  with take_all_ok [of ?b ts] assms(4) show ?thesis by (auto simp: bucket_ok_def Available_def)
qed

lemma token_bucket_bounds_witness:
  "0 \<le> Available (snd (take_all [3, 3, 5 * time_Second] (NewTokenBucket 5 10 0)))"
  using token_bucket_bounds [of 10 5 0 "[3, 3, 5 * time_Second]"] by (simp add: time_Second_def)

text \<open>a fresh bucket with a whole-number burst admits exactly that many of any number of
  attempts made at one instant, the first ones, and refuses the rest.\<close>

theorem token_bucket_burst:
  assumes "0 < n" and "n < 2 ^ 53"
  shows "fst (take_all (replicate k t) (NewTokenBucket rate (of_nat n) t)) =
         replicate (min k n) True @ replicate (k - n) False"
proof -
  let ?b = "NewTokenBucket rate (of_nat n) t"
  have "tbTokens ?b = of_nat n" "tbTokens ?b \<le> tbMaxBurst ?b" "tbLast ?b = t"
    using assms(1) by (simp_all add: NewTokenBucket_def Let_def)
  with take_all_same_instant [of ?b n k] assms(2) show ?thesis by simp
qed

lemma token_bucket_burst_witness:
  "fst (take_all (replicate 12 7) (NewTokenBucket 5 10 7)) = replicate 10 True @ [False, False]"
proof -
  have "replicate (12 - 10) False = [False, False]" by code_simp
  then show ?thesis using token_bucket_burst [of 10 12 7 5] by simp
qed

end
