(* ===== verification/RS_Errors.thy ===== *)
theory RS_Errors
  imports RS_Prelude
begin

text \<open>
  Go error values as a datatype: the sentinels the sources compare with \<open>errors.Is\<close>, wrapping
  with \<open>fmt.Errorf("...%w...")\<close>, \<open>errors.Join\<close>, the typed errors \<open>*github.APIError\<close> and
  \<open>*docker.SpawnRollbackError\<close>, and plain text. A nil error is \<open>None\<close>. The chain walk of
  \<open>errors.Is\<close> and \<open>errors.As\<close> is depth first, in the order \<open>Unwrap\<close> gives.
\<close>

section \<open>Errors\<close>

record RateLimitInfo =
  rlInfoLimit :: int
  rlInfoRemaining :: int
  rlInfoResetUnix :: int

definition zero_RateLimit :: RateLimitInfo where
  "zero_RateLimit = \<lparr>rlInfoLimit = 0, rlInfoRemaining = 0, rlInfoResetUnix = 0\<rparr>"

datatype sentinel =
    ErrAuthFailed | ErrRateLimited | ErrRunnerNotFound | ErrRecentJobSearchIndeterminate
  | ErrJITLabelMismatch | ErrPolicyDenied
  | ErrSemaphoreUnavailable | ErrRateLimitBackoff | ErrSchedulingBlocked
  | ErrRunnerYMLNotModified | CtxCanceled | CtxDeadlineExceeded

datatype gerr =
    Sentinel sentinel
  | Plain string
  | Wrap string gerr string
  | Joined "gerr list"
  | APIError int RateLimitInfo gerr string
  | SpawnRollbackError gerr gerr

fun sentinel_text :: "sentinel \<Rightarrow> string" where
  "sentinel_text ErrAuthFailed = ''github: authentication failed (401/403)''"
| "sentinel_text ErrRateLimited = ''github: rate-limited''"
| "sentinel_text ErrRunnerNotFound = ''github: runner not found''"
| "sentinel_text ErrRecentJobSearchIndeterminate =
     ''github: recent workflow job search exhausted its safety bound''"
| "sentinel_text ErrJITLabelMismatch =
     ''github: JIT response labels did not match requested labels (B3 sanity check)''"
| "sentinel_text ErrPolicyDenied = ''docker: socket-proxy policy denied''"
| "sentinel_text ErrSemaphoreUnavailable =
     ''orchestrator: failed to acquire semaphore (concurrency)''"
| "sentinel_text ErrRateLimitBackoff = ''orchestrator: spawn rate-limit hit (B1)''"
| "sentinel_text ErrSchedulingBlocked =
     ''orchestrator: scheduling blocked by drain or teardown debt''"
| "sentinel_text ErrRunnerYMLNotModified = ''runner.yml: not modified (304)''"
| "sentinel_text CtxCanceled = ''context canceled''"
| "sentinel_text CtxDeadlineExceeded = ''context deadline exceeded''"

fun join_lines :: "string list \<Rightarrow> string" where
  "join_lines [] = []"
| "join_lines [x] = x"
| "join_lines (x # y # r) = x @ CHR 0x0A # join_lines (y # r)"

fun err_text :: "gerr \<Rightarrow> string" where
  "err_text (Sentinel s) = sentinel_text s"
| "err_text (Plain t) = t"
| "err_text (Wrap pre e post) = pre @ err_text e @ post"
| "err_text (Joined es) = join_lines (map err_text es)"
| "err_text (APIError st rl e op) =
     ''github: '' @ op @ '': status '' @ show_int st @ '': '' @ err_text e"
| "err_text (SpawnRollbackError c r) = err_text c @ ''; container rollback incomplete: '' @ err_text r"

text \<open>\<open>errors.Is\<close>\<close>

fun err_is :: "gerr \<Rightarrow> sentinel \<Rightarrow> bool" where
  "err_is (Sentinel s) t = (s = t)"
| "err_is (Plain p) t = False"
| "err_is (Wrap pre e post) t = err_is e t"
| "err_is (Joined es) t = list_ex (\<lambda>e. err_is e t) es"
| "err_is (APIError st rl e op) t = err_is e t"
| "err_is (SpawnRollbackError c r) t = (err_is c t \<or> err_is r t)"

text \<open>\<open>errors.As\<close> with a \<open>*APIError\<close> target: its status and rate limit.\<close>

fun first_Some :: "'a option list \<Rightarrow> 'a option" where
  "first_Some [] = None"
| "first_Some (None # r) = first_Some r"
| "first_Some (Some x # r) = Some x"

fun as_APIError :: "gerr \<Rightarrow> (int \<times> RateLimitInfo) option" where
  "as_APIError (Sentinel s) = None"
| "as_APIError (Plain p) = None"
| "as_APIError (Wrap pre e post) = as_APIError e"
| "as_APIError (Joined es) = first_Some (map as_APIError es)"
| "as_APIError (APIError st rl e op) = Some (st, rl)"
| "as_APIError (SpawnRollbackError c r) = first_Some [as_APIError c, as_APIError r]"

definition ErrorStatus :: "gerr \<Rightarrow> int" where
  "ErrorStatus e = (case as_APIError e of Some (st, _) \<Rightarrow> st | None \<Rightarrow> 0)"

definition ErrorRateLimit :: "gerr \<Rightarrow> RateLimitInfo" where
  "ErrorRateLimit e = (case as_APIError e of Some (_, rl) \<Rightarrow> rl | None \<Rightarrow> zero_RateLimit)"

fun HasIncompleteRollback :: "gerr \<Rightarrow> bool" where
  "HasIncompleteRollback (Wrap pre e post) = HasIncompleteRollback e"
| "HasIncompleteRollback (Joined es) = list_ex HasIncompleteRollback es"
| "HasIncompleteRollback (APIError st rl e op) = HasIncompleteRollback e"
| "HasIncompleteRollback (SpawnRollbackError c r) = True"
| "HasIncompleteRollback _ = False"

text \<open>\<open>errors.Join\<close> drops nil errors and is nil when nothing is left.\<close>

definition errors_Join :: "gerr option list \<Rightarrow> gerr option" where
  "errors_Join es = (case List.map_filter id es of [] \<Rightarrow> None | xs \<Rightarrow> Some (Joined xs))"

text \<open>The error of a sentinel tested through an optional error.\<close>

definition opt_is :: "gerr option \<Rightarrow> sentinel \<Rightarrow> bool" where
  "opt_is e t = (case e of None \<Rightarrow> False | Some x \<Rightarrow> err_is x t)"

section \<open>Lemmas\<close>

lemma errors_Join_simps [simp]:
  "errors_Join [None, e] = (case e of None \<Rightarrow> None | Some x \<Rightarrow> Some (Joined [x]))"
  "errors_Join [Some x, None] = Some (Joined [x])"
  "errors_Join [Some x, Some y] = Some (Joined [x, y])"
  by (simp_all add: errors_Join_def map_filter_simps split: option.split)

lemma errors_Join_None_iff [simp]: "errors_Join es = None \<longleftrightarrow> (\<forall>e \<in> set es. e = None)"
proof -
  have "List.map_filter id es = [] \<longleftrightarrow> (\<forall>e \<in> set es. e = None)"
    by (induction es) (auto simp: map_filter_simps split: option.splits)
  then show ?thesis by (auto simp: errors_Join_def split: list.splits)
qed

lemma opt_is_simps [simp]: "opt_is None t = False" "opt_is (Some e) t = err_is e t"
  by (simp_all add: opt_is_def)

end
