(* ===== verification/GH_Data.thy ===== *)
theory GH_Data
  imports RS_Errors "HOL-Library.List_Lexorder" "HOL-Library.Char_ord"
begin

text \<open>
  Data of package \<open>internal/github\<close> and the pieces of Go's standard library its requests are
  built from: \<open>strconv.Atoi\<close>, \<open>strings.ToLower\<close> (on ASCII), \<open>url.QueryEscape\<close>,
  \<open>url.Values.Encode\<close> and \<open>Time.UTC().Format(time.RFC3339)\<close>.

  An HTTP response carries its status, its headers and its body. The body is the JSON value
  already parsed, one constructor per document the client decodes; decoding a document of
  another shape leaves the fields the client reads at their zero values, as
  \<open>encoding/json\<close> does, and malformed JSON is an error. The only decoder that keeps what was
  read before an error is the one for JIT responses, so that case carries the partial value.
\<close>

section \<open>Standard library\<close>

definition to_lower_char :: "char \<Rightarrow> char" where
  "to_lower_char c = (if is_upper c then char_of ((of_char c :: nat) + 32) else c)"

definition ToLower :: "string \<Rightarrow> string" where
  "ToLower s = map to_lower_char s"

text \<open>The value \<open>strconv.Atoi\<close> and \<open>strconv.ParseInt(_, 10, 64)\<close> return when the error is
  discarded: zero on a syntax error, the nearest bound when out of range.\<close>

definition atoi_value :: "string \<Rightarrow> int" where
  "atoi_value s =
     (let neg = (s \<noteq> [] \<and> hd s = CHR ''-'');
          ds = (if s \<noteq> [] \<and> (hd s = CHR ''-'' \<or> hd s = CHR ''+'') then tl s else s);
          v = (if neg then - dec_val ds else dec_val ds)
      in if ds = [] \<or> \<not> list_all is_digit ds then 0
         else max (- (2 ^ 63)) (min (2 ^ 63 - 1) v))"

definition hex_digit :: "nat \<Rightarrow> char" where
  "hex_digit n = (if n < 10 then char_of (48 + n) else char_of (55 + n))"

definition query_escape_char :: "char \<Rightarrow> string" where
  "query_escape_char c =
     (if is_alnum c \<or> c \<in> set ''-_.~'' then [c]
      else if c = CHR '' '' then ''+''
      else [CHR ''%'', hex_digit (of_char c div 16), hex_digit (of_char c mod 16)])"

definition QueryEscape :: "string \<Rightarrow> string" where
  "QueryEscape s = concat (map query_escape_char s)"

text \<open>\<open>url.Values.Encode\<close> of single-valued keys: sorted by key.\<close>

definition values_encode :: "(string \<times> string) list \<Rightarrow> string" where
  "values_encode kvs =
     join_with ''&'' (map (\<lambda>(k, v). QueryEscape k @ ''='' @ QueryEscape v) (sort_key fst kvs))"

definition pad2 :: "int \<Rightarrow> string" where
  "pad2 n = (if n < 10 then CHR ''0'' # show_int n else show_int n)"

definition pad4 :: "int \<Rightarrow> string" where
  "pad4 n = (let s = show_int n in replicate (4 - length s) CHR ''0'' @ s)"

text \<open>Year and day of the year (from 0) of a day counted from 1 January of year 1.\<close>

definition civil_year :: "int \<Rightarrow> int \<times> int" where
  "civil_year d =
     (let n400 = d div 146097; r400 = d mod 146097;
          n100 = min 3 (r400 div 36524); r100 = r400 - 36524 * n100;
          n4 = r100 div 1461; r4 = r100 mod 1461;
          n1 = min 3 (r4 div 365)
      in (400 * n400 + 100 * n100 + 4 * n4 + n1 + 1, r4 - 365 * n1))"

definition leap_year :: "int \<Rightarrow> bool" where
  "leap_year y = (y mod 4 = 0 \<and> (y mod 100 \<noteq> 0 \<or> y mod 400 = 0))"

fun civil_month :: "int list \<Rightarrow> int \<Rightarrow> int \<Rightarrow> int \<times> int" where
  "civil_month [] m d = (m, d + 1)"
| "civil_month (len # ls) m d = (if d < len then (m, d + 1) else civil_month ls (m + 1) (d - len))"

definition format_RFC3339 :: "time \<Rightarrow> string" where
  "format_RFC3339 t =
     (let secs = t div time_Second; day = secs div 86400; sod = secs mod 86400;
          (y, yd) = civil_year day;
          (m, d) = civil_month [31, if leap_year y then 29 else 28, 31, 30, 31, 30, 31, 31, 30, 31, 30, 31] 1 yd
      in pad4 y @ ''-'' @ pad2 m @ ''-'' @ pad2 d @ ''T'' @ pad2 (sod div 3600) @ '':'' @
         pad2 (sod div 60 mod 60) @ '':'' @ pad2 (sod mod 60) @ ''Z'')"

section \<open>GitHub documents\<close>

record WorkflowRun =
  wrID :: int

record WorkflowJob =
  wjID :: int
  wjRunID :: int
  wjName :: string
  wjStatus :: string
  wjConclusion :: string
  wjLabels :: "string list"
  wjRunnerID :: int
  wjRunnerName :: string

definition zero_WorkflowJob :: WorkflowJob where
  "zero_WorkflowJob = \<lparr>wjID = 0, wjRunID = 0, wjName = [], wjStatus = [], wjConclusion = [],
     wjLabels = [], wjRunnerID = 0, wjRunnerName = []\<rparr>"

record Runner =
  ghrID :: int
  ghrName :: string
  ghrStatus :: string
  ghrBusy :: bool
  ghrLabels :: "string list"

definition zero_Runner :: Runner where
  "zero_Runner = \<lparr>ghrID = 0, ghrName = [], ghrStatus = [], ghrBusy = False, ghrLabels = []\<rparr>"

record JITConfigRequest =
  jrName :: string
  jrRunnerGroupID :: int
  jrLabels :: "string list"
  jrWorkFolder :: string

record JITConfigResponse =
  jitRunnerID :: int
  jitEncoded :: string

record rawJITResponse =
  rawRunnerID :: int
  rawRunnerLabels :: "string list"
  rawEncodedJITConfig :: string

definition zero_rawJIT :: rawJITResponse where
  "zero_rawJIT = \<lparr>rawRunnerID = 0, rawRunnerLabels = [], rawEncodedJITConfig = []\<rparr>"

record contentsResponse =
  crContent :: string
  crEncoding :: string

datatype document =
    DRuns "WorkflowRun list"
  | DJobs "WorkflowJob list"
  | DJob WorkflowJob
  | DRunner Runner
  | DRunners "Runner list"
  | DJIT rawJITResponse
  | DJITBroken rawJITResponse string
  | DContents contentsResponse
  | DMalformed string

fun decode_runs :: "document \<Rightarrow> gerr + WorkflowRun list" where
  "decode_runs (DRuns xs) = Inr xs"
| "decode_runs (DMalformed e) = Inl (Plain e)"
| "decode_runs (DJITBroken r e) = Inl (Plain e)"
| "decode_runs _ = Inr []"

fun decode_jobs :: "document \<Rightarrow> gerr + WorkflowJob list" where
  "decode_jobs (DJobs xs) = Inr xs"
| "decode_jobs (DMalformed e) = Inl (Plain e)"
| "decode_jobs (DJITBroken r e) = Inl (Plain e)"
| "decode_jobs _ = Inr []"

fun decode_job :: "document \<Rightarrow> gerr + WorkflowJob" where
  "decode_job (DJob j) = Inr j"
| "decode_job (DMalformed e) = Inl (Plain e)"
| "decode_job (DJITBroken r e) = Inl (Plain e)"
| "decode_job _ = Inr zero_WorkflowJob"

fun decode_runner :: "document \<Rightarrow> gerr + Runner" where
  "decode_runner (DRunner r) = Inr r"
| "decode_runner (DMalformed e) = Inl (Plain e)"
| "decode_runner (DJITBroken r e) = Inl (Plain e)"
| "decode_runner _ = Inr zero_Runner"

fun decode_runners :: "document \<Rightarrow> gerr + Runner list" where
  "decode_runners (DRunners xs) = Inr xs"
| "decode_runners (DMalformed e) = Inl (Plain e)"
| "decode_runners (DJITBroken r e) = Inl (Plain e)"
| "decode_runners _ = Inr []"

text \<open>The JIT decoder returns what it read together with the error, if any.\<close>

fun decode_JIT :: "document \<Rightarrow> rawJITResponse \<times> gerr option" where
  "decode_JIT (DJIT r) = (r, None)"
| "decode_JIT (DJITBroken r e) = (r, Some (Plain e))"
| "decode_JIT (DMalformed e) = (zero_rawJIT, Some (Plain e))"
| "decode_JIT _ = (zero_rawJIT, None)"

fun decode_contents :: "document \<Rightarrow> gerr + contentsResponse" where
  "decode_contents (DContents c) = Inr c"
| "decode_contents (DMalformed e) = Inl (Plain e)"
| "decode_contents (DJITBroken r e) = Inl (Plain e)"
| "decode_contents _ = Inr \<lparr>crContent = [], crEncoding = []\<rparr>"

record Response =
  rpStatus :: int
  rpHeader :: "(string, string) gomap"
  rpBody :: document

text \<open>\<open>Header.Get\<close>: the value, or the empty string.\<close>

definition header_get :: "(string, string) gomap \<Rightarrow> string \<Rightarrow> string" where
  "header_get h k = lookup_or [] h k"

definition ParseRateLimit :: "(string, string) gomap \<Rightarrow> RateLimitInfo" where
  "ParseRateLimit h =
     \<lparr>rlInfoLimit = atoi_value (header_get h ''X-RateLimit-Limit''),
      rlInfoRemaining = atoi_value (header_get h ''X-RateLimit-Remaining''),
      rlInfoResetUnix = atoi_value (header_get h ''X-RateLimit-Reset'')\<rparr>"

definition newestRateLimit :: "RateLimitInfo \<Rightarrow> RateLimitInfo \<Rightarrow> RateLimitInfo" where
  "newestRateLimit current candidate =
     (if rlInfoLimit candidate \<noteq> 0 \<or> rlInfoRemaining candidate \<noteq> 0 \<or> rlInfoResetUnix candidate \<noteq> 0
      then candidate else current)"

definition responseError :: "Response \<Rightarrow> string \<Rightarrow> gerr" where
  "responseError resp operation =
     (let st = rpStatus resp;
          s = (if st = 429 then Sentinel ErrRateLimited
               else if st = 403 \<and> header_get (rpHeader resp) ''X-RateLimit-Remaining'' = ''0''
               then Sentinel ErrRateLimited
               else if st = 401 \<or> st = 403 then Sentinel ErrAuthFailed
               else if st = 404 \<and> Contains operation ''runner'' then Sentinel ErrRunnerNotFound
               else Plain ''unexpected response'')
      in APIError st (ParseRateLimit (rpHeader resp)) s operation)"

definition containsAllLabels :: "string list \<Rightarrow> string list \<Rightarrow> bool" where
  "containsAllLabels got required =
     (let s = map ToLower got in list_all (\<lambda>l. ToLower l \<in> set s) required)"

definition workflowJobMatchesRunner :: "WorkflowJob \<Rightarrow> int \<Rightarrow> string \<Rightarrow> bool" where
  "workflowJobMatchesRunner job runnerID runnerName =
     (if wjStatus job \<noteq> ''in_progress'' \<and> wjStatus job \<noteq> ''completed'' then False
      else if wjRunnerID job > 0 \<and> runnerID > 0 then wjRunnerID job = runnerID
      else runnerName \<noteq> [] \<and> wjRunnerName job = runnerName)"

section \<open>Lemmas\<close>

lemma containsAllLabels_iff:
  "containsAllLabels got required \<longleftrightarrow> ToLower ` set required \<subseteq> ToLower ` set got"
  by (auto simp: containsAllLabels_def list_all_iff)

lemma responseError_status [simp]:
  "ErrorStatus (responseError resp op) = rpStatus resp"
  "ErrorRateLimit (responseError resp op) = ParseRateLimit (rpHeader resp)"
  by (simp_all add: responseError_def ErrorStatus_def ErrorRateLimit_def Let_def)

lemma responseError_rate_limited:
  "err_is (responseError resp op) ErrRateLimited \<longleftrightarrow>
     rpStatus resp = 429 \<or>
     rpStatus resp = 403 \<and> header_get (rpHeader resp) ''X-RateLimit-Remaining'' = ''0''"
  by (auto simp: responseError_def Let_def)

lemma responseError_auth:
  "err_is (responseError resp op) ErrAuthFailed \<longleftrightarrow>
     rpStatus resp = 401 \<or>
     rpStatus resp = 403 \<and> header_get (rpHeader resp) ''X-RateLimit-Remaining'' \<noteq> ''0''"
  by (auto simp: responseError_def Let_def)

end
