(* ===== verification/GH_Client.thy ===== *)
theory GH_Client
  imports GH_Data
begin

text \<open>
  The GitHub REST client: \<open>client.go\<close>, \<open>jit.go\<close>, \<open>contents.go\<close> and \<open>queue.go\<close> of package
  \<open>internal/github\<close>.

  GitHub itself and the credential provider are the environment, the record \<open>Client\<close>: what
  the \<open>n\<close>-th call gets, as a function of \<open>n\<close> and of the request, so that two equal requests
  may be answered differently. A cancelled or expired context shows as a transport error.
  \<open>GHState\<close> counts the calls made and records what the request observer saw.

  The listings follow pages until a short one, which a server can postpone for ever: they are
  partial functions into \<open>option\<close>. The bounded job search always ends and is a total function.
\<close>

section \<open>The client\<close>

record Client =
  clToken :: "nat \<Rightarrow> gerr + string"
  clHTTP :: "nat \<Rightarrow> string \<Rightarrow> string \<Rightarrow> JITConfigRequest option \<Rightarrow> gerr + Response"
  clConditional :: "nat \<Rightarrow> string \<Rightarrow> string \<Rightarrow> gerr + Response"

record GHState =
  ghCalls :: nat
  ghObserved :: "(string \<times> string \<times> string) list"

definition gh_observe :: "string \<Rightarrow> string \<Rightarrow> gerr + Response \<Rightarrow> GHState \<Rightarrow> GHState" where
  "gh_observe method path r g =
     g\<lparr>ghObserved := ghObserved g @
         [(method, path, case r of Inl _ \<Rightarrow> ''transport_error'' | Inr resp \<Rightarrow> show_int (rpStatus resp))]\<rparr>"

definition gh_Do ::
  "Client \<Rightarrow> string \<Rightarrow> string \<Rightarrow> JITConfigRequest option \<Rightarrow> GHState \<Rightarrow> (gerr + Response) \<times> GHState" where
  "gh_Do c method path body g =
     (let n = ghCalls g; g1 = g\<lparr>ghCalls := n + 1\<rparr>
      in case clToken c n of
           Inl e \<Rightarrow> (Inl (Wrap ''github: get token: '' e []), g1)
         | Inr tok \<Rightarrow> (let r = clHTTP c n method path body in (r, gh_observe method path r g1)))"

definition githubPageSize :: nat where
  "githubPageSize = 100"

section \<open>JIT runners\<close>

definition jitConfigResponse :: "rawJITResponse \<Rightarrow> JITConfigResponse" where
  "jitConfigResponse raw = \<lparr>jitRunnerID = rawRunnerID raw, jitEncoded = rawEncodedJITConfig raw\<rparr>"

definition zero_JITConfigResponse :: JITConfigResponse where
  "zero_JITConfigResponse = \<lparr>jitRunnerID = 0, jitEncoded = []\<rparr>"

definition GenerateJITConfig ::
  "Client \<Rightarrow> string \<Rightarrow> JITConfigRequest \<Rightarrow> GHState \<Rightarrow> (JITConfigResponse \<times> gerr option) \<times> GHState" where
  "GenerateJITConfig c repo req g =
     (let req1 = (if jrRunnerGroupID req = 0 then req\<lparr>jrRunnerGroupID := 1\<rparr> else req);
          req2 = (if jrWorkFolder req1 = [] then req1\<lparr>jrWorkFolder := ''_work''\<rparr> else req1)
      in case gh_Do c ''POST'' (''/repos/'' @ repo @ ''/actions/runners/generate-jitconfig'') (Some req2) g of
           (Inl e, g1) \<Rightarrow> ((zero_JITConfigResponse, Some e), g1)
         | (Inr resp, g1) \<Rightarrow>
             if rpStatus resp = 422
             then ((zero_JITConfigResponse, Some (responseError resp ''generate JIT config'')), g1)
             else if rpStatus resp \<noteq> 201 \<and> rpStatus resp \<noteq> 200
             then ((zero_JITConfigResponse, Some (responseError resp ''generate JIT config'')), g1)
             else (case decode_JIT (rpBody resp) of
                (raw, Some e) \<Rightarrow> ((jitConfigResponse raw, Some (Wrap ''github: decode jit response: '' e [])), g1)
              | (raw, None) \<Rightarrow>
                  if rawRunnerLabels raw \<noteq> []
                  then (case find (\<lambda>want. want \<notin> set (rawRunnerLabels raw)) (jrLabels req2) of
                          Some want \<Rightarrow>
                            ((jitConfigResponse raw,
                              Some (Wrap [] (Sentinel ErrJITLabelMismatch)
                                ('': requested '' @ [CHR 0x22] @ want @ [CHR 0x22] @ '', response missing it''))), g1)
                        | None \<Rightarrow> ((jitConfigResponse raw, None), g1))
                  else ((jitConfigResponse raw, None), g1)))"

definition DeleteRunner :: "Client \<Rightarrow> string \<Rightarrow> int \<Rightarrow> GHState \<Rightarrow> gerr option \<times> GHState" where
  "DeleteRunner c repo runnerID g =
     (case gh_Do c ''DELETE'' (''/repos/'' @ repo @ ''/actions/runners/'' @ show_int runnerID) None g of
        (Inl e, g1) \<Rightarrow> (Some e, g1)
      | (Inr resp, g1) \<Rightarrow>
          if rpStatus resp = 204 \<or> rpStatus resp = 404 then (None, g1)
          else (Some (responseError resp ''delete runner''), g1))"

definition GetRunner ::
  "Client \<Rightarrow> string \<Rightarrow> int \<Rightarrow> GHState \<Rightarrow> ((gerr + Runner) \<times> RateLimitInfo) \<times> GHState" where
  "GetRunner c repo runnerID g =
     (case gh_Do c ''GET'' (''/repos/'' @ repo @ ''/actions/runners/'' @ show_int runnerID) None g of
        (Inl e, g1) \<Rightarrow> ((Inl e, zero_RateLimit), g1)
      | (Inr resp, g1) \<Rightarrow>
          let lim = ParseRateLimit (rpHeader resp)
          in if rpStatus resp \<noteq> 200 then ((Inl (responseError resp ''get runner''), lim), g1)
             else (case decode_runner (rpBody resp) of
                Inl e \<Rightarrow> ((Inl (Wrap ''github: decode runner: '' e []), lim), g1)
              | Inr r \<Rightarrow> ((Inr r, lim), g1)))"

definition GetWorkflowJob ::
  "Client \<Rightarrow> string \<Rightarrow> int \<Rightarrow> GHState \<Rightarrow> ((gerr + WorkflowJob) \<times> RateLimitInfo) \<times> GHState" where
  "GetWorkflowJob c repo jobID g =
     (case gh_Do c ''GET'' (''/repos/'' @ repo @ ''/actions/jobs/'' @ show_int jobID) None g of
        (Inl e, g1) \<Rightarrow> ((Inl e, zero_RateLimit), g1)
      | (Inr resp, g1) \<Rightarrow>
          let lim = ParseRateLimit (rpHeader resp)
          in if rpStatus resp \<noteq> 200 then ((Inl (responseError resp ''get workflow job''), lim), g1)
             else (case decode_job (rpBody resp) of
                Inl e \<Rightarrow> ((Inl (Wrap ''github: decode workflow job: '' e []), lim), g1)
              | Inr j \<Rightarrow> ((Inr j, lim), g1)))"

section \<open>Listings\<close>

text \<open>The loop the three listings share: pages from 1 until one is shorter than the page size.\<close>

partial_function (option) list_pages ::
  "Client \<Rightarrow> (nat \<Rightarrow> string) \<Rightarrow> string \<Rightarrow> string \<Rightarrow> (document \<Rightarrow> gerr + 'a list) \<Rightarrow>
   nat \<Rightarrow> 'a list \<Rightarrow> RateLimitInfo \<Rightarrow> GHState \<Rightarrow> (((gerr + 'a list) \<times> RateLimitInfo) \<times> GHState) option" where
  "list_pages c path operation what dec page all lim g =
     (case gh_Do c ''GET'' (path page) None g of
        (Inl e, g1) \<Rightarrow> Some ((Inl e, lim), g1)
      | (Inr resp, g1) \<Rightarrow>
          let lim1 = newestRateLimit lim (ParseRateLimit (rpHeader resp))
          in if rpStatus resp \<noteq> 200 then Some ((Inl (responseError resp operation), lim1), g1)
             else (case dec (rpBody resp) of
                Inl e \<Rightarrow> Some ((Inl (Wrap (''github: decode '' @ what @ '': '') e []), lim1), g1)
              | Inr xs \<Rightarrow>
                  if length xs < githubPageSize then Some ((Inr (all @ xs), lim1), g1)
                  else list_pages c path operation what dec (page + 1) (all @ xs) lim1 g1))"

declare list_pages.simps [code]

definition page_query :: "nat \<Rightarrow> string" where
  "page_query page = ''per_page='' @ show_nat githubPageSize @ ''&page='' @ show_nat page"

definition ListRunners ::
  "Client \<Rightarrow> string \<Rightarrow> GHState \<Rightarrow> (((gerr + Runner list) \<times> RateLimitInfo) \<times> GHState) option" where
  "ListRunners c repo g =
     list_pages c (\<lambda>page. ''/repos/'' @ repo @ ''/actions/runners?'' @ page_query page)
       ''list runners'' ''runners'' decode_runners 1 [] zero_RateLimit g"

definition listWorkflowRuns ::
  "Client \<Rightarrow> string \<Rightarrow> string \<Rightarrow> GHState \<Rightarrow> (((gerr + WorkflowRun list) \<times> RateLimitInfo) \<times> GHState) option" where
  "listWorkflowRuns c repo status g =
     list_pages c (\<lambda>page. ''/repos/'' @ repo @ ''/actions/runs?status='' @ QueryEscape status @ ''&'' @ page_query page)
       ''list workflow runs'' ''workflow runs'' decode_runs 1 [] zero_RateLimit g"

definition listWorkflowJobs ::
  "Client \<Rightarrow> string \<Rightarrow> int \<Rightarrow> GHState \<Rightarrow> (((gerr + WorkflowJob list) \<times> RateLimitInfo) \<times> GHState) option" where
  "listWorkflowJobs c repo runID g =
     list_pages c (\<lambda>page. ''/repos/'' @ repo @ ''/actions/runs/'' @ show_int runID @ ''/jobs?filter=latest&'' @ page_query page)
       ''list workflow jobs'' ''workflow jobs'' decode_jobs 1 [] zero_RateLimit g"

section \<open>Demand\<close>

record JobDemand =
  jdJobs :: "WorkflowJob list"
  jdRateLimit :: RateLimitInfo

definition demand_Count :: "JobDemand \<Rightarrow> int" where
  "demand_Count d = int (length (jdJobs d))"

text \<open>The first occurrences of the run identifiers, given those already seen.\<close>

fun fresh_runs :: "int list \<Rightarrow> WorkflowRun list \<Rightarrow> WorkflowRun list" where
  "fresh_runs seen [] = []"
| "fresh_runs seen (r # rs) =
     (if wrID r \<in> set seen then fresh_runs seen rs else r # fresh_runs (wrID r # seen) rs)"

definition eligible_job :: "string list \<Rightarrow> string list \<Rightarrow> WorkflowJob \<Rightarrow> bool" where
  "eligible_job required available job =
     (wjStatus job = ''queued'' \<and> containsAllLabels (wjLabels job) required \<and>
      containsAllLabels available (wjLabels job))"

fun select_jobs ::
  "string list \<Rightarrow> string list \<Rightarrow> int \<Rightarrow> int list \<Rightarrow> WorkflowJob list \<Rightarrow> WorkflowJob list \<times> int list" where
  "select_jobs required available runID seen [] = ([], seen)"
| "select_jobs required available runID seen (job # js) =
     (if wjStatus job \<noteq> ''queued'' \<or> wjID job \<in> set seen \<or>
         (\<not> containsAllLabels (wjLabels job) required \<or> \<not> containsAllLabels available (wjLabels job))
      then select_jobs required available runID seen js
      else let (sel, seen') = select_jobs required available runID (wjID job # seen) js
           in (job\<lparr>wjRunID := runID\<rparr> # sel, seen'))"

fun list_statuses ::
  "Client \<Rightarrow> string \<Rightarrow> string list \<Rightarrow> int list \<Rightarrow> WorkflowRun list \<Rightarrow> RateLimitInfo \<Rightarrow> GHState \<Rightarrow>
   ((gerr + (WorkflowRun list \<times> RateLimitInfo)) \<times> GHState) option" where
  "list_statuses c repo [] seen runs lim g = Some (Inr (runs, lim), g)"
| "list_statuses c repo (status # sts) seen runs lim g =
     (case listWorkflowRuns c repo status g of
        None \<Rightarrow> None
      | Some ((Inl e, _), g1) \<Rightarrow> Some (Inl e, g1)
      | Some ((Inr listed, l), g1) \<Rightarrow>
          let fresh = fresh_runs seen listed
          in list_statuses c repo sts (map wrID fresh @ seen) (runs @ fresh) (newestRateLimit lim l) g1)"

fun list_run_jobs ::
  "Client \<Rightarrow> string \<Rightarrow> string list \<Rightarrow> string list \<Rightarrow> WorkflowRun list \<Rightarrow> int list \<Rightarrow> JobDemand \<Rightarrow> GHState \<Rightarrow>
   ((gerr + JobDemand) \<times> GHState) option" where
  "list_run_jobs c repo required available [] seen d g = Some (Inr d, g)"
| "list_run_jobs c repo required available (run # runs) seen d g =
     (case listWorkflowJobs c repo (wrID run) g of
        None \<Rightarrow> None
      | Some ((Inl e, _), g1) \<Rightarrow> Some (Inl e, g1)
      | Some ((Inr jobs, l), g1) \<Rightarrow>
          let (sel, seen') = select_jobs required available (wrID run) seen jobs
          in list_run_jobs c repo required available runs seen'
               \<lparr>jdJobs = jdJobs d @ sel, jdRateLimit = newestRateLimit (jdRateLimit d) l\<rparr> g1)"

definition EligibleQueuedJobs ::
  "Client \<Rightarrow> string \<Rightarrow> string list \<Rightarrow> string list list \<Rightarrow> GHState \<Rightarrow> ((gerr + JobDemand) \<times> GHState) option" where
  "EligibleQueuedJobs c repo required runnerLabels g =
     (let available = (case runnerLabels of [] \<Rightarrow> required | a # _ \<Rightarrow> a)
      in case list_statuses c repo [''queued'', ''in_progress''] [] [] zero_RateLimit g of
           None \<Rightarrow> None
         | Some (Inl e, g1) \<Rightarrow> Some (Inl e, g1)
         | Some (Inr (runs, lim), g1) \<Rightarrow>
             list_run_jobs c repo required available runs [] \<lparr>jdJobs = [], jdRateLimit = lim\<rparr> g1)"

section \<open>The bounded search for a runner's job\<close>

record RecentJobSearchBounds =
  rbSince :: time
  rbPriorityRunIDs :: "int list"
  rbMaxRuns :: int
  rbMaxAPICalls :: int

record RecentJobSearchResult =
  rjJob :: WorkflowJob
  rjFound :: bool
  rjRateLimit :: RateLimitInfo
  rjRunsExamined :: int
  rjAPICalls :: int

record recentJobSearcher =
  srRepo :: string
  srRunnerID :: int
  srRunnerName :: string
  srBounds :: RecentJobSearchBounds

definition zero_SearchResult :: RecentJobSearchResult where
  "zero_SearchResult = \<lparr>rjJob = zero_WorkflowJob, rjFound = False, rjRateLimit = zero_RateLimit,
     rjRunsExamined = 0, rjAPICalls = 0\<rparr>"

definition boundError :: "RecentJobSearchResult \<Rightarrow> string \<Rightarrow> gerr" where
  "boundError r bound =
     Wrap [] (Sentinel ErrRecentJobSearchIndeterminate)
       ('': '' @ bound @ '' reached after '' @ show_int (rjRunsExamined r) @ '' runs and '' @
        show_int (rjAPICalls r) @ '' API calls'')"

definition search_do ::
  "Client \<Rightarrow> recentJobSearcher \<Rightarrow> string \<Rightarrow> RecentJobSearchResult \<Rightarrow> GHState \<Rightarrow>
   (gerr + Response) \<times> RecentJobSearchResult \<times> GHState" where
  "search_do c s path r g =
     (if rbMaxAPICalls (srBounds s) \<le> rjAPICalls r then (Inl (boundError r ''API call limit''), r, g)
      else let r1 = r\<lparr>rjAPICalls := rjAPICalls r + 1\<rparr>
           in case gh_Do c ''GET'' path None g of
                (Inl e, g1) \<Rightarrow> (Inl e, r1, g1)
              | (Inr resp, g1) \<Rightarrow>
                  (Inr resp,
                   r1\<lparr>rjRateLimit := newestRateLimit (rjRateLimit r1) (ParseRateLimit (rpHeader resp))\<rparr>, g1))"

lemma search_do_calls:
  "search_do c s path r g = (Inr resp, r1, g1) \<Longrightarrow>
   rjAPICalls r < rbMaxAPICalls (srBounds s) \<and> rjAPICalls r1 = rjAPICalls r + 1"
  by (auto simp: search_do_def Let_def split: if_splits sum.splits prod.splits)

text \<open>One turn of the page loop of \<open>searchRun\<close>: it fails, finds the job, sees the last page, or
  goes on to the next page.\<close>

datatype page_outcome = PageError gerr | PageMatch WorkflowJob | PageLast | PageNext

definition search_page ::
  "Client \<Rightarrow> recentJobSearcher \<Rightarrow> int \<Rightarrow> nat \<Rightarrow> RecentJobSearchResult \<Rightarrow> GHState \<Rightarrow>
   page_outcome \<times> RecentJobSearchResult \<times> GHState" where
  "search_page c s runID page r g =
     (case search_do c s
         (''/repos/'' @ srRepo s @ ''/actions/runs/'' @ show_int runID @ ''/jobs?'' @
          values_encode [(''filter'', ''latest''), (''per_page'', show_nat githubPageSize),
            (''page'', show_nat page)]) r g of
        (Inl e, r1, g1) \<Rightarrow> (PageError e, r1, g1)
      | (Inr resp, r1, g1) \<Rightarrow>
          if rpStatus resp \<noteq> 200
          then (PageError (responseError resp ''list recent workflow jobs''), r1, g1)
          else (case decode_jobs (rpBody resp) of
             Inl e \<Rightarrow> (PageError (Wrap ''github: decode recent workflow jobs: '' e []), r1, g1)
           | Inr jobs \<Rightarrow>
               (case find (\<lambda>j. workflowJobMatchesRunner j (srRunnerID s) (srRunnerName s)) jobs of
                  Some job \<Rightarrow> (PageMatch (job\<lparr>wjRunID := runID\<rparr>), r1, g1)
                | None \<Rightarrow> (if length jobs < githubPageSize then PageLast else PageNext, r1, g1))))"

lemma search_page_next:
  "search_page c s runID page r g = (PageNext, r1, g1) \<Longrightarrow>
   rjAPICalls r < rbMaxAPICalls (srBounds s) \<and> rjAPICalls r1 = rjAPICalls r + 1"
  by (auto simp: search_page_def split: prod.splits sum.splits option.splits if_splits
      dest!: search_do_calls)

function searchRun ::
  "Client \<Rightarrow> recentJobSearcher \<Rightarrow> int \<Rightarrow> nat \<Rightarrow> RecentJobSearchResult \<Rightarrow> GHState \<Rightarrow>
   (gerr + bool) \<times> RecentJobSearchResult \<times> GHState" where
  "searchRun c s runID page r g =
     (case search_page c s runID page r g of
        (PageError e, r1, g1) \<Rightarrow> (Inl e, r1, g1)
      | (PageMatch job, r1, g1) \<Rightarrow> (Inr True, r1\<lparr>rjJob := job, rjFound := True\<rparr>, g1)
      | (PageLast, r1, g1) \<Rightarrow> (Inr False, r1, g1)
      | (PageNext, r1, g1) \<Rightarrow> searchRun c s runID (page + 1) r1 g1)"
  by pat_completeness auto
termination
  by (relation "measure (\<lambda>(c, s, runID, page, r, g). nat (rbMaxAPICalls (srBounds s) - rjAPICalls r))")
    (auto dest!: search_page_next [OF sym])

declare searchRun.simps [simp del]

definition workflowRunsPage ::
  "Client \<Rightarrow> recentJobSearcher \<Rightarrow> string \<Rightarrow> nat \<Rightarrow> RecentJobSearchResult \<Rightarrow> GHState \<Rightarrow>
   (gerr + WorkflowRun list) \<times> RecentJobSearchResult \<times> GHState" where
  "workflowRunsPage c s status page r g =
     (case search_do c s
         (''/repos/'' @ srRepo s @ ''/actions/runs?'' @
          values_encode [(''status'', status), (''created'', ''>='' @ format_RFC3339 (rbSince (srBounds s))),
            (''per_page'', show_nat githubPageSize), (''page'', show_nat page)]) r g of
        (Inl e, r1, g1) \<Rightarrow> (Inl e, r1, g1)
      | (Inr resp, r1, g1) \<Rightarrow>
          if rpStatus resp \<noteq> 200 then (Inl (responseError resp ''list recent workflow runs''), r1, g1)
          else (case decode_runs (rpBody resp) of
             Inl e \<Rightarrow> (Inl (Wrap ''github: decode recent workflow runs: '' e []), r1, g1)
           | Inr runs \<Rightarrow> (Inr runs, r1, g1)))"

text \<open>The loop over run identifiers, with those already searched; it is left by an error, by
  the run bound, or by a match.\<close>

fun search_run_ids ::
  "Client \<Rightarrow> recentJobSearcher \<Rightarrow> int list \<Rightarrow> int list \<Rightarrow> RecentJobSearchResult \<Rightarrow> GHState \<Rightarrow>
   (gerr + bool) \<times> int list \<times> RecentJobSearchResult \<times> GHState" where
  "search_run_ids c s [] seen r g = (Inr False, seen, r, g)"
| "search_run_ids c s (runID # ids) seen r g =
     (if runID \<in> set seen then search_run_ids c s ids seen r g
      else if rbMaxRuns (srBounds s) \<le> rjRunsExamined r
      then (Inl (boundError r ''workflow run limit''), runID # seen, r, g)
      else (case searchRun c s runID 1 (r\<lparr>rjRunsExamined := rjRunsExamined r + 1\<rparr>) g of
              (Inl e, r1, g1) \<Rightarrow> (Inl e, runID # seen, r1, g1)
            | (Inr True, r1, g1) \<Rightarrow> (Inr True, runID # seen, r1, g1)
            | (Inr False, r1, g1) \<Rightarrow> search_run_ids c s ids (runID # seen) r1 g1))"

text \<open>The searcher's counters stay within the bounds and never go back; the verdict \<open>Found\<close> is
  only set together with a job that matches the runner.\<close>

definition search_ok ::
  "recentJobSearcher \<Rightarrow> RecentJobSearchResult \<times> GHState \<Rightarrow> RecentJobSearchResult \<times> GHState \<Rightarrow> bool" where
  "search_ok s rg rg1 = (case (rg, rg1) of ((r, g), (r1, g1)) \<Rightarrow>
      rjAPICalls r \<le> rjAPICalls r1 \<and> rjRunsExamined r \<le> rjRunsExamined r1 \<and>
      int (ghCalls g1) - int (ghCalls g) = rjAPICalls r1 - rjAPICalls r \<and>
      (rjAPICalls r \<le> rbMaxAPICalls (srBounds s) \<longrightarrow> rjAPICalls r1 \<le> rbMaxAPICalls (srBounds s)) \<and>
      (rjRunsExamined r \<le> rbMaxRuns (srBounds s) \<longrightarrow> rjRunsExamined r1 \<le> rbMaxRuns (srBounds s)) \<and>
      (rjFound r1 \<longrightarrow> rjFound r \<and> rjJob r1 = rjJob r \<or>
         workflowJobMatchesRunner (rjJob r1) (srRunnerID s) (srRunnerName s)))"

lemma search_ok_refl [simp]: "search_ok s rg rg"
  by (cases rg) (simp add: search_ok_def)

lemma search_ok_trans: "search_ok s rg rg1 \<Longrightarrow> search_ok s rg1 rg2 \<Longrightarrow> search_ok s rg rg2"
  by (auto simp: search_ok_def split_def)

lemma gh_Do_calls: "ghCalls (snd (gh_Do c m path b g)) = ghCalls g + 1"
  by (simp add: gh_Do_def gh_observe_def Let_def split: sum.split)

lemma search_do_ok: "search_ok s (r, g) (snd (search_do c s path r g))"
  using gh_Do_calls [of c "''GET''" path None g]
  by (auto simp: search_do_def search_ok_def Let_def split: sum.split prod.split)

lemma search_page_ok:
  assumes "search_page c s runID page r g = (o1, r1, g1)"
  shows "search_ok s (r, g) (r1, g1)"
    and "o1 = PageMatch job \<Longrightarrow> workflowJobMatchesRunner job (srRunnerID s) (srRunnerName s)"
proof -
  show "search_ok s (r, g) (r1, g1)"
    using assms by (auto simp: search_page_def split: prod.splits sum.splits option.splits if_splits)
      (metis search_do_ok snd_conv)+
  show "o1 = PageMatch job \<Longrightarrow> workflowJobMatchesRunner job (srRunnerID s) (srRunnerName s)"
    using assms by (auto simp: search_page_def workflowJobMatchesRunner_def find_Some_iff
        split: prod.splits sum.splits option.splits if_splits)
qed

lemma searchRun_ok: "search_ok s (r, g) (snd (searchRun c s runID page r g))"
proof (induction c s runID page r g rule: searchRun.induct)
  case (1 c s runID page r g)
  obtain o1 r1 g1 where pg: "search_page c s runID page r g = (o1, r1, g1)" by (metis prod_cases3)
  note ok = search_page_ok [OF pg]
  show ?case
  proof (cases o1)
    case (PageMatch job)
    then show ?thesis using ok by (simp add: searchRun.simps pg) (auto simp: search_ok_def)
  next
    case PageNext
    then show ?thesis
      using ok(1) search_ok_trans 1 [OF pg [symmetric] PageNext refl]
      by (subst searchRun.simps) (simp add: pg)
  qed (use ok(1) in \<open>simp_all add: searchRun.simps pg\<close>)
qed

lemma search_run_ids_ok: "search_ok s (r, g) (snd (snd (search_run_ids c s ids seen r g)))"
proof (induction ids arbitrary: seen r g)
  case (Cons runID ids)
  let ?r = "r\<lparr>rjRunsExamined := rjRunsExamined r + 1\<rparr>"
  obtain x r1 g1 where sr: "searchRun c s runID 1 ?r g = (x, r1, g1)" by (metis prod_cases3)
  have bump: "search_ok s (r, g) (?r, g)" if "rjRunsExamined r < rbMaxRuns (srBounds s)"
    using that by (simp add: search_ok_def)
  have "search_ok s (?r, g) (r1, g1)" using searchRun_ok [of s ?r g c runID 1] sr by simp
  with bump Cons.IH [of r g seen] Cons.IH [of r1 g1 "runID # seen"] show ?case
    by (cases x rule: sum.exhaust)
      (auto simp: sr [unfolded One_nat_def] split: bool.split intro: search_ok_trans)
qed simp

lemma workflowRunsPage_ok:
  "workflowRunsPage c s status page r g = (x, r1, g1) \<Longrightarrow> search_ok s (r, g) (r1, g1)"
  "workflowRunsPage c s status page r g = (Inr runs, r1, g1) \<Longrightarrow>
   rjAPICalls r < rbMaxAPICalls (srBounds s) \<and> rjAPICalls r1 = rjAPICalls r + 1"
proof -
  assume "workflowRunsPage c s status page r g = (x, r1, g1)"
  then show "search_ok s (r, g) (r1, g1)"
    by (auto simp: workflowRunsPage_def split: prod.splits sum.splits if_splits)
      (metis search_do_ok snd_conv)+
next
  assume "workflowRunsPage c s status page r g = (Inr runs, r1, g1)"
  then show "rjAPICalls r < rbMaxAPICalls (srBounds s) \<and> rjAPICalls r1 = rjAPICalls r + 1"
    by (auto simp: workflowRunsPage_def split: prod.splits sum.splits if_splits dest!: search_do_calls)
qed

text \<open>The page loop of one run status, and the loop over the three statuses.\<close>

function search_status ::
  "Client \<Rightarrow> recentJobSearcher \<Rightarrow> string \<Rightarrow> nat \<Rightarrow> int list \<Rightarrow> RecentJobSearchResult \<Rightarrow> GHState \<Rightarrow>
   (gerr + bool) \<times> int list \<times> RecentJobSearchResult \<times> GHState" where
  "search_status c s status page seen r g =
     (case workflowRunsPage c s status page r g of
        (Inl e, r1, g1) \<Rightarrow> (Inl e, seen, r1, g1)
      | (Inr runs, r1, g1) \<Rightarrow>
          (case search_run_ids c s (map wrID runs) seen r1 g1 of
             (out, seen2, r2, g2) \<Rightarrow>
               if out = Inr False \<and> \<not> length runs < githubPageSize
               then search_status c s status (page + 1) seen2 r2 g2
               else (out, seen2, r2, g2)))"
  by pat_completeness auto
termination
proof (relation "measure (\<lambda>(c, s, status, page, seen, r, g). nat (rbMaxAPICalls (srBounds s) - rjAPICalls r))",
    goal_cases)
  case (2 c s status page seen r g x y runs r1 g1 out z seen2 y2 r2 g2)
  then have "workflowRunsPage c s status page r g = (Inr runs, r1, g1)"
    and "search_run_ids c s (map wrID runs) seen r1 g1 = (out, seen2, r2, g2)" by auto
  with workflowRunsPage_ok(2) search_run_ids_ok [of s r1 g1 c "map wrID runs" seen]
  show ?case by (fastforce simp: search_ok_def)
qed simp

declare search_status.simps [simp del]

fun search_statuses ::
  "Client \<Rightarrow> recentJobSearcher \<Rightarrow> string list \<Rightarrow> int list \<Rightarrow> RecentJobSearchResult \<Rightarrow> GHState \<Rightarrow>
   (RecentJobSearchResult \<times> gerr option) \<times> GHState" where
  "search_statuses c s [] seen r g = ((r, None), g)"
| "search_statuses c s (status # sts) seen r g =
     (case search_status c s status 1 seen r g of
        (Inl e, seen1, r1, g1) \<Rightarrow> ((r1, Some e), g1)
      | (Inr True, seen1, r1, g1) \<Rightarrow> ((r1, None), g1)
      | (Inr False, seen1, r1, g1) \<Rightarrow> search_statuses c s sts seen1 r1 g1)"

definition search_run ::
  "Client \<Rightarrow> recentJobSearcher \<Rightarrow> GHState \<Rightarrow> (RecentJobSearchResult \<times> gerr option) \<times> GHState" where
  "search_run c s g =
     (case search_run_ids c s (filter (\<lambda>i. \<not> i \<le> 0) (rbPriorityRunIDs (srBounds s))) []
             zero_SearchResult g of
        (Inl e, seen, r, g1) \<Rightarrow> ((r, Some e), g1)
      | (Inr True, seen, r, g1) \<Rightarrow> ((r, None), g1)
      | (Inr False, seen, r, g1) \<Rightarrow>
          search_statuses c s [''queued'', ''in_progress'', ''completed''] seen r g1)"

definition FindRecentWorkflowJobByRunner ::
  "Client \<Rightarrow> string \<Rightarrow> int \<Rightarrow> string \<Rightarrow> RecentJobSearchBounds \<Rightarrow> GHState \<Rightarrow>
   (RecentJobSearchResult \<times> gerr option) \<times> GHState" where
  "FindRecentWorkflowJobByRunner c repo runnerID runnerName bounds g =
     (if IsZero (rbSince bounds)
      then ((zero_SearchResult, Some (Plain ''github: recent job search requires a non-zero since time'')), g)
      else if rbMaxRuns bounds \<le> 0 \<or> rbMaxAPICalls bounds \<le> 0
      then ((zero_SearchResult, Some (Plain ''github: recent job search bounds must be positive'')), g)
      else if runnerID \<le> 0 \<and> runnerName = []
      then ((zero_SearchResult, Some (Plain ''github: recent job search requires a runner id or name'')), g)
      else search_run c \<lparr>srRepo = repo, srRunnerID = runnerID, srRunnerName = runnerName,
             srBounds = bounds\<rparr> g)"

section \<open>Repository contents\<close>

definition b64_val :: "char \<Rightarrow> nat option" where
  "b64_val c =
     (if is_upper c then Some (of_char c - 65)
      else if is_lower c then Some (of_char c - 71)
      else if is_digit c then Some (of_char c + 4)
      else if c = CHR ''+'' then Some 62
      else if c = CHR ''/'' then Some 63 else None)"

text \<open>\<open>base64.StdEncoding.DecodeString\<close>: carriage returns and line feeds are skipped, padding is
  mandatory, and the unused low bits of the last symbol may be anything.\<close>

fun b64_quads :: "string \<Rightarrow> string option" where
  "b64_quads [] = Some []"
| "b64_quads [a, b, c, d] =
     (if d = CHR ''='' then
        (if c = CHR ''='' then
           (case (b64_val a, b64_val b) of
              (Some x, Some y) \<Rightarrow> Some [char_of (x * 4 + y div 16)] | _ \<Rightarrow> None)
         else (case (b64_val a, b64_val b, b64_val c) of
              (Some x, Some y, Some z) \<Rightarrow> Some [char_of (x * 4 + y div 16), char_of (y mod 16 * 16 + z div 4)]
            | _ \<Rightarrow> None))
      else (case (b64_val a, b64_val b, b64_val c, b64_val d) of
              (Some x, Some y, Some z, Some w) \<Rightarrow>
                Some [char_of (x * 4 + y div 16), char_of (y mod 16 * 16 + z div 4), char_of (z mod 4 * 64 + w)]
            | _ \<Rightarrow> None))"
| "b64_quads (a # b # c # d # r) =
     (case (b64_val a, b64_val b, b64_val c, b64_val d, b64_quads r) of
        (Some x, Some y, Some z, Some w, Some rest) \<Rightarrow>
          Some (char_of (x * 4 + y div 16) # char_of (y mod 16 * 16 + z div 4) # char_of (z mod 4 * 64 + w) # rest)
      | _ \<Rightarrow> None)"
| "b64_quads _ = None"

definition b64_decode :: "string \<Rightarrow> string option" where
  "b64_decode s = b64_quads (filter (\<lambda>c. c \<noteq> CHR 0x0A \<and> c \<noteq> CHR 0x0D) s)"

definition GetRunnerYML ::
  "Client \<Rightarrow> string \<Rightarrow> string \<Rightarrow> GHState \<Rightarrow> (gerr + (string \<times> string \<times> bool)) \<times> GHState" where
  "GetRunnerYML c repo etag g =
     (let path = ''/repos/'' @ repo @ ''/contents/.github/runner.yml'';
          ctxt = ''github: get runner.yml for '' @ repo @ '': '';
          n = ghCalls g; g1 = g\<lparr>ghCalls := n + 1\<rparr>
      in case clToken c n of
           Inl e \<Rightarrow> (Inl (Wrap ''github: get token: '' e []), g1)
         | Inr tok \<Rightarrow>
             (let r = clConditional c n path etag; g2 = gh_observe ''GET'' path r g1
              in case r of
                   Inl e \<Rightarrow> (Inl (Wrap ctxt e []), g2)
                 | Inr resp \<Rightarrow>
                     if rpStatus resp = 304 then (Inr ([], [], True), g2)
                     else if rpStatus resp \<noteq> 200
                     then (Inl (Wrap ctxt (responseError resp ''get repository contents'') []), g2)
                     else (case decode_contents (rpBody resp) of
                        Inl e \<Rightarrow> (Inl (Wrap (ctxt @ ''decode JSON: '') e []), g2)
                      | Inr cr \<Rightarrow>
                          if crEncoding cr \<noteq> ''base64''
                          then (Inl (Plain (ctxt @ ''unexpected encoding '' @ crEncoding cr @ '' (want base64)'')), g2)
                          else (case b64_decode (filter (\<lambda>ch. ch \<noteq> CHR 0x0A) (crContent cr)) of
                             None \<Rightarrow> (Inl (Plain (ctxt @ ''base64 decode'')), g2)
                           | Some decoded \<Rightarrow>
                               (Inr (decoded, header_get (rpHeader resp) ''ETag'', False), g2)))))"

end
