(* ===== verification/Runner_YML.thy ===== *)
theory Runner_YML
  imports RS_Errors
begin

text \<open>
  The project's \<open>runner.yml\<close>: package \<open>internal/runneryml\<close>. The YAML library is a parameter of
  \<open>ParseBytes\<close>: a function from bytes to the decoded document or an error. The two regular
  expressions are written as the matchers they denote.
\<close>

section \<open>Data\<close>

text \<open>A decoded YAML value of type \<open>any\<close>, as \<open>security_overrides\<close> holds them.\<close>

datatype yval = YBool bool | YInt int | YStr string | YList "yval list" | YMap "(string \<times> yval) list" | YNull

record Resources =
  resMemory :: string
  resCPUs :: int
  resPIDs :: int

record DNSConfig =
  dnsHost :: "bool option"
  dnsServers :: "string list"
  dnsHostsFile :: string
  dnsWhitelistFile :: string
  dnsLogQueries :: "bool option"

record OrchestratorBlock =
  obTimeoutSeconds :: int
  obSecurityOverrides :: "(string, yval) gomap"
  obSeccompProfile :: string

record RunnerYML =
  ryRuntime :: string
  ryLabels :: "string list"
  ryVersion :: string
  ryResources :: Resources
  ryAllowDomains :: "string list"
  ryHTTPEgress :: "string list"
  ryTCPEgress :: "string list"
  ryDNS :: DNSConfig
  ryOrchestrator :: OrchestratorBlock

definition DefaultTimeoutSeconds :: int where
  "DefaultTimeoutSeconds = 21600"

section \<open>Operations\<close>

definition ParseBytes :: "(string \<Rightarrow> gerr + RunnerYML) \<Rightarrow> string \<Rightarrow> string \<Rightarrow> gerr + RunnerYML" where
  "ParseBytes yaml b src =
     (case yaml b of
        Inl e \<Rightarrow> Inl (Wrap (''runneryml: parse '' @ src @ '': '') e [])
      | Inr r \<Rightarrow>
          if obTimeoutSeconds (ryOrchestrator r) \<le> 0
          then Inr (r\<lparr>ryOrchestrator := (ryOrchestrator r)\<lparr>obTimeoutSeconds := DefaultTimeoutSeconds\<rparr>\<rparr>)
          else Inr r)"

definition ResolvedHTTPEgress :: "RunnerYML \<Rightarrow> string list" where
  "ResolvedHTTPEgress r = (if ryHTTPEgress r \<noteq> [] then ryHTTPEgress r else ryAllowDomains r)"

definition DeprecationWarnings :: "RunnerYML \<Rightarrow> string list" where
  "DeprecationWarnings r =
     (if ryAllowDomains r \<noteq> [] \<and> ryHTTPEgress r = [] then
        [''runner.yml: egress.allow_domains is deprecated; rename the key to http_egress. '' @
         ''Backward-compatibility alias will be removed in the next major release.'']
      else [])"

definition host_char :: "char \<Rightarrow> bool" where
  "host_char c = (is_alnum c \<or> c = CHR ''.'' \<or> c = CHR ''-'')"

text \<open>\<open>^[a-zA-Z0-9.-]+:[0-9]{1,5}$\<close>; the host class has no colon, so the colon is the first one.\<close>

definition reHostPort :: "string \<Rightarrow> bool" where
  "reHostPort s =
     (case cut_char CHR '':'' s of (h, p, found) \<Rightarrow>
        found \<and> h \<noteq> [] \<and> list_all host_char h \<and> p \<noteq> [] \<and> length p \<le> 5 \<and> list_all is_digit p)"

text \<open>\<open>^\.?[a-zA-Z0-9]([a-zA-Z0-9.-]*[a-zA-Z0-9])?$\<close>\<close>

definition reDomain :: "string \<Rightarrow> bool" where
  "reDomain s =
     (let t = (if s \<noteq> [] \<and> hd s = CHR ''.'' then tl s else s)
      in t \<noteq> [] \<and> is_alnum (hd t) \<and> is_alnum (last t) \<and> list_all host_char t)"

definition last_after_colon :: "string \<Rightarrow> string" where
  "last_after_colon s = last (split_char CHR '':'' s)"

text \<open>One entry of \<open>tcp_egress\<close>, with the ports accepted so far: an error or its port.\<close>

definition check_tcp_entry :: "RunnerYML \<Rightarrow> int list \<Rightarrow> string \<Rightarrow> gerr + int" where
  "check_tcp_entry r seen e =
     (if \<not> reHostPort e then
        Inl (Plain (''invalid tcp_egress entry '' @ e @ '' (want host:port, no metacharacters)''))
      else let text = last_after_colon e; port = dec_val text in
        if port < 1 \<or> port > 65535 then Inl (Plain (''invalid tcp_egress port '' @ text @ '' (want 1-65535)''))
        else if port = 80 \<or> port = 443 then
          Inl (Plain (''tcp_egress port '' @ show_int port @ '' reserved; use http_egress''))
        else if port = 3128 \<or> (port = 53 \<and> dnsHost (ryDNS r) = Some False) then
          Inl (Plain (''tcp_egress port '' @ show_int port @ '' reserved for proxy listener''))
        else if text \<noteq> show_int port then
          Inl (Plain (''invalid tcp_egress port '' @ text @ '' (want canonical decimal without leading zeros)''))
        else if port \<in> set seen then
          Inl (Plain (''tcp_egress port '' @ show_int port @ '' duplicated (one backend per port)''))
        else Inr port)"

fun check_tcp :: "RunnerYML \<Rightarrow> int list \<Rightarrow> string list \<Rightarrow> gerr option" where
  "check_tcp r seen [] = None"
| "check_tcp r seen (e # es) =
     (case check_tcp_entry r seen e of Inl err \<Rightarrow> Some err | Inr port \<Rightarrow> check_tcp r (port # seen) es)"

definition ValidateEgress :: "RunnerYML \<Rightarrow> gerr option" where
  "ValidateEgress r =
     (case check_tcp r [] (ryTCPEgress r) of
        Some e \<Rightarrow> Some e
      | None \<Rightarrow>
          (case find (\<lambda>d. \<not> reDomain d) (ResolvedHTTPEgress r) of
             Some d \<Rightarrow> Some (Plain (''invalid http_egress domain '' @ d))
           | None \<Rightarrow> None))"

section \<open>What a valid egress section is\<close>

definition port_allowed :: "RunnerYML \<Rightarrow> int \<Rightarrow> bool" where
  "port_allowed r p =
     (1 \<le> p \<and> p \<le> 65535 \<and> p \<notin> {80, 443, 3128} \<and> (p = 53 \<longrightarrow> dnsHost (ryDNS r) \<noteq> Some False))"

definition tcp_entry :: "string \<Rightarrow> int \<Rightarrow> bool" where
  "tcp_entry e p = (\<exists>h. e = h @ CHR '':'' # show_int p \<and> h \<noteq> [] \<and> list_all host_char h)"

lemma colon_not_host: "list_all host_char h \<Longrightarrow> CHR '':'' \<notin> set h"
  by (auto simp: list_all_iff host_char_def is_alnum_def is_digit_def is_lower_def is_upper_def)

lemma colon_not_digits: "list_all is_digit p \<Longrightarrow> CHR '':'' \<notin> set p"
  by (erule digit_notin) (simp add: is_digit_def)

lemma last_after_colon_split:
  "CHR '':'' \<notin> set h \<Longrightarrow> CHR '':'' \<notin> set p \<Longrightarrow> last_after_colon (h @ CHR '':'' # p) = p"
  by (simp add: last_after_colon_def split_char_append split_char_notin)

lemma reHostPort_iff:
  "reHostPort s \<longleftrightarrow> (\<exists>h p. s = h @ CHR '':'' # p \<and> h \<noteq> [] \<and> list_all host_char h \<and>
     p \<noteq> [] \<and> length p \<le> 5 \<and> list_all is_digit p)"
proof
  assume "reHostPort s"
  then show "\<exists>h p. s = h @ CHR '':'' # p \<and> h \<noteq> [] \<and> list_all host_char h \<and>
     p \<noteq> [] \<and> length p \<le> 5 \<and> list_all is_digit p"
    using cut_char_found [of "CHR '':''" s] by (auto simp: reHostPort_def split: prod.splits)
next
  assume "\<exists>h p. s = h @ CHR '':'' # p \<and> h \<noteq> [] \<and> list_all host_char h \<and>
     p \<noteq> [] \<and> length p \<le> 5 \<and> list_all is_digit p"
  then obtain h p where h: "s = h @ CHR '':'' # p" "h \<noteq> []" "list_all host_char h"
      "p \<noteq> []" "length p \<le> 5" "list_all is_digit p" by blast
  then have "cut_char CHR '':'' s = (h, p, True)" by (simp add: cut_char_found colon_not_host)
  with h show "reHostPort s" by (simp add: reHostPort_def)
qed

lemma check_tcp_entry_iff:
  "check_tcp_entry r seen e = Inr p \<longleftrightarrow> tcp_entry e p \<and> port_allowed r p \<and> p \<notin> set seen"
proof
  assume ok: "check_tcp_entry r seen e = Inr p"
  then have "reHostPort e" by (simp add: check_tcp_entry_def split: if_splits)
  then obtain h t where h: "e = h @ CHR '':'' # t" "h \<noteq> []" "list_all host_char h" "list_all is_digit t"
    by (auto simp: reHostPort_iff)
  then have "last_after_colon e = t" by (simp add: last_after_colon_split colon_not_host colon_not_digits)
  with ok h show "tcp_entry e p \<and> port_allowed r p \<and> p \<notin> set seen"
    by (auto simp: check_tcp_entry_def tcp_entry_def port_allowed_def Let_def split: if_splits)
next
  assume "tcp_entry e p \<and> port_allowed r p \<and> p \<notin> set seen"
  then obtain h where h: "e = h @ CHR '':'' # show_int p" "h \<noteq> []" "list_all host_char h"
      "port_allowed r p" "p \<notin> set seen" by (auto simp: tcp_entry_def)
  then have p: "1 \<le> p" "p \<le> 65535" by (auto simp: port_allowed_def)
  then have sh: "show_int p = show_nat (nat p)" by (simp add: show_int_nonneg)
  have digs: "list_all is_digit (show_int p)" "show_int p \<noteq> []" "length (show_int p) \<le> 5"
    using show_nat_digits [of "nat p"] length_show_nat [of "nat p" 4] p by (auto simp: sh)
  have "reHostPort e" using h digs by (auto simp: reHostPort_iff)
  moreover have "last_after_colon e = show_int p"
    using h digs by (simp add: last_after_colon_split colon_not_host colon_not_digits)
  moreover have "dec_val (show_int p) = p" using p by (simp add: sh)
  ultimately show "check_tcp_entry r seen e = Inr p"
    using h p by (simp add: check_tcp_entry_def port_allowed_def Let_def)
qed

lemma check_tcp_iff:
  "check_tcp r seen es = None \<longleftrightarrow>
     (\<exists>ps. list_all2 tcp_entry es ps \<and> list_all (port_allowed r) ps \<and> distinct ps \<and> set ps \<inter> set seen = {})"
proof (induction es arbitrary: seen)
  case (Cons e es)
  show ?case
  proof (cases "check_tcp_entry r seen e")
    case (Inl err)
    have "\<not> (tcp_entry e p \<and> port_allowed r p \<and> p \<notin> set seen)" for p
      using Inl check_tcp_entry_iff [of r seen e p] by simp
    then show ?thesis using Inl by (auto simp: list_all2_Cons1)
  next
    case (Inr p)
    then have p: "tcp_entry e p" "port_allowed r p" "p \<notin> set seen" by (simp_all add: check_tcp_entry_iff)
    have uniq: "q = p" if "tcp_entry e q" "port_allowed r q" "q \<notin> set seen" for q
      using that Inr check_tcp_entry_iff [of r seen e q] by simp
    have "check_tcp r seen (e # es) = None \<longleftrightarrow>
        (\<exists>ps. list_all2 tcp_entry es ps \<and> list_all (port_allowed r) ps \<and> distinct ps \<and> set ps \<inter> set (p # seen) = {})"
      using Cons.IH [of "p # seen"] Inr by simp
    also have "\<dots> \<longleftrightarrow> (\<exists>ps. list_all2 tcp_entry (e # es) ps \<and> list_all (port_allowed r) ps \<and>
        distinct ps \<and> set ps \<inter> set seen = {})"
    proof
      assume "\<exists>ps. list_all2 tcp_entry es ps \<and> list_all (port_allowed r) ps \<and> distinct ps \<and> set ps \<inter> set (p # seen) = {}"
      then obtain ps where "list_all2 tcp_entry es ps" "list_all (port_allowed r) ps" "distinct ps"
          "set ps \<inter> set (p # seen) = {}" by blast
      with p show "\<exists>ps. list_all2 tcp_entry (e # es) ps \<and> list_all (port_allowed r) ps \<and>
          distinct ps \<and> set ps \<inter> set seen = {}"
        by (intro exI [of _ "p # ps"]) auto
    next
      assume "\<exists>ps. list_all2 tcp_entry (e # es) ps \<and> list_all (port_allowed r) ps \<and>
          distinct ps \<and> set ps \<inter> set seen = {}"
      then obtain q qs where q: "tcp_entry e q" "list_all2 tcp_entry es qs" "port_allowed r q"
          "list_all (port_allowed r) qs" "distinct (q # qs)" "set (q # qs) \<inter> set seen = {}"
        by (auto simp: list_all2_Cons1)
      with uniq [of q] show "\<exists>ps. list_all2 tcp_entry es ps \<and> list_all (port_allowed r) ps \<and> distinct ps \<and>
          set ps \<inter> set (p # seen) = {}"
        by (intro exI [of _ qs]) auto
    qed
    finally show ?thesis .
  qed
qed (auto intro: exI [of _ "[]"])

text \<open>A \<open>runner.yml\<close> passes egress validation exactly when every TCP entry is a host and a
  port in canonical decimal, the ports are allowed and pairwise different, and every HTTP
  domain is well formed; in particular no accepted entry can shadow the proxy's own listeners
  or carry a configuration metacharacter.\<close>

theorem validate_egress_exact:
  "ValidateEgress r = None \<longleftrightarrow>
     (\<exists>ps. list_all2 tcp_entry (ryTCPEgress r) ps \<and> list_all (port_allowed r) ps \<and> distinct ps) \<and>
     list_all reDomain (ResolvedHTTPEgress r)"
proof -
  have "ValidateEgress r = None \<longleftrightarrow>
      check_tcp r [] (ryTCPEgress r) = None \<and> find (\<lambda>d. \<not> reDomain d) (ResolvedHTTPEgress r) = None"
    by (simp add: ValidateEgress_def split: option.split)
  then show ?thesis by (auto simp: check_tcp_iff find_None_iff list_all_iff)
qed

end
