(* ===== verification/Deps_Model.thy ===== *)
theory Deps_Model
  imports State_Thms Breaker_Model Token_Bucket GH_Client Runner_YML
begin

text \<open>
  The orchestrator's shared world and the adapters of \<open>productionDeps\<close>
  (\<open>cmd/orchestrator/run.go\<close>) through which the poll loop and the spawn workers reach it.

  \<open>World\<close> holds the scheduling state, the breakers, the rate-limit pause, the token bucket, the
  GitHub call record, the intent queue, the health signal, the log of emitted events, and a
  log of the calls that create or remove runners outside, which the program itself does not
  keep. \<open>Env\<close>
  is everything outside the process, as functions of a step counter: the clock, GitHub, the
  parsed \<open>runner.yml\<close>, whether the context is done, and which operations other goroutines
  performed on the scheduling state since the previous step. Every access to the scheduling
  state goes through \<open>st_op\<close> or \<open>st_get\<close>, which first let those operations happen, so a
  theorem about any \<open>Env\<close> is a theorem about every interleaving.
\<close>

section \<open>Data\<close>

record RepoRef =
  rrRepo :: string
  rrMaxConcurrent :: int

record ScopeRef =
  scName :: string
  scGlobalMaxRunners :: int
  scPollIntervalSec :: int
  scRepos :: "RepoRef list"

record SpawnIntent =
  siScope :: string
  siRepo :: string
  siSpawnID :: string
  siCandidateJobs :: "WorkflowJob list"

record KubeToleration =
  ktKey :: string
  ktOperator :: string
  ktValue :: string
  ktEffect :: string
  ktTolerationSeconds :: "int option"

record KubePodSettings =
  kpNodeSelector :: "(string, string) gomap"
  kpTolerations :: "KubeToleration list"
  kpEphemeralStorage :: string
  kpProxyCPU :: string
  kpProxyMemory :: string
  kpProxyEphemeralStorage :: string

record RunnerYMLSnapshot =
  rsnKubernetes :: KubePodSettings
  rsnYML :: RunnerYML
  rsnImageDigest :: string

text \<open>The reset text of a rate-limit event is empty or the RFC 3339 form of a time, which keeps
  whole seconds.\<close>

type_synonym resetISO = "time option"

datatype Event =
    EvPollTick string int int resetISO
  | EvRatelimitResumed string int int resetISO
  | EvRatelimitPaused string int int resetISO
  | EvQueuedJobsObserved string string int
  | EvBreakerOpened string string int
  | EvBreakerClosed string string
  | EvAuthDegraded string string int
  | EvSpawnStarted string string string
  | EvSpawnJITAcquired string string string int
  | EvSpawnRunnerCreated string string string string
  | EvSpawnFailed string string string string string
  | EvSpawnCompleted string string string int
  | EvSpawnTimeout string string string int
  | EvRunnerLeakCleaned string string string int
  | EvRunnerOnline string string string int
  | EvJobAssigned string string string int
  | EvRunnerCompleted string string string int
  | EvRunnerExitedUnassigned string string string int

text \<open>Calls to the outside that create or remove a resource, with their outcome.\<close>

record Handle =
  hSpawnID :: string
  hBackend :: string
  hRefs :: "(string, string) gomap"

datatype Effect =
    FxJIT string int
  | FxDeleteRunner string int bool
  | FxSpawn Handle bool
  | FxTeardown Handle bool bool

record World =
  wState :: State
  wBrks :: breakerMap
  wRlPaused :: bool
  wRlReset :: time
  wBucket :: TokenBucket
  wGH :: GHState
  wIntents :: "SpawnIntent list"
  wEvents :: "Event list"
  wEffects :: "Effect list"
  wLastPoll :: time
  wPollStarted :: bool
  wSeq :: int
  wStep :: nat

record Env =
  eNow :: "nat \<Rightarrow> time"
  eOthers :: "nat \<Rightarrow> StateOp list"
  eClient :: Client
  eRunnerYML :: "nat \<Rightarrow> string \<Rightarrow> gerr + RunnerYMLSnapshot"
  eCtxErr :: "nat \<Rightarrow> gerr option"
  eSend :: "nat \<Rightarrow> bool"

section \<open>Steps\<close>

text \<open>The other goroutines' operations up to the next step, then one atomic operation.\<close>

definition st_sync :: "Env \<Rightarrow> World \<Rightarrow> World" where
  "st_sync e w = w\<lparr>wState := run_ops (eOthers e (wStep w)) (wState w), wStep := wStep w + 1\<rparr>"

definition st_op :: "Env \<Rightarrow> (State \<Rightarrow> State) \<Rightarrow> World \<Rightarrow> World" where
  "st_op e f w = (let w1 = st_sync e w in w1\<lparr>wState := f (wState w1)\<rparr>)"

definition st_call :: "Env \<Rightarrow> (State \<Rightarrow> 'r \<times> State) \<Rightarrow> World \<Rightarrow> 'r \<times> World" where
  "st_call e f w = (let w1 = st_sync e w; (r, s) = f (wState w1) in (r, w1\<lparr>wState := s\<rparr>))"

definition st_get :: "Env \<Rightarrow> (State \<Rightarrow> 'r) \<Rightarrow> World \<Rightarrow> 'r \<times> World" where
  "st_get e f w = (let w1 = st_sync e w in (f (wState w1), w1))"

definition clk_now :: "Env \<Rightarrow> World \<Rightarrow> time" where
  "clk_now e w = eNow e (wStep w)"

definition emit :: "Event \<Rightarrow> World \<Rightarrow> World" where
  "emit ev w = w\<lparr>wEvents := wEvents w @ [ev]\<rparr>"

definition effect :: "Effect \<Rightarrow> World \<Rightarrow> World" where
  "effect fx w = w\<lparr>wEffects := wEffects w @ [fx]\<rparr>"

definition gh_call :: "(GHState \<Rightarrow> 'r \<times> GHState) \<Rightarrow> World \<Rightarrow> 'r \<times> World" where
  "gh_call f w = (let (r, g) = f (wGH w) in (r, w\<lparr>wGH := g\<rparr>))"

section \<open>Adapters\<close>

definition unix_epoch :: time where
  "unix_epoch = 62135596800 * time_Second"

definition time_Unix :: "int \<Rightarrow> time" where
  "time_Unix sec = unix_epoch + sec * time_Second"

definition RateLimitContextFor :: "Env \<Rightarrow> World \<Rightarrow> (int \<times> int \<times> resetISO) \<times> World" where
  "RateLimitContextFor e w =
     (let ((rem, lmt, reset), w1) = st_get e RateLimit w
      in if IsZero reset then ((rem, lmt, None), w1)
         else ((rem, lmt, Some (reset div time_Second * time_Second)), w1))"

definition deps_RecordRateLimit :: "Env \<Rightarrow> RateLimitInfo \<Rightarrow> World \<Rightarrow> World" where
  "deps_RecordRateLimit e rl w =
     (let reset = (if rlInfoResetUnix rl > 0 then time_Unix (rlInfoResetUnix rl) else zero_time)
      in st_op e (SetRateLimit (rlInfoRemaining rl) (rlInfoLimit rl) reset) w)"

definition deps_MarkRateLimited :: "Env \<Rightarrow> World \<Rightarrow> bool \<times> World" where
  "deps_MarkRateLimited e w =
     (let newlyPaused = (\<not> wRlPaused w);
          w1 = w\<lparr>wRlPaused := True\<rparr>;
          ((_, _, r), w2) = st_get e RateLimit w1;
          r' = (if IsZero r then clk_now e w2 + time_Minute else r);
          w3 = w2\<lparr>wRlReset := r'\<rparr>
      in (newlyPaused, st_op e (SetRateLimited True) w3))"

definition deps_MaybeClearRateLimit :: "Env \<Rightarrow> World \<Rightarrow> bool \<times> World" where
  "deps_MaybeClearRateLimit e w =
     (if wRlPaused w \<and> wRlReset w < clk_now e w
      then (True, st_op e (SetRateLimited False) (w\<lparr>wRlPaused := False\<rparr>))
      else (False, w))"

definition nextSeq :: "World \<Rightarrow> int \<times> World" where
  "nextSeq w = (wSeq w + 1, w\<lparr>wSeq := wSeq w + 1\<rparr>)"

definition NewSpawnID :: "Env \<Rightarrow> World \<Rightarrow> string \<times> World" where
  "NewSpawnID e w = (let (n, w1) = nextSeq w in (show_int (clk_now e w - unix_epoch) @ show_int n, w1))"

definition LabelsForRepo :: "Env \<Rightarrow> string \<Rightarrow> World \<Rightarrow> (gerr + string list) \<times> World" where
  "LabelsForRepo e repo w =
     (case eRunnerYML e (wStep w) repo of
        Inl err \<Rightarrow> (Inl err, st_sync e w)
      | Inr snap \<Rightarrow> (Inr (ryLabels (rsnYML snap)), st_sync e w))"

definition deps_TryReserve :: "Env \<Rightarrow> string \<Rightarrow> string \<Rightarrow> int \<Rightarrow> int \<Rightarrow> World \<Rightarrow> bool \<times> World" where
  "deps_TryReserve e sid repo repoCap globalCap w = st_call e (TryReserve sid repo repoCap globalCap (clk_now e w)) w"

definition deps_RecordPollAttempt :: "Env \<Rightarrow> string \<Rightarrow> World \<Rightarrow> World" where
  "deps_RecordPollAttempt e repo w = st_op e (RecordPollAttempt repo (clk_now e w)) w"

definition deps_RecordPollSuccess :: "Env \<Rightarrow> string \<Rightarrow> int \<Rightarrow> World \<Rightarrow> bool \<times> World" where
  "deps_RecordPollSuccess e repo queued w =
     (let w1 = st_op e (RecordPollSuccess repo queued (clk_now e w)) w;
          (r, b) = bm_RecordSuccess repo (wBrks w1)
      in (r, w1\<lparr>wBrks := b\<rparr>))"

definition deps_RecordPollFailure :: "Env \<Rightarrow> string \<Rightarrow> string \<Rightarrow> string \<Rightarrow> World \<Rightarrow> (bool \<times> int) \<times> World" where
  "deps_RecordPollFailure e repo class detail w =
     (let w1 = st_op e (RecordPollFailure repo class detail) w
      in if class = ''github_rate_limited'' then ((False, 0), w1)
         else (let (r, b) = bm_RecordFailure (clk_now e w1) repo (wBrks w1) in (r, w1\<lparr>wBrks := b\<rparr>)))"

definition deps_RecordPollTick :: "Env \<Rightarrow> World \<Rightarrow> World" where
  "deps_RecordPollTick e w = w\<lparr>wLastPoll := clk_now e w, wPollStarted := True\<rparr>"

definition deps_BreakerMaybeHalfOpen :: "Env \<Rightarrow> string \<Rightarrow> World \<Rightarrow> bool \<times> World" where
  "deps_BreakerMaybeHalfOpen e repo w =
     (let (r, b) = bm_MaybeHalfOpen (clk_now e w) repo (wBrks w) in (r, w\<lparr>wBrks := b\<rparr>))"

definition deps_BreakerIsOpen :: "string \<Rightarrow> World \<Rightarrow> bool \<times> World" where
  "deps_BreakerIsOpen repo w = (let (r, b) = bm_IsOpen repo (wBrks w) in (r, w\<lparr>wBrks := b\<rparr>))"

fun RepoMaxConcurrent :: "RepoRef list \<Rightarrow> string \<Rightarrow> int" where
  "RepoMaxConcurrent [] repo = 1"
| "RepoMaxConcurrent (r # rs) repo = (if rrRepo r = repo then rrMaxConcurrent r else RepoMaxConcurrent rs repo)"

text \<open>The prefix up to the first colon or slash, in upper case.\<close>

fun upperRuntime :: "string \<Rightarrow> string" where
  "upperRuntime [] = []"
| "upperRuntime (c # s) =
     (if c = CHR '':'' \<or> c = CHR ''/'' then []
      else (if is_lower c then char_of ((of_char c :: nat) - 32) else c) # upperRuntime s)"

definition RunnerImageDigestFor :: "(string \<Rightarrow> string) \<Rightarrow> string \<Rightarrow> string" where
  "RunnerImageDigestFor getenv runtime =
     (let v = getenv (''RUNSECURE_RUNNER_IMAGE_'' @ upperRuntime runtime)
      in if v \<noteq> [] then v else getenv ''RUNSECURE_RUNNER_IMAGE_DEFAULT'')"

definition SeccompProfileHostPath :: "string \<Rightarrow> string" where
  "SeccompProfileHostPath name = (if name = [] then [] else ''/host/seccomp/'' @ name)"

text \<open>The metric label of a GitHub request.\<close>

definition githubAPIEndpoint :: "string \<Rightarrow> string \<Rightarrow> string" where
  "githubAPIEndpoint method path =
     (let cleanPath = takeWhile (\<lambda>c. c \<noteq> CHR ''?'') path in
      if Contains cleanPath ''/contents/.github/runner.yml'' then ''runner_yml''
      else if Contains cleanPath ''/generate-jitconfig'' then ''generate_jit_config''
      else if Contains cleanPath ''/actions/runs/'' \<and> HasSuffix cleanPath ''/jobs'' then ''workflow_jobs''
      else if HasSuffix cleanPath ''/actions/runs'' then ''workflow_runs''
      else if Contains cleanPath ''/actions/jobs/'' then ''workflow_job''
      else if Contains cleanPath ''/actions/runners/'' \<and> method = ''DELETE'' then ''delete_runner''
      else if Contains cleanPath ''/actions/runners/'' then ''get_runner''
      else if HasSuffix cleanPath ''/actions/runners'' then ''list_runners''
      else ''other'')"

section \<open>Lemmas\<close>

lemma st_sync_simps [simp]:
  "wEffects (st_sync e w) = wEffects w" "wBrks (st_sync e w) = wBrks w" "wEvents (st_sync e w) = wEvents w" "wIntents (st_sync e w) = wIntents w"
  "wGH (st_sync e w) = wGH w" "wRlPaused (st_sync e w) = wRlPaused w" "wRlReset (st_sync e w) = wRlReset w"
  "wBucket (st_sync e w) = wBucket w" "wSeq (st_sync e w) = wSeq w"
  "wState (st_sync e w) = run_ops (eOthers e (wStep w)) (wState w)" "wStep (st_sync e w) = Suc (wStep w)"
  by (simp_all add: st_sync_def)

lemma st_op_simps [simp]:
  "wEffects (st_op e f w) = wEffects w" "wBrks (st_op e f w) = wBrks w" "wEvents (st_op e f w) = wEvents w" "wIntents (st_op e f w) = wIntents w"
  "wGH (st_op e f w) = wGH w" "wRlPaused (st_op e f w) = wRlPaused w" "wSeq (st_op e f w) = wSeq w"
  "wState (st_op e f w) = f (run_ops (eOthers e (wStep w)) (wState w))" "wStep (st_op e f w) = Suc (wStep w)"
  by (simp_all add: st_op_def Let_def)

lemma emit_simps [simp]:
  "wEffects (emit ev w) = wEffects w" "wState (emit ev w) = wState w" "wStep (emit ev w) = wStep w" "wIntents (emit ev w) = wIntents w"
  "wBrks (emit ev w) = wBrks w" "wEvents (emit ev w) = wEvents w @ [ev]" "wSeq (emit ev w) = wSeq w"
  "wRlPaused (emit ev w) = wRlPaused w" "wGH (emit ev w) = wGH w"
  by (simp_all add: emit_def)

lemma effect_simps [simp]:
  "wEffects (effect fx w) = wEffects w @ [fx]" "wState (effect fx w) = wState w" "wStep (effect fx w) = wStep w"
  "wEvents (effect fx w) = wEvents w" "wGH (effect fx w) = wGH w"
  by (simp_all add: effect_def)

lemma st_get_simps [simp]:
  "snd (st_get e f w) = st_sync e w" "fst (st_get e f w) = f (wState (st_sync e w))"
  by (simp_all add: st_get_def Let_def)

lemma st_call_simps [simp]:
  "wEffects (snd (st_call e f w)) = wEffects w" "fst (st_call e f w) = fst (f (wState (st_sync e w)))"
  "wState (snd (st_call e f w)) = snd (f (wState (st_sync e w)))"
  "wStep (snd (st_call e f w)) = Suc (wStep w)"
  "wIntents (snd (st_call e f w)) = wIntents w" "wEvents (snd (st_call e f w)) = wEvents w"
  "wSeq (snd (st_call e f w)) = wSeq w"
  by (simp_all add: st_call_def Let_def split_def)

end
