(* ===== verification/Poll_Model.thy ===== *)
theory Poll_Model
  imports Deps_Model
begin

text \<open>
  One poll loop per scope: \<open>internal/orchestrator/poll.go\<close>. \<open>tick\<close> is one poll cycle; its value
  is \<open>None\<close> when a GitHub listing never ends. The loop over the repositories of the scope is
  left early only when the context is done while an intent waits for queue space.
\<close>

section \<open>Classification of errors\<close>

definition classifyPollError :: "gerr \<Rightarrow> string" where
  "classifyPollError err =
     (if err_is err ErrRateLimited then ''github_rate_limited''
      else if err_is err ErrAuthFailed then ''github_auth_failed''
      else ''github_demand_failed'')"

definition classifyRunnerConfigError :: "gerr \<Rightarrow> string" where
  "classifyRunnerConfigError err =
     (if err_is err ErrRateLimited then ''github_rate_limited''
      else if err_is err ErrAuthFailed then ''github_auth_failed''
      else ''runner_config'')"

definition pollIntervalDuration :: "int \<Rightarrow> duration" where
  "pollIntervalDuration intervalSec = i64 (intervalSec * time_Second)"

definition JITOwnerLabel :: string where
  "JITOwnerLabel = ''runsecure-jit''"

definition JITScopeLabelPrefix :: string where
  "JITScopeLabelPrefix = ''runsecure-scope-''"

text \<open>The non-empty labels in order, each once.\<close>

fun dedup_labels :: "string list \<Rightarrow> string list \<Rightarrow> string list" where
  "dedup_labels seen [] = []"
| "dedup_labels seen (l # ls) =
     (if l = [] \<or> l \<in> set seen then dedup_labels seen ls else l # dedup_labels (l # seen) ls)"

definition jitRunnerLabels :: "string \<Rightarrow> string list \<Rightarrow> string list" where
  "jitRunnerLabels scope configured =
     dedup_labels [] (configured @ [JITOwnerLabel, JITScopeLabelPrefix @ scope])"

section \<open>Recording the outcome of a poll\<close>

definition poll_recordPollFailure :: "Env \<Rightarrow> ScopeRef \<Rightarrow> string \<Rightarrow> string \<Rightarrow> string \<Rightarrow> World \<Rightarrow> World" where
  "poll_recordPollFailure e sc repo class detail w =
     (let ((opened, consecutive), w1) = deps_RecordPollFailure e repo class detail w
      in if opened then emit (EvBreakerOpened (scName sc) repo consecutive) w1 else w1)"

definition poll_recordPollSuccess :: "Env \<Rightarrow> ScopeRef \<Rightarrow> string \<Rightarrow> int \<Rightarrow> World \<Rightarrow> World" where
  "poll_recordPollSuccess e sc repo queued w =
     (let (closed, w1) = deps_RecordPollSuccess e repo queued w
      in if closed then emit (EvBreakerClosed (scName sc) repo) w1 else w1)"

definition handlePollError :: "Env \<Rightarrow> ScopeRef \<Rightarrow> string \<Rightarrow> gerr \<Rightarrow> World \<Rightarrow> World" where
  "handlePollError e sc repo err w =
     (if err_is err ErrRateLimited then
        (let (newly, w1) = deps_MarkRateLimited e w
         in if newly then
              (let ((rem, lmt, reset), w2) = RateLimitContextFor e w1
               in emit (EvRatelimitPaused (scName sc) rem lmt reset) w2)
            else w1)
      else if err_is err ErrAuthFailed then emit (EvAuthDegraded (scName sc) repo (ErrorStatus err)) w
      else w)"

definition poll_failed :: "Env \<Rightarrow> ScopeRef \<Rightarrow> string \<Rightarrow> (gerr \<Rightarrow> string) \<Rightarrow> gerr \<Rightarrow> World \<Rightarrow> World" where
  "poll_failed e sc repo classify err w =
     handlePollError e sc repo err
       (poll_recordPollFailure e sc repo (classify err) (err_text err)
         (deps_RecordRateLimit e (ErrorRateLimit err) w))"

section \<open>Reserving and enqueueing\<close>

text \<open>The loop that reserves capacity and sends intents. The flag is \<open>False\<close> when the context
  was done before the intent could be sent; its reservation is given back.\<close>

fun enqueue_loop :: "Env \<Rightarrow> ScopeRef \<Rightarrow> RepoRef \<Rightarrow> WorkflowJob list \<Rightarrow> nat \<Rightarrow> World \<Rightarrow> bool \<times> World" where
  "enqueue_loop e sc repo jobs 0 w = (True, w)"
| "enqueue_loop e sc repo jobs (Suc n) w =
     (let (sid, w1) = NewSpawnID e w;
          (ok, w2) = deps_TryReserve e sid (rrRepo repo) (rrMaxConcurrent repo) (scGlobalMaxRunners sc) w1
      in if \<not> ok then (True, w2)
         else if eSend e (wStep w2)
         then enqueue_loop e sc repo jobs n
                (w2\<lparr>wIntents := wIntents w2 @ [\<lparr>siScope = scName sc, siRepo = rrRepo repo, siSpawnID = sid,
                                               siCandidateJobs = jobs\<rparr>]\<rparr>)
         else (False, st_op e (ReleaseReservation sid) w2))"

definition to_spawn :: "int \<Rightarrow> int \<Rightarrow> int \<Rightarrow> int \<Rightarrow> int \<Rightarrow> int \<Rightarrow> int" where
  "to_spawn maxConcurrent inFlight globalMax globalInFlight queued coverage =
     (let repoAvail = maxConcurrent - inFlight;
          globalAvail = globalMax - globalInFlight;
          avail = max (min repoAvail globalAvail) 0;
          uncoveredDemand = max (queued - coverage) 0
      in min uncoveredDemand avail)"

definition schedule_repo :: "Env \<Rightarrow> ScopeRef \<Rightarrow> RepoRef \<Rightarrow> JobDemand \<Rightarrow> World \<Rightarrow> bool \<times> World" where
  "schedule_repo e sc repo demand w =
     (let w1 = deps_RecordRateLimit e (jdRateLimit demand) w;
          queued = demand_Count demand;
          w2 = poll_recordPollSuccess e sc (rrRepo repo) queued w1;
          w3 = (if queued > 0 then emit (EvQueuedJobsObserved (scName sc) (rrRepo repo) queued) w2 else w2);
          (inFlight, w4) = st_get e (\<lambda>s. InFlight s (rrRepo repo)) w3;
          (globalInFlight, w5) = st_get e GlobalInFlight w4;
          (coverage, w6) = st_get e (\<lambda>s. DemandCoverage s (rrRepo repo)) w5;
          n = to_spawn (rrMaxConcurrent repo) inFlight (scGlobalMaxRunners sc) globalInFlight queued coverage
      in enqueue_loop e sc repo (jdJobs demand) (nat n) w6)"

section \<open>One poll cycle\<close>

text \<open>One repository: \<open>Some (True, w)\<close> goes on with the next one, \<open>Some (False, w)\<close> leaves the
  tick.\<close>

definition poll_repo :: "Env \<Rightarrow> ScopeRef \<Rightarrow> RepoRef \<Rightarrow> World \<Rightarrow> (bool \<times> World) option" where
  "poll_repo e sc repo w =
     (let w1 = snd (deps_BreakerMaybeHalfOpen e (rrRepo repo) w);
          (opn, w2) = deps_BreakerIsOpen (rrRepo repo) w1
      in if opn then Some (True, w2)
         else let w3 = deps_RecordPollAttempt e (rrRepo repo) w2 in
           (case LabelsForRepo e (rrRepo repo) w3 of
              (Inl err, w4) \<Rightarrow> Some (True, poll_failed e sc (rrRepo repo) classifyRunnerConfigError err w4)
            | (Inr labels, w4) \<Rightarrow>
                (case EligibleQueuedJobs (eClient e) (rrRepo repo) labels
                        [jitRunnerLabels (scName sc) labels] (wGH w4) of
                   None \<Rightarrow> None
                 | Some (Inl err, g) \<Rightarrow>
                     Some (True, poll_failed e sc (rrRepo repo) classifyPollError err (w4\<lparr>wGH := g\<rparr>))
                 | Some (Inr demand, g) \<Rightarrow> Some (schedule_repo e sc repo demand (w4\<lparr>wGH := g\<rparr>)))))"

fun poll_repos :: "Env \<Rightarrow> ScopeRef \<Rightarrow> RepoRef list \<Rightarrow> World \<Rightarrow> (bool \<times> World) option" where
  "poll_repos e sc [] w = Some (True, w)"
| "poll_repos e sc (repo # repos) w =
     (case poll_repo e sc repo w of
        None \<Rightarrow> None
      | Some (False, w1) \<Rightarrow> Some (False, w1)
      | Some (True, w1) \<Rightarrow> poll_repos e sc repos w1)"

definition repo_order :: "RepoRef list \<Rightarrow> nat \<Rightarrow> RepoRef list" where
  "repo_order repos nextRepo = map (\<lambda>off. repos ! ((nextRepo + off) mod length repos)) [0..<length repos]"

definition tick :: "Env \<Rightarrow> ScopeRef \<Rightarrow> nat \<Rightarrow> World \<Rightarrow> (nat \<times> World) option" where
  "tick e sc nextRepo w =
     (let w1 = deps_RecordPollTick e w;
          (blocked, w2) = st_get e SchedulingBlocked w1
      in if blocked then Some (nextRepo, w2)
         else
           let (resumed, w3) = (if wRlPaused w2 then deps_MaybeClearRateLimit e w2 else (True, w2));
               w4 = (if wRlPaused w2 \<and> resumed
                     then (let ((rem, lmt, reset), v) = RateLimitContextFor e w3
                           in emit (EvRatelimitResumed (scName sc) rem lmt reset) v)
                     else w3)
           in if wRlPaused w2 \<and> \<not> resumed then Some (nextRepo, w3)
              else
                let ((rem, lmt, reset), w5) = RateLimitContextFor e w4;
                    w6 = emit (EvPollTick (scName sc) rem lmt reset) w5
                in (case poll_repos e sc (repo_order (scRepos sc) nextRepo) w6 of
                      None \<Rightarrow> None
                    | Some (False, w7) \<Rightarrow> Some (nextRepo, w7)
                    | Some (True, w7) \<Rightarrow>
                        Some (if 0 < length (scRepos sc) then (nextRepo + 1) mod length (scRepos sc) else nextRepo, w7)))"

text \<open>The loop of \<open>Run\<close>: it ends when the context is done, before a tick or while waiting for the
  interval. \<open>None\<close> when the fuel runs out or a tick never ends.\<close>

fun poll_Run :: "nat \<Rightarrow> Env \<Rightarrow> ScopeRef \<Rightarrow> nat \<Rightarrow> World \<Rightarrow> (nat \<times> World) option" where
  "poll_Run 0 e sc nextRepo w = None"
| "poll_Run (Suc fuel) e sc nextRepo w =
     (if eCtxErr e (wStep w) \<noteq> None then Some (nextRepo, w)
      else (case tick e sc nextRepo w of
              None \<Rightarrow> None
            | Some (nextRepo', w1) \<Rightarrow>
                if eCtxErr e (wStep w1) \<noteq> None then Some (nextRepo', w1)
                else poll_Run fuel e sc nextRepo' (st_sync e w1)))"

end
