(* ===== verification/Spawn_Data.thy ===== *)
theory Spawn_Data
  imports Poll_Model
begin

text \<open>
  Data and pure helpers of the spawn worker: \<open>internal/backend/backend.go\<close>, the input the worker
  builds for the backend, and the conversions at the end of \<open>internal/orchestrator/spawn.go\<close>.
\<close>

section \<open>Data\<close>

record SpawnInput =
  inScope :: string
  inRepo :: string
  inSpawnID :: string
  inKubernetes :: KubePodSettings
  inNamespace :: string
  inVersion :: string
  inBuildSHA :: string
  inRunnerImage :: string
  inProxyImage :: string
  inSeccompProfilePath :: string
  inResourcesMemory :: int
  inResourcesNanoCPUs :: int
  inResourcesPIDs :: int
  inJITConfigB64 :: string
  inEgressConfigDir :: string
  inEgressNetwork :: string
  inEgressVolume :: string
  inEnableDNSMasq :: bool
  inLabels :: "string list"
  inTCPEgressPorts :: "int list"
  inKubeDNSServiceCIDRs :: "string list"
  inKubeDNSNamespace :: string
  inKubeDNSPodLabelKey :: string
  inKubeDNSPodLabelValue :: string
  inAllowedPrivateCIDRs :: "string list"

record LifecycleTiming =
  ltOnlineTimeout :: duration
  ltAssignmentTimeout :: duration
  ltPollInterval :: duration
  ltCleanupRetryInterval :: duration

definition zero_Handle :: Handle where
  "zero_Handle = \<lparr>hSpawnID = [], hBackend = [], hRefs = []\<rparr>"

section \<open>Classification of errors\<close>

definition classifyRunnerOperationError :: "gerr \<Rightarrow> string" where
  "classifyRunnerOperationError err =
     (if err_is err ErrJITLabelMismatch then ''github_jit_label_mismatch''
      else if err_is err ErrAuthFailed then ''github_auth_failed''
      else if err_is err ErrRateLimited then ''github_rate_limited''
      else if ErrorStatus err = 422 then ''github_jit_unavailable''
      else ''github_runner_operation_failed'')"

definition classifyJITError :: "gerr \<Rightarrow> string" where
  "classifyJITError err =
     (if err_is err ErrJITLabelMismatch then ''jit_label_mismatch''
      else if err_is err ErrAuthFailed then ''github_auth_failed''
      else if err_is err ErrRateLimited then ''github_rate_limited''
      else ''github_jit_failed'')"

definition classifyDockerError :: "gerr \<Rightarrow> string" where
  "classifyDockerError err = (if err_is err ErrPolicyDenied then ''socket_proxy_denied'' else ''docker_error'')"

section \<open>Conversions\<close>

text \<open>\<open>fmt.Sscanf(s, "%d", &n)\<close>: leading blanks, an optional sign and digits; the rest of the text
  is not looked at. A missing digit, a newline before the number and a number outside int64
  are errors, which leave \<open>n\<close> unset.\<close>

definition sscanf_d :: "string \<Rightarrow> int option" where
  "sscanf_d s =
     (let t = dropWhile (\<lambda>c. c \<in> {CHR '' '', CHR 0x09, CHR 0x0B, CHR 0x0C, CHR 0x0D}) s;
          neg = (t \<noteq> [] \<and> hd t = CHR ''-'');
          u = (if t \<noteq> [] \<and> (hd t = CHR ''-'' \<or> hd t = CHR ''+'') then tl t else t);
          ds = takeWhile is_digit u;
          v = (if neg then - dec_val ds else dec_val ds)
      in if ds = [] \<or> v < - (2 ^ 63) \<or> 2 ^ 63 \<le> v then None else Some v)"

definition parseResources :: "string \<Rightarrow> int \<Rightarrow> int \<times> int" where
  "parseResources mem cpus =
     (let nanoCPUs = i64 (cpus * 1000000000) in
      if length mem < 2 then (0, nanoCPUs)
      else let unit = last mem;
               mul = (if unit = CHR ''g'' \<or> unit = CHR ''G'' then Some (2 ^ 30)
                      else if unit = CHR ''m'' \<or> unit = CHR ''M'' then Some (2 ^ 20)
                      else if unit = CHR ''k'' \<or> unit = CHR ''K'' then Some (2 ^ 10) else None)
           in case mul of
                None \<Rightarrow> (0, nanoCPUs)
              | Some m \<Rightarrow>
                  (i64 ((case sscanf_d (butlast mem) of None \<Rightarrow> 0 | Some n \<Rightarrow> n) * m), nanoCPUs))"

definition secondsToDuration :: "int \<Rightarrow> duration" where
  "secondsToDuration s = i64 (s * time_Second)"

definition defaultTimeoutSeconds :: "int \<Rightarrow> int" where
  "defaultTimeoutSeconds s = (if s \<le> 0 then 21600 else s)"

definition teardownGracePeriod :: duration where
  "teardownGracePeriod = 15 * time_Second"

definition egressNetworkName :: "(string \<Rightarrow> string) \<Rightarrow> string" where
  "egressNetworkName getenv =
     (let v = getenv ''RUNSECURE_EGRESS_NETWORK'' in if v \<noteq> [] then v else ''runsecure-egress'')"

definition egressVolumeName :: "(string \<Rightarrow> string) \<Rightarrow> string" where
  "egressVolumeName getenv = getenv ''RUNSECURE_EGRESS_VOLUME''"

definition tcpEgressPorts :: "RunnerYML \<Rightarrow> int list" where
  "tcpEgressPorts r =
     List.map_filter (\<lambda>entry.
        case sscanf_d (last_after_colon entry) of
          Some port \<Rightarrow> if port > 0 then Some port else None
        | None \<Rightarrow> None) (ryTCPEgress r)"

definition DefaultLifecycleTiming :: LifecycleTiming where
  "DefaultLifecycleTiming =
     \<lparr>ltOnlineTimeout = 60 * time_Second, ltAssignmentTimeout = 120 * time_Second,
      ltPollInterval = 2 * time_Second, ltCleanupRetryInterval = time_Second\<rparr>"

definition normalizedLifecycleTiming :: "LifecycleTiming \<Rightarrow> LifecycleTiming" where
  "normalizedLifecycleTiming t =
     \<lparr>ltOnlineTimeout = (if ltOnlineTimeout t \<le> 0 then ltOnlineTimeout DefaultLifecycleTiming else ltOnlineTimeout t),
      ltAssignmentTimeout = (if ltAssignmentTimeout t \<le> 0 then ltAssignmentTimeout DefaultLifecycleTiming else ltAssignmentTimeout t),
      ltPollInterval = (if ltPollInterval t \<le> 0 then ltPollInterval DefaultLifecycleTiming else ltPollInterval t),
      ltCleanupRetryInterval = (if ltCleanupRetryInterval t \<le> 0 then ltCleanupRetryInterval DefaultLifecycleTiming else ltCleanupRetryInterval t)\<rparr>"

section \<open>Resources that reach the backend\<close>

definition mem_unit :: "char \<Rightarrow> int option" where
  "mem_unit c =
     (if c = CHR ''g'' \<or> c = CHR ''G'' then Some (2 ^ 30)
      else if c = CHR ''m'' \<or> c = CHR ''M'' then Some (2 ^ 20)
      else if c = CHR ''k'' \<or> c = CHR ''K'' then Some (2 ^ 10) else None)"

lemma sscanf_d_show_nat: "int n < 2 ^ 63 \<Longrightarrow> sscanf_d (show_nat n) = Some (int n)"
proof -
  assume n: "int n < 2 ^ 63"
  have d: "list_all is_digit (show_nat n)" "show_nat n \<noteq> []" using show_nat_digits [of n] by auto
  then have hd: "is_digit (hd (show_nat n))" by (cases "show_nat n") auto
  then have h: "hd (show_nat n) \<notin> {CHR '' '', CHR 0x09, CHR 0x0B, CHR 0x0C, CHR 0x0D, CHR ''-'', CHR ''+''}"
    by (auto simp: is_digit_def)
  have "dropWhile (\<lambda>c. c \<in> {CHR '' '', CHR 0x09, CHR 0x0B, CHR 0x0C, CHR 0x0D}) (show_nat n) = show_nat n"
    using h d(2) by (cases "show_nat n") auto
  moreover have "takeWhile is_digit (show_nat n) = show_nat n"
    using d(1) by (simp add: takeWhile_eq_all_conv list_all_iff)
  note tw = this
  ultimately show ?thesis
    using h d(2) n by (simp add: sscanf_d_def Let_def tw del: takeWhile_eq_all_conv)
qed

text \<open>A memory limit written as a decimal number and a unit is passed on as exactly that many
  bytes as long as it fits into 63 bits, and the CPU count as that many billionths.\<close>

theorem parse_resources_exact:
  assumes "mem_unit u = Some m" and "int n * m < 2 ^ 63" and "0 \<le> cpus" and "cpus * 1000000000 < 2 ^ 63"
  shows "parseResources (show_nat n @ [u]) cpus = (int n * m, cpus * 1000000000)"
proof -
  have m: "0 < m" "1 \<le> m" using assms(1) by (auto simp: mem_unit_def split: if_splits)
  have "int n \<le> int n * m" using m(2) by (simp add: mult_le_cancel_left1)
  then have "sscanf_d (show_nat n) = Some (int n)" using assms(2) by (intro sscanf_d_show_nat) simp
  moreover have "i64 (int n * m) = int n * m"
    using assms(2) m order_trans [OF _ mult_nonneg_nonneg [of "int n" m], of "- (2 ^ 63)"]
    by (intro i64_id) auto
  moreover have "i64 (cpus * 1000000000) = cpus * 1000000000" using assms(3,4) by (intro i64_id) auto
  moreover have "\<not> length (show_nat n @ [u]) < 2" using show_nat_digits [of n] by (cases "show_nat n") auto
  ultimately show ?thesis
    using assms(1) by (simp add: parseResources_def Let_def mem_unit_def split: if_splits)
qed

lemma parse_resources_exact_witness:
  "parseResources (show_nat 8 @ ''g'') 4 = (8589934592, 4000000000)"
  using parse_resources_exact [of "CHR ''g''" "2 ^ 30" 8 4] by (simp add: mem_unit_def)

end
