(* ===== verification/Lifecycle_Model.thy ===== *)
theory Lifecycle_Model
  imports Spawn_Data
begin

text \<open>
  Observation of a running spawn: \<open>internal/orchestrator/lifecycle.go\<close>, with
  \<open>recordRunnerOperation\<close> of \<open>spawn.go\<close>.

  \<open>waitForLifecycle\<close> is a loop around a \<open>select\<close> over the context, the exit of the backend's
  containers, a poll ticker and four timers. Which ready case a turn takes is the
  environment's choice, \<open>seLife\<close>; a case whose channel is disabled (nil in the code) is not
  taken. \<open>LifeState\<close> is the set of local variables of the loop. The loop has fuel.
\<close>

section \<open>Data\<close>

datatype LifeEvent =
    LifeCtxDone
  | LifeExit int bool
  | LifePoll
  | LifeOnlineFinal
  | LifeAssignmentFinal
  | LifeOnlineDeadline
  | LifeAssignmentDeadline

record SpawnEnv =
  seEnv :: Env
  seScope :: ScopeRef
  seGetenv :: "string \<Rightarrow> string"
  seTiming :: LifecycleTiming
  seVersion :: string
  seBuildSHA :: string
  seBackendName :: string
  seSpawn :: "nat \<Rightarrow> SpawnInput \<Rightarrow> Handle \<times> gerr option"
  seTeardown :: "nat \<Rightarrow> Handle \<Rightarrow> bool \<Rightarrow> gerr option"
  seRender :: "nat \<Rightarrow> string \<Rightarrow> RunnerYML \<Rightarrow> gerr + (string \<times> string list)"
  seLife :: "nat \<Rightarrow> LifeEvent"

record lifecycleResult =
  lrExitCode :: int
  lrTimedOut :: bool
  lrErr :: "gerr option"
  lrUnassigned :: bool
  lrFailureReason :: string

record LifeState =
  lsOnline :: bool
  lsAssigned :: bool
  lsLastErr :: "gerr option"
  lsOnlineFinal :: bool
  lsAssignmentFinal :: bool
  lsPoll :: bool

definition zero_lifecycleResult :: lifecycleResult where
  "zero_lifecycleResult = \<lparr>lrExitCode = 0, lrTimedOut = False, lrErr = None, lrUnassigned = False,
     lrFailureReason = []\<rparr>"

definition lifecycleFailure :: "string \<Rightarrow> gerr \<Rightarrow> lifecycleResult" where
  "lifecycleFailure reason err = \<lparr>lrExitCode = - 1, lrTimedOut = False, lrErr = Some err,
     lrUnassigned = False, lrFailureReason = reason\<rparr>"

section \<open>Helpers\<close>

text \<open>\<open>Duration.String\<close>\<close>

definition frac_digits :: "int \<Rightarrow> nat \<Rightarrow> string" where
  "frac_digits v width =
     (let s = show_int v; p = replicate (width - length s) CHR ''0'' @ s;
          t = rev (dropWhile (\<lambda>c. c = CHR ''0'') (rev p))
      in if t = [] then [] else CHR ''.'' # t)"

definition duration_String :: "duration \<Rightarrow> string" where
  "duration_String d =
     (let u = \<bar>d\<bar>; sign = (if d < 0 then ''-'' else []) in
      if u = 0 then ''0s''
      else if u < 1000 then sign @ show_int u @ ''ns''
      else if u < 1000000 then sign @ show_int (u div 1000) @ frac_digits (u mod 1000) 3 @ [CHR 0xC2, CHR 0xB5] @ ''s''
      else if u < time_Second then sign @ show_int (u div 1000000) @ frac_digits (u mod 1000000) 6 @ ''ms''
      else let secs = u div time_Second; h = secs div 3600; m = secs div 60 mod 60; s = secs mod 60 in
        sign @ (if h > 0 then show_int h @ ''h'' else []) @ (if h > 0 \<or> m > 0 then show_int m @ ''m'' else []) @
        show_int s @ frac_digits (u mod time_Second) 9 @ ''s'')"

definition finalObservationLead :: "duration \<Rightarrow> duration" where
  "finalObservationLead timeout = (let lead = sgn timeout * (\<bar>timeout\<bar> div 2) in if lead > time_Second then time_Second else lead)"

definition runnerDeadlineFailure :: "int \<Rightarrow> string \<Rightarrow> duration \<Rightarrow> gerr option \<Rightarrow> lifecycleResult" where
  "runnerDeadlineFailure runnerID phase timeout lastErr =
     (let who = ''runner '' @ show_int runnerID;
          (detail, reason) =
            (if phase = ''assignment''
             then (who @ '' did not receive a job within '' @ duration_String timeout, ''runner_assignment_timeout'')
             else (who @ '' did not become online within '' @ duration_String timeout, ''runner_online_timeout''));
          detail' = (case lastErr of None \<Rightarrow> detail | Some err \<Rightarrow> detail @ '': last observation: '' @ err_text err)
      in lifecycleFailure reason (Plain detail'))"

definition jobMatchesRunner :: "WorkflowJob \<Rightarrow> int \<Rightarrow> string \<Rightarrow> bool" where
  "jobMatchesRunner job runnerID runnerName =
     (if wjStatus job \<noteq> ''in_progress'' \<and> wjStatus job \<noteq> ''completed'' then False
      else if wjRunnerID job > 0 \<and> runnerID > 0 then wjRunnerID job = runnerID
      else runnerName \<noteq> [] \<and> wjRunnerName job = runnerName)"

text \<open>The transport outcomes of the backend's wait, given the context's error.\<close>

definition lifecycleTransportResult :: "gerr option \<Rightarrow> int \<Rightarrow> bool \<Rightarrow> lifecycleResult option" where
  "lifecycleTransportResult ctxErr exitCode timedOut =
     (if timedOut then Some (zero_lifecycleResult\<lparr>lrExitCode := exitCode, lrTimedOut := True\<rparr>)
      else case ctxErr of
        Some err \<Rightarrow> Some (lifecycleFailure ''runner_observation_cancelled'' err)
      | None \<Rightarrow> None)"

section \<open>Runner operations\<close>

definition runnerOperationGetRunner :: string where
  "runnerOperationGetRunner = ''get_runner''"

definition runnerOperationGetJob :: string where
  "runnerOperationGetJob = ''get_workflow_job''"

definition recordRunnerOperation :: "Env \<Rightarrow> string \<Rightarrow> string \<Rightarrow> gerr option \<Rightarrow> World \<Rightarrow> World" where
  "recordRunnerOperation e repo operation err w =
     (case err of
        None \<Rightarrow> st_op e (RecordRunnerOperationSuccess repo operation) w
      | Some x \<Rightarrow>
          if operation = runnerOperationGetRunner \<and> err_is x ErrRunnerNotFound
          then st_op e (RecordRunnerOperationSuccess repo operation) w
          else if operation = runnerOperationGetJob \<and> ErrorStatus x = 404
          then st_op e (RecordRunnerOperationSuccess repo operation) w
          else st_op e (RecordRunnerOperationFailure repo operation (classifyRunnerOperationError x) (err_text x)) w)"

definition markCorrelatedAssignment :: "Env \<Rightarrow> SpawnIntent \<Rightarrow> int \<Rightarrow> World \<Rightarrow> World" where
  "markCorrelatedAssignment e i runnerID w =
     (let t = clk_now e w;
          (on, w1) = st_call e (MarkOnline (siSpawnID i) t) w;
          w2 = (if on then emit (EvRunnerOnline (siScope i) (siRepo i) (siSpawnID i) runnerID) w1 else w1);
          (asg, w3) = st_call e (MarkAssigned (siSpawnID i) t) w2
      in if asg then emit (EvJobAssigned (siScope i) (siRepo i) (siSpawnID i) runnerID) w3 else w3)"

definition defaultJobCorrelationMaxCalls :: int where
  "defaultJobCorrelationMaxCalls = 64"

definition defaultJobCorrelationMaxRuns :: int where
  "defaultJobCorrelationMaxRuns = 50"

definition defaultJobCorrelationLookback :: duration where
  "defaultJobCorrelationLookback = 7 * 24 * 3600 * time_Second"

text \<open>The loop over the candidate jobs: a verdict, or the number of calls made.\<close>

fun correlate_candidates ::
  "Env \<Rightarrow> SpawnIntent \<Rightarrow> string \<Rightarrow> int \<Rightarrow> WorkflowJob list \<Rightarrow> int \<Rightarrow> World \<Rightarrow> ((gerr + bool) + int) \<times> World" where
  "correlate_candidates e i name runnerID [] calls w = (Inr calls, w)"
| "correlate_candidates e i name runnerID (cand # cs) calls w =
     (if defaultJobCorrelationMaxCalls \<le> calls
      then (Inl (Inl (Wrap [] (Sentinel ErrRecentJobSearchIndeterminate) '': exact candidate API call limit reached'')), w)
      else
        let ((r, rl), w1) = gh_call (GetWorkflowJob (eClient e) (siRepo i) (wjID cand)) w;
            w2 = deps_RecordRateLimit e rl w1;
            w3 = recordRunnerOperation e (siRepo i) runnerOperationGetJob
                   (case r of Inl err \<Rightarrow> Some err | Inr _ \<Rightarrow> None) w2
        in case r of
             Inl err \<Rightarrow>
               if ErrorStatus err = 404 then correlate_candidates e i name runnerID cs (calls + 1) w3
               else (Inl (Inl err), w3)
           | Inr job \<Rightarrow>
               if \<not> jobMatchesRunner job runnerID name
               then correlate_candidates e i name runnerID cs (calls + 1) w3
               else (Inl (Inr True), markCorrelatedAssignment e i runnerID w3))"

definition correlateCompletedJob ::
  "Env \<Rightarrow> SpawnIntent \<Rightarrow> string \<Rightarrow> int \<Rightarrow> time \<Rightarrow> World \<Rightarrow> (gerr + bool) \<times> World" where
  "correlateCompletedJob e i name runnerID since w =
     (case correlate_candidates e i name runnerID (siCandidateJobs i) 0 w of
        (Inl v, w1) \<Rightarrow> (v, w1)
      | (Inr calls, w1) \<Rightarrow>
          let remaining = defaultJobCorrelationMaxCalls - calls in
          if remaining \<le> 0
          then (Inl (Wrap [] (Sentinel ErrRecentJobSearchIndeterminate)
                 '': exact candidate checks consumed the API call limit''), w1)
          else
            let bounds = \<lparr>rbSince = since,
                  rbPriorityRunIDs = filter (\<lambda>r. r > 0) (map wjRunID (siCandidateJobs i)),
                  rbMaxRuns = defaultJobCorrelationMaxRuns, rbMaxAPICalls = remaining\<rparr>;
                ((res, err), w2) = gh_call (FindRecentWorkflowJobByRunner (eClient e) (siRepo i) runnerID name bounds) w1;
                w3 = deps_RecordRateLimit e (rjRateLimit res) w2;
                w4 = recordRunnerOperation e (siRepo i) ''find_recent_workflow_job'' err w3
            in case err of
                 Some x \<Rightarrow> (Inl x, w4)
               | None \<Rightarrow>
                   if \<not> rjFound res then (Inr False, w4)
                   else (Inr True, markCorrelatedAssignment e i runnerID w4))"

section \<open>Observation\<close>

text \<open>The two transitions a sample of the runner can show.\<close>

definition note_online :: "Env \<Rightarrow> SpawnIntent \<Rightarrow> int \<Rightarrow> Runner \<Rightarrow> LifeState \<times> World \<Rightarrow> LifeState \<times> World" where
  "note_online e i runnerID runner lw =
     (case lw of (l, w) \<Rightarrow>
        if (ghrStatus runner = ''online'' \<or> ghrBusy runner) \<and> \<not> lsOnline l
        then let (on, v) = st_call e (MarkOnline (siSpawnID i) (clk_now e w)) w
             in (l\<lparr>lsOnline := True\<rparr>,
                 if on then emit (EvRunnerOnline (siScope i) (siRepo i) (siSpawnID i) runnerID) v else v)
        else (l, w))"

definition note_assigned :: "Env \<Rightarrow> SpawnIntent \<Rightarrow> int \<Rightarrow> Runner \<Rightarrow> LifeState \<times> World \<Rightarrow> LifeState \<times> World" where
  "note_assigned e i runnerID runner lw =
     (case lw of (l, w) \<Rightarrow>
        if ghrBusy runner \<and> \<not> lsAssigned l
        then let (asg, v) = st_call e (MarkAssigned (siSpawnID i) (clk_now e w)) w
             in (l\<lparr>lsAssigned := True\<rparr>,
                 if asg then emit (EvJobAssigned (siScope i) (siRepo i) (siSpawnID i) runnerID) v else v)
        else (l, w))"

text \<open>One sample of the runner; the result carries an error only when observation must stop.\<close>

definition observe :: "Env \<Rightarrow> SpawnIntent \<Rightarrow> int \<Rightarrow> LifeState \<times> World \<Rightarrow> lifecycleResult \<times> LifeState \<times> World" where
  "observe e i runnerID lw =
     (case lw of (l, w) \<Rightarrow>
        case gh_call (GetRunner (eClient e) (siRepo i) runnerID) w of
          ((Inl err, _), w1) \<Rightarrow>
            let w2 = recordRunnerOperation e (siRepo i) runnerOperationGetRunner (Some err) w1;
                l1 = l\<lparr>lsLastErr := Some err\<rparr> in
            if err_is err ErrAuthFailed then (lifecycleFailure ''github_runner_observation_failed'' err, l1, w2)
            else if err_is err ErrRateLimited
            then (lifecycleFailure ''github_runner_observation_rate_limited'' err, l1, w2)
            else (zero_lifecycleResult, l1, w2)
        | ((Inr runner, _), w1) \<Rightarrow>
            let w2 = recordRunnerOperation e (siRepo i) runnerOperationGetRunner None w1 in
            (zero_lifecycleResult,
             note_assigned e i runnerID runner (note_online e i runnerID runner (l\<lparr>lsLastErr := None\<rparr>, w2))))"

text \<open>Disable the channels whose condition is met.\<close>

definition settle_timers :: "LifeState \<Rightarrow> LifeState" where
  "settle_timers l =
     (let l1 = (if lsOnline l then l\<lparr>lsOnlineFinal := False\<rparr> else l)
      in if lsAssigned l1 then l1\<lparr>lsAssignmentFinal := False, lsPoll := False\<rparr> else l1)"

section \<open>The exit of the backend\<close>

text \<open>The verdict after the last sample, \<open>(failure, l1, w1)\<close>.\<close>

definition exit_verdict ::
  "SpawnEnv \<Rightarrow> SpawnIntent \<Rightarrow> string \<Rightarrow> int \<Rightarrow> time \<Rightarrow> time \<Rightarrow> time \<Rightarrow> int \<Rightarrow> bool \<Rightarrow>
   lifecycleResult \<times> LifeState \<times> World \<Rightarrow> lifecycleResult \<times> LifeState \<times> World" where
  "exit_verdict se i name runnerID onlineAt assignmentAt since exitCode timedOut sample =
     (let e = seEnv se; timing = normalizedLifecycleTiming (seTiming se); (failure, l1, w1) = sample
      in if lrErr failure \<noteq> None then (failure, l1, w1)
         else if \<not> lsOnline l1 \<and> onlineAt \<le> clk_now e w1
         then (runnerDeadlineFailure runnerID ''online'' (ltOnlineTimeout timing) (lsLastErr l1), l1, w1)
         else if \<not> lsAssigned l1 \<and> assignmentAt \<le> clk_now e w1
         then (runnerDeadlineFailure runnerID ''assignment'' (ltAssignmentTimeout timing) (lsLastErr l1), l1, w1)
         else if lsAssigned l1
         then (zero_lifecycleResult\<lparr>lrExitCode := exitCode, lrTimedOut := timedOut\<rparr>, l1, w1)
         else (case correlateCompletedJob e i name runnerID since w1 of
            (Inl err, w2) \<Rightarrow>
              if err_is err CtxDeadlineExceeded \<and> eCtxErr e (wStep w2) = None
              then (runnerDeadlineFailure runnerID ''assignment'' (ltAssignmentTimeout timing) (Some err), l1, w2)
              else (lifecycleFailure ''github_job_correlation_failed'' err, l1, w2)
          | (Inr True, w2) \<Rightarrow>
              (zero_lifecycleResult\<lparr>lrExitCode := exitCode, lrTimedOut := timedOut\<rparr>, l1\<lparr>lsAssigned := True\<rparr>, w2)
          | (Inr False, w2) \<Rightarrow>
              ((lifecycleFailure ''runner_exited_unassigned''
                  (Plain (''runner '' @ show_int runnerID @ '' exited with code '' @ show_int exitCode @
                          '' before GitHub reported a job assignment'')))
                 \<lparr>lrExitCode := exitCode, lrTimedOut := timedOut, lrUnassigned := True\<rparr>,
               l1, emit (EvRunnerExitedUnassigned (siScope i) (siRepo i) (siSpawnID i) exitCode) w2)))"

definition on_exit ::
  "SpawnEnv \<Rightarrow> SpawnIntent \<Rightarrow> string \<Rightarrow> int \<Rightarrow> time \<Rightarrow> time \<Rightarrow> time \<Rightarrow> int \<Rightarrow> bool \<Rightarrow> LifeState \<times> World \<Rightarrow>
   lifecycleResult \<times> LifeState \<times> World" where
  "on_exit se i name runnerID onlineAt assignmentAt since exitCode timedOut lw =
     (let e = seEnv se; (l, w) = lw in
      case lifecycleTransportResult (eCtxErr e (wStep w)) exitCode timedOut of
        Some r \<Rightarrow> (r, l, w)
      | None \<Rightarrow>
          exit_verdict se i name runnerID onlineAt assignmentAt since exitCode timedOut
            (if \<not> lsAssigned l then observe e i runnerID (l, w) else (zero_lifecycleResult, l, w)))"

section \<open>The loop\<close>

text \<open>One turn of the select: \<open>Inl\<close> leaves the loop with a result.\<close>

definition life_turn ::
  "SpawnEnv \<Rightarrow> SpawnIntent \<Rightarrow> string \<Rightarrow> int \<Rightarrow> time \<Rightarrow> time \<Rightarrow> time \<Rightarrow> LifeEvent \<Rightarrow> LifeState \<times> World \<Rightarrow>
   (lifecycleResult \<times> LifeState \<times> World) + (LifeState \<times> World)" where
  "life_turn se i name runnerID onlineAt assignmentAt since ev lw =
     (let e = seEnv se; timing = normalizedLifecycleTiming (seTiming se); (l, w) = lw;
          observed = (\<lambda>l w. let (failure, l1, w1) = observe e i runnerID (l, w)
                            in if lrErr failure \<noteq> None then Inl (failure, l1, w1) else Inr (l1, w1)) in
      case ev of
        LifeCtxDone \<Rightarrow>
          (case eCtxErr e (wStep w) of
             Some err \<Rightarrow> Inl (lifecycleFailure ''runner_observation_cancelled'' err, l, w)
           | None \<Rightarrow> Inr (l, w))
      | LifeExit exitCode timedOut \<Rightarrow>
          Inl (on_exit se i name runnerID onlineAt assignmentAt since exitCode timedOut (l, w))
      | LifePoll \<Rightarrow> if lsPoll l then observed l w else Inr (l, w)
      | LifeOnlineFinal \<Rightarrow>
          if lsOnlineFinal l then
            (let l1 = l\<lparr>lsOnlineFinal := False\<rparr> in if \<not> lsOnline l1 then observed l1 w else Inr (l1, w))
          else Inr (l, w)
      | LifeAssignmentFinal \<Rightarrow>
          if lsAssignmentFinal l then
            (let l1 = l\<lparr>lsAssignmentFinal := False\<rparr> in if \<not> lsAssigned l1 then observed l1 w else Inr (l1, w))
          else Inr (l, w)
      | LifeOnlineDeadline \<Rightarrow>
          if \<not> lsOnline l
          then Inl (runnerDeadlineFailure runnerID ''online'' (ltOnlineTimeout timing) (lsLastErr l), l, w)
          else Inr (l, w)
      | LifeAssignmentDeadline \<Rightarrow>
          if \<not> lsAssigned l
          then Inl (runnerDeadlineFailure runnerID ''assignment'' (ltAssignmentTimeout timing) (lsLastErr l), l, w)
          else Inr (l, w))"

fun life_loop ::
  "nat \<Rightarrow> SpawnEnv \<Rightarrow> SpawnIntent \<Rightarrow> string \<Rightarrow> int \<Rightarrow> time \<Rightarrow> time \<Rightarrow> time \<Rightarrow> LifeState \<times> World \<Rightarrow>
   (lifecycleResult \<times> LifeState \<times> World) option" where
  "life_loop 0 se i name runnerID onlineAt assignmentAt since lw = None"
| "life_loop (Suc fuel) se i name runnerID onlineAt assignmentAt since lw =
     (case life_turn se i name runnerID onlineAt assignmentAt since (seLife se (wStep (snd lw))) lw of
        Inl r \<Rightarrow> Some r
      | Inr (l, w) \<Rightarrow> life_loop fuel se i name runnerID onlineAt assignmentAt since (settle_timers l, st_sync (seEnv se) w))"

definition waitForLifecycle ::
  "nat \<Rightarrow> SpawnEnv \<Rightarrow> SpawnIntent \<Rightarrow> string \<Rightarrow> int \<Rightarrow> World \<Rightarrow> (lifecycleResult \<times> LifeState \<times> World) option" where
  "waitForLifecycle fuel se i name runnerID w =
     (let e = seEnv se; timing = normalizedLifecycleTiming (seTiming se);
          startedAt = clk_now e w;
          onlineAt = startedAt + ltOnlineTimeout timing;
          assignmentAt = startedAt + ltAssignmentTimeout timing;
          since = clk_now e w - defaultJobCorrelationLookback;
          l0 = \<lparr>lsOnline = False, lsAssigned = False, lsLastErr = None, lsOnlineFinal = True,
                lsAssignmentFinal = True, lsPoll = True\<rparr>;
          (failure, l1, w1) = observe e i runnerID (l0, w)
      in if lrErr failure \<noteq> None then Some (failure, l1, w1)
         else life_loop fuel se i name runnerID onlineAt assignmentAt since (settle_timers l1, w1))"

end
