(* ===== verification/Spawn_Model.thy ===== *)
theory Spawn_Model
  imports Lifecycle_Model
begin

text \<open>
  The spawn worker: \<open>internal/orchestrator/spawn.go\<close>. \<open>Execute\<close> is split at the stages of the
  code: admission, runner configuration and JIT registration (\<open>Execute\<close>), egress and backend
  spawn (\<open>spawn_stage\<close>), and observation, teardown and settlement (\<open>finish_stage\<close>). The deferred
  \<open>ReleaseReservation\<close> runs on every return after admission.

  The two retry loops and the observation loop have fuel; \<open>None\<close> means it ran out.
\<close>

section \<open>Cleanup\<close>

definition runnerOperationDelete :: string where
  "runnerOperationDelete = ''delete_runner''"

definition pauseForRateLimit :: "Env \<Rightarrow> string \<Rightarrow> gerr \<Rightarrow> World \<Rightarrow> World" where
  "pauseForRateLimit e scope err w =
     (if \<not> err_is err ErrRateLimited then w
      else let w1 = deps_RecordRateLimit e (ErrorRateLimit err) w;
               (newly, w2) = deps_MarkRateLimited e w1
           in if \<not> newly then w2
              else let ((rem, lmt, reset), w3) = RateLimitContextFor e w2
                   in emit (EvRatelimitPaused scope rem lmt reset) w3)"

definition teardownSpawn :: "SpawnEnv \<Rightarrow> Handle \<Rightarrow> bool \<Rightarrow> World \<Rightarrow> gerr option \<times> World" where
  "teardownSpawn se h timedOut w =
     (let force = (timedOut \<or> eCtxErr (seEnv se) (wStep w) \<noteq> None);
          err = seTeardown se (wStep w) h force
      in (err, effect (FxTeardown h force (err = None)) (st_sync (seEnv se) w)))"

definition deregister :: "SpawnEnv \<Rightarrow> string \<Rightarrow> int \<Rightarrow> World \<Rightarrow> gerr option \<times> World" where
  "deregister se repo runnerID w =
     (if runnerID \<le> 0 then (None, w)
      else
        let e = seEnv se;
            (err, w1) = gh_call (DeleteRunner (eClient e) repo runnerID) w;
            w2 = effect (FxDeleteRunner repo runnerID (err = None)) w1;
            w3 = recordRunnerOperation e repo runnerOperationDelete err w2
        in case err of
             Some x \<Rightarrow> (Some x, w3)
           | None \<Rightarrow> (None, st_op e RecordDeregistered w3))"

definition spawn_failed :: "SpawnIntent \<Rightarrow> string \<Rightarrow> string \<Rightarrow> World \<Rightarrow> World" where
  "spawn_failed i reason detail w = emit (EvSpawnFailed (siScope i) (siRepo i) (siSpawnID i) reason detail) w"

definition fail :: "SpawnIntent \<Rightarrow> string \<Rightarrow> gerr option \<Rightarrow> World \<Rightarrow> gerr option \<times> World" where
  "fail i reason err w =
     (err, spawn_failed i reason (case err of None \<Rightarrow> [] | Some x \<Rightarrow> err_text x) w)"

definition blockTeardown :: "SpawnEnv \<Rightarrow> SpawnIntent \<Rightarrow> gerr \<Rightarrow> World \<Rightarrow> World" where
  "blockTeardown se i err w =
     (let e = seEnv se;
          (fresh, w1) = st_call e (MarkTeardownBlocked (siSpawnID i) (siRepo i) (err_text err) (clk_now e w)) w
      in if \<not> fresh then w1 else spawn_failed i ''backend_teardown_failed'' (err_text err) w1)"

definition blockRunnerCleanup :: "SpawnEnv \<Rightarrow> SpawnIntent \<Rightarrow> gerr \<Rightarrow> World \<Rightarrow> World" where
  "blockRunnerCleanup se i err w =
     (let e = seEnv se;
          (_, w1) = st_call e (MarkTeardownBlocked (siSpawnID i) (siRepo i) (err_text err) (clk_now e w)) w
      in spawn_failed i ''runner_deregistration_failed'' (err_text err) w1)"

definition runnerDeletionRetryDelay :: "SpawnEnv \<Rightarrow> gerr \<Rightarrow> duration \<Rightarrow> World \<Rightarrow> duration \<times> World" where
  "runnerDeletionRetryDelay se err base w =
     (if err_is err ErrAuthFailed \<and> base < 30 * time_Second then (30 * time_Second, w)
      else if \<not> err_is err ErrRateLimited then (base, w)
      else let ((_, _, reset), w1) = RateLimitContextFor (seEnv se) w in
        case reset of
          None \<Rightarrow> (max base time_Minute, w1)
        | Some resetAt \<Rightarrow>
            let delay = time_Sub resetAt (clk_now (seEnv se) w1) in
            (if delay < base then base else delay, w1))"

text \<open>The retry loops; the wait between attempts is a select of the context and the clock, and the
  context wins when it is done. The delay itself only decides how long the clock waits.\<close>

fun retryBackendTeardown :: "nat \<Rightarrow> SpawnEnv \<Rightarrow> SpawnIntent \<Rightarrow> Handle \<Rightarrow> World \<Rightarrow> (gerr option \<times> World) option" where
  "retryBackendTeardown 0 se i h w = None"
| "retryBackendTeardown (Suc fuel) se i h w =
     (case teardownSpawn se h True w of
        (None, w1) \<Rightarrow> Some (None, w1)
      | (Some err, w1) \<Rightarrow>
          let w2 = st_op (seEnv se) (UpdateTeardownFailure (siSpawnID i) (err_text err)) w1 in
          (case eCtxErr (seEnv se) (wStep w2) of
             Some cerr \<Rightarrow> Some (Some (Wrap ''teardown reconciliation interrupted: '' cerr []), w2)
           | None \<Rightarrow> retryBackendTeardown fuel se i h w2))"

fun retryRunnerDeletion ::
  "nat \<Rightarrow> SpawnEnv \<Rightarrow> SpawnIntent \<Rightarrow> int \<Rightarrow> gerr \<Rightarrow> bool \<Rightarrow> World \<Rightarrow> (gerr option \<times> World) option" where
  "retryRunnerDeletion 0 se i runnerID err first w = None"
| "retryRunnerDeletion (Suc fuel) se i runnerID err first w =
     (let e = seEnv se;
          w1 = st_op e (UpdateTeardownFailure (siSpawnID i) (err_text err)) w;
          w2 = pauseForRateLimit e (siScope i) err w1;
          waits = (\<not> first \<or> err_is err ErrAuthFailed \<or> err_is err ErrRateLimited);
          w3 = (if waits
                then snd (runnerDeletionRetryDelay se err
                       (ltCleanupRetryInterval (normalizedLifecycleTiming (seTiming se))) w2)
                else w2)
      in case (if waits then eCtxErr e (wStep w3) else None) of
           Some cerr \<Rightarrow> Some (Some (Wrap ''runner deregistration reconciliation interrupted: '' cerr []), w3)
         | None \<Rightarrow>
             (case deregister se (siRepo i) runnerID w3 of
                (None, w4) \<Rightarrow> Some (None, w4)
              | (Some err', w4) \<Rightarrow> retryRunnerDeletion fuel se i runnerID err' False w4))"

definition joined_failure :: "gerr option \<Rightarrow> gerr option \<Rightarrow> gerr option \<Rightarrow> gerr option" where
  "joined_failure result backendErr runnerErr =
     (let r1 = (case backendErr of None \<Rightarrow> result
                | Some b \<Rightarrow> errors_Join [result, Some (Wrap ''backend teardown failed: '' b [])])
      in case runnerErr of None \<Rightarrow> r1
         | Some r \<Rightarrow> errors_Join [r1, Some (Wrap ''runner deregistration failed: '' r [])])"

definition the_err :: "gerr option \<Rightarrow> gerr" where
  "the_err err = (case err of None \<Rightarrow> Plain [] | Some x \<Rightarrow> x)"

text \<open>The tail the two settlements share: retry the failed parts, then resolve the debt.\<close>

definition retry_and_resolve ::
  "nat \<Rightarrow> SpawnEnv \<Rightarrow> SpawnIntent \<Rightarrow> Handle \<Rightarrow> gerr option \<Rightarrow> gerr option \<Rightarrow> int \<Rightarrow> gerr option \<Rightarrow> World \<Rightarrow>
   (gerr option \<times> World) option" where
  "retry_and_resolve fuel se i h backendErr runnerErr runnerID result w =
     (case (if backendErr \<noteq> None then retryBackendTeardown fuel se i h w else Some (None, w)) of
        None \<Rightarrow> None
      | Some (Some rerr, w1) \<Rightarrow> Some (errors_Join [result, Some rerr], w1)
      | Some (None, w1) \<Rightarrow>
          (case (case runnerErr of
                   Some rerr \<Rightarrow> retryRunnerDeletion fuel se i runnerID rerr True w1
                 | None \<Rightarrow> Some (None, w1)) of
             None \<Rightarrow> None
           | Some (Some rerr, w2) \<Rightarrow> Some (errors_Join [result, Some rerr], w2)
           | Some (None, w2) \<Rightarrow> Some (result, st_op (seEnv se) (\<lambda>s. snd (ResolveTeardown (siSpawnID i) s)) w2)))"

definition settleCleanup ::
  "nat \<Rightarrow> SpawnEnv \<Rightarrow> SpawnIntent \<Rightarrow> Handle \<Rightarrow> gerr option \<Rightarrow> gerr option \<Rightarrow> gerr option \<Rightarrow> int \<Rightarrow> World \<Rightarrow>
   (gerr option \<times> World) option" where
  "settleCleanup fuel se i h backendErr runnerErr originalErr runnerID w =
     (let result = joined_failure originalErr backendErr runnerErr in
      if backendErr = None \<and> runnerErr = None then Some (result, w)
      else
        let w1 = (if backendErr \<noteq> None then blockTeardown se i (the_err result) w else w);
            w2 = (if runnerErr \<noteq> None then blockRunnerCleanup se i (the_err result) w1 else w1)
        in retry_and_resolve fuel se i h backendErr runnerErr runnerID result w2)"

definition settlePartialSpawn ::
  "nat \<Rightarrow> SpawnEnv \<Rightarrow> SpawnIntent \<Rightarrow> Handle \<Rightarrow> gerr \<Rightarrow> int \<Rightarrow> World \<Rightarrow> (gerr option \<times> World) option" where
  "settlePartialSpawn fuel se i h spawnErr runnerID w =
     (let w1 = blockTeardown se i spawnErr w;
          (backendErr, w2) = teardownSpawn se h True w1;
          (runnerErr, w3) = deregister se (siRepo i) runnerID w2;
          result = joined_failure (Some spawnErr) backendErr runnerErr;
          w4 = (if runnerErr \<noteq> None then blockRunnerCleanup se i (the_err result) w3 else w3)
      in retry_and_resolve fuel se i h backendErr runnerErr runnerID result w4)"

definition leak_cleaned :: "SpawnIntent \<Rightarrow> int \<Rightarrow> World \<Rightarrow> World" where
  "leak_cleaned i runnerID w = emit (EvRunnerLeakCleaned (siScope i) (siRepo i) (siSpawnID i) runnerID) w"

definition failAndLeak ::
  "nat \<Rightarrow> SpawnEnv \<Rightarrow> SpawnIntent \<Rightarrow> string \<Rightarrow> gerr \<Rightarrow> int \<Rightarrow> World \<Rightarrow> (gerr option \<times> World) option" where
  "failAndLeak fuel se i reason err runnerID w =
     (if runnerID \<le> 0 then Some (fail i reason (Some err) w)
      else
        let (deregisterErr, w1) = deregister se (siRepo i) runnerID w in
        case (if deregisterErr \<noteq> None
              then settleCleanup fuel se i zero_Handle None deregisterErr (Some err) runnerID w1
              else Some (Some err, w1)) of
          None \<Rightarrow> None
        | Some (err', w2) \<Rightarrow>
            let (held, w3) = (if deregisterErr = None then (False, w2)
                              else st_get (seEnv se) (\<lambda>s. HasReservation s (siSpawnID i) (siRepo i)) w2);
                w4 = (if deregisterErr = None \<or> \<not> held then leak_cleaned i runnerID w3 else w3)
            in Some (fail i reason err' w4))"

section \<open>Execute\<close>

text \<open>Step 7 and after: teardown, deregistration and settlement of an observed spawn.\<close>

definition settle_stage ::
  "nat \<Rightarrow> SpawnEnv \<Rightarrow> SpawnIntent \<Rightarrow> int \<Rightarrow> Handle \<Rightarrow> int \<Rightarrow> lifecycleResult \<Rightarrow> World \<Rightarrow>
   (gerr option \<times> World) option" where
  "settle_stage fuel se i runnerID h timeoutSecs life w =
     (let e = seEnv se;
          (teardownErr, w2) = teardownSpawn se h (lrTimedOut life \<or> lrErr life \<noteq> None) w;
          (deregisterErr, w3) = deregister se (siRepo i) runnerID w2
      in case lrErr life of
           Some lerr \<Rightarrow>
             let w4 = pauseForRateLimit e (siScope i) lerr w3;
                 w5 = (if lrUnassigned life then st_op e RecordUnassignedExit w4 else w4)
             in (case settleCleanup fuel se i h teardownErr deregisterErr (Some lerr) runnerID w5 of
                   None \<Rightarrow> None
                 | Some (res, w6) \<Rightarrow> Some (fail i (lrFailureReason life) res w6))
         | None \<Rightarrow>
             if lrTimedOut life then
               (case settleCleanup fuel se i h teardownErr deregisterErr (Some (Plain ''spawn timed out'')) runnerID w3 of
                  None \<Rightarrow> None
                | Some (res, w6) \<Rightarrow>
                    Some (res, emit (EvSpawnTimeout (siScope i) (siRepo i) (siSpawnID i) timeoutSecs) w6))
             else if teardownErr \<noteq> None then
               settleCleanup fuel se i h teardownErr deregisterErr None runnerID w3
             else if deregisterErr \<noteq> None then
               (case settleCleanup fuel se i h None deregisterErr None runnerID w3 of
                  None \<Rightarrow> None
                | Some (res, w6) \<Rightarrow> Some (fail i ''runner_deregistration_failed'' res w6))
             else if lrExitCode life = 0 then
               Some (None, emit (EvSpawnCompleted (siScope i) (siRepo i) (siSpawnID i) (lrExitCode life)) w3)
             else
               Some (Some (Plain (''runner exited '' @ show_int (lrExitCode life))),
                     spawn_failed i ''runner_nonzero_exit'' (''exit_code='' @ show_int (lrExitCode life)) w3))"

text \<open>Step 6: observation; a delivered job is recorded before any cleanup.\<close>

definition finish_stage ::
  "nat \<Rightarrow> SpawnEnv \<Rightarrow> SpawnIntent \<Rightarrow> string \<Rightarrow> RunnerYMLSnapshot \<Rightarrow> int \<Rightarrow> Handle \<Rightarrow> World \<Rightarrow>
   (gerr option \<times> World) option" where
  "finish_stage fuel se i name snap runnerID h w =
     (let timeoutSecs = defaultTimeoutSeconds (obTimeoutSeconds (ryOrchestrator (rsnYML snap))) in
      case waitForLifecycle fuel se i name runnerID w of
        None \<Rightarrow> None
      | Some (life, _, w1) \<Rightarrow>
          let w2 = (if lrErr life = None \<and> \<not> lrTimedOut life
                    then emit (EvRunnerCompleted (siScope i) (siRepo i) (siSpawnID i) (lrExitCode life))
                           (st_op (seEnv se) RecordCompleted w1)
                    else w1)
          in settle_stage fuel se i runnerID h timeoutSecs life w2)"

definition spawn_input ::
  "SpawnEnv \<Rightarrow> SpawnIntent \<Rightarrow> RunnerYMLSnapshot \<Rightarrow> string \<Rightarrow> string \<Rightarrow> string \<Rightarrow> string list \<Rightarrow> SpawnInput" where
  "spawn_input se i snap imageDigest jitConfig egressDir cidrs =
     (let r = rsnYML snap; getenv = seGetenv se;
          (memBytes, nanoCPUs) = parseResources (resMemory (ryResources r)) (resCPUs (ryResources r))
      in \<lparr>inScope = siScope i, inRepo = siRepo i, inSpawnID = siSpawnID i,
          inKubernetes = rsnKubernetes snap, inNamespace = [],
          inVersion = seVersion se, inBuildSHA = seBuildSHA se,
          inRunnerImage = imageDigest, inProxyImage = getenv ''RUNSECURE_PROXY_IMAGE'',
          inSeccompProfilePath = SeccompProfileHostPath (obSeccompProfile (ryOrchestrator r)),
          inResourcesMemory = memBytes, inResourcesNanoCPUs = nanoCPUs, inResourcesPIDs = resPIDs (ryResources r),
          inJITConfigB64 = jitConfig, inEgressConfigDir = egressDir,
          inEgressNetwork = egressNetworkName getenv, inEgressVolume = egressVolumeName getenv,
          inEnableDNSMasq = (dnsHost (ryDNS r) = Some False), inLabels = [],
          inTCPEgressPorts = tcpEgressPorts r,
          inKubeDNSServiceCIDRs = split_char CHR '','' (getenv ''RUNSECURE_KUBE_DNS_SERVICE_CIDRS''),
          inKubeDNSNamespace = getenv ''RUNSECURE_KUBE_DNS_NAMESPACE'',
          inKubeDNSPodLabelKey = getenv ''RUNSECURE_KUBE_DNS_POD_LABEL_KEY'',
          inKubeDNSPodLabelValue = getenv ''RUNSECURE_KUBE_DNS_POD_LABEL_VALUE'',
          inAllowedPrivateCIDRs = cidrs\<rparr>)"

text \<open>Steps 2 to 5: egress configuration and the backend's spawn.\<close>

definition spawn_stage ::
  "nat \<Rightarrow> SpawnEnv \<Rightarrow> SpawnIntent \<Rightarrow> string \<Rightarrow> RunnerYMLSnapshot \<Rightarrow> string \<Rightarrow> JITConfigResponse \<Rightarrow> World \<Rightarrow>
   (gerr option \<times> World) option" where
  "spawn_stage fuel se i name snap imageDigest jit w =
     (let e = seEnv se; runnerID = jitRunnerID jit in
      case seRender se (wStep w) (siSpawnID i) (rsnYML snap) of
        Inl err \<Rightarrow> failAndLeak fuel se i ''egress_render'' err runnerID w
      | Inr (dir, cidrs) \<Rightarrow>
          let spawnIn = spawn_input se i snap imageDigest (jitEncoded jit) dir cidrs;
              (h, serr) = seSpawn se (wStep w) spawnIn;
              w1 = effect (FxSpawn h (serr = None)) (st_sync e w)
          in case serr of
               Some err \<Rightarrow>
                 if hBackend h \<noteq> [] then
                   (case settlePartialSpawn fuel se i h err runnerID w1 of
                      None \<Rightarrow> None
                    | Some (res, w2) \<Rightarrow>
                        let (held, w3) = st_get e (\<lambda>s. HasReservation s (siSpawnID i) (siRepo i)) w2;
                            w4 = (if \<not> held then leak_cleaned i runnerID w3 else w3)
                        in Some (fail i (classifyDockerError err) res w4))
                 else failAndLeak fuel se i (classifyDockerError err) err runnerID w1
             | None \<Rightarrow>
                 finish_stage fuel se i name snap runnerID h
                   (emit (EvSpawnRunnerCreated (siScope i) (siRepo i) (siSpawnID i)
                            (lookup_or [] (hRefs h) ''network_name'')) w1))"

text \<open>Step 1: the JIT registration.\<close>

definition jit_stage ::
  "nat \<Rightarrow> SpawnEnv \<Rightarrow> SpawnIntent \<Rightarrow> string \<Rightarrow> RunnerYMLSnapshot \<Rightarrow> string \<Rightarrow> World \<Rightarrow> (gerr option \<times> World) option" where
  "jit_stage fuel se i name snap imageDigest w =
     (let e = seEnv se;
          ((jit, jerr), w1) = gh_call (GenerateJITConfig (eClient e) (siRepo i)
              \<lparr>jrName = name, jrRunnerGroupID = 0,
               jrLabels = jitRunnerLabels (siScope i) (ryLabels (rsnYML snap)), jrWorkFolder = []\<rparr>) w;
          w2 = effect (FxJIT (siRepo i) (jitRunnerID jit)) w1;
          w3 = recordRunnerOperation e (siRepo i) ''generate_jit_config'' jerr w2
      in case jerr of
           Some err \<Rightarrow>
             let w4 = pauseForRateLimit e (siScope i) err w3 in
             if jitRunnerID jit > 0 then
               failAndLeak fuel se i (classifyJITError err) err (jitRunnerID jit)
                 (st_op e (RecordJIT (siSpawnID i) (jitRunnerID jit) name) w4)
             else Some (fail i (classifyJITError err) (Some err) w4)
         | None \<Rightarrow>
             let w4 = emit (EvSpawnJITAcquired (siScope i) (siRepo i) (siSpawnID i) (jitRunnerID jit)) w3;
                 w5 = st_op e (RecordJIT (siSpawnID i) (jitRunnerID jit) name) w4
             in spawn_stage fuel se i name snap imageDigest jit w5)"

definition execute_body ::
  "nat \<Rightarrow> SpawnEnv \<Rightarrow> SpawnIntent \<Rightarrow> World \<Rightarrow> (gerr option \<times> World) option" where
  "execute_body fuel se i w =
     (let e = seEnv se;
          (blocked, w1) = st_get e SchedulingBlocked w
      in if blocked then Some (Some (Sentinel ErrSchedulingBlocked), w1)
         else
           let (tok, bucket) = TryTake (clk_now e w1) (wBucket w1); w2 = w1\<lparr>wBucket := bucket\<rparr> in
           if \<not> tok then
             Some (Some (Sentinel ErrRateLimitBackoff),
                   spawn_failed i ''spawn_rate_limited''
                     (''B1 token bucket denied '' @ [CHR 0xE2, CHR 0x80, CHR 0x94] @ '' backlog larger than burst'') w2)
           else
             let name = ''rs-'' @ siSpawnID i @ ''-runner'' in
             case eRunnerYML e (wStep w2) (siRepo i) of
               Inl err \<Rightarrow> Some (fail i ''runner_yml_parse'' (Some err) w2)
             | Inr snap \<Rightarrow>
                 (case ValidateEgress (rsnYML snap) of
                    Some err \<Rightarrow> Some (fail i ''runner_yml_parse'' (Some err) w2)
                  | None \<Rightarrow>
                      let imageDigest = (if rsnImageDigest snap = []
                            then RunnerImageDigestFor (seGetenv se) (ryRuntime (rsnYML snap)) else rsnImageDigest snap);
                          w3 = emit (EvSpawnStarted (siScope i) (siRepo i) (siSpawnID i)) (st_sync e w2)
                      in jit_stage fuel se i name snap imageDigest w3))"

definition Execute :: "nat \<Rightarrow> SpawnEnv \<Rightarrow> SpawnIntent \<Rightarrow> World \<Rightarrow> (gerr option \<times> World) option" where
  "Execute fuel se i w =
     (let e = seEnv se;
          (has, w1) = st_get e (\<lambda>s. HasReservation s (siSpawnID i) (siRepo i)) w;
          (ok, w2) = (if has then (True, w1)
                      else deps_TryReserve e (siSpawnID i) (siRepo i)
                             (RepoMaxConcurrent (scRepos (seScope se)) (siRepo i))
                             (scGlobalMaxRunners (seScope se)) w1)
      in if \<not> ok then Some (Some (Sentinel ErrSemaphoreUnavailable), w2)
         else (case execute_body fuel se i w2 of
                 None \<Rightarrow> None
               | Some (err, w3) \<Rightarrow> Some (err, st_op e (ReleaseReservation (siSpawnID i)) w3)))"

end
