(* ===== verification/Spawn_Thms.thy ===== *)
theory Spawn_Thms
  imports Spawn_Model
begin

text \<open>
  What a spawn worker guarantees whatever GitHub, the backend, the clock and the other
  goroutines do: it never gives capacity back while a runner registration or a container stack
  it created may still exist. The central notion is \<open>cleanup_step\<close>, a step that only adds
  cleanup calls to the effect log and keeps teardown debt in place; it is closed under
  composition, and every helper of the worker but the resolution of debt is such a step.
\<close>

section \<open>Definitions\<close>

text \<open>No other goroutine touches this worker's reservation.\<close>

definition others_spare :: "Env \<Rightarrow> string \<Rightarrow> bool" where
  "others_spare e sid = (\<forall>n. \<forall>op \<in> set (eOthers e n). op_target op \<noteq> Some sid)"

definition has_debt :: "string \<Rightarrow> World \<Rightarrow> bool" where
  "has_debt sid w = (\<exists>sp. map_of (reservations (wState w)) sid = Some sp \<and> is_debt sp)"

definition runner_gone :: "string \<Rightarrow> int \<Rightarrow> World \<Rightarrow> bool" where
  "runner_gone repo runnerID w = (runnerID \<le> 0 \<or> FxDeleteRunner repo runnerID True \<in> set (wEffects w))"

definition stack_gone :: "Handle \<Rightarrow> World \<Rightarrow> bool" where
  "stack_gone h w = (\<exists>force. FxTeardown h force True \<in> set (wEffects w))"

fun is_cleanup :: "Effect \<Rightarrow> bool" where
  "is_cleanup (FxDeleteRunner repo r ok) = True"
| "is_cleanup (FxTeardown h f ok) = True"
| "is_cleanup _ = False"

definition cleanup_step :: "string \<Rightarrow> World \<Rightarrow> World \<Rightarrow> bool" where
  "cleanup_step sid w w' =
     ((\<exists>xs. wEffects w' = wEffects w @ xs \<and> list_all is_cleanup xs) \<and> (has_debt sid w \<longrightarrow> has_debt sid w'))"

text \<open>Every runner registered and every stack created in the log has been removed again.\<close>

definition all_settled :: "Effect list \<Rightarrow> bool" where
  "all_settled fx =
     ((\<forall>repo r. FxJIT repo r \<in> set fx \<and> r > 0 \<longrightarrow> FxDeleteRunner repo r True \<in> set fx) \<and>
      (\<forall>h ok. FxSpawn h ok \<in> set fx \<and> (ok \<or> hBackend h \<noteq> []) \<longrightarrow> (\<exists>force. FxTeardown h force True \<in> set fx)))"

section \<open>Cleanup steps\<close>

lemma cleanup_refl [simp]: "cleanup_step sid w w"
  by (simp add: cleanup_step_def)

lemma cleanup_trans: "cleanup_step sid w w1 \<Longrightarrow> cleanup_step sid w1 w2 \<Longrightarrow> cleanup_step sid w w2"
  by (fastforce simp: cleanup_step_def)

lemma cleanup_gone:
  assumes "cleanup_step sid w w'"
  shows "runner_gone repo r w \<Longrightarrow> runner_gone repo r w'" and "stack_gone h w \<Longrightarrow> stack_gone h w'"
    and "has_debt sid w \<Longrightarrow> has_debt sid w'"
  using assms by (auto simp: cleanup_step_def runner_gone_def stack_gone_def)

lemma others_keep:
  "others_spare e sid \<Longrightarrow> map_of (reservations (run_ops (eOthers e n) s)) sid = map_of (reservations s) sid"
  by (rule run_ops_other) (auto simp: others_spare_def)

lemma cleanup_sync: "others_spare e sid \<Longrightarrow> cleanup_step sid w (st_sync e w)"
  by (simp add: cleanup_step_def has_debt_def others_keep)

lemma cleanup_op:
  assumes "others_spare e sid" and "op \<noteq> OpResolveTeardown sid"
  shows "cleanup_step sid w (st_op e (apply_op op) w)"
  using assms apply_op_debt [OF _ _ assms(2), of "run_ops (eOthers e (wStep w)) (wState w)"]
  by (fastforce simp: cleanup_step_def has_debt_def others_keep)

lemma cleanup_ops:
  assumes "others_spare e sid"
  shows "cleanup_step sid w (st_op e (SetRateLimit a b c) w)"
    "cleanup_step sid w (st_op e (SetRateLimited d) w)"
    "cleanup_step sid w (st_op e (RecordRunnerOperationSuccess r x) w)"
    "cleanup_step sid w (st_op e (RecordRunnerOperationFailure r x y z) w)"
    "cleanup_step sid w (st_op e RecordDeregistered w)"
    "cleanup_step sid w (st_op e RecordUnassignedExit w)"
    "cleanup_step sid w (st_op e RecordCompleted w)"
    "cleanup_step sid w (st_op e (UpdateTeardownFailure k t) w)"
    "cleanup_step sid w (st_op e (RecordJIT k j n) w)"
    "cleanup_step sid w (st_op e (ReleaseReservation k) w)"
  using cleanup_op [OF assms, of "OpSetRateLimit a b c" w] cleanup_op [OF assms, of "OpSetRateLimited d" w]
    cleanup_op [OF assms, of "OpRunnerOperationSuccess r x" w]
    cleanup_op [OF assms, of "OpRunnerOperationFailure r x y z" w]
    cleanup_op [OF assms, of OpRecordDeregistered w] cleanup_op [OF assms, of OpRecordUnassignedExit w]
    cleanup_op [OF assms, of OpRecordCompleted w] cleanup_op [OF assms, of "OpUpdateTeardownFailure k t" w]
    cleanup_op [OF assms, of "OpRecordJIT k j n" w] cleanup_op [OF assms, of "OpReleaseReservation k" w]
  by (simp_all add: st_op_def Let_def)

lemma cleanup_world:
  "cleanup_step sid w (emit ev v) = cleanup_step sid w v"
  "cleanup_step sid w (v\<lparr>wGH := g\<rparr>) = cleanup_step sid w v"
  "cleanup_step sid w (v\<lparr>wRlPaused := p\<rparr>) = cleanup_step sid w v"
  "cleanup_step sid w (v\<lparr>wRlReset := t\<rparr>) = cleanup_step sid w v"
  "cleanup_step sid w (v\<lparr>wBucket := bk\<rparr>) = cleanup_step sid w v"
  by (simp_all add: cleanup_step_def has_debt_def)

lemma has_debt_world [simp]: "has_debt sid (emit ev w) = has_debt sid w"
  by (simp add: has_debt_def)

lemma cleanup_effect: "is_cleanup fx \<Longrightarrow> cleanup_step sid w v \<Longrightarrow> cleanup_step sid w (effect fx v)"
  by (auto simp: cleanup_step_def has_debt_def)

lemma cleanup_call:
  assumes "others_spare e sid" and "op \<noteq> OpResolveTeardown sid" and "\<And>s. snd (f s) = apply_op op s"
  shows "cleanup_step sid w (snd (st_call e f w))"
  using cleanup_op [OF assms(1,2), of w] assms(3) by (simp add: cleanup_step_def has_debt_def)

lemma cleanup_mark:
  assumes "others_spare e sid"
  shows "cleanup_step sid w (snd (st_call e (MarkOnline k t) w))"
    "cleanup_step sid w (snd (st_call e (MarkAssigned k t) w))"
    "cleanup_step sid w (snd (st_call e (MarkTeardownBlocked k r d t) w))"
proof -
  show "cleanup_step sid w (snd (st_call e (MarkOnline k t) w))"
    by (rule cleanup_call [OF assms, of "OpMarkOnline k t"]) simp_all
  show "cleanup_step sid w (snd (st_call e (MarkAssigned k t) w))"
    by (rule cleanup_call [OF assms, of "OpMarkAssigned k t"]) simp_all
  show "cleanup_step sid w (snd (st_call e (MarkTeardownBlocked k r d t) w))"
    by (rule cleanup_call [OF assms, of "OpMarkTeardownBlocked k r d t"]) simp_all
qed

text \<open>The rules in the form that extends a step, for \<open>intro\<close>.\<close>

lemma cleanup_if: "(P \<Longrightarrow> cleanup_step sid w a) \<Longrightarrow> (\<not> P \<Longrightarrow> cleanup_step sid w b) \<Longrightarrow>
   cleanup_step sid w (if P then a else b)"
  by simp

lemmas cleanup_extend =
  cleanup_if cleanup_effect cleanup_world [THEN iffD2] cleanup_trans [OF _ cleanup_sync]
  cleanup_trans [OF _ cleanup_ops(1)] cleanup_trans [OF _ cleanup_ops(2)] cleanup_trans [OF _ cleanup_ops(3)]
  cleanup_trans [OF _ cleanup_ops(4)] cleanup_trans [OF _ cleanup_ops(5)] cleanup_trans [OF _ cleanup_ops(6)]
  cleanup_trans [OF _ cleanup_ops(7)] cleanup_trans [OF _ cleanup_ops(8)] cleanup_trans [OF _ cleanup_ops(9)]
  cleanup_trans [OF _ cleanup_ops(10)] cleanup_trans [OF _ cleanup_mark(1)]
  cleanup_trans [OF _ cleanup_mark(2)] cleanup_trans [OF _ cleanup_mark(3)]

section \<open>The helpers\<close>

lemma cleanup_RecordRateLimit:
  "others_spare e sid \<Longrightarrow> cleanup_step sid w v \<Longrightarrow> cleanup_step sid w (deps_RecordRateLimit e l v)"
  unfolding deps_RecordRateLimit_def Let_def by (intro cleanup_extend)

lemma cleanup_MarkRateLimited:
  "others_spare e sid \<Longrightarrow> cleanup_step sid w v \<Longrightarrow> cleanup_step sid w (snd (deps_MarkRateLimited e v))"
  unfolding deps_MarkRateLimited_def Let_def split_def snd_conv st_get_simps by (intro cleanup_extend)

lemma cleanup_RateLimitContextFor:
  "others_spare e sid \<Longrightarrow> cleanup_step sid w v \<Longrightarrow> cleanup_step sid w (snd (RateLimitContextFor e v))"
  unfolding RateLimitContextFor_def Let_def split_def st_get_simps
  by (simp add: cleanup_trans [OF _ cleanup_sync])

lemma cleanup_pauseForRateLimit:
  "others_spare e sid \<Longrightarrow> cleanup_step sid w v \<Longrightarrow> cleanup_step sid w (pauseForRateLimit e scope err v)"
  unfolding pauseForRateLimit_def Let_def split_def
  by (intro cleanup_extend cleanup_RateLimitContextFor cleanup_MarkRateLimited cleanup_RecordRateLimit)

lemma cleanup_recordRunnerOperation:
  "others_spare e sid \<Longrightarrow> cleanup_step sid w v \<Longrightarrow> cleanup_step sid w (recordRunnerOperation e repo op err v)"
  by (cases err) (auto simp: recordRunnerOperation_def intro!: cleanup_extend simp del: st_op_simps)

lemma cleanup_gh_call: "cleanup_step sid w v \<Longrightarrow> cleanup_step sid w (snd (gh_call f v))"
  by (simp add: gh_call_def split_def Let_def cleanup_world)

lemma cleanup_teardownSpawn:
  "others_spare (seEnv se) sid \<Longrightarrow> cleanup_step sid w v \<Longrightarrow> cleanup_step sid w (snd (teardownSpawn se h t v))"
  unfolding teardownSpawn_def Let_def snd_conv by (intro cleanup_extend) simp_all

lemma teardownSpawn_gone: "fst (teardownSpawn se h t w) = None \<Longrightarrow> stack_gone h (snd (teardownSpawn se h t w))"
  by (auto simp: teardownSpawn_def stack_gone_def Let_def)

lemma cleanup_deregister:
  "others_spare (seEnv se) sid \<Longrightarrow> cleanup_step sid w v \<Longrightarrow> cleanup_step sid w (snd (deregister se repo r v))"
  unfolding deregister_def Let_def split_def
  by (auto split: option.split intro!: cleanup_extend cleanup_recordRunnerOperation cleanup_gh_call
      simp del: st_op_simps)

lemma recordRunnerOperation_effects [simp]: "wEffects (recordRunnerOperation e repo op err w) = wEffects w"
  by (simp add: recordRunnerOperation_def split: option.split)

lemma deregister_gone: "fst (deregister se repo r w) = None \<Longrightarrow> runner_gone repo r (snd (deregister se repo r w))"
  by (auto simp: deregister_def runner_gone_def Let_def split_def split: if_splits option.splits)

lemma cleanup_block:
  assumes "others_spare (seEnv se) sid" "cleanup_step sid w v"
  shows "cleanup_step sid w (blockTeardown se i err v)" "cleanup_step sid w (blockRunnerCleanup se i err v)"
  unfolding blockTeardown_def blockRunnerCleanup_def spawn_failed_def Let_def split_def
  by (intro cleanup_extend assms)+

lemma block_debt:
  "has_debt (siSpawnID i) (blockTeardown se i err w)" "has_debt (siSpawnID i) (blockRunnerCleanup se i err w)"
  by (auto simp: blockTeardown_def blockRunnerCleanup_def spawn_failed_def has_debt_def is_debt_def Let_def
      split_def ledger_simps new_spawn_def split: option.splits)

lemma cleanup_retryDelay:
  "others_spare (seEnv se) sid \<Longrightarrow> cleanup_step sid w v \<Longrightarrow>
   cleanup_step sid w (snd (runnerDeletionRetryDelay se err base v))"
  unfolding runnerDeletionRetryDelay_def Let_def split_def
  by (auto split: option.split intro!: cleanup_RateLimitContextFor)

section \<open>The retry loops\<close>

lemma retryBackendTeardown_cleanup:
  assumes "others_spare (seEnv se) sid" and "retryBackendTeardown fuel se i h w = Some (err, w')"
  shows "cleanup_step sid w w' \<and> (err = None \<longrightarrow> stack_gone h w')"
  using assms(2)
proof (induction fuel arbitrary: w)
  case (Suc fuel)
  obtain e1 w1 where td: "teardownSpawn se h True w = (e1, w1)" by force
  have w1: "cleanup_step sid w w1" using cleanup_teardownSpawn [OF assms(1) cleanup_refl, of w h True] td by simp
  show ?case
  proof (cases e1)
    case None
    then have "stack_gone h w1" using teardownSpawn_gone [of se h True w] td by simp
    with None Suc.prems td w1 show ?thesis by simp
  next
    case (Some x)
    let ?w2 = "st_op (seEnv se) (UpdateTeardownFailure (siSpawnID i) (err_text x)) w1"
    have w2: "cleanup_step sid w ?w2" using w1 by (intro cleanup_extend assms(1))
    show ?thesis
    proof (cases "eCtxErr (seEnv se) (wStep ?w2)")
      case None
      with Some Suc.prems td have "retryBackendTeardown fuel se i h ?w2 = Some (err, w')" by (simp add: Let_def)
      from Suc.IH [OF this] w2 show ?thesis by (blast intro: cleanup_trans)
    next
      case (Some c)
      with \<open>e1 = Some x\<close> Suc.prems td w2 show ?thesis by (auto simp: Let_def)
    qed
  qed
qed simp

lemma retryRunnerDeletion_cleanup:
  assumes "others_spare (seEnv se) sid" and "retryRunnerDeletion fuel se i r err first w = Some (res, w')"
  shows "cleanup_step sid w w' \<and> (res = None \<longrightarrow> runner_gone (siRepo i) r w')"
  using assms(2)
proof (induction fuel arbitrary: w err first)
  case (Suc fuel)
  let ?e = "seEnv se"
  let ?waits = "\<not> first \<or> err_is err ErrAuthFailed \<or> err_is err ErrRateLimited"
  define w2 where "w2 = pauseForRateLimit ?e (siScope i) err
      (st_op ?e (UpdateTeardownFailure (siSpawnID i) (err_text err)) w)"
  define w3 where "w3 = (if ?waits then snd (runnerDeletionRetryDelay se err
      (ltCleanupRetryInterval (normalizedLifecycleTiming (seTiming se))) w2) else w2)"
  have w2: "cleanup_step sid w w2"
    unfolding w2_def by (intro cleanup_pauseForRateLimit cleanup_extend assms(1) cleanup_refl)
  then have w3: "cleanup_step sid w w3"
    unfolding w3_def by (intro cleanup_if cleanup_retryDelay assms(1))
  obtain d w4 where dr: "deregister se (siRepo i) r w3 = (d, w4)" by force
  have w4: "cleanup_step sid w w4" using cleanup_deregister [OF assms(1) w3, of "siRepo i" r] dr by simp
  have step: "retryRunnerDeletion (Suc fuel) se i r err first w =
      (case (if ?waits then eCtxErr ?e (wStep w3) else None) of
         Some cerr \<Rightarrow> Some (Some (Wrap ''runner deregistration reconciliation interrupted: '' cerr []), w3)
       | None \<Rightarrow> (case (d, w4) of (None, w4) \<Rightarrow> Some (None, w4)
            | (Some err', w4) \<Rightarrow> retryRunnerDeletion fuel se i r err' False w4))"
    unfolding retryRunnerDeletion.simps Let_def w2_def [symmetric] w3_def [symmetric] dr ..
  show ?case
  proof (cases "if ?waits then eCtxErr ?e (wStep w3) else None")
    case (Some c)
    with Suc.prems step w3 show ?thesis by auto
  next
    case None
    show ?thesis
    proof (cases d)
      case None
      then have "runner_gone (siRepo i) r w4" using deregister_gone [of se "siRepo i" r w3] dr by simp
      with None \<open>(if ?waits then eCtxErr ?e (wStep w3) else None) = None\<close> Suc.prems step w4 show ?thesis by simp
    next
      case (Some x)
      then have "retryRunnerDeletion fuel se i r x False w4 = Some (res, w')"
        using \<open>(if ?waits then eCtxErr ?e (wStep w3) else None) = None\<close> Suc.prems step by simp
      from Suc.IH [OF this] w4 show ?thesis by (blast intro: cleanup_trans)
    qed
  qed
qed simp

section \<open>Settlement\<close>

text \<open>After a settlement the reservation is debt, or every part that had failed is gone. The log
  only grew by cleanup calls.\<close>

definition log_grows :: "World \<Rightarrow> World \<Rightarrow> bool" where
  "log_grows w w' = (\<exists>xs. wEffects w' = wEffects w @ xs \<and> list_all is_cleanup xs)"

lemma log_grows_refl [simp]: "log_grows w w"
  by (simp add: log_grows_def)

lemma log_grows_trans: "log_grows w w1 \<Longrightarrow> log_grows w1 w2 \<Longrightarrow> log_grows w w2"
  by (fastforce simp: log_grows_def)

lemma cleanup_log: "cleanup_step sid w w' \<Longrightarrow> log_grows w w'"
  by (simp add: cleanup_step_def log_grows_def)

lemma log_gone:
  "log_grows w w' \<Longrightarrow> runner_gone repo r w \<Longrightarrow> runner_gone repo r w'"
  "log_grows w w' \<Longrightarrow> stack_gone h w \<Longrightarrow> stack_gone h w'"
  by (auto simp: log_grows_def runner_gone_def stack_gone_def)

lemma retry_and_resolve_settles:
  assumes spare: "others_spare (seEnv se) (siSpawnID i)" and debt: "has_debt (siSpawnID i) w"
    and run: "retry_and_resolve fuel se i h bErr rErr r result w = Some (res, w')"
  shows "log_grows w w' \<and> (has_debt (siSpawnID i) w' \<or>
     (bErr \<noteq> None \<longrightarrow> stack_gone h w') \<and> (rErr \<noteq> None \<longrightarrow> runner_gone (siRepo i) r w'))"
proof -
  obtain b w1 where b: "(if bErr \<noteq> None then retryBackendTeardown fuel se i h w else Some (None, w)) = Some (b, w1)"
    using run by (auto simp: retry_and_resolve_def split: option.splits)
  have w1: "cleanup_step (siSpawnID i) w w1" "bErr \<noteq> None \<Longrightarrow> b = None \<Longrightarrow> stack_gone h w1"
    using b retryBackendTeardown_cleanup [OF spare] by (auto split: if_splits)
  show ?thesis
  proof (cases b)
    case (Some x)
    then have "w' = w1" using run b by (auto simp: retry_and_resolve_def)
    then show ?thesis using w1(1) debt cleanup_log cleanup_gone(3) by blast
  next
    case None
    obtain c w2 where c: "(case rErr of Some rerr \<Rightarrow> retryRunnerDeletion fuel se i r rerr True w1
        | None \<Rightarrow> Some (None, w1)) = Some (c, w2)"
      using run b None by (auto simp: retry_and_resolve_def split: option.splits)
    have w2: "cleanup_step (siSpawnID i) w1 w2" "rErr \<noteq> None \<Longrightarrow> c = None \<Longrightarrow> runner_gone (siRepo i) r w2"
      using c retryRunnerDeletion_cleanup [OF spare] by (auto split: option.splits)
    have debt2: "has_debt (siSpawnID i) w2" using debt w1(1) w2(1) cleanup_gone(3) by blast
    have grow: "log_grows w w2" using w1(1) w2(1) by (blast intro: cleanup_log log_grows_trans)
    show ?thesis
    proof (cases c)
      case (Some x)
      then have "w' = w2" using run b None c by (simp add: retry_and_resolve_def)
      then show ?thesis using debt2 grow by simp
    next
      case None
      then have "wEffects w' = wEffects w2"
        using run b \<open>b = None\<close> c by (auto simp: retry_and_resolve_def)
      moreover have "bErr \<noteq> None \<Longrightarrow> stack_gone h w2"
        using w1(2) \<open>b = None\<close> w2(1) cleanup_gone(2) by blast
      moreover have "rErr \<noteq> None \<Longrightarrow> runner_gone (siRepo i) r w2" using w2(2) None by simp
      ultimately show ?thesis using grow by (simp add: log_grows_def stack_gone_def runner_gone_def)
    qed
  qed
qed

lemma settleCleanup_settles:
  assumes spare: "others_spare (seEnv se) (siSpawnID i)"
    and run: "settleCleanup fuel se i h bErr rErr orig r w = Some (res, w')"
  shows "log_grows w w' \<and> (has_debt (siSpawnID i) w' \<or>
     (bErr \<noteq> None \<longrightarrow> stack_gone h w') \<and> (rErr \<noteq> None \<longrightarrow> runner_gone (siRepo i) r w'))"
proof (cases "bErr = None \<and> rErr = None")
  case True
  then show ?thesis using run by (simp add: settleCleanup_def)
next
  case False
  define result where "result = joined_failure orig bErr rErr"
  define w1 where "w1 = (if bErr \<noteq> None then blockTeardown se i (the_err result) w else w)"
  define w2 where "w2 = (if rErr \<noteq> None then blockRunnerCleanup se i (the_err result) w1 else w1)"
  have w1: "cleanup_step (siSpawnID i) w w1"
    unfolding w1_def by (intro cleanup_if cleanup_block spare cleanup_refl)
  then have w2: "cleanup_step (siSpawnID i) w w2"
    unfolding w2_def by (intro cleanup_if cleanup_block spare)
  have "has_debt (siSpawnID i) w2" using False by (auto simp: w2_def w1_def block_debt)
  moreover have "retry_and_resolve fuel se i h bErr rErr r result w2 = Some (res, w')"
    using run False by (simp only: settleCleanup_def Let_def result_def w1_def w2_def if_False)
  ultimately show ?thesis
    using retry_and_resolve_settles [OF spare] w2 by (blast intro: log_grows_trans cleanup_log)
qed

lemma settled_after:
  assumes "log_grows w v" and "bErr = None \<Longrightarrow> stack_gone h v" and "rErr = None \<Longrightarrow> runner_gone repo r v"
    and "log_grows v v' \<and> (has_debt sid v' \<or> (bErr \<noteq> None \<longrightarrow> stack_gone h v') \<and> (rErr \<noteq> None \<longrightarrow> runner_gone repo r v'))"
  shows "log_grows w v' \<and> (has_debt sid v' \<or> stack_gone h v' \<and> runner_gone repo r v')"
proof -
  have v: "log_grows v v'" using assms(4) ..
  have "bErr = None \<Longrightarrow> stack_gone h v'" "rErr = None \<Longrightarrow> runner_gone repo r v'"
    using assms(2,3) log_gone [OF v] by auto
  then show ?thesis using assms(4) log_grows_trans [OF assms(1) v] by metis
qed

lemma settled_cleanup:
  assumes "log_grows w v \<and> (has_debt sid v \<or> stack_gone h v \<and> runner_gone repo r v)" and "cleanup_step sid v v'"
  shows "log_grows w v' \<and> (has_debt sid v' \<or> stack_gone h v' \<and> runner_gone repo r v')"
  using assms(1) cleanup_gone [OF assms(2)] log_grows_trans [OF _ cleanup_log [OF assms(2)]] by metis

lemma settlePartialSpawn_settles:
  assumes spare: "others_spare (seEnv se) (siSpawnID i)"
    and run: "settlePartialSpawn fuel se i h serr r w = Some (res, w')"
  shows "log_grows w w' \<and> (has_debt (siSpawnID i) w' \<or> stack_gone h w' \<and> runner_gone (siRepo i) r w')"
proof -
  define w1 where "w1 = blockTeardown se i serr w"
  obtain bErr w2 where td: "teardownSpawn se h True w1 = (bErr, w2)" by force
  obtain rErr w3 where dr: "deregister se (siRepo i) r w2 = (rErr, w3)" by force
  define result where "result = joined_failure (Some serr) bErr rErr"
  define w4 where "w4 = (if rErr \<noteq> None then blockRunnerCleanup se i (the_err result) w3 else w3)"
  have w1: "cleanup_step (siSpawnID i) w w1" unfolding w1_def by (intro cleanup_block spare cleanup_refl)
  have w12: "cleanup_step (siSpawnID i) w1 w2"
    using cleanup_teardownSpawn [OF spare cleanup_refl, of w1 h True] td by simp
  have w24: "cleanup_step (siSpawnID i) w2 w4"
    unfolding w4_def using cleanup_deregister [OF spare cleanup_refl, of w2 "siRepo i" r] dr
    by (intro cleanup_if cleanup_block spare) simp_all
  have w34: "cleanup_step (siSpawnID i) w3 w4"
    unfolding w4_def by (intro cleanup_if cleanup_block spare cleanup_refl)
  have debt: "has_debt (siSpawnID i) w4"
    using block_debt(1) [of i se serr w] w12 w24 by (metis w1_def cleanup_gone(3))
  have gone: "bErr = None \<Longrightarrow> stack_gone h w4" "rErr = None \<Longrightarrow> runner_gone (siRepo i) r w4"
    using teardownSpawn_gone [of se h True w1] deregister_gone [of se "siRepo i" r w2] td dr
      cleanup_gone(2) [OF w24] cleanup_gone(1) [OF w34] by auto
  have "retry_and_resolve fuel se i h bErr rErr r result w4 = Some (res, w')"
    using run by (simp only: settlePartialSpawn_def Let_def w1_def [symmetric] td dr split_conv result_def w4_def)
  note post = retry_and_resolve_settles [OF spare debt this]
  have "log_grows w w4" using w1 w12 w24 by (meson cleanup_log log_grows_trans)
  then show ?thesis using gone post by (rule settled_after)
qed

lemma failAndLeak_settles:
  assumes spare: "others_spare (seEnv se) (siSpawnID i)"
    and run: "failAndLeak fuel se i reason err r w = Some (res, w')"
  shows "log_grows w w' \<and> (has_debt (siSpawnID i) w' \<or> runner_gone (siRepo i) r w')"
proof (cases "r \<le> 0")
  case True
  then show ?thesis
    using run by (auto simp: failAndLeak_def fail_def spawn_failed_def runner_gone_def log_grows_def)
next
  case False
  obtain d w1 where dr: "deregister se (siRepo i) r w = (d, w1)" by force
  have w1: "cleanup_step (siSpawnID i) w w1"
    using cleanup_deregister [OF spare cleanup_refl, of w "siRepo i" r] dr by simp
  have gone1: "d = None \<Longrightarrow> runner_gone (siRepo i) r w1" using deregister_gone [of se "siRepo i" r w] dr by simp
  obtain e2 w2 where s: "(if d \<noteq> None then settleCleanup fuel se i zero_Handle None d (Some err) r w1
      else Some (Some err, w1)) = Some (e2, w2)"
    using run False dr by (auto simp: failAndLeak_def split: option.splits if_splits)
  have w2: "log_grows w1 w2 \<and> (has_debt (siSpawnID i) w2 \<or> runner_gone (siRepo i) r w2)"
    using s gone1 settleCleanup_settles [OF spare] by (cases d) (fastforce split: if_splits)+
  have "cleanup_step (siSpawnID i) w2 w'"
    using run False dr s cleanup_sync [OF spare, of w2]
    by (auto simp: failAndLeak_def fail_def spawn_failed_def leak_cleaned_def Let_def split_def cleanup_world
        split: if_splits)
  then show ?thesis
    using w1 w2 cleanup_log cleanup_gone [of "siSpawnID i" w2 w'] by (meson log_grows_trans)
qed

lemma fail_cleanup [simp]: "cleanup_step sid w (snd (fail i reason err v)) = cleanup_step sid w v"
  by (simp add: fail_def spawn_failed_def cleanup_world)

lemma settle_stage_settles:
  assumes spare: "others_spare (seEnv se) (siSpawnID i)"
    and run: "settle_stage fuel se i r h secs life w = Some (res, w')"
  shows "log_grows w w' \<and> (has_debt (siSpawnID i) w' \<or> stack_gone h w' \<and> runner_gone (siRepo i) r w')"
proof -
  obtain t w2 where td: "teardownSpawn se h (lrTimedOut life \<or> lrErr life \<noteq> None) w = (t, w2)" by force
  obtain d w3 where dr: "deregister se (siRepo i) r w2 = (d, w3)" by force
  have w12: "cleanup_step (siSpawnID i) w w2" using cleanup_teardownSpawn [OF spare cleanup_refl] td by (metis snd_conv)
  have w23: "cleanup_step (siSpawnID i) w2 w3" using cleanup_deregister [OF spare cleanup_refl] dr by (metis snd_conv)
  have gone: "t = None \<Longrightarrow> stack_gone h w3" "d = None \<Longrightarrow> runner_gone (siRepo i) r w3"
    using teardownSpawn_gone [of se h _ w] deregister_gone [of se "siRepo i" r w2] td dr cleanup_gone(2) [OF w23]
    by (metis fst_conv snd_conv)+
  have settle: "log_grows w v' \<and> (has_debt (siSpawnID i) v' \<or> stack_gone h v' \<and> runner_gone (siRepo i) r v')"
    if "cleanup_step (siSpawnID i) w3 v" "settleCleanup fuel se i h t d orig r v = Some (x, v1)"
      "cleanup_step (siSpawnID i) v1 v'" for v orig x v1 v'
  proof -
    note post = settleCleanup_settles [OF spare that(2)]
    have "log_grows w v" using w12 w23 that(1) by (meson cleanup_log log_grows_trans)
    moreover have "t = None \<Longrightarrow> stack_gone h v" "d = None \<Longrightarrow> runner_gone (siRepo i) r v"
      using gone cleanup_gone [OF that(1)] by auto
    ultimately have "log_grows w v1 \<and> (has_debt (siSpawnID i) v1 \<or> stack_gone h v1 \<and> runner_gone (siRepo i) r v1)"
      using post by (rule settled_after)
    then show ?thesis using that(3) by (rule settled_cleanup)
  qed
  have both: "log_grows w v' \<and> (has_debt (siSpawnID i) v' \<or> stack_gone h v' \<and> runner_gone (siRepo i) r v')"
    if "t = None" "d = None" "cleanup_step (siSpawnID i) w3 v'" for v'
    using gone that cleanup_gone [OF that(3)] log_grows_trans [OF cleanup_log [OF w12]]
      log_grows_trans [OF cleanup_log [OF w23] cleanup_log [OF that(3)]] by metis
  define w5 where "w5 = (let w4 = pauseForRateLimit (seEnv se) (siScope i) (the_err (lrErr life)) w3
     in if lrUnassigned life then st_op (seEnv se) RecordUnassignedExit w4 else w4)"
  have w5: "cleanup_step (siSpawnID i) w3 w5"
    unfolding w5_def Let_def by (intro cleanup_extend cleanup_pauseForRateLimit spare cleanup_refl)
  show ?thesis
  proof (cases "lrErr life")
    case (Some lerr)
    then have td': "teardownSpawn se h True w = (t, w2)" using td by simp
    from Some obtain x v1 where s: "settleCleanup fuel se i h t d (Some lerr) r w5 = Some (x, v1)"
        "w' = snd (fail i (lrFailureReason life) x v1)"
      using run by (auto simp: settle_stage_def td' dr Let_def w5_def the_err_def split: option.splits)
    show ?thesis using settle [OF w5 s(1), of w'] s(2) by simp
  next
    case None
    then have td': "teardownSpawn se h (lrTimedOut life) w = (t, w2)" using td by simp
    consider x v1 orig b where "settleCleanup fuel se i h (if b then None else t) d orig r w3 = Some (x, v1)"
        "b \<Longrightarrow> t = None" "cleanup_step (siSpawnID i) v1 w'"
      | "t = None" "d = None" "cleanup_step (siSpawnID i) w3 w'"
    proof (cases "lrTimedOut life")
      case True
      then show thesis
        using run None td' that(1) [of False "Some (Plain ''spawn timed out'')"]
        by (auto simp: settle_stage_def dr Let_def cleanup_world split: option.splits)
    next
      case False
      show thesis
      proof (cases "t = None")
        case False
        then show thesis
          using run None \<open>\<not> lrTimedOut life\<close> td' that(1) [of False None]
          by (auto simp: settle_stage_def dr Let_def)
      next
        case True
        then show thesis
          using run None \<open>\<not> lrTimedOut life\<close> td' that(1) [of True None] that(2)
          by (auto simp: settle_stage_def dr Let_def cleanup_world spawn_failed_def fail_def
              split: option.splits if_splits)
      qed
    qed
    then show ?thesis
    proof cases
      case 1
      then show ?thesis using settle [OF cleanup_refl, of _ x v1 w'] by (cases b) auto
    qed (rule both)
  qed
qed

section \<open>Observation\<close>

lemma cleanup_markCorrelated:
  "others_spare e sid \<Longrightarrow> cleanup_step sid w v \<Longrightarrow> cleanup_step sid w (markCorrelatedAssignment e i r v)"
  unfolding markCorrelatedAssignment_def Let_def split_def by (intro cleanup_extend)

lemma cleanup_candidates:
  "others_spare e sid \<Longrightarrow> cleanup_step sid w v \<Longrightarrow>
   cleanup_step sid w (snd (correlate_candidates e i name r cs calls v))"
proof (induction cs arbitrary: calls v)
  case (Cons c cs)
  define p where "p = gh_call (GetWorkflowJob (eClient e) (siRepo i) (wjID c)) v"
  define W where "W err = recordRunnerOperation e (siRepo i) runnerOperationGetJob err
      (deps_RecordRateLimit e (snd (fst p)) (snd p))" for err
  have W: "cleanup_step sid w (W err)" for err
    unfolding W_def p_def
    by (intro cleanup_recordRunnerOperation cleanup_RecordRateLimit cleanup_gh_call Cons.prems)
  then have "cleanup_step sid w (snd (correlate_candidates e i name r cs k (W err)))"
      "cleanup_step sid w (markCorrelatedAssignment e i r (W err))" for k err
    using Cons by (blast intro: cleanup_markCorrelated)+
  then show ?case
    using Cons.prems(2) W
    by (auto simp: p_def [symmetric] W_def [symmetric] Let_def split_def split: sum.split)
qed simp

lemma cleanup_correlate:
  assumes spare: "others_spare e sid" and start: "cleanup_step sid w v"
  shows "cleanup_step sid w (snd (correlateCompletedJob e i name r since v))"
proof -
  note c = cleanup_candidates [OF assms, of i name r "siCandidateJobs i" 0]
  show ?thesis
    using c spare
    by (auto simp: correlateCompletedJob_def Let_def split_def split: sum.split option.split
        intro!: cleanup_markCorrelated cleanup_recordRunnerOperation cleanup_RecordRateLimit cleanup_gh_call)
qed

lemma cleanup_note:
  assumes "others_spare e sid" and "cleanup_step sid w (snd lw)"
  shows "cleanup_step sid w (snd (note_online e i r runner lw))"
    and "cleanup_step sid w (snd (note_assigned e i r runner lw))"
  using assms
  by (auto simp: note_online_def note_assigned_def Let_def split_def cleanup_world
      intro: cleanup_trans [OF _ cleanup_mark(1)] cleanup_trans [OF _ cleanup_mark(2)])

lemma cleanup_observe:
  assumes "others_spare e sid" and "cleanup_step sid w v"
  shows "cleanup_step sid w (snd (snd (observe e i r (l, v))))"
proof -
  obtain x rl w1 where g: "gh_call (GetRunner (eClient e) (siRepo i) r) v = ((x, rl), w1)" by (metis prod.exhaust)
  have "cleanup_step sid w w1" using cleanup_gh_call [OF assms(2), of "GetRunner (eClient e) (siRepo i) r"] g by simp
  then have W: "cleanup_step sid w (recordRunnerOperation e (siRepo i) runnerOperationGetRunner err w1)" for err
    by (intro cleanup_recordRunnerOperation assms(1))
  then have "cleanup_step sid w (snd (note_assigned e i r runner (note_online e i r runner
      (l', recordRunnerOperation e (siRepo i) runnerOperationGetRunner None w1))))" for runner l'
    by (intro cleanup_note assms(1)) simp
  with W show ?thesis by (cases x) (simp_all add: observe_def g Let_def)
qed

lemma cleanup_on_exit:
  assumes "others_spare (seEnv se) sid" and "cleanup_step sid w v"
  shows "cleanup_step sid w (snd (snd (on_exit se i name r a b since code t (l, v))))"
proof (cases "lifecycleTransportResult (eCtxErr (seEnv se) (wStep v)) code t")
  case (Some x)
  with assms(2) show ?thesis by (simp add: on_exit_def)
next
  case None
  obtain f l1 w1 where q: "(if \<not> lsAssigned l then observe (seEnv se) i r (l, v)
      else (zero_lifecycleResult, l, v)) = (f, l1, w1)" by (metis prod_cases3)
  have w1: "cleanup_step sid w w1"
    using cleanup_observe [OF assms, of i r l] assms(2) q by (auto split: if_splits)
  obtain c w2 where cc: "correlateCompletedJob (seEnv se) i name r since w1 = (c, w2)" by force
  have w2: "cleanup_step sid w w2" using cleanup_correlate [OF assms(1) w1, of i name r since] cc by simp
  show ?thesis
    using w1 w2 by (cases c) (auto simp: on_exit_def exit_verdict_def None q cc Let_def cleanup_world split: bool.split)
qed

lemma cleanup_life_turn:
  assumes "others_spare (seEnv se) sid" and "cleanup_step sid w v"
  shows "case life_turn se i name r a b since ev (l, v) of
      Inl (x, l', w') \<Rightarrow> cleanup_step sid w w' | Inr (l', w') \<Rightarrow> cleanup_step sid w w'"
  using cleanup_observe [OF assms] cleanup_on_exit [OF assms] assms(2)
  by (cases ev) (auto simp: life_turn_def Let_def split_def split: option.split)

lemma cleanup_life_loop:
  assumes "others_spare (seEnv se) sid"
  shows "cleanup_step sid w v \<Longrightarrow> life_loop fuel se i name r a b since (l, v) = Some (x, l', w') \<Longrightarrow>
    cleanup_step sid w w'"
proof (induction fuel arbitrary: l v)
  case (Suc fuel)
  note t = cleanup_life_turn [OF assms Suc.prems(1), of i name r a b since "seLife se (wStep v)" l]
  show ?case
    using Suc.prems(2) t Suc.IH cleanup_trans [OF _ cleanup_sync [OF assms]]
    by (auto split: sum.splits)
qed simp

lemma cleanup_waitForLifecycle:
  assumes "others_spare (seEnv se) sid" and "waitForLifecycle fuel se i name r w = Some (x, l', w')"
  shows "cleanup_step sid w w'"
  using assms(2) cleanup_life_loop [OF assms(1)] cleanup_observe [OF assms(1) cleanup_refl]
  by (auto simp: waitForLifecycle_def Let_def split_def split: if_splits) (metis snd_conv)+

section \<open>The worker\<close>

text \<open>Everything in the log is settled except, perhaps, one runner.\<close>

definition settled_but :: "string \<Rightarrow> int \<Rightarrow> Effect list \<Rightarrow> bool" where
  "settled_but repo r fx =
     ((\<forall>repo' r'. FxJIT repo' r' \<in> set fx \<and> r' > 0 \<and> (repo', r') \<noteq> (repo, r) \<longrightarrow>
         FxDeleteRunner repo' r' True \<in> set fx) \<and>
      (\<forall>h ok. FxSpawn h ok \<in> set fx \<and> (ok \<or> hBackend h \<noteq> []) \<longrightarrow> (\<exists>force. FxTeardown h force True \<in> set fx)))"

lemma settled_but_grow: "settled_but repo r (wEffects w) \<Longrightarrow> log_grows w w' \<Longrightarrow> settled_but repo r (wEffects w')"
  unfolding settled_but_def log_grows_def by (auto simp: list_all_iff) (metis is_cleanup.simps(3,4))+

lemma all_settled_grow: "all_settled (wEffects w) \<Longrightarrow> log_grows w w' \<Longrightarrow> all_settled (wEffects w')"
  unfolding all_settled_def log_grows_def by (auto simp: list_all_iff) (metis is_cleanup.simps(3,4))+

lemma settled_but_all:
  "settled_but repo r (wEffects w) \<Longrightarrow> runner_gone repo r w \<Longrightarrow> all_settled (wEffects w)"
  unfolding settled_but_def all_settled_def runner_gone_def by auto

lemma settled_but_jit: "all_settled fx \<Longrightarrow> settled_but repo r (fx @ [FxJIT repo r])"
  unfolding settled_but_def all_settled_def by auto

lemma settled_but_spawn:
  assumes "settled_but repo r (wEffects w)" and "wEffects w1 = wEffects w @ [FxSpawn h ok]" and "log_grows w1 w'"
    and "ok \<or> hBackend h \<noteq> [] \<Longrightarrow> stack_gone h w'"
  shows "settled_but repo r (wEffects w')"
proof -
  obtain xs where xs: "wEffects w' = wEffects w @ FxSpawn h ok # xs" "list_all is_cleanup xs"
    using assms(2,3) by (auto simp: log_grows_def)
  then have "FxJIT a b \<notin> set xs" "FxSpawn c d \<notin> set xs" for a b c d
    by (auto simp: list_all_iff)
  with assms(1,4) show ?thesis unfolding settled_but_def stack_gone_def xs(1) by auto
qed

lemma finish_stage_settles:
  assumes spare: "others_spare (seEnv se) (siSpawnID i)"
    and run: "finish_stage fuel se i name snap r h w = Some (res, w')"
  shows "log_grows w w' \<and> (has_debt (siSpawnID i) w' \<or> stack_gone h w' \<and> runner_gone (siRepo i) r w')"
proof -
  obtain life l w1 where wait: "waitForLifecycle fuel se i name r w = Some (life, l, w1)"
    using run by (auto simp: finish_stage_def split: option.splits)
  define w2 where "w2 = (if lrErr life = None \<and> \<not> lrTimedOut life
      then emit (EvRunnerCompleted (siScope i) (siRepo i) (siSpawnID i) (lrExitCode life))
             (st_op (seEnv se) RecordCompleted w1) else w1)"
  have w1: "cleanup_step (siSpawnID i) w w1" using cleanup_waitForLifecycle [OF spare wait] .
  have w2: "cleanup_step (siSpawnID i) w w2" unfolding w2_def by (intro cleanup_extend spare w1)
  have "settle_stage fuel se i r h (defaultTimeoutSeconds (obTimeoutSeconds (ryOrchestrator (rsnYML snap)))) life w2 = Some (res, w')"
    using run wait by (simp add: finish_stage_def Let_def w2_def)
  from settle_stage_settles [OF spare this] cleanup_log [OF w2] show ?thesis
    using log_grows_trans by blast
qed

lemma spawn_stage_settles:
  assumes spare: "others_spare (seEnv se) (siSpawnID i)"
    and run: "spawn_stage fuel se i name snap img jit w = Some (res, w')"
    and start: "settled_but (siRepo i) (jitRunnerID jit) (wEffects w)"
  shows "has_debt (siSpawnID i) w' \<or> all_settled (wEffects w')"
proof (cases "seRender se (wStep w) (siSpawnID i) (rsnYML snap)")
  case (Inl err)
  then have "failAndLeak fuel se i ''egress_render'' err (jitRunnerID jit) w = Some (res, w')"
    using run by (simp add: spawn_stage_def)
  from failAndLeak_settles [OF spare this] start show ?thesis
    by (blast intro: settled_but_all settled_but_grow)
next
  case (Inr x)
  obtain dir cidrs where x: "x = (dir, cidrs)" by force
  obtain h serr where sp: "seSpawn se (wStep w) (spawn_input se i snap img (jitEncoded jit) dir cidrs) = (h, serr)"
    by force
  define w1 where "w1 = effect (FxSpawn h (serr = None)) (st_sync (seEnv se) w)"
  have fx: "wEffects w1 = wEffects w @ [FxSpawn h (serr = None)]" by (simp add: w1_def)
  have fin: "has_debt (siSpawnID i) v \<or> all_settled (wEffects v)"
    if "log_grows w1 v" "has_debt (siSpawnID i) v \<or> (serr = None \<or> hBackend h \<noteq> [] \<longrightarrow> stack_gone h v) \<and>
      runner_gone (siRepo i) (jitRunnerID jit) v" for v
    using that settled_but_spawn [OF start fx that(1)] settled_but_all by blast
  show ?thesis
  proof (cases serr)
    case None
    then have "finish_stage fuel se i name snap (jitRunnerID jit) h
        (emit (EvSpawnRunnerCreated (siScope i) (siRepo i) (siSpawnID i) (lookup_or [] (hRefs h) ''network_name'')) w1)
        = Some (res, w')"
      using run Inr x sp by (simp add: spawn_stage_def Let_def w1_def)
    from finish_stage_settles [OF spare this] show ?thesis
      by (intro fin) (auto simp: log_grows_def)
  next
    case (Some err)
    show ?thesis
    proof (cases "hBackend h = []")
      case True
      then have "failAndLeak fuel se i (classifyDockerError err) err (jitRunnerID jit) w1 = Some (res, w')"
        using run Inr x sp Some by (simp add: spawn_stage_def Let_def w1_def)
      from failAndLeak_settles [OF spare this] show ?thesis using True Some by (intro fin) auto
    next
      case False
      then obtain y w2 where p: "settlePartialSpawn fuel se i h err (jitRunnerID jit) w1 = Some (y, w2)"
          "cleanup_step (siSpawnID i) w2 w'"
        using run Inr x sp Some cleanup_sync [OF spare]
        by (auto simp: spawn_stage_def Let_def w1_def split_def leak_cleaned_def fail_def spawn_failed_def cleanup_world
            split: option.splits)
      from settled_cleanup [OF settlePartialSpawn_settles [OF spare p(1)] p(2)]
      show ?thesis by (intro fin) auto
    qed
  qed
qed

lemma jit_stage_settles:
  assumes spare: "others_spare (seEnv se) (siSpawnID i)"
    and run: "jit_stage fuel se i name snap img w = Some (res, w')"
    and start: "all_settled (wEffects w)"
  shows "has_debt (siSpawnID i) w' \<or> all_settled (wEffects w')"
proof -
  obtain jit jerr w1 where g: "gh_call (GenerateJITConfig (eClient (seEnv se)) (siRepo i)
        \<lparr>jrName = name, jrRunnerGroupID = 0,
         jrLabels = jitRunnerLabels (siScope i) (ryLabels (rsnYML snap)), jrWorkFolder = []\<rparr>) w = ((jit, jerr), w1)"
    by (metis prod.exhaust)
  have w1: "wEffects w1 = wEffects w" using g by (auto simp: gh_call_def split_def Let_def)
  define w2 where "w2 = effect (FxJIT (siRepo i) (jitRunnerID jit)) w1"
  have s2: "settled_but (siRepo i) (jitRunnerID jit) (wEffects w2)"
    using settled_but_jit [OF start] by (simp add: w2_def w1)
  define w3 where "w3 = recordRunnerOperation (seEnv se) (siRepo i) ''generate_jit_config'' jerr w2"
  have w3: "cleanup_step (siSpawnID i) w2 w3"
    unfolding w3_def by (intro cleanup_recordRunnerOperation spare cleanup_refl)
  show ?thesis
  proof (cases jerr)
    case None
    define w5 where "w5 = st_op (seEnv se) (RecordJIT (siSpawnID i) (jitRunnerID jit) name)
        (emit (EvSpawnJITAcquired (siScope i) (siRepo i) (siSpawnID i) (jitRunnerID jit)) w3)"
    have "cleanup_step (siSpawnID i) w2 w5" unfolding w5_def by (intro cleanup_extend spare w3)
    then have "settled_but (siRepo i) (jitRunnerID jit) (wEffects w5)"
      using s2 by (blast intro: settled_but_grow cleanup_log)
    moreover have "spawn_stage fuel se i name snap img jit w5 = Some (res, w')"
      using run None by (simp add: jit_stage_def g w2_def [symmetric] w3_def [symmetric] Let_def) (simp add: w5_def w3_def)
    ultimately show ?thesis by (intro spawn_stage_settles [OF spare])
  next
    case (Some err)
    define w4 where "w4 = pauseForRateLimit (seEnv se) (siScope i) err w3"
    have w4: "cleanup_step (siSpawnID i) w2 w4"
      unfolding w4_def by (intro cleanup_pauseForRateLimit spare w3)
    show ?thesis
    proof (cases "jitRunnerID jit > 0")
      case True
      define w5 where "w5 = st_op (seEnv se) (RecordJIT (siSpawnID i) (jitRunnerID jit) name) w4"
      have "cleanup_step (siSpawnID i) w2 w5" unfolding w5_def by (intro cleanup_extend spare w4)
      then have s5: "settled_but (siRepo i) (jitRunnerID jit) (wEffects w5)"
        using s2 by (blast intro: settled_but_grow cleanup_log)
      have "failAndLeak fuel se i (classifyJITError err) err (jitRunnerID jit) w5 = Some (res, w')"
        using run Some True by (simp add: jit_stage_def g w2_def w3_def w4_def w5_def Let_def)
      from failAndLeak_settles [OF spare this] s5 show ?thesis
        by (blast intro: settled_but_all settled_but_grow)
    next
      case False
      then have "wEffects w' = wEffects w4"
        using run Some by (auto simp: jit_stage_def g w2_def w3_def w4_def Let_def fail_def spawn_failed_def)
      moreover have "settled_but (siRepo i) (jitRunnerID jit) (wEffects w4)"
        using s2 w4 by (blast intro: settled_but_grow cleanup_log)
      ultimately show ?thesis using False settled_but_all [of "siRepo i" "jitRunnerID jit" w4]
        by (simp add: runner_gone_def)
    qed
  qed
qed

end
