(* ===== verification/Poll_Thms.thy ===== *)
theory Poll_Thms
  imports Poll_Model
begin

text \<open>
  Properties of the poll loop. The locale \<open>poll_invariant\<close> collects what a predicate on the
  scheduling state has to be closed under for a whole tick to keep it: the operations of the
  other goroutines, the bookkeeping operations, and reservations with the scope's limits.
\<close>

section \<open>Invariants of a tick\<close>

locale poll_invariant =
  fixes e :: Env and sc :: ScopeRef and P :: "State \<Rightarrow> bool"
  assumes others: "P s \<Longrightarrow> P (run_ops (eOthers e n) s)"
    and quiet: "\<not> raises op \<Longrightarrow> P s \<Longrightarrow> P (apply_op op s)"
    and reserve: "repo \<in> set (scRepos sc) \<Longrightarrow> P s \<Longrightarrow>
      P (snd (TryReserve sid (rrRepo repo) (rrMaxConcurrent repo) (scGlobalMaxRunners sc) t s))"
begin

lemma keeps_sync: "P (wState w) \<Longrightarrow> P (wState (st_sync e w))"
  by (simp add: others)

lemma keeps_quiet: "\<not> raises op \<Longrightarrow> P (wState w) \<Longrightarrow> P (wState (st_op e (apply_op op) w))"
  by (simp add: others quiet)

lemma keeps_ops:
  assumes "P (wState w)"
  shows "P (wState (st_op e (SetRateLimit a b c) w))" "P (wState (st_op e (SetRateLimited d) w))"
    "P (wState (st_op e (RecordPollAttempt r t) w))" "P (wState (st_op e (RecordPollSuccess r q t) w))"
    "P (wState (st_op e (RecordPollFailure r cl de) w))" "P (wState (st_op e (ReleaseReservation i) w))"
  using keeps_quiet [of "OpSetRateLimit a b c" w] keeps_quiet [of "OpSetRateLimited d" w]
    keeps_quiet [of "OpRecordPollAttempt r t" w] keeps_quiet [of "OpRecordPollSuccess r q t" w]
    keeps_quiet [of "OpRecordPollFailure r cl de" w] keeps_quiet [of "OpReleaseReservation i" w] assms
  by (simp_all add: raises_def)

lemma keeps_RateLimitContextFor: "P (wState w) \<Longrightarrow> P (wState (snd (RateLimitContextFor e w)))"
  by (simp add: RateLimitContextFor_def split_def Let_def others)

lemma keeps_MarkRateLimited: "P (wState w) \<Longrightarrow> P (wState (snd (deps_MarkRateLimited e w)))"
  unfolding deps_MarkRateLimited_def Let_def split_def snd_conv
  by (rule keeps_ops) (simp add: others)

lemma keeps_MaybeClearRateLimit: "P (wState w) \<Longrightarrow> P (wState (snd (deps_MaybeClearRateLimit e w)))"
  unfolding deps_MaybeClearRateLimit_def by (auto simp del: st_op_simps intro: keeps_ops)

lemma keeps_RecordRateLimit: "P (wState w) \<Longrightarrow> P (wState (deps_RecordRateLimit e l w))"
  unfolding deps_RecordRateLimit_def Let_def by (rule keeps_ops)

lemma keeps_recordPollFailure: "P (wState w) \<Longrightarrow> P (wState (poll_recordPollFailure e sc r cl d w))"
  using keeps_ops(5) [of w r cl d]
  by (auto simp: poll_recordPollFailure_def deps_RecordPollFailure_def split_def Let_def)

lemma keeps_recordPollSuccess: "P (wState w) \<Longrightarrow> P (wState (poll_recordPollSuccess e sc r q w))"
  using keeps_ops(4) [of w r q]
  by (simp add: poll_recordPollSuccess_def deps_RecordPollSuccess_def split_def Let_def)

lemma keeps_handlePollError: "P (wState w) \<Longrightarrow> P (wState (handlePollError e sc r err w))"
  using keeps_MarkRateLimited [of w] keeps_RateLimitContextFor [of "snd (deps_MarkRateLimited e w)"]
  by (simp add: handlePollError_def split_def Let_def)

lemma keeps_poll_failed: "P (wState w) \<Longrightarrow> P (wState (poll_failed e sc r cl err w))"
  unfolding poll_failed_def
  by (intro keeps_handlePollError keeps_recordPollFailure keeps_RecordRateLimit)

lemma keeps_enqueue_loop:
  assumes "repo \<in> set (scRepos sc)" and "P (wState w)"
  shows "P (wState (snd (enqueue_loop e sc repo jobs n w)))"
  using assms(2)
proof (induction n arbitrary: w)
  case (Suc n)
  let ?w1 = "snd (NewSpawnID e w)" let ?sid = "fst (NewSpawnID e w)"
  let ?r = "deps_TryReserve e ?sid (rrRepo repo) (rrMaxConcurrent repo) (scGlobalMaxRunners sc) ?w1"
  have w1: "wState ?w1 = wState w" by (simp add: NewSpawnID_def nextSeq_def split_def Let_def)
  have "P (wState (snd ?r))"
    using Suc.prems assms(1) by (simp add: deps_TryReserve_def w1 reserve others)
  then show ?case
    using keeps_ops(6) [of "snd ?r" ?sid] by (auto simp: split_def Let_def intro!: Suc.IH)
qed simp

lemma keeps_schedule_repo:
  "repo \<in> set (scRepos sc) \<Longrightarrow> P (wState w) \<Longrightarrow> P (wState (snd (schedule_repo e sc repo d w)))"
  unfolding schedule_repo_def Let_def split_def st_get_simps
  by (intro keeps_enqueue_loop keeps_sync)
    (auto intro!: keeps_recordPollSuccess keeps_RecordRateLimit)

lemma keeps_poll_repo:
  assumes "repo \<in> set (scRepos sc)" and "P (wState w)" and "poll_repo e sc repo w = Some (b, w')"
  shows "P (wState w')"
proof -
  define w2 where "w2 = snd (deps_BreakerIsOpen (rrRepo repo) (snd (deps_BreakerMaybeHalfOpen e (rrRepo repo) w)))"
  define w4 where "w4 = st_sync e (deps_RecordPollAttempt e (rrRepo repo) w2)"
  have "wState w2 = wState w"
    by (simp add: w2_def deps_BreakerIsOpen_def deps_BreakerMaybeHalfOpen_def split_def Let_def)
  then have w2: "P (wState w2)" using assms(2) by simp
  then have w4: "P (wState (w4\<lparr>wGH := g\<rparr>))" for g
    using keeps_sync [OF keeps_ops(3) [OF w2]] by (simp add: w4_def deps_RecordPollAttempt_def)
  then have w4': "P (wState w4)" by simp
  from assms(3) consider "w' = w2"
    | err cl g where "w' = poll_failed e sc (rrRepo repo) cl err (w4\<lparr>wGH := g\<rparr>)"
    | err cl where "w' = poll_failed e sc (rrRepo repo) cl err w4"
    | d g where "schedule_repo e sc repo d (w4\<lparr>wGH := g\<rparr>) = (b, w')"
    unfolding poll_repo_def LabelsForRepo_def Let_def split_def w2_def [symmetric] w4_def [symmetric]
    by (auto split: if_splits sum.splits option.splits prod.splits)
  then show ?thesis
    using w2 w4 w4' keeps_schedule_repo [OF assms(1) w4]
    by cases (auto intro: keeps_poll_failed, metis snd_conv)
qed

lemma keeps_poll_repos:
  "set repos \<subseteq> set (scRepos sc) \<Longrightarrow> P (wState w) \<Longrightarrow> poll_repos e sc repos w = Some (b, w') \<Longrightarrow> P (wState w')"
proof (induction repos arbitrary: w)
  case (Cons repo repos)
  from Cons.prems(3) obtain b1 w1 where one: "poll_repo e sc repo w = Some (b1, w1)"
      and rest: "if b1 then poll_repos e sc repos w1 = Some (b, w') else w' = w1"
    by (auto split: option.splits bool.splits)
  have "P (wState w1)" using keeps_poll_repo [OF _ Cons.prems(2) one] Cons.prems(1) by simp
  then show ?case using rest Cons by (auto split: if_splits)
qed simp

lemma repo_order_subset: "set (repo_order repos k) \<subseteq> set repos"
  by (cases "repos = []") (auto simp: repo_order_def intro!: nth_mem)

lemma keeps_tick:
  assumes "P (wState w)" and "tick e sc k w = Some (k', w')"
  shows "P (wState w')"
proof -
  define w2 where "w2 = st_sync e (deps_RecordPollTick e w)"
  define p3 where "p3 = (if wRlPaused w2 then deps_MaybeClearRateLimit e w2 else (True, w2))"
  define w4 where "w4 = (if wRlPaused w2 \<and> fst p3
      then (let ((rem, lmt, reset), v) = RateLimitContextFor e (snd p3)
            in emit (EvRatelimitResumed (scName sc) rem lmt reset) v)
      else snd p3)"
  have w2: "P (wState w2)"
    using assms(1) by (simp add: w2_def deps_RecordPollTick_def others)
  then have w3: "P (wState (snd p3))" by (auto simp: p3_def intro: keeps_MaybeClearRateLimit)
  then have "P (wState w4)"
    using keeps_RateLimitContextFor [of "snd p3"] by (auto simp: w4_def split_def Let_def)
  then have w6: "P (wState (emit ev (snd (RateLimitContextFor e w4))))" for ev
    using keeps_RateLimitContextFor [of w4] by simp
  from assms(2) consider "w' = w2" | "w' = snd p3"
    | ev b where "poll_repos e sc (repo_order (scRepos sc) k) (emit ev (snd (RateLimitContextFor e w4))) = Some (b, w')"
    unfolding tick_def Let_def split_def st_get_simps w2_def [symmetric] p3_def [symmetric]
      w4_def [unfolded Let_def split_def, symmetric]
    by (auto split: if_splits option.splits bool.splits)
  then show ?thesis
  proof cases
    case 3
    then show ?thesis using keeps_poll_repos [OF repo_order_subset w6] by blast
  qed (use w2 w3 in simp_all)
qed

end

interpretation poll_state: poll_invariant e sc state_inv for e sc
  by unfold_locales (auto intro: run_ops_inv apply_op_inv TryReserve_inv)

section \<open>The poll loop takes scheduler steps only\<close>

definition scope_caps :: "ScopeRef \<Rightarrow> string \<Rightarrow> int" where
  "scope_caps sc repo = RepoMaxConcurrent (scRepos sc) repo"

text \<open>The other goroutines only take scheduler steps themselves.\<close>

definition others_sched :: "Env \<Rightarrow> ScopeRef \<Rightarrow> bool" where
  "others_sched e sc = (\<forall>n s. sched_reach (scope_caps sc) (scGlobalMaxRunners sc) s \<longrightarrow>
     sched_reach (scope_caps sc) (scGlobalMaxRunners sc) (run_ops (eOthers e n) s))"

lemma RepoMaxConcurrent_nth:
  "distinct (map rrRepo rs) \<Longrightarrow> repo \<in> set rs \<Longrightarrow> RepoMaxConcurrent rs (rrRepo repo) = rrMaxConcurrent repo"
  by (induction rs) (auto simp: rev_image_eqI)

lemma poll_sched_invariant:
  assumes "others_sched e sc" and "distinct (map rrRepo (scRepos sc))"
  shows "poll_invariant e sc (sched_reach (scope_caps sc) (scGlobalMaxRunners sc))"
proof
  fix s n op repo sid t
  assume reach: "sched_reach (scope_caps sc) (scGlobalMaxRunners sc) s"
  then show "sched_reach (scope_caps sc) (scGlobalMaxRunners sc) (run_ops (eOthers e n) s)"
    using assms(1) by (simp add: others_sched_def)
  show "\<not> raises op \<Longrightarrow> sched_reach (scope_caps sc) (scGlobalMaxRunners sc) (apply_op op s)"
    using reach by (blast intro: sched_reach.step sched_step.other)
  show "repo \<in> set (scRepos sc) \<Longrightarrow> sched_reach (scope_caps sc) (scGlobalMaxRunners sc)
      (snd (TryReserve sid (rrRepo repo) (rrMaxConcurrent repo) (scGlobalMaxRunners sc) t s))"
    using sched_reach.step [OF reach sched_step.reserve [of _ _ _ sid "rrRepo repo" t]]
      RepoMaxConcurrent_nth [OF assms(2)] by (simp add: scope_caps_def)
qed

text \<open>C8: a poll cycle that returns, run at any moment of a correctly scheduled orchestrator and
  interleaved with any scheduler steps of the workers, leaves every repository within its
  concurrency limit and the scope within its global limit.\<close>

theorem tick_within_capacity:
  assumes "sched_reach (scope_caps sc) (scGlobalMaxRunners sc) (wState w)" and "others_sched e sc"
    and "distinct (map rrRepo (scRepos sc))"
    and "\<forall>r. 0 \<le> scope_caps sc r" and "0 \<le> scGlobalMaxRunners sc"
    and "tick e sc k w = Some (k', w')"
  shows "InFlight (wState w') repo \<le> scope_caps sc repo \<and>
         GlobalInFlight (wState w') \<le> scGlobalMaxRunners sc"
proof -
  have "sched_reach (scope_caps sc) (scGlobalMaxRunners sc) (wState w')"
    using poll_invariant.keeps_tick [OF poll_sched_invariant [OF assms(2,3)] assms(1,6)] .
  then have "within_caps (scope_caps sc) (scGlobalMaxRunners sc) (wState w')"
    using assms(4,5) by (intro sched_reach_within) auto
  then show ?thesis by (simp add: within_caps_def)
qed

definition example_env :: Env where
  "example_env =
     \<lparr>eNow = (\<lambda>n. unix_epoch + 5), eOthers = (\<lambda>n. []),
      eClient = \<lparr>clToken = (\<lambda>n. Inr ''t''), clHTTP = (\<lambda>n m p b. Inl (Plain ''down'')),
                  clConditional = (\<lambda>n p t. Inl (Plain ''down''))\<rparr>,
      eRunnerYML = (\<lambda>n r. Inl (Plain ''no runner.yml'')), eCtxErr = (\<lambda>n. None), eSend = (\<lambda>n. True)\<rparr>"

definition example_repo :: RepoRef where
  "example_repo = \<lparr>rrRepo = ''o/r'', rrMaxConcurrent = 2\<rparr>"

definition example_scope :: ScopeRef where
  "example_scope = \<lparr>scName = ''s'', scGlobalMaxRunners = 3, scPollIntervalSec = 15, scRepos = [example_repo]\<rparr>"

definition world_of :: "State \<Rightarrow> World" where
  "world_of s =
     \<lparr>wState = s, wBrks = newBreakerMap, wRlPaused = False, wRlReset = 0, wBucket = NewTokenBucket 5 10 0,
      wGH = \<lparr>ghCalls = 0, ghObserved = []\<rparr>, wIntents = [], wEvents = [], wEffects = [], wLastPoll = 0,
      wPollStarted = False, wSeq = 0, wStep = 0\<rparr>"

lemma tick_within_capacity_witness:
  "\<exists>w'. tick example_env example_scope 0 (world_of (snd (TryReserve ''a'' ''o/r'' 2 3 5 New))) = Some (0, w') \<and>
     InFlight (wState w') ''o/r'' \<le> scope_caps example_scope ''o/r''"
proof -
  let ?w = "world_of (snd (TryReserve ''a'' ''o/r'' 2 3 5 New))"
  have "case tick example_env example_scope 0 ?w of Some (k, w) \<Rightarrow> k = 0 | None \<Rightarrow> False"
    by code_simp
  then obtain w' where t: "tick example_env example_scope 0 ?w = Some (0, w')"
    by (auto split: option.splits prod.splits)
  have caps: "scope_caps example_scope ''o/r'' = 2"
    by (simp add: scope_caps_def example_scope_def example_repo_def)
  have "sched_reach (scope_caps example_scope) 3 (snd (TryReserve ''a'' ''o/r'' 2 3 5 New))"
    using sched_reach.step [OF sched_reach.start
        sched_step.reserve [of "scope_caps example_scope" 3 New "''a''" "''o/r''" 5]] caps by simp
  moreover have "0 \<le> scope_caps example_scope r" for r
    by (simp add: scope_caps_def example_scope_def example_repo_def)
  ultimately show ?thesis
    using tick_within_capacity [of example_scope ?w example_env 0 0 w' "''o/r''"] t
    by (simp add: others_sched_def example_env_def world_of_def example_scope_def)
qed

section \<open>Demand is covered once\<close>

text \<open>A reservation counts as delivered capacity of its repository until it is assigned a job or
  becomes debt.\<close>

definition covers :: "string \<Rightarrow> SpawnState \<Rightarrow> bool" where
  "covers repo sp = (ssRepo sp = repo \<and> (ssPhase sp = PhasePending \<or> ssPhase sp = PhaseOnline))"

definition reserves :: "StateOp \<Rightarrow> bool" where
  "reserves op = (case op of OpTryReserve sid repo rc gc now \<Rightarrow> True | _ \<Rightarrow> False)"

definition cover_shrinks :: "(string, SpawnState) gomap \<Rightarrow> (string, SpawnState) gomap \<Rightarrow> bool" where
  "cover_shrinks m m' \<longleftrightarrow>
     m' = m \<or>
     (\<exists>k sp'. m' = AList.update k sp' m \<and> (\<forall>r. covers r sp' \<longrightarrow> (\<exists>sp. map_of m k = Some sp \<and> covers r sp))) \<or>
     (\<exists>k. m' = AList.delete k m)"

lemma coverage_count:
  assumes "state_inv s"
  shows "DemandCoverage s repo = gcount (covers repo) (reservations s)"
proof -
  have "gcount (covers repo) m = gcount (in_phase repo PhasePending) m + gcount (in_phase repo PhaseOnline) m"
    for m :: "(string, SpawnState) gomap"
    by (induction m) (auto simp: covers_def in_phase_def)
  then show ?thesis
    by (simp add: DemandCoverage_repo_of state_invD(5,6) [OF assms])
qed

lemma cover_shrinks_intros:
  "cover_shrinks m m" "cover_shrinks m (AList.delete k m)"
  "(\<And>r. covers r sp' \<Longrightarrow> \<exists>sp. map_of m k = Some sp \<and> covers r sp) \<Longrightarrow> cover_shrinks m (AList.update k sp' m)"
  by (auto simp: cover_shrinks_def)

lemma apply_op_cover:
  "\<not> reserves op \<Longrightarrow> cover_shrinks (reservations s) (reservations (apply_op op s))"
  by (cases op) (auto simp: reserves_def ledger_simps RecordJIT_def MarkOnline_def MarkAssigned_def
      MarkTeardownBlocked_def UpdateTeardownFailure_def ResolveTeardown_def ReleaseReservation_def
      releaseReservationLocked_def Let_def covers_def split_def new_spawn_def
      intro!: cover_shrinks_intros split: option.splits)

lemma cover_shrinks_count:
  "cover_shrinks m m' \<Longrightarrow> wf_map m \<Longrightarrow> gcount (covers r) m' \<le> gcount (covers r) m"
  by (auto simp: cover_shrinks_def gcount_update gcount_mono_delete split: option.splits)

lemma coverage_run_ops:
  assumes "state_inv s" and "list_all (\<lambda>op. \<not> reserves op) ops"
  shows "DemandCoverage (run_ops ops s) r \<le> DemandCoverage s r"
  using assms
proof (induction ops arbitrary: s)
  case (Cons op ops)
  have inv: "state_inv (apply_op op s)" using Cons.prems(1) by (rule apply_op_inv)
  have "DemandCoverage (apply_op op s) r \<le> DemandCoverage s r"
    using cover_shrinks_count [OF apply_op_cover state_invD(2)] Cons.prems inv
    by (simp add: coverage_count)
  with Cons.IH [OF inv] Cons.prems(2) show ?case by simp
qed simp

lemma coverage_TryReserve:
  assumes "state_inv s"
  shows "DemandCoverage (snd (TryReserve sid repo rc gc t s)) r \<le> DemandCoverage s r + (if r = repo then 1 else 0)"
proof -
  have inv: "state_inv (snd (TryReserve sid repo rc gc t s))" using assms by (rule TryReserve_inv)
  have "reservations (snd (TryReserve sid repo rc gc t s)) = reservations s \<or>
      map_of (reservations s) sid = None \<and>
      reservations (snd (TryReserve sid repo rc gc t s)) =
        AList.update sid (new_spawn sid repo PhasePending t) (reservations s)"
    by (auto simp: TryReserve_def split_def split: option.splits)
  then show ?thesis
    by (auto simp: coverage_count [OF inv] coverage_count [OF assms] gcount_update covers_def new_spawn_def)
qed

lemma coverage_enqueue_loop:
  assumes "\<forall>n. list_all (\<lambda>op. \<not> reserves op) (eOthers e n)" and "state_inv (wState w)"
  shows "DemandCoverage (wState (snd (enqueue_loop e sc repo jobs n w))) r \<le>
         DemandCoverage (wState w) r + (if r = rrRepo repo then int n else 0)"
  using assms(2)
proof (induction n arbitrary: w)
  case (Suc n)
  let ?w1 = "snd (NewSpawnID e w)" let ?sid = "fst (NewSpawnID e w)"
  let ?r = "deps_TryReserve e ?sid (rrRepo repo) (rrMaxConcurrent repo) (scGlobalMaxRunners sc) ?w1"
  have w1: "wState ?w1 = wState w" by (simp add: NewSpawnID_def nextSeq_def split_def Let_def)
  have sync: "state_inv (run_ops (eOthers e k) (wState w))"
      "DemandCoverage (run_ops (eOthers e k) (wState w)) r \<le> DemandCoverage (wState w) r" for k
    using Suc.prems assms(1) by (auto intro: run_ops_inv coverage_run_ops)
  have inv2: "state_inv (wState (snd ?r))"
    using sync(1) by (simp add: deps_TryReserve_def w1 TryReserve_inv)
  have c2: "DemandCoverage (wState (snd ?r)) r \<le> DemandCoverage (wState w) r + (if r = rrRepo repo then 1 else 0)"
    using order_trans [OF coverage_TryReserve [OF sync(1)] add_right_mono [OF sync(2)]]
    by (simp add: deps_TryReserve_def w1)
  have rel: "DemandCoverage (wState (st_op e (ReleaseReservation ?sid) (snd ?r))) r \<le> DemandCoverage (wState (snd ?r)) r"
    using coverage_run_ops [OF inv2, of "eOthers e (wStep (snd ?r)) @ [OpReleaseReservation ?sid]" r] assms(1)
    by (simp add: run_ops_def reserves_def)
  note IH = Suc.IH [of "(snd ?r)\<lparr>wIntents := is\<rparr>" for "is"]
  show ?case
    using c2 rel inv2 order_trans [OF IH] by (auto simp: split_def Let_def split: if_splits)
qed simp

lemma to_spawn_bound: "c + int (nat (to_spawn m i g gi q c)) \<le> max c q"
  by (auto simp: to_spawn_def Let_def)

text \<open>States connected by operations that reserve nothing.\<close>

definition quiet_path :: "State \<Rightarrow> State \<Rightarrow> bool" where
  "quiet_path s s' = (\<exists>ops. list_all (\<lambda>op. \<not> reserves op) ops \<and> s' = run_ops ops s)"

lemma run_ops_append: "run_ops (xs @ ys) s = run_ops ys (run_ops xs s)"
  by (simp add: run_ops_def)

lemma quiet_path_snoc: "quiet_path s s' \<Longrightarrow> list_all (\<lambda>op. \<not> reserves op) ops \<Longrightarrow> quiet_path s (run_ops ops s')"
proof -
  assume "quiet_path s s'" and ops: "list_all (\<lambda>op. \<not> reserves op) ops"
  then obtain xs where "list_all (\<lambda>op. \<not> reserves op) xs" "s' = run_ops xs s" by (auto simp: quiet_path_def)
  with ops show ?thesis unfolding quiet_path_def by (intro exI [of _ "xs @ ops"]) (simp add: run_ops_append)
qed

lemma quiet_path_refl: "quiet_path s s"
  unfolding quiet_path_def by (rule exI [of _ "[]"]) simp

lemma quiet_path_cover: "quiet_path s s' \<Longrightarrow> state_inv s \<Longrightarrow> state_inv s' \<and> DemandCoverage s' r \<le> DemandCoverage s r"
  by (auto simp: quiet_path_def intro: run_ops_inv coverage_run_ops)

text \<open>C9: as long as only the poll loop reserves, scheduling a repository never leaves more
  runners that wait for a job than the demand just observed, unless there were already more;
  a job that stays queued while its runner registers is not given a second runner.\<close>

theorem no_over_provisioning:
  assumes "\<forall>n. list_all (\<lambda>op. \<not> reserves op) (eOthers e n)" and "state_inv (wState w)"
  shows "DemandCoverage (wState (snd (schedule_repo e sc repo d w))) r \<le>
         (if r = rrRepo repo then max (DemandCoverage (wState w) r) (demand_Count d)
          else DemandCoverage (wState w) r)"
proof -
  define w3 where "w3 = (let w2 = poll_recordPollSuccess e sc (rrRepo repo) (demand_Count d)
       (deps_RecordRateLimit e (jdRateLimit d) w)
     in if demand_Count d > 0 then emit (EvQueuedJobsObserved (scName sc) (rrRepo repo) (demand_Count d)) w2 else w2)"
  define w6 where "w6 = st_sync e (st_sync e (st_sync e w3))"
  have step: "quiet_path s s' \<Longrightarrow> quiet_path s (run_ops (eOthers e n) s')" for s s' n
    using assms(1) by (blast intro: quiet_path_snoc)
  have op: "quiet_path s s' \<Longrightarrow> \<not> reserves x \<Longrightarrow> quiet_path s (apply_op x s')" for s s' x
    using quiet_path_snoc [of s s' "[x]"] by simp
  have "quiet_path (wState w) (wState (deps_RecordRateLimit e (jdRateLimit d) w))"
    using op [OF step [OF quiet_path_refl], of "OpSetRateLimit a b c" for a b c]
    by (simp add: deps_RecordRateLimit_def Let_def reserves_def)
  then have "quiet_path (wState w) (wState w3)"
    using op [OF step, of _ _ "OpRecordPollSuccess a b c" for a b c]
    by (simp add: w3_def poll_recordPollSuccess_def deps_RecordPollSuccess_def split_def Let_def reserves_def)
  then have "quiet_path (wState w) (wState w6)" by (simp add: w6_def step)
  note w6 = quiet_path_cover [OF this assms(2)]
  define n where "n = nat (to_spawn (rrMaxConcurrent repo) (InFlight (wState (st_sync e w3)) (rrRepo repo))
      (scGlobalMaxRunners sc) (GlobalInFlight (wState (st_sync e (st_sync e w3)))) (demand_Count d)
      (DemandCoverage (wState w6) (rrRepo repo)))"
  have "schedule_repo e sc repo d w = enqueue_loop e sc repo (jdJobs d) n w6"
    by (simp only: schedule_repo_def split_def st_get_simps w3_def w6_def n_def Let_def)
  then have "DemandCoverage (wState (snd (schedule_repo e sc repo d w))) r \<le>
      DemandCoverage (wState w6) r + (if r = rrRepo repo then int n else 0)"
    using coverage_enqueue_loop [OF assms(1), of w6 sc repo "jdJobs d" n r] w6 by simp
  moreover have "DemandCoverage (wState w6) (rrRepo repo) + int n \<le>
      max (DemandCoverage (wState w6) (rrRepo repo)) (demand_Count d)"
    unfolding n_def by (rule to_spawn_bound)
  ultimately show ?thesis using w6 [of r] by (auto simp: max_def split: if_splits)
qed

definition example_demand :: "nat \<Rightarrow> JobDemand" where
  "example_demand n = \<lparr>jdJobs = replicate n zero_WorkflowJob, jdRateLimit = zero_RateLimit\<rparr>"

lemma no_over_provisioning_witness:
  "DemandCoverage (wState (snd (schedule_repo example_env example_scope example_repo (example_demand 1)
     (world_of New)))) ''o/r'' = 1"
proof -
  have "DemandCoverage (wState (snd (schedule_repo example_env example_scope example_repo (example_demand 1)
      (world_of New)))) ''o/r'' \<le> 1"
    using no_over_provisioning [of example_env "world_of New" example_scope example_repo "example_demand 1" "''o/r''"]
    by (simp add: example_env_def world_of_def New_inv example_demand_def demand_Count_def example_repo_def)
      (simp add: New_def DemandCoverage_def)
  moreover have "1 \<le> DemandCoverage (wState (snd (schedule_repo example_env example_scope example_repo
      (example_demand 1) (world_of New)))) ''o/r''"
    by code_simp
  ultimately show ?thesis by simp
qed

section \<open>Barriers\<close>



text \<open>A failure that GitHub attributes to the rate limit pauses the scope but leaves every
  breaker as it was, while any other failure of a demand query counts against the breaker of
  the polled repository and of no other.\<close>

theorem rate_limit_spares_breakers:
  "(err_is err ErrRateLimited \<longrightarrow>
      wBrks (poll_failed e sc repo classifyPollError err w) = wBrks w \<and>
      wRlPaused (poll_failed e sc repo classifyPollError err w)) \<and>
   (\<not> err_is err ErrRateLimited \<longrightarrow>
      consecutiveFailures (breaker_of repo (wBrks (poll_failed e sc repo classifyPollError err w))) =
        consecutiveFailures (breaker_of repo (wBrks w)) + 1 \<and>
      (q \<noteq> repo \<longrightarrow> breaker_of q (wBrks (poll_failed e sc repo classifyPollError err w)) = breaker_of q (wBrks w)))"
proof (cases "err_is err ErrRateLimited")
  case True
  then show ?thesis
    by (simp add: poll_failed_def handlePollError_def poll_recordPollFailure_def deps_RecordPollFailure_def
        deps_RecordRateLimit_def deps_MarkRateLimited_def RateLimitContextFor_def classifyPollError_def
        split_def Let_def)
next
  case False
  then have cl: "classifyPollError err \<noteq> ''github_rate_limited''" by (simp add: classifyPollError_def)
  have brks: "wBrks (poll_failed e sc repo classifyPollError err w) =
      snd (bm_RecordFailure t repo (wBrks w))"
    if "t = clk_now e (st_op e (RecordPollFailure repo (classifyPollError err) (err_text err))
          (deps_RecordRateLimit e (ErrorRateLimit err) w))" for t
    using False cl
    by (simp add: poll_failed_def handlePollError_def poll_recordPollFailure_def deps_RecordPollFailure_def
        split_def Let_def that) (simp add: deps_RecordRateLimit_def Let_def)
  show ?thesis
    using False by (simp add: brks [OF refl] bm_ops_breaker breaker_defs)
qed

lemma rate_limit_spares_breakers_witness:
  "wBrks (poll_failed example_env example_scope ''o/r'' classifyPollError
     (APIError 429 zero_RateLimit (Sentinel ErrRateLimited) ''list workflow runs'') (world_of New)) = newBreakerMap"
  using rate_limit_spares_breakers [where e = example_env and sc = example_scope and repo = "''o/r''"
      and err = "APIError 429 zero_RateLimit (Sentinel ErrRateLimited) ''list workflow runs''"
      and w = "world_of New" and q = "''o/x''"] by (simp add: world_of_def)

section \<open>Intents\<close>

text \<open>The wall clock between 2001 and 2286, when its nanoseconds have nineteen digits.\<close>

definition clock_19_digits :: "Env \<Rightarrow> bool" where
  "clock_19_digits e = (\<forall>n. 10 ^ 18 \<le> eNow e n - unix_epoch \<and> eNow e n - unix_epoch < 10 ^ 19)"

text \<open>The identifier drawn with a sequence number.\<close>

definition spawn_id :: "int \<Rightarrow> string \<Rightarrow> bool" where
  "spawn_id n sid = (\<exists>t. 10 ^ 18 \<le> t \<and> t < 10 ^ 19 \<and> sid = show_int t @ show_int n)"

lemma spawn_id_inj:
  assumes "spawn_id m sid" and "spawn_id n sid" and "0 \<le> m" and "0 \<le> n"
  shows "m = n"
proof -
  obtain t u where t: "10 ^ 18 \<le> t" "t < 10 ^ 19" "sid = show_int t @ show_int m"
    and u: "10 ^ 18 \<le> u" "u < 10 ^ 19" "sid = show_int u @ show_int n"
    using assms(1,2) by (auto simp: spawn_id_def)
  have len: "length (show_int v) = 19" if "10 ^ 18 \<le> v" "v < 10 ^ 19" for v :: int
  proof -
    have "10 ^ 18 \<le> nat v" "nat v < 10 ^ Suc 18" using that by (auto simp: nat_le_iff le_nat_iff)
    then have "length (show_nat (nat v)) = 19"
      using length_show_nat [of "nat v" 18] length_show_nat_ge [of 18 "nat v"] by simp
    then show ?thesis using that by (simp add: show_int_def)
  qed
  have "show_int m = show_int n"
    using t(3) u(3) len [OF t(1,2)] len [OF u(1,2)] by (metis append_eq_append_conv)
  then show ?thesis using assms(3,4) by (simp add: show_int_nonneg show_nat_inj eq_nat_nat_iff)
qed

text \<open>The queued intents carry identifiers drawn with pairwise different sequence numbers up to
  the current one.\<close>

definition ids_ok :: "World \<Rightarrow> bool" where
  "ids_ok w = (0 \<le> wSeq w \<and> distinct (map siSpawnID (wIntents w)) \<and>
     (\<forall>i \<in> set (wIntents w). \<exists>n. 0 < n \<and> n \<le> wSeq w \<and> spawn_id n (siSpawnID i)))"

lemma ids_ok_cong: "wSeq w' = wSeq w \<Longrightarrow> wIntents w' = wIntents w \<Longrightarrow> ids_ok w' = ids_ok w"
  by (simp add: ids_ok_def)

lemma NewSpawnID_fresh:
  assumes "clock_19_digits e" and "ids_ok w"
  shows "spawn_id (wSeq w + 1) (fst (NewSpawnID e w))" and "wSeq (snd (NewSpawnID e w)) = wSeq w + 1"
    and "fst (NewSpawnID e w) \<notin> siSpawnID ` set (wIntents w)"
proof -
  show id: "spawn_id (wSeq w + 1) (fst (NewSpawnID e w))"
    using assms(1) by (auto simp: NewSpawnID_def nextSeq_def spawn_id_def clock_19_digits_def clk_now_def)
  show "wSeq (snd (NewSpawnID e w)) = wSeq w + 1" by (simp add: NewSpawnID_def nextSeq_def)
  show "fst (NewSpawnID e w) \<notin> siSpawnID ` set (wIntents w)"
  proof
    assume "fst (NewSpawnID e w) \<in> siSpawnID ` set (wIntents w)"
    then obtain n where "0 < n" "n \<le> wSeq w" "spawn_id n (fst (NewSpawnID e w))"
      using assms(2) by (auto simp: ids_ok_def)
    with spawn_id_inj [OF id, of n] assms(2) show False by (auto simp: ids_ok_def)
  qed
qed

lemma ids_enqueue_loop:
  assumes "clock_19_digits e" and "ids_ok w"
  shows "ids_ok (snd (enqueue_loop e sc repo jobs n w))"
  using assms(2)
proof (induction n arbitrary: w)
  case (Suc n)
  note fresh = NewSpawnID_fresh [OF assms(1) Suc.prems]
  let ?w1 = "snd (NewSpawnID e w)" let ?sid = "fst (NewSpawnID e w)"
  let ?r = "deps_TryReserve e ?sid (rrRepo repo) (rrMaxConcurrent repo) (scGlobalMaxRunners sc) ?w1"
  have r: "wSeq (snd ?r) = wSeq w + 1" "wIntents (snd ?r) = wIntents w"
    using fresh(2) by (simp_all add: deps_TryReserve_def) (simp add: NewSpawnID_def nextSeq_def)
  have up: "\<forall>i \<in> set (wIntents w). \<exists>n. 0 < n \<and> n \<le> wSeq w + 1 \<and> spawn_id n (siSpawnID i)"
    using Suc.prems by (fastforce simp: ids_ok_def)
  then have "ids_ok (snd ?r)" using Suc.prems by (simp add: ids_ok_def r)
  moreover have "ids_ok ((snd ?r)\<lparr>wIntents := wIntents (snd ?r) @ [\<lparr>siScope = a, siRepo = b,
      siSpawnID = ?sid, siCandidateJobs = c\<rparr>]\<rparr>)" for a b c
    using Suc.prems up fresh(1,3) by (auto simp: ids_ok_def r)
  ultimately show ?case
    by (auto simp: split_def Let_def ids_ok_def [of "st_op _ _ _"] intro!: Suc.IH) (auto simp: ids_ok_def)
qed simp

lemma queue_untouched:
  "wSeq (deps_RecordRateLimit e l w) = wSeq w" "wIntents (deps_RecordRateLimit e l w) = wIntents w"
  "wSeq (snd (deps_MarkRateLimited e w)) = wSeq w" "wIntents (snd (deps_MarkRateLimited e w)) = wIntents w"
  "wSeq (snd (deps_MaybeClearRateLimit e w)) = wSeq w"
  "wIntents (snd (deps_MaybeClearRateLimit e w)) = wIntents w"
  "wSeq (snd (RateLimitContextFor e w)) = wSeq w" "wIntents (snd (RateLimitContextFor e w)) = wIntents w"
  "wSeq (poll_recordPollFailure e sc r cl d w) = wSeq w"
  "wIntents (poll_recordPollFailure e sc r cl d w) = wIntents w"
  "wSeq (poll_recordPollSuccess e sc r q w) = wSeq w"
  "wIntents (poll_recordPollSuccess e sc r q w) = wIntents w"
  "wSeq (deps_RecordPollAttempt e r w) = wSeq w" "wIntents (deps_RecordPollAttempt e r w) = wIntents w"
  by (simp_all add: deps_RecordRateLimit_def deps_MarkRateLimited_def deps_MaybeClearRateLimit_def
      RateLimitContextFor_def poll_recordPollFailure_def poll_recordPollSuccess_def
      deps_RecordPollFailure_def deps_RecordPollSuccess_def deps_RecordPollAttempt_def split_def Let_def)

lemma queue_untouched_failed:
  "wSeq (poll_failed e sc r cl err w) = wSeq w" "wIntents (poll_failed e sc r cl err w) = wIntents w"
  by (simp_all add: poll_failed_def handlePollError_def queue_untouched split_def Let_def)

lemma ids_schedule_repo:
  assumes "clock_19_digits e" and "ids_ok w"
  shows "ids_ok (snd (schedule_repo e sc repo d w))"
  unfolding schedule_repo_def Let_def split_def st_get_simps
  by (rule ids_enqueue_loop [OF assms(1)]) (use assms(2) in \<open>simp add: ids_ok_def queue_untouched\<close>)

lemma ids_poll_repo:
  assumes "clock_19_digits e" and "ids_ok w" and "poll_repo e sc repo w = Some (b, w')"
  shows "ids_ok w'"
proof -
  define w2 where "w2 = snd (deps_BreakerIsOpen (rrRepo repo) (snd (deps_BreakerMaybeHalfOpen e (rrRepo repo) w)))"
  define w4 where "w4 = st_sync e (deps_RecordPollAttempt e (rrRepo repo) w2)"
  have w2: "ids_ok w2" using assms(2)
    by (simp add: w2_def ids_ok_def deps_BreakerIsOpen_def deps_BreakerMaybeHalfOpen_def split_def Let_def)
  then have w4: "ids_ok w4" "ids_ok (w4\<lparr>wGH := g\<rparr>)" for g
    by (simp_all add: w4_def ids_ok_def queue_untouched)
  from assms(3) consider "w' = w2"
    | err cl g where "w' = poll_failed e sc (rrRepo repo) cl err (w4\<lparr>wGH := g\<rparr>)"
    | err cl where "w' = poll_failed e sc (rrRepo repo) cl err w4"
    | d g where "schedule_repo e sc repo d (w4\<lparr>wGH := g\<rparr>) = (b, w')"
    unfolding poll_repo_def LabelsForRepo_def Let_def split_def w2_def [symmetric] w4_def [symmetric]
    by (auto split: if_splits sum.splits option.splits prod.splits)
  then show ?thesis
  proof cases
    case 4
    then show ?thesis using ids_schedule_repo [OF assms(1) w4(2)] by (metis snd_conv)
  qed (use w2 w4 in \<open>simp_all add: ids_ok_def queue_untouched_failed\<close>)
qed

lemma ids_poll_repos:
  "clock_19_digits e \<Longrightarrow> ids_ok w \<Longrightarrow> poll_repos e sc repos w = Some (b, w') \<Longrightarrow> ids_ok w'"
proof (induction repos arbitrary: w)
  case (Cons repo repos)
  from Cons.prems(3) obtain b1 w1 where one: "poll_repo e sc repo w = Some (b1, w1)"
      and rest: "if b1 then poll_repos e sc repos w1 = Some (b, w') else w' = w1"
    by (auto split: option.splits bool.splits)
  have "ids_ok w1" using ids_poll_repo [OF Cons.prems(1,2) one] .
  then show ?case using rest Cons by (auto split: if_splits)
qed simp

text \<open>Every poll cycle keeps the spawn identifiers in the intent queue pairwise different,
  so no two workers ever share a reservation.\<close>

theorem intent_ids_unique:
  assumes "clock_19_digits e" and "ids_ok w" and "tick e sc k w = Some (k', w')"
  shows "ids_ok w' \<and> distinct (map siSpawnID (wIntents w'))"
proof -
  define w2 where "w2 = st_sync e (deps_RecordPollTick e w)"
  define p3 where "p3 = (if wRlPaused w2 then deps_MaybeClearRateLimit e w2 else (True, w2))"
  define w4 where "w4 = (if wRlPaused w2 \<and> fst p3
      then (let ((rem, lmt, reset), v) = RateLimitContextFor e (snd p3)
            in emit (EvRatelimitResumed (scName sc) rem lmt reset) v)
      else snd p3)"
  have same: "wSeq w2 = wSeq w" "wIntents w2 = wIntents w" "wSeq (snd p3) = wSeq w" "wIntents (snd p3) = wIntents w"
      "wSeq w4 = wSeq w" "wIntents w4 = wIntents w"
    by (simp_all add: w2_def p3_def w4_def deps_RecordPollTick_def queue_untouched split_def Let_def)
  have w6: "ids_ok (emit ev (snd (RateLimitContextFor e w4)))" for ev
    using assms(2) by (simp add: ids_ok_def queue_untouched same)
  from assms(3) consider "w' = w2" | "w' = snd p3"
    | ev b where "poll_repos e sc (repo_order (scRepos sc) k) (emit ev (snd (RateLimitContextFor e w4))) = Some (b, w')"
    unfolding tick_def Let_def split_def st_get_simps w2_def [symmetric] p3_def [symmetric]
      w4_def [unfolded Let_def split_def, symmetric]
    by (auto split: if_splits option.splits bool.splits)
  then have "ids_ok w'"
  proof cases
    case 3
    then show ?thesis using ids_poll_repos [OF assms(1) w6] by blast
  qed (use assms(2) in \<open>simp_all add: ids_ok_def same\<close>)
  then show ?thesis by (simp add: ids_ok_def)
qed

lemma intent_ids_unique_witness:
  "\<exists>w'. tick (example_env\<lparr>eNow := (\<lambda>n. unix_epoch + 10 ^ 18)\<rparr>) example_scope 0 (world_of New) = Some (0, w') \<and>
     ids_ok w'"
proof -
  let ?e = "example_env\<lparr>eNow := (\<lambda>n. unix_epoch + 10 ^ 18)\<rparr>"
  have "case tick ?e example_scope 0 (world_of New) of Some (k, w) \<Rightarrow> k = 0 | None \<Rightarrow> False"
    by code_simp
  then obtain w' where "tick ?e example_scope 0 (world_of New) = Some (0, w')"
    by (auto split: option.splits prod.splits)
  moreover have "clock_19_digits ?e" by (simp add: clock_19_digits_def)
  moreover have "ids_ok (world_of New)" by (simp add: ids_ok_def world_of_def)
  ultimately show ?thesis using intent_ids_unique by blast
qed

section \<open>Rotation\<close>

text \<open>a poll cycle visits every repository of the scope once, in the configured order from a
  rotating start, and over as many cycles as there are repositories each of them is first in
  line for the global capacity exactly once.\<close>

theorem repo_order_rotation:
  assumes "repos \<noteq> []"
  shows "repo_order repos k = rotate k repos \<and>
    map (\<lambda>j. hd (repo_order repos ((k + j) mod length repos))) [0..<length repos] = rotate k repos"
proof -
  have rot: "repo_order repos m = rotate m repos" for m
    by (rule nth_equalityI) (simp_all add: repo_order_def nth_rotate)
  have "hd (repo_order repos ((k + j) mod length repos)) = rotate k repos ! j" if "j < length repos" for j
    using assms that by (simp add: rot hd_rotate_conv_nth nth_rotate rotate_conv_mod [symmetric])
  then have "map (\<lambda>j. hd (repo_order repos ((k + j) mod length repos))) [0..<length repos] = rotate k repos"
    by (intro nth_equalityI) auto
  with rot show ?thesis by simp
qed

lemma repo_order_rotation_witness:
  "repo_order [example_repo, example_repo\<lparr>rrRepo := ''o/x''\<rparr>] 1 = [example_repo\<lparr>rrRepo := ''o/x''\<rparr>, example_repo]"
  using repo_order_rotation [of "[example_repo, example_repo\<lparr>rrRepo := ''o/x''\<rparr>]" 1] by simp

end
