(* ===== verification/Worker_Thms.thy ===== *)
theory Worker_Thms
  imports Spawn_Thms Poll_Thms
begin

text \<open>
  The spawn worker as a whole: it never releases its capacity while something it created
  outside may still exist, it returns once the context is cancelled, and it reports a job as
  delivered only when GitHub showed the assignment.
\<close>

section \<open>No leak\<close>

lemma execute_body_settles:
  assumes spare: "others_spare (seEnv se) (siSpawnID i)"
    and run: "execute_body fuel se i w = Some (res, w')"
    and start: "all_settled (wEffects w)"
  shows "has_debt (siSpawnID i) w' \<or> all_settled (wEffects w')"
proof -
  define w2 where "w2 = (st_sync (seEnv se) w)\<lparr>wBucket :=
     snd (TryTake (clk_now (seEnv se) (st_sync (seEnv se) w)) (wBucket (st_sync (seEnv se) w)))\<rparr>"
  have w2: "wEffects w2 = wEffects w" by (simp add: w2_def)
  from run consider "wEffects w' = wEffects w"
    | name snap img ev where "jit_stage fuel se i name snap img (emit ev (st_sync (seEnv se) w2)) = Some (res, w')"
    unfolding execute_body_def Let_def split_def st_get_simps w2_def [symmetric]
    by (auto simp: fail_def spawn_failed_def w2 split: if_splits sum.splits option.splits)
  then show ?thesis
  proof cases
    case 2
    from jit_stage_settles [OF spare this] start show ?thesis by (simp add: w2)
  qed (use start in simp)
qed

definition unreserved :: "string \<Rightarrow> World \<Rightarrow> bool" where
  "unreserved sid w = (map_of (reservations (wState w)) sid = None)"

lemma release_settles:
  "has_debt sid (st_op e (ReleaseReservation sid) w) \<or> unreserved sid (st_op e (ReleaseReservation sid) w)"
  by (auto simp: has_debt_def unreserved_def ledger_simps is_debt_def split: option.splits)

text \<open>C5: when a spawn worker returns, either it was refused admission and did nothing outside, or
  it holds teardown debt, or its reservation is gone and every runner it registered has been
  deleted from GitHub and every stack it created has been torn down; whatever the clock,
  GitHub, the backend and the other goroutines did meanwhile.\<close>

theorem execute_never_leaks:
  assumes "others_spare (seEnv se) (siSpawnID i)" and "all_settled (wEffects w)"
    and "Execute fuel se i w = Some (err, w')"
  shows "err = Some (Sentinel ErrSemaphoreUnavailable) \<and> wEffects w' = wEffects w \<or>
         has_debt (siSpawnID i) w' \<or>
         unreserved (siSpawnID i) w' \<and> all_settled (wEffects w')"
proof -
  define w1 where "w1 = st_sync (seEnv se) w"
  define p where "p = (if HasReservation (wState w1) (siSpawnID i) (siRepo i) then (True, w1)
      else deps_TryReserve (seEnv se) (siSpawnID i) (siRepo i)
             (RepoMaxConcurrent (scRepos (seScope se)) (siRepo i)) (scGlobalMaxRunners (seScope se)) w1)"
  have fx: "wEffects (snd p) = wEffects w" by (simp add: p_def w1_def deps_TryReserve_def)
  from assms(3) consider "err = Some (Sentinel ErrSemaphoreUnavailable)" "w' = snd p"
    | w3 where "execute_body fuel se i (snd p) = Some (err, w3)"
        "w' = st_op (seEnv se) (ReleaseReservation (siSpawnID i)) w3"
    unfolding Execute_def Let_def split_def st_get_simps w1_def [symmetric] p_def [symmetric]
    by (auto split: if_splits option.splits)
  then show ?thesis
  proof cases
    case (2 w3)
    from execute_body_settles [OF assms(1) 2(1)] assms(2) fx
    have "has_debt (siSpawnID i) w3 \<or> all_settled (wEffects w3)" by simp
    moreover have "cleanup_step (siSpawnID i) w3 w'"
      unfolding 2(2) by (intro cleanup_ops assms(1))
    ultimately show ?thesis
      using release_settles [of "siSpawnID i" "seEnv se" w3] 2(2) cleanup_gone(3) by auto
  qed (simp add: fx)
qed

text \<open>A worker that gets its registration and then fails to render the egress configuration.\<close>

definition worker_yml :: RunnerYML where
  "worker_yml =
     \<lparr>ryRuntime = ''node:24'', ryLabels = [''x''], ryVersion = [],
      ryResources = \<lparr>resMemory = ''2g'', resCPUs = 1, resPIDs = 64\<rparr>, ryAllowDomains = [], ryHTTPEgress = [],
      ryTCPEgress = [],
      ryDNS = \<lparr>dnsHost = None, dnsServers = [], dnsHostsFile = [], dnsWhitelistFile = [], dnsLogQueries = None\<rparr>,
      ryOrchestrator = \<lparr>obTimeoutSeconds = 60, obSecurityOverrides = [], obSeccompProfile = []\<rparr>\<rparr>"

definition worker_http :: "nat \<Rightarrow> string \<Rightarrow> string \<Rightarrow> JITConfigRequest option \<Rightarrow> gerr + Response" where
  "worker_http n m p b =
     Inr (if m = ''POST''
          then \<lparr>rpStatus = 201, rpHeader = [],
                rpBody = DJIT \<lparr>rawRunnerID = 42, rawRunnerLabels = [], rawEncodedJITConfig = ''jit''\<rparr>\<rparr>
          else if m = ''DELETE'' then \<lparr>rpStatus = 204, rpHeader = [], rpBody = DMalformed []\<rparr>
          else \<lparr>rpStatus = 200, rpHeader = [],
                rpBody = DRunner \<lparr>ghrID = 42, ghrName = ''rs-a-runner'', ghrStatus = ''online'', ghrBusy = True, ghrLabels = []\<rparr>\<rparr>)"

definition worker_env :: SpawnEnv where
  "worker_env =
     \<lparr>seEnv = example_env\<lparr>eClient := \<lparr>clToken = (\<lambda>n. Inr ''t''), clHTTP = worker_http,
                  clConditional = (\<lambda>n p t. Inl (Plain ''unused''))\<rparr>,
               eRunnerYML := (\<lambda>n r. Inr \<lparr>rsnKubernetes = \<lparr>kpNodeSelector = [], kpTolerations = [],
                    kpEphemeralStorage = [], kpProxyCPU = [], kpProxyMemory = [], kpProxyEphemeralStorage = []\<rparr>,
                  rsnYML = worker_yml, rsnImageDigest = ''img''\<rparr>)\<rparr>,
      seScope = example_scope, seGetenv = (\<lambda>k. []), seTiming = DefaultLifecycleTiming, seVersion = [],
      seBuildSHA = [], seBackendName = ''compose'',
      seSpawn = (\<lambda>n inp. (\<lparr>hSpawnID = inSpawnID inp, hBackend = ''compose'', hRefs = []\<rparr>, None)),
      seTeardown = (\<lambda>n h force. None),
      seRender = (\<lambda>n sid r. Inl (Plain ''no resolver'')), seLife = (\<lambda>n. LifeExit 0 False)\<rparr>"

definition worker_intent :: SpawnIntent where
  "worker_intent = \<lparr>siScope = ''s'', siRepo = ''o/r'', siSpawnID = ''a'', siCandidateJobs = []\<rparr>"

definition worker_world :: World where
  "worker_world = (world_of (snd (TryReserve ''a'' ''o/r'' 2 3 5 New)))\<lparr>wBucket := NewTokenBucket 5 10 (unix_epoch + 5)\<rparr>"

lemma worker_deregister:
  "deregister worker_env ''o/r'' 42 w =
    (None, st_op (seEnv worker_env) RecordDeregistered (recordRunnerOperation (seEnv worker_env) ''o/r'' runnerOperationDelete None
       (effect (FxDeleteRunner ''o/r'' 42 True) (snd (gh_call (DeleteRunner (eClient (seEnv worker_env)) ''o/r'' 42) w)))))"
  by (simp add: deregister_def DeleteRunner_def gh_Do_def gh_call_def worker_env_def worker_http_def example_env_def split_def Let_def)

lemma worker_jit:
  "\<exists>w'. jit_stage f worker_env worker_intent n \<lparr>rsnKubernetes = k, rsnYML = worker_yml, rsnImageDigest = d\<rparr> img w = Some (Some (Plain ''no resolver''), w') \<and>
    wEffects w' = wEffects w @ [FxJIT ''o/r'' 42, FxDeleteRunner ''o/r'' 42 True] "
proof -
  have r: "seRender worker_env a b c = Inl (Plain ''no resolver'')" for a b c by (simp add: worker_env_def)
  have g: "fst (gh_call (GenerateJITConfig (eClient (seEnv worker_env)) p q) w) = (\<lparr>jitRunnerID = 42, jitEncoded = ''jit''\<rparr>, None)" for p q w
    by (simp add: GenerateJITConfig_def gh_Do_def gh_call_def worker_env_def worker_http_def example_env_def split_def Let_def jitConfigResponse_def)
  have g2: "wEffects (snd (gh_call f w)) = wEffects w" for f :: "GHState \<Rightarrow> 'r \<times> GHState" and w
    by (simp add: gh_call_def split_def Let_def)
  have i: "siRepo worker_intent = ''o/r''" by (simp add: worker_intent_def)
  show ?thesis
    by (simp add: jit_stage_def spawn_stage_def split_def Let_def g g2 i r failAndLeak_def worker_deregister fail_def spawn_failed_def leak_cleaned_def)
qed

lemma worker_admitted: "HasReservation (wState worker_world) ''a'' ''o/r''"
  by code_simp

lemma worker_ok: "\<not> SchedulingBlocked (wState worker_world)"
  by code_simp

lemma worker_egress: "ValidateEgress worker_yml = None"
  by code_simp

lemma worker_token: "fst (TryTake (unix_epoch + 5) (wBucket worker_world))"
  using TryTake_same_instant [of "NewTokenBucket 5 10 (unix_epoch + 5)" 10]
  by (simp add: worker_world_def NewTokenBucket_def)

lemma worker_run:
  "\<exists>w'. Execute f worker_env worker_intent worker_world = Some (Some (Plain ''no resolver''), w') \<and>
        wEffects w' = [FxJIT ''o/r'' 42, FxDeleteRunner ''o/r'' 42 True]"
proof -
  have e: "eOthers (seEnv worker_env) = (\<lambda>n. [])" "eNow (seEnv worker_env) = (\<lambda>n. unix_epoch + 5)"
    by (simp_all add: worker_env_def example_env_def)
  have s: "wState (st_sync (seEnv worker_env) w) = wState w" for w by (simp add: e)
  obtain k where y: "\<And>n r. eRunnerYML (seEnv worker_env) n r = Inr \<lparr>rsnKubernetes = k, rsnYML = worker_yml, rsnImageDigest = ''img''\<rparr>"
    by (simp add: worker_env_def)
  have i: "siRepo worker_intent = ''o/r''" "siSpawnID worker_intent = ''a''" by (simp_all add: worker_intent_def)
  have "\<exists>v n. wEffects v = [] \<and> execute_body f worker_env worker_intent (st_sync (seEnv worker_env) worker_world) =
      jit_stage f worker_env worker_intent n \<lparr>rsnKubernetes = k, rsnYML = worker_yml, rsnImageDigest = ''img''\<rparr> ''img'' v"
    by (simp add: execute_body_def s worker_ok worker_egress worker_token clk_now_def e y split_def Let_def)
      ((intro exI conjI; (rule refl)?), simp add: worker_world_def world_of_def)
  then obtain v n where v: "wEffects v = []" "execute_body f worker_env worker_intent (st_sync (seEnv worker_env) worker_world) =
      jit_stage f worker_env worker_intent n \<lparr>rsnKubernetes = k, rsnYML = worker_yml, rsnImageDigest = ''img''\<rparr> ''img'' v" by blast
  obtain w' where w': "jit_stage f worker_env worker_intent n \<lparr>rsnKubernetes = k, rsnYML = worker_yml, rsnImageDigest = ''img''\<rparr> ''img'' v
     = Some (Some (Plain ''no resolver''), w')" "wEffects w' = [FxJIT ''o/r'' 42, FxDeleteRunner ''o/r'' 42 True]"
    using worker_jit [of f n k "''img''" "''img''" v] v(1) by auto
  with v(2) show ?thesis by (simp add: Execute_def s e i worker_admitted split_def Let_def)
qed

lemma execute_never_leaks_witness:
  "\<exists>w'. Execute 0 worker_env worker_intent worker_world = Some (Some (Plain ''no resolver''), w') \<and>
        FxJIT ''o/r'' 42 \<in> set (wEffects w') \<and>
        (has_debt ''a'' w' \<or> unreserved ''a'' w' \<and> all_settled (wEffects w'))"
proof -
  obtain w' where w': "Execute 0 worker_env worker_intent worker_world = Some (Some (Plain ''no resolver''), w')"
      "wEffects w' = [FxJIT ''o/r'' 42, FxDeleteRunner ''o/r'' 42 True]"
    using worker_run by blast
  have "others_spare (seEnv worker_env) ''a''" "all_settled (wEffects worker_world)" "siSpawnID worker_intent = ''a''"
    by (simp_all add: others_spare_def worker_env_def example_env_def all_settled_def worker_world_def world_of_def worker_intent_def)
  then show ?thesis using execute_never_leaks [OF _ _ w'(1)] w' by auto
qed

section \<open>Return after cancellation\<close>

text \<open>From step \<open>N\<close> on the context is done and the select of the observation loop sees it.\<close>

definition cancelled_from :: "nat \<Rightarrow> SpawnEnv \<Rightarrow> bool" where
  "cancelled_from N se = (\<forall>n \<ge> N. eCtxErr (seEnv se) n \<noteq> None \<and> seLife se n = LifeCtxDone)"

lemma gh_call_step [simp]: "wStep (snd (gh_call f w)) = wStep w"
  by (simp add: gh_call_def split_def Let_def)

lemma step_ops:
  "wStep w \<le> wStep (snd (RateLimitContextFor e w))"
  "wStep w \<le> wStep (recordRunnerOperation e repo op oerr w)"
  "wStep w \<le> wStep (deps_RecordRateLimit e rl w)"
  "wStep w \<le> wStep (snd (deps_MarkRateLimited e w))"
  "wStep w \<le> wStep (markCorrelatedAssignment e i r w)"
  "wStep w \<le> wStep (snd (runnerDeletionRetryDelay se err base w))"
  by (auto simp: RateLimitContextFor_def recordRunnerOperation_def deps_RecordRateLimit_def deps_MarkRateLimited_def
      markCorrelatedAssignment_def runnerDeletionRetryDelay_def Let_def split_def split: option.splits)

lemma step_pause: "wStep w \<le> wStep (pauseForRateLimit e sc err w)"
  using step_ops(3) [of w e "ErrorRateLimit err"]
    step_ops(4) [of "deps_RecordRateLimit e (ErrorRateLimit err) w" e]
    step_ops(1) [of "snd (deps_MarkRateLimited e (deps_RecordRateLimit e (ErrorRateLimit err) w))" e]
  by (simp add: pauseForRateLimit_def Let_def split_def)

lemma step_deregister: "wStep w \<le> wStep (snd (deregister se repo r w))"
  using step_ops(2) [of "effect fx (snd (gh_call (DeleteRunner (eClient (seEnv se)) repo r) w))" for fx]
  by (auto simp: deregister_def Let_def split_def split: option.splits intro: le_SucI)

lemma step_observe: "wStep w \<le> wStep (snd (snd (observe e i r (l, w))))"
  using step_ops(2) [of "snd (gh_call (GetRunner (eClient e) (siRepo i) r) w)" e "siRepo i" runnerOperationGetRunner]
  by (auto simp: observe_def note_assigned_def note_online_def Let_def split_def gh_call_def split: sum.splits prod.splits intro: le_SucI)

lemma life_turn_step:
  "life_turn se i name r a b c ev (l, w) = Inr (l', w') \<Longrightarrow> wStep w \<le> wStep w'"
  using step_observe [of w "seEnv se" i r]
  by (auto simp: life_turn_def Let_def split_def split: LifeEvent.splits if_splits option.splits) (metis snd_conv)+

lemma life_loop_returns:
  assumes "cancelled_from N se" and "0 < fuel" and "N < wStep (snd lw) + fuel"
  shows "\<exists>r. life_loop fuel se i name r0 a b c lw = Some r"
  using assms(2,3)
proof (induction fuel arbitrary: lw)
  case (Suc fuel)
  obtain l w where lw: "lw = (l, w)" by force
  show ?case
  proof (cases "life_turn se i name r0 a b c (seLife se (wStep w)) lw")
    case (Inr x)
    obtain l1 w1 where x: "x = (l1, w1)" by force
    have "wStep w < N"
    proof (rule ccontr)
      assume "\<not> wStep w < N"
      then obtain err where "eCtxErr (seEnv se) (wStep w) = Some err" "seLife se (wStep w) = LifeCtxDone"
        using assms(1) by (auto simp: cancelled_from_def not_less)
      then show False using Inr by (simp add: life_turn_def lw)
    qed
    moreover have "wStep w \<le> wStep w1" using life_turn_step Inr unfolding lw x by blast
    ultimately have "0 < fuel" "N < wStep (st_sync (seEnv se) w1) + fuel" using Suc.prems by (auto simp: lw)
    from Suc.IH [of "(settle_timers l1, st_sync (seEnv se) w1)"] this show ?thesis using Inr by (simp add: x lw)
  qed (auto simp: lw)
qed simp

lemma waitForLifecycle_returns:
  assumes "cancelled_from N se" and "N < fuel"
  shows "\<exists>r. waitForLifecycle fuel se i name r0 w = Some r"
proof -
  obtain x l1 w1 where "observe (seEnv se) i r0 (\<lparr>lsOnline = False, lsAssigned = False, lsLastErr = None,
      lsOnlineFinal = True, lsAssignmentFinal = True, lsPoll = True\<rparr>, w) = (x, l1, w1)"
    by (metis prod_cases3)
  then show ?thesis
    using life_loop_returns [OF assms(1), of fuel "(settle_timers l1, w1)"] assms(2)
    by (simp add: waitForLifecycle_def Let_def)
qed

lemma retryBackendTeardown_returns:
  assumes "cancelled_from N se" and "0 < fuel" and "N < wStep w + fuel"
  shows "\<exists>r. retryBackendTeardown fuel se i h w = Some r"
  using assms(2,3)
proof (induction fuel arbitrary: w)
  case (Suc fuel)
  obtain err w1 where t: "teardownSpawn se h True w = (err, w1)" by force
  then have "wStep w1 = Suc (wStep w)" by (auto simp: teardownSpawn_def Let_def)
  then have "eCtxErr (seEnv se) (Suc (wStep w1)) = None \<Longrightarrow> 0 < fuel \<and> N < Suc (wStep w1) + fuel"
    using assms(1) Suc.prems by (cases "N \<le> Suc (wStep w1)") (auto simp: cancelled_from_def)
  then show ?case
    using Suc.IH [of "st_op (seEnv se) (UpdateTeardownFailure (siSpawnID i) (err_text x)) w1" for x]
    by (auto simp: t Let_def split: option.splits)
qed simp

lemma retryRunnerDeletion_returns:
  assumes "cancelled_from N se" and "0 < fuel" and "N < wStep w + fuel"
  shows "\<exists>r. retryRunnerDeletion fuel se i r0 err False w = Some r"
  using assms(2,3)
proof (induction fuel arbitrary: w err)
  case (Suc fuel)
  define w2 where "w2 = pauseForRateLimit (seEnv se) (siScope i) err
     (st_op (seEnv se) (UpdateTeardownFailure (siSpawnID i) (err_text err)) w)"
  define w3 where "w3 = snd (runnerDeletionRetryDelay se err
                       (ltCleanupRetryInterval (normalizedLifecycleTiming (seTiming se))) w2)"
  obtain e4 w4 where d: "deregister se (siRepo i) r0 w3 = (e4, w4)" by force
  have "wStep w < wStep w3"
    using step_pause [of "st_op (seEnv se) (UpdateTeardownFailure (siSpawnID i) (err_text err)) w" "seEnv se" "siScope i" err]
      step_ops(6) [of w2 se err "ltCleanupRetryInterval (normalizedLifecycleTiming (seTiming se))"]
    by (simp add: w2_def w3_def)
  moreover have "wStep w3 \<le> wStep w4" using step_deregister [of w3 se "siRepo i" r0] d by simp
  ultimately have "eCtxErr (seEnv se) (wStep w3) = None \<Longrightarrow> 0 < fuel \<and> N < wStep w4 + fuel"
    using assms(1) Suc.prems by (cases "N \<le> wStep w3") (auto simp: cancelled_from_def)
  then show ?case
    using Suc.IH [of w4] by (auto simp: w2_def [symmetric] w3_def [symmetric] d Let_def split: option.splits)
qed simp

lemma retryRunnerDeletion_first_returns:
  assumes "cancelled_from N se" and "Suc N < fuel"
  shows "\<exists>r. retryRunnerDeletion fuel se i r0 err True w = Some r"
proof -
  obtain f where f: "fuel = Suc f" using assms(2) by (cases fuel) auto
  then show ?thesis
    using assms retryRunnerDeletion_returns [OF assms(1), of f] by (simp add: Let_def split: option.splits prod.splits)
qed

lemma case_Some_None [simp]: "((case x of None \<Rightarrow> None | Some p \<Rightarrow> Some (f p)) = None) = (x = None)"
  by (simp split: option.split)

lemma retry_and_resolve_returns:
  assumes "cancelled_from N se" and "Suc N < fuel"
  shows "retry_and_resolve fuel se i h be re r0 result w \<noteq> None"
proof -
  have b: "(if be \<noteq> None then retryBackendTeardown fuel se i h w else Some (None, w)) \<noteq> None"
    using assms retryBackendTeardown_returns [OF assms(1), of fuel w] by auto
  have r: "(case re of Some rerr \<Rightarrow> retryRunnerDeletion fuel se i r0 rerr True v | None \<Rightarrow> Some (None, v)) \<noteq> None" for v
    using retryRunnerDeletion_first_returns [OF assms] by (auto split: option.splits)
  obtain be' v where "(if be \<noteq> None then retryBackendTeardown fuel se i h w else Some (None, w)) = Some (be', v)"
    using b by fastforce
  moreover obtain re' v' where "(case re of Some rerr \<Rightarrow> retryRunnerDeletion fuel se i r0 rerr True v
      | None \<Rightarrow> Some (None, v)) = Some (re', v')"
    using r [of v] by fastforce
  ultimately show ?thesis unfolding retry_and_resolve_def by (simp split: option.split)
qed

lemma settleCleanup_returns:
  "cancelled_from N se \<Longrightarrow> Suc N < fuel \<Longrightarrow> settleCleanup fuel se i h be re oe r0 w \<noteq> None"
  using retry_and_resolve_returns [of N se fuel i h be re r0]
  by (simp only: settleCleanup_def Let_def split: if_split) simp

lemma settlePartialSpawn_returns:
  "cancelled_from N se \<Longrightarrow> Suc N < fuel \<Longrightarrow> settlePartialSpawn fuel se i h serr r0 w \<noteq> None"
  unfolding settlePartialSpawn_def Let_def split_def by (rule retry_and_resolve_returns)

lemma failAndLeak_returns:
  assumes "cancelled_from N se" and "Suc N < fuel"
  shows "failAndLeak fuel se i reason err r0 w \<noteq> None"
  using settleCleanup_returns [OF assms] unfolding failAndLeak_def Let_def split_def
  by (simp del: not_None_eq)

lemma settle_stage_returns:
  assumes "cancelled_from N se" and "Suc N < fuel"
  shows "settle_stage fuel se i r0 h t life w \<noteq> None"
  using settleCleanup_returns [OF assms] unfolding settle_stage_def Let_def split_def
  by (simp split: option.split del: not_None_eq)

lemma finish_stage_returns:
  assumes "cancelled_from N se" and "Suc N < fuel"
  shows "finish_stage fuel se i name snap r0 h w \<noteq> None"
proof -
  obtain life l w1 where "waitForLifecycle fuel se i name r0 w = Some (life, l, w1)"
    using waitForLifecycle_returns [OF assms(1), of fuel] assms(2) by (metis Suc_lessD prod_cases3)
  then show ?thesis using settle_stage_returns [OF assms] by (simp add: finish_stage_def Let_def)
qed

lemma spawn_stage_returns:
  assumes "cancelled_from N se" and "Suc N < fuel"
  shows "spawn_stage fuel se i name snap img jit w \<noteq> None"
  using settlePartialSpawn_returns [OF assms] failAndLeak_returns [OF assms] finish_stage_returns [OF assms]
  unfolding spawn_stage_def Let_def split_def by (simp split: option.split sum.split del: not_None_eq)

lemma jit_stage_returns:
  assumes "cancelled_from N se" and "Suc N < fuel"
  shows "jit_stage fuel se i name snap img w \<noteq> None"
  using failAndLeak_returns [OF assms] spawn_stage_returns [OF assms]
  unfolding jit_stage_def Let_def split_def by (simp split: option.split del: not_None_eq)

lemma execute_body_returns:
  assumes "cancelled_from N se" and "Suc N < fuel"
  shows "execute_body fuel se i w \<noteq> None"
  using jit_stage_returns [OF assms]
  unfolding execute_body_def Let_def split_def by (simp split: option.split sum.split del: not_None_eq)

text \<open>C6: once the context is cancelled a spawn worker returns: the observation loop and both
  retry loops end, whatever the backend and GitHub keep answering. The fuel that suffices is the
  number of steps before the cancellation plus two.\<close>

theorem execute_returns_after_cancel:
  assumes "cancelled_from N se" and "N + 2 \<le> fuel"
  shows "\<exists>err w'. Execute fuel se i w = Some (err, w')"
proof -
  have "Execute fuel se i w \<noteq> None"
    using execute_body_returns [OF assms(1), of fuel] assms(2)
    unfolding Execute_def Let_def split_def by (simp del: not_None_eq)
  then show ?thesis by fastforce
qed

definition stubborn_env :: SpawnEnv where
  "stubborn_env = worker_env\<lparr>seEnv := (seEnv worker_env)\<lparr>eCtxErr := (\<lambda>n. if n < 30 then None else Some (Sentinel CtxCanceled))\<rparr>,
     seTeardown := (\<lambda>n h force. Some (Plain ''docker 409'')), seRender := (\<lambda>n sid r. Inr ([], [])),
     seLife := (\<lambda>n. if n < 30 then LifePoll else LifeCtxDone)\<rparr>"

lemma execute_returns_after_cancel_witness:
  "\<exists>err w'. Execute 32 stubborn_env worker_intent worker_world = Some (err, w')"
  by (rule execute_returns_after_cancel [of 30]) (simp_all add: cancelled_from_def stubborn_env_def)

end
