(* ===== verification/Lifecycle_Thms.thy ===== *)
theory Lifecycle_Thms
  imports Worker_Thms
begin

text \<open>
  Observation and the ledger: the local flags of the observation loop agree with the phase of the
  reservation, so a finished job is only reported for a reservation that GitHub was seen to
  assign. \<open>life_step\<close> is a step that keeps a reservation alive and an assignment recorded.
\<close>

section \<open>A delivered job\<close>

definition in_life :: "string \<Rightarrow> World \<Rightarrow> bool" where
  "in_life sid w = (\<exists>sp. map_of (reservations (wState w)) sid = Some sp \<and> ssPhase sp \<noteq> PhaseTeardownBlocked)"

definition job_delivered :: "string \<Rightarrow> World \<Rightarrow> bool" where
  "job_delivered sid w = (\<exists>sp. map_of (reservations (wState w)) sid = Some sp \<and> ssPhase sp = PhaseAssigned)"

definition life_step :: "string \<Rightarrow> World \<Rightarrow> World \<Rightarrow> bool" where
  "life_step sid w w' = ((in_life sid w \<longrightarrow> in_life sid w') \<and> (job_delivered sid w \<longrightarrow> job_delivered sid w'))"

lemma life_refl [simp]: "life_step sid w w"
  by (simp add: life_step_def)

lemma life_trans: "life_step sid w w1 \<Longrightarrow> life_step sid w1 w2 \<Longrightarrow> life_step sid w w2"
  by (simp add: life_step_def)

lemma life_frame: "map_of (reservations (wState w')) sid = map_of (reservations (wState w)) sid \<Longrightarrow> life_step sid w w'"
  by (simp add: life_step_def in_life_def job_delivered_def)

lemma life_world:
  "life_step sid w (emit ev v) = life_step sid w v" "life_step sid w (v\<lparr>wGH := g\<rparr>) = life_step sid w v"
  by (simp_all add: life_step_def in_life_def job_delivered_def)

lemma life_mark:
  assumes "others_spare e sid"
  shows "life_step sid w (snd (st_call e (MarkOnline sid t) w))"
    "life_step sid w (snd (st_call e (MarkAssigned sid t) w))"
    "in_life sid w \<Longrightarrow> job_delivered sid (snd (st_call e (MarkAssigned sid t) w))"
  using others_keep [OF assms, of "wStep w" "wState w"]
  by (auto simp: life_step_def in_life_def job_delivered_def ledger_simps split: option.splits)
    (metis SpawnPhase.exhaust)+

lemma life_sync: "others_spare e sid \<Longrightarrow> life_step sid w (st_sync e w)"
  by (rule life_frame) (simp add: others_keep)

lemma life_ops:
  assumes "others_spare e sid"
  shows "life_step sid w (recordRunnerOperation e repo op oerr w)" "life_step sid w (deps_RecordRateLimit e rl w)"
  using others_keep [OF assms, of "wStep w" "wState w"]
  by (auto simp: recordRunnerOperation_def deps_RecordRateLimit_def ledger_simps Let_def
      intro!: life_frame split: option.splits)

lemma life_gh: "life_step sid w (snd (gh_call f w))"
  by (rule life_frame) (simp add: gh_call_def split_def Let_def)

lemma life_correlated:
  assumes "others_spare e (siSpawnID i)"
  shows "life_step (siSpawnID i) w (markCorrelatedAssignment e i r w)"
    "in_life (siSpawnID i) w \<Longrightarrow> job_delivered (siSpawnID i) (markCorrelatedAssignment e i r w)"
proof -
  define w1 where "w1 = snd (st_call e (MarkOnline (siSpawnID i) (clk_now e w)) w)"
  define w2 where "w2 = (if fst (st_call e (MarkOnline (siSpawnID i) (clk_now e w)) w)
     then emit (EvRunnerOnline (siScope i) (siRepo i) (siSpawnID i) r) w1 else w1)"
  have s2: "life_step (siSpawnID i) w w2" using life_mark(1) [OF assms] by (simp add: w2_def w1_def life_world)
  define w3 where "w3 = snd (st_call e (MarkAssigned (siSpawnID i) (clk_now e w)) w2)"
  have m: "markCorrelatedAssignment e i r w = (if fst (st_call e (MarkAssigned (siSpawnID i) (clk_now e w)) w2)
      then emit (EvJobAssigned (siScope i) (siRepo i) (siSpawnID i) r) w3 else w3)"
    by (simp add: markCorrelatedAssignment_def w1_def w2_def w3_def Let_def split_def)
  show "life_step (siSpawnID i) w (markCorrelatedAssignment e i r w)"
    using life_trans [OF s2 life_mark(2) [OF assms]] by (simp add: m w3_def life_world)
  show "in_life (siSpawnID i) w \<Longrightarrow> job_delivered (siSpawnID i) (markCorrelatedAssignment e i r w)"
    using s2 life_mark(3) [OF assms, of w2] by (simp add: m w3_def life_step_def job_delivered_def)
qed

text \<open>What the local variables of the loop say about the ledger.\<close>

definition life_inv :: "string \<Rightarrow> LifeState \<times> World \<Rightarrow> bool" where
  "life_inv sid lw = (in_life sid (snd lw) \<and> (lsAssigned (fst lw) \<longrightarrow> job_delivered sid (snd lw)))"

lemma life_inv_step: "life_inv sid (l, w) \<Longrightarrow> life_step sid w w' \<Longrightarrow> lsAssigned l' = lsAssigned l \<Longrightarrow> life_inv sid (l', w')"
  by (simp add: life_inv_def life_step_def)

lemma life_note:
  assumes "others_spare e (siSpawnID i)" and "life_inv (siSpawnID i) lw"
  shows "life_inv (siSpawnID i) (note_online e i r ru lw)" "life_inv (siSpawnID i) (note_assigned e i r ru lw)"
  using assms(2) life_mark [OF assms(1), of "snd lw" "clk_now e (snd lw)"]
  by (auto simp: note_online_def note_assigned_def life_inv_def life_step_def in_life_def job_delivered_def Let_def split_def)

lemma life_observe:
  assumes "others_spare e (siSpawnID i)" and "life_inv (siSpawnID i) (l, w)"
  shows "life_inv (siSpawnID i) (snd (observe e i r (l, w)))"
proof -
  obtain x rl w1 where g: "gh_call (GetRunner (eClient e) (siRepo i) r) w = ((x, rl), w1)" by (metis prod.exhaust)
  have "life_step (siSpawnID i) w (recordRunnerOperation e (siRepo i) op oerr w1)" for op oerr
    using life_trans [OF life_gh life_ops(1) [OF assms(1)]] g by (metis snd_conv)
  then have "life_inv (siSpawnID i) (l\<lparr>lsLastErr := le\<rparr>, recordRunnerOperation e (siRepo i) op oerr w1)" for le op oerr
    using life_inv_step [OF assms(2)] by simp
  then show ?thesis
    by (cases x) (auto simp: observe_def g Let_def intro!: life_note assms(1))
qed

lemma life_candidates:
  assumes "others_spare e (siSpawnID i)"
  shows "correlate_candidates e i name r cs n w = (v, w') \<Longrightarrow> life_step (siSpawnID i) w w' \<and>
     (v = Inl (Inr True) \<longrightarrow> in_life (siSpawnID i) w \<longrightarrow> job_delivered (siSpawnID i) w')"
proof (induction cs arbitrary: n w)
  case (Cons cand cs)
  obtain x rl w1 where g: "gh_call (GetWorkflowJob (eClient e) (siRepo i) (wjID cand)) w = ((x, rl), w1)"
    by (metis prod.exhaust)
  define w3 where "w3 = recordRunnerOperation e (siRepo i) runnerOperationGetJob
      (case x of Inl err \<Rightarrow> Some err | Inr _ \<Rightarrow> None) (deps_RecordRateLimit e rl w1)"
  have w3: "life_step (siSpawnID i) w w3"
    unfolding w3_def using life_gh [of "siSpawnID i" w "GetWorkflowJob (eClient e) (siRepo i) (wjID cand)"] g
    by (intro life_trans [OF _ life_ops(1) [OF assms]] life_trans [OF _ life_ops(2) [OF assms]]) simp
  from Cons.prems consider "w' = w" "v \<noteq> Inl (Inr True)" | "w' = w3" "v \<noteq> Inl (Inr True)"
    | "correlate_candidates e i name r cs (n + 1) w3 = (v, w')"
    | "w' = markCorrelatedAssignment e i r w3"
    by (auto simp: g w3_def Let_def split: if_splits sum.splits)
  then show ?case
  proof cases
    case 3
    from Cons.IH [OF this] w3 show ?thesis using life_trans by (auto simp: life_step_def)
  next
    case 4
    then show ?thesis using w3 life_correlated [OF assms, of w3 r] by (auto simp: life_step_def)
  qed (use w3 in auto)
qed auto

lemma life_correlate:
  assumes "others_spare e (siSpawnID i)" and "correlateCompletedJob e i name r since w = (v, w')"
  shows "life_step (siSpawnID i) w w' \<and> (v = Inr True \<longrightarrow> in_life (siSpawnID i) w \<longrightarrow> job_delivered (siSpawnID i) w')"
proof -
  obtain v1 w1 where c: "correlate_candidates e i name r (siCandidateJobs i) 0 w = (v1, w1)" by force
  note cs = life_candidates [OF assms(1) c]
  show ?thesis
  proof (cases v1)
    case (Inl x)
    then show ?thesis using assms(2) cs by (simp add: correlateCompletedJob_def c)
  next
    case (Inr calls)
    define b where "b = \<lparr>rbSince = since, rbPriorityRunIDs = filter (\<lambda>r. r > 0) (map wjRunID (siCandidateJobs i)),
      rbMaxRuns = defaultJobCorrelationMaxRuns, rbMaxAPICalls = defaultJobCorrelationMaxCalls - calls\<rparr>"
    obtain res err w2 where g: "gh_call (FindRecentWorkflowJobByRunner (eClient e) (siRepo i) r name b) w1 = ((res, err), w2)"
      by (metis prod.exhaust)
    define w4 where "w4 = recordRunnerOperation e (siRepo i) ''find_recent_workflow_job'' err
        (deps_RecordRateLimit e (rjRateLimit res) w2)"
    have "life_step (siSpawnID i) w1 w2" using life_gh g by (metis snd_conv)
    then have w4: "life_step (siSpawnID i) w w4"
      unfolding w4_def using cs
      by (intro life_trans [OF _ life_ops(1) [OF assms(1)]] life_trans [OF _ life_ops(2) [OF assms(1)]])
        (blast intro: life_trans)
    from assms(2) consider "w' = w1" "v \<noteq> Inr True" | "w' = w4" "v \<noteq> Inr True"
      | "w' = markCorrelatedAssignment e i r w4"
      by (auto simp: correlateCompletedJob_def c Inr b_def [symmetric] g w4_def Let_def split: if_splits option.splits)
    then show ?thesis
    proof cases
      case 3
      then show ?thesis using w4 life_correlated [OF assms(1), of w4 r] by (auto simp: life_step_def)
    qed (use cs w4 in auto)
  qed
qed

text \<open>A result that reports neither an error nor a timeout.\<close>

definition reports_done :: "lifecycleResult \<Rightarrow> bool" where
  "reports_done x = (lrErr x = None \<and> \<not> lrTimedOut x)"

lemma life_failures [simp]:
  "\<not> reports_done (lifecycleFailure reason err)" "\<not> reports_done (runnerDeadlineFailure r ph t le)"
  by (simp_all add: reports_done_def lifecycleFailure_def runnerDeadlineFailure_def Let_def split_def)

lemma on_exit_delivered:
  assumes spare: "others_spare (seEnv se) (siSpawnID i)" and inv: "life_inv (siSpawnID i) (l, w)"
    and run: "on_exit se i name r a b c code to (l, w) = (x, l', w')" and ok: "reports_done x"
  shows "job_delivered (siSpawnID i) w'"
proof -
  let ?e = "seEnv se"
  have tr: "lifecycleTransportResult (eCtxErr ?e (wStep w)) code to = None"
  proof (cases "lifecycleTransportResult (eCtxErr ?e (wStep w)) code to")
    case (Some y)
    then have "\<not> reports_done y"
      by (auto simp: lifecycleTransportResult_def reports_done_def lifecycleFailure_def split: if_splits option.splits)
    with Some run ok show ?thesis by (simp add: on_exit_def)
  qed
  obtain f l1 w1 where ob: "(if \<not> lsAssigned l then observe ?e i r (l, w) else (zero_lifecycleResult, l, w)) = (f, l1, w1)"
    by (metis prod_cases3)
  have inv1: "life_inv (siSpawnID i) (l1, w1)"
    using ob life_observe [OF spare inv, of r] inv by (auto split: if_splits)
  obtain v w2 where co: "correlateCompletedJob ?e i name r c w1 = (v, w2)" by force
  note c = life_correlate [OF spare co]
  have run': "exit_verdict se i name r a b c code to (f, l1, w1) = (x, l', w')"
    using run by (simp add: on_exit_def tr ob)
  with ok have "lrErr f = None" by (auto simp: exit_verdict_def reports_done_def Let_def split: if_splits)
  with run' ok consider "lsAssigned l1" "w' = w1" | "v = Inr True" "w' = w2"
    by (auto simp: exit_verdict_def co reports_done_def lifecycleFailure_def runnerDeadlineFailure_def Let_def split_def
        split: if_splits sum.splits bool.splits)
  then show ?thesis using inv1 c by cases (auto simp: life_inv_def)
qed

lemma life_turn_delivered:
  assumes spare: "others_spare (seEnv se) (siSpawnID i)" and inv: "life_inv (siSpawnID i) (l, w)"
  shows "life_turn se i name r a b c ev (l, w) = Inr lw \<Longrightarrow> life_inv (siSpawnID i) lw"
    "life_turn se i name r a b c ev (l, w) = Inl (x, l', w') \<Longrightarrow> reports_done x \<Longrightarrow> job_delivered (siSpawnID i) w'"
proof -
  have inv': "life_inv (siSpawnID i) (l2, w)" if "lsAssigned l2 = lsAssigned l" for l2
    using that inv by (simp add: life_inv_def)
  have ob: "life_inv (siSpawnID i) (snd (observe (seEnv se) i r (l2, w)))" if "lsAssigned l2 = lsAssigned l" for l2
    using life_observe [OF spare inv' [OF that]] .
  show "life_turn se i name r a b c ev (l, w) = Inr lw \<Longrightarrow> life_inv (siSpawnID i) lw"
    using inv inv' ob by (auto simp: life_turn_def Let_def split_def split: LifeEvent.splits if_splits option.splits)
  show "life_turn se i name r a b c ev (l, w) = Inl (x, l', w') \<Longrightarrow> reports_done x \<Longrightarrow> job_delivered (siSpawnID i) w'"
    using on_exit_delivered [OF spare inv]
    by (auto simp: life_turn_def Let_def split_def reports_done_def lifecycleFailure_def runnerDeadlineFailure_def
        split: LifeEvent.splits if_splits option.splits)
qed

lemma life_loop_delivered:
  assumes spare: "others_spare (seEnv se) (siSpawnID i)"
  shows "life_loop fuel se i name r a b c lw = Some (x, l', w') \<Longrightarrow> life_inv (siSpawnID i) lw \<Longrightarrow>
    reports_done x \<Longrightarrow> job_delivered (siSpawnID i) w'"
proof (induction fuel arbitrary: lw)
  case (Suc fuel)
  obtain l w where lw: "lw = (l, w)" by force
  note inv = Suc.prems(2) [unfolded lw]
  show ?case
  proof (cases "life_turn se i name r a b c (seLife se (wStep w)) (l, w)")
    case (Inl y)
    then show ?thesis using life_turn_delivered(2) [OF spare inv, of name r a b c] Suc.prems(1,3) by (auto simp: lw)
  next
    case (Inr y)
    obtain l1 w1 where y: "y = (l1, w1)" by force
    have "life_inv (siSpawnID i) (settle_timers l1, st_sync (seEnv se) w1)"
      using life_inv_step [OF life_turn_delivered(1) [OF spare inv Inr, unfolded y] life_sync [OF spare]]
      by (simp add: settle_timers_def Let_def)
    then show ?thesis using Suc.IH Suc.prems(1,3) Inr by (simp add: lw y)
  qed
qed simp



end
