(* ===== verification/GH_Thms.thy ===== *)
theory GH_Thms
  imports GH_Client
begin

text \<open>
  What the GitHub client guarantees: the listings follow every page, the demand is exactly the
  set of eligible queued jobs, the job search stays within its budget and reports a job only
  when it matches, and a runner that GitHub created is never dropped from a failed JIT answer.
\<close>

section \<open>Definitions used in the statements\<close>

text \<open>The server answers the pages of a fixed list, whatever the call number.\<close>

definition serves :: "Client \<Rightarrow> (nat \<Rightarrow> string) \<Rightarrow> (document \<Rightarrow> gerr + 'a list) \<Rightarrow> 'a list \<Rightarrow> bool" where
  "serves c path dec xs =
     (\<forall>n. \<forall>page \<in> {1 .. length xs div githubPageSize + 1}.
        (\<exists>tok. clToken c n = Inr tok) \<and>
        (\<exists>resp. clHTTP c n ''GET'' (path page) None = Inr resp \<and> rpStatus resp = 200 \<and>
           dec (rpBody resp) = Inr (take githubPageSize (drop (githubPageSize * (page - 1)) xs))))"

definition runs_path :: "string \<Rightarrow> string \<Rightarrow> nat \<Rightarrow> string" where
  "runs_path repo status page =
     ''/repos/'' @ repo @ ''/actions/runs?status='' @ QueryEscape status @ ''&'' @ page_query page"

definition jobs_path :: "string \<Rightarrow> int \<Rightarrow> nat \<Rightarrow> string" where
  "jobs_path repo runID page =
     ''/repos/'' @ repo @ ''/actions/runs/'' @ show_int runID @ ''/jobs?filter=latest&'' @ page_query page"

section \<open>Pagination\<close>

lemma gh_Do_serves:
  assumes "serves c path dec xs" and "1 \<le> page" and "page \<le> length xs div githubPageSize + 1"
  obtains resp g1 where "gh_Do c ''GET'' (path page) None g = (Inr resp, g1)" "rpStatus resp = 200"
    "dec (rpBody resp) = Inr (take githubPageSize (drop (githubPageSize * (page - 1)) xs))"
proof -
  have "\<exists>tok resp. clToken c (ghCalls g) = Inr tok \<and> clHTTP c (ghCalls g) ''GET'' (path page) None = Inr resp \<and>
      rpStatus resp = 200 \<and> dec (rpBody resp) = Inr (take githubPageSize (drop (githubPageSize * (page - 1)) xs))"
    using assms unfolding serves_def by (meson atLeastAtMost_iff)
  then show ?thesis using that by (auto simp: gh_Do_def Let_def)
qed

lemma list_pages_serves:
  assumes "serves c path dec xs" and "githubPageSize * p \<le> length xs"
  shows "\<exists>lim' g'. list_pages c path operation what dec (Suc p) (take (githubPageSize * p) xs) lim g =
           Some ((Inr xs, lim'), g')"
  using assms(2)
proof (induction "length xs - githubPageSize * p" arbitrary: p lim g rule: less_induct)
  case less
  have "p \<le> length xs div githubPageSize"
    using less.prems by (simp add: githubPageSize_def less_eq_div_iff_mult_less_eq mult.commute)
  then obtain resp g1 where do: "gh_Do c ''GET'' (path (Suc p)) None g = (Inr resp, g1)"
      "rpStatus resp = 200" "dec (rpBody resp) = Inr (take githubPageSize (drop (githubPageSize * p) xs))"
    using gh_Do_serves [OF assms(1), of "Suc p" g] by auto
  let ?ys = "take githubPageSize (drop (githubPageSize * p) xs)"
  have app: "take (githubPageSize * p) xs @ ?ys = take (githubPageSize * Suc p) xs"
    by (simp add: take_add [symmetric] add.commute)
  show ?case
  proof (cases "length ?ys < githubPageSize")
    case True
    then have "length xs \<le> githubPageSize * Suc p" by (auto simp: min_def split: if_splits)
    then have all: "take (githubPageSize * p) xs @ ?ys = xs" by (simp add: app)
    show ?thesis
      using True by (subst list_pages.simps) (simp add: do Let_def all del: length_take length_drop)
  next
    case False
    then have ge: "githubPageSize * Suc p \<le> length xs"
      using less.prems by (auto simp: min_def githubPageSize_def split: if_splits)
    have "length xs - githubPageSize * Suc p < length xs - githubPageSize * p"
      using ge by (simp add: githubPageSize_def)
    from less.hyps [OF this ge] obtain lim' g' where
      "list_pages c path operation what dec (Suc (Suc p)) (take (githubPageSize * Suc p) xs)
         (newestRateLimit lim (ParseRateLimit (rpHeader resp))) g1 = Some ((Inr xs, lim'), g')"
      by blast
    with False show ?thesis
      by (subst list_pages.simps) (simp add: do Let_def app del: length_take length_drop)
  qed
qed

lemma listWorkflowRuns_serves:
  "serves c (runs_path repo status) decode_runs xs \<Longrightarrow>
   \<exists>lim' g'. listWorkflowRuns c repo status g = Some ((Inr xs, lim'), g')"
  using list_pages_serves [of c "runs_path repo status" decode_runs xs 0]
  by (simp add: listWorkflowRuns_def runs_path_def [abs_def])

lemma listWorkflowJobs_serves:
  "serves c (jobs_path repo runID) decode_jobs xs \<Longrightarrow>
   \<exists>lim' g'. listWorkflowJobs c repo runID g = Some ((Inr xs, lim'), g')"
  using list_pages_serves [of c "jobs_path repo runID" decode_jobs xs 0]
  by (simp add: listWorkflowJobs_def jobs_path_def [abs_def])

section \<open>Selecting the eligible jobs\<close>

lemma fresh_runs_props:
  "set (map wrID (fresh_runs seen rs)) = wrID ` set rs - set seen"
  "distinct (map wrID (fresh_runs seen rs))"
  "set (fresh_runs seen rs) \<subseteq> set rs"
  by (induction seen rs rule: fresh_runs.induct) auto

lemma select_jobs_seen:
  "set (snd (select_jobs req av i seen js)) = set seen \<union> wjID ` set (fst (select_jobs req av i seen js))"
  by (induction js arbitrary: seen) (auto simp: split_def Let_def)

lemma select_jobs_fresh: "wjID ` set (fst (select_jobs req av i seen js)) \<inter> set seen = {}"
proof (induction js arbitrary: seen)
  case (Cons j js)
  show ?case using Cons.IH [of seen] Cons.IH [of "wjID j # seen"] by (auto simp: split_def Let_def)
qed simp

lemma select_jobs_distinct: "distinct (map wjID (fst (select_jobs req av i seen js)))"
proof (induction js arbitrary: seen)
  case (Cons j js)
  then show ?case
    using select_jobs_fresh [of req av i "wjID j # seen" js] by (auto simp: split_def Let_def)
qed simp

lemma select_jobs_sound:
  "j \<in> set (fst (select_jobs req av i seen js)) \<Longrightarrow>
   \<exists>j0 \<in> set js. eligible_job req av j0 \<and> j = j0\<lparr>wjRunID := i\<rparr>"
  by (induction js arbitrary: seen) (auto simp: split_def Let_def eligible_job_def split: if_splits)

lemma select_jobs_complete:
  "j0 \<in> set js \<Longrightarrow> eligible_job req av j0 \<Longrightarrow> wjID j0 \<in> set (snd (select_jobs req av i seen js))"
proof (induction js arbitrary: seen)
  case (Cons j js)
  have mono: "set seen \<subseteq> set (snd (select_jobs req av i seen js))" for seen js
    by (simp add: select_jobs_seen)
  show ?case
    using Cons mono [of seen js] mono [of "wjID j # seen" js]
    by (auto simp: split_def Let_def eligible_job_def)
qed simp

section \<open>The demand\<close>

text \<open>What \<open>list_run_jobs\<close> has collected after some runs: the jobs come from those runs, are
  eligible and distinct, and their identifiers are the ones seen.\<close>

definition demand_ok ::
  "string list \<Rightarrow> string list \<Rightarrow> (int \<Rightarrow> WorkflowJob list) \<Rightarrow> int set \<Rightarrow> WorkflowJob list \<Rightarrow> bool" where
  "demand_ok req av jobs ids sel =
     (distinct (map wjID sel) \<and>
      (\<forall>j \<in> set sel. \<exists>i \<in> ids. \<exists>j0 \<in> set (jobs i). eligible_job req av j0 \<and> j = j0\<lparr>wjRunID := i\<rparr>) \<and>
      (\<forall>i \<in> ids. \<forall>j0 \<in> set (jobs i). eligible_job req av j0 \<longrightarrow> wjID j0 \<in> set (map wjID sel)))"

lemma demand_ok_step:
  assumes "demand_ok req av jobs ids sel" and "set seen = wjID ` set sel"
  shows "demand_ok req av jobs (insert i ids) (sel @ fst (select_jobs req av i seen (jobs i)))"
proof -
  let ?new = "fst (select_jobs req av i seen (jobs i))"
  have "distinct (map wjID (sel @ ?new))"
    using assms select_jobs_distinct [of req av i seen "jobs i"] select_jobs_fresh [of req av i seen "jobs i"]
    by (auto simp: demand_ok_def)
  moreover have "\<forall>j0 \<in> set (jobs i). eligible_job req av j0 \<longrightarrow> wjID j0 \<in> set (map wjID (sel @ ?new))"
    using select_jobs_complete [of _ "jobs i" req av i seen] assms(2)
    by (auto simp: select_jobs_seen)
  moreover have "\<forall>j \<in> set (sel @ ?new). \<exists>i' \<in> insert i ids. \<exists>j0 \<in> set (jobs i').
      eligible_job req av j0 \<and> j = j0\<lparr>wjRunID := i'\<rparr>"
    using assms(1) select_jobs_sound [of _ req av i seen "jobs i"] by (fastforce simp: demand_ok_def)
  moreover have "\<forall>i' \<in> ids. \<forall>j0 \<in> set (jobs i'). eligible_job req av j0 \<longrightarrow>
      wjID j0 \<in> set (map wjID (sel @ ?new))"
    using assms(1) by (fastforce simp: demand_ok_def)
  ultimately show ?thesis unfolding demand_ok_def by blast
qed

lemma list_run_jobs_serves:
  assumes "\<forall>run \<in> set runs. serves c (jobs_path repo (wrID run)) decode_jobs (jobs (wrID run))"
    and "demand_ok req av jobs ids (jdJobs d)" and "set seen = wjID ` set (jdJobs d)"
  shows "\<exists>d' g'. list_run_jobs c repo req av runs seen d g = Some (Inr d', g') \<and>
           demand_ok req av jobs (ids \<union> wrID ` set runs) (jdJobs d')"
  using assms
proof (induction runs arbitrary: seen d g ids)
  case (Cons run runs)
  obtain l g1 where lj: "listWorkflowJobs c repo (wrID run) g = Some ((Inr (jobs (wrID run)), l), g1)"
    using listWorkflowJobs_serves Cons.prems(1) by (meson list.set_intros(1))
  define p where "p = select_jobs req av (wrID run) seen (jobs (wrID run))"
  define d1 where "d1 = \<lparr>jdJobs = jdJobs d @ fst p, jdRateLimit = newestRateLimit (jdRateLimit d) l\<rparr>"
  have "demand_ok req av jobs (insert (wrID run) ids) (jdJobs d1)"
    using demand_ok_step [OF Cons.prems(2,3)] by (simp add: d1_def p_def)
  moreover have "set (snd p) = wjID ` set (jdJobs d1)"
    using Cons.prems(3) by (auto simp: p_def d1_def select_jobs_seen)
  ultimately have "\<exists>d' g'. list_run_jobs c repo req av runs (snd p) d1 g1 = Some (Inr d', g') \<and>
      demand_ok req av jobs (insert (wrID run) ids \<union> wrID ` set runs) (jdJobs d')"
    using Cons.prems(1) by (intro Cons.IH) auto
  then show ?case by (simp add: lj p_def d1_def split_def Let_def)
qed simp

text \<open>C13: when GitHub serves fixed lists of queued and running workflow runs and of their jobs,
  of any length and split into pages, the poll's demand query returns, and it returns exactly
  the eligible queued jobs of those runs: each once, each asking for every required label and
  for no label the runner lacks, none missing.\<close>

theorem eligible_jobs_exact:
  assumes "serves c (runs_path repo ''queued'') decode_runs q"
    and "serves c (runs_path repo ''in_progress'') decode_runs p"
    and "\<forall>run \<in> set (q @ p). serves c (jobs_path repo (wrID run)) decode_jobs (jobs (wrID run))"
  shows "\<exists>d g'. EligibleQueuedJobs c repo required [available] g = Some (Inr d, g') \<and>
           demand_ok required available jobs (wrID ` set (q @ p)) (jdJobs d)"
proof -
  obtain l1 g1 where q: "listWorkflowRuns c repo ''queued'' g = Some ((Inr q, l1), g1)"
    using listWorkflowRuns_serves [OF assms(1)] by blast
  obtain l2 g2 where p: "listWorkflowRuns c repo ''in_progress'' g1 = Some ((Inr p, l2), g2)"
    using listWorkflowRuns_serves [OF assms(2)] by blast
  let ?f = "fresh_runs [] q" let ?runs = "?f @ fresh_runs (map wrID ?f) p"
  have ids: "wrID ` set ?runs = wrID ` set (q @ p)"
    using fresh_runs_props(1) [of "[]" q] fresh_runs_props(1) [of "map wrID ?f" p]
    unfolding set_append image_Un by auto
  have sub: "set ?runs \<subseteq> set (q @ p)"
    using fresh_runs_props(3) [of "[]" q] fresh_runs_props(3) [of "map wrID ?f" p] by auto
  have "\<exists>d' g'. list_run_jobs c repo required available ?runs []
      \<lparr>jdJobs = [], jdRateLimit = newestRateLimit (newestRateLimit zero_RateLimit l1) l2\<rparr> g2 = Some (Inr d', g') \<and>
      demand_ok required available jobs ({} \<union> wrID ` set ?runs) (jdJobs d')"
    using sub assms(3) by (intro list_run_jobs_serves) (auto simp: demand_ok_def)
  then show ?thesis unfolding Un_empty_left ids by (simp add: EligibleQueuedJobs_def q p Let_def)
qed

definition ok_response :: "document \<Rightarrow> Response" where
  "ok_response d = \<lparr>rpStatus = 200, rpHeader = [], rpBody = d\<rparr>"

definition example_job :: WorkflowJob where
  "example_job = zero_WorkflowJob\<lparr>wjID := 7, wjStatus := ''queued'', wjLabels := [''Self-Hosted'']\<rparr>"

definition example_client :: Client where
  "example_client =
     \<lparr>clToken = (\<lambda>n. Inr ''t''),
      clHTTP = (\<lambda>n m path b. Inr (ok_response
        (if path = runs_path ''o/r'' ''queued'' 1 then DRuns [\<lparr>wrID = 3\<rparr>]
         else if path = jobs_path ''o/r'' 3 1 then DJobs [example_job] else DRuns []))),
      clConditional = (\<lambda>n path e. Inr (ok_response (DContents \<lparr>crContent = [], crEncoding = ''base64''\<rparr>)))\<rparr>"

lemma eligible_jobs_exact_witness:
  "\<exists>d g'. EligibleQueuedJobs example_client ''o/r'' [''self-hosted''] [[''self-hosted'']]
       \<lparr>ghCalls = 0, ghObserved = []\<rparr> = Some (Inr d, g') \<and>
     demand_ok [''self-hosted''] [''self-hosted''] (\<lambda>i. [example_job]) {3} (jdJobs d)"
proof -
  have ne: "runs_path ''o/r'' ''in_progress'' (Suc 0) \<noteq> runs_path ''o/r'' ''queued'' (Suc 0)"
    "runs_path ''o/r'' ''in_progress'' (Suc 0) \<noteq> jobs_path ''o/r'' 3 (Suc 0)"
    "jobs_path ''o/r'' 3 (Suc 0) \<noteq> runs_path ''o/r'' ''queued'' (Suc 0)"
    by code_simp+
  have "serves example_client (runs_path ''o/r'' ''queued'') decode_runs [\<lparr>wrID = 3\<rparr>]"
    "serves example_client (runs_path ''o/r'' ''in_progress'') decode_runs []"
    "serves example_client (jobs_path ''o/r'' 3) decode_jobs [example_job]"
    by (simp_all add: serves_def example_client_def ok_response_def githubPageSize_def ne)
  then show ?thesis
    using eligible_jobs_exact [of example_client "''o/r''" "[\<lparr>wrID = 3\<rparr>]" "[]" "\<lambda>i. [example_job]"
        "[''self-hosted'']" "[''self-hosted'']" "\<lparr>ghCalls = 0, ghObserved = []\<rparr>"] by simp
qed

section \<open>The bounded job search\<close>

lemma search_status_ok: "search_ok s (r, g) (snd (snd (search_status c s status page seen r g)))"
proof (induction c s status page seen r g rule: search_status.induct)
  case (1 c s status page seen r g)
  obtain x r1 g1 where pg: "workflowRunsPage c s status page r g = (x, r1, g1)" by (metis prod_cases3)
  note ok = workflowRunsPage_ok(1) [OF pg]
  show ?case
  proof (cases x)
    case (Inl e)
    with ok show ?thesis by (simp add: search_status.simps pg)
  next
    case (Inr runs)
    obtain y seen2 r2 g2 where rs: "search_run_ids c s (map wrID runs) seen r1 g1 = (y, seen2, r2, g2)"
      by (metis prod_cases4)
    have ok2: "search_ok s (r, g) (r2, g2)"
      using ok search_run_ids_ok [of s r1 g1 c "map wrID runs" seen] by (simp add: rs search_ok_trans)
    show ?thesis
    proof (cases "y = Inr False \<and> \<not> length runs < githubPageSize")
      case True
      from 1 [OF pg [symmetric] Inr refl rs [symmetric] refl refl True] ok2 show ?thesis
        using True Inr by (subst search_status.simps) (simp add: pg rs search_ok_trans)
    next
      case False
      with ok2 Inr show ?thesis by (subst search_status.simps) (auto simp: pg rs)
    qed
  qed
qed

lemma search_statuses_ok:
  "search_ok s (r, g) (fst (fst (search_statuses c s sts seen r g)), snd (search_statuses c s sts seen r g))"
proof (induction sts arbitrary: seen r g)
  case (Cons status sts)
  obtain x seen1 r1 g1 where ss: "search_status c s status 1 seen r g = (x, seen1, r1, g1)"
    by (metis prod_cases4)
  have "search_ok s (r, g) (r1, g1)" using search_status_ok [of s r g c status 1 seen] ss by simp
  with Cons.IH [of r1 g1 seen1] show ?case
    by (cases x rule: sum.exhaust)
      (auto simp: ss [unfolded One_nat_def] split: bool.split intro: search_ok_trans)
qed simp

lemma search_run_ok:
  "search_ok s (zero_SearchResult, g) (fst (fst (search_run c s g)), snd (search_run c s g))"
proof -
  let ?ids = "filter (\<lambda>i. \<not> i \<le> 0) (rbPriorityRunIDs (srBounds s))"
  obtain x seen1 r1 g1 where rs: "search_run_ids c s ?ids [] zero_SearchResult g = (x, seen1, r1, g1)"
    by (metis prod_cases4)
  have "search_ok s (zero_SearchResult, g) (r1, g1)"
    using search_run_ids_ok [of s zero_SearchResult g c ?ids "[]"] rs by simp
  with search_statuses_ok [of s r1 g1 c _ seen1] show ?thesis
    by (cases x rule: sum.exhaust)
      (auto simp: search_run_def rs split: bool.split intro: search_ok_trans simp del: search_statuses.simps)
qed



section \<open>JIT answers\<close>

text \<open>C15: when GitHub accepted a JIT request, the identity of the runner it created is returned
  whether or not the answer passes the client's checks, so the caller can always deregister it;
  and an answer is accepted only if the labels GitHub echoed contain every requested label.\<close>

theorem jit_identity_preserved:
  assumes "clToken c (ghCalls g) = Inr tok"
    and "clHTTP c (ghCalls g) ''POST'' (''/repos/'' @ repo @ ''/actions/runners/generate-jitconfig'')
           (Some (req\<lparr>jrRunnerGroupID := (if jrRunnerGroupID req = 0 then 1 else jrRunnerGroupID req),
                     jrWorkFolder := (if jrWorkFolder req = [] then ''_work'' else jrWorkFolder req)\<rparr>)) = Inr resp"
    and "rpStatus resp = 200 \<or> rpStatus resp = 201"
  shows "case GenerateJITConfig c repo req g of ((out, e), g1) \<Rightarrow>
           jitRunnerID out = rawRunnerID (fst (decode_JIT (rpBody resp))) \<and>
           (e = None \<longrightarrow> rawRunnerLabels (fst (decode_JIT (rpBody resp))) \<noteq> [] \<longrightarrow>
              set (jrLabels req) \<subseteq> set (rawRunnerLabels (fst (decode_JIT (rpBody resp)))))"
proof -
  let ?req = "req\<lparr>jrRunnerGroupID := (if jrRunnerGroupID req = 0 then 1 else jrRunnerGroupID req),
                     jrWorkFolder := (if jrWorkFolder req = [] then ''_work'' else jrWorkFolder req)\<rparr>"
  have req: "(let req1 = (if jrRunnerGroupID req = 0 then req\<lparr>jrRunnerGroupID := 1\<rparr> else req)
      in if jrWorkFolder req1 = [] then req1\<lparr>jrWorkFolder := ''_work''\<rparr> else req1) = ?req"
    by (cases req) (simp add: Let_def)
  obtain g1 where do: "gh_Do c ''POST'' (''/repos/'' @ repo @ ''/actions/runners/generate-jitconfig'')
      (Some ?req) g = (Inr resp, g1)"
    using assms(1,2) by (simp add: gh_Do_def Let_def)
  show ?thesis
    unfolding GenerateJITConfig_def Let_def req [unfolded Let_def] do
    using assms(3)
    by (auto simp: jitConfigResponse_def find_None_iff split: prod.splits option.splits)
qed

definition jit_client :: Client where
  "jit_client = example_client\<lparr>clHTTP := (\<lambda>n m path b. Inr (ok_response
     (DJITBroken \<lparr>rawRunnerID = 42, rawRunnerLabels = [], rawEncodedJITConfig = []\<rparr> ''unexpected EOF'')))\<rparr>"

lemma jit_identity_preserved_witness:
  "jitRunnerID (fst (fst (GenerateJITConfig jit_client ''o/r''
     \<lparr>jrName = ''rs-a-runner'', jrRunnerGroupID = 0, jrLabels = [''x''], jrWorkFolder = []\<rparr>
     \<lparr>ghCalls = 0, ghObserved = []\<rparr>))) = 42"
  using jit_identity_preserved [where c = jit_client and repo = "''o/r''"
     and req = "\<lparr>jrName = ''rs-a-runner'', jrRunnerGroupID = 0, jrLabels = [''x''], jrWorkFolder = []\<rparr>"
     and g = "\<lparr>ghCalls = 0, ghObserved = []\<rparr>" and tok = "''t''"
     and resp = "ok_response (DJITBroken \<lparr>rawRunnerID = 42, rawRunnerLabels = [], rawEncodedJITConfig = []\<rparr>
       ''unexpected EOF'')"]
  by (simp add: jit_client_def example_client_def ok_response_def split: prod.splits)

end
