(* ===== verification/Proxy_JSON.thy ===== *)
theory Proxy_JSON
  imports RS_Prelude
begin

text \<open>
  JSON as the socket proxy reads it: \<open>decodeCreate\<close>, \<open>uniqueJSONValue\<close> and \<open>exactJSONFields\<close> of
  \<open>internal/proxy/validate.go\<close>, over the part of \<open>unicode/utf8\<close> and \<open>encoding/json\<close> they use.

  A string is its bytes. \<open>parse_value\<close> is the JSON grammar of \<open>encoding/json\<close>; \<open>uniqueJSONValue\<close>
  reads tokens and checks as it goes, here the document is parsed and then checked, which
  rejects the same bodies. The parser's fuel bounds the calls, of which every second one
  consumes a byte. The Unicode table behind \<open>unicode.SimpleFold\<close> is the argument \<open>orbit\<close>: the
  encoded least member of the orbit of an encoded rune outside ASCII.
\<close>

section \<open>UTF-8\<close>

definition byte :: "char \<Rightarrow> nat" where
  "byte c = of_char c"

definition cont :: "char \<Rightarrow> bool" where
  "cont c = (128 \<le> byte c \<and> byte c < 192)"

text \<open>Length of the well-formed rune at the head: no overlong form, no surrogate, at most U+10FFFF.\<close>

fun rune_len :: "string \<Rightarrow> nat option" where
  "rune_len [] = None"
| "rune_len (a # s) =
     (if byte a < 128 then Some 1
      else if 194 \<le> byte a \<and> byte a < 224 then
        (case s of b # _ \<Rightarrow> if cont b then Some 2 else None | _ \<Rightarrow> None)
      else if 224 \<le> byte a \<and> byte a < 240 then
        (case s of b # c # _ \<Rightarrow>
           if cont b \<and> cont c \<and> (byte a = 224 \<longrightarrow> 160 \<le> byte b) \<and> (byte a = 237 \<longrightarrow> byte b < 160)
           then Some 3 else None | _ \<Rightarrow> None)
      else if 240 \<le> byte a \<and> byte a < 245 then
        (case s of b # c # d # _ \<Rightarrow>
           if cont b \<and> cont c \<and> cont d \<and> (byte a = 240 \<longrightarrow> 144 \<le> byte b) \<and> (byte a = 244 \<longrightarrow> byte b < 144)
           then Some 4 else None | _ \<Rightarrow> None)
      else None)"

lemma rune_len_pos: "rune_len s = Some n \<Longrightarrow> 0 < n"
  by (cases s) (auto split: if_splits list.splits)

function utf8_Valid :: "string \<Rightarrow> bool" where
  "utf8_Valid s =
     (if s = [] then True
      else case rune_len s of None \<Rightarrow> False | Some n \<Rightarrow> utf8_Valid (drop n s))"
  by pat_completeness auto
termination
  by (relation "measure length") (auto dest: rune_len_pos)

declare utf8_Valid.simps [simp del]

definition utf8_encode :: "nat \<Rightarrow> string" where
  "utf8_encode r =
     (if r < 128 then [char_of r]
      else if r < 2048 then [char_of (192 + r div 64), char_of (128 + r mod 64)]
      else if r < 65536 then [char_of (224 + r div 4096), char_of (128 + r div 64 mod 64), char_of (128 + r mod 64)]
      else [char_of (240 + r div 262144), char_of (128 + r div 4096 mod 64),
            char_of (128 + r div 64 mod 64), char_of (128 + r mod 64)])"

section \<open>The document\<close>

datatype json =
    JNull
  | JBool bool
  | JNum string
  | JStr string
  | JArr "json list"
  | JObj "(string \<times> json) list"

text \<open>Go values as documents; a struct field tagged \<open>omitempty\<close> is left out when it is zero.\<close>

definition omit :: "bool \<Rightarrow> string \<Rightarrow> json \<Rightarrow> (string \<times> json) list" where
  "omit zero k v = (if zero then [] else [(k, v)])"

definition json_strs :: "string list \<Rightarrow> json" where
  "json_strs xs = JArr (map JStr xs)"

definition json_int :: "int \<Rightarrow> json" where
  "json_int n = JNum (show_int n)"

definition is_ws :: "char \<Rightarrow> bool" where
  "is_ws c = (byte c \<in> {32, 9, 10, 13})"

definition skip_ws :: "string \<Rightarrow> string" where
  "skip_ws s = dropWhile is_ws s"

definition hex_val :: "char \<Rightarrow> nat option" where
  "hex_val c =
     (let b = byte c in
      if 48 \<le> b \<and> b < 58 then Some (b - 48)
      else if 97 \<le> b \<and> b < 103 then Some (b - 87)
      else if 65 \<le> b \<and> b < 71 then Some (b - 55) else None)"

definition hex4 :: "char \<Rightarrow> char \<Rightarrow> char \<Rightarrow> char \<Rightarrow> nat option" where
  "hex4 a b c d =
     (case (hex_val a, hex_val b, hex_val c, hex_val d) of
        (Some w, Some x, Some y, Some z) \<Rightarrow> Some (((w * 16 + x) * 16 + y) * 16 + z)
      | _ \<Rightarrow> None)"

definition simple_escape :: "char \<Rightarrow> char option" where
  "simple_escape c =
     (if c = CHR 0x22 \<or> c = CHR 0x5C \<or> c = CHR ''/'' then Some c
      else if c = CHR ''b'' then Some (CHR 0x08) else if c = CHR ''f'' then Some (CHR 0x0C)
      else if c = CHR ''n'' then Some (CHR 0x0A) else if c = CHR ''r'' then Some (CHR 0x0D)
      else if c = CHR ''t'' then Some (CHR 0x09) else None)"

definition surrogate :: "nat \<Rightarrow> bool" where
  "surrogate r = (55296 \<le> r \<and> r < 57344)"

text \<open>The second half of a surrogate pair, if it follows.\<close>

definition low_half :: "nat \<Rightarrow> string \<Rightarrow> (nat \<times> string) option" where
  "low_half r u =
     (if 55296 \<le> r \<and> r < 56320 then
        (case u of
           b # v # k1 # k2 # k3 # k4 # x \<Rightarrow>
             if b = CHR 0x5C \<and> v = CHR ''u''
             then (case hex4 k1 k2 k3 k4 of
                     Some q \<Rightarrow> if 56320 \<le> q \<and> q < 57344 then Some (q, x) else None
                   | None \<Rightarrow> None)
             else None
         | _ \<Rightarrow> None)
      else None)"

text \<open>An escape after its backslash: the text it stands for and the rest. A surrogate without its
  partner becomes U+FFFD.\<close>

definition unescape :: "string \<Rightarrow> (string \<times> string) option" where
  "unescape s =
     (case s of
        [] \<Rightarrow> None
      | e # t \<Rightarrow>
          if e = CHR ''u'' then
            (case t of
               h1 # h2 # h3 # h4 # u \<Rightarrow>
                 (case hex4 h1 h2 h3 h4 of
                    None \<Rightarrow> None
                  | Some r \<Rightarrow>
                      (case low_half r u of
                         Some (q, x) \<Rightarrow> Some (utf8_encode (65536 + (r - 55296) * 1024 + (q - 56320)), x)
                       | None \<Rightarrow> Some (utf8_encode (if surrogate r then 65533 else r), u)))
             | _ \<Rightarrow> None)
          else map_option (\<lambda>d. ([d], t)) (simple_escape e))"

lemma low_half_length: "low_half r u = Some (q, x) \<Longrightarrow> length x < length u"
  by (auto simp: low_half_def split: if_splits list.splits option.splits)

lemma unescape_length: "unescape s = Some (d, t) \<Longrightarrow> length t < length s"
  by (auto simp: unescape_def split: list.splits if_splits option.splits dest: low_half_length)

text \<open>A string literal after its opening quote: the text and the rest.\<close>

function str_body :: "string \<Rightarrow> (string \<times> string) option" where
  "str_body s =
     (case s of
        [] \<Rightarrow> None
      | c # t \<Rightarrow>
          if c = CHR 0x22 then Some ([], t)
          else if c = CHR 0x5C then
            (case unescape t of
               None \<Rightarrow> None
             | Some (d, u) \<Rightarrow> map_option (\<lambda>(w, y). (d @ w, y)) (str_body u))
          else if byte c < 32 then None
          else map_option (\<lambda>(w, y). (c # w, y)) (str_body t))"
  by pat_completeness auto
termination
  by (relation "measure length") (auto dest!: unescape_length)

declare str_body.simps [simp del]

definition number_char :: "char \<Rightarrow> bool" where
  "number_char c = (is_digit c \<or> c \<in> set ''+-.eE'')"

definition valid_number :: "string \<Rightarrow> bool" where
  "valid_number s =
     (let t = (if s \<noteq> [] \<and> hd s = CHR ''-'' then tl s else s);
          m = takeWhile (\<lambda>c. c \<noteq> CHR ''e'' \<and> c \<noteq> CHR ''E'') t;
          ex = drop (length m) t;
          (ip, fp, dot) = cut_char CHR ''.'' m;
          xs = tl ex; ds = (if xs \<noteq> [] \<and> (hd xs = CHR ''+'' \<or> hd xs = CHR ''-'') then tl xs else xs)
      in int_part ip \<and> (dot \<longrightarrow> digits1 fp) \<and> (ex \<noteq> [] \<longrightarrow> digits1 ds))"

definition keyword :: "string \<Rightarrow> json \<Rightarrow> string \<Rightarrow> (json \<times> string) option" where
  "keyword w v s = (if HasPrefix s w then Some (v, drop (length w) s) else None)"

fun parse_value :: "nat \<Rightarrow> string \<Rightarrow> (json \<times> string) option"
  and parse_elems :: "nat \<Rightarrow> string \<Rightarrow> (json list \<times> string) option"
  and parse_members :: "nat \<Rightarrow> string \<Rightarrow> ((string \<times> json) list \<times> string) option" where
  "parse_value 0 s = None"
| "parse_value (Suc n) s =
     (case skip_ws s of
        [] \<Rightarrow> None
      | c # t \<Rightarrow>
          if c = CHR ''{'' then
            (case skip_ws t of
               d # u \<Rightarrow> if d = CHR ''}'' then Some (JObj [], u)
                         else map_option (\<lambda>(kvs, r). (JObj kvs, r)) (parse_members n t)
             | [] \<Rightarrow> None)
          else if c = CHR ''['' then
            (case skip_ws t of
               d # u \<Rightarrow> if d = CHR '']'' then Some (JArr [], u)
                         else map_option (\<lambda>(xs, r). (JArr xs, r)) (parse_elems n t)
             | [] \<Rightarrow> None)
          else if c = CHR 0x22 then map_option (\<lambda>(w, r). (JStr w, r)) (str_body t)
          else if c = CHR ''n'' then keyword ''null'' JNull (c # t)
          else if c = CHR ''t'' then keyword ''true'' (JBool True) (c # t)
          else if c = CHR ''f'' then keyword ''false'' (JBool False) (c # t)
          else let num = takeWhile number_char (c # t)
               in if valid_number num then Some (JNum num, drop (length num) (c # t)) else None)"
| "parse_elems 0 s = None"
| "parse_elems (Suc n) s =
     (case parse_value n s of
        None \<Rightarrow> None
      | Some (v, r) \<Rightarrow>
          (case skip_ws r of
             c # u \<Rightarrow>
               if c = CHR '']'' then Some ([v], u)
               else if c = CHR '','' then map_option (\<lambda>(vs, r'). (v # vs, r')) (parse_elems n u)
               else None
           | [] \<Rightarrow> None))"
| "parse_members 0 s = None"
| "parse_members (Suc n) s =
     (case skip_ws s of
        q # t \<Rightarrow>
          if q \<noteq> CHR 0x22 then None
          else (case str_body t of
             None \<Rightarrow> None
           | Some (k, r) \<Rightarrow>
               (case skip_ws r of
                  c # u \<Rightarrow>
                    if c \<noteq> CHR '':'' then None
                    else (case parse_value n u of
                       None \<Rightarrow> None
                     | Some (v, r2) \<Rightarrow>
                         (case skip_ws r2 of
                            d # x \<Rightarrow>
                              if d = CHR ''}'' then Some ([(k, v)], x)
                              else if d = CHR '','' then map_option (\<lambda>(kvs, r'). ((k, v) # kvs, r')) (parse_members n x)
                              else None
                          | [] \<Rightarrow> None))
                | [] \<Rightarrow> None))
      | [] \<Rightarrow> None)"

definition json_parse :: "string \<Rightarrow> (json \<times> string) option" where
  "json_parse s = parse_value (2 * length s + 2) s"

section \<open>Unambiguous documents\<close>

text \<open>\<open>strings.Map\<close> of the least member of every rune's fold orbit.\<close>

definition fold_rune :: "(string \<Rightarrow> string) \<Rightarrow> string \<Rightarrow> string" where
  "fold_rune orbit r =
     (case r of [c] \<Rightarrow> if is_lower c then [char_of (byte c - 32)] else if byte c < 128 then [c] else orbit r
      | _ \<Rightarrow> orbit r)"

function fold_key :: "(string \<Rightarrow> string) \<Rightarrow> string \<Rightarrow> string" where
  "fold_key orbit s =
     (if s = [] then []
      else let n = (case rune_len s of None \<Rightarrow> 1 | Some n \<Rightarrow> n)
           in fold_rune orbit (take n s) @ fold_key orbit (drop n s))"
  by pat_completeness auto
termination
  by (relation "measure (length \<circ> snd)") (auto dest: rune_len_pos split: option.splits)

declare fold_key.simps [simp del]

definition maxJSONDepth :: nat where
  "maxJSONDepth = 64"

fun uniqueJSONValue :: "(string \<Rightarrow> string) \<Rightarrow> nat \<Rightarrow> json \<Rightarrow> bool" where
  "uniqueJSONValue orbit depth (JObj kvs) =
     (depth \<le> maxJSONDepth \<and> distinct (map (fold_key orbit \<circ> fst) kvs) \<and>
      list_all (\<lambda>kv. uniqueJSONValue orbit (Suc depth) (snd kv)) kvs)"
| "uniqueJSONValue orbit depth (JArr xs) =
     (depth \<le> maxJSONDepth \<and> list_all (uniqueJSONValue orbit (Suc depth)) xs)"
| "uniqueJSONValue orbit depth v = (depth \<le> maxJSONDepth)"

section \<open>Schemas\<close>

datatype schema =
    SBase
  | SPtr schema
  | SSlice schema
  | SMap schema
  | SStruct "(string \<times> schema) list"

datatype create_err =
    ErrNotUTF8 | ErrAmbiguousJSON | ErrNotOneObject | ErrNotObject | ErrUnsupportedField string | ErrSchema
  | ErrPrivilegedDenied | ErrCapAddDenied | ErrCapDropMissingALL | ErrDevicesDenied | ErrPidModeDenied
  | ErrNetworkModeDenied | ErrIpcModeDenied | ErrUTSModeDenied | ErrUsernsModeDenied | ErrSysctlsDenied
  | ErrSecurityOptMissingNoNewPrivs | ErrSecurityOptUnsupported | ErrBindForbidden | ErrUserRequired
  | ErrImageNotAllowed | ErrEgressAttachDenied | ErrEgressVolumeDenied
  | ErrTmpfsTarget | ErrTmpfsFlags | ErrTmpfsDuplicate | ErrTmpfsFlagValue | ErrTmpfsOption | ErrTmpfsUnsupported
  | ErrNetworkDriver string | ErrNetworkNotInternal | ErrNetworkAttachable | ErrNetworkLabel string

fun first_err :: "'e option list \<Rightarrow> 'e option" where
  "first_err [] = None"
| "first_err (Some e # es) = Some e"
| "first_err (None # es) = first_err es"

text \<open>One level of pointer is stripped; the schemas have no pointer to a pointer.\<close>

definition strip_ptr :: "schema \<Rightarrow> schema" where
  "strip_ptr sc = (case sc of SPtr s \<Rightarrow> s | s \<Rightarrow> s)"

fun exactJSONFields :: "json \<Rightarrow> schema \<Rightarrow> create_err option" where
  "exactJSONFields (JObj kvs) sc =
     (case strip_ptr sc of
        SStruct fs \<Rightarrow>
          first_err (map (\<lambda>kv. case map_of fs (fst kv) of
              None \<Rightarrow> Some (ErrUnsupportedField (fst kv))
            | Some f \<Rightarrow> exactJSONFields (snd kv) f) kvs)
      | SMap e \<Rightarrow> first_err (map (\<lambda>kv. exactJSONFields (snd kv) e) kvs)
      | _ \<Rightarrow> None)"
| "exactJSONFields (JArr xs) sc =
     (case strip_ptr sc of
        SStruct fs \<Rightarrow> Some ErrNotObject
      | SSlice e \<Rightarrow> first_err (map (\<lambda>x. exactJSONFields x e) xs)
      | _ \<Rightarrow> None)"
| "exactJSONFields JNull sc =
     (case sc of SPtr s \<Rightarrow> None | SStruct fs \<Rightarrow> Some ErrNotObject | _ \<Rightarrow> None)"
| "exactJSONFields v sc = (case strip_ptr sc of SStruct fs \<Rightarrow> Some ErrNotObject | _ \<Rightarrow> None)"

section \<open>Unmarshalling\<close>

text \<open>\<open>json.Unmarshal\<close> per target type: \<open>None\<close> is a type error, a null leaves the zero value.\<close>

fun dec_bool :: "json \<Rightarrow> bool option" where
  "dec_bool (JBool b) = Some b"
| "dec_bool JNull = Some False"
| "dec_bool _ = None"

fun dec_str :: "json \<Rightarrow> string option" where
  "dec_str (JStr s) = Some s"
| "dec_str JNull = Some []"
| "dec_str _ = None"

definition parse_int64 :: "string \<Rightarrow> int option" where
  "parse_int64 s =
     (let neg = (s \<noteq> [] \<and> hd s = CHR ''-''); ds = (if neg then tl s else s);
          v = (if neg then - dec_val ds else dec_val ds)
      in if digits1 ds \<and> - (2 ^ 63) \<le> v \<and> v < 2 ^ 63 then Some v else None)"

fun dec_int :: "json \<Rightarrow> int option" where
  "dec_int (JNum s) = parse_int64 s"
| "dec_int JNull = Some 0"
| "dec_int _ = None"

fun opt_all :: "('a \<Rightarrow> 'b option) \<Rightarrow> 'a list \<Rightarrow> 'b list option" where
  "opt_all f [] = Some []"
| "opt_all f (x # xs) =
     (case f x of None \<Rightarrow> None | Some y \<Rightarrow> map_option (\<lambda>ys. y # ys) (opt_all f xs))"

definition dec_list :: "(json \<Rightarrow> 'a option) \<Rightarrow> json \<Rightarrow> 'a list option" where
  "dec_list f v = (case v of JArr xs \<Rightarrow> opt_all f xs | JNull \<Rightarrow> Some [] | _ \<Rightarrow> None)"

definition dec_map :: "(json \<Rightarrow> 'a option) \<Rightarrow> json \<Rightarrow> (string, 'a) gomap option" where
  "dec_map f v =
     (case v of
        JObj kvs \<Rightarrow> opt_all (\<lambda>kv. map_option (\<lambda>y. (fst kv, y)) (f (snd kv))) kvs
      | JNull \<Rightarrow> Some [] | _ \<Rightarrow> None)"

text \<open>A field of an object, decoded; a missing field keeps the zero value.\<close>

definition field :: "json \<Rightarrow> string \<Rightarrow> 'a \<Rightarrow> (json \<Rightarrow> 'a option) \<Rightarrow> 'a option" where
  "field v k z f = (case v of JObj kvs \<Rightarrow> (case map_of kvs k of None \<Rightarrow> Some z | Some x \<Rightarrow> f x) | _ \<Rightarrow> None)"

section \<open>decodeCreate\<close>

definition decodeCreate ::
  "(string \<Rightarrow> string) \<Rightarrow> schema \<Rightarrow> (json \<Rightarrow> 'a option) \<Rightarrow> string \<Rightarrow> create_err + 'a" where
  "decodeCreate orbit sc dec body =
     (if \<not> utf8_Valid body then Inl ErrNotUTF8
      else case json_parse body of
        None \<Rightarrow> Inl ErrAmbiguousJSON
      | Some (v, rest) \<Rightarrow>
          if \<not> uniqueJSONValue orbit 0 v then Inl ErrAmbiguousJSON
          else if skip_ws rest \<noteq> [] then Inl ErrNotOneObject
          else case exactJSONFields v sc of
            Some err \<Rightarrow> Inl err
          | None \<Rightarrow> (case dec v of None \<Rightarrow> Inl ErrSchema | Some req \<Rightarrow> Inr req))"

section \<open>The parser's fuel\<close>

lemma skip_ws_Cons: "skip_ws s = c # t \<Longrightarrow> length t < length s"
  using length_dropWhile_le [of is_ws s] by (simp add: skip_ws_def)

lemma str_body_length: "str_body s = Some (w, r) \<Longrightarrow> length r < length s"
proof (induction s arbitrary: w r rule: str_body.induct)
  case (1 s)
  obtain c t where s: "s = c # t" using "1.prems" by (cases s) (auto simp: str_body.simps)
  from "1.prems" consider "r = t"
    | d u w' where "c \<noteq> CHR 0x22" "c = CHR 0x5C" "unescape t = Some (d, u)" "str_body u = Some (w', r)"
    | w' where "c \<noteq> CHR 0x22" "c \<noteq> CHR 0x5C" "\<not> byte c < 32" "str_body t = Some (w', r)"
    unfolding s str_body.simps [of "c # t"] by (auto split: if_splits option.splits)
  then show ?case
  proof cases
    case 2
    then show ?thesis using "1.IH"(1) [OF s 2(1,2,3) refl 2(4)] unescape_length [OF 2(3)] s by simp
  next
    case 3
    then show ?thesis using "1.IH"(2) [OF s 3] s by simp
  qed (simp add: s)
qed

lemma number_progress: "valid_number num \<Longrightarrow> num \<noteq> []"
  by (auto simp: valid_number_def int_part_def digits1_def)

text \<open>What a value starts with.\<close>

lemma parse_value_cases:
  assumes "parse_value (Suc n) s = Some (v, r)"
  obtains c t where "skip_ws s = c # t" "length r \<le> length t"
  | c t kvs where "skip_ws s = c # t" "parse_members n t = Some (kvs, r)"
  | c t xs where "skip_ws s = c # t" "parse_elems n t = Some (xs, r)"
proof -
  obtain c t where s: "skip_ws s = c # t" using assms by (cases "skip_ws s") auto
  have num: "length (drop (length num) (c # t)) \<le> length t" if "num \<noteq> []" for num :: string
    using that by (cases num) simp_all
  show ?thesis
  proof (cases "c = CHR ''{'' \<or> c = CHR ''[''")
    case True
    then show ?thesis using assms s that skip_ws_Cons [of t] by (fastforce split: list.splits if_splits)
  next
    case False
    then have "length r \<le> length t"
      using assms s str_body_length [of t] num
      by (fastforce simp: keyword_def Let_def dest!: number_progress split: if_splits)
    then show ?thesis using s that(1) by blast
  qed
qed

lemma parse_elems_cases:
  assumes "parse_elems (Suc n) s = Some (vs, r)"
  obtains v u where "parse_value n s = Some (v, u)" "\<exists>c. skip_ws u = c # r"
  | v u c t ws where "parse_value n s = Some (v, u)" "skip_ws u = c # t" "parse_elems n t = Some (ws, r)"
  using assms that by (fastforce split: option.splits list.splits if_splits)

lemma parse_members_cases:
  assumes "parse_members (Suc n) s = Some (kvs, r)"
  obtains q t k u c x v y d z where "skip_ws s = q # t" "str_body t = Some (k, u)" "skip_ws u = c # x"
    "parse_value n x = Some (v, y)" "skip_ws y = d # z" "r = z \<or> (\<exists>ws. parse_members n z = Some (ws, r))"
  using assms by (fastforce split: option.splits list.splits if_splits intro: that)

lemma parse_progress:
  "parse_value n s = Some (v, r) \<Longrightarrow> length r < length s"
  "parse_elems n s = Some (vs, r) \<Longrightarrow> length r < length s"
  "parse_members n s = Some (kvs, r) \<Longrightarrow> length r < length s"
proof -
  have "(\<forall>s v r. parse_value n s = Some (v, r) \<longrightarrow> length r < length s) \<and>
   (\<forall>s vs r. parse_elems n s = Some (vs, r) \<longrightarrow> length r < length s) \<and>
   (\<forall>s kvs r. parse_members n s = Some (kvs, r) \<longrightarrow> length r < length s)"
  proof (induction n)
    case (Suc n)
    note v = Suc.IH [THEN conjunct1, rule_format] and e = Suc.IH [THEN conjunct2, THEN conjunct1, rule_format]
      and m = Suc.IH [THEN conjunct2, THEN conjunct2, rule_format]
    have "length r < length s" if "parse_value (Suc n) s = Some (v, r)" for v r s
      using that
    proof (cases rule: parse_value_cases)
      case 1 then show ?thesis using skip_ws_Cons by fastforce
    next
      case 2 from skip_ws_Cons [OF 2(1)] m [OF 2(2)] show ?thesis by simp
    next
      case 3 from skip_ws_Cons [OF 3(1)] e [OF 3(2)] show ?thesis by simp
    qed
    moreover have "length r < length s" if "parse_elems (Suc n) s = Some (vs, r)" for vs r s
      using that
    proof (cases rule: parse_elems_cases)
      case (1 y u) then show ?thesis using v [OF 1(1)] skip_ws_Cons [of u] by fastforce
    next
      case 2 from v [OF 2(1)] skip_ws_Cons [OF 2(2)] e [OF 2(3)] show ?thesis by simp
    qed
    moreover have "length r < length s" if "parse_members (Suc n) s = Some (kvs, r)" for kvs r s
      using that
    proof (cases rule: parse_members_cases)
      case 1
      show ?thesis
        using skip_ws_Cons [OF 1(1)] str_body_length [OF 1(2)] skip_ws_Cons [OF 1(3)] v [OF 1(4)]
          skip_ws_Cons [OF 1(5)] 1(6) m by fastforce
    qed
    ultimately show ?case by blast
  qed simp
  then show "parse_value n s = Some (v, r) \<Longrightarrow> length r < length s"
    "parse_elems n s = Some (vs, r) \<Longrightarrow> length r < length s"
    "parse_members n s = Some (kvs, r) \<Longrightarrow> length r < length s" by blast+
qed

text \<open>Two calls per byte and two more are enough: more fuel changes nothing.\<close>

lemma parse_fuel:
  "(2 * length s + 1 \<le> n \<longrightarrow> parse_value (Suc n) s = parse_value n s) \<and>
   (2 * length s + 2 \<le> n \<longrightarrow> parse_elems (Suc n) s = parse_elems n s) \<and>
   (2 * length s + 2 \<le> n \<longrightarrow> parse_members (Suc n) s = parse_members n s)"
proof (induction n arbitrary: s)
  case (Suc n)
  note v = Suc.IH [THEN conjunct1, rule_format] and e = Suc.IH [THEN conjunct2, THEN conjunct1, rule_format]
    and m = Suc.IH [THEN conjunct2, THEN conjunct2, rule_format]
  have "parse_value (Suc (Suc n)) s = parse_value (Suc n) s" if "2 * length s + 1 \<le> Suc n"
  proof (cases "skip_ws s")
    case (Cons c t)
    then have "parse_elems (Suc n) t = parse_elems n t" "parse_members (Suc n) t = parse_members n t"
      using skip_ws_Cons [OF Cons] that by (intro e m, linarith)+
    then show ?thesis by (simp only: parse_value.simps(2) Cons list.case)
  qed simp
  moreover have "parse_elems (Suc (Suc n)) s = parse_elems (Suc n) s" if f: "2 * length s + 2 \<le> Suc n"
  proof -
    have pv: "parse_value (Suc n) s = parse_value n s" using f by (intro v) simp
    show ?thesis
    proof (cases "parse_value n s")
      case (Some p)
      obtain x u where p: "p = (x, u)" by force
      show ?thesis
      proof (cases "skip_ws u")
        case (Cons c t)
        have "parse_elems (Suc n) t = parse_elems n t"
          using parse_progress(1) [OF Some [unfolded p]] skip_ws_Cons [OF Cons] f by (intro e) simp
        then show ?thesis by (simp only: parse_elems.simps(2) pv Some p Cons option.case prod.case list.case)
      qed (simp only: parse_elems.simps(2) pv Some p option.case prod.case list.case)
    qed (simp only: parse_elems.simps(2) pv option.case)
  qed
  moreover have "parse_members (Suc (Suc n)) s = parse_members (Suc n) s" if f: "2 * length s + 2 \<le> Suc n"
  proof (cases "skip_ws s")
    case (Cons q t)
    show ?thesis
    proof (cases "str_body t")
      case (Some p)
      obtain k u where p: "p = (k, u)" by force
      show ?thesis
      proof (cases "skip_ws u")
        case C2: (Cons c x)
        have lx: "length x < length s"
          using skip_ws_Cons [OF Cons] str_body_length [OF Some [unfolded p]] skip_ws_Cons [OF C2] by simp
        have pv: "parse_value (Suc n) x = parse_value n x" using f lx by (intro v) simp
        show ?thesis
        proof (cases "parse_value n x")
          case S2: (Some p2)
          obtain y z where p2: "p2 = (y, z)" by force
          show ?thesis
          proof (cases "skip_ws z")
            case C3: (Cons d zz)
            have "parse_members (Suc n) zz = parse_members n zz"
              using lx parse_progress(1) [OF S2 [unfolded p2]] skip_ws_Cons [OF C3] f by (intro m) simp
            then show ?thesis
              by (simp only: parse_members.simps(2) Cons Some p C2 pv S2 p2 C3 option.case prod.case list.case)
          qed (simp only: parse_members.simps(2) Cons Some p C2 pv S2 p2 option.case prod.case list.case)
        qed (simp only: parse_members.simps(2) Cons Some p C2 pv option.case prod.case list.case)
      qed (simp only: parse_members.simps(2) Cons Some p option.case prod.case list.case)
    qed (simp only: parse_members.simps(2) Cons option.case list.case)
  qed (simp only: parse_members.simps(2) list.case)
  ultimately show ?case by blast
qed simp

lemma json_parse_fuel: "2 * length s + 2 \<le> n \<Longrightarrow> parse_value n s = json_parse s"
proof (induction n rule: dec_induct)
  case (step n)
  then show ?case using parse_fuel [of s n] by (simp only:)
qed (simp only: json_parse_def)

end
