(* ===== verification/Compose_Model.thy ===== *)
theory Compose_Model
  imports Spawn_Data Proxy_JSON
begin

text \<open>
  The Compose backend: the Docker client \<open>internal/docker/client.go\<close>, the container stack of
  \<open>internal/docker/spawn.go\<close> and \<open>internal/backend/compose/compose.go\<close>.

  The Docker daemon behind the socket proxy and the file system are the environment
  \<open>DockerEnv\<close>: what the \<open>n\<close>-th call is answered, as a function of the call. \<open>DockerState\<close> counts
  the calls and logs what the daemon acknowledged, which the program itself does not keep. A
  response body is the document the client decodes; \<open>DBad\<close> is one it cannot decode.
\<close>

section \<open>The client's data\<close>

record HostConfig =
  dhCapDrop :: "string list"
  dhSecurityOpt :: "string list"
  dhNetworkMode :: string
  dhMemory :: int
  dhNanoCPUs :: int
  dhPidsLimit :: int
  dhReadonlyRootfs :: bool
  dhTmpfs :: "(string, string) gomap"
  dhBinds :: "string list"
  dhAutoRemove :: bool

record CreateContainerRequest =
  crName :: string
  crImage :: string
  crUser :: string
  crEnv :: "string list"
  crCmd :: "string list"
  crEntrypoint :: "string list"
  crLabels :: "(string, string) gomap"
  crHostConfig :: HostConfig
  crNetworkingConfig :: "(string, string list) gomap option"

record CreateNetworkRequest =
  cnName :: string
  cnDriver :: string
  cnInternal :: bool
  cnAttachable :: bool
  cnLabels :: "(string, string) gomap"

record Inspect =
  insID :: string
  insState :: string
  insExitCode :: int

record Container =
  dcID :: string
  dcName :: string
  dcLabels :: "(string, string) gomap"

record Network =
  dnID :: string
  dnName :: string
  dnLabels :: "(string, string) gomap"

datatype DBody = BContainer CreateContainerRequest | BNetwork CreateNetworkRequest

datatype DDoc =
    DId string
  | DInspect Inspect
  | DContainers "(string \<times> string list \<times> (string, string) gomap) list"
  | DNetworks "Network list"
  | DBad string

record DResponse =
  drStatus :: int
  drText :: string
  drDoc :: DDoc

datatype DEvent =
    MadeContainer string CreateContainerRequest
  | MadeNetwork string CreateNetworkRequest
  | GoneContainer string
  | GoneNetwork string

record DockerState =
  dkCalls :: nat
  dkLog :: "DEvent list"

record DockerEnv =
  deHTTP :: "nat \<Rightarrow> string \<Rightarrow> string \<Rightarrow> DBody option \<Rightarrow> gerr + DResponse"
  deRemoveAll :: "nat \<Rightarrow> string \<Rightarrow> gerr option"

section \<open>The bodies on the wire\<close>

text \<open>The members of a map are sorted by key.\<close>

definition json_strmap :: "(string, string) gomap \<Rightarrow> json" where
  "json_strmap m = JObj (map (\<lambda>(k, v). (k, JStr v)) (sort_key fst m))"

definition json_HostConfig :: "HostConfig \<Rightarrow> json" where
  "json_HostConfig h = JObj
     ([(''CapDrop'', json_strs (dhCapDrop h)), (''SecurityOpt'', json_strs (dhSecurityOpt h)),
       (''NetworkMode'', JStr (dhNetworkMode h))] @
      omit (dhMemory h = 0) ''Memory'' (json_int (dhMemory h)) @
      omit (dhNanoCPUs h = 0) ''NanoCpus'' (json_int (dhNanoCPUs h)) @
      omit (dhPidsLimit h = 0) ''PidsLimit'' (json_int (dhPidsLimit h)) @
      omit (\<not> dhReadonlyRootfs h) ''ReadonlyRootfs'' (JBool (dhReadonlyRootfs h)) @
      omit (dhTmpfs h = []) ''Tmpfs'' (json_strmap (dhTmpfs h)) @
      omit (dhBinds h = []) ''Binds'' (json_strs (dhBinds h)) @
      omit (\<not> dhAutoRemove h) ''AutoRemove'' (JBool (dhAutoRemove h)))"

definition json_endpoints :: "(string, string list) gomap \<Rightarrow> json" where
  "json_endpoints eps = JObj
     [(''EndpointsConfig'', JObj (map (\<lambda>(k, as). (k, JObj (omit (as = []) ''Aliases'' (json_strs as)))) (sort_key fst eps)))]"

definition json_container :: "CreateContainerRequest \<Rightarrow> json" where
  "json_container r = JObj
     ([(''Image'', JStr (crImage r)), (''User'', JStr (crUser r))] @
      omit (crEnv r = []) ''Env'' (json_strs (crEnv r)) @
      omit (crCmd r = []) ''Cmd'' (json_strs (crCmd r)) @
      omit (crEntrypoint r = []) ''Entrypoint'' (json_strs (crEntrypoint r)) @
      omit (crLabels r = []) ''Labels'' (json_strmap (crLabels r)) @
      [(''HostConfig'', json_HostConfig (crHostConfig r))] @
      (case crNetworkingConfig r of None \<Rightarrow> [] | Some eps \<Rightarrow> [(''NetworkingConfig'', json_endpoints eps)]))"

definition json_network :: "CreateNetworkRequest \<Rightarrow> json" where
  "json_network r = JObj
     [(''Name'', JStr (cnName r)), (''Driver'', JStr (cnDriver r)), (''Internal'', JBool (cnInternal r)),
      (''Attachable'', JBool (cnAttachable r)), (''Labels'', json_strmap (cnLabels r))]"

section \<open>The client\<close>

definition dk_do ::
  "DockerEnv \<Rightarrow> string \<Rightarrow> string \<Rightarrow> DBody option \<Rightarrow> DockerState \<Rightarrow> (gerr + DResponse) \<times> DockerState" where
  "dk_do c method path body s =
     (let s1 = s\<lparr>dkCalls := dkCalls s + 1\<rparr> in
      case deHTTP c (dkCalls s) method path body of
        Inl e \<Rightarrow> (Inl e, s1)
      | Inr resp \<Rightarrow>
          if drStatus resp = 403 then (Inl (Wrap [] (Sentinel ErrPolicyDenied) ('': '' @ drText resp)), s1)
          else (Inr resp, s1))"

definition dk_log :: "DEvent \<Rightarrow> DockerState \<Rightarrow> DockerState" where
  "dk_log ev s = s\<lparr>dkLog := dkLog s @ [ev]\<rparr>"

definition is_2xx :: "DResponse \<Rightarrow> bool" where
  "is_2xx resp = (drStatus resp div 100 = 2)"

definition status_error :: "string \<Rightarrow> DResponse \<Rightarrow> gerr" where
  "status_error what resp = Plain (''docker: '' @ what @ '': status '' @ show_int (drStatus resp))"

definition status_text_error :: "string \<Rightarrow> DResponse \<Rightarrow> gerr" where
  "status_text_error what resp =
     Plain (''docker: '' @ what @ '': status '' @ show_int (drStatus resp) @ '': '' @ drText resp)"

text \<open>Decoding a create response: another document leaves the identifier empty.\<close>

definition decode_id :: "DDoc \<Rightarrow> gerr + string" where
  "decode_id d = (case d of DId i \<Rightarrow> Inr i | DBad e \<Rightarrow> Inl (Plain e) | _ \<Rightarrow> Inr [])"

definition CreateContainer ::
  "DockerEnv \<Rightarrow> CreateContainerRequest \<Rightarrow> DockerState \<Rightarrow> (gerr + string) \<times> DockerState" where
  "CreateContainer c r s =
     (let path = ''/containers/create'' @ (if crName r \<noteq> [] then ''?name='' @ QueryEscape (crName r) else []) in
      case dk_do c ''POST'' path (Some (BContainer r)) s of
        (Inl e, s1) \<Rightarrow> (Inl e, s1)
      | (Inr resp, s1) \<Rightarrow>
          if \<not> is_2xx resp then (Inl (status_text_error ''containers/create'' resp), s1)
          else (case decode_id (drDoc resp) of
                  Inl e \<Rightarrow> (Inl e, s1)
                | Inr i \<Rightarrow> (Inr i, dk_log (MadeContainer i r) s1)))"

definition StartContainer :: "DockerEnv \<Rightarrow> string \<Rightarrow> DockerState \<Rightarrow> gerr option \<times> DockerState" where
  "StartContainer c i s =
     (case dk_do c ''POST'' (''/containers/'' @ i @ ''/start'') None s of
        (Inl e, s1) \<Rightarrow> (Some e, s1)
      | (Inr resp, s1) \<Rightarrow>
          if drStatus resp \<noteq> 204 \<and> \<not> is_2xx resp then (Some (status_text_error (''start '' @ i) resp), s1)
          else (None, s1))"

definition InspectContainer :: "DockerEnv \<Rightarrow> string \<Rightarrow> DockerState \<Rightarrow> (gerr + Inspect) \<times> DockerState" where
  "InspectContainer c i s =
     (case dk_do c ''GET'' (''/containers/'' @ i @ ''/json'') None s of
        (Inl e, s1) \<Rightarrow> (Inl e, s1)
      | (Inr resp, s1) \<Rightarrow>
          if \<not> is_2xx resp then (Inl (status_error (''inspect '' @ i) resp), s1)
          else (case drDoc resp of
                  DInspect ins \<Rightarrow> (Inr ins, s1)
                | DBad e \<Rightarrow> (Inl (Plain e), s1)
                | DId j \<Rightarrow> (Inr \<lparr>insID = j, insState = [], insExitCode = 0\<rparr>, s1)
                | _ \<Rightarrow> (Inr \<lparr>insID = [], insState = [], insExitCode = 0\<rparr>, s1)))"

definition DeleteContainer :: "DockerEnv \<Rightarrow> string \<Rightarrow> bool \<Rightarrow> DockerState \<Rightarrow> gerr option \<times> DockerState" where
  "DeleteContainer c i force s =
     (case dk_do c ''DELETE'' (''/containers/'' @ i @ (if force then ''?force=true'' else [])) None s of
        (Inl e, s1) \<Rightarrow> (Some e, s1)
      | (Inr resp, s1) \<Rightarrow>
          if drStatus resp \<noteq> 204 \<and> drStatus resp \<noteq> 404 then (Some (status_error (''delete '' @ i) resp), s1)
          else (None, dk_log (GoneContainer i) s1))"

definition CreateNetwork ::
  "DockerEnv \<Rightarrow> CreateNetworkRequest \<Rightarrow> DockerState \<Rightarrow> (gerr + string) \<times> DockerState" where
  "CreateNetwork c r s =
     (case dk_do c ''POST'' ''/networks/create'' (Some (BNetwork r)) s of
        (Inl e, s1) \<Rightarrow> (Inl e, s1)
      | (Inr resp, s1) \<Rightarrow>
          if \<not> is_2xx resp then (Inl (status_text_error ''networks/create'' resp), s1)
          else (case decode_id (drDoc resp) of
                  Inl e \<Rightarrow> (Inl e, s1)
                | Inr i \<Rightarrow> (Inr i, dk_log (MadeNetwork i r) s1)))"

definition DeleteNetwork :: "DockerEnv \<Rightarrow> string \<Rightarrow> DockerState \<Rightarrow> gerr option \<times> DockerState" where
  "DeleteNetwork c i s =
     (case dk_do c ''DELETE'' (''/networks/'' @ i) None s of
        (Inl e, s1) \<Rightarrow> (Some e, s1)
      | (Inr resp, s1) \<Rightarrow>
          if drStatus resp \<noteq> 204 \<and> drStatus resp \<noteq> 404 then (Some (status_error (''delete network '' @ i) resp), s1)
          else (None, dk_log (GoneNetwork i) s1))"

definition scope_filter :: "string \<Rightarrow> string" where
  "scope_filter scope =
     [CHR ''{'', CHR 0x22] @ ''label'' @ [CHR 0x22, CHR '':'', CHR ''['', CHR 0x22] @ ''runsecure.scope='' @ scope @
     [CHR 0x22, CHR '']'', CHR ''}'']"

definition ListContainersForScope ::
  "DockerEnv \<Rightarrow> string \<Rightarrow> DockerState \<Rightarrow> (gerr + Container list) \<times> DockerState" where
  "ListContainersForScope c scope s =
     (case dk_do c ''GET'' (''/containers/json?all=true&filters='' @ QueryEscape (scope_filter scope)) None s of
        (Inl e, s1) \<Rightarrow> (Inl e, s1)
      | (Inr resp, s1) \<Rightarrow>
          if \<not> is_2xx resp then (Inl (status_error ''containers/json'' resp), s1)
          else (case drDoc resp of
                  DContainers cs \<Rightarrow>
                    (Inr (map (\<lambda>(i, names, labels).
                        \<lparr>dcID = i, dcName = (case names of [] \<Rightarrow> [] | n # _ \<Rightarrow> TrimPrefix n ''/''), dcLabels = labels\<rparr>) cs), s1)
                | DBad e \<Rightarrow> (Inl (Plain e), s1)
                | _ \<Rightarrow> (Inl (Plain ''json: cannot unmarshal object into Go value of type []docker.containerJSON''), s1)))"

definition ListNetworksForScope ::
  "DockerEnv \<Rightarrow> string \<Rightarrow> DockerState \<Rightarrow> (gerr + Network list) \<times> DockerState" where
  "ListNetworksForScope c scope s =
     (case dk_do c ''GET'' (''/networks?filters='' @ QueryEscape (scope_filter scope)) None s of
        (Inl e, s1) \<Rightarrow> (Inl e, s1)
      | (Inr resp, s1) \<Rightarrow>
          if \<not> is_2xx resp then (Inl (status_text_error ''networks'' resp), s1)
          else (case drDoc resp of
                  DNetworks ns \<Rightarrow> (Inr ns, s1)
                | DBad e \<Rightarrow> (Inl (Plain e), s1)
                | _ \<Rightarrow> (Inl (Plain ''json: cannot unmarshal object into Go value of type []docker.networkJSON''), s1)))"

section \<open>The container stack\<close>

record SpawnInputs =
  suScope :: string
  suRepo :: string
  suSpawnID :: string
  suVersion :: string
  suBuildSHA :: string
  suNetworkID :: string
  suEgressNetwork :: string
  suRunnerImage :: string
  suProxyImage :: string
  suSeccompProfilePath :: string
  suMemory :: int
  suNanoCPUs :: int
  suPIDs :: int
  suJITConfigB64 :: string
  suEgressVolume :: string
  suEgressMountPath :: string
  suLabels :: "string list"
  suEnableDNSMasq :: bool

definition RunnerEntrypoint :: string where
  "RunnerEntrypoint = ''/home/runner/entrypoint.sh''"

definition EgressMountPath :: string where
  "EgressMountPath = ''/var/run/runsecure/egress''"

definition no_new_privileges :: string where
  "no_new_privileges = ''no-new-privileges:true''"

definition tmpfs_proxy_opts :: string where
  "tmpfs_proxy_opts = ''noexec,nosuid,nodev,uid=1001,gid=1001,mode=750''"

definition common_labels :: "SpawnInputs \<Rightarrow> (string, string) gomap" where
  "common_labels su = [(''runsecure.scope'', suScope su), (''runsecure.repo'', suRepo su),
     (''runsecure.spawn_id'', suSpawnID su)]"

definition hc_base :: "SpawnInputs \<Rightarrow> HostConfig" where
  "hc_base su = \<lparr>dhCapDrop = [''ALL''], dhSecurityOpt = [no_new_privileges], dhNetworkMode = suNetworkID su,
     dhMemory = 0, dhNanoCPUs = 0, dhPidsLimit = 0, dhReadonlyRootfs = True, dhTmpfs = [], dhBinds = [],
     dhAutoRemove = False\<rparr>"

definition proxy_request :: "SpawnInputs \<Rightarrow> CreateContainerRequest" where
  "proxy_request su =
     (let spawnDir = suEgressMountPath su @ ''/'' @ suSpawnID su in
      \<lparr>crName = ''rs-'' @ suSpawnID su @ ''-proxy'', crImage = suProxyImage su, crUser = ''1001:0'',
       crEnv = [''ENABLE_HAPROXY=true'', ''SQUID_CFG='' @ spawnDir @ ''/squid.conf'',
                ''HAPROXY_CFG='' @ spawnDir @ ''/haproxy.cfg'', ''DNSMASQ_CFG='' @ spawnDir @ ''/dnsmasq.conf''] @
               (if suEnableDNSMasq su then [''ENABLE_DNSMASQ=true''] else []),
       crCmd = [], crEntrypoint = [],
       crLabels = common_labels su @ [(''runsecure.role'', ''proxy'')],
       crHostConfig = (hc_base su)
         \<lparr>dhBinds := [suEgressVolume su @ '':'' @ suEgressMountPath su @ '':ro''],
          dhTmpfs := map (\<lambda>t. (t, tmpfs_proxy_opts))
            [''/var/run/squid'', ''/var/log/squid'', ''/var/spool/squid'', ''/var/lib/haproxy'', ''/run'', ''/tmp'']\<rparr>,
       crNetworkingConfig = Some
         (let eps = [(suNetworkID su, [''proxy''])]
          in if suEgressNetwork su \<noteq> [] then AList.update (suEgressNetwork su) [] eps else eps)\<rparr>)"

definition runner_request :: "SpawnInputs \<Rightarrow> CreateContainerRequest" where
  "runner_request su =
     \<lparr>crName = ''rs-'' @ suSpawnID su @ ''-runner'', crImage = suRunnerImage su, crUser = ''1001:0'',
      crEnv = [''RUNNER_JIT_CONFIG='' @ suJITConfigB64 su, ''RUNSECURE_SCOPE='' @ suScope su,
               ''RUNSECURE_VERSION='' @ suVersion su, ''RUNSECURE_BUILD_SHA='' @ suBuildSHA su,
               ''RUNSECURE_SPAWN_ID='' @ suSpawnID su, ''RUNSECURE_RUNNER_IMAGE_REF='' @ suRunnerImage su,
               ''RUNSECURE_PROXY_IMAGE_REF='' @ suProxyImage su,
               ''HTTP_PROXY=http://proxy:3128'', ''HTTPS_PROXY=http://proxy:3128'', ''NO_PROXY=localhost,127.0.0.1'',
               ''http_proxy=http://proxy:3128'', ''https_proxy=http://proxy:3128'', ''no_proxy=localhost,127.0.0.1''],
      crCmd = [], crEntrypoint = [RunnerEntrypoint],
      crLabels = common_labels su @ [(''runsecure.role'', ''runner'')],
      crHostConfig = (hc_base su)
        \<lparr>dhReadonlyRootfs := False, dhMemory := suMemory su, dhNanoCPUs := suNanoCPUs su, dhPidsLimit := suPIDs su,
         dhTmpfs := [(''/tmp'', ''noexec,nosuid,nodev,size=512m'')],
         dhSecurityOpt := [no_new_privileges] @
           (if suSeccompProfilePath su \<noteq> [] then [''seccomp='' @ suSeccompProfilePath su] else [])\<rparr>,
      crNetworkingConfig = Some [(suNetworkID su, [])]\<rparr>"

text \<open>The rollback: every created container is deleted, whatever the others do.\<close>

fun rollback_all :: "DockerEnv \<Rightarrow> (string, string) gomap \<Rightarrow> DockerState \<Rightarrow> gerr option list \<times> DockerState" where
  "rollback_all c [] s = ([], s)"
| "rollback_all c ((role, i) # m) s =
     (let (e, s1) = DeleteContainer c i True s; (es, s2) = rollback_all c m s1
      in (map_option (\<lambda>x. Wrap (''delete container '' @ i @ '': '') x []) e # es, s2))"

definition stack_fail ::
  "DockerEnv \<Rightarrow> (string, string) gomap \<Rightarrow> gerr \<Rightarrow> DockerState \<Rightarrow> ((string, string) gomap \<times> gerr option) \<times> DockerState" where
  "stack_fail c created cause s =
     (let (es, s1) = rollback_all c created s in
      case errors_Join es of
        Some cleanup \<Rightarrow> ((created, Some (SpawnRollbackError cause cleanup)), s1)
      | None \<Rightarrow> ((created, Some cause), s1))"

definition docker_Spawn ::
  "DockerEnv \<Rightarrow> SpawnInputs \<Rightarrow> DockerState \<Rightarrow> ((string, string) gomap \<times> gerr option) \<times> DockerState" where
  "docker_Spawn c su s =
     (case CreateContainer c (proxy_request su) s of
        (Inl e, s1) \<Rightarrow> stack_fail c [] (Wrap ''docker: create proxy: '' e []) s1
      | (Inr proxyID, s1) \<Rightarrow>
          (case CreateContainer c (runner_request su) s1 of
             (Inl e, s2) \<Rightarrow> stack_fail c [(''proxy'', proxyID)] (Wrap ''docker: create runner: '' e []) s2
           | (Inr runnerID, s2) \<Rightarrow>
               let created = [(''proxy'', proxyID), (''runner'', runnerID)] in
               (case StartContainer c proxyID s2 of
                  (Some e, s3) \<Rightarrow> stack_fail c created (Wrap ''docker: start proxy: '' e []) s3
                | (None, s3) \<Rightarrow>
                    (case StartContainer c runnerID s3 of
                       (Some e, s4) \<Rightarrow> stack_fail c created (Wrap ''docker: start runner: '' e []) s4
                     | (None, s4) \<Rightarrow> ((created, None), s4)))))"

section \<open>The backend\<close>

definition ReplaceAll_char :: "char \<Rightarrow> char \<Rightarrow> string \<Rightarrow> string" where
  "ReplaceAll_char a b s = map (\<lambda>c. if c = a then b else c) s"

definition compose_network_name :: "SpawnInput \<Rightarrow> string" where
  "compose_network_name inp =
     ''rs-net-'' @ ReplaceAll_char CHR ''/'' CHR ''_'' (inRepo inp) @ ''-'' @ inSpawnID inp"

definition network_request :: "SpawnInput \<Rightarrow> CreateNetworkRequest" where
  "network_request inp =
     \<lparr>cnName = compose_network_name inp, cnDriver = ''bridge'', cnInternal = True, cnAttachable = False,
      cnLabels = [(''runsecure.scope'', inScope inp), (''runsecure.repo'', inRepo inp), (''runsecure.spawn_id'', inSpawnID inp)]\<rparr>"

definition stack_inputs :: "SpawnInput \<Rightarrow> string \<Rightarrow> SpawnInputs" where
  "stack_inputs inp netID =
     \<lparr>suScope = inScope inp, suRepo = inRepo inp, suSpawnID = inSpawnID inp, suVersion = inVersion inp,
      suBuildSHA = inBuildSHA inp, suNetworkID = netID, suEgressNetwork = inEgressNetwork inp,
      suRunnerImage = inRunnerImage inp, suProxyImage = inProxyImage inp,
      suSeccompProfilePath = inSeccompProfilePath inp, suMemory = inResourcesMemory inp,
      suNanoCPUs = inResourcesNanoCPUs inp, suPIDs = inResourcesPIDs inp, suJITConfigB64 = inJITConfigB64 inp,
      suEgressVolume = inEgressVolume inp, suEgressMountPath = EgressMountPath, suLabels = inLabels inp,
      suEnableDNSMasq = inEnableDNSMasq inp\<rparr>"

definition compose_handle :: "SpawnInput \<Rightarrow> string \<Rightarrow> (string, string) gomap \<Rightarrow> Handle" where
  "compose_handle inp netID created =
     \<lparr>hSpawnID = inSpawnID inp, hBackend = ''compose'',
      hRefs = fold (\<lambda>(role, i) m. AList.update role i m) created
        [(''network'', netID), (''network_name'', compose_network_name inp), (''egress_config_dir'', inEgressConfigDir inp)]\<rparr>"

definition compose_Spawn ::
  "DockerEnv \<Rightarrow> SpawnInput \<Rightarrow> DockerState \<Rightarrow> (Handle \<times> gerr option) \<times> DockerState" where
  "compose_Spawn c inp s =
     (case CreateNetwork c (network_request inp) s of
        (Inl e, s1) \<Rightarrow> ((zero_Handle, Some (Wrap ''compose: create network: '' e [])), s1)
      | (Inr netID, s1) \<Rightarrow>
          (case docker_Spawn c (stack_inputs inp netID) s1 of
             ((created, None), s2) \<Rightarrow> ((compose_handle inp netID created, None), s2)
           | ((created, Some e), s2) \<Rightarrow>
               let (networkErr, s3) = DeleteNetwork c netID s2;
                   spawnErr = Wrap ''compose: spawn containers: '' e [] in
               if HasIncompleteRollback e \<or> networkErr \<noteq> None
               then ((compose_handle inp netID created,
                      (case networkErr of
                         None \<Rightarrow> Some spawnErr
                       | Some ne \<Rightarrow> errors_Join [Some spawnErr, Some (Wrap (''compose: rollback network '' @ netID @ '': '') ne [])])), s3)
               else ((zero_Handle, Some spawnErr), s3)))"

text \<open>\<open>WaitForExit\<close>: the environment decides whether the select sees the context, the deadline or
  the next tick.\<close>

datatype WaitEvent = WaitCancelled | WaitDeadline | WaitTick

fun compose_WaitForExit ::
  "nat \<Rightarrow> DockerEnv \<Rightarrow> (nat \<Rightarrow> WaitEvent) \<Rightarrow> Handle \<Rightarrow> DockerState \<Rightarrow> ((int \<times> bool) \<times> DockerState) option" where
  "compose_WaitForExit 0 c sel h s = None"
| "compose_WaitForExit (Suc fuel) c sel h s =
     (case InspectContainer c (lookup_or [] (hRefs h) ''runner'') s of
        (r, s1) \<Rightarrow>
          (case r of
             Inr ins \<Rightarrow>
               if insState ins = ''exited'' then Some ((insExitCode ins, False), s1)
               else (case sel (dkCalls s) of
                       WaitCancelled \<Rightarrow> Some ((- 1, False), s1)
                     | WaitDeadline \<Rightarrow> Some ((- 1, True), s1)
                     | WaitTick \<Rightarrow> compose_WaitForExit fuel c sel h s1)
           | Inl e \<Rightarrow>
               (case sel (dkCalls s) of
                  WaitCancelled \<Rightarrow> Some ((- 1, False), s1)
                | WaitDeadline \<Rightarrow> Some ((- 1, True), s1)
                | WaitTick \<Rightarrow> compose_WaitForExit fuel c sel h s1)))"

definition teardown_container ::
  "DockerEnv \<Rightarrow> Handle \<Rightarrow> string \<Rightarrow> bool \<Rightarrow> DockerState \<Rightarrow> gerr option \<times> DockerState" where
  "teardown_container c h role force s =
     (let i = lookup_or [] (hRefs h) role in
      if i = [] then (None, s)
      else let (e, s1) = DeleteContainer c i force s
           in (map_option (\<lambda>x. Wrap (''compose: delete '' @ role @ '' container '' @ i @ '': '') x []) e, s1))"

definition teardown_network :: "DockerEnv \<Rightarrow> Handle \<Rightarrow> DockerState \<Rightarrow> gerr option \<times> DockerState" where
  "teardown_network c h s =
     (let i = lookup_or [] (hRefs h) ''network'' in
      if i = [] then (None, s)
      else let (e, s1) = DeleteNetwork c i s
           in (map_option (\<lambda>x. Wrap (''compose: delete network '' @ i @ '': '') x []) e, s1))"

definition egress_dir :: "Handle \<Rightarrow> string" where
  "egress_dir h =
     (let d = lookup_or [] (hRefs h) ''egress_config_dir''
      in if d = [] then EgressMountPath @ ''/'' @ hSpawnID h else d)"

definition compose_Teardown :: "DockerEnv \<Rightarrow> Handle \<Rightarrow> bool \<Rightarrow> DockerState \<Rightarrow> gerr option \<times> DockerState" where
  "compose_Teardown c h force s =
     (let (e1, s1) = teardown_container c h ''runner'' force s;
          (e2, s2) = teardown_container c h ''proxy'' True s1;
          (e3, s3) = teardown_network c h s2;
          e4 = map_option (\<lambda>x. Wrap (''compose: remove egress config '' @ egress_dir h @ '': '') x [])
                 (deRemoveAll c (dkCalls s3) (egress_dir h))
      in (errors_Join [e1, e2, e3, e4], s3))"

fun group_by_spawn ::
  "Container list \<Rightarrow> (string, (string, string) gomap) gomap \<Rightarrow> (string, (string, string) gomap) gomap" where
  "group_by_spawn [] m = m"
| "group_by_spawn (c # cs) m =
     (let spawnID = lookup_or [] (dcLabels c) ''runsecure.spawn_id''; role = lookup_or [] (dcLabels c) ''runsecure.role'' in
      if spawnID = [] \<or> role = [] then group_by_spawn cs m
      else group_by_spawn cs (AList.update spawnID (AList.update role (dcID c) (lookup_or [] m spawnID)) m))"

definition compose_Reconcile ::
  "DockerEnv \<Rightarrow> string \<Rightarrow> DockerState \<Rightarrow> (gerr + Handle list) \<times> DockerState" where
  "compose_Reconcile c scope s =
     (case ListContainersForScope c scope s of
        (Inl e, s1) \<Rightarrow> (Inl (Wrap ''compose: reconcile list: '' e []), s1)
      | (Inr cs, s1) \<Rightarrow>
          (Inr (map (\<lambda>(spawnID, refs). \<lparr>hSpawnID = spawnID, hBackend = ''compose'',
                  hRefs = AList.update ''network'' [] refs\<rparr>) (group_by_spawn cs [])), s1))"

end
