(* ===== verification/Runtime_Backend.thy ===== *)
theory Runtime_Backend
  imports Spawn_Data
begin

text \<open>
  The contract between the spawn worker and a runtime backend as a locale, and what a client of
  that contract may conclude. \<open>live\<close> is what the runtime was asked to make and may still have,
  \<open>owned\<close> what a handle answers for. The Compose and the Kubernetes backend are its instances.
\<close>

section \<open>What a runtime backend owes the spawn worker\<close>

text \<open>Teardown attempts in a row, as the worker's retries make them; the answer is the last one's.\<close>

fun attempts ::
  "(Handle \<Rightarrow> bool \<Rightarrow> 's \<Rightarrow> gerr option \<times> 's) \<Rightarrow> Handle \<Rightarrow> bool list \<Rightarrow> 's \<Rightarrow> gerr option \<times> 's" where
  "attempts td h [] s = (None, s)"
| "attempts td h [force] s = td h force s"
| "attempts td h (force # g # fs) s = attempts td h (g # fs) (snd (td h force s))"

locale runtime_backend =
  fixes spawn :: "SpawnInput \<Rightarrow> 's \<Rightarrow> (Handle \<times> gerr option) \<times> 's"
    and teardown :: "Handle \<Rightarrow> bool \<Rightarrow> 's \<Rightarrow> gerr option \<times> 's"
    and live :: "'s \<Rightarrow> 'r set"
    and owned :: "Handle \<Rightarrow> 'r set"
  assumes spawn_owned: "spawn inp s = ((h, err), s') \<Longrightarrow> live s' \<subseteq> live s \<union> owned h"
    and empty_owns_nothing: "hBackend h = [] \<Longrightarrow> spawn inp s = ((h, err), s') \<Longrightarrow> owned h = {}"
    and teardown_shrinks: "teardown h force s = (err, s') \<Longrightarrow> live s' \<subseteq> live s"
    and teardown_removes: "teardown h force s = (None, s') \<Longrightarrow> live s' \<inter> owned h = {}"
begin

lemma clean_failure:
  assumes "spawn inp s = ((h, err), s')" and "hBackend h = []"
  shows "live s' \<subseteq> live s"
  using spawn_owned [OF assms(1)] empty_owns_nothing [OF assms(2,1)] by simp

lemma attempts_shrink: "attempts teardown h fs s = (err, s') \<Longrightarrow> live s' \<subseteq> live s"
proof (induction fs arbitrary: s rule: induct_list012)
  case (2 force)
  then show ?case using teardown_shrinks by simp
next
  case (3 force g fs)
  then show ?case using teardown_shrinks [of h force s "fst (teardown h force s)" "snd (teardown h force s)"] by fastforce
qed simp

lemma attempts_remove: "attempts teardown h fs s = (None, s') \<Longrightarrow> fs \<noteq> [] \<Longrightarrow> live s' \<inter> owned h = {}"
proof (induction fs arbitrary: s rule: induct_list012)
  case (2 force)
  then show ?case using teardown_removes by simp
qed simp_all

lemma spawn_then_teardown:
  assumes "spawn inp s = ((h, err), s1)" and "attempts teardown h fs s1 = (None, s2)" and "fs \<noteq> []"
  shows "live s2 \<subseteq> live s"
  using spawn_owned [OF assms(1)] attempts_shrink [OF assms(2)] attempts_remove [OF assms(2,3)] by blast

end

end
