(* ===== verification/Compose_Thms.thy ===== *)
theory Compose_Thms
  imports Compose_Model Runtime_Backend
begin

text \<open>
  The Compose backend as an instance of the runtime contract: the resources that the Docker
  daemon acknowledged, read off the log of \<open>DockerState\<close>.
\<close>

section \<open>The Compose backend\<close>

text \<open>What the daemon acknowledged, gave a name to and has not removed.\<close>

datatype Resource = RContainer string | RNetwork string

fun log_step :: "DEvent \<Rightarrow> Resource set \<Rightarrow> Resource set" where
  "log_step (MadeContainer i r) S = (if i = [] then S else insert (RContainer i) S)"
| "log_step (MadeNetwork i r) S = (if i = [] then S else insert (RNetwork i) S)"
| "log_step (GoneContainer i) S = S - {RContainer i}"
| "log_step (GoneNetwork i) S = S - {RNetwork i}"

definition live :: "DockerState \<Rightarrow> Resource set" where
  "live s = fold log_step (dkLog s) {}"

definition ref :: "Handle \<Rightarrow> string \<Rightarrow> string" where
  "ref h role = lookup_or [] (hRefs h) role"

definition owned :: "Handle \<Rightarrow> Resource set" where
  "owned h = {RContainer (ref h ''runner''), RContainer (ref h ''proxy''), RNetwork (ref h ''network'')} -
             {RContainer [], RNetwork []}"

lemma live_log [simp]: "live (dk_log ev s) = log_step ev (live s)"
  by (simp add: live_def dk_log_def)

lemma live_unnamed: "RContainer [] \<notin> live s" "RNetwork [] \<notin> live s"
proof -
  have step: "RContainer [] \<notin> log_step ev S \<and> RNetwork [] \<notin> log_step ev S"
    if "RContainer [] \<notin> S \<and> RNetwork [] \<notin> S" for ev S
    using that by (cases ev) auto
  have "RContainer [] \<notin> fold log_step l S \<and> RNetwork [] \<notin> fold log_step l S"
    if "RContainer [] \<notin> S \<and> RNetwork [] \<notin> S" for l S
    using that
  proof (induction l arbitrary: S)
    case (Cons ev l)
    from Cons.IH [OF step [OF Cons.prems]] show ?case by simp
  qed simp
  from this [of "{}"] show "RContainer [] \<notin> live s" "RNetwork [] \<notin> live s" by (simp_all add: live_def)
qed

lemma live_calls [simp]: "live (s\<lparr>dkCalls := n\<rparr>) = live s"
  by (simp add: live_def)

lemma dk_do_live: "dk_do c m p b s = (r, s') \<Longrightarrow> live s' = live s"
  by (auto simp: dk_do_def Let_def split: sum.splits if_splits)

lemma CreateContainer_live:
  "CreateContainer c r s = (Inr i, s') \<Longrightarrow> live s' \<subseteq> insert (RContainer i) (live s)"
  "CreateContainer c r s = (Inl e, s') \<Longrightarrow> live s' = live s"
proof -
  define path where "path = ''/containers/create'' @ (if crName r \<noteq> [] then ''?name='' @ QueryEscape (crName r) else [])"
  obtain x s1 where d: "dk_do c ''POST'' path (Some (BContainer r)) s = (x, s1)" by force
  note l = dk_do_live [OF d]
  have "CreateContainer c r s = (case x of Inl e \<Rightarrow> (Inl e, s1) | Inr resp \<Rightarrow>
      if \<not> is_2xx resp then (Inl (status_text_error ''containers/create'' resp), s1)
      else (case decode_id (drDoc resp) of Inl e \<Rightarrow> (Inl e, s1) | Inr i \<Rightarrow> (Inr i, dk_log (MadeContainer i r) s1)))"
    by (simp only: CreateContainer_def path_def [symmetric] Let_def d prod.case)
  then show "CreateContainer c r s = (Inr i, s') \<Longrightarrow> live s' \<subseteq> insert (RContainer i) (live s)"
    "CreateContainer c r s = (Inl e, s') \<Longrightarrow> live s' = live s"
    using l by (auto split: sum.splits if_splits)
qed

lemma CreateNetwork_live:
  "CreateNetwork c r s = (Inr i, s') \<Longrightarrow> live s' \<subseteq> insert (RNetwork i) (live s)"
  "CreateNetwork c r s = (Inl e, s') \<Longrightarrow> live s' = live s"
proof -
  obtain x s1 where d: "dk_do c ''POST'' ''/networks/create'' (Some (BNetwork r)) s = (x, s1)" by force
  note l = dk_do_live [OF d]
  show "CreateNetwork c r s = (Inr i, s') \<Longrightarrow> live s' \<subseteq> insert (RNetwork i) (live s)"
    "CreateNetwork c r s = (Inl e, s') \<Longrightarrow> live s' = live s"
    using l by (auto simp: CreateNetwork_def d split: sum.splits if_splits)
qed

lemma StartContainer_live: "StartContainer c i s = (e, s') \<Longrightarrow> live s' = live s"
proof -
  obtain x s1 where d: "dk_do c ''POST'' (''/containers/'' @ i @ ''/start'') None s = (x, s1)" by force
  show "StartContainer c i s = (e, s') \<Longrightarrow> live s' = live s"
    using dk_do_live [OF d] unfolding StartContainer_def d by (auto split: sum.splits if_splits)
qed

lemma delete_outcome:
  "(if P then (Some a, s1) else (None, s2)) = (e, s') \<Longrightarrow> e \<noteq> None \<and> s' = s1 \<or> e = None \<and> s' = s2"
  by (cases P) auto

lemma DeleteContainer_live:
  assumes "DeleteContainer c i f s = (e, s')"
  shows "live s' = (if e = None then live s - {RContainer i} else live s)"
proof -
  obtain x s1 where d: "dk_do c ''DELETE'' (''/containers/'' @ i @ (if f then ''?force=true'' else [])) None s = (x, s1)" by force
  have "e \<noteq> None \<and> s' = s1 \<or> e = None \<and> s' = dk_log (GoneContainer i) s1"
  proof (cases x)
    case (Inl y)
    then show ?thesis using assms unfolding DeleteContainer_def d by (simp only: prod.case sum.case) (metis Pair_inject option.distinct(1))
  next
    case (Inr y)
    then show ?thesis
      using assms unfolding DeleteContainer_def d by (simp only: prod.case sum.case) (rule delete_outcome)
  qed
  then show ?thesis using dk_do_live [OF d] live_log [of "GoneContainer i" s1] by fastforce
qed

lemma DeleteNetwork_live:
  assumes "DeleteNetwork c i s = (e, s')"
  shows "live s' = (if e = None then live s - {RNetwork i} else live s)"
proof -
  obtain x s1 where d: "dk_do c ''DELETE'' (''/networks/'' @ i) None s = (x, s1)" by force
  have "e \<noteq> None \<and> s' = s1 \<or> e = None \<and> s' = dk_log (GoneNetwork i) s1"
  proof (cases x)
    case (Inl y)
    then show ?thesis using assms unfolding DeleteNetwork_def d by (simp only: prod.case sum.case) (metis Pair_inject option.distinct(1))
  next
    case (Inr y)
    then show ?thesis
      using assms unfolding DeleteNetwork_def d by (simp only: prod.case sum.case) (rule delete_outcome)
  qed
  then show ?thesis using dk_do_live [OF d] live_log [of "GoneNetwork i" s1] by fastforce
qed

lemma errors_Join_None: "errors_Join es = None \<longleftrightarrow> (\<forall>e \<in> set es. e = None)"
proof -
  have "List.map_filter id es = [] \<longleftrightarrow> (\<forall>e \<in> set es. e = None)"
    by (induction es) (auto simp: List.map_filter_simps split: option.splits)
  then show ?thesis by (auto simp: errors_Join_def split: list.split)
qed

lemma rollback_live:
  "rollback_all c m s = (es, s') \<Longrightarrow> live s' \<subseteq> live s \<and>
     ((\<forall>e \<in> set es. e = None) \<longrightarrow> live s' \<inter> RContainer ` snd ` set m = {})"
proof (induction c m s arbitrary: es s' rule: rollback_all.induct)
  case (2 c role i m s)
  obtain e s1 where d: "DeleteContainer c i True s = (e, s1)" by force
  obtain es1 where r: "rollback_all c m s1 = (es1, s')" "es = map_option (\<lambda>x. Wrap (''delete container '' @ i @ '': '') x []) e # es1"
    using 2(2) d by (auto simp: Let_def split: prod.splits)
  note ih = 2(1) [OF d [symmetric] refl r(1)] and dl = DeleteContainer_live [OF d]
  have "live s' \<subseteq> live s" using ih dl by (auto split: if_splits)
  moreover have "live s' \<inter> RContainer ` snd ` set ((role, i) # m) = {}" if "\<forall>e \<in> set es. e = None"
    using that ih dl unfolding r(2) by auto
  ultimately show ?case by blast
qed simp

lemma stack_fail_live:
  assumes "stack_fail c created cause s = ((m, err), s')"
  shows "m = created \<and> live s' \<subseteq> live s \<and> err \<noteq> None \<and>
    (\<not> HasIncompleteRollback (the err) \<longrightarrow> live s' \<inter> RContainer ` snd ` set created = {})"
proof -
  obtain es s1 where r: "rollback_all c created s = (es, s1)" by force
  show ?thesis
    using assms rollback_live [OF r] by (auto simp: stack_fail_def r errors_Join_None split: option.splits)
qed

lemma docker_Spawn_live:
  assumes "docker_Spawn c su s = ((m, err), s')"
  shows "live s' \<subseteq> live s \<union> RContainer ` snd ` set m \<and> set (keys m) \<subseteq> {''proxy'', ''runner''} \<and> distinct (keys m) \<and>
    (err \<noteq> None \<longrightarrow> \<not> HasIncompleteRollback (the err) \<longrightarrow> live s' \<subseteq> live s)"
proof -
  obtain p s1 where p: "CreateContainer c (proxy_request su) s = (p, s1)" by force
  show ?thesis
  proof (cases p)
    case (Inl e)
    then have "stack_fail c [] (Wrap ''docker: create proxy: '' e []) s1 = ((m, err), s')"
      using assms p by (simp add: docker_Spawn_def)
    from stack_fail_live [OF this] CreateContainer_live(2) [OF p [unfolded Inl]] show ?thesis by auto
  next
    case P: (Inr pid)
    note lp = CreateContainer_live(1) [OF p [unfolded P]]
    obtain r s2 where r: "CreateContainer c (runner_request su) s1 = (r, s2)" by force
    show ?thesis
    proof (cases r)
      case (Inl e)
      then have "stack_fail c [(''proxy'', pid)] (Wrap ''docker: create runner: '' e []) s2 = ((m, err), s')"
        using assms p P r by (simp add: docker_Spawn_def)
      from stack_fail_live [OF this] CreateContainer_live(2) [OF r [unfolded Inl]] lp show ?thesis by auto
    next
      case R: (Inr rid)
      note lr = CreateContainer_live(1) [OF r [unfolded R]]
      obtain e1 s3 where s3: "StartContainer c pid s2 = (e1, s3)" by force
      obtain e2 s4 where s4: "StartContainer c rid s3 = (e2, s4)" by force
      have base: "live s3 \<subseteq> live s \<union> {RContainer pid, RContainer rid}" "live s4 = live s3"
        using lp lr StartContainer_live [OF s3] StartContainer_live [OF s4] by auto
      define created where "created = [(''proxy'', pid), (''runner'', rid)]"
      have "docker_Spawn c su s = (case e1 of
          Some e \<Rightarrow> stack_fail c created (Wrap ''docker: start proxy: '' e []) s3
        | None \<Rightarrow> (case e2 of Some e \<Rightarrow> stack_fail c created (Wrap ''docker: start runner: '' e []) s4
                   | None \<Rightarrow> ((created, None), s4)))"
        by (cases e1; cases e2) (simp_all only: docker_Spawn_def p P r R s3 s4 created_def Let_def prod.case sum.case option.case)
      then consider "m = created" "err = None" "s' = s4"
        | cause where "stack_fail c created cause s3 = ((m, err), s')"
        | cause where "stack_fail c created cause s4 = ((m, err), s')"
        using assms by (cases e1; cases e2) auto
      then show ?thesis
      proof cases
        case 1
        then show ?thesis using base by (auto simp: created_def)
      next
        case (2 cause)
        note f = stack_fail_live [OF 2, unfolded created_def]
        have "live s' \<subseteq> live s \<union> {RContainer pid, RContainer rid}" using f base by blast
        with f show ?thesis by (auto simp: created_def)
      next
        case (3 cause)
        note f = stack_fail_live [OF 3, unfolded created_def]
        have "live s' \<subseteq> live s \<union> {RContainer pid, RContainer rid}" using f base by blast
        with f show ?thesis by (auto simp: created_def)
      qed
    qed
  qed
qed

lemma ref_handle:
  assumes "distinct (keys m)" and "role \<notin> {''network'', ''network_name'', ''egress_config_dir''}"
  shows "ref (compose_handle inp n m) role = (case map_of m role of Some i \<Rightarrow> i | None \<Rightarrow> [])"
proof -
  have "map_of (fold (\<lambda>(role, i) m. AList.update role i m) m b) role = (case map_of m role of Some i \<Rightarrow> Some i | None \<Rightarrow> map_of b role)" for b
    using assms(1)
  proof (induction m arbitrary: b)
    case (Cons x m)
    obtain r i where x: "x = (r, i)" by force
    have "map_of m r = None" using Cons.prems x by (simp add: map_of_eq_None_iff)
    then show ?case using Cons.IH [of "AList.update r i b"] Cons.prems x by (simp add: update_conv' split: option.split)
  qed simp
  then show ?thesis using assms(2) by (auto simp: ref_def compose_handle_def lookup_or_def split: option.splits)
qed

lemma ref_handle_network:
  assumes "set (keys m) \<subseteq> {''proxy'', ''runner''}"
  shows "ref (compose_handle inp n m) ''network'' = n"
proof -
  have "map_of (fold (\<lambda>(role, i) m. AList.update role i m) m b) ''network'' = map_of b ''network''" for b
    using assms by (induction m arbitrary: b) (auto simp: update_conv')
  then show ?thesis by (simp add: ref_def compose_handle_def lookup_or_def)
qed

lemma owned_handle:
  assumes "set (keys m) \<subseteq> {''proxy'', ''runner''}" and "distinct (keys m)"
  shows "insert (RNetwork n) (RContainer ` snd ` set m) - {RContainer [], RNetwork []} \<subseteq> owned (compose_handle inp n m)"
proof
  fix x
  assume x: "x \<in> insert (RNetwork n) (RContainer ` snd ` set m) - {RContainer [], RNetwork []}"
  show "x \<in> owned (compose_handle inp n m)"
  proof (cases "x = RNetwork n")
    case True
    then show ?thesis using x by (simp add: owned_def ref_handle_network [OF assms(1)])
  next
    case False
    with x obtain i where i: "i \<in> snd ` set m" "x = RContainer i" by blast
    then obtain role where m: "(role, i) \<in> set m" by force
    then have role: "role = ''proxy'' \<or> role = ''runner''" using assms(1) by force
    then have "ref (compose_handle inp n m) role = i"
      using map_of_is_SomeI [OF assms(2) m] by (subst ref_handle [OF assms(2)]) auto
    then show ?thesis using role x i(2) unfolding owned_def by blast
  qed
qed

lemma compose_Spawn_cases:
  assumes "compose_Spawn c inp s = ((h, err), s')"
  obtains (no_network) e where "CreateNetwork c (network_request inp) s = (Inl e, s')" "h = zero_Handle" "err \<noteq> None"
  | (up) n s1 m where "CreateNetwork c (network_request inp) s = (Inr n, s1)"
      "docker_Spawn c (stack_inputs inp n) s1 = ((m, None), s')" "h = compose_handle inp n m" "err = None"
  | (dirty) n s1 m e s2 ne where "CreateNetwork c (network_request inp) s = (Inr n, s1)"
      "docker_Spawn c (stack_inputs inp n) s1 = ((m, Some e), s2)" "DeleteNetwork c n s2 = (ne, s')"
      "h = compose_handle inp n m" "err \<noteq> None"
  | (clean) n s1 m e s2 where "CreateNetwork c (network_request inp) s = (Inr n, s1)"
      "docker_Spawn c (stack_inputs inp n) s1 = ((m, Some e), s2)" "DeleteNetwork c n s2 = (None, s')"
      "\<not> HasIncompleteRollback e" "h = zero_Handle" "err \<noteq> None"
proof -
  obtain x s1 where n: "CreateNetwork c (network_request inp) s = (x, s1)" by force
  show thesis
  proof (cases x)
    case (Inl e)
    then show thesis using assms n no_network [of e] by (auto simp: compose_Spawn_def)
  next
    case N: (Inr n)
    obtain m e s2 where d: "docker_Spawn c (stack_inputs inp n) s1 = ((m, e), s2)" by (metis surj_pair)
    show thesis
    proof (cases e)
      case None
      then show thesis using assms \<open>CreateNetwork _ _ _ = _\<close> N d up by (simp add: compose_Spawn_def)
    next
      case E: (Some e')
      obtain ne s3 where t: "DeleteNetwork c n s2 = (ne, s3)" by force
      have eq: "compose_Spawn c inp s = (if HasIncompleteRollback e' \<or> ne \<noteq> None
               then ((compose_handle inp n m,
                      (case ne of None \<Rightarrow> Some (Wrap ''compose: spawn containers: '' e' [])
                       | Some ne \<Rightarrow> errors_Join [Some (Wrap ''compose: spawn containers: '' e' []), Some (Wrap (''compose: rollback network '' @ n @ '': '') ne [])])), s3)
               else ((zero_Handle, Some (Wrap ''compose: spawn containers: '' e' [])), s3))"
        by (simp only: compose_Spawn_def \<open>CreateNetwork _ _ _ = _\<close> N d E t prod.case sum.case option.case Let_def)
      show thesis
      proof (cases "HasIncompleteRollback e' \<or> ne \<noteq> None")
        case True
        with eq assms have "h = compose_handle inp n m" "err \<noteq> None" "s' = s3"
          by (auto simp: errors_Join_None split: option.splits)
        then show thesis using dirty \<open>CreateNetwork _ _ _ = _\<close> N d E t by blast
      next
        case False
        with eq assms have "h = zero_Handle" "err \<noteq> None" "s' = s3" "ne = None" "\<not> HasIncompleteRollback e'" by auto
        then show thesis using clean \<open>CreateNetwork _ _ _ = _\<close> N d E t by blast
      qed
    qed
  qed
qed

lemma owned_zero [simp]: "owned zero_Handle = {}"
  by (auto simp: owned_def ref_def zero_Handle_def lookup_or_def)

lemma compose_Spawn_owned:
  assumes "compose_Spawn c inp s = ((h, err), s')"
  shows "live s' \<subseteq> live s \<union> owned h"
  using assms
proof (cases rule: compose_Spawn_cases)
  case (no_network e)
  then show ?thesis using CreateNetwork_live(2) by blast
next
  case (up n s1 m)
  note d = docker_Spawn_live [OF up(2)] and n = CreateNetwork_live(1) [OF up(1)]
  have "live s' \<subseteq> live s \<union> (insert (RNetwork n) (RContainer ` snd ` set m) - {RContainer [], RNetwork []})"
    using d n live_unnamed [of s'] by blast
  then show ?thesis using d owned_handle [of m n inp] by (simp only: up(3)) (meson Un_mono order_trans subset_refl)
next
  case (dirty n s1 m e s2 ne)
  note d = docker_Spawn_live [OF dirty(2)] and n = CreateNetwork_live(1) [OF dirty(1)]
  have "live s' \<subseteq> live s2" using DeleteNetwork_live [OF dirty(3)] by (auto split: if_splits)
  then have "live s' \<subseteq> live s \<union> (insert (RNetwork n) (RContainer ` snd ` set m) - {RContainer [], RNetwork []})"
    using d n live_unnamed [of s'] by blast
  then show ?thesis using d owned_handle [of m n inp] by (simp only: dirty(4)) (meson Un_mono order_trans subset_refl)
next
  case (clean n s1 m e s2)
  note d = docker_Spawn_live [OF clean(2)] and n = CreateNetwork_live(1) [OF clean(1)]
  have "live s2 \<subseteq> live s1" using d clean(4) by simp
  then show ?thesis using DeleteNetwork_live [OF clean(3)] n by auto
qed

lemma compose_Spawn_empty:
  assumes "hBackend h = []" and "compose_Spawn c inp s = ((h, err), s')"
  shows "owned h = {}"
  using assms(2) by (cases rule: compose_Spawn_cases) (use assms(1) in \<open>simp_all add: compose_handle_def\<close>)

lemma teardown_container_live:
  assumes "teardown_container c h role force s = (e, s')"
  shows "live s' \<subseteq> live s" and "e = None \<Longrightarrow> RContainer (ref h role) \<notin> live s'"
proof -
  obtain e' s1 where d: "DeleteContainer c (ref h role) force s = (e', s1)" by force
  have "live s' \<subseteq> live s \<and> (e = None \<longrightarrow> RContainer (ref h role) \<notin> live s')"
  proof (cases "ref h role = []")
    case True
    then have "s' = s" using assms by (simp add: teardown_container_def ref_def)
    then show ?thesis using True live_unnamed by simp
  next
    case False
    then have "s' = s1" "e = None \<longleftrightarrow> e' = None"
      using assms d by (auto simp: teardown_container_def ref_def [symmetric] Let_def)
    then show ?thesis using DeleteContainer_live [OF d] by auto
  qed
  then show "live s' \<subseteq> live s" "e = None \<Longrightarrow> RContainer (ref h role) \<notin> live s'" by auto
qed

lemma teardown_network_live:
  assumes "teardown_network c h s = (e, s')"
  shows "live s' \<subseteq> live s" and "e = None \<Longrightarrow> RNetwork (ref h ''network'') \<notin> live s'"
proof -
  define n where "n = ref h ''network''"
  obtain e' s1 where d: "DeleteNetwork c n s = (e', s1)" by force
  have "live s' \<subseteq> live s \<and> (e = None \<longrightarrow> RNetwork n \<notin> live s')"
  proof (cases "n = []")
    case True
    then have "s' = s" using assms by (simp add: teardown_network_def ref_def n_def)
    then show ?thesis using True live_unnamed by simp
  next
    case False
    then have "s' = s1" "e = None \<longleftrightarrow> e' = None"
      using assms d by (auto simp: teardown_network_def ref_def [symmetric] n_def [symmetric] Let_def)
    then show ?thesis using DeleteNetwork_live [OF d] by auto
  qed
  then show "live s' \<subseteq> live s" "e = None \<Longrightarrow> RNetwork (ref h ''network'') \<notin> live s'" by (auto simp: n_def)
qed

lemma compose_Teardown_live:
  assumes "compose_Teardown c h force s = (e, s')"
  shows "live s' \<subseteq> live s" and "e = None \<Longrightarrow> live s' \<inter> owned h = {}"
proof -
  obtain e1 s1 where 1: "teardown_container c h ''runner'' force s = (e1, s1)" by force
  obtain e2 s2 where 2: "teardown_container c h ''proxy'' True s1 = (e2, s2)" by force
  obtain e3 s3 where 3: "teardown_network c h s2 = (e3, s3)" by force
  note l = teardown_container_live [OF 1] teardown_container_live [OF 2] teardown_network_live [OF 3]
  have "s' = s3" "e = None \<Longrightarrow> e1 = None \<and> e2 = None \<and> e3 = None"
    using assms unfolding compose_Teardown_def 1 by (auto simp: 2 3 Let_def errors_Join_None)
  then show "live s' \<subseteq> live s" "e = None \<Longrightarrow> live s' \<inter> owned h = {}"
    using l unfolding owned_def by blast+
qed

interpretation compose: runtime_backend "compose_Spawn c" "compose_Teardown c" live owned for c
  by unfold_locales (fact compose_Spawn_owned compose_Spawn_empty compose_Teardown_live(1) compose_Teardown_live(2) [OF _ refl])+

section \<open>The properties\<close>


text \<open>A concrete spawn, against a daemon that names what it creates after the number of the call
  and drops the connection at the calls of the list.\<close>

definition sample_input :: SpawnInput where
  "sample_input = \<lparr>inScope = ''s'', inRepo = ''o/r'', inSpawnID = ''id1'',
     inKubernetes = \<lparr>kpNodeSelector = [], kpTolerations = [], kpEphemeralStorage = [], kpProxyCPU = [],
       kpProxyMemory = [], kpProxyEphemeralStorage = []\<rparr>,
     inNamespace = [], inVersion = ''v'', inBuildSHA = ''b'', inRunnerImage = ''run'', inProxyImage = ''prox'',
     inSeccompProfilePath = [], inResourcesMemory = 1, inResourcesNanoCPUs = 1, inResourcesPIDs = 1,
     inJITConfigB64 = ''jit'', inEgressConfigDir = ''/e/id1'', inEgressNetwork = ''egress'', inEgressVolume = ''vol'',
     inEnableDNSMasq = False, inLabels = [], inTCPEgressPorts = [], inKubeDNSServiceCIDRs = [],
     inKubeDNSNamespace = [], inKubeDNSPodLabelKey = [], inKubeDNSPodLabelValue = [], inAllowedPrivateCIDRs = []\<rparr>"

definition sample_daemon :: "nat list \<Rightarrow> DockerEnv" where
  "sample_daemon broken =
     \<lparr>deHTTP = (\<lambda>n m p b. if n \<in> set broken then Inl (Plain ''EOF'')
          else Inr \<lparr>drStatus = 204, drText = [], drDoc = DId (replicate (Suc n) (CHR ''x''))\<rparr>),
      deRemoveAll = (\<lambda>n d. None)\<rparr>"



definition sample_spawned :: "(Handle \<times> gerr option) \<times> DockerState" where
  "sample_spawned = compose_Spawn (sample_daemon [5]) sample_input \<lparr>dkCalls = 0, dkLog = []\<rparr>"


end
