(* ===== verification/Proxy_Model.thy ===== *)
theory Proxy_Model
  imports Proxy_JSON RS_Errors
begin

text \<open>
  The Docker socket proxy: \<open>internal/imageallow\<close>, \<open>internal/proxy\<close> (routes, body validation, the
  handler) and \<open>internal/config\<close> of \<open>infra/socket-proxy\<close>. A request either is denied with a
  status and a code or is forwarded to the Docker daemon with its body; the daemon itself and
  the reverse proxy of the standard library are outside.

  Go iterates over the \<open>Tmpfs\<close> map in an unspecified order; the model uses the order of the
  document, which can change only the error that is reported.
\<close>

section \<open>The image allowlist\<close>

type_synonym Allowlist = "string list"

text \<open>\<open>strings.TrimSpace\<close>: the encoded runes of \<open>unicode.IsSpace\<close>.\<close>

definition space_runes :: "string list" where
  "space_runes =
     [[CHR 0x20], [CHR 0x09], [CHR 0x0A], [CHR 0x0B], [CHR 0x0C], [CHR 0x0D], [CHR 0xC2, CHR 0x85], [CHR 0xC2, CHR 0xA0],
      [CHR 0xE1, CHR 0x9A, CHR 0x80]] @
     map (\<lambda>n. [CHR 0xE2, CHR 0x80, char_of n]) ([128..<139] @ [168, 169, 175]) @
     [[CHR 0xE2, CHR 0x81, CHR 0x9F], [CHR 0xE3, CHR 0x80, CHR 0x80]]"

function trim_left :: "string list \<Rightarrow> string \<Rightarrow> string" where
  "trim_left rs s =
     (case find (\<lambda>r. r \<noteq> [] \<and> HasPrefix s r) rs of
        None \<Rightarrow> s
      | Some r \<Rightarrow> trim_left rs (drop (length r) s))"
  by pat_completeness auto
termination
  by (relation "measure (length \<circ> snd)") (auto simp: find_Some_iff HasPrefix_iff)

declare trim_left.simps [simp del]

definition TrimSpace :: "string \<Rightarrow> string" where
  "TrimSpace s = rev (trim_left (map rev space_runes) (rev (trim_left space_runes s)))"

text \<open>\<open>bufio.Scanner\<close> with \<open>ScanLines\<close>: the lines it yields, and whether it stopped at a line
  that does not fit into its buffer of 65536 bytes.\<close>

definition drop_CR :: "string \<Rightarrow> string" where
  "drop_CR s = (if s \<noteq> [] \<and> last s = CHR 0x0D then butlast s else s)"

definition raw_lines :: "string \<Rightarrow> string list" where
  "raw_lines s = (let ls = split_char (CHR 0x0A) s in if last ls = [] then butlast ls else ls)"

definition scan_lines :: "string \<Rightarrow> string list \<times> bool" where
  "scan_lines s =
     (let ls = raw_lines s; ok = takeWhile (\<lambda>l. length l < 65536) ls
      in (map drop_CR ok, length ok < length ls))"

fun parse_lines :: "string \<Rightarrow> nat \<Rightarrow> string list \<Rightarrow> gerr + Allowlist" where
  "parse_lines label lineNo [] = Inr []"
| "parse_lines label lineNo (l # ls) =
     (let line = TrimSpace l in
      if line = [] \<or> HasPrefix line ''#'' then parse_lines label (Suc lineNo) ls
      else if \<not> Contains line ''@sha256:'' then
        Inl (Plain (''imageallow: '' @ label @ '':'' @ show_nat (Suc lineNo) @
                    '': entries must use @sha256: digest form''))
      else case parse_lines label (Suc lineNo) ls of
        Inl err \<Rightarrow> Inl err
      | Inr a \<Rightarrow> Inr (line # a))"

text \<open>What opening and reading a file gives: its content and, when reading broke off, an error.\<close>

datatype file_read = FileMissing | FileError gerr | FileData string "gerr option"

definition allow_parse :: "string \<Rightarrow> string \<Rightarrow> gerr option \<Rightarrow> gerr + Allowlist" where
  "allow_parse label content rerr =
     (let (ls, long) = scan_lines content in
      case parse_lines label 0 ls of
        Inl err \<Rightarrow> Inl err
      | Inr a \<Rightarrow>
          if long then Inl (Wrap (''imageallow: read '' @ label @ '': '') (Plain ''bufio.Scanner: token too long'') [])
          else case rerr of Some e \<Rightarrow> Inl (Wrap (''imageallow: read '' @ label @ '': '') e []) | None \<Rightarrow> Inr a)"

definition Load :: "(string \<Rightarrow> file_read) \<Rightarrow> string \<Rightarrow> gerr + Allowlist" where
  "Load files path =
     (case files path of
        FileMissing \<Rightarrow> Inl (Wrap (''imageallow: open '' @ path @ '': '') (Plain ''no such file or directory'') [])
      | FileError e \<Rightarrow> Inl (Wrap (''imageallow: open '' @ path @ '': '') e [])
      | FileData c rerr \<Rightarrow> allow_parse path c rerr)"

definition LoadWithExtra :: "(string \<Rightarrow> file_read) \<Rightarrow> string \<Rightarrow> string \<Rightarrow> gerr + Allowlist" where
  "LoadWithExtra files path extraPath =
     (case Load files path of
        Inl err \<Rightarrow> Inl err
      | Inr base \<Rightarrow>
          if extraPath = [] then Inr base
          else case files extraPath of
            FileMissing \<Rightarrow> Inr base
          | FileError e \<Rightarrow> Inl (Wrap (''imageallow: open extra '' @ extraPath @ '': '') e [])
          | FileData c rerr \<Rightarrow>
              (case allow_parse extraPath c rerr of
                 Inl err \<Rightarrow> Inl err
               | Inr extra \<Rightarrow> Inr (base @ extra)))"

definition Allows :: "Allowlist \<Rightarrow> string \<Rightarrow> bool" where
  "Allows a ref = (ref \<in> set a)"

definition Allowlist_Size :: "Allowlist \<Rightarrow> nat" where
  "Allowlist_Size a = card (set a)"

section \<open>Routes\<close>

text \<open>The prefix \<open>^/v\d+\.\d+(\.\d+)?\<close>, removed when it is there. Every repetition is followed by a
  character it cannot match, so the greedy match is the only one.\<close>

definition strip_version :: "string \<Rightarrow> string" where
  "strip_version p =
     (if \<not> HasPrefix p ''/v'' then p
      else let r0 = drop 2 p; r1 = dropWhile is_digit r0 in
        if r1 = r0 \<or> \<not> HasPrefix r1 ''.'' then p
        else let r2 = tl r1; r3 = dropWhile is_digit r2 in
          if r3 = r2 then p
          else if HasPrefix r3 ''.'' \<and> dropWhile is_digit (tl r3) \<noteq> tl r3
               then dropWhile is_digit (tl r3) else r3)"

text \<open>A pattern is a list of segments; \<open>None\<close> is \<open>[^/]+\<close>.\<close>

type_synonym pattern = "string option list"

fun match_segments :: "pattern \<Rightarrow> string list \<Rightarrow> bool" where
  "match_segments [] [] = True"
| "match_segments (p # ps) (s # ss) =
     ((case p of Some lit \<Rightarrow> s = lit | None \<Rightarrow> s \<noteq> []) \<and> match_segments ps ss)"
| "match_segments _ _ = False"

definition path_matches :: "pattern \<Rightarrow> string \<Rightarrow> bool" where
  "path_matches ps path =
     (case split_char CHR ''/'' path of
        [] \<Rightarrow> False
      | root # segs \<Rightarrow> root = [] \<and> match_segments ps segs)"

definition allowedRoutes :: "(string \<times> pattern) list" where
  "allowedRoutes =
     [(''GET'', [Some ''info'']), (''GET'', [Some ''version'']),
      (''GET'', [Some ''containers'', Some ''json'']), (''GET'', [Some ''containers'', None, Some ''json'']),
      (''POST'', [Some ''containers'', Some ''create'']), (''POST'', [Some ''containers'', None, Some ''start'']),
      (''DELETE'', [Some ''containers'', None]), (''GET'', [Some ''networks'']),
      (''POST'', [Some ''networks'', Some ''create'']), (''DELETE'', [Some ''networks'', None])]"

definition RouteAllowed :: "string \<Rightarrow> string \<Rightarrow> bool" where
  "RouteAllowed method path =
     (let stripped = strip_version path; p = (if stripped = [] then ''/'' else stripped)
      in list_ex (\<lambda>(m, pat). method = m \<and> path_matches pat p) allowedRoutes)"

section \<open>Create requests\<close>

record hostConfig =
  hcPrivileged :: bool
  hcCapAdd :: "string list"
  hcCapDrop :: "string list"
  hcDevices :: "json list"
  hcPidMode :: string
  hcNetworkMode :: string
  hcIpcMode :: string
  hcUTSMode :: string
  hcUsernsMode :: string
  hcSysctls :: "(string, string) gomap"
  hcSecurityOpt :: "string list"
  hcBinds :: "string list"
  hcMemory :: int
  hcNanoCPUs :: int
  hcPidsLimit :: int
  hcReadonlyRootfs :: bool
  hcAutoRemove :: bool
  hcTmpfs :: "(string, string) gomap"

type_synonym endpointConfig = "string list"

record containerCreate =
  ccImage :: string
  ccUser :: string
  ccEnv :: "string list"
  ccCmd :: "string list"
  ccEntrypoint :: "string list"
  ccLabels :: "(string, string) gomap"
  ccHostConfig :: hostConfig
  ccNetworkingConfig :: "(string, endpointConfig) gomap option"

record networkCreate =
  ncName :: string
  ncDriver :: string
  ncInternal :: bool
  ncAttachable :: bool
  ncLabels :: "(string, string) gomap"

definition zero_hostConfig :: hostConfig where
  "zero_hostConfig = \<lparr>hcPrivileged = False, hcCapAdd = [], hcCapDrop = [], hcDevices = [], hcPidMode = [],
     hcNetworkMode = [], hcIpcMode = [], hcUTSMode = [], hcUsernsMode = [], hcSysctls = [], hcSecurityOpt = [],
     hcBinds = [], hcMemory = 0, hcNanoCPUs = 0, hcPidsLimit = 0, hcReadonlyRootfs = False, hcAutoRemove = False,
     hcTmpfs = []\<rparr>"

definition strs_schema :: schema where
  "strs_schema = SSlice SBase"

definition strmap_schema :: schema where
  "strmap_schema = SMap SBase"

definition hostConfig_schema :: schema where
  "hostConfig_schema = SStruct
     [(''Privileged'', SBase), (''CapAdd'', strs_schema), (''CapDrop'', strs_schema), (''Devices'', SSlice (SSlice SBase)),
      (''PidMode'', SBase), (''NetworkMode'', SBase), (''IpcMode'', SBase), (''UTSMode'', SBase), (''UsernsMode'', SBase),
      (''Sysctls'', strmap_schema), (''SecurityOpt'', strs_schema), (''Binds'', strs_schema), (''Memory'', SBase),
      (''NanoCpus'', SBase), (''PidsLimit'', SBase), (''ReadonlyRootfs'', SBase), (''AutoRemove'', SBase),
      (''Tmpfs'', strmap_schema)]"

definition networkingConfig_schema :: schema where
  "networkingConfig_schema = SStruct [(''EndpointsConfig'', SMap (SStruct [(''Aliases'', strs_schema)]))]"

definition containerCreate_schema :: schema where
  "containerCreate_schema = SStruct
     [(''Image'', SBase), (''User'', SBase), (''Env'', strs_schema), (''Cmd'', strs_schema), (''Entrypoint'', strs_schema),
      (''Labels'', strmap_schema), (''HostConfig'', hostConfig_schema), (''NetworkingConfig'', SPtr networkingConfig_schema)]"

definition networkCreate_schema :: schema where
  "networkCreate_schema = SStruct
     [(''Name'', SBase), (''Driver'', SBase), (''Internal'', SBase), (''Attachable'', SBase), (''Labels'', strmap_schema)]"

definition dec_strs :: "json \<Rightarrow> string list option" where
  "dec_strs = dec_list dec_str"

definition dec_strmap :: "json \<Rightarrow> (string, string) gomap option" where
  "dec_strmap = dec_map dec_str"

definition dec_hostConfig :: "json \<Rightarrow> hostConfig option" where
  "dec_hostConfig v =
     (case (field v ''Privileged'' False dec_bool, field v ''CapAdd'' [] dec_strs, field v ''CapDrop'' [] dec_strs,
            field v ''Devices'' [] (dec_list Some), field v ''PidMode'' [] dec_str, field v ''NetworkMode'' [] dec_str) of
        (Some pr, Some ca, Some cd, Some dv, Some pm, Some nm) \<Rightarrow>
          (case (field v ''IpcMode'' [] dec_str, field v ''UTSMode'' [] dec_str, field v ''UsernsMode'' [] dec_str,
                 field v ''Sysctls'' [] dec_strmap, field v ''SecurityOpt'' [] dec_strs, field v ''Binds'' [] dec_strs) of
             (Some im, Some um, Some us, Some sy, Some so, Some bi) \<Rightarrow>
               (case (field v ''Memory'' 0 dec_int, field v ''NanoCpus'' 0 dec_int, field v ''PidsLimit'' 0 dec_int,
                      field v ''ReadonlyRootfs'' False dec_bool, field v ''AutoRemove'' False dec_bool,
                      field v ''Tmpfs'' [] dec_strmap) of
                  (Some me, Some nc, Some pl, Some ro, Some ar, Some tm) \<Rightarrow>
                    Some \<lparr>hcPrivileged = pr, hcCapAdd = ca, hcCapDrop = cd, hcDevices = dv, hcPidMode = pm,
                      hcNetworkMode = nm, hcIpcMode = im, hcUTSMode = um, hcUsernsMode = us, hcSysctls = sy,
                      hcSecurityOpt = so, hcBinds = bi, hcMemory = me, hcNanoCPUs = nc, hcPidsLimit = pl,
                      hcReadonlyRootfs = ro, hcAutoRemove = ar, hcTmpfs = tm\<rparr>
                | _ \<Rightarrow> None)
           | _ \<Rightarrow> None)
      | _ \<Rightarrow> None)"

definition dec_endpoints :: "json \<Rightarrow> (string, endpointConfig) gomap option" where
  "dec_endpoints = dec_map (\<lambda>e. field e ''Aliases'' [] dec_strs)"

definition dec_networking :: "json \<Rightarrow> (string, endpointConfig) gomap option option" where
  "dec_networking v =
     (if v = JNull then Some None else map_option Some (field v ''EndpointsConfig'' [] dec_endpoints))"

definition dec_containerCreate :: "json \<Rightarrow> containerCreate option" where
  "dec_containerCreate v =
     (case (field v ''Image'' [] dec_str, field v ''User'' [] dec_str, field v ''Env'' [] dec_strs,
            field v ''Cmd'' [] dec_strs) of
        (Some im, Some us, Some en, Some cm) \<Rightarrow>
          (case (field v ''Entrypoint'' [] dec_strs, field v ''Labels'' [] dec_strmap,
                 field v ''HostConfig'' zero_hostConfig dec_hostConfig, field v ''NetworkingConfig'' None dec_networking) of
             (Some ep, Some la, Some hc, Some nw) \<Rightarrow>
               Some \<lparr>ccImage = im, ccUser = us, ccEnv = en, ccCmd = cm, ccEntrypoint = ep, ccLabels = la,
                     ccHostConfig = hc, ccNetworkingConfig = nw\<rparr>
           | _ \<Rightarrow> None)
      | _ \<Rightarrow> None)"

definition dec_networkCreate :: "json \<Rightarrow> networkCreate option" where
  "dec_networkCreate v =
     (case (field v ''Name'' [] dec_str, field v ''Driver'' [] dec_str, field v ''Internal'' False dec_bool,
            field v ''Attachable'' False dec_bool, field v ''Labels'' [] dec_strmap) of
        (Some nm, Some dr, Some it, Some at, Some la) \<Rightarrow>
          Some \<lparr>ncName = nm, ncDriver = dr, ncInternal = it, ncAttachable = at, ncLabels = la\<rparr>
      | _ \<Rightarrow> None)"

section \<open>The policy\<close>

text \<open>\<open>^[1-9][0-9]*(:([0-9]|[1-9][0-9]*))?$\<close>, then every part below \<open>2 ^ 31\<close>.\<close>

definition no_leading_zero :: "string \<Rightarrow> bool" where
  "no_leading_zero s = (digits1 s \<and> hd s \<noteq> CHR ''0'')"

definition numericIdentity :: "string \<Rightarrow> bool" where
  "numericIdentity s =
     (case cut_char CHR '':'' s of (u, g, found) \<Rightarrow>
        no_leading_zero u \<and> (found \<longrightarrow> length g = 1 \<and> digits1 g \<or> no_leading_zero g))"

definition nonRootIdentity :: "string \<Rightarrow> bool" where
  "nonRootIdentity user =
     (numericIdentity user \<and> list_all (\<lambda>w. digits1 w \<and> dec_val w < 2 ^ 31) (split_char CHR '':'' user))"

definition volumeName :: "string \<Rightarrow> bool" where
  "volumeName s =
     (2 \<le> length s \<and> is_alnum (hd s) \<and> list_all (\<lambda>c. is_alnum c \<or> c \<in> set ''_.-'') (tl s))"

definition cleanMountTarget :: "string \<Rightarrow> bool" where
  "cleanMountTarget target =
     (HasPrefix target ''/'' \<and> target \<noteq> ''/'' \<and> path_Clean target = target \<and>
      list_all (\<lambda>c. c \<noteq> CHR 0x00 \<and> c \<noteq> CHR '':'') target)"

fun checkBinds :: "string list \<Rightarrow> string \<Rightarrow> string \<Rightarrow> create_err option" where
  "checkBinds [] egressVol role = None"
| "checkBinds (bind # bs) egressVol role =
     (let parts = split_char CHR '':'' bind in
      if HasPrefix (hd parts) ''/'' then Some ErrBindForbidden
      else if length parts \<noteq> 3 \<or> \<not> volumeName (parts ! 0) \<or> egressVol = [] \<or> parts ! 0 \<noteq> egressVol \<or>
              role \<noteq> ''proxy'' \<or> \<not> cleanMountTarget (parts ! 1) \<or> parts ! 2 \<noteq> ''ro''
      then Some ErrEgressVolumeDenied
      else checkBinds bs egressVol role)"

fun check_tmpfs_flags :: "string list \<Rightarrow> string list \<Rightarrow> create_err option" where
  "check_tmpfs_flags seen [] = None"
| "check_tmpfs_flags seen (flag # fs) =
     (case cut_char CHR ''='' flag of (key, val, hasValue) \<Rightarrow>
        if key \<in> set seen then Some ErrTmpfsDuplicate
        else if key \<in> set [''noexec'', ''nosuid'', ''nodev''] then
          (if hasValue then Some ErrTmpfsFlagValue else check_tmpfs_flags (key # seen) fs)
        else if key \<in> set [''size'', ''uid'', ''gid'', ''mode''] then
          (if \<not> hasValue \<or> val = [] then Some ErrTmpfsOption else check_tmpfs_flags (key # seen) fs)
        else Some ErrTmpfsUnsupported)"

definition check_tmpfs :: "string \<times> string \<Rightarrow> create_err option" where
  "check_tmpfs kv =
     (case kv of (target, options) \<Rightarrow>
        let flags = split_char CHR '','' options in
        if \<not> cleanMountTarget target then Some ErrTmpfsTarget
        else if ''noexec'' \<notin> set flags \<or> ''nosuid'' \<notin> set flags \<or> ''nodev'' \<notin> set flags then Some ErrTmpfsFlags
        else check_tmpfs_flags [] flags)"

definition no_new_privs :: string where
  "no_new_privs = ''no-new-privileges:true''"

definition role_label :: string where
  "role_label = ''runsecure.role''"

definition check_egress :: "containerCreate \<Rightarrow> string \<Rightarrow> create_err option" where
  "check_egress req egressNet =
     (if egressNet \<noteq> [] \<and> lookup_or [] (ccLabels req) role_label \<noteq> ''proxy'' then
        (case ccNetworkingConfig req of
           Some eps \<Rightarrow> if egressNet \<in> set (keys eps) then Some ErrEgressAttachDenied
                       else if hcNetworkMode (ccHostConfig req) = egressNet then Some ErrEgressAttachDenied else None
         | None \<Rightarrow> if hcNetworkMode (ccHostConfig req) = egressNet then Some ErrEgressAttachDenied else None)
      else None)"

text \<open>The checks on a decoded request, in the order of the code.\<close>

definition check_container :: "containerCreate \<Rightarrow> Allowlist \<Rightarrow> string \<Rightarrow> string \<Rightarrow> create_err option" where
  "check_container req images egressNet egressVol =
     (let hc = ccHostConfig req in
      if \<not> Allows images (ccImage req) then Some ErrImageNotAllowed
      else if \<not> nonRootIdentity (ccUser req) then Some ErrUserRequired
      else if hcPrivileged hc then Some ErrPrivilegedDenied
      else if hcCapAdd hc \<noteq> [] then Some ErrCapAddDenied
      else if ''ALL'' \<notin> set (hcCapDrop hc) then Some ErrCapDropMissingALL
      else if hcDevices hc \<noteq> [] then Some ErrDevicesDenied
      else if hcPidMode hc \<noteq> [] then Some ErrPidModeDenied
      else if hcNetworkMode hc = ''host'' \<or> hcNetworkMode hc = ''none'' \<or> HasPrefix (hcNetworkMode hc) ''container:''
      then Some ErrNetworkModeDenied
      else if hcIpcMode hc \<noteq> [] \<and> hcIpcMode hc \<noteq> ''private'' then Some ErrIpcModeDenied
      else if hcUTSMode hc \<noteq> [] then Some ErrUTSModeDenied
      else if hcUsernsMode hc \<noteq> [] then Some ErrUsernsModeDenied
      else if hcSysctls hc \<noteq> [] then Some ErrSysctlsDenied
      else if no_new_privs \<notin> set (hcSecurityOpt hc) then Some ErrSecurityOptMissingNoNewPrivs
      else if length (hcSecurityOpt hc) \<noteq> 1 then Some ErrSecurityOptUnsupported
      else case checkBinds (hcBinds hc) egressVol (lookup_or [] (ccLabels req) role_label) of
        Some err \<Rightarrow> Some err
      | None \<Rightarrow>
          (case first_err (map check_tmpfs (hcTmpfs hc)) of
             Some err \<Rightarrow> Some err
           | None \<Rightarrow> check_egress req egressNet))"

definition ValidateContainerCreate ::
  "(string \<Rightarrow> string) \<Rightarrow> string \<Rightarrow> Allowlist \<Rightarrow> string \<Rightarrow> string \<Rightarrow> create_err option" where
  "ValidateContainerCreate orbit body images egressNet egressVol =
     (case decodeCreate orbit containerCreate_schema dec_containerCreate body of
        Inl err \<Rightarrow> Some err
      | Inr req \<Rightarrow> check_container req images egressNet egressVol)"

definition ownership_labels :: "string list" where
  "ownership_labels = [''runsecure.scope'', ''runsecure.repo'', ''runsecure.spawn_id'']"

definition check_network :: "networkCreate \<Rightarrow> create_err option" where
  "check_network req =
     (if ncDriver req \<noteq> ''bridge'' then Some (ErrNetworkDriver (ncDriver req))
      else if \<not> ncInternal req then Some ErrNetworkNotInternal
      else if ncAttachable req then Some ErrNetworkAttachable
      else first_err (map (\<lambda>k. if lookup_or [] (ncLabels req) k = [] then Some (ErrNetworkLabel k) else None)
                      ownership_labels))"

definition ValidateNetworkCreate :: "(string \<Rightarrow> string) \<Rightarrow> string \<Rightarrow> create_err option" where
  "ValidateNetworkCreate orbit body =
     (case decodeCreate orbit networkCreate_schema dec_networkCreate body of
        Inl err \<Rightarrow> Some err
      | Inr req \<Rightarrow> check_network req)"

section \<open>The handler\<close>

record Server =
  svImages :: Allowlist
  svEgressNet :: string
  svEgressVol :: string
  svOrbit :: "string \<Rightarrow> string"

definition server_New :: "(string \<Rightarrow> string) \<Rightarrow> (string \<Rightarrow> string) \<Rightarrow> Allowlist \<Rightarrow> Server" where
  "server_New getenv orbit images =
     \<lparr>svImages = images, svEgressNet = getenv ''RUNSECURE_EGRESS_NETWORK'',
      svEgressVol = getenv ''RUNSECURE_EGRESS_VOLUME'', svOrbit = orbit\<rparr>"

record Request =
  rqMethod :: string
  rqPath :: string
  rqBody :: string
  rqReadErr :: "gerr option"

datatype denial = DenyRoute | DenyRead gerr | DenyPolicy create_err

datatype outcome = Deny denial int | Forward string string string

definition body_limit :: nat where
  "body_limit = 2 ^ 20"

definition containerCreatePath :: "string \<Rightarrow> bool" where
  "containerCreatePath path = (strip_version path = ''/containers/create'')"

definition networkCreatePath :: "string \<Rightarrow> bool" where
  "networkCreatePath path = (strip_version path = ''/networks/create'')"

text \<open>\<open>io.ReadAll\<close> of a limited reader: a read error only shows when it comes before the limit.\<close>

definition read_limited :: "Request \<Rightarrow> gerr + string" where
  "read_limited r =
     (case rqReadErr r of
        Some e \<Rightarrow> if length (rqBody r) < body_limit then Inl e else Inr (take body_limit (rqBody r))
      | None \<Rightarrow> Inr (take body_limit (rqBody r)))"

definition guarded :: "(string \<Rightarrow> create_err option) \<Rightarrow> Request \<Rightarrow> outcome" where
  "guarded check r =
     (case read_limited r of
        Inl e \<Rightarrow> Deny (DenyRead e) 400
      | Inr body \<Rightarrow>
          (case check body of
             Some err \<Rightarrow> Deny (DenyPolicy err) 403
           | None \<Rightarrow> Forward (rqMethod r) (rqPath r) body))"

text \<open>A path is not both a container and a network create, so the two guards exclude each other.\<close>

definition ServeHTTP :: "Server \<Rightarrow> Request \<Rightarrow> outcome" where
  "ServeHTTP s r =
     (if \<not> RouteAllowed (rqMethod r) (rqPath r) then Deny DenyRoute 403
      else if rqMethod r = ''POST'' \<and> containerCreatePath (rqPath r) then
        guarded (\<lambda>body. ValidateContainerCreate (svOrbit s) body (svImages s) (svEgressNet s) (svEgressVol s)) r
      else if rqMethod r = ''POST'' \<and> networkCreatePath (rqPath r) then
        guarded (ValidateNetworkCreate (svOrbit s)) r
      else Forward (rqMethod r) (rqPath r) (rqBody r))"

section \<open>Configuration\<close>

record ProxyConfig =
  pcDockerSock :: string
  pcListenAddr :: string
  pcAllowedImagesFile :: string
  pcAllowedImagesExtraFile :: string
  pcTLSMode :: string
  pcTLSCertFile :: string
  pcTLSKeyFile :: string
  pcTLSClientCAFile :: string
  pcTLSListenAddr :: string

definition envOr :: "(string \<Rightarrow> string) \<Rightarrow> string \<Rightarrow> string \<Rightarrow> string" where
  "envOr getenv k fallback = (if getenv k \<noteq> [] then getenv k else fallback)"

definition FromEnv :: "(string \<Rightarrow> string) \<Rightarrow> gerr + ProxyConfig" where
  "FromEnv getenv =
     (let c = \<lparr>pcDockerSock = getenv ''RUNSECURE_DOCKER_SOCK'',
               pcListenAddr = envOr getenv ''RUNSECURE_LISTEN_ADDR'' '':2375'',
               pcAllowedImagesFile = envOr getenv ''RUNSECURE_ALLOWED_IMAGES_FILE''
                 ''/etc/runsecure/socket-proxy/allowed-images.txt'',
               pcAllowedImagesExtraFile = getenv ''RUNSECURE_ALLOWED_IMAGES_EXTRA_FILE'',
               pcTLSMode = envOr getenv ''RUNSECURE_SP_TLS_MODE'' ''plaintext'',
               pcTLSCertFile = getenv ''RUNSECURE_SP_TLS_CERT'', pcTLSKeyFile = getenv ''RUNSECURE_SP_TLS_KEY'',
               pcTLSClientCAFile = getenv ''RUNSECURE_SP_TLS_CLIENT_CA'',
               pcTLSListenAddr = envOr getenv ''RUNSECURE_SP_TLS_LISTEN'' '':2376''\<rparr>
      in if pcDockerSock c = [] then Inl (Plain ''RUNSECURE_DOCKER_SOCK is required'')
         else if pcTLSMode c = ''plaintext'' then Inr c
         else if pcTLSMode c = ''mtls'' then
           (if pcTLSCertFile c = [] \<or> pcTLSKeyFile c = [] \<or> pcTLSClientCAFile c = []
            then Inl (Plain ''mtls mode requires TLS_CERT, TLS_KEY, and TLS_CLIENT_CA'') else Inr c)
         else Inl (Plain (''invalid TLS mode: '' @ pcTLSMode c)))"

end
