(* ===== verification/Proxy_Thms.thy ===== *)
theory Proxy_Thms
  imports Proxy_Model
begin

text \<open>
  What the socket proxy guarantees to the Docker daemon behind it: which requests reach it, and
  what a container or network it creates can be. The checks are first characterised as one
  declarative policy; the handler theorems then speak about the bytes that are forwarded.
\<close>

section \<open>The policy, declaratively\<close>

definition good_bind :: "string \<Rightarrow> string \<Rightarrow> bool" where
  "good_bind vol bind = (\<exists>target. bind = vol @ '':'' @ target @ '':ro'' \<and> cleanMountTarget target)"

definition flag_key :: "string \<Rightarrow> string" where
  "flag_key flag = fst (cut_char CHR ''='' flag)"

definition tmpfs_option_ok :: "string \<Rightarrow> bool" where
  "tmpfs_option_ok flag =
     (flag \<in> {''noexec'', ''nosuid'', ''nodev''} \<or>
      (\<exists>k v. flag = k @ ''='' @ v \<and> k \<in> {''size'', ''uid'', ''gid'', ''mode''} \<and> v \<noteq> []))"

definition good_tmpfs :: "string \<times> string \<Rightarrow> bool" where
  "good_tmpfs kv =
     (let flags = split_char CHR '','' (snd kv) in
      cleanMountTarget (fst kv) \<and> {''noexec'', ''nosuid'', ''nodev''} \<subseteq> set flags \<and>
      (\<forall>flag \<in> set flags. tmpfs_option_ok flag) \<and> distinct (map flag_key flags))"

definition non_root :: "string \<Rightarrow> bool" where
  "non_root user =
     (\<exists>u g. 0 < u \<and> u < 2 ^ 31 \<and> g < 2 ^ 31 \<and> (user = show_nat u \<or> user = show_nat u @ '':'' @ show_nat g))"

definition hardened :: "Allowlist \<Rightarrow> string \<Rightarrow> string \<Rightarrow> containerCreate \<Rightarrow> bool" where
  "hardened images net vol req =
     (let hc = ccHostConfig req; role = lookup_or [] (ccLabels req) role_label in
      ccImage req \<in> set images \<and> non_root (ccUser req) \<and>
      \<not> hcPrivileged hc \<and> hcCapAdd hc = [] \<and> ''ALL'' \<in> set (hcCapDrop hc) \<and> hcDevices hc = [] \<and>
      hcPidMode hc = [] \<and> hcNetworkMode hc \<notin> {''host'', ''none''} \<and> \<not> HasPrefix (hcNetworkMode hc) ''container:'' \<and>
      hcIpcMode hc \<in> {[], ''private''} \<and> hcUTSMode hc = [] \<and> hcUsernsMode hc = [] \<and> hcSysctls hc = [] \<and>
      hcSecurityOpt hc = [no_new_privs] \<and>
      (hcBinds hc = [] \<or> role = ''proxy'' \<and> volumeName vol \<and> (\<forall>b \<in> set (hcBinds hc). good_bind vol b)) \<and>
      (\<forall>kv \<in> set (hcTmpfs hc). good_tmpfs kv) \<and>
      (net = [] \<or> role = ''proxy'' \<or>
         hcNetworkMode hc \<noteq> net \<and> (\<forall>eps. ccNetworkingConfig req = Some eps \<longrightarrow> net \<notin> set (keys eps))))"

lemma first_err_None: "first_err es = None \<longleftrightarrow> (\<forall>e \<in> set es. e = None)"
  by (induction es rule: first_err.induct) auto

section \<open>Identities\<close>

lemma digit_char_of: "is_digit c \<Longrightarrow> digit_char (of_char c - 48) = c"
  by (auto simp: is_digit_def digit_char_def mod_less)

lemma show_nat_snoc: "0 < n \<Longrightarrow> d < 10 \<Longrightarrow> show_nat (10 * n + d) = show_nat n @ [digit_char d]"
  by (subst show_nat.simps) (simp add: digit_char_def)

lemma canonical_decimal: "no_leading_zero s \<Longrightarrow> \<exists>n > 0. s = show_nat n"
proof (induction s rule: rev_induct)
  case (snoc c s)
  have c: "is_digit c" "of_char c - 48 < (10 :: nat)"
    using snoc.prems by (auto simp: no_leading_zero_def digits1_def is_digit_def)
  show ?case
  proof (cases "s = []")
    case True
    then have "(of_char c :: nat) \<noteq> 48"
      using snoc.prems of_char_eq_iff [of c "CHR ''0''"] by (auto simp: no_leading_zero_def)
    with True c show ?thesis
      by (intro exI [of _ "of_char c - 48"]) (auto simp: show_nat.simps [of "of_char c - 48"] digit_char_of is_digit_def)
  next
    case False
    then obtain n where "0 < n" "s = show_nat n" using snoc by (auto simp: no_leading_zero_def digits1_def)
    then show ?thesis
      using show_nat_snoc [OF _ c(2), of n] digit_char_of [OF c(1)]
      by (intro exI [of _ "10 * n + (of_char c - 48)"]) simp
  qed
qed (simp add: no_leading_zero_def digits1_def)

lemma show_nat_no_leading_zero: "0 < n \<Longrightarrow> no_leading_zero (show_nat n)"
proof (induction n rule: less_induct)
  case (less n)
  show ?case
  proof (cases "n < 10")
    case True
    have "digit_char n \<noteq> CHR ''0''"
      using less.prems True by (auto simp: digit_char_def dest!: arg_cong [where f = "of_char :: char \<Rightarrow> nat"])
    with True show ?thesis by (simp add: show_nat.simps [of n] no_leading_zero_def digits1_def)
  next
    case False
    then have "no_leading_zero (show_nat (n div 10))" using less by simp
    with False show ?thesis by (simp add: show_nat.simps [of n] no_leading_zero_def digits1_def)
  qed
qed

lemma canonical_value: "length s = 1 \<and> digits1 s \<or> no_leading_zero s \<longleftrightarrow> (\<exists>n. s = show_nat n)"
proof
  assume "length s = 1 \<and> digits1 s \<or> no_leading_zero s"
  then show "\<exists>n. s = show_nat n"
  proof
    assume "length s = 1 \<and> digits1 s"
    then obtain c where "s = [c]" "is_digit c" by (auto simp: digits1_def length_Suc_conv)
    then show ?thesis
      by (intro exI [of _ "of_char c - 48"]) (auto simp: show_nat.simps [of "of_char c - 48"] digit_char_of is_digit_def)
  qed (use canonical_decimal in blast)
next
  assume "\<exists>n. s = show_nat n"
  then obtain n where n: "s = show_nat n" by blast
  show "length s = 1 \<and> digits1 s \<or> no_leading_zero s"
  proof (cases "n = 0")
    case True
    then show ?thesis by (simp add: n digits1_def show_nat.simps [of 0])
  qed (simp add: n show_nat_no_leading_zero)
qed

lemma cut_char_split:
  "cut_char d s = (u, g, found) \<Longrightarrow> d \<notin> set u \<and> (if found then s = u @ d # g else s = u \<and> g = [])"
  by (induction s arbitrary: u) (auto split: if_splits prod.splits)

lemma numericIdentity_iff:
  "numericIdentity s \<longleftrightarrow> (\<exists>u g. 0 < u \<and> (s = show_nat u \<or> s = show_nat u @ '':'' @ show_nat g))"
proof -
  obtain u g found where cut: "cut_char CHR '':'' s = (u, g, found)" by (metis prod_cases3)
  note c = cut_char_split [OF cut]
  have colon: "CHR '':'' \<notin> set (show_nat n)" for n
    using show_nat_digits [of n] by (intro digit_notin) (simp_all add: is_digit_def)
  have "numericIdentity s \<longleftrightarrow> no_leading_zero u \<and> (found \<longrightarrow> (\<exists>n. g = show_nat n))"
    unfolding numericIdentity_def cut prod.case canonical_value ..
  also have "\<dots> \<longleftrightarrow> (\<exists>n > 0. u = show_nat n) \<and> (found \<longrightarrow> (\<exists>n. g = show_nat n))"
    using canonical_decimal show_nat_no_leading_zero by blast
  also have "\<dots> \<longleftrightarrow> (\<exists>u g. 0 < u \<and> (s = show_nat u \<or> s = show_nat u @ '':'' @ show_nat g))"
  proof (cases found)
    case True
    have "s = show_nat u' @ '':'' @ show_nat g' \<longleftrightarrow> u = show_nat u' \<and> g = show_nat g'" for u' g'
      using cut_char_found [of "CHR '':''" s "show_nat u'" "show_nat g'"] cut True colon [of u'] by auto
    moreover have "CHR '':'' \<in> set s" using c True by simp
    then have "s \<noteq> show_nat u'" for u' using colon [of u'] by auto
    ultimately show ?thesis using True by auto
  next
    case False
    have "s \<noteq> show_nat u' @ '':'' @ show_nat g'" for u' g' using c False by auto
    then show ?thesis using c False by auto
  qed
  finally show ?thesis .
qed

lemma nonRoot_iff: "nonRootIdentity user \<longleftrightarrow> non_root user"
proof -
  have d: "digits1 (show_nat n)" for n using show_nat_digits [of n] by (simp add: digits1_def)
  have colon: "CHR '':'' \<notin> set (show_nat n)" for n
    using show_nat_digits [of n] by (intro digit_notin) (simp_all add: is_digit_def)
  have parts: "split_char CHR '':'' (show_nat u @ '':'' @ show_nat g) = [show_nat u, show_nat g]"
      "split_char CHR '':'' (show_nat u) = [show_nat u]" for u g
    using split_char_append [OF colon] split_char_notin [OF colon] by simp_all
  have lt: "int n < 2 ^ 31 \<longleftrightarrow> n < 2 ^ 31" for n by simp
  show ?thesis
  proof
    assume a: "nonRootIdentity user"
    then obtain u g where u: "0 < u" "user = show_nat u \<or> user = show_nat u @ '':'' @ show_nat g"
      by (auto simp: nonRootIdentity_def numericIdentity_iff)
    then consider "user = show_nat u" "u < 2 ^ 31" | "user = show_nat u @ '':'' @ show_nat g" "u < 2 ^ 31" "g < 2 ^ 31"
      using a by (auto simp: nonRootIdentity_def parts simp flip: append_Cons)
    then show "non_root user" using u(1) unfolding non_root_def by cases (force, blast)
  next
    assume "non_root user"
    then show "nonRootIdentity user"
      unfolding non_root_def nonRootIdentity_def numericIdentity_iff by (auto simp: parts d simp flip: append_Cons)
  qed
qed

section \<open>Binds and temporary file systems\<close>

lemma alnum_not_slash: "is_alnum (CHR ''/'') = False" "is_alnum CHR '':'' = False"
  by (simp_all add: is_alnum_def is_digit_def is_lower_def is_upper_def)

lemma volumeName_chars: "volumeName v \<Longrightarrow> CHR '':'' \<notin> set v \<and> \<not> HasPrefix v ''/''"
  by (cases v) (auto simp: volumeName_def alnum_not_slash list_all_iff HasPrefix_def)

lemma one_bind_iff:
  assumes "volumeName vol"
  shows "split_char CHR '':'' bind = [vol, t, ''ro''] \<and> cleanMountTarget t \<longleftrightarrow>
     bind = vol @ '':'' @ t @ '':ro'' \<and> cleanMountTarget t"
proof -
  have "CHR '':'' \<notin> set t" if "cleanMountTarget t" using that by (auto simp: cleanMountTarget_def list_all_iff)
  then have "split_char CHR '':'' (vol @ '':'' @ t @ '':ro'') = [vol, t, ''ro'']" if "cleanMountTarget t"
    using that volumeName_chars [OF assms] split_char_append [of "CHR '':''" vol] split_char_append [of "CHR '':''" t] by simp
  moreover have "bind = vol @ '':'' @ t @ '':ro''" if "split_char CHR '':'' bind = [vol, t, ''ro'']"
    using split_char_Cons [OF that] by (auto dest!: split_char_Cons)
  ultimately show ?thesis by auto
qed

lemma checkBinds_Cons:
  "checkBinds (bind # bs) vol role = None \<longleftrightarrow>
     role = ''proxy'' \<and> volumeName vol \<and> good_bind vol bind \<and> checkBinds bs vol role = None"
proof -
  define parts where "parts = split_char CHR '':'' bind"
  have three: "length parts = 3 \<longleftrightarrow> (\<exists>a b c. parts = [a, b, c])"
    by (auto simp: length_Suc_conv eval_nat_numeral)
  have "checkBinds (bind # bs) vol role = None \<longleftrightarrow>
      (\<exists>t. parts = [vol, t, ''ro''] \<and> cleanMountTarget t) \<and> volumeName vol \<and> role = ''proxy'' \<and> checkBinds bs vol role = None"
    using volumeName_chars [of vol] three
    by (auto simp: Let_def parts_def [symmetric] volumeName_def HasPrefix_def)
  also have "\<dots> \<longleftrightarrow> role = ''proxy'' \<and> volumeName vol \<and> good_bind vol bind \<and> checkBinds bs vol role = None"
    using one_bind_iff unfolding parts_def good_bind_def by blast
  finally show ?thesis .
qed

lemma checkBinds_iff:
  "checkBinds binds vol role = None \<longleftrightarrow>
     binds = [] \<or> role = ''proxy'' \<and> volumeName vol \<and> (\<forall>b \<in> set binds. good_bind vol b)"
  by (induction binds) (auto simp del: checkBinds.simps(2) simp: checkBinds_Cons)

lemma tmpfs_option_iff:
  assumes "cut_char CHR ''='' flag = (k, v, f)"
  shows "tmpfs_option_ok flag \<longleftrightarrow>
    k \<in> {''noexec'', ''nosuid'', ''nodev''} \<and> \<not> f \<or> k \<in> {''size'', ''uid'', ''gid'', ''mode''} \<and> f \<and> v \<noteq> []"
proof -
  note c = cut_char_split [OF assms]
  have no: "CHR ''='' \<notin> set x" if "x \<in> {''noexec'', ''nosuid'', ''nodev''} \<or> x \<in> {''size'', ''uid'', ''gid'', ''mode''}" for x
    using that by auto
  have "(\<exists>k' v'. flag = k' @ ''='' @ v' \<and> k' \<in> {''size'', ''uid'', ''gid'', ''mode''} \<and> v' \<noteq> []) \<longleftrightarrow>
      k \<in> {''size'', ''uid'', ''gid'', ''mode''} \<and> f \<and> v \<noteq> []" (is "?L \<longleftrightarrow> ?R")
  proof
    assume ?L
    then obtain k' v' where kv: "flag = k' @ CHR ''='' # v'" "k' \<in> {''size'', ''uid'', ''gid'', ''mode''}" "v' \<noteq> []" by auto
    then have "cut_char CHR ''='' flag = (k', v', True)" using no [of k'] by (simp add: cut_char_found)
    then show ?R using kv assms by simp
  next
    assume ?R
    then show ?L using c by auto
  qed
  moreover have "flag \<in> {''noexec'', ''nosuid'', ''nodev''} \<longleftrightarrow> k \<in> {''noexec'', ''nosuid'', ''nodev''} \<and> \<not> f"
    using c no [of flag] no [of k] by (cases f) auto
  ultimately show ?thesis unfolding tmpfs_option_ok_def by simp
qed

lemma check_tmpfs_flags_iff:
  "check_tmpfs_flags seen flags = None \<longleftrightarrow>
     (\<forall>flag \<in> set flags. tmpfs_option_ok flag \<and> flag_key flag \<notin> set seen) \<and> distinct (map flag_key flags)"
proof (induction flags arbitrary: seen)
  case (Cons flag fs)
  obtain k v f where cut: "cut_char CHR ''='' flag = (k, v, f)" by (metis prod_cases3)
  have key: "flag_key flag = k" by (simp add: flag_key_def cut)
  have "check_tmpfs_flags seen (flag # fs) = None \<longleftrightarrow>
      k \<notin> set seen \<and> tmpfs_option_ok flag \<and> check_tmpfs_flags (k # seen) fs = None"
    unfolding tmpfs_option_iff [OF cut] by (auto simp: cut)
  then show ?case unfolding Cons.IH using key by (simp del: check_tmpfs_flags.simps add: image_iff) metis
qed simp

lemma check_tmpfs_iff: "check_tmpfs kv = None \<longleftrightarrow> good_tmpfs kv"
  by (auto simp: check_tmpfs_def good_tmpfs_def check_tmpfs_flags_iff Let_def split: prod.split)

lemma check_container_iff: "check_container req images net vol = None \<longleftrightarrow> hardened images net vol req"
proof -
  have one: "no_new_privs \<in> set xs \<and> length xs = Suc 0 \<longleftrightarrow> xs = [no_new_privs]" for xs
    by (cases xs) auto
  have egress: "check_egress req net = None \<longleftrightarrow>
      (net = [] \<or> lookup_or [] (ccLabels req) role_label = ''proxy'' \<or>
         hcNetworkMode (ccHostConfig req) \<noteq> net \<and> (\<forall>eps. ccNetworkingConfig req = Some eps \<longrightarrow> net \<notin> set (keys eps)))"
    by (auto simp: check_egress_def split: option.split)
  have tm: "first_err (map check_tmpfs (hcTmpfs hc)) = None \<longleftrightarrow> (\<forall>kv \<in> set (hcTmpfs hc). good_tmpfs kv)" for hc :: hostConfig
    by (auto simp: first_err_None check_tmpfs_iff)
  have chain: "(case a of Some e \<Rightarrow> Some e | None \<Rightarrow> b) = None \<longleftrightarrow> a = None \<and> b = None" for a b :: "create_err option"
    by (cases a) auto
  show ?thesis
    unfolding check_container_def hardened_def Let_def one [symmetric] nonRoot_iff [symmetric]
      egress [symmetric] tm [symmetric] checkBinds_iff [symmetric]
    by (simp add: Allows_def chain)
qed

section \<open>Routes\<close>

lemma split_char_eq_Cons:
  "split_char d s = a # ws \<longleftrightarrow> d \<notin> set a \<and> (ws = [] \<and> s = a \<or> (\<exists>t. s = a @ d # t \<and> split_char d t = ws))"
  using split_char_Cons [of d s a ws] split_char_parts [of a d s] split_char_append [of d a] split_char_notin [of d a]
  by auto

text \<open>A path of literal segments and of segments that are not empty.\<close>

definition segment :: "string \<Rightarrow> bool" where
  "segment s = (s \<noteq> [] \<and> CHR ''/'' \<notin> set s)"

lemma match_segments_iff:
  "match_segments [] segs \<longleftrightarrow> segs = []"
  "match_segments (Some a # ps) segs \<longleftrightarrow> (\<exists>ss. segs = a # ss \<and> match_segments ps ss)"
  "match_segments (None # ps) segs \<longleftrightarrow> (\<exists>x ss. segs = x # ss \<and> x \<noteq> [] \<and> match_segments ps ss)"
  by (cases segs, auto)+

lemma path_matches_iff: "path_matches ps p \<longleftrightarrow> (\<exists>segs. split_char CHR ''/'' p = [] # segs \<and> match_segments ps segs)"
  by (auto simp: path_matches_def split: list.split)

lemma path_matches_lits:
  "path_matches [Some a] p \<longleftrightarrow> CHR ''/'' \<notin> set a \<and> p = ''/'' @ a"
  "path_matches [Some a, Some b] p \<longleftrightarrow> CHR ''/'' \<notin> set a \<and> CHR ''/'' \<notin> set b \<and> p = ''/'' @ a @ ''/'' @ b"
  "path_matches [Some a, None] p \<longleftrightarrow> CHR ''/'' \<notin> set a \<and> (\<exists>x. segment x \<and> p = ''/'' @ a @ ''/'' @ x)"
  "path_matches [Some a, None, Some b] p \<longleftrightarrow>
     CHR ''/'' \<notin> set a \<and> CHR ''/'' \<notin> set b \<and> (\<exists>x. segment x \<and> p = ''/'' @ a @ ''/'' @ x @ ''/'' @ b)"
  by (auto simp: path_matches_iff match_segments_iff split_char_eq_Cons segment_def)

text \<open>C16: the proxy's route table admits exactly ten method and path forms, with or without an
  API version in front: nothing below a container but its inspection, start and deletion, and
  nothing below a network but its deletion.\<close>

theorem route_allowlist_exact:
  "RouteAllowed m path \<longleftrightarrow>
     (let p = strip_version path in
      m = ''GET'' \<and> p = ''/info'' \<or> m = ''GET'' \<and> p = ''/version'' \<or> m = ''GET'' \<and> p = ''/containers/json'' \<or>
      m = ''GET'' \<and> (\<exists>i. segment i \<and> p = ''/containers/'' @ i @ ''/json'') \<or>
      m = ''POST'' \<and> p = ''/containers/create'' \<or>
      m = ''POST'' \<and> (\<exists>i. segment i \<and> p = ''/containers/'' @ i @ ''/start'') \<or>
      m = ''DELETE'' \<and> (\<exists>i. segment i \<and> p = ''/containers/'' @ i) \<or>
      m = ''GET'' \<and> p = ''/networks'' \<or> m = ''POST'' \<and> p = ''/networks/create'' \<or>
      m = ''DELETE'' \<and> (\<exists>i. segment i \<and> p = ''/networks/'' @ i))"
proof -
  define p where "p = strip_version path"
  define p' where "p' = (if p = [] then ''/'' else p)"
  have eq: "p' = a \<longleftrightarrow> p = a" if "a \<noteq> ''/''" "a \<noteq> []" for a using that by (auto simp: p'_def)
  have lits:
    "path_matches [Some ''info''] q \<longleftrightarrow> q = ''/info''" "path_matches [Some ''version''] q \<longleftrightarrow> q = ''/version''"
    "path_matches [Some ''containers'', Some ''json''] q \<longleftrightarrow> q = ''/containers/json''"
    "path_matches [Some ''containers'', None, Some ''json''] q \<longleftrightarrow> (\<exists>i. segment i \<and> q = ''/containers/'' @ i @ ''/json'')"
    "path_matches [Some ''containers'', Some ''create''] q \<longleftrightarrow> q = ''/containers/create''"
    "path_matches [Some ''containers'', None, Some ''start''] q \<longleftrightarrow> (\<exists>i. segment i \<and> q = ''/containers/'' @ i @ ''/start'')"
    "path_matches [Some ''containers'', None] q \<longleftrightarrow> (\<exists>i. segment i \<and> q = ''/containers/'' @ i)"
    "path_matches [Some ''networks''] q \<longleftrightarrow> q = ''/networks''"
    "path_matches [Some ''networks'', Some ''create''] q \<longleftrightarrow> q = ''/networks/create''"
    "path_matches [Some ''networks'', None] q \<longleftrightarrow> (\<exists>i. segment i \<and> q = ''/networks/'' @ i)" for q
    by (simp_all add: path_matches_lits)
  show ?thesis
    unfolding RouteAllowed_def allowedRoutes_def Let_def p_def [symmetric] p'_def [symmetric]
    by (simp only: list_ex_iff list.set bex_simps prod.case lits HOL.simp_thms)
      (simp add: eq)
qed

section \<open>The handler\<close>

lemma decodeCreate_Inr:
  "decodeCreate orbit sc dec body = Inr req \<longleftrightarrow>
     utf8_Valid body \<and>
     (\<exists>v rest. json_parse body = Some (v, rest) \<and> skip_ws rest = [] \<and> uniqueJSONValue orbit 0 v \<and>
        exactJSONFields v sc = None \<and> dec v = Some req)"
proof (cases "json_parse body")
  case (Some p)
  obtain v rest where "p = (v, rest)" by force
  with Some show ?thesis
    by (cases "exactJSONFields v sc"; cases "dec v") (simp_all add: decodeCreate_def)
qed (simp add: decodeCreate_def)

lemma checked_None: "(case x of Inl err \<Rightarrow> Some err | Inr req \<Rightarrow> check req) = None \<longleftrightarrow> (\<exists>req. x = Inr req \<and> check req = None)"
  by (cases x) simp_all

lemma ValidateContainerCreate_iff:
  "ValidateContainerCreate orbit body images net vol = None \<longleftrightarrow>
     utf8_Valid body \<and>
     (\<exists>v rest req. json_parse body = Some (v, rest) \<and> skip_ws rest = [] \<and> uniqueJSONValue orbit 0 v \<and>
        exactJSONFields v containerCreate_schema = None \<and> dec_containerCreate v = Some req \<and>
        hardened images net vol req)"
  unfolding ValidateContainerCreate_def checked_None decodeCreate_Inr check_container_iff by blast

lemma ValidateNetworkCreate_iff:
  "ValidateNetworkCreate orbit body = None \<longleftrightarrow>
     utf8_Valid body \<and>
     (\<exists>v rest req. json_parse body = Some (v, rest) \<and> skip_ws rest = [] \<and> uniqueJSONValue orbit 0 v \<and>
        exactJSONFields v networkCreate_schema = None \<and> dec_networkCreate v = Some req \<and> check_network req = None)"
  unfolding ValidateNetworkCreate_def checked_None decodeCreate_Inr by blast

lemma hardened_runner:
  "hardened images net vol req \<Longrightarrow> lookup_or [] (ccLabels req) role_label \<noteq> ''proxy'' \<Longrightarrow>
     hcBinds (ccHostConfig req) = [] \<and> (net \<noteq> [] \<longrightarrow> hcNetworkMode (ccHostConfig req) \<noteq> net)"
  unfolding hardened_def Let_def by blast

text \<open>C17: the body of a container create is accepted exactly when it is one unambiguous JSON object
  with only the supported fields and the container it describes is hardened: an allowed image, a
  non-root numeric user, no privilege, capability, device, host namespace, sysctl or security
  option beyond \<open>no-new-privileges\<close>, at most the egress volume read-only and only for the proxy
  role, temporary file systems that cannot execute, and no egress network but for the proxy.\<close>

theorem container_policy_exact:
  "ValidateContainerCreate orbit body images net vol = None \<longleftrightarrow>
     utf8_Valid body \<and>
     (\<exists>v rest req. json_parse body = Some (v, rest) \<and> skip_ws rest = [] \<and> uniqueJSONValue orbit 0 v \<and>
        exactJSONFields v containerCreate_schema = None \<and> dec_containerCreate v = Some req \<and>
        hardened images net vol req)"
  by (rule ValidateContainerCreate_iff)

lemma check_network_iff:
  "check_network req = None \<longleftrightarrow>
     ncDriver req = ''bridge'' \<and> ncInternal req \<and> \<not> ncAttachable req \<and>
     (\<forall>k \<in> set ownership_labels. lookup_or [] (ncLabels req) k \<noteq> [])"
  by (auto simp: check_network_def first_err_None)

lemma guarded_Forward:
  "guarded check r = Forward m p body \<Longrightarrow>
     m = rqMethod r \<and> p = rqPath r \<and> check body = None \<and> length body \<le> body_limit \<and> body = take body_limit (rqBody r)"
  by (auto simp: guarded_def read_limited_def split: sum.splits option.splits if_splits)

lemma ServeHTTP_Forward:
  assumes "ServeHTTP s r = Forward m p body"
  shows "m = rqMethod r" "p = rqPath r" "RouteAllowed m p"
    "m = ''POST'' \<Longrightarrow> containerCreatePath p \<Longrightarrow>
       ValidateContainerCreate (svOrbit s) body (svImages s) (svEgressNet s) (svEgressVol s) = None"
    "m = ''POST'' \<Longrightarrow> networkCreatePath p \<Longrightarrow> ValidateNetworkCreate (svOrbit s) body = None"
proof -
  have x: "\<not> (containerCreatePath q \<and> networkCreatePath q)" for q
    by (auto simp: containerCreatePath_def networkCreatePath_def)
  define container where "container = guarded (\<lambda>body. ValidateContainerCreate (svOrbit s) body (svImages s) (svEgressNet s) (svEgressVol s)) r"
  define network where "network = guarded (ValidateNetworkCreate (svOrbit s)) r"
  have route: "RouteAllowed (rqMethod r) (rqPath r)" using assms by (simp add: ServeHTTP_def split: if_splits)
  have run: "(if rqMethod r = ''POST'' \<and> containerCreatePath (rqPath r) then container
      else if rqMethod r = ''POST'' \<and> networkCreatePath (rqPath r) then network
      else Forward (rqMethod r) (rqPath r) (rqBody r)) = Forward m p body"
    using assms route unfolding ServeHTTP_def container_def network_def by (simp only: not_True_eq_False if_False)
  note g = guarded_Forward [of _ r m p body]
  show mp: "m = rqMethod r" "p = rqPath r"
    using run g unfolding container_def network_def by (metis outcome.inject(2))+
  with route show "RouteAllowed m p" by simp
  show "ValidateContainerCreate (svOrbit s) body (svImages s) (svEgressNet s) (svEgressVol s) = None"
    if "m = ''POST''" "containerCreatePath p"
  proof -
    have "container = Forward m p body" using run that mp by simp
    from guarded_Forward [OF this [unfolded container_def]] show ?thesis by blast
  qed
  show "ValidateNetworkCreate (svOrbit s) body = None" if "m = ''POST''" "networkCreatePath p"
  proof -
    have "network = Forward m p body" using run that x [of p] mp by simp
    from guarded_Forward [OF this [unfolded network_def]] show ?thesis by blast
  qed
qed


definition quoted :: "string \<Rightarrow> string" where
  "quoted s = [CHR 0x22] @ s @ [CHR 0x22]"

definition example_create :: string where
  "example_create = ''{'' @ quoted ''Image'' @ '':'' @ quoted ''a@sha256:b'' @ '','' @ quoted ''User'' @ '': '' @
     quoted ''1001:0'' @ '','' @ quoted ''HostConfig'' @ '':{'' @ quoted ''CapDrop'' @ '':['' @ quoted ''ALL'' @ ''],'' @
     quoted ''SecurityOpt'' @ '':['' @ quoted ''no-new-privileges:true'' @ '']}}''"

definition example_server :: Server where
  "example_server = \<lparr>svImages = [''a@sha256:b''], svEgressNet = ''egress'', svEgressVol = ''vol'', svOrbit = (\<lambda>s. s)\<rparr>"

definition example_request :: Request where
  "example_request = \<lparr>rqMethod = ''POST'', rqPath = ''/v1.44/containers/create'', rqBody = example_create, rqReadErr = None\<rparr>"


section \<open>One reading only\<close>

text \<open>Every object of a document, and how deeply containers nest.\<close>

fun json_objects :: "json \<Rightarrow> (string \<times> json) list list" where
  "json_objects (JObj kvs) = kvs # concat (map (\<lambda>kv. json_objects (snd kv)) kvs)"
| "json_objects (JArr xs) = concat (map json_objects xs)"
| "json_objects _ = []"

fun json_depth :: "json \<Rightarrow> nat" where
  "json_depth (JObj kvs) = fold max (map (\<lambda>kv. Suc (json_depth (snd kv))) kvs) 0"
| "json_depth (JArr xs) = fold max (map (\<lambda>x. Suc (json_depth x)) xs) 0"
| "json_depth _ = 0"

definition to_upper_char :: "char \<Rightarrow> char" where
  "to_upper_char c = (if is_lower c then char_of (byte c - 32) else c)"

lemma fold_max_le: "fold max xs (a :: nat) \<le> b \<longleftrightarrow> a \<le> b \<and> (\<forall>x \<in> set xs. x \<le> b)"
  by (induction xs arbitrary: a) auto

lemma unique_depth: "uniqueJSONValue orbit d v \<Longrightarrow> d + json_depth v \<le> maxJSONDepth"
proof (induction orbit d v rule: uniqueJSONValue.induct)
  case (1 orbit d kvs)
  then have "\<forall>kv \<in> set kvs. Suc (json_depth (snd kv)) \<le> maxJSONDepth - d"
    by (fastforce simp: list_all_iff)
  with 1 have "json_depth (JObj kvs) \<le> maxJSONDepth - d" by (simp add: fold_max_le)
  with 1 show ?case by (auto simp del: json_depth.simps)
next
  case (2 orbit d xs)
  then have "\<forall>x \<in> set xs. Suc (json_depth x) \<le> maxJSONDepth - d"
    by (fastforce simp: list_all_iff)
  with 2 have "json_depth (JArr xs) \<le> maxJSONDepth - d" by (simp add: fold_max_le)
  with 2 show ?case by (auto simp del: json_depth.simps)
qed simp_all

lemma unique_objects:
  "uniqueJSONValue orbit d v \<Longrightarrow> kvs \<in> set (json_objects v) \<Longrightarrow> distinct (map (fold_key orbit \<circ> fst) kvs)"
proof (induction orbit d v rule: uniqueJSONValue.induct)
  case (1 orbit d kvs')
  then show ?case by (auto simp: list_all_iff comp_def)
next
  case (2 orbit d xs)
  then show ?case by (auto simp: list_all_iff)
qed simp_all

lemma byte_upper: "byte (to_upper_char c) = (if is_lower c then byte c - 32 else byte c)"
  by (auto simp: to_upper_char_def byte_def is_lower_def of_char_of)

lemma byte_upper_high: "128 \<le> byte c \<Longrightarrow> to_upper_char c = c"
  by (simp add: to_upper_char_def is_lower_def byte_def)

lemma byte_upper_low: "byte c < 128 \<Longrightarrow> byte (to_upper_char c) < 128"
  by (auto simp: byte_upper)

lemma cont_upper [simp]: "cont (to_upper_char c) = cont c"
  using byte_upper_low [of c] byte_upper_high [of c] by (cases "byte c < 128") (auto simp: cont_def)

lemma rune_len_upper: "rune_len (map to_upper_char s) = rune_len s"
proof (cases s)
  case (Cons a t)
  show ?thesis
  proof (cases "byte a < 128")
    case True
    then show ?thesis using byte_upper_low [OF True] by (simp add: Cons)
  next
    case False
    have b: "cont x \<Longrightarrow> to_upper_char x = x" for x by (rule byte_upper_high) (simp add: cont_def)
    show ?thesis
      using False byte_upper_high [of a] b by (auto simp: Cons split: list.split)
  qed
qed simp

lemma rune_len_bytes:
  "rune_len s = Some n \<Longrightarrow> n = 1 \<and> byte (hd s) < 128 \<or> list_all (\<lambda>c. 128 \<le> byte c) (take n s)"
  by (cases s) (auto simp: cont_def eval_nat_numeral split: if_splits list.splits)

lemma fold_rune_upper:
  assumes "n = (case rune_len s of None \<Rightarrow> 1 | Some n \<Rightarrow> n)" and "s \<noteq> []"
  shows "fold_rune orbit (map to_upper_char (take n s)) = fold_rune orbit (take n s)"
proof (cases "list_all (\<lambda>c. 128 \<le> byte c) (take n s)")
  case True
  then have "map to_upper_char (take n s) = take n s"
    by (intro map_idI byte_upper_high) (simp add: list_all_iff)
  then show ?thesis by simp
next
  case False
  then have "n = 1" using rune_len_bytes [of s] assms(1) by (auto split: option.splits)
  with False assms(2) obtain c where c: "take n s = [c]" "byte c < 128" by (cases s) auto
  have "\<not> is_lower (to_upper_char c)" using byte_upper [of c] by (auto simp: is_lower_def byte_def)
  with c show ?thesis using byte_upper_low [OF c(2)] by (auto simp: fold_rune_def to_upper_char_def)
qed

lemma fold_key_upper: "fold_key orbit (map to_upper_char s) = fold_key orbit s"
proof (induction orbit s rule: fold_key.induct)
  case (1 orbit s)
  show ?case
  proof (cases "s = []")
    case False
    define n where "n = (case rune_len s of None \<Rightarrow> 1 | Some n \<Rightarrow> n)"
    have "fold_key orbit (map to_upper_char s) =
        fold_rune orbit (map to_upper_char (take n s)) @ fold_key orbit (map to_upper_char (drop n s))"
      using False by (subst fold_key.simps) (simp add: rune_len_upper n_def [symmetric] take_map drop_map Let_def)
    also have "\<dots> = fold_rune orbit (take n s) @ fold_key orbit (drop n s)"
      using 1 [OF False n_def] fold_rune_upper [OF n_def False] by simp
    also have "\<dots> = fold_key orbit s"
      using False by (subst (2) fold_key.simps) (simp add: n_def [symmetric] Let_def)
    finally show ?thesis .
  qed simp
qed

lemma fold_key_case: "map to_upper_char a = map to_upper_char b \<Longrightarrow> fold_key orbit a = fold_key orbit b"
  by (metis fold_key_upper)

text \<open>In a body that passes validation no object, at any depth, has two keys that differ only
  in letter case, and nesting stays within the limit: a parser that folds case or keeps the
  first or the last duplicate reads the same configuration the proxy checked.\<close>

theorem accepted_body_unambiguous:
  assumes "ValidateContainerCreate orbit body images net vol = None"
  shows "\<exists>v rest. json_parse body = Some (v, rest) \<and> json_depth v \<le> 64 \<and>
    (\<forall>kvs \<in> set (json_objects v). distinct (map (\<lambda>kv. map to_upper_char (fst kv)) kvs))"
proof -
  obtain v rest where v: "json_parse body = Some (v, rest)" "uniqueJSONValue orbit 0 v"
    using assms unfolding ValidateContainerCreate_iff by blast
  have "distinct (map (\<lambda>kv. map to_upper_char (fst kv)) kvs)" if "kvs \<in> set (json_objects v)" for kvs
    using unique_objects [OF v(2) that] fold_key_case [of _ _ orbit]
    unfolding distinct_map inj_on_def comp_def by blast
  with v unique_depth [OF v(2)] show ?thesis by (auto simp: maxJSONDepth_def)
qed

lemma accepted_body_unambiguous_witness:
  "\<exists>v rest. json_parse example_create = Some (v, rest) \<and>
     (\<forall>kvs \<in> set (json_objects v). distinct (map (\<lambda>kv. map to_upper_char (fst kv)) kvs))"
proof -
  have "ValidateContainerCreate (\<lambda>s. s) example_create [''a@sha256:b''] ''egress'' ''vol'' = None"
    by code_simp
  from accepted_body_unambiguous [OF this] show ?thesis by blast
qed

section \<open>The allowlist\<close>

lemma parse_lines_pinned: "parse_lines label n ls = Inr a \<Longrightarrow> ref \<in> set a \<Longrightarrow> Contains ref ''@sha256:''"
  by (induction ls arbitrary: n a) (auto simp: Let_def split: if_splits sum.splits)

lemma allow_parse_pinned: "allow_parse label c rerr = Inr a \<Longrightarrow> ref \<in> set a \<Longrightarrow> Contains ref ''@sha256:''"
  by (auto simp: allow_parse_def split_def Let_def split: sum.splits if_splits option.splits dest: parse_lines_pinned)

lemma Load_pinned: "Load files path = Inr a \<Longrightarrow> ref \<in> set a \<Longrightarrow> Contains ref ''@sha256:''"
  by (auto simp: Load_def split: file_read.splits dest: allow_parse_pinned)

text \<open>An allowlist that loads admits only references by digest, keeps every entry of the
  built-in file whatever the operator's extra file holds, and an extra file that is absent adds
  nothing.\<close>

theorem allowlist_digest_pinned:
  assumes "LoadWithExtra files path extraPath = Inr a" and "Load files path = Inr base"
  shows "(Allows a ref \<longrightarrow> Contains ref ''@sha256:'') \<and> (Allows base ref \<longrightarrow> Allows a ref) \<and>
         (extraPath = [] \<or> files extraPath = FileMissing \<longrightarrow> a = base)"
  using assms Load_pinned [OF assms(2), of ref]
  by (auto simp: LoadWithExtra_def Allows_def split: if_splits file_read.splits sum.splits dest: allow_parse_pinned)

definition example_files :: "string \<Rightarrow> file_read" where
  "example_files p = (if p = ''base'' then FileData ([CHR ''#'', CHR 0x0A] @ ''r/a@sha256:1'' @ [CHR 0x0D, CHR 0x0A]) None else FileMissing)"

lemma allowlist_digest_pinned_witness:
  "LoadWithExtra example_files ''base'' ''extra'' = Inr [''r/a@sha256:1''] \<and> Contains ''r/a@sha256:1'' ''@sha256:''"
proof -
  have scan: "scan_lines ([CHR ''#'', CHR 0x0A] @ ''r/a@sha256:1'' @ [CHR 0x0D, CHR 0x0A]) = ([''#'', ''r/a@sha256:1''], False)"
    by (simp add: scan_lines_def raw_lines_def drop_CR_def)
  have "parse_lines ''base'' 0 [''#'', ''r/a@sha256:1''] = Inr [''r/a@sha256:1'']" by code_simp
  then have base: "Load example_files ''base'' = Inr [''r/a@sha256:1'']"
    by (simp add: Load_def example_files_def allow_parse_def scan [simplified])
  then have l: "LoadWithExtra example_files ''base'' ''extra'' = Inr [''r/a@sha256:1'']"
    by (simp add: LoadWithExtra_def example_files_def)
  from allowlist_digest_pinned [OF l base, of "''r/a@sha256:1''"] l show ?thesis by (simp add: Allows_def)
qed

end
