(* ===== verification/JSON_Text.thy ===== *)
theory JSON_Text
  imports Proxy_Thms GH_Data
begin

text \<open>
  \<open>json.Marshal\<close>: the text of a document as the Docker client sends it, with Go's escaping of
  strings, and the round trip: for documents with integers the proxy's parser reads back the document
  that was marshalled, with U+FFFD in the place of bytes that are not UTF-8.
\<close>

section \<open>Marshalling\<close>

definition json_hex :: "nat \<Rightarrow> char" where
  "json_hex n = (if n < 10 then char_of (48 + n) else char_of (87 + n))"

definition escape_char :: "char \<Rightarrow> string" where
  "escape_char c =
     (if c = CHR 0x22 \<or> c = CHR 0x5C then [CHR 0x5C, c]
      else if c = CHR 0x08 then [CHR 0x5C, CHR ''b''] else if c = CHR 0x0C then [CHR 0x5C, CHR ''f'']
      else if c = CHR 0x0A then [CHR 0x5C, CHR ''n''] else if c = CHR 0x0D then [CHR 0x5C, CHR ''r'']
      else if c = CHR 0x09 then [CHR 0x5C, CHR ''t'']
      else if byte c < 32 \<or> c \<in> set ''<>&''
      then [CHR 0x5C, CHR ''u'', CHR ''0'', CHR ''0'', json_hex (byte c div 16), json_hex (byte c mod 16)]
      else [c])"

definition escape_rune :: "string \<Rightarrow> string" where
  "escape_rune r =
     (case r of [c] \<Rightarrow> escape_char c
      | _ \<Rightarrow> if r = utf8_encode 8232 then CHR 0x5C # ''u2028'' else if r = utf8_encode 8233 then CHR 0x5C # ''u2029'' else r)"

function json_escape :: "string \<Rightarrow> string" where
  "json_escape s =
     (if s = [] then []
      else case rune_len s of
        None \<Rightarrow> (CHR 0x5C # ''ufffd'') @ json_escape (tl s)
      | Some n \<Rightarrow> escape_rune (take n s) @ json_escape (drop n s))"
  by pat_completeness auto
termination
  by (relation "measure length") (auto dest: rune_len_pos)

declare json_escape.simps [simp del]

fun json_text :: "json \<Rightarrow> string" where
  "json_text JNull = ''null''"
| "json_text (JBool b) = (if b then ''true'' else ''false'')"
| "json_text (JNum s) = s"
| "json_text (JStr s) = CHR 0x22 # json_escape s @ [CHR 0x22]"
| "json_text (JArr xs) = ''['' @ join_with '','' (map json_text xs) @ '']''"
| "json_text (JObj kvs) = ''{'' @ join_with '',''
     (map (\<lambda>(k, v). (CHR 0x22 # json_escape k @ [CHR 0x22]) @ '':'' @ json_text v) kvs) @ ''}''"

text \<open>Documents of ASCII text and numbers as \<open>strconv\<close> writes them.\<close>

definition ascii :: "string \<Rightarrow> bool" where
  "ascii s = list_all (\<lambda>c. byte c < 128) s"

fun plain_json :: "json \<Rightarrow> bool" where
  "plain_json (JNum s) = (\<exists>n. s = show_int n)"
| "plain_json (JStr s) = ascii s"
| "plain_json (JArr xs) = list_all plain_json xs"
| "plain_json (JObj kvs) = list_all (\<lambda>kv. ascii (fst kv) \<and> plain_json (snd kv)) kvs"
| "plain_json _ = True"

lemma json_escape_ascii: "ascii s \<Longrightarrow> json_escape s = concat (map escape_char s)"
proof (induction s)
  case (Cons c s)
  then show ?case by (subst json_escape.simps) (simp add: ascii_def escape_rune_def)
qed (simp add: json_escape.simps)

text \<open>What remains of a string: U+FFFD replaces every byte that is not part of a rune.\<close>

function utf8_text :: "string \<Rightarrow> string" where
  "utf8_text s =
     (if s = [] then []
      else case rune_len s of
        None \<Rightarrow> utf8_encode 65533 @ utf8_text (tl s)
      | Some n \<Rightarrow> take n s @ utf8_text (drop n s))"
  by pat_completeness auto
termination
  by (relation "measure length") (auto dest: rune_len_pos)

declare utf8_text.simps [simp del]

fun utf8_json :: "json \<Rightarrow> json" where
  "utf8_json (JStr s) = JStr (utf8_text s)"
| "utf8_json (JArr xs) = JArr (map utf8_json xs)"
| "utf8_json (JObj kvs) = JObj (map (\<lambda>(k, v). (utf8_text k, utf8_json v)) kvs)"
| "utf8_json v = v"

definition number_text :: "string \<Rightarrow> bool" where
  "number_text s = (valid_number s \<and> list_all number_char s)"

fun num_json :: "json \<Rightarrow> bool" where
  "num_json (JNum s) = number_text s"
| "num_json (JArr xs) = list_all num_json xs"
| "num_json (JObj kvs) = list_all (\<lambda>kv. num_json (snd kv)) kvs"
| "num_json _ = True"

lemma utf8_text_ascii: "ascii s \<Longrightarrow> utf8_text s = s"
proof (induction s)
  case (Cons c s)
  then show ?case by (subst utf8_text.simps) (simp add: ascii_def)
qed (simp add: utf8_text.simps)

lemma hex_val_json: "n < 16 \<Longrightarrow> hex_val (json_hex n) = Some n"
  by (simp add: hex_val_def json_hex_def byte_def Let_def)

lemma str_body_escape_char:
  assumes "byte c < 128"
  shows "str_body (escape_char c @ t) = map_option (\<lambda>(w, y). (c # w, y)) (str_body t)"
proof -
  have char: "char_of (byte c) = c" by (simp add: byte_def)
  have hex: "hex4 (CHR ''0'') (CHR ''0'') (json_hex (byte c div 16)) (json_hex (byte c mod 16)) = Some (byte c)"
  proof -
    have "hex_val (CHR ''0'') = Some 0" by (simp add: hex_val_def byte_def)
    moreover have "byte c div 16 < 16" using assms by simp
    ultimately show ?thesis by (simp add: hex4_def hex_val_json)
  qed
  have low: "low_half (byte c) u = None" for u using assms by (simp add: low_half_def)
  have "str_body ([CHR 0x5C, CHR ''u'', CHR ''0'', CHR ''0'', json_hex (byte c div 16), json_hex (byte c mod 16)] @ t)
      = map_option (\<lambda>(w, y). (c # w, y)) (str_body t)"
    using assms by (subst str_body.simps) (simp add: unescape_def hex low surrogate_def utf8_encode_def char)
  then show ?thesis
    unfolding escape_char_def
    by (auto simp: str_body.simps [of "_ # _"] unescape_def simple_escape_def)
qed

lemma str_body_high:
  "list_all (\<lambda>c. 128 \<le> byte c) r \<Longrightarrow> str_body (r @ t) = map_option (\<lambda>(w, y). (r @ w, y)) (str_body t)"
proof (induction r)
  case Nil
  then show ?case by (cases "str_body t") auto
next
  case (Cons c r)
  then have "c \<noteq> CHR 0x22" "c \<noteq> CHR 0x5C" "\<not> byte c < 32" by (auto simp: byte_def)
  then show ?case using Cons by (subst str_body.simps) (cases "str_body t"; simp add: split_beta)
qed

lemma str_body_u:
  assumes "hex4 a b c d = Some r" and "\<not> surrogate r"
  shows "str_body (CHR 0x5C # CHR ''u'' # a # b # c # d # t) = map_option (\<lambda>(w, y). (utf8_encode r @ w, y)) (str_body t)"
proof -
  have "low_half r t = None" using assms(2) by (auto simp: low_half_def surrogate_def)
  then show ?thesis using assms by (subst str_body.simps) (simp add: unescape_def)
qed

lemma hex4_runes: "hex4 (CHR ''f'') (CHR ''f'') (CHR ''f'') (CHR ''d'') = Some 65533"
    "hex4 (CHR ''2'') (CHR ''0'') (CHR ''2'') (CHR ''8'') = Some 8232" "hex4 (CHR ''2'') (CHR ''0'') (CHR ''2'') (CHR ''9'') = Some 8233"
  by (simp_all add: hex4_def hex_val_def byte_def)

lemma str_body_escape_rune:
  assumes "rune_len s = Some n"
  shows "str_body (escape_rune (take n s) @ t) = map_option (\<lambda>(w, y). (take n s @ w, y)) (str_body t)"
proof (cases "n = 1 \<and> byte (hd s) < 128")
  case True
  then have "take n s = [hd s]" using assms by (cases s) auto
  then show ?thesis using str_body_escape_char [of "hd s" t] True by (simp add: escape_rune_def)
next
  case False
  then have high: "list_all (\<lambda>c. 128 \<le> byte c) (take n s)" using rune_len_bytes [OF assms] False by blast
  have "\<exists>a b r. take n s = a # b # r"
    using assms False by (cases s) (auto simp: eval_nat_numeral split: if_splits list.splits)
  then obtain a b r where r: "take n s = a # b # r" by blast
  have "escape_rune (take n s) = (if take n s = utf8_encode 8232 then CHR 0x5C # ''u2028'' else
      if take n s = utf8_encode 8233 then CHR 0x5C # ''u2029'' else take n s)" unfolding r by (simp add: escape_rune_def)
  then show ?thesis
    using str_body_high [OF high, of t] str_body_u [OF hex4_runes(2), of t] str_body_u [OF hex4_runes(3), of t] by (simp add: surrogate_def)
qed

lemma str_body_escape: "str_body (json_escape s @ CHR 0x22 # t) = Some (utf8_text s, t)"
proof (induction s rule: json_escape.induct)
  case (1 s)
  show ?case
  proof (cases "s = []")
    case True
    then show ?thesis by (subst str_body.simps) (simp add: json_escape.simps utf8_text.simps)
  next
    case False
    show ?thesis
    proof (cases "rune_len s")
      case None
      have "json_escape s = (CHR 0x5C # ''ufffd'') @ json_escape (tl s)" using False None by (subst json_escape.simps) simp
      moreover have "utf8_text s = utf8_encode 65533 @ utf8_text (tl s)" using False None by (subst utf8_text.simps) simp
      ultimately show ?thesis using 1(1) [OF False None] str_body_u [OF hex4_runes(1)] by (simp add: surrogate_def)
    next
      case (Some n)
      have "json_escape s = escape_rune (take n s) @ json_escape (drop n s)" using False Some by (subst json_escape.simps) simp
      moreover have "utf8_text s = take n s @ utf8_text (drop n s)" using False Some by (subst utf8_text.simps) simp
      ultimately show ?thesis using 1(2) [OF False Some] str_body_escape_rune [OF Some] by simp
    qed
  qed
qed

definition ends :: "string \<Rightarrow> bool" where
  "ends rest = (rest = [] \<or> \<not> number_char (hd rest))"

lemma skip_ws_char [simp]: "\<not> is_ws c \<Longrightarrow> skip_ws (c # s) = c # s"
  by (simp add: skip_ws_def)

lemma skip_ws_Nil [simp]: "skip_ws [] = []"
  by (simp add: skip_ws_def)

lemma not_ws [simp]: "\<not> is_ws (CHR ''{'')" "\<not> is_ws (CHR ''}'')" "\<not> is_ws (CHR ''['')" "\<not> is_ws (CHR '']'')" "\<not> is_ws (CHR 0x22)"
    "\<not> is_ws (CHR '','')" "\<not> is_ws (CHR '':'')" "\<not> is_ws (CHR ''n'')" "\<not> is_ws (CHR ''t'')" "\<not> is_ws (CHR ''f'')" "\<not> is_ws (CHR ''-'')"
  by (simp_all add: is_ws_def byte_def)

lemma ends_punct [simp]: "ends (CHR '','' # s)" "ends (CHR '']'' # s)" "ends (CHR ''}'' # s)" "ends []"
  by (simp_all add: ends_def number_char_def is_digit_def)

lemma digit_start:
  assumes "is_digit c"
  shows "\<not> is_ws c" "c \<notin> {CHR ''{'', CHR ''['', CHR 0x22, CHR ''n'', CHR ''t'', CHR ''f'', CHR ''-''}" "number_char c"
  using assms by (auto simp: is_digit_def is_ws_def byte_def number_char_def)

lemma show_nat_int_part: "int_part (show_nat n)"
proof (cases "n = 0")
  case True
  then show ?thesis by (simp add: int_part_def digits1_def digit_char_def is_digit_def show_nat.simps [of 0])
next
  case False
  then show ?thesis using show_nat_no_leading_zero [of n] by (simp add: int_part_def no_leading_zero_def del: show_nat.simps)
qed

lemma show_nat_head: "\<exists>c s. show_nat n = c # s \<and> is_digit c \<and> list_all is_digit s"
  using show_nat_digits [of n] by (cases "show_nat n") auto

lemma cut_char_absent: "d \<notin> set s \<Longrightarrow> cut_char d s = (s, [], False)"
  by (induction s) auto

lemma valid_show_nat: "valid_number (show_nat n) \<and> valid_number (CHR ''-'' # show_nat n)"
proof -
  obtain c s where s: "show_nat n = c # s" "is_digit c" "list_all is_digit s" using show_nat_head by blast
  have digits: "\<forall>d \<in> set (show_nat n). is_digit d" using show_nat_digits [of n] by (simp add: list_all_iff del: show_nat.simps)
  then have w: "takeWhile (\<lambda>c. c \<noteq> CHR ''e'' \<and> c \<noteq> CHR ''E'') (show_nat n) = show_nat n"
    by (intro takeWhile_eq_all_conv [THEN iffD2]) (auto simp: is_digit_def)
  have "CHR ''.'' \<notin> set (show_nat n)" using digits by (auto simp: is_digit_def)
  note dot = cut_char_absent [OF this]
  have "hd (show_nat n) \<noteq> CHR ''-''" using s(1,2) by (auto simp: is_digit_def)
  then show ?thesis
    using s(1) show_nat_int_part [of n] w dot by (simp add: valid_number_def Let_def del: show_nat.simps)
qed

lemma number_show_int [simp]: "number_text (show_int n)"
proof -
  have num: "list_all number_char (show_nat k)" for k
    using show_nat_digits [of k] digit_start(3) by (auto simp: list_all_iff simp del: show_nat.simps)
  then show ?thesis using valid_show_nat by (simp add: number_text_def show_int_def number_char_def del: show_nat.simps)
qed

lemma cut_char_head: "cut_char d s = (b, a, f) \<Longrightarrow> b \<noteq> [] \<Longrightarrow> \<exists>u. s = hd b # u"
  by (induction s arbitrary: b) (auto split: if_splits prod.splits)

lemma number_head: "number_text s \<Longrightarrow> \<exists>c t. s = c # t \<and> (c = CHR ''-'' \<or> is_digit c)"
proof -
  assume number: "number_text s"
  define t where "t = (if s \<noteq> [] \<and> hd s = CHR ''-'' then tl s else s)"
  let ?m = "takeWhile (\<lambda>c. c \<noteq> CHR ''e'' \<and> c \<noteq> CHR ''E'') t"
  obtain ip fp dot where cut: "cut_char CHR ''.'' ?m = (ip, fp, dot)" by (cases "cut_char CHR ''.'' ?m") auto
  then have "int_part ip" using number by (simp add: number_text_def valid_number_def Let_def t_def)
  then have ip: "ip \<noteq> []" "is_digit (hd ip)" by (cases ip; simp add: int_part_def digits1_def)+
  obtain u where "?m = hd ip # u" using cut_char_head [OF cut ip(1)] by blast
  then have "t \<noteq> [] \<and> hd t = hd ip" by (cases t) (auto split: if_splits)
  then show ?thesis using ip(2) by (cases s) (auto simp: t_def split: if_splits)
qed

lemma number_text_end: "number_text s \<Longrightarrow> ends rest \<Longrightarrow> takeWhile number_char (s @ rest) = s"
  by (cases rest) (simp_all add: number_text_def list_all_iff takeWhile_append2 ends_def)

lemma parse_number:
  assumes "number_text s" and "ends rest"
  shows "parse_value (Suc n) (s @ rest) = Some (JNum s, rest)"
proof -
  obtain c t where c: "s = c # t" "c = CHR ''-'' \<or> is_digit c" using number_head [OF assms(1)] by blast
  then have start: "\<not> is_ws c" "c \<notin> {CHR ''{'', CHR ''['', CHR 0x22, CHR ''n'', CHR ''t'', CHR ''f''}"
    using digit_start [of c] by auto
  have "takeWhile number_char (c # t @ rest) = c # t" using number_text_end [OF assms] c(1) by simp
  then show ?thesis using start assms(1) unfolding c(1) by (simp add: number_text_def Let_def)
qed

lemma plain_utf8: "plain_json v \<Longrightarrow> num_json v \<and> utf8_json v = v"
proof (induction v rule: plain_json.induct)
  case (4 kvs)
  have "map (\<lambda>(k, v). (utf8_text k, utf8_json v)) kvs = kvs"
    by (rule map_idI) (use 4 utf8_text_ascii in \<open>auto simp: list_all_iff\<close>)
  then show ?case using 4 by (auto simp: list_all_iff)
qed (auto simp: list_all_iff utf8_text_ascii intro!: map_idI)

fun json_need :: "json \<Rightarrow> nat" where
  "json_need (JArr xs) = Suc (sum_list (map (\<lambda>x. Suc (json_need x)) xs))"
| "json_need (JObj kvs) = Suc (sum_list (map (\<lambda>kv. Suc (json_need (snd kv))) kvs))"
| "json_need _ = 1"

lemma json_text_head: "num_json v \<Longrightarrow> \<exists>c s. json_text v = c # s \<and> \<not> is_ws c \<and> c \<noteq> CHR '']'' \<and> c \<noteq> CHR ''}''"
proof (cases v)
  case (JNum s)
  assume "num_json v"
  then obtain c t where s: "s = c # t" and c: "c = CHR ''-'' \<or> is_digit c" using JNum number_head [of s] by auto
  have "\<not> is_ws c \<and> c \<noteq> CHR '']'' \<and> c \<noteq> CHR ''}''"
    using c digit_start(1) [of c] by (auto simp: is_digit_def)
  then show ?thesis using JNum s by simp
qed auto

lemma parse_elems_text:
  assumes "xs \<noteq> []" and "sum_list (map (\<lambda>x. Suc (json_need x)) xs) \<le> n"
    and "\<And>x n rest. x \<in> set xs \<Longrightarrow> json_need x \<le> n \<Longrightarrow> ends rest \<Longrightarrow> parse_value n (json_text x @ rest) = Some (utf8_json x, rest)"
  shows "parse_elems n (join_with '','' (map json_text xs) @ CHR '']'' # rest) = Some (map utf8_json xs, rest)"
  using assms
proof (induction xs arbitrary: n rule: induct_list012)
  case (2 x)
  then obtain m where m: "n = Suc m" "json_need x \<le> m" by (cases n) auto
  then show ?case using "2.prems"(3) [of x m "CHR '']'' # rest"] by simp
next
  case (3 x y xs)
  then obtain m where m: "n = Suc m" "json_need x \<le> m" "sum_list (map (\<lambda>x. Suc (json_need x)) (y # xs)) \<le> m" by (cases n) auto
  have "parse_value m (json_text x @ CHR '','' # join_with '','' (map json_text (y # xs)) @ CHR '']'' # rest) =
      Some (utf8_json x, CHR '','' # join_with '','' (map json_text (y # xs)) @ CHR '']'' # rest)"
    by (rule "3.prems"(3)) (use m in simp_all)
  moreover have "parse_elems m (join_with '','' (map json_text (y # xs)) @ CHR '']'' # rest) = Some (map utf8_json (y # xs), rest)"
    by (rule "3.IH"(2)) (use m "3.prems"(3) in auto)
  ultimately show ?case by (simp add: m(1))
qed simp

definition member_text :: "string \<times> json \<Rightarrow> string" where
  "member_text kv = (case kv of (k, v) \<Rightarrow> (CHR 0x22 # json_escape k @ [CHR 0x22]) @ '':'' @ json_text v)"

definition utf8_member :: "string \<times> json \<Rightarrow> string \<times> json" where
  "utf8_member kv = (utf8_text (fst kv), utf8_json (snd kv))"

lemma parse_members_text:
  assumes "xs \<noteq> []" and "sum_list (map (\<lambda>kv. Suc (json_need (snd kv))) xs) \<le> n"
    and "\<And>x n rest. x \<in> set xs \<Longrightarrow> json_need (snd x) \<le> n \<Longrightarrow> ends rest \<Longrightarrow> parse_value n (json_text (snd x) @ rest) = Some (utf8_json (snd x), rest)"
  shows "parse_members n (join_with '','' (map member_text xs) @ CHR ''}'' # rest) = Some (map utf8_member xs, rest)"
  using assms
proof (induction xs arbitrary: n rule: induct_list012)
  case (2 x)
  then obtain m where m: "n = Suc m" "json_need (snd x) \<le> m" by (cases n) auto
  then show ?case
    using "2.prems"(3) [of x m "CHR ''}'' # rest"] by (cases x) (simp add: member_text_def str_body_escape utf8_member_def)
next
  case (3 x y xs)
  then obtain m where m: "n = Suc m" "json_need (snd x) \<le> m" "sum_list (map (\<lambda>x. Suc (json_need (snd x))) (y # xs)) \<le> m" by (cases n) auto
  have "parse_value m (json_text (snd x) @ CHR '','' # join_with '','' (map member_text (y # xs)) @ CHR ''}'' # rest) =
      Some (utf8_json (snd x), CHR '','' # join_with '','' (map member_text (y # xs)) @ CHR ''}'' # rest)"
    by (rule "3.prems"(3)) (use m in simp_all)
  moreover have "parse_members m (join_with '','' (map member_text (y # xs)) @ CHR ''}'' # rest) = Some (map utf8_member (y # xs), rest)"
    by (rule "3.IH"(2)) (use m "3.prems"(3) in auto)
  moreover have "member_text x = CHR 0x22 # json_escape (fst x) @ CHR 0x22 # CHR '':'' # json_text (snd x)"
    by (cases x) (simp add: member_text_def)
  ultimately show ?case by (simp add: m(1) str_body_escape utf8_member_def)
qed simp


lemma parse_json_text:
  "num_json v \<Longrightarrow> json_need v \<le> n \<Longrightarrow> ends rest \<Longrightarrow> parse_value n (json_text v @ rest) = Some (utf8_json v, rest)"
proof (induction v arbitrary: n rest rule: json_text.induct)
  case (1 n)
  then show ?case by (cases n) (simp_all add: keyword_def HasPrefix_def)
next
  case (2 b)
  then show ?case by (cases n) (simp_all add: keyword_def HasPrefix_def)
next
  case (3 s)
  then show ?case using parse_number by (cases n) auto
next
  case (4 s)
  then show ?case by (cases n) (simp_all add: str_body_escape)
next
  case (5 xs)
  then obtain m where m: "n = Suc m" "sum_list (map (\<lambda>x. Suc (json_need x)) xs) \<le> m" by (cases n) auto
  show ?case
  proof (cases xs)
    case (Cons x ys)
    have "parse_elems m (join_with '','' (map json_text xs) @ CHR '']'' # rest) = Some (map utf8_json xs, rest)"
      by (rule parse_elems_text) (use m Cons "5.IH" "5.prems"(1) in \<open>auto simp: list_all_iff\<close>)
    moreover obtain c s where "json_text x = c # s" "\<not> is_ws c" "c \<noteq> CHR '']''"
      using json_text_head [of x] "5.prems"(1) Cons by auto
    then obtain u where "join_with '','' (map json_text xs) @ CHR '']'' # rest = c # u" "\<not> is_ws c" "c \<noteq> CHR '']''"
      unfolding Cons by (cases ys) simp_all
    ultimately show ?thesis by (simp add: m(1))
  qed (simp add: m(1))
next
  case (6 kvs)
  then obtain m where m: "n = Suc m" "sum_list (map (\<lambda>kv. Suc (json_need (snd kv))) kvs) \<le> m" by (cases n) auto
  have shape: "json_text (JObj kvs) = CHR ''{'' # join_with '','' (map member_text kvs) @ ''}''"
    by (simp add: member_text_def [abs_def])
  show ?case
  proof (cases kvs)
    case (Cons x ys)
    have one: "parse_value n (json_text (snd kv) @ rest) = Some (utf8_json (snd kv), rest)"
      if "kv \<in> set kvs" "json_need (snd kv) \<le> n" "ends rest" for kv n rest
      using "6.IH" [of kv "fst kv" "snd kv" n rest] that "6.prems"(1) by (simp add: list_all_iff)
    have "parse_members m (join_with '','' (map member_text kvs) @ CHR ''}'' # rest) = Some (map utf8_member kvs, rest)"
      by (rule parse_members_text) (use m Cons one "6.prems"(1) in \<open>simp_all add: list_all_iff\<close>)
    moreover obtain u where "join_with '','' (map member_text kvs) @ CHR ''}'' # rest = CHR 0x22 # u"
      unfolding Cons by (cases ys; cases x) (simp_all add: member_text_def)
    moreover have "utf8_member = (\<lambda>(k, v). (utf8_text k, utf8_json v))" by (auto simp: utf8_member_def)
    ultimately show ?thesis unfolding shape by (simp add: m(1))
  qed (simp add: m(1))
qed

lemma json_text_parse: "num_json v \<Longrightarrow> json_parse (json_text v) = Some (utf8_json v, [])"
  using parse_json_text [of v "max (json_need v) (2 * length (json_text v) + 2)" "[]"]
    json_parse_fuel [of "json_text v" "max (json_need v) (2 * length (json_text v) + 2)"] by simp

lemma json_roundtrip: "plain_json v \<Longrightarrow> json_parse (json_text v) = Some (v, [])"
  using plain_utf8 json_text_parse by metis

lemma ascii_append [simp]: "ascii (a @ b) \<longleftrightarrow> ascii a \<and> ascii b"
  by (simp add: ascii_def)

lemma ascii_Cons [simp]: "ascii (c # s) \<longleftrightarrow> byte c < 128 \<and> ascii s" "ascii []"
  by (simp_all add: ascii_def)

lemma ascii_utf8: "ascii s \<Longrightarrow> utf8_Valid s"
  by (induction s) (subst utf8_Valid.simps, simp)+

lemma ascii_join: "(\<And>x. x \<in> set xs \<Longrightarrow> ascii x) \<Longrightarrow> ascii sep \<Longrightarrow> ascii (join_with sep xs)"
  by (induction sep xs rule: join_with.induct) simp_all

lemma ascii_hex: "n < 16 \<Longrightarrow> byte (json_hex n) < 128"
  by (simp add: json_hex_def byte_def)

lemma ascii_escape: "ascii s \<Longrightarrow> ascii (json_escape s)"
proof -
  have "byte c < 128 \<Longrightarrow> ascii (escape_char c)" for c
    using ascii_hex [of "byte c div 16"] ascii_hex [of "byte c mod 16"] by (simp add: escape_char_def) (simp add: byte_def)
  then show "ascii s \<Longrightarrow> ascii (json_escape s)"
    by (simp add: json_escape_ascii) (induction s; simp)
qed

lemma ascii_show_int: "ascii (show_int n)"
proof -
  have "ascii (show_nat k)" for k
    using show_nat_digits [of k] by (auto simp: ascii_def list_all_iff is_digit_def byte_def simp del: show_nat.simps)
  then show ?thesis by (simp add: show_int_def byte_def)
qed

lemma ascii_json_text: "plain_json v \<Longrightarrow> ascii (json_text v)"
proof (induction v rule: json_text.induct)
  case (5 xs)
  then show ?case by (auto simp: list_all_iff byte_def intro!: ascii_join)
next
  case (6 kvs)
  have "ascii (json_escape k) \<and> ascii (json_text v)" if "(k, v) \<in> set kvs" for k v
    using 6 that ascii_escape by (fastforce simp: list_all_iff)
  then show ?case by (auto simp: byte_def intro!: ascii_join)
qed (auto simp: byte_def ascii_escape ascii_show_int)

section \<open>Lines and lookups\<close>

lemma map_of_sort: "distinct (keys m) \<Longrightarrow> map_of (sort_key fst m) = map_of m"
proof -
  assume d: "distinct (keys m)"
  then have "distinct (keys (sort_key fst m))" by (simp add: distinct_map)
  then show ?thesis using d map_of_inject_set [of "sort_key fst m" m] by simp
qed

lemma join_with_no_newline:
  "list_all (\<lambda>l. CHR 0x0A \<notin> set l) ls \<Longrightarrow> CHR 0x0A \<notin> set sep \<Longrightarrow> CHR 0x0A \<notin> set (join_with sep ls)"
  by (induction sep ls rule: join_with.induct) auto

lemma show_int_no_newline: "CHR 0x0A \<notin> set (show_int v)"
proof -
  have "list_all is_digit (show_nat n)" for n using show_nat_digits [of n] by simp
  moreover have "\<not> is_digit CHR 0x0A" by (simp add: is_digit_def)
  ultimately have "CHR 0x0A \<notin> set (show_nat n)" for n unfolding list_all_iff by blast
  then show ?thesis by (auto simp: show_int_def)
qed

lemma escape_no_newline: "CHR 0x0A \<notin> set (json_escape s)"
proof (induction s rule: json_escape.induct)
  case (1 s)
  have hex: "CHR 0x0A \<noteq> json_hex n" if "n < 16" for n
  proof
    assume "CHR 0x0A = json_hex n"
    then have "byte (CHR 0x0A) = byte (json_hex n)" by simp
    then show False using that by (auto simp: json_hex_def byte_def split: if_splits)
  qed
  have char: "CHR 0x0A \<notin> set (escape_char c)" for c
    using hex [of "byte c div 16"] hex [of "byte c mod 16"] by (auto simp: escape_char_def byte_def)
  have "CHR 0x0A \<notin> set (escape_rune (take n s))" if n: "rune_len s = Some n" for n
  proof (cases "n = 1 \<and> byte (hd s) < 128")
    case True
    then show ?thesis using n char by (cases s) (simp_all add: escape_rune_def)
  next
    case False
    then have "list_all (\<lambda>c. 128 \<le> byte c) (take n s)" using rune_len_bytes [OF n] by blast
    then have "CHR 0x0A \<notin> set (take n s)" by (auto simp: list_all_iff byte_def)
    then show ?thesis using char by (auto simp: escape_rune_def split: list.splits)
  qed
  then show ?case using 1 by (subst json_escape.simps) (auto split: option.splits)
qed

text \<open>A marshalled document is one line.\<close>

lemma json_text_no_newline: "num_json v \<Longrightarrow> CHR 0x0A \<notin> set (json_text v)"
proof (induction v rule: json_text.induct)
  case (5 xs)
  then have "CHR 0x0A \<notin> set (join_with '','' (map json_text xs))"
    by (intro join_with_no_newline) (auto simp: list_all_iff)
  then show ?case by simp
next
  case (6 kvs)
  then have "CHR 0x0A \<notin> set (join_with '','' (map (\<lambda>(k, v). (CHR 0x22 # json_escape k @ [CHR 0x22]) @ '':'' @ json_text v) kvs))"
    using escape_no_newline by (intro join_with_no_newline) (fastforce simp: list_all_iff)+
  then show ?case by simp
next
  case (3 s)
  then show ?case by (auto simp: number_text_def list_all_iff number_char_def is_digit_def)
qed (use escape_no_newline in auto)

section \<open>Decoded documents\<close>

text \<open>Every decoded document has well-formed numbers, so it can be marshalled and decoded again.\<close>

lemma number_prefix: "valid_number (takeWhile number_char s) \<Longrightarrow> num_json (JNum (takeWhile number_char s))"
  by (auto simp: number_text_def list_all_iff dest: set_takeWhileD)

lemma keyword_num: "keyword w v s = Some (u, r) \<Longrightarrow> num_json v \<Longrightarrow> num_json u"
  by (auto simp: keyword_def split: if_splits)

lemma parsed_num:
  "parse_value n s = Some (v, r) \<Longrightarrow> num_json v"
  "parse_elems n s = Some (vs, r) \<Longrightarrow> list_all num_json vs"
  "parse_members n s = Some (kvs, r) \<Longrightarrow> list_all (\<lambda>kv. num_json (snd kv)) kvs"
proof (induction n s and n s and n s arbitrary: v r and vs r and kvs r rule: parse_value_parse_elems_parse_members.induct)
  case (2 n s)
  then obtain c t where s: "skip_ws s = c # t" by (cases "skip_ws s") auto
  have "\<not> (c = CHR ''{'' \<or> c = CHR ''['') \<Longrightarrow> num_json v"
    using 2(3) number_prefix [of "c # t"] by (auto simp: s Let_def dest: keyword_num simp del: takeWhile.simps split: if_splits)
  moreover have "c = CHR ''{'' \<or> c = CHR ''['' \<Longrightarrow> num_json v"
    using 2 by (auto simp: s split: list.splits if_splits)
  ultimately show ?case by blast
next
  case (4 n s)
  then show ?case by (fastforce split: option.splits list.splits if_splits)
next
  case (6 n s)
  then show ?case by (fastforce split: option.splits list.splits if_splits)
qed simp_all

lemma json_parse_num: "json_parse s = Some (v, r) \<Longrightarrow> num_json v"
  unfolding json_parse_def by (rule parsed_num)

end
