(* ===== verification/Stack_Thms.thy ===== *)
theory Stack_Thms
  imports Compose_Thms JSON_Text
begin

text \<open>
  The Compose backend against the socket proxy: the bytes the Docker client marshals are decoded by
  the proxy to the request that was meant, and the verdict of the proxy's policy on the three requests
  of a spawn is computed.
\<close>

section \<open>The client's requests as the proxy reads them\<close>

definition as_hostConfig :: "HostConfig \<Rightarrow> hostConfig" where
  "as_hostConfig h = zero_hostConfig\<lparr>hcCapDrop := dhCapDrop h, hcSecurityOpt := dhSecurityOpt h,
     hcNetworkMode := dhNetworkMode h, hcMemory := dhMemory h, hcNanoCPUs := dhNanoCPUs h, hcPidsLimit := dhPidsLimit h,
     hcReadonlyRootfs := dhReadonlyRootfs h, hcTmpfs := sort_key fst (dhTmpfs h), hcBinds := dhBinds h, hcAutoRemove := dhAutoRemove h\<rparr>"

definition as_create :: "CreateContainerRequest \<Rightarrow> containerCreate" where
  "as_create r = \<lparr>ccImage = crImage r, ccUser = crUser r, ccEnv = crEnv r, ccCmd = crCmd r,
     ccEntrypoint = crEntrypoint r, ccLabels = sort_key fst (crLabels r), ccHostConfig = as_hostConfig (crHostConfig r),
     ccNetworkingConfig = map_option (sort_key fst) (crNetworkingConfig r)\<rparr>"

definition int64 :: "int \<Rightarrow> bool" where
  "int64 n = (- (2 ^ 63) \<le> n \<and> n < 2 ^ 63)"

lemma opt_all_decoded: "(\<And>x. x \<in> set xs \<Longrightarrow> f (g x) = Some x) \<Longrightarrow> opt_all f (map g xs) = Some xs"
  by (induction xs) simp_all

lemma dec_strs_json [simp]: "dec_strs (json_strs xs) = Some xs"
  by (simp add: dec_strs_def json_strs_def dec_list_def opt_all_decoded)

lemma dec_strmap_json [simp]: "dec_strmap (json_strmap m) = Some (sort_key fst m)"
  by (simp add: dec_strmap_def json_strmap_def dec_map_def opt_all_decoded split: prod.splits)

lemma dec_int_json [simp]: "int64 n \<Longrightarrow> dec_int (json_int n) = Some n"
proof -
  assume n: "int64 n"
  have d: "digits1 (show_nat k)" for k using show_nat_digits [of k] by (simp add: digits1_def)
  have "hd (show_nat k) \<noteq> CHR ''-''" for k
    using show_nat_digits [of k] by (cases "show_nat k") (auto simp: is_digit_def)
  moreover have "show_nat k \<noteq> []" for k using show_nat_digits [of k] by simp
  ultimately show ?thesis using n d by (auto simp: json_int_def parse_int64_def show_int_def Let_def int64_def simp del: show_nat.simps)
qed

lemma field_obj:
  "field (JObj []) k z f = Some z"
  "field (JObj ((k', v) # m)) k z f = (if k = k' then f v else field (JObj m) k z f)"
  "field (JObj (omit b k' v @ m)) k z f = (if k = k' \<and> \<not> b then f v else field (JObj m) k z f)"
  "field (JObj (omit b k' v)) k z f = (if k = k' \<and> \<not> b then f v else Some z)"
  by (auto simp: field_def omit_def)

lemma dec_endpoints_json: "field (json_endpoints eps) ''EndpointsConfig'' [] dec_endpoints = Some (sort_key fst eps)"
proof -
  have "opt_all (\<lambda>kv. map_option (\<lambda>y. (fst kv, y)) (field (snd kv) ''Aliases'' [] dec_strs))
      (map (\<lambda>(k, as). (k, JObj (omit (as = []) ''Aliases'' (json_strs as)))) (sort_key fst eps)) = Some (sort_key fst eps)"
    by (rule opt_all_decoded) (auto simp: field_obj)
  then show ?thesis by (simp add: json_endpoints_def field_obj dec_endpoints_def dec_map_def)
qed

lemma host_fields:
  assumes "int64 (dhMemory h)" "int64 (dhNanoCPUs h)" "int64 (dhPidsLimit h)"
  shows
    "field (json_HostConfig h) ''Privileged'' False dec_bool = Some (False)"
    "field (json_HostConfig h) ''CapAdd'' [] dec_strs = Some ([])"
    "field (json_HostConfig h) ''CapDrop'' [] dec_strs = Some (dhCapDrop h)"
    "field (json_HostConfig h) ''Devices'' [] (dec_list Some) = Some ([])"
    "field (json_HostConfig h) ''PidMode'' [] dec_str = Some ([])"
    "field (json_HostConfig h) ''NetworkMode'' [] dec_str = Some (dhNetworkMode h)"
    "field (json_HostConfig h) ''IpcMode'' [] dec_str = Some ([])"
    "field (json_HostConfig h) ''UTSMode'' [] dec_str = Some ([])"
    "field (json_HostConfig h) ''UsernsMode'' [] dec_str = Some ([])"
    "field (json_HostConfig h) ''Sysctls'' [] dec_strmap = Some ([])"
    "field (json_HostConfig h) ''SecurityOpt'' [] dec_strs = Some (dhSecurityOpt h)"
    "field (json_HostConfig h) ''Binds'' [] dec_strs = Some (dhBinds h)"
    "field (json_HostConfig h) ''Memory'' 0 dec_int = Some (dhMemory h)"
    "field (json_HostConfig h) ''NanoCpus'' 0 dec_int = Some (dhNanoCPUs h)"
    "field (json_HostConfig h) ''PidsLimit'' 0 dec_int = Some (dhPidsLimit h)"
    "field (json_HostConfig h) ''ReadonlyRootfs'' False dec_bool = Some (dhReadonlyRootfs h)"
    "field (json_HostConfig h) ''AutoRemove'' False dec_bool = Some (dhAutoRemove h)"
    "field (json_HostConfig h) ''Tmpfs'' [] dec_strmap = Some (sort_key fst (dhTmpfs h))"
  using assms by (simp_all add: json_HostConfig_def field_obj)

lemma dec_hostConfig_json:
  assumes "int64 (dhMemory h)" "int64 (dhNanoCPUs h)" "int64 (dhPidsLimit h)"
  shows "dec_hostConfig (json_HostConfig h) = Some (as_hostConfig h)"
  by (simp only: dec_hostConfig_def host_fields [OF assms] prod.case option.case)
    (simp add: as_hostConfig_def zero_hostConfig_def)

lemma container_fields:
  assumes "int64 (dhMemory (crHostConfig r))" "int64 (dhNanoCPUs (crHostConfig r))" "int64 (dhPidsLimit (crHostConfig r))"
  shows
    "field (json_container r) ''Image'' [] dec_str = Some (crImage r)"
    "field (json_container r) ''User'' [] dec_str = Some (crUser r)"
    "field (json_container r) ''Env'' [] dec_strs = Some (crEnv r)"
    "field (json_container r) ''Cmd'' [] dec_strs = Some (crCmd r)"
    "field (json_container r) ''Entrypoint'' [] dec_strs = Some (crEntrypoint r)"
    "field (json_container r) ''Labels'' [] dec_strmap = Some (sort_key fst (crLabels r))"
    "field (json_container r) ''HostConfig'' zero_hostConfig dec_hostConfig = Some (as_hostConfig (crHostConfig r))"
    "field (json_container r) ''NetworkingConfig'' None dec_networking = Some (map_option (sort_key fst) (crNetworkingConfig r))"
proof -
  show "field (json_container r) ''NetworkingConfig'' None dec_networking = Some (map_option (sort_key fst) (crNetworkingConfig r))"
    using dec_endpoints_json
    by (cases "crNetworkingConfig r") (simp_all add: json_container_def field_obj dec_networking_def json_endpoints_def)
qed (simp_all add: json_container_def field_obj dec_hostConfig_json [OF assms] split: option.split)

lemma dec_container_json:
  assumes "int64 (dhMemory (crHostConfig r))" "int64 (dhNanoCPUs (crHostConfig r))" "int64 (dhPidsLimit (crHostConfig r))"
  shows "dec_containerCreate (json_container r) = Some (as_create r)"
  by (simp only: dec_containerCreate_def container_fields [OF assms] prod.case option.case as_create_def)

lemma dec_network_json: "dec_networkCreate (json_network r) =
    Some \<lparr>ncName = cnName r, ncDriver = cnDriver r, ncInternal = cnInternal r, ncAttachable = cnAttachable r, ncLabels = sort_key fst (cnLabels r)\<rparr>"
  by (simp add: dec_networkCreate_def json_network_def field_obj)

section \<open>The supported fields\<close>

lemma first_err_append [simp]: "first_err (xs @ ys) = (case first_err xs of None \<Rightarrow> first_err ys | Some e \<Rightarrow> Some e)"
  by (induction xs rule: first_err.induct) simp_all

lemma first_err_omit: "f (k, v) = None \<Longrightarrow> first_err (map f (omit z k v)) = None"
  by (simp add: omit_def)

lemma exact_strs [simp]: "exactJSONFields (json_strs xs) strs_schema = None"
  by (auto simp: json_strs_def strs_schema_def strip_ptr_def first_err_None)

lemma exact_strmap [simp]: "exactJSONFields (json_strmap xs) strmap_schema = None"
  by (auto simp: json_strmap_def strmap_schema_def strip_ptr_def first_err_None)

lemma exact_base [simp]: "exactJSONFields (JStr s) SBase = None" "exactJSONFields (JBool b) SBase = None"
    "exactJSONFields (json_int n) SBase = None"
  by (simp_all add: strip_ptr_def json_int_def)

lemma exact_hostConfig: "exactJSONFields (json_HostConfig h) hostConfig_schema = None"
  by (simp add: json_HostConfig_def hostConfig_schema_def strip_ptr_def first_err_omit)

lemma exact_endpoints: "exactJSONFields (json_endpoints eps) (SPtr networkingConfig_schema) = None"
  by (auto simp: json_endpoints_def networkingConfig_schema_def strip_ptr_def first_err_None omit_def)

lemma exact_container: "exactJSONFields (json_container r) containerCreate_schema = None"
  using exact_hostConfig exact_endpoints
  by (simp add: json_container_def containerCreate_schema_def strip_ptr_def first_err_omit split: option.split)

lemma exact_network: "exactJSONFields (json_network r) networkCreate_schema = None"
  by (simp add: json_network_def networkCreate_schema_def strip_ptr_def)

section \<open>Unambiguous keys\<close>

lemma fold_key_ascii: "list_all (\<lambda>c. byte c < 128) s \<Longrightarrow> fold_key orbit s = map to_upper_char s"
proof (induction s)
  case (Cons c s)
  then show ?case
    by (subst fold_key.simps) (auto simp: fold_rune_def to_upper_char_def byte_def)
qed (simp add: fold_key.simps)


lemma unique_leaf [simp]:
  "d < maxJSONDepth \<Longrightarrow> uniqueJSONValue orbit d (json_strs xs)" "uniqueJSONValue orbit d (JStr s) \<longleftrightarrow> d \<le> maxJSONDepth"
  "uniqueJSONValue orbit d (json_int n) \<longleftrightarrow> d \<le> maxJSONDepth"
  by (simp_all add: json_strs_def json_int_def list_all_iff)

definition distinct_folded :: "(string \<Rightarrow> string) \<Rightarrow> string list \<Rightarrow> bool" where
  "distinct_folded orbit ks = distinct (map (fold_key orbit) ks)"

lemma distinct_sort_folded: "distinct_folded orbit (keys (sort_key fst m)) \<longleftrightarrow> distinct_folded orbit (keys m)"
  unfolding distinct_folded_def map_map by (simp only: distinct_map distinct_sort set_sort)

lemma unique_strmap: "d < maxJSONDepth \<Longrightarrow> distinct_folded orbit (keys m) \<Longrightarrow> uniqueJSONValue orbit d (json_strmap m)"
  using distinct_sort_folded [of orbit m]
  by (simp add: json_strmap_def distinct_folded_def list_all_iff comp_def split_beta)

lemma subseq_fields:
  "subseq (keys m) ks \<Longrightarrow> subseq (keys ((k, v) # m)) (k # ks)"
  "subseq (keys m) ks \<Longrightarrow> subseq (keys (omit z k v @ m)) (k # ks)"
  "subseq (keys (omit z k v)) (k # ks)"
  by (auto simp: omit_def)

lemma unique_object:
  assumes "distinct_folded orbit ks" "subseq (keys kvs) ks" "d \<le> maxJSONDepth"
    "list_all (\<lambda>kv. uniqueJSONValue orbit (Suc d) (snd kv)) kvs"
  shows "uniqueJSONValue orbit d (JObj kvs)"
proof -
  have "subseq (map (fold_key orbit) (keys kvs)) (map (fold_key orbit) ks)" using assms(2) by (rule subseq_map)
  then have "distinct (map (fold_key orbit) (keys kvs))"
    using assms(1) unfolding distinct_folded_def subseq_conv_nths by (metis distinct_nthsI)
  then show ?thesis using assms(3,4) by simp
qed

lemma all_omit [simp]: "list_all P (omit z k v) \<longleftrightarrow> z \<or> P (k, v)"
  by (simp add: omit_def)

lemma folded_host:
  "distinct_folded orbit [''CapDrop'', ''SecurityOpt'', ''NetworkMode'', ''Memory'', ''NanoCpus'', ''PidsLimit'', ''ReadonlyRootfs'',
     ''Tmpfs'', ''Binds'', ''AutoRemove'']"
  by (simp add: distinct_folded_def fold_key_ascii byte_def to_upper_char_def is_lower_def)

lemma unique_hostConfig:
  "d + 2 \<le> maxJSONDepth \<Longrightarrow> distinct_folded orbit (keys (dhTmpfs h)) \<Longrightarrow> uniqueJSONValue orbit d (json_HostConfig h)"
  unfolding json_HostConfig_def append_Cons append_Nil
  by (rule unique_object [OF folded_host], intro subseq_fields) (simp_all add: unique_strmap)

lemma folded_container:
  "distinct_folded orbit [''Image'', ''User'', ''Env'', ''Cmd'', ''Entrypoint'', ''Labels'', ''HostConfig'', ''NetworkingConfig'']"
  by (simp add: distinct_folded_def fold_key_ascii byte_def to_upper_char_def is_lower_def)

lemma folded_network:
  "distinct_folded orbit [''Name'', ''Driver'', ''Internal'', ''Attachable'', ''Labels'']"
  by (simp add: distinct_folded_def fold_key_ascii byte_def to_upper_char_def is_lower_def)


lemma unique_endpoints:
  assumes "d + 4 \<le> maxJSONDepth" "distinct_folded orbit (keys eps)"
  shows "uniqueJSONValue orbit d (json_endpoints eps)"
proof -
  have "uniqueJSONValue orbit (Suc (Suc d)) (JObj (omit (as = []) ''Aliases'' (json_strs as)))" for as
    using assms(1) by (simp add: omit_def)
  moreover have "distinct_folded orbit (keys (sort_key fst eps))" using assms(2) by (simp add: distinct_sort_folded)
  ultimately show ?thesis
    using assms(1) by (simp add: json_endpoints_def distinct_folded_def list_all_iff comp_def split_beta)
qed

lemma unique_container:
  assumes "distinct_folded orbit (keys (crLabels r))" "distinct_folded orbit (keys (dhTmpfs (crHostConfig r)))"
    and "crNetworkingConfig r = Some eps" "distinct_folded orbit (keys eps)"
  shows "uniqueJSONValue orbit 0 (json_container r)"
  unfolding json_container_def append_Cons append_Nil assms(3) option.case
  by (rule unique_object [OF folded_container], intro subseq_fields)
    (simp_all add: unique_strmap unique_hostConfig unique_endpoints assms maxJSONDepth_def)

lemma unique_network: "distinct_folded orbit (keys (cnLabels r)) \<Longrightarrow> uniqueJSONValue orbit 0 (json_network r)"
  unfolding json_network_def
  by (rule unique_object [OF folded_network]) (simp_all add: unique_strmap maxJSONDepth_def)

section \<open>ASCII requests\<close>

definition ascii_map :: "(string, string) gomap \<Rightarrow> bool" where
  "ascii_map m = list_all (\<lambda>(k, v). ascii k \<and> ascii v) m"

definition ascii_container :: "CreateContainerRequest \<Rightarrow> bool" where
  "ascii_container r =
     (let h = crHostConfig r in
      list_all ascii ([crImage r, crUser r, dhNetworkMode h] @ crEnv r @ crCmd r @ crEntrypoint r @
        dhCapDrop h @ dhSecurityOpt h @ dhBinds h) \<and> ascii_map (crLabels r) \<and> ascii_map (dhTmpfs h) \<and>
      (case crNetworkingConfig r of None \<Rightarrow> True | Some eps \<Rightarrow> list_all (\<lambda>(k, as). ascii k \<and> list_all ascii as) eps))"

lemma plain_leaf [simp]: "plain_json (json_strs xs) \<longleftrightarrow> list_all ascii xs" "plain_json (json_strmap m) \<longleftrightarrow> ascii_map m" "plain_json (json_int n)"
  by (auto simp: json_strs_def json_strmap_def json_int_def ascii_map_def list_all_iff split_beta)

lemma ascii_names [simp]: "ascii ''Image''" "ascii ''User''" "ascii ''Env''" "ascii ''Cmd''" "ascii ''Entrypoint''" "ascii ''Labels''"
    "ascii ''HostConfig''" "ascii ''NetworkingConfig''" "ascii ''CapDrop''" "ascii ''SecurityOpt''" "ascii ''NetworkMode''"
    "ascii ''Memory''" "ascii ''NanoCpus''" "ascii ''PidsLimit''" "ascii ''ReadonlyRootfs''" "ascii ''Tmpfs''" "ascii ''Binds''"
    "ascii ''AutoRemove''" "ascii ''EndpointsConfig''" "ascii ''Aliases''" "ascii ''Name''" "ascii ''Driver''" "ascii ''Internal''" "ascii ''Attachable''"
  by (simp_all add: byte_def)

lemma plain_host: "list_all ascii ([dhNetworkMode h] @ dhCapDrop h @ dhSecurityOpt h @ dhBinds h) \<Longrightarrow> ascii_map (dhTmpfs h) \<Longrightarrow> plain_json (json_HostConfig h)"
  by (simp add: json_HostConfig_def del: ascii_Cons)

lemma plain_endpoints: "list_all (\<lambda>(k, as). ascii k \<and> list_all ascii as) eps \<Longrightarrow> plain_json (json_endpoints eps)"
  by (auto simp: json_endpoints_def list_all_iff omit_def simp del: ascii_Cons)

lemma plain_container: "ascii_container r \<Longrightarrow> plain_json (json_container r)"
  using plain_host [of "crHostConfig r"] plain_endpoints
  by (auto simp: json_container_def ascii_container_def Let_def simp del: ascii_Cons split: option.splits)

lemma plain_network: "ascii (cnName r) \<Longrightarrow> ascii (cnDriver r) \<Longrightarrow> ascii_map (cnLabels r) \<Longrightarrow> plain_json (json_network r)"
  by (simp add: json_network_def del: ascii_Cons)

section \<open>What the proxy checks\<close>

lemma decodeCreate_text:
  assumes "plain_json v" "uniqueJSONValue orbit 0 v" "exactJSONFields v sc = None" "dec v = Some req"
  shows "decodeCreate orbit sc dec (json_text v) = Inr req"
  using assms ascii_utf8 [OF ascii_json_text [OF assms(1)]] json_roundtrip [OF assms(1)] by (simp add: decodeCreate_def)

lemma container_text_checked:
  assumes "ascii_container r" "distinct_folded orbit (keys (crLabels r))" "distinct_folded orbit (keys (dhTmpfs (crHostConfig r)))"
    "crNetworkingConfig r = Some eps" "distinct_folded orbit (keys eps)"
    "int64 (dhMemory (crHostConfig r))" "int64 (dhNanoCPUs (crHostConfig r))" "int64 (dhPidsLimit (crHostConfig r))"
  shows "ValidateContainerCreate orbit (json_text (json_container r)) images net vol = check_container (as_create r) images net vol"
  using decodeCreate_text [where dec = dec_containerCreate, OF plain_container [OF assms(1)] unique_container [OF assms(2-5)] exact_container dec_container_json [OF assms(6-8)]]
  by (simp add: ValidateContainerCreate_def)

lemma network_text_checked:
  assumes "ascii (cnName r)" "ascii (cnDriver r)" "ascii_map (cnLabels r)" "distinct_folded orbit (keys (cnLabels r))"
  shows "ValidateNetworkCreate orbit (json_text (json_network r)) =
    check_network \<lparr>ncName = cnName r, ncDriver = cnDriver r, ncInternal = cnInternal r, ncAttachable = cnAttachable r,
      ncLabels = sort_key fst (cnLabels r)\<rparr>"
  using decodeCreate_text [where dec = dec_networkCreate, OF plain_network [OF assms(1-3)] unique_network [OF assms(4)] exact_network dec_network_json]
  by (simp add: ValidateNetworkCreate_def)


definition ascii_inputs :: "SpawnInputs \<Rightarrow> bool" where
  "ascii_inputs su = list_all ascii [suScope su, suRepo su, suSpawnID su, suVersion su, suBuildSHA su, suNetworkID su,
     suEgressNetwork su, suRunnerImage su, suProxyImage su, suSeccompProfilePath su, suJITConfigB64 su, suEgressVolume su,
     suEgressMountPath su]"

text \<open>What the deployment has to agree on: the images, the egress volume, a private network that is
  neither a host mode nor the egress network, and limits that fit an \<open>int64\<close>.\<close>

definition agrees :: "Server \<Rightarrow> SpawnInputs \<Rightarrow> bool" where
  "agrees sv su =
     (ascii_inputs su \<and> suRunnerImage su \<in> set (svImages sv) \<and> suProxyImage su \<in> set (svImages sv) \<and>
      int64 (suMemory su) \<and> int64 (suNanoCPUs su) \<and> int64 (suPIDs su) \<and>
      suNetworkID su \<notin> {''host'', ''none'', svEgressNet sv} \<and> \<not> HasPrefix (suNetworkID su) ''container:'' \<and>
      map to_upper_char (suNetworkID su) \<noteq> map to_upper_char (suEgressNetwork su) \<and>
      volumeName (suEgressVolume su) \<and> suEgressVolume su = svEgressVol sv \<and> suEgressMountPath su = EgressMountPath)"

definition stack_labels :: "SpawnInputs \<Rightarrow> string \<Rightarrow> (string, string) gomap" where
  "stack_labels su role = common_labels su @ [(''runsecure.role'', role)]"

lemma label_keys: "keys (stack_labels su role) = [''runsecure.scope'', ''runsecure.repo'', ''runsecure.spawn_id'', ''runsecure.role'']"
  by (simp add: stack_labels_def common_labels_def)

lemma folded_labels:
  "distinct_folded orbit [''runsecure.scope'', ''runsecure.repo'', ''runsecure.spawn_id'', ''runsecure.role'']"
  "distinct_folded orbit [''runsecure.scope'', ''runsecure.repo'', ''runsecure.spawn_id'']"
  by (simp_all add: distinct_folded_def fold_key_ascii byte_def to_upper_char_def is_lower_def)

lemma role_of_labels: "lookup_or [] (sort_key fst (stack_labels su role)) role_label = role"
proof -
  have "map_of (sort_key fst (stack_labels su role)) = map_of (stack_labels su role)"
    by (rule map_of_sort) (simp add: label_keys)
  then show ?thesis by (simp add: stack_labels_def common_labels_def role_label_def)
qed

lemma ascii_labels: "ascii_inputs su \<Longrightarrow> ascii role \<Longrightarrow> ascii_map (stack_labels su role)"
  by (simp add: stack_labels_def common_labels_def ascii_map_def ascii_inputs_def byte_def)

lemma identity_1001: "nonRootIdentity ''1001:0''"
proof -
  have "char_of (49 :: nat) = CHR ''1''" "char_of (48 :: nat) = CHR ''0''" by code_simp+
  then have "show_nat 1001 = ''1001''" "show_nat 0 = ''0''" by (simp_all add: show_nat.simps digit_char_def)
  then have "non_root ''1001:0''" unfolding non_root_def by (intro exI [of _ 1001] exI [of _ 0]) simp
  then show ?thesis by (simp add: nonRoot_iff)
qed

lemma runner_tmpfs_ok: "check_tmpfs (''/tmp'', ''noexec,nosuid,nodev,size=512m'') = None"
  by code_simp

lemma proxy_tmpfs_ok:
  "list_all (\<lambda>t. check_tmpfs (t, tmpfs_proxy_opts) = None)
     [''/var/run/squid'', ''/var/log/squid'', ''/var/spool/squid'', ''/var/lib/haproxy'', ''/run'', ''/tmp'']"
  by code_simp

lemma runner_ascii: "ascii_inputs su \<Longrightarrow> ascii_container (runner_request su)"
  using ascii_labels [of su "''runner''"]
  by (simp add: ascii_container_def runner_request_def hc_base_def ascii_inputs_def ascii_map_def stack_labels_def
      RunnerEntrypoint_def no_new_privileges_def byte_def)

lemma proxy_ascii: "ascii_inputs su \<Longrightarrow> ascii_container (proxy_request su)"
  using ascii_labels [of su "''proxy''"]
  by (simp add: ascii_container_def proxy_request_def hc_base_def ascii_inputs_def ascii_map_def stack_labels_def Let_def
      tmpfs_proxy_opts_def no_new_privileges_def byte_def)


lemma runner_fields:
  "crLabels (runner_request su) = stack_labels su ''runner''" "crImage (runner_request su) = suRunnerImage su"
  "crUser (runner_request su) = ''1001:0''" "crNetworkingConfig (runner_request su) = Some [(suNetworkID su, [])]"
  "dhTmpfs (crHostConfig (runner_request su)) = [(''/tmp'', ''noexec,nosuid,nodev,size=512m'')]"
  "dhBinds (crHostConfig (runner_request su)) = []" "dhCapDrop (crHostConfig (runner_request su)) = [''ALL'']"
  "dhNetworkMode (crHostConfig (runner_request su)) = suNetworkID su"
  "dhSecurityOpt (crHostConfig (runner_request su)) =
     [no_new_privileges] @ (if suSeccompProfilePath su \<noteq> [] then [''seccomp='' @ suSeccompProfilePath su] else [])"
  "dhMemory (crHostConfig (runner_request su)) = suMemory su" "dhNanoCPUs (crHostConfig (runner_request su)) = suNanoCPUs su"
  "dhPidsLimit (crHostConfig (runner_request su)) = suPIDs su"
  by (simp_all add: runner_request_def hc_base_def stack_labels_def)

lemma proxy_fields:
  "crLabels (proxy_request su) = stack_labels su ''proxy''" "crImage (proxy_request su) = suProxyImage su"
  "crUser (proxy_request su) = ''1001:0''"
  "crNetworkingConfig (proxy_request su) = Some (let eps = [(suNetworkID su, [''proxy''])]
     in if suEgressNetwork su \<noteq> [] then AList.update (suEgressNetwork su) [] eps else eps)"
  "dhTmpfs (crHostConfig (proxy_request su)) = map (\<lambda>t. (t, tmpfs_proxy_opts))
     [''/var/run/squid'', ''/var/log/squid'', ''/var/spool/squid'', ''/var/lib/haproxy'', ''/run'', ''/tmp'']"
  "dhBinds (crHostConfig (proxy_request su)) = [suEgressVolume su @ '':'' @ suEgressMountPath su @ '':ro'']"
  "dhCapDrop (crHostConfig (proxy_request su)) = [''ALL'']" "dhNetworkMode (crHostConfig (proxy_request su)) = suNetworkID su"
  "dhSecurityOpt (crHostConfig (proxy_request su)) = [no_new_privileges]"
  "dhMemory (crHostConfig (proxy_request su)) = 0" "dhNanoCPUs (crHostConfig (proxy_request su)) = 0"
  "dhPidsLimit (crHostConfig (proxy_request su)) = 0"
  by (simp_all add: proxy_request_def hc_base_def stack_labels_def Let_def)

lemma as_create_fields [simp]:
  "ccImage (as_create r) = crImage r" "ccUser (as_create r) = crUser r" "ccLabels (as_create r) = sort_key fst (crLabels r)"
  "ccNetworkingConfig (as_create r) = map_option (sort_key fst) (crNetworkingConfig r)"
  "hcPrivileged (ccHostConfig (as_create r)) = False" "hcCapAdd (ccHostConfig (as_create r)) = []"
  "hcCapDrop (ccHostConfig (as_create r)) = dhCapDrop (crHostConfig r)" "hcDevices (ccHostConfig (as_create r)) = []"
  "hcPidMode (ccHostConfig (as_create r)) = []" "hcNetworkMode (ccHostConfig (as_create r)) = dhNetworkMode (crHostConfig r)"
  "hcIpcMode (ccHostConfig (as_create r)) = []" "hcUTSMode (ccHostConfig (as_create r)) = []"
  "hcUsernsMode (ccHostConfig (as_create r)) = []" "hcSysctls (ccHostConfig (as_create r)) = []"
  "hcSecurityOpt (ccHostConfig (as_create r)) = dhSecurityOpt (crHostConfig r)"
  "hcBinds (ccHostConfig (as_create r)) = dhBinds (crHostConfig r)"
  "hcTmpfs (ccHostConfig (as_create r)) = sort_key fst (dhTmpfs (crHostConfig r))"
  by (simp_all add: as_create_def as_hostConfig_def zero_hostConfig_def)

lemma runner_verdict:
  assumes "agrees sv su"
  shows "check_container (as_create (runner_request su)) (svImages sv) (svEgressNet sv) (svEgressVol sv) =
    (if suSeccompProfilePath su = [] then None else Some ErrSecurityOptUnsupported)"
proof -
  have "check_egress (as_create (runner_request su)) (svEgressNet sv) = None"
    using assms by (auto simp: check_egress_def runner_fields agrees_def)
  moreover have "no_new_privileges = no_new_privs" by (simp add: no_new_privileges_def no_new_privs_def)
  ultimately show ?thesis
    using assms
    by (simp add: check_container_def runner_fields agrees_def identity_1001 runner_tmpfs_ok Allows_def Let_def)
qed

lemma proxy_bind:
  assumes "volumeName vol"
  shows "checkBinds [vol @ '':'' @ EgressMountPath @ '':ro''] vol ''proxy'' = None"
proof -
  have clean: "cleanMountTarget EgressMountPath" by code_simp
  then have "good_bind vol (vol @ '':'' @ EgressMountPath @ '':ro'')" by (auto simp: good_bind_def)
  then show ?thesis using assms unfolding checkBinds_iff by simp
qed

lemma proxy_verdict:
  assumes "agrees sv su"
  shows "check_container (as_create (proxy_request su)) (svImages sv) (svEgressNet sv) (svEgressVol sv) = None"
proof -
  have role: "lookup_or [] (sort_key fst (stack_labels su ''proxy'')) role_label = ''proxy''" by (rule role_of_labels)
  have "check_egress (as_create (proxy_request su)) (svEgressNet sv) = None"
    by (simp add: check_egress_def proxy_fields role)
  moreover have "no_new_privileges = no_new_privs" by (simp add: no_new_privileges_def no_new_privs_def)
  moreover have "first_err (map check_tmpfs (sort_key fst (dhTmpfs (crHostConfig (proxy_request su))))) = None"
    using proxy_tmpfs_ok unfolding first_err_None proxy_fields by (auto simp: list_all_iff)
  moreover have "checkBinds (dhBinds (crHostConfig (proxy_request su))) (svEgressVol sv) ''proxy'' = None"
  proof -
    have v: "volumeName (svEgressVol sv)" "suEgressVolume su = svEgressVol sv" "suEgressMountPath su = EgressMountPath"
      using assms by (auto simp: agrees_def)
    show ?thesis unfolding proxy_fields v(2,3) by (rule proxy_bind [OF v(1)])
  qed
  ultimately show ?thesis
    using assms role
    by (simp add: check_container_def proxy_fields(1-3,7-9) agrees_def identity_1001 Allows_def Let_def del: sort_key_simps)
qed


lemma endpoints_folded:
  assumes "agrees sv su" and "crNetworkingConfig (proxy_request su) = Some eps"
  shows "distinct_folded orbit (keys eps)"
proof -
  have a: "ascii (suNetworkID su)" "ascii (suEgressNetwork su)" using assms(1) by (simp_all add: agrees_def ascii_inputs_def)
  have "suNetworkID su \<noteq> suEgressNetwork su" using assms(1) by (auto simp: agrees_def)
  then have "keys eps \<in> {[suNetworkID su], [suNetworkID su, suEgressNetwork su]}"
    using assms(2) by (auto simp: proxy_fields Let_def split: if_splits)
  then show ?thesis
    using assms(1) fold_key_ascii [OF a(1) [unfolded ascii_def], of orbit] fold_key_ascii [OF a(2) [unfolded ascii_def], of orbit]
    by (auto simp: distinct_folded_def agrees_def)
qed

lemma tmpfs_folded:
  "distinct_folded orbit [''/var/run/squid'', ''/var/log/squid'', ''/var/spool/squid'', ''/var/lib/haproxy'', ''/run'', ''/tmp'']"
  by (simp add: distinct_folded_def fold_key_ascii byte_def to_upper_char_def is_lower_def)

lemma folded_single [simp]: "distinct_folded orbit [k]"
  by (simp add: distinct_folded_def)

lemma int64_0 [simp]: "int64 0"
  by (simp add: int64_def)

lemma runner_body_verdict:
  assumes "agrees sv su"
  shows "ValidateContainerCreate orbit (json_text (json_container (runner_request su))) (svImages sv) (svEgressNet sv) (svEgressVol sv) =
    (if suSeccompProfilePath su = [] then None else Some ErrSecurityOptUnsupported)"
proof -
  have "ascii_inputs su" using assms by (simp add: agrees_def)
  from container_text_checked [OF runner_ascii [OF this] _ _ runner_fields(4)] show ?thesis
    unfolding runner_verdict [OF assms, symmetric]
    using assms by (simp add: runner_fields label_keys folded_labels agrees_def)
qed

lemma proxy_body_verdict:
  assumes "agrees sv su"
  shows "ValidateContainerCreate orbit (json_text (json_container (proxy_request su))) (svImages sv) (svEgressNet sv) (svEgressVol sv) = None"
proof -
  have "ascii_inputs su" using assms by (simp add: agrees_def)
  from container_text_checked [OF proxy_ascii [OF this] _ _ proxy_fields(4) endpoints_folded [OF assms proxy_fields(4)]] show ?thesis
    unfolding proxy_verdict [OF assms, symmetric]
    using tmpfs_folded by (simp add: proxy_fields(1,5,10-12) label_keys folded_labels)
qed

lemma network_body_verdict:
  assumes "ascii (inRepo inp)" "ascii (inScope inp)" "ascii (inSpawnID inp)"
    and "inScope inp \<noteq> []" "inRepo inp \<noteq> []" "inSpawnID inp \<noteq> []"
  shows "ValidateNetworkCreate orbit (json_text (json_network (network_request inp))) = None"
proof -
  have name: "ascii (cnName (network_request inp))"
    using assms(1,3) by (auto simp: network_request_def compose_network_name_def ReplaceAll_char_def ascii_def list_all_iff byte_def)
  let ?m = "[(''runsecure.scope'', inScope inp), (''runsecure.repo'', inRepo inp), (''runsecure.spawn_id'', inSpawnID inp)]"
  have labels: "cnLabels (network_request inp) = ?m" by (simp add: network_request_def)
  have "map_of (sort_key fst ?m) = map_of ?m" by (rule map_of_sort) simp
  then have look: "lookup_or [] (sort_key fst ?m) k = lookup_or [] ?m k" for k by (simp add: lookup_or_def)
  have "check_network \<lparr>ncName = cnName (network_request inp), ncDriver = cnDriver (network_request inp),
      ncInternal = cnInternal (network_request inp), ncAttachable = cnAttachable (network_request inp),
      ncLabels = sort_key fst ?m\<rparr> = None"
    using assms(4-6) by (simp add: check_network_iff look ownership_labels_def network_request_def del: sort_key_simps)
  moreover have "ascii_map ?m" using assms(1-3) by (simp add: ascii_map_def byte_def)
  moreover have "ascii (cnDriver (network_request inp))" by (simp add: network_request_def byte_def)
  ultimately show ?thesis
    using network_text_checked [of "network_request inp" orbit] name labels folded_labels(2) [of orbit] by simp
qed

text \<open>C21: The Compose backend and the socket proxy agree. Of the three requests a spawn sends, the
  network's and the proxy container's are admitted, and the runner's is admitted exactly when no seccomp
  profile is configured: with one, the proxy refuses the runner. This is for ASCII inputs, images on the
  allow-list, the proxy's own egress volume and a private network with an identifier of its own.\<close>

theorem stack_requests_verdicts:
  assumes "agrees sv (stack_inputs inp netID)" and "inScope inp \<noteq> []" and "inRepo inp \<noteq> []" and "inSpawnID inp \<noteq> []"
  shows "ValidateNetworkCreate (svOrbit sv) (json_text (json_network (network_request inp))) = None \<and>
    ValidateContainerCreate (svOrbit sv) (json_text (json_container (proxy_request (stack_inputs inp netID))))
      (svImages sv) (svEgressNet sv) (svEgressVol sv) = None \<and>
    ValidateContainerCreate (svOrbit sv) (json_text (json_container (runner_request (stack_inputs inp netID))))
      (svImages sv) (svEgressNet sv) (svEgressVol sv) =
      (if inSeccompProfilePath inp = [] then None else Some ErrSecurityOptUnsupported)"
proof -
  have "ascii (inRepo inp)" "ascii (inScope inp)" "ascii (inSpawnID inp)"
    using assms(1) by (simp_all add: agrees_def ascii_inputs_def stack_inputs_def)
  note net = network_body_verdict [OF this assms(2-4), of "svOrbit sv"]
  have "suSeccompProfilePath (stack_inputs inp netID) = inSeccompProfilePath inp" by (simp add: stack_inputs_def)
  then show ?thesis
    using net proxy_body_verdict [OF assms(1), of "svOrbit sv"] runner_body_verdict [OF assms(1), of "svOrbit sv"] by simp
qed

lemma stack_requests_verdicts_witness:
  "let sv = \<lparr>svImages = [''run'', ''prox''], svEgressNet = ''egress'', svEgressVol = ''vol'', svOrbit = id\<rparr>;
       inp = sample_input\<lparr>inSeccompProfilePath := ''/p.json''\<rparr>
   in agrees sv (stack_inputs inp ''net1'') \<and>
      ValidateContainerCreate id (json_text (json_container (runner_request (stack_inputs inp ''net1'')))) [''run'', ''prox''] ''egress'' ''vol''
        = Some ErrSecurityOptUnsupported"
proof -
  let ?sv = "\<lparr>svImages = [''run'', ''prox''], svEgressNet = ''egress'', svEgressVol = ''vol'', svOrbit = id\<rparr>"
  let ?inp = "sample_input\<lparr>inSeccompProfilePath := ''/p.json''\<rparr>"
  have a: "agrees ?sv (stack_inputs ?inp ''net1'')"
    by (simp add: agrees_def stack_inputs_def sample_input_def ascii_inputs_def byte_def int64_def HasPrefix_def
        to_upper_char_def is_lower_def volumeName_def is_alnum_def EgressMountPath_def)
  show ?thesis
    using stack_requests_verdicts [OF a] a by (simp add: sample_input_def Let_def)
qed

end
