(* ===== verification/Net_Model.thy ===== *)
theory Net_Model
  imports RS_Errors
begin

text \<open>
  The part of Go's \<open>net\<close> and \<open>net/netip\<close> packages that the egress policy relies on: \<open>ParseIP\<close>,
  \<open>ParseCIDR\<close>, \<open>IPNet.Contains\<close> and the textual forms.

  A \<open>net.IP\<close> of four bytes, or of sixteen that map an IPv4 address, is \<open>IPv4\<close>; every use in the
  sources goes through \<open>To4\<close> first, so the two are not told apart. An \<open>IPNet\<close> is its network
  number and the length of its mask, again with an IPv4-mapped network as the IPv4 one, which
  is how \<open>networkNumberAndMask\<close> reads it.
\<close>

unbundle bit_operations_syntax

datatype ip = IPv4 "32 word" | IPv6 "128 word"

datatype ipnet = Net4 "32 word" nat | Net6 "128 word" nat

section \<open>Addresses\<close>

text \<open>Four decimal octets without leading zeros.\<close>

definition octet :: "string \<Rightarrow> int option" where
  "octet s = (if int_part s \<and> dec_val s \<le> 255 then Some (dec_val s) else None)"

definition quad :: "int \<Rightarrow> int \<Rightarrow> int \<Rightarrow> int \<Rightarrow> 32 word" where
  "quad a b c d = word_of_int (((a * 256 + b) * 256 + c) * 256 + d)"

definition parse_v4 :: "string \<Rightarrow> (32 word) option" where
  "parse_v4 s =
     (case split_char CHR ''.'' s of
        [a, b, c, d] \<Rightarrow>
          (case (octet a, octet b, octet c, octet d) of
             (Some w, Some x, Some y, Some z) \<Rightarrow> Some (quad w x y z)
           | _ \<Rightarrow> None)
      | _ \<Rightarrow> None)"

definition nibble :: "char \<Rightarrow> int option" where
  "nibble c =
     (let b = (of_char c :: int) in
      if 48 \<le> b \<and> b < 58 then Some (b - 48)
      else if 97 \<le> b \<and> b < 103 then Some (b - 87)
      else if 65 \<le> b \<and> b < 71 then Some (b - 55) else None)"

definition is_hex :: "char \<Rightarrow> bool" where
  "is_hex c = (nibble c \<noteq> None)"

definition hex_value :: "string \<Rightarrow> int" where
  "hex_value s = foldl (\<lambda>a c. 16 * a + (case nibble c of Some n \<Rightarrow> n | None \<Rightarrow> 0)) 0 s"

text \<open>The groups of an IPv6 address, and after how many of them the ellipsis stands.\<close>

function v6_groups :: "nat option \<Rightarrow> int list \<Rightarrow> string \<Rightarrow> (nat option \<times> int list) option" where
  "v6_groups ell gs s =
     (if 8 \<le> length gs then (if s = [] then Some (ell, gs) else None)
      else let h = takeWhile is_hex s; rest = dropWhile is_hex s in
        if h = [] \<or> 4 < length h then None
        else if rest \<noteq> [] \<and> hd rest = CHR ''.'' then
          (if ell = None \<and> length gs \<noteq> 6 \<or> 6 < length gs then None
           else map_option (\<lambda>w. (ell, gs @ [uint w div 65536, uint w mod 65536])) (parse_v4 s))
        else if rest = [] then Some (ell, gs @ [hex_value h])
        else if hd rest \<noteq> CHR '':'' \<or> tl rest = [] then None
        else if hd (tl rest) = CHR '':'' then
          (if ell \<noteq> None then None
           else if tl (tl rest) = [] then Some (Some (Suc (length gs)), gs @ [hex_value h])
           else v6_groups (Some (Suc (length gs))) (gs @ [hex_value h]) (tl (tl rest)))
        else v6_groups ell (gs @ [hex_value h]) (tl rest))"
  by pat_completeness auto
termination
proof (relation "measure (\<lambda>(ell, gs, s). 8 - length gs)")
qed auto

declare v6_groups.simps [simp del]

definition v6_expand :: "nat option \<times> int list \<Rightarrow> int list option" where
  "v6_expand p =
     (case p of (ell, gs) \<Rightarrow>
        if length gs < 8 then map_option (\<lambda>e. take e gs @ replicate (8 - length gs) 0 @ drop e gs) ell
        else if ell \<noteq> None then None else Some gs)"

definition groups_word :: "int list \<Rightarrow> 128 word" where
  "groups_word gs = word_of_int (foldl (\<lambda>a g. 65536 * a + g) 0 gs)"

definition parse_v6 :: "string \<Rightarrow> (128 word) option" where
  "parse_v6 s =
     (if HasPrefix s ''::'' then
        (if drop 2 s = [] then Some 0
         else map_option groups_word (Option.bind (v6_groups (Some 0) [] (drop 2 s)) v6_expand))
      else map_option groups_word (Option.bind (v6_groups None [] s) v6_expand))"

definition v4_mapped :: "128 word \<Rightarrow> bool" where
  "v4_mapped w = (drop_bit 32 w = 0xFFFF)"

text \<open>\<open>netip.ParseAddr\<close>, an address with a zone left out: neither caller takes one.\<close>

definition ParseAddr :: "string \<Rightarrow> ip option" where
  "ParseAddr s =
     (case find (\<lambda>c. c \<in> {CHR ''.'', CHR '':'', CHR ''%''}) s of
        None \<Rightarrow> None
      | Some c \<Rightarrow>
          if c = CHR ''.'' then map_option IPv4 (parse_v4 s)
          else if c = CHR '':'' then (if CHR ''%'' \<in> set s then None else map_option IPv6 (parse_v6 s))
          else None)"

definition To4 :: "ip \<Rightarrow> ip" where
  "To4 a = (case a of IPv4 w \<Rightarrow> IPv4 w | IPv6 w \<Rightarrow> if v4_mapped w then IPv4 (ucast w) else IPv6 w)"

definition ParseIP :: "string \<Rightarrow> ip option" where
  "ParseIP s = map_option To4 (ParseAddr s)"

section \<open>Networks\<close>

definition clear_low :: "nat \<Rightarrow> 'a::len word \<Rightarrow> 'a word" where
  "clear_low k w = push_bit k (drop_bit k w)"

definition ParseCIDR :: "string \<Rightarrow> gerr + ipnet" where
  "ParseCIDR s =
     (let err = Plain (''invalid CIDR address: '' @ s) in
      case cut_char CHR ''/'' s of (addr, len, found) \<Rightarrow>
        if \<not> found \<or> \<not> digits1 len then Inl err
        else (case ParseAddr addr of
                None \<Rightarrow> Inl err
              | Some (IPv4 w) \<Rightarrow>
                  if 32 < dec_val len then Inl err
                  else let p = nat (dec_val len) in Inr (Net4 (clear_low (32 - p) w) p)
              | Some (IPv6 w) \<Rightarrow>
                  if 128 < dec_val len then Inl err
                  else let p = nat (dec_val len); n = clear_low (128 - p) w
                       in Inr (if v4_mapped n then Net4 (ucast n) (p - 96) else Net6 n p)))"

definition net_Contains :: "ipnet \<Rightarrow> ip \<Rightarrow> bool" where
  "net_Contains n a =
     (case (n, a) of
        (Net4 m p, IPv4 w) \<Rightarrow> drop_bit (32 - p) w = drop_bit (32 - p) m
      | (Net6 m p, IPv6 w) \<Rightarrow> drop_bit (128 - p) w = drop_bit (128 - p) m
      | _ \<Rightarrow> False)"

text \<open>\<open>netip.ParsePrefix\<close>: the length has no sign and no leading zero, and the address is kept
  with its host bits. \<open>Masked\<close> clears them.\<close>

definition cut_last :: "char \<Rightarrow> string \<Rightarrow> (string \<times> string) option" where
  "cut_last d s =
     (let after = rev (takeWhile (\<lambda>c. c \<noteq> d) (rev s)) in
      if d \<in> set s then Some (take (length s - length after - 1) s, after) else None)"

definition ParsePrefix :: "string \<Rightarrow> (ip \<times> nat) option" where
  "ParsePrefix s =
     (case cut_last CHR ''/'' s of
        None \<Rightarrow> None
      | Some (addr, bits) \<Rightarrow>
          (case ParseAddr addr of
             None \<Rightarrow> None
           | Some a \<Rightarrow>
               if int_part bits \<and> dec_val bits \<le> (case a of IPv4 _ \<Rightarrow> 32 | IPv6 _ \<Rightarrow> 128)
               then Some (a, nat (dec_val bits)) else None))"

definition Is4 :: "ip \<Rightarrow> bool" where
  "Is4 a = (case a of IPv4 _ \<Rightarrow> True | IPv6 _ \<Rightarrow> False)"

definition Masked :: "ip \<times> nat \<Rightarrow> ip \<times> nat" where
  "Masked p =
     (case p of (IPv4 w, n) \<Rightarrow> (IPv4 (clear_low (32 - n) w), n) | (IPv6 w, n) \<Rightarrow> (IPv6 (clear_low (128 - n) w), n))"

section \<open>Text\<close>

definition v4_String :: "32 word \<Rightarrow> string" where
  "v4_String w =
     join_with ''.'' (map (\<lambda>k. show_int (uint w div 2 ^ k mod 256)) [24, 16, 8, 0])"

definition hex_lower :: "int \<Rightarrow> char" where
  "hex_lower n = (if n < 10 then char_of (48 + n) else char_of (87 + n))"

text \<open>A 16-bit group without leading zeros.\<close>

definition show_hex :: "int \<Rightarrow> string" where
  "show_hex g =
     (let ds = map (\<lambda>k. g div 2 ^ k mod 16) [12, 8, 4, 0]; sig = dropWhile (\<lambda>d. d = 0) ds
      in map hex_lower (if sig = [] then [0] else sig))"

definition v6_parts :: "128 word \<Rightarrow> int list" where
  "v6_parts w = map (\<lambda>k. uint w div 2 ^ k mod 65536) [112, 96, 80, 64, 48, 32, 16, 0]"

text \<open>The first longest run of at least two zero groups: its start and end.\<close>

fun zero_run :: "nat \<Rightarrow> int list \<Rightarrow> (nat \<times> nat) option \<Rightarrow> (nat \<times> nat) option" where
  "zero_run i [] best = best"
| "zero_run i (g # gs) best =
     (let l = length (takeWhile (\<lambda>x. x = 0) (g # gs));
          cur = (case best of None \<Rightarrow> 0 | Some (a, b) \<Rightarrow> b - a)
      in zero_run (Suc i) gs (if 2 \<le> l \<and> cur < l then Some (i, i + l) else best))"

definition v6_String :: "128 word \<Rightarrow> string" where
  "v6_String w =
     (let gs = v6_parts w in
      case zero_run 0 gs None of
        None \<Rightarrow> join_with '':'' (map show_hex gs)
      | Some (a, b) \<Rightarrow> join_with '':'' (map show_hex (take a gs)) @ ''::'' @ join_with '':'' (map show_hex (drop b gs)))"

definition ip_String :: "ip \<Rightarrow> string" where
  "ip_String a = (case To4 a of IPv4 w \<Rightarrow> v4_String w | IPv6 w \<Rightarrow> v6_String w)"

definition ipnet_String :: "ipnet \<Rightarrow> string" where
  "ipnet_String n =
     (case n of Net4 m p \<Rightarrow> v4_String m @ ''/'' @ show_int (int p) | Net6 m p \<Rightarrow> v6_String m @ ''/'' @ show_int (int p))"

end
