(* ===== verification/Security_Model.thy ===== *)
theory Security_Model
  imports Runner_YML Net_Model
begin

text \<open>
  The security policy: presets, project overrides and the guard against literal private
  addresses, package \<open>internal/security\<close>. The decoded \<open>security_overrides\<close> are the \<open>yval\<close>s of
  \<open>runner.yml\<close>, in the iteration order of the map.
\<close>

section \<open>Policies\<close>

record Policy =
  plAllowWildcards :: bool
  plAllowDoH :: bool
  plAllowIMDS :: bool
  plAllowKubeAPI :: bool
  plAllowMeshInject :: bool
  plAllowDNSSuffixMatch :: bool
  plWildcardEntries :: "string list"
  plDoHProviders :: "string list"
  plIMDSEndpoints :: "string list"
  plAllowedPrivateCIDRs :: "ipnet list"

definition zero_Policy :: Policy where
  "zero_Policy = \<lparr>plAllowWildcards = False, plAllowDoH = False, plAllowIMDS = False, plAllowKubeAPI = False,
     plAllowMeshInject = False, plAllowDNSSuffixMatch = False, plWildcardEntries = [], plDoHProviders = [],
     plIMDSEndpoints = [], plAllowedPrivateCIDRs = []\<rparr>"

definition Defaults :: "string \<Rightarrow> Policy" where
  "Defaults profile =
     (if profile = ''strict'' then zero_Policy
      else if profile = ''standard'' then
        zero_Policy\<lparr>plAllowWildcards := True, plAllowDNSSuffixMatch := True\<rparr>
      else if profile = ''permissive'' then
        zero_Policy\<lparr>plAllowWildcards := True, plAllowDoH := True, plAllowIMDS := True, plAllowKubeAPI := True,
          plAllowMeshInject := True, plAllowDNSSuffixMatch := True\<rparr>
      else zero_Policy)"

section \<open>Project overrides\<close>

fun str_entries :: "yval list \<Rightarrow> string list option" where
  "str_entries [] = Some []"
| "str_entries (YStr s # vs) = map_option (\<lambda>ss. s # ss) (str_entries vs)"
| "str_entries (_ # vs) = None"

fun only_strs :: "yval list \<Rightarrow> string list" where
  "only_strs [] = []"
| "only_strs (YStr s # vs) = s # only_strs vs"
| "only_strs (_ # vs) = only_strs vs"

fun cidr_entries :: "yval list \<Rightarrow> gerr + ipnet list" where
  "cidr_entries [] = Inr []"
| "cidr_entries (YStr s # vs) =
     (case ParseCIDR s of
        Inl e \<Rightarrow> Inl (Wrap (''security: allow_private_cidrs: invalid CIDR '' @ s @ '': '') e [])
      | Inr n \<Rightarrow> (case cidr_entries vs of Inl e \<Rightarrow> Inl e | Inr ns \<Rightarrow> Inr (n # ns)))"
| "cidr_entries (_ # vs) = Inl (Plain ''security: allow_private_cidrs entries must be strings'')"

definition override_key :: "string \<Rightarrow> yval \<Rightarrow> Policy \<Rightarrow> gerr + Policy" where
  "override_key k raw base =
     (if k = ''allow_wildcards'' then
        (case raw of
           YList vs \<Rightarrow>
             (case str_entries vs of
                None \<Rightarrow> Inl (Plain ''security: allow_wildcards entries must be strings'')
              | Some ents \<Rightarrow>
                  let b = base\<lparr>plWildcardEntries := ents\<rparr>
                  in Inr (if ents \<noteq> [] then b\<lparr>plAllowWildcards := True\<rparr> else b))
         | _ \<Rightarrow> Inl (Plain ''security: allow_wildcards must be a list of strings''))
      else if k = ''allow_doh'' then
        (case raw of
           YList vs \<Rightarrow>
             let b = base\<lparr>plDoHProviders := plDoHProviders base @ only_strs vs\<rparr>
             in Inr (if plDoHProviders b \<noteq> [] then b\<lparr>plAllowDoH := True\<rparr> else b)
         | YBool b \<Rightarrow> Inr (if b then base\<lparr>plAllowDoH := True\<rparr> else base)
         | _ \<Rightarrow> Inl (Plain ''security: allow_doh must be a bool or list of strings''))
      else if k = ''allow_imds'' then
        (case raw of YBool b \<Rightarrow> Inr (base\<lparr>plAllowIMDS := b\<rparr>)
         | _ \<Rightarrow> Inl (Plain ''security: allow_imds must be a bool''))
      else if k = ''allow_kube_api'' then
        (case raw of YBool b \<Rightarrow> Inr (base\<lparr>plAllowKubeAPI := b\<rparr>)
         | _ \<Rightarrow> Inl (Plain ''security: allow_kube_api must be a bool''))
      else if k = ''allow_private_cidrs'' then
        (case raw of
           YList vs \<Rightarrow>
             (case cidr_entries vs of Inl e \<Rightarrow> Inl e | Inr ns \<Rightarrow> Inr (base\<lparr>plAllowedPrivateCIDRs := ns\<rparr>))
         | _ \<Rightarrow> Inl (Plain ''security: allow_private_cidrs must be a list of strings''))
      else Inr base)"

text \<open>The policy so far is returned with the first error.\<close>

fun ApplyProjectOverrides ::
  "Policy \<Rightarrow> string list \<Rightarrow> (string, yval) gomap \<Rightarrow> Policy \<times> gerr option" where
  "ApplyProjectOverrides base allowed [] = (base, None)"
| "ApplyProjectOverrides base allowed ((k, raw) # overrides) =
     (if k \<notin> set allowed then ApplyProjectOverrides base allowed overrides
      else case override_key k raw base of
        Inl e \<Rightarrow> (base, Some e)
      | Inr b \<Rightarrow> ApplyProjectOverrides b allowed overrides)"

section \<open>Literal addresses\<close>

definition builtinBlockedCIDRs :: "string list" where
  "builtinBlockedCIDRs =
     [''10.0.0.0/8'', ''172.16.0.0/12'', ''192.168.0.0/16'', ''127.0.0.0/8'', ''169.254.0.0/16'', ''0.0.0.0/8'',
      ''100.64.0.0/10'', ''224.0.0.0/4'', ''240.0.0.0/4'', ''::1/128'', ''fe80::/10'', ''fc00::/7'', ''::/128'', ''ff00::/8'']"

definition BlockedEgressCIDRs :: "string list" where
  "BlockedEgressCIDRs = builtinBlockedCIDRs"

text \<open>\<open>None\<close> is the panic.\<close>

fun mustBuildBlockedRanges :: "(string \<Rightarrow> gerr + ipnet) \<Rightarrow> string list \<Rightarrow> ipnet list option" where
  "mustBuildBlockedRanges parseFn [] = Some []"
| "mustBuildBlockedRanges parseFn (c # cs) =
     (case parseFn c of Inl e \<Rightarrow> None | Inr n \<Rightarrow> map_option (\<lambda>ns. n # ns) (mustBuildBlockedRanges parseFn cs))"

definition blockedRanges :: "ipnet list" where
  "blockedRanges = (case mustBuildBlockedRanges ParseCIDR builtinBlockedCIDRs of None \<Rightarrow> [] | Some ns \<Rightarrow> ns)"

text \<open>\<open>net.SplitHostPort\<close> of a text that does not start with a bracket.\<close>

definition split_host :: "string \<Rightarrow> string option" where
  "split_host s =
     (case split_char CHR '':'' s of
        [h, p] \<Rightarrow> if CHR ''['' \<in> set s \<or> CHR '']'' \<in> set s then None else Some h
      | _ \<Rightarrow> None)"

definition extractHost :: "string \<Rightarrow> string" where
  "extractHost s =
     (if HasPrefix s ''['' then
        (case cut_char CHR '']'' s of (b, a, found) \<Rightarrow> if found then tl b else s)
      else case split_host s of Some h \<Rightarrow> h | None \<Rightarrow> s)"

definition inBlockedRange :: "ip \<Rightarrow> ipnet option" where
  "inBlockedRange a = find (\<lambda>r. net_Contains r a) blockedRanges"

definition inAllowedCIDRs :: "ip \<Rightarrow> ipnet list \<Rightarrow> bool" where
  "inAllowedCIDRs a cidrs = list_ex (\<lambda>c. net_Contains c a) cidrs"

definition check_literal :: "Policy \<Rightarrow> string \<Rightarrow> gerr option" where
  "check_literal p h =
     (case ParseIP (extractHost h) of
        None \<Rightarrow> None
      | Some a \<Rightarrow>
          (case inBlockedRange a of
             None \<Rightarrow> None
           | Some r \<Rightarrow>
               if inAllowedCIDRs a (plAllowedPrivateCIDRs p) then None
               else Some (Plain (''security: egress host '' @ h @ '' is a literal IP in blocked range '' @
                                 ipnet_String r @ ''; use allow_private_cidrs to opt in''))))"

fun CheckEgressIPLiterals :: "string list \<Rightarrow> Policy \<Rightarrow> gerr option" where
  "CheckEgressIPLiterals [] p = None"
| "CheckEgressIPLiterals (h # hs) p =
     (case check_literal p h of Some e \<Rightarrow> Some e | None \<Rightarrow> CheckEgressIPLiterals hs p)"

end
