(* ===== verification/SHA256.thy ===== *)
theory SHA256
  imports RS_Prelude
begin

text \<open>
  \<open>crypto/sha256\<close> over 32-bit words, as \<open>Sum256\<close> computes it, and the lower-case hexadecimal
  rendering of \<open>%x\<close>. The repository label of a Kubernetes object falls back on it.
\<close>

unbundle bit_operations_syntax

section \<open>Constants\<close>

definition sha_K :: "32 word list" where
  "sha_K =
    [1116352408, 1899447441, 3049323471, 3921009573, 961987163, 1508970993, 2453635748, 2870763221,
     3624381080, 310598401, 607225278, 1426881987, 1925078388, 2162078206, 2614888103, 3248222580,
     3835390401, 4022224774, 264347078, 604807628, 770255983, 1249150122, 1555081692, 1996064986,
     2554220882, 2821834349, 2952996808, 3210313671, 3336571891, 3584528711, 113926993, 338241895,
     666307205, 773529912, 1294757372, 1396182291, 1695183700, 1986661051, 2177026350, 2456956037,
     2730485921, 2820302411, 3259730800, 3345764771, 3516065817, 3600352804, 4094571909, 275423344,
     430227734, 506948616, 659060556, 883997877, 958139571, 1322822218, 1537002063, 1747873779,
     1955562222, 2024104815, 2227730452, 2361852424, 2428436474, 2756734187, 3204031479, 3329325298]"

definition sha_init :: "32 word list" where
  "sha_init =
    [1779033703, 3144134277, 1013904242, 2773480762, 1359893119, 2600822924, 528734635, 1541459225]"

section \<open>The message\<close>

text \<open>The padded message: a one bit, zeros up to a multiple of 64 bytes, and the length in bits.\<close>

definition sha_pad :: "int list \<Rightarrow> int list" where
  "sha_pad m =
     (let n = int (length m); z = (55 - n) mod 64
      in m @ [128] @ replicate (nat z) 0 @ map (\<lambda>k. (8 * n) div 2 ^ k mod 256) [56, 48, 40, 32, 24, 16, 8, 0])"

fun be_words :: "int list \<Rightarrow> 32 word list" where
  "be_words (a # b # c # d # r) = word_of_int (((a * 256 + b) * 256 + c) * 256 + d) # be_words r"
| "be_words _ = []"

fun chunks16 :: "nat \<Rightarrow> 'a list \<Rightarrow> 'a list list" where
  "chunks16 0 xs = []"
| "chunks16 (Suc n) xs = take 16 xs # chunks16 n (drop 16 xs)"

section \<open>Compression\<close>

definition rotr32 :: "nat \<Rightarrow> 32 word \<Rightarrow> 32 word" where
  "rotr32 k x = drop_bit k x OR push_bit (32 - k) x"

definition small_sigma0 :: "32 word \<Rightarrow> 32 word" where
  "small_sigma0 x = rotr32 7 x XOR rotr32 18 x XOR drop_bit 3 x"

definition small_sigma1 :: "32 word \<Rightarrow> 32 word" where
  "small_sigma1 x = rotr32 17 x XOR rotr32 19 x XOR drop_bit 10 x"

definition big_sigma0 :: "32 word \<Rightarrow> 32 word" where
  "big_sigma0 x = rotr32 2 x XOR rotr32 13 x XOR rotr32 22 x"

definition big_sigma1 :: "32 word \<Rightarrow> 32 word" where
  "big_sigma1 x = rotr32 6 x XOR rotr32 11 x XOR rotr32 25 x"

text \<open>The message schedule, the newest word first.\<close>

fun sha_extend :: "nat \<Rightarrow> 32 word list \<Rightarrow> 32 word list" where
  "sha_extend 0 ws = ws"
| "sha_extend (Suc n) ws =
     sha_extend n ((small_sigma1 (ws ! 1) + ws ! 6 + small_sigma0 (ws ! 14) + ws ! 15) # ws)"

fun sha_round :: "32 word list \<Rightarrow> 32 word \<times> 32 word \<Rightarrow> 32 word list" where
  "sha_round [a, b, c, d, e, f, g, h] (k, w) =
     (let t1 = h + big_sigma1 e + ((e AND f) XOR (NOT e AND g)) + k + w;
          t2 = big_sigma0 a + ((a AND b) XOR (a AND c) XOR (b AND c))
      in [t1 + t2, a, b, c, d + t1, e, f, g])"
| "sha_round st _ = st"

definition sha_block :: "32 word list \<Rightarrow> 32 word list \<Rightarrow> 32 word list" where
  "sha_block st block =
     (let ws = rev (sha_extend 48 (rev block)) in map2 (+) st (foldl sha_round st (zip sha_K ws)))"

definition word_bytes :: "32 word \<Rightarrow> int list" where
  "word_bytes w = map (\<lambda>k. uint w div 2 ^ k mod 256) [24, 16, 8, 0]"

definition Sum256 :: "string \<Rightarrow> int list" where
  "Sum256 s =
     (let ws = be_words (sha_pad (map of_char s)); st = foldl sha_block sha_init (chunks16 (length ws div 16) ws)
      in concat (map word_bytes st))"

section \<open>Rendering\<close>

definition hex_nibble :: "int \<Rightarrow> char" where
  "hex_nibble n = (if n < 10 then char_of (48 + n) else char_of (87 + n))"

definition hex_bytes :: "int list \<Rightarrow> string" where
  "hex_bytes bs = concat (map (\<lambda>b. [hex_nibble (b div 16), hex_nibble (b mod 16)]) bs)"

section \<open>Lemmas\<close>

lemma sha_round_length: "length st = 8 \<Longrightarrow> length (sha_round st p) = 8"
  by (cases "(st, p)" rule: sha_round.cases) (auto simp: Let_def)

lemma sha_rounds_length: "length st = 8 \<Longrightarrow> length (foldl sha_round st ps) = 8"
  by (induction ps arbitrary: st) (simp_all add: sha_round_length)

lemma sha_block_length: "length st = 8 \<Longrightarrow> length (sha_block st b) = 8"
  by (simp add: sha_block_def Let_def sha_rounds_length)

lemma sha_blocks_length: "length st = 8 \<Longrightarrow> length (foldl sha_block st bs) = 8"
  by (induction bs arbitrary: st) (simp_all add: sha_block_length)

lemma length_concat_bytes: "length (concat (map word_bytes ws)) = 4 * length ws"
  by (induction ws) (simp_all add: word_bytes_def)

lemma Sum256_length: "length (Sum256 s) = 32"
  by (simp add: Sum256_def Let_def length_concat_bytes sha_blocks_length sha_init_def)

lemma length_hex_bytes [simp]: "length (hex_bytes bs) = 2 * length bs"
  by (induction bs) (simp_all add: hex_bytes_def)

end
