(* ===== verification/Kube_Objects.thy ===== *)
theory Kube_Objects
  imports Spawn_Data Security_Model SHA256
begin

text \<open>
  The Kubernetes objects of one spawn, \<open>internal/kube/objects.go\<close>: the typed objects of the
  Kubernetes API, restricted to the fields the builders set or the client reads, and one
  definition per builder.

  The validators of \<open>k8s.io/apimachinery\<close> and the parser of quantities are not part of the
  repository: they are the record \<open>KubeLib\<close>, an argument of the definitions that call them. A
  quantity is the text it was parsed from, or the number it was made of; \<open>MustParse\<close> of an
  invalid text panics, which is \<open>None\<close>.
\<close>

section \<open>The library\<close>

record KubeLib =
  klLabelValue :: "string \<Rightarrow> bool"
  klDNS1123Label :: "string \<Rightarrow> bool"
  klDNS1123Subdomain :: "string \<Rightarrow> bool"
  klQualifiedName :: "string \<Rightarrow> bool"
  klQuantity :: "string \<Rightarrow> bool"

text \<open>A DNS label is documented to have at least one character; what else it needs is the
  library's.\<close>

definition IsDNS1123Label :: "KubeLib \<Rightarrow> string \<Rightarrow> bool" where
  "IsDNS1123Label l s = (s \<noteq> [] \<and> klDNS1123Label l s)"

datatype Quantity = QParsed string | QNano int | QBinary int

section \<open>API objects\<close>

record OwnerReference =
  orAPIVersion :: string
  orKind :: string
  orName :: string
  orUID :: string
  orController :: bool
  orBlockOwnerDeletion :: bool

record ObjectMeta =
  omName :: string
  omNamespace :: string
  omLabels :: "(string, string) gomap"
  omOwners :: "OwnerReference list"
  omUID :: string
  omResourceVersion :: string

datatype Protocol = ProtocolTCP | ProtocolUDP

datatype PolicyType = PolicyTypeIngress | PolicyTypeEgress

record Secret =
  secMeta :: ObjectMeta
  secImmutable :: bool
  secStringData :: "(string, string) gomap"

record ServicePort =
  spName :: string
  spProtocol :: Protocol
  spPort :: int
  spTargetPort :: int

record Service =
  svcMeta :: ObjectMeta
  svcType :: string
  svcSelector :: "(string, string) gomap"
  svcPorts :: "ServicePort list"

record IPBlock =
  ibCIDR :: string
  ibExcept :: "string list"

record NetworkPolicyPort =
  nppProtocol :: Protocol
  nppPort :: int

record NetworkPolicyPeer =
  peerPodSelector :: "(string, string) gomap option"
  peerNamespaceSelector :: "(string, string) gomap option"
  peerIPBlock :: "IPBlock option"

record NetworkPolicyRule =
  rulePeers :: "NetworkPolicyPeer list"
  rulePorts :: "NetworkPolicyPort list"

record NetworkPolicy =
  npMeta :: ObjectMeta
  npPodSelector :: "(string, string) gomap"
  npPolicyTypes :: "PolicyType list"
  npIngress :: "NetworkPolicyRule list"
  npEgress :: "NetworkPolicyRule list"

record PodSecurityContext =
  pscRunAsNonRoot :: bool
  pscRunAsUser :: int
  pscRunAsGroup :: int
  pscFSGroup :: int
  pscSeccompProfile :: string

record SecurityContext =
  scAllowPrivilegeEscalation :: bool
  scPrivileged :: bool
  scReadOnlyRootFilesystem :: bool
  scCapabilitiesDrop :: "string list"

datatype VolumeSource =
    VSecret string int "(string \<times> string) list"
  | VEmptyDir string Quantity

record VolumeMount =
  vmName :: string
  vmMountPath :: string
  vmReadOnly :: bool

record ContainerPort =
  cpName :: string
  cpPort :: int
  cpProtocol :: Protocol

record ResourceRequirements =
  rrRequests :: "(string, Quantity) gomap"
  rrLimits :: "(string, Quantity) gomap"

record PodContainer =
  pcName :: string
  pcImage :: string
  pcImagePullPolicy :: string
  pcCommand :: "string list"
  pcSecurityContext :: SecurityContext
  pcResources :: ResourceRequirements
  pcEnv :: "(string \<times> string) list"
  pcVolumeMounts :: "VolumeMount list"
  pcPorts :: "ContainerPort list"

record PodSpec =
  psNodeSelector :: "(string, string) gomap"
  psTolerations :: "KubeToleration list"
  psRestartPolicy :: string
  psAutomountServiceAccountToken :: bool
  psHostNetwork :: bool
  psHostPID :: bool
  psHostIPC :: bool
  psSecurityContext :: PodSecurityContext
  psVolumes :: "(string \<times> VolumeSource) list"
  psContainers :: "PodContainer list"

record Pod =
  podMeta :: ObjectMeta
  podSpec :: PodSpec
  podPhase :: string

section \<open>Names and labels\<close>

definition LabelScope :: string where "LabelScope = ''runsecure.io/scope''"

definition LabelRepo :: string where "LabelRepo = ''runsecure.io/repo''"

definition LabelSpawnID :: string where "LabelSpawnID = ''runsecure.io/spawn-id''"

definition LabelRole :: string where "LabelRole = ''runsecure.io/role''"

definition RoleRunner :: string where "RoleRunner = ''runner''"

definition RoleProxy :: string where "RoleProxy = ''proxy''"

definition proxyPort :: int where "proxyPort = 3128"

definition dnsPort :: int where "dnsPort = 53"

definition runnerUID :: int where "runnerUID = 1001"

definition worldCIDR :: string where "worldCIDR = ''0.0.0.0/0''"

definition kube_Namespace :: "string \<Rightarrow> string" where
  "kube_Namespace scope = ''runsecure-'' @ scope"

definition executionNamespace :: "SpawnInput \<Rightarrow> string" where
  "executionNamespace inp = (if inNamespace inp \<noteq> [] then inNamespace inp else kube_Namespace (inScope inp))"

definition RepoLabel :: "KubeLib \<Rightarrow> string \<Rightarrow> string" where
  "RepoLabel l repo =
     (let label = map (\<lambda>c. if c = CHR ''/'' then CHR ''_'' else c) repo in
      if klLabelValue l label then label else ''repo-'' @ hex_bytes (take 28 (Sum256 repo)))"

definition Labels :: "KubeLib \<Rightarrow> SpawnInput \<Rightarrow> string \<Rightarrow> (string, string) gomap" where
  "Labels l inp role =
     [(LabelScope, inScope inp), (LabelRepo, RepoLabel l (inRepo inp)), (LabelSpawnID, inSpawnID inp), (LabelRole, role)]"

definition hardPodSecCtx :: PodSecurityContext where
  "hardPodSecCtx = \<lparr>pscRunAsNonRoot = True, pscRunAsUser = runnerUID, pscRunAsGroup = runnerUID,
     pscFSGroup = runnerUID, pscSeccompProfile = ''RuntimeDefault''\<rparr>"

definition hardContainerSecCtx :: SecurityContext where
  "hardContainerSecCtx = \<lparr>scAllowPrivilegeEscalation = False, scPrivileged = False,
     scReadOnlyRootFilesystem = True, scCapabilitiesDrop = [''ALL'']\<rparr>"

definition runnerContainerSecCtx :: SecurityContext where
  "runnerContainerSecCtx = hardContainerSecCtx\<lparr>scReadOnlyRootFilesystem := False\<rparr>"

definition objectMeta :: "string \<Rightarrow> string \<Rightarrow> (string, string) gomap \<Rightarrow> ObjectMeta" where
  "objectMeta name ns labels = \<lparr>omName = name, omNamespace = ns, omLabels = labels, omOwners = [],
     omUID = [], omResourceVersion = []\<rparr>"

definition spawnResourceName :: "string \<Rightarrow> string \<Rightarrow> string" where
  "spawnResourceName kind spawnID = ''rs-'' @ kind @ ''-'' @ spawnID"

text \<open>Conversion of an \<open>int\<close> to \<open>int32\<close>.\<close>

definition i32 :: "int \<Rightarrow> int" where
  "i32 x = (x + 2 ^ 31) mod 2 ^ 32 - 2 ^ 31"

section \<open>The Secret\<close>

definition SpawnSecret :: "KubeLib \<Rightarrow> SpawnInput \<Rightarrow> string \<Rightarrow> string \<Rightarrow> string \<Rightarrow> Secret" where
  "SpawnSecret l inp squidCfg haproxyCfg dnsmasqCfg =
     \<lparr>secMeta = objectMeta (spawnResourceName ''secret'' (inSpawnID inp)) (executionNamespace inp) (Labels l inp RoleProxy),
      secImmutable = False,
      secStringData = [(''jit-config'', inJITConfigB64 inp)] @
        (if squidCfg \<noteq> [] then [(''squid.conf'', squidCfg)] else []) @
        (if haproxyCfg \<noteq> [] then [(''haproxy.cfg'', haproxyCfg)] else []) @
        (if dnsmasqCfg \<noteq> [] then [(''dnsmasq.conf'', dnsmasqCfg)] else [])\<rparr>"

section \<open>Pods\<close>

definition quantityOrDefault :: "KubeLib \<Rightarrow> string \<Rightarrow> string \<Rightarrow> Quantity option" where
  "quantityOrDefault l given fallback =
     (let v = (if given = [] then fallback else given) in if klQuantity l v then Some (QParsed v) else None)"

definition proxyResourceBounds :: "KubeLib \<Rightarrow> KubePodSettings \<Rightarrow> ResourceRequirements option" where
  "proxyResourceBounds l settings =
     (case (quantityOrDefault l (kpProxyCPU settings) ''250m'', quantityOrDefault l (kpProxyMemory settings) ''256Mi'',
            quantityOrDefault l (kpProxyEphemeralStorage settings) ''1Gi'') of
        (Some cpu, Some mem, Some eph) \<Rightarrow>
          let bounds = [(''cpu'', cpu), (''memory'', mem), (''ephemeral-storage'', eph)]
          in Some \<lparr>rrRequests = bounds, rrLimits = bounds\<rparr>
      | _ \<Rightarrow> None)"

definition podTolerations :: "KubePodSettings \<Rightarrow> KubeToleration list" where
  "podTolerations settings =
     map (\<lambda>t. \<lparr>ktKey = ktKey t, ktOperator = ktOperator t, ktValue = ktValue t, ktEffect = ktEffect t,
               ktTolerationSeconds = ktTolerationSeconds t\<rparr>) (kpTolerations settings)"

definition writablePaths :: "(string \<times> string) list" where
  "writablePaths = [(''tmp'', ''/tmp''), (''run'', ''/run''), (''squid-run'', ''/var/run/squid''),
     (''squid-log'', ''/var/log/squid''), (''squid-spool'', ''/var/spool/squid''), (''haproxy-lib'', ''/var/lib/haproxy'')]"

definition tcp_ports :: "int list \<Rightarrow> ContainerPort list" where
  "tcp_ports ps = map (\<lambda>(i, p). \<lparr>cpName = ''tcp-'' @ show_nat i, cpPort = i32 p, cpProtocol = ProtocolTCP\<rparr>)
     (zip [0..<length ps] ps)"

definition proxy_container :: "SpawnInput \<Rightarrow> ResourceRequirements \<Rightarrow> PodContainer" where
  "proxy_container inp res =
     \<lparr>pcName = ''proxy'', pcImage = inProxyImage inp, pcImagePullPolicy = ''Always'', pcCommand = [],
      pcSecurityContext = hardContainerSecCtx, pcResources = res,
      pcEnv = [(''SQUID_CFG'', ''/etc/runsecure/squid.conf''), (''HAPROXY_CFG'', ''/etc/runsecure/haproxy.cfg''),
               (''ENABLE_HAPROXY'', ''true''), (''DNSMASQ_CFG'', ''/etc/runsecure/dnsmasq.conf'')] @
              (if inEnableDNSMasq inp then [(''ENABLE_DNSMASQ'', ''true'')] else []),
      pcVolumeMounts = \<lparr>vmName = ''jit-secret'', vmMountPath = ''/etc/runsecure'', vmReadOnly = True\<rparr> #
        map (\<lambda>(n, p). \<lparr>vmName = n, vmMountPath = p, vmReadOnly = False\<rparr>) writablePaths,
      pcPorts = [\<lparr>cpName = ''squid'', cpPort = proxyPort, cpProtocol = ProtocolTCP\<rparr>] @ tcp_ports (inTCPEgressPorts inp) @
        (if inEnableDNSMasq inp
         then [\<lparr>cpName = ''dns-udp'', cpPort = dnsPort, cpProtocol = ProtocolUDP\<rparr>,
               \<lparr>cpName = ''dns-tcp'', cpPort = dnsPort, cpProtocol = ProtocolTCP\<rparr>] else [])\<rparr>"

definition pod_spec :: "SpawnInput \<Rightarrow> (string \<times> VolumeSource) list \<Rightarrow> PodContainer \<Rightarrow> PodSpec" where
  "pod_spec inp volumes c =
     \<lparr>psNodeSelector = kpNodeSelector (inKubernetes inp), psTolerations = podTolerations (inKubernetes inp),
      psRestartPolicy = ''Never'', psAutomountServiceAccountToken = False, psHostNetwork = False, psHostPID = False,
      psHostIPC = False, psSecurityContext = hardPodSecCtx, psVolumes = volumes, psContainers = [c]\<rparr>"

definition ProxyPod :: "KubeLib \<Rightarrow> SpawnInput \<Rightarrow> string \<Rightarrow> Pod option" where
  "ProxyPod l inp secretName =
     (case proxyResourceBounds l (inKubernetes inp) of
        None \<Rightarrow> None
      | Some res \<Rightarrow>
          let items = [(''squid.conf'', ''squid.conf''), (''haproxy.cfg'', ''haproxy.cfg'')] @
                (if inEnableDNSMasq inp then [(''dnsmasq.conf'', ''dnsmasq.conf'')] else []);
              volumes = (''jit-secret'', VSecret secretName 288 items) #
                map (\<lambda>(n, p). (n, VEmptyDir ''Memory'' (QParsed ''64Mi''))) writablePaths
          in Some \<lparr>podMeta = objectMeta (spawnResourceName ''proxy'' (inSpawnID inp)) (executionNamespace inp) (Labels l inp RoleProxy),
                   podSpec = pod_spec inp volumes (proxy_container inp res), podPhase = []\<rparr>)"

definition runner_env :: "SpawnInput \<Rightarrow> string \<Rightarrow> (string \<times> string) list" where
  "runner_env inp proxyServiceDNS =
     (let proxyURL = ''http://'' @ proxyServiceDNS @ '':'' @ show_int proxyPort;
          noProxy = ''localhost,127.0.0.1,10.0.0.0/8,172.16.0.0/12,192.168.0.0/16,.svc.cluster.local,.cluster.local''
      in [(''RUNSECURE_SCOPE'', inScope inp), (''RUNSECURE_VERSION'', inVersion inp), (''RUNSECURE_BUILD_SHA'', inBuildSHA inp),
          (''RUNSECURE_SPAWN_ID'', inSpawnID inp), (''RUNSECURE_RUNNER_IMAGE_REF'', inRunnerImage inp),
          (''RUNSECURE_PROXY_IMAGE_REF'', inProxyImage inp), (''HTTP_PROXY'', proxyURL), (''HTTPS_PROXY'', proxyURL),
          (''http_proxy'', proxyURL), (''https_proxy'', proxyURL), (''NO_PROXY'', noProxy), (''no_proxy'', noProxy),
          (''RUNNER_JIT_CONFIG_FILE'', ''/var/run/runsecure/jit-config'')])"

definition RunnerPod :: "KubeLib \<Rightarrow> SpawnInput \<Rightarrow> string \<Rightarrow> string \<Rightarrow> Pod option" where
  "RunnerPod l inp secretName proxyServiceDNS =
     (case quantityOrDefault l (kpEphemeralStorage (inKubernetes inp)) ''10Gi'' of
        None \<Rightarrow> None
      | Some eph \<Rightarrow>
          let res = [(''ephemeral-storage'', eph), (''cpu'', QNano (inResourcesNanoCPUs inp)), (''memory'', QBinary (inResourcesMemory inp))];
              volumes = [(''tmp'', VEmptyDir ''Memory'' (QParsed ''512Mi'')),
                         (''jit-secret'', VSecret secretName 288 [(''jit-config'', ''jit-config'')])];
              runner = \<lparr>pcName = ''runner'', pcImage = inRunnerImage inp, pcImagePullPolicy = ''Always'',
                 pcCommand = [''/home/runner/entrypoint.sh''], pcSecurityContext = runnerContainerSecCtx,
                 pcResources = \<lparr>rrRequests = res, rrLimits = res\<rparr>, pcEnv = runner_env inp proxyServiceDNS,
                 pcVolumeMounts = [\<lparr>vmName = ''tmp'', vmMountPath = ''/tmp'', vmReadOnly = False\<rparr>,
                                   \<lparr>vmName = ''jit-secret'', vmMountPath = ''/var/run/runsecure'', vmReadOnly = True\<rparr>],
                 pcPorts = []\<rparr>
          in Some \<lparr>podMeta = objectMeta (spawnResourceName ''runner'' (inSpawnID inp)) (executionNamespace inp) (Labels l inp RoleRunner),
                   podSpec = pod_spec inp volumes runner, podPhase = []\<rparr>)"

section \<open>The Service\<close>

text \<open>The duplicates of a port are dropped, the first one stays.\<close>

fun new_ports :: "int set \<Rightarrow> int list \<Rightarrow> int list" where
  "new_ports seen [] = []"
| "new_ports seen (p # ps) =
     (let port = i32 p in if port \<in> seen then new_ports seen ps else port # new_ports (insert port seen) ps)"

definition service_port :: "string \<Rightarrow> Protocol \<Rightarrow> int \<Rightarrow> ServicePort" where
  "service_port name proto port = \<lparr>spName = name, spProtocol = proto, spPort = port, spTargetPort = port\<rparr>"

definition role_selector :: "SpawnInput \<Rightarrow> string \<Rightarrow> (string, string) gomap" where
  "role_selector inp role = [(LabelRole, role), (LabelSpawnID, inSpawnID inp)]"

definition ProxyService :: "KubeLib \<Rightarrow> SpawnInput \<Rightarrow> Service" where
  "ProxyService l inp =
     \<lparr>svcMeta = objectMeta (spawnResourceName ''proxy-svc'' (inSpawnID inp)) (executionNamespace inp) (Labels l inp RoleProxy),
      svcType = ''ClusterIP'', svcSelector = role_selector inp RoleProxy,
      svcPorts = [service_port ''squid'' ProtocolTCP proxyPort] @
        (if inEnableDNSMasq inp
         then [service_port ''dns-tcp'' ProtocolTCP dnsPort, service_port ''dns-udp'' ProtocolUDP dnsPort] else []) @
        map (\<lambda>p. service_port (''tcp-'' @ show_int p) ProtocolTCP p) (new_ports {} (inTCPEgressPorts inp))\<rparr>"

section \<open>Network policies\<close>

definition DefaultDenyNetworkPolicy :: "string \<Rightarrow> NetworkPolicy" where
  "DefaultDenyNetworkPolicy scope =
     \<lparr>npMeta = objectMeta ''default-deny-all'' (kube_Namespace scope) [(LabelScope, scope)], npPodSelector = [],
      npPolicyTypes = [PolicyTypeIngress, PolicyTypeEgress], npIngress = [], npEgress = []\<rparr>"

definition policy_port :: "Protocol \<Rightarrow> int \<Rightarrow> NetworkPolicyPort" where
  "policy_port proto port = \<lparr>nppProtocol = proto, nppPort = port\<rparr>"

text \<open>The port list that the runner egress and the proxy ingress policy both build.\<close>

definition proxy_ports :: "SpawnInput \<Rightarrow> NetworkPolicyPort list" where
  "proxy_ports inp =
     [policy_port ProtocolTCP proxyPort] @
     (if inEnableDNSMasq inp then [policy_port ProtocolUDP dnsPort, policy_port ProtocolTCP dnsPort] else []) @
     map (\<lambda>p. policy_port ProtocolTCP (i32 p)) (inTCPEgressPorts inp)"

definition pod_peer :: "(string, string) gomap \<Rightarrow> NetworkPolicyPeer" where
  "pod_peer sel = \<lparr>peerPodSelector = Some sel, peerNamespaceSelector = None, peerIPBlock = None\<rparr>"

definition ip_peer :: "string \<Rightarrow> string list \<Rightarrow> NetworkPolicyPeer" where
  "ip_peer cidr exc = \<lparr>peerPodSelector = None, peerNamespaceSelector = None,
     peerIPBlock = Some \<lparr>ibCIDR = cidr, ibExcept = exc\<rparr>\<rparr>"

definition clusterDNSPeers :: "SpawnInput \<Rightarrow> NetworkPolicyPeer list" where
  "clusterDNSPeers inp =
     map (\<lambda>cidr. ip_peer cidr []) (inKubeDNSServiceCIDRs inp) @
     [\<lparr>peerPodSelector = Some [(inKubeDNSPodLabelKey inp, inKubeDNSPodLabelValue inp)],
       peerNamespaceSelector = Some [(''kubernetes.io/metadata.name'', inKubeDNSNamespace inp)], peerIPBlock = None\<rparr>]"

definition dns_rule :: "SpawnInput \<Rightarrow> NetworkPolicyRule" where
  "dns_rule inp = \<lparr>rulePeers = clusterDNSPeers inp,
     rulePorts = [policy_port ProtocolUDP dnsPort, policy_port ProtocolTCP dnsPort]\<rparr>"

definition RunnerEgressNetworkPolicy :: "KubeLib \<Rightarrow> SpawnInput \<Rightarrow> NetworkPolicy" where
  "RunnerEgressNetworkPolicy l inp =
     \<lparr>npMeta = objectMeta (spawnResourceName ''runner-egress'' (inSpawnID inp)) (executionNamespace inp) (Labels l inp RoleRunner),
      npPodSelector = role_selector inp RoleRunner, npPolicyTypes = [PolicyTypeEgress], npIngress = [],
      npEgress = [\<lparr>rulePeers = [pod_peer (role_selector inp RoleProxy)], rulePorts = proxy_ports inp\<rparr>, dns_rule inp]\<rparr>"

text \<open>\<open>netip.MustParsePrefix(cidr).Addr().Is4()\<close> over the constant list of blocked ranges.\<close>

definition blockedIPv4EgressCIDRs :: "string list" where
  "blockedIPv4EgressCIDRs =
     filter (\<lambda>cidr. case ParsePrefix cidr of Some (a, _) \<Rightarrow> Is4 a | None \<Rightarrow> False) BlockedEgressCIDRs"

definition ProxyEgressNetworkPolicy :: "KubeLib \<Rightarrow> SpawnInput \<Rightarrow> NetworkPolicy" where
  "ProxyEgressNetworkPolicy l inp =
     \<lparr>npMeta = objectMeta (spawnResourceName ''proxy-egress'' (inSpawnID inp)) (executionNamespace inp) (Labels l inp RoleProxy),
      npPodSelector = role_selector inp RoleProxy, npPolicyTypes = [PolicyTypeEgress], npIngress = [],
      npEgress = [dns_rule inp, \<lparr>rulePeers = [ip_peer worldCIDR blockedIPv4EgressCIDRs], rulePorts = []\<rparr>] @
        map (\<lambda>cidr. \<lparr>rulePeers = [ip_peer cidr []], rulePorts = []\<rparr>) (inAllowedPrivateCIDRs inp)\<rparr>"

definition ProxyIngressNetworkPolicy :: "KubeLib \<Rightarrow> SpawnInput \<Rightarrow> NetworkPolicy" where
  "ProxyIngressNetworkPolicy l inp =
     \<lparr>npMeta = objectMeta (spawnResourceName ''proxy-ingress'' (inSpawnID inp)) (executionNamespace inp) (Labels l inp RoleProxy),
      npPodSelector = role_selector inp RoleProxy, npPolicyTypes = [PolicyTypeIngress],
      npIngress = [\<lparr>rulePeers = [pod_peer (role_selector inp RoleRunner)], rulePorts = proxy_ports inp\<rparr>], npEgress = []\<rparr>"

definition OwnerRef :: "Secret \<Rightarrow> OwnerReference" where
  "OwnerRef secret = \<lparr>orAPIVersion = ''v1'', orKind = ''Secret'', orName = omName (secMeta secret),
     orUID = omUID (secMeta secret), orController = True, orBlockOwnerDeletion = True\<rparr>"

end
