(* ===== verification/Kube_Client.thy ===== *)
theory Kube_Client
  imports Kube_Objects "HOL-Library.List_Lexorder" "HOL-Library.Char_ord"
begin

text \<open>
  The Kubernetes client \<open>internal/kube/client.go\<close>. The API server is the environment \<open>KubeEnv\<close>:
  what the \<open>n\<close>-th call is answered, as a function of the call. \<open>KubeState\<close> counts the calls and
  logs what was asked: every create and every delete, whether or not it was acknowledged, and
  every list that was answered, with the names it returned. The program itself keeps no such log.

  A wait that polls until its context is done lasts \<open>kePatience\<close> ticks, any number; the watch of
  a runner takes its events from the environment and runs on fuel, so that \<open>None\<close> is a watch that
  has not ended yet.
\<close>

section \<open>The API server\<close>

datatype KErr = KAlreadyExists string | KNotFound string | KOther gerr

fun kerr :: "KErr \<Rightarrow> gerr" where
  "kerr (KAlreadyExists t) = Plain t"
| "kerr (KNotFound t) = Plain t"
| "kerr (KOther e) = e"

definition IsAlreadyExists :: "KErr \<Rightarrow> bool" where
  "IsAlreadyExists e = (case e of KAlreadyExists _ \<Rightarrow> True | _ \<Rightarrow> False)"

definition IsNotFound :: "KErr \<Rightarrow> bool" where
  "IsNotFound e = (case e of KNotFound _ \<Rightarrow> True | _ \<Rightarrow> False)"

datatype KObj = OSecret Secret | OService Service | OPolicy NetworkPolicy | OPod Pod

fun obj_meta :: "KObj \<Rightarrow> ObjectMeta" where
  "obj_meta (OSecret x) = secMeta x"
| "obj_meta (OService x) = svcMeta x"
| "obj_meta (OPolicy x) = npMeta x"
| "obj_meta (OPod x) = podMeta x"

fun obj_kind :: "KObj \<Rightarrow> string" where
  "obj_kind (OSecret x) = ''secret''"
| "obj_kind (OService x) = ''service''"
| "obj_kind (OPolicy x) = ''networkpolicy''"
| "obj_kind (OPod x) = ''pod''"

text \<open>Label selectors: the requirements of \<open>labels.Set.AsSelector\<close> and of a bare key.\<close>

datatype Requirement = ReqEquals string string | ReqExists string

fun req_holds :: "(string, string) gomap \<Rightarrow> Requirement \<Rightarrow> bool" where
  "req_holds labels (ReqEquals k v) = (map_of labels k = Some v)"
| "req_holds labels (ReqExists k) = (map_of labels k \<noteq> None)"

definition selects :: "Requirement list \<Rightarrow> (string, string) gomap \<Rightarrow> bool" where
  "selects sel labels = list_all (req_holds labels) sel"

datatype WatchStep = WClosed | WOther | WPod Pod | WDone

record DeleteOptions =
  doPropagation :: string
  doGracePeriodSeconds :: "int option"

datatype KEvent =
    KTried KObj
  | KListed string string "Requirement list" "string list"
  | KDeleted string string string

record KubeState =
  ksCalls :: nat
  ksLog :: "KEvent list"

record KubeEnv =
  keLib :: KubeLib
  keCreate :: "nat \<Rightarrow> KObj \<Rightarrow> KErr + ObjectMeta"
  keGetSecret :: "nat \<Rightarrow> string \<Rightarrow> string \<Rightarrow> KErr + Secret"
  keGetPod :: "nat \<Rightarrow> string \<Rightarrow> string \<Rightarrow> KErr + Pod"
  keList :: "nat \<Rightarrow> string \<Rightarrow> string \<Rightarrow> Requirement list \<Rightarrow> KErr + ObjectMeta list"
  keDelete :: "nat \<Rightarrow> string \<Rightarrow> string \<Rightarrow> string \<Rightarrow> DeleteOptions \<Rightarrow> KErr option"
  keWatch :: "nat \<Rightarrow> string \<Rightarrow> string \<Rightarrow> string \<Rightarrow> KErr option"
  keEvent :: "nat \<Rightarrow> WatchStep"
  kePatience :: "nat \<Rightarrow> nat"
  keCtxErr :: "nat \<Rightarrow> gerr"
  keParentDone :: "nat \<Rightarrow> bool"
  keDeadline :: "nat \<Rightarrow> bool"
  keReadFile :: "nat \<Rightarrow> string \<Rightarrow> gerr + string"
  keRemoveAll :: "nat \<Rightarrow> string \<Rightarrow> gerr option"

definition k_tick :: "KubeState \<Rightarrow> KubeState" where
  "k_tick s = s\<lparr>ksCalls := ksCalls s + 1\<rparr>"

definition k_log :: "KEvent \<Rightarrow> KubeState \<Rightarrow> KubeState" where
  "k_log ev s = s\<lparr>ksLog := ksLog s @ [ev]\<rparr>"

definition k_create :: "KubeEnv \<Rightarrow> KObj \<Rightarrow> KubeState \<Rightarrow> (KErr + ObjectMeta) \<times> KubeState" where
  "k_create c obj s = (keCreate c (ksCalls s) obj, k_log (KTried obj) (k_tick s))"

definition k_list ::
  "KubeEnv \<Rightarrow> string \<Rightarrow> string \<Rightarrow> Requirement list \<Rightarrow> KubeState \<Rightarrow> (KErr + ObjectMeta list) \<times> KubeState" where
  "k_list c kind ns sel s =
     (case keList c (ksCalls s) kind ns sel of
        Inl e \<Rightarrow> (Inl e, k_tick s)
      | Inr ms \<Rightarrow> (Inr ms, k_log (KListed ns kind sel (map omName ms)) (k_tick s)))"

definition k_delete ::
  "KubeEnv \<Rightarrow> string \<Rightarrow> string \<Rightarrow> string \<Rightarrow> DeleteOptions \<Rightarrow> KubeState \<Rightarrow> KErr option \<times> KubeState" where
  "k_delete c kind ns name opts s = (keDelete c (ksCalls s) kind ns name opts, k_log (KDeleted ns kind name) (k_tick s))"

section \<open>Identity checks\<close>

record SpawnRef =
  srefSpawnID :: string
  srefNamespace :: string
  srefRunnerPod :: string
  srefSecretName :: string
  srefRepoLabel :: string

definition validateScopeNamespace :: "KubeLib \<Rightarrow> string \<Rightarrow> string \<Rightarrow> gerr option" where
  "validateScopeNamespace l scope ns =
     (if scope = [] \<or> \<not> klLabelValue l scope then Some (Plain (''kube: invalid controller scope '' @ scope))
      else if \<not> IsDNS1123Label l ns then Some (Plain (''kube: invalid execution namespace '' @ ns))
      else None)"

definition validateExplicitSpawnIdentity :: "KubeLib \<Rightarrow> string \<Rightarrow> string \<Rightarrow> string \<Rightarrow> gerr option" where
  "validateExplicitSpawnIdentity l secretName spawnID repoLabel =
     (if spawnID = [] then Some (Plain ''kube: empty spawn ID'')
      else if \<not> klLabelValue l spawnID \<or> \<not> klDNS1123Subdomain l (spawnResourceName ''runner-egress'' spawnID)
        then Some (Plain (''kube: invalid spawn ID '' @ spawnID))
      else if repoLabel = [] then Some (Plain (''kube: empty repository label for spawn '' @ spawnID))
      else if \<not> klLabelValue l repoLabel then Some (Plain (''kube: invalid repository label '' @ repoLabel))
      else let expectedSecret = spawnResourceName ''secret'' spawnID in
        if secretName \<noteq> expectedSecret
        then Some (Plain (''kube: secret '' @ secretName @ '' does not match spawn '' @ spawnID @ '' (want '' @ expectedSecret @ '')''))
        else None)"

text \<open>The scope is returned together with the verdict on the identity.\<close>

definition validateSpawnIdentity ::
  "KubeLib \<Rightarrow> string \<Rightarrow> string \<Rightarrow> string \<Rightarrow> string \<Rightarrow> string \<times> gerr option" where
  "validateSpawnIdentity l ns secretName spawnID repoLabel =
     (let ok = HasPrefix ns ''runsecure-''; scope = TrimPrefix ns ''runsecure-'' in
      if \<not> ok \<or> scope = [] \<or> kube_Namespace scope \<noteq> ns
      then ([], Some (Plain (''kube: invalid spawn namespace '' @ ns)))
      else (scope, validateExplicitSpawnIdentity l secretName spawnID repoLabel))"

definition expectedSpawnResourceRole :: "string \<Rightarrow> string \<Rightarrow> string \<Rightarrow> string option" where
  "expectedSpawnResourceRole kind name spawnID =
     map_of [(''pod/'' @ spawnResourceName ''runner'' spawnID, RoleRunner),
             (''pod/'' @ spawnResourceName ''proxy'' spawnID, RoleProxy),
             (''service/'' @ spawnResourceName ''proxy-svc'' spawnID, RoleProxy),
             (''networkpolicy/'' @ spawnResourceName ''runner-egress'' spawnID, RoleRunner),
             (''networkpolicy/'' @ spawnResourceName ''proxy-egress'' spawnID, RoleProxy),
             (''networkpolicy/'' @ spawnResourceName ''proxy-ingress'' spawnID, RoleProxy),
             (''secret/'' @ spawnResourceName ''secret'' spawnID, RoleProxy)] (kind @ ''/'' @ name)"

type_synonym spawnResource = "string \<times> string"

definition appendSpawnResource ::
  "spawnResource list \<Rightarrow> string \<Rightarrow> ObjectMeta \<Rightarrow> string \<Rightarrow> string \<Rightarrow> gerr + spawnResource list" where
  "appendSpawnResource resources kind object spawnID repoLabel =
     (case expectedSpawnResourceRole kind (omName object) spawnID of
        None \<Rightarrow> Inl (Plain (''kube: unexpected '' @ kind @ '' '' @ omName object @ '' for spawn '' @ spawnID))
      | Some expectedRole \<Rightarrow>
          if lookup_or [] (omLabels object) LabelRole \<noteq> expectedRole
          then Inl (Plain (''kube: unexpected '' @ kind @ '' '' @ omName object @ '' for spawn '' @ spawnID))
          else let actualRepoLabel = lookup_or [] (omLabels object) LabelRepo in
            if actualRepoLabel = [] \<or> repoLabel \<noteq> [] \<and> actualRepoLabel \<noteq> repoLabel
            then Inl (Plain (''kube: '' @ kind @ '' '' @ omName object @ '' has repository label '' @ actualRepoLabel @ '', want '' @ repoLabel))
            else (case find (\<lambda>ow. orKind ow \<noteq> ''Secret'' \<or> orName ow \<noteq> spawnResourceName ''secret'' spawnID) (omOwners object) of
                    Some ow \<Rightarrow> Inl (Plain (''kube: '' @ kind @ '' '' @ omName object @ '' has unexpected owner '' @ orKind ow @ '' '' @ orName ow))
                  | None \<Rightarrow> Inr (resources @ [(kind, omName object)])))"

section \<open>Creating a spawn\<close>

definition EnsureDefaultDenyPolicyInNamespace ::
  "KubeEnv \<Rightarrow> string \<Rightarrow> string \<Rightarrow> KubeState \<Rightarrow> gerr option \<times> KubeState" where
  "EnsureDefaultDenyPolicyInNamespace c scope ns s =
     (case validateScopeNamespace (keLib c) scope ns of
        Some e \<Rightarrow> (Some e, s)
      | None \<Rightarrow>
          let policy = DefaultDenyNetworkPolicy scope; policy' = policy\<lparr>npMeta := (npMeta policy)\<lparr>omNamespace := ns\<rparr>\<rparr> in
          (case k_create c (OPolicy policy') s of
             (Inl e, s1) \<Rightarrow>
               (if IsAlreadyExists e then None
                else Some (Wrap (''kube: create default-deny policy in '' @ ns @ '': '') (kerr e) []), s1)
           | (Inr _, s1) \<Rightarrow> (None, s1)))"

definition EnsureDefaultDenyPolicy :: "KubeEnv \<Rightarrow> string \<Rightarrow> KubeState \<Rightarrow> gerr option \<times> KubeState" where
  "EnsureDefaultDenyPolicy c scope s = EnsureDefaultDenyPolicyInNamespace c scope (kube_Namespace scope) s"

record SpawnObjects =
  soSecret :: Secret
  soService :: Service
  soPolicies :: "NetworkPolicy list"
  soProxyPod :: Pod
  soRunnerPod :: Pod

text \<open>The four kinds of object that are stamped with the owner, and their places in messages.\<close>

fun stamp :: "OwnerReference \<Rightarrow> KObj \<Rightarrow> KObj" where
  "stamp r (OSecret x) = OSecret (x\<lparr>secMeta := (secMeta x)\<lparr>omOwners := [r]\<rparr>\<rparr>)"
| "stamp r (OService x) = OService (x\<lparr>svcMeta := (svcMeta x)\<lparr>omOwners := [r]\<rparr>\<rparr>)"
| "stamp r (OPolicy x) = OPolicy (x\<lparr>npMeta := (npMeta x)\<lparr>omOwners := [r]\<rparr>\<rparr>)"
| "stamp r (OPod x) = OPod (x\<lparr>podMeta := (podMeta x)\<lparr>omOwners := [r]\<rparr>\<rparr>)"

fun create_all :: "KubeEnv \<Rightarrow> OwnerReference \<Rightarrow> (string \<times> KObj) list \<Rightarrow> KubeState \<Rightarrow> gerr option \<times> KubeState" where
  "create_all c r [] s = (None, s)"
| "create_all c r ((what, obj) # objs) s =
     (case k_create c (stamp r obj) s of
        (Inl e, s1) \<Rightarrow> (Some (Wrap (''kube: create '' @ what @ '' '' @ omName (obj_meta obj) @ '': '') (kerr e) []), s1)
      | (Inr _, s1) \<Rightarrow> create_all c r objs s1)"

definition dependants :: "SpawnObjects \<Rightarrow> (string \<times> KObj) list" where
  "dependants objs =
     [(''service'', OService (soService objs))] @ map (\<lambda>p. (''network policy'', OPolicy p)) (soPolicies objs) @
     [(''proxy pod'', OPod (soProxyPod objs)), (''runner pod'', OPod (soRunnerPod objs))]"

definition ApplySpawn :: "KubeEnv \<Rightarrow> SpawnObjects \<Rightarrow> KubeState \<Rightarrow> gerr option \<times> KubeState" where
  "ApplySpawn c objs s =
     (let ns = omNamespace (secMeta (soSecret objs)) in
      case k_create c (OSecret (soSecret objs)) s of
        (Inl e, s1) \<Rightarrow> (Some (Wrap (''kube: create secret '' @ omName (secMeta (soSecret objs)) @ '': '') (kerr e) []), s1)
      | (Inr created, s1) \<Rightarrow>
          (case keGetSecret c (ksCalls s1) ns (omName created) of
             Inl e \<Rightarrow> (Some (Wrap (''kube: get secret '' @ omName created @ '' after create: '') (kerr e) []), k_tick s1)
           | Inr secret \<Rightarrow> create_all c (OwnerRef secret) (dependants objs) (k_tick s1)))"

section \<open>Waiting for the runner\<close>

definition isTerminalPodPhase :: "string \<Rightarrow> bool" where
  "isTerminalPodPhase phase = (phase = ''Succeeded'' \<or> phase = ''Failed'')"

definition waitDeadlineExpired :: "KubeEnv \<Rightarrow> KubeState \<Rightarrow> bool" where
  "waitDeadlineExpired c s = (\<not> keParentDone c (ksCalls s) \<and> keDeadline c (ksCalls s))"

definition relistMatching ::
  "KubeEnv \<Rightarrow> string \<Rightarrow> string \<Rightarrow> (Pod \<Rightarrow> bool) option \<Rightarrow> KubeState \<Rightarrow> (string \<times> bool) \<times> KubeState" where
  "relistMatching c ns podName matches s =
     (case keGetPod c (ksCalls s) ns podName of
        Inl e \<Rightarrow> (([], False), k_tick s)
      | Inr pod \<Rightarrow>
          if (case matches of None \<Rightarrow> False | Some m \<Rightarrow> \<not> m pod) then (([], False), k_tick s)
          else ((podPhase pod, False), k_tick s))"

definition relist :: "KubeEnv \<Rightarrow> string \<Rightarrow> string \<Rightarrow> KubeState \<Rightarrow> (string \<times> bool) \<times> KubeState" where
  "relist c ns podName s = relistMatching c ns podName None s"

definition fall_back ::
  "KubeEnv \<Rightarrow> string \<Rightarrow> string \<Rightarrow> (Pod \<Rightarrow> bool) option \<Rightarrow> KubeState \<Rightarrow> (string \<times> bool) \<times> KubeState" where
  "fall_back c ns podName matches s =
     (case relistMatching c ns podName matches s of
        ((phase, timedOut), s1) \<Rightarrow>
          if phase = [] \<and> waitDeadlineExpired c s1 then (([], True), s1) else ((phase, timedOut), s1))"

fun watch_loop ::
  "nat \<Rightarrow> KubeEnv \<Rightarrow> string \<Rightarrow> string \<Rightarrow> (Pod \<Rightarrow> bool) option \<Rightarrow> KubeState \<Rightarrow> (string \<times> bool) option \<times> KubeState" where
  "watch_loop 0 c ns podName matches s = (None, s)"
| "watch_loop (Suc n) c ns podName matches s =
     (case keEvent c (ksCalls s) of
        WClosed \<Rightarrow> (case fall_back c ns podName matches (k_tick s) of (r, s1) \<Rightarrow> (Some r, s1))
      | WOther \<Rightarrow> watch_loop n c ns podName matches (k_tick s)
      | WPod pod \<Rightarrow>
          if (case matches of None \<Rightarrow> False | Some m \<Rightarrow> \<not> m pod) then (Some ([], False), k_tick s)
          else if isTerminalPodPhase (podPhase pod) then (Some (podPhase pod, False), k_tick s)
          else watch_loop n c ns podName matches (k_tick s)
      | WDone \<Rightarrow> (Some ([], \<not> keParentDone c (ksCalls s)), k_tick s))"

definition waitRunner ::
  "nat \<Rightarrow> KubeEnv \<Rightarrow> string \<Rightarrow> string \<Rightarrow> (Pod \<Rightarrow> bool) option \<Rightarrow> KubeState \<Rightarrow> (string \<times> bool) option \<times> KubeState" where
  "waitRunner fuel c ns podName matches s =
     (case keGetPod c (ksCalls s) ns podName of
        Inl e \<Rightarrow> (Some ([], waitDeadlineExpired c (k_tick s)), k_tick s)
      | Inr pod \<Rightarrow>
          if (case matches of None \<Rightarrow> False | Some m \<Rightarrow> \<not> m pod) then (Some ([], False), k_tick s)
          else if isTerminalPodPhase (podPhase pod) then (Some (podPhase pod, False), k_tick s)
          else let s1 = k_tick s in
            (case keWatch c (ksCalls s1) ns podName (omResourceVersion (podMeta pod)) of
               Some e \<Rightarrow> (case fall_back c ns podName matches (k_tick s1) of (r, s2) \<Rightarrow> (Some r, s2))
             | None \<Rightarrow> watch_loop fuel c ns podName matches (k_tick s1)))"

definition WaitRunner ::
  "nat \<Rightarrow> KubeEnv \<Rightarrow> string \<Rightarrow> string \<Rightarrow> KubeState \<Rightarrow> (string \<times> bool) option \<times> KubeState" where
  "WaitRunner fuel c ns podName s = waitRunner fuel c ns podName None s"

definition scoped_match :: "string \<Rightarrow> string \<Rightarrow> string \<Rightarrow> string \<Rightarrow> string \<Rightarrow> Pod \<Rightarrow> bool" where
  "scoped_match scope ns podName spawnID repoLabel pod =
     (let m = podMeta pod in
      (case appendSpawnResource [] ''pod'' m spawnID repoLabel of Inl _ \<Rightarrow> False | Inr _ \<Rightarrow> True) \<and>
      omNamespace m = ns \<and> omName m = podName \<and> lookup_or [] (omLabels m) LabelScope = scope \<and>
      lookup_or [] (omLabels m) LabelSpawnID = spawnID \<and> lookup_or [] (omLabels m) LabelRepo = repoLabel \<and>
      lookup_or [] (omLabels m) LabelRole = RoleRunner)"

definition WaitRunnerScoped ::
  "nat \<Rightarrow> KubeEnv \<Rightarrow> string \<Rightarrow> string \<Rightarrow> string \<Rightarrow> string \<Rightarrow> string \<Rightarrow> KubeState \<Rightarrow> (string \<times> bool) option \<times> KubeState" where
  "WaitRunnerScoped fuel c scope ns podName spawnID repoLabel s =
     (if validateScopeNamespace (keLib c) scope ns \<noteq> None \<or>
         validateExplicitSpawnIdentity (keLib c) (spawnResourceName ''secret'' spawnID) spawnID repoLabel \<noteq> None \<or>
         podName \<noteq> spawnResourceName ''runner'' spawnID
      then (Some ([], False), s)
      else waitRunner fuel c ns podName (Some (scoped_match scope ns podName spawnID repoLabel)) s)"

section \<open>Deleting a spawn\<close>

fun append_all ::
  "spawnResource list \<Rightarrow> string \<Rightarrow> ObjectMeta list \<Rightarrow> string \<Rightarrow> string \<Rightarrow> gerr + spawnResource list" where
  "append_all resources kind [] spawnID repoLabel = Inr resources"
| "append_all resources kind (m # ms) spawnID repoLabel =
     (case appendSpawnResource resources kind m spawnID repoLabel of
        Inl e \<Rightarrow> Inl e
      | Inr resources' \<Rightarrow> append_all resources' kind ms spawnID repoLabel)"

fun list_kinds ::
  "KubeEnv \<Rightarrow> string \<Rightarrow> Requirement list \<Rightarrow> string \<Rightarrow> string \<Rightarrow> (string \<times> string) list \<Rightarrow> spawnResource list \<Rightarrow>
     KubeState \<Rightarrow> (gerr + spawnResource list) \<times> KubeState" where
  "list_kinds c ns sel spawnID repoLabel [] resources s = (Inr resources, s)"
| "list_kinds c ns sel spawnID repoLabel ((kind, what) # ks) resources s =
     (case k_list c kind ns sel s of
        (Inl e, s1) \<Rightarrow> (Inl (Wrap (''kube: list spawn '' @ what @ '' in '' @ ns @ '': '') (kerr e) []), s1)
      | (Inr ms, s1) \<Rightarrow>
          (case append_all resources kind ms spawnID repoLabel of
             Inl e \<Rightarrow> (Inl e, s1)
           | Inr resources' \<Rightarrow> list_kinds c ns sel spawnID repoLabel ks resources' s1))"

definition spawn_selector :: "string \<Rightarrow> string \<Rightarrow> Requirement list" where
  "spawn_selector scope spawnID = [ReqEquals LabelScope scope, ReqEquals LabelSpawnID spawnID]"

definition exact_kinds :: "(string \<times> string) list" where
  "exact_kinds = [(''pod'', ''pods''), (''service'', ''services''), (''networkpolicy'', ''network policies''), (''secret'', ''secrets'')]"

definition listExactSpawnResources ::
  "KubeEnv \<Rightarrow> string \<Rightarrow> string \<Rightarrow> string \<Rightarrow> string \<Rightarrow> KubeState \<Rightarrow> (gerr + spawnResource list) \<times> KubeState" where
  "listExactSpawnResources c ns scope spawnID repoLabel s =
     list_kinds c ns (spawn_selector scope spawnID) spawnID repoLabel exact_kinds [] s"

definition deleteSpawnResource ::
  "KubeEnv \<Rightarrow> string \<Rightarrow> spawnResource \<Rightarrow> KubeState \<Rightarrow> gerr option \<times> KubeState" where
  "deleteSpawnResource c ns resource s =
     (case resource of (kind, name) \<Rightarrow>
        if kind \<notin> {''pod'', ''service'', ''networkpolicy'', ''secret''}
        then (Some (Plain (''kube: unsupported spawn resource kind '' @ kind)), s)
        else let opts = \<lparr>doPropagation = (if kind = ''secret'' then ''Foreground'' else ''Background''),
                         doGracePeriodSeconds = (if kind = ''pod'' then Some 0 else None)\<rparr> in
          (case k_delete c kind ns name opts s of
             (None, s1) \<Rightarrow> (None, s1)
           | (Some e, s1) \<Rightarrow>
               (if IsNotFound e then None
                else Some (Wrap (''kube: delete spawn '' @ kind @ '' '' @ name @ '' in '' @ ns @ '': '') (kerr e) []), s1)))"

fun delete_all :: "KubeEnv \<Rightarrow> string \<Rightarrow> spawnResource list \<Rightarrow> KubeState \<Rightarrow> gerr option \<times> KubeState" where
  "delete_all c ns [] s = (None, s)"
| "delete_all c ns (r # rs) s =
     (case deleteSpawnResource c ns r s of (Some e, s1) \<Rightarrow> (Some e, s1) | (None, s1) \<Rightarrow> delete_all c ns rs s1)"

fun wait_deleted ::
  "nat \<Rightarrow> KubeEnv \<Rightarrow> string \<Rightarrow> string \<Rightarrow> string \<Rightarrow> string \<Rightarrow> KubeState \<Rightarrow> gerr option \<times> KubeState" where
  "wait_deleted ticks c ns scope spawnID repoLabel s =
     (case listExactSpawnResources c ns scope spawnID repoLabel s of
        (Inl e, s1) \<Rightarrow> (Some (Wrap (''kube: confirm spawn '' @ spawnID @ '' deletion in '' @ ns @ '': '') e []), s1)
      | (Inr [], s1) \<Rightarrow> (None, s1)
      | (Inr (r # rs), s1) \<Rightarrow>
          (case ticks of
             0 \<Rightarrow> (Some (Wrap (''kube: confirm spawn '' @ spawnID @ '' deletion in '' @ ns @ '': '') (keCtxErr c (ksCalls s1)) []), s1)
           | Suc t \<Rightarrow> wait_deleted t c ns scope spawnID repoLabel s1))"

declare wait_deleted.simps [simp del]

definition waitForSpawnDeleted ::
  "KubeEnv \<Rightarrow> string \<Rightarrow> string \<Rightarrow> string \<Rightarrow> string \<Rightarrow> KubeState \<Rightarrow> gerr option \<times> KubeState" where
  "waitForSpawnDeleted c ns scope spawnID repoLabel s =
     wait_deleted (kePatience c (ksCalls s)) c ns scope spawnID repoLabel s"

definition DeleteSpawnScoped ::
  "KubeEnv \<Rightarrow> string \<Rightarrow> string \<Rightarrow> string \<Rightarrow> string \<Rightarrow> string \<Rightarrow> KubeState \<Rightarrow> gerr option \<times> KubeState" where
  "DeleteSpawnScoped c scope ns secretName spawnID repoLabel s =
     (case validateScopeNamespace (keLib c) scope ns of
        Some e \<Rightarrow> (Some e, s)
      | None \<Rightarrow>
          (case validateExplicitSpawnIdentity (keLib c) secretName spawnID repoLabel of
             Some e \<Rightarrow> (Some e, s)
           | None \<Rightarrow>
               (case listExactSpawnResources c ns scope spawnID repoLabel s of
                  (Inl e, s1) \<Rightarrow> (Some e, s1)
                | (Inr resources, s1) \<Rightarrow>
                    (case delete_all c ns resources s1 of
                       (Some e, s2) \<Rightarrow> (Some e, s2)
                     | (None, s2) \<Rightarrow> waitForSpawnDeleted c ns scope spawnID repoLabel s2))))"

definition DeleteSpawn ::
  "KubeEnv \<Rightarrow> string \<Rightarrow> string \<Rightarrow> string \<Rightarrow> string \<Rightarrow> KubeState \<Rightarrow> gerr option \<times> KubeState" where
  "DeleteSpawn c ns secretName spawnID repoLabel s =
     (case validateSpawnIdentity (keLib c) ns secretName spawnID repoLabel of
        (scope, Some e) \<Rightarrow> (Some e, s)
      | (scope, None) \<Rightarrow> DeleteSpawnScoped c scope ns secretName spawnID repoLabel s)"

section \<open>Discovering spawns\<close>

definition mergeDiscoveredSpawn ::
  "(string, SpawnRef) gomap \<Rightarrow> string \<Rightarrow> string \<Rightarrow> ObjectMeta \<Rightarrow> gerr + (string, SpawnRef) gomap" where
  "mergeDiscoveredSpawn refsByID ns kind object =
     (let spawnID = lookup_or [] (omLabels object) LabelSpawnID in
      if spawnID = []
      then Inl (Plain (''kube: spawn '' @ kind @ '' '' @ omName object @ '' in '' @ ns @ '' has empty '' @ LabelSpawnID))
      else (case appendSpawnResource [] kind object spawnID [] of
              Inl e \<Rightarrow> Inl e
            | Inr _ \<Rightarrow>
                let expectedSecret = spawnResourceName ''secret'' spawnID; repoLabel = lookup_or [] (omLabels object) LabelRepo in
                (case map_of refsByID spawnID of
                   Some existing \<Rightarrow>
                     if srefSecretName existing \<noteq> expectedSecret \<or>
                        srefRunnerPod existing \<noteq> spawnResourceName ''runner'' spawnID \<or> srefRepoLabel existing \<noteq> repoLabel
                     then Inl (Plain (''kube: conflicting resources for spawn ID '' @ spawnID))
                     else Inr refsByID
                 | None \<Rightarrow>
                     Inr (AList.update spawnID
                       \<lparr>srefSpawnID = spawnID, srefNamespace = ns, srefRunnerPod = spawnResourceName ''runner'' spawnID,
                        srefSecretName = expectedSecret, srefRepoLabel = repoLabel\<rparr> refsByID))))"

fun merge_all ::
  "(string, SpawnRef) gomap \<Rightarrow> string \<Rightarrow> string \<Rightarrow> ObjectMeta list \<Rightarrow> gerr + (string, SpawnRef) gomap" where
  "merge_all refs ns kind [] = Inr refs"
| "merge_all refs ns kind (m # ms) =
     (case mergeDiscoveredSpawn refs ns kind m of Inl e \<Rightarrow> Inl e | Inr refs' \<Rightarrow> merge_all refs' ns kind ms)"

fun discover_kinds ::
  "KubeEnv \<Rightarrow> string \<Rightarrow> Requirement list \<Rightarrow> (string \<times> string) list \<Rightarrow> (string, SpawnRef) gomap \<Rightarrow>
     KubeState \<Rightarrow> (gerr + (string, SpawnRef) gomap) \<times> KubeState" where
  "discover_kinds c ns sel [] refs s = (Inr refs, s)"
| "discover_kinds c ns sel ((kind, what) # ks) refs s =
     (case k_list c kind ns sel s of
        (Inl e, s1) \<Rightarrow> (Inl (Wrap (''kube: list spawn '' @ what @ '' in '' @ ns @ '': '') (kerr e) []), s1)
      | (Inr ms, s1) \<Rightarrow>
          (case merge_all refs ns kind ms of
             Inl e \<Rightarrow> (Inl e, s1)
           | Inr refs' \<Rightarrow> discover_kinds c ns sel ks refs' s1))"

definition discovery_kinds :: "(string \<times> string) list" where
  "discovery_kinds = [(''secret'', ''secrets''), (''pod'', ''pods''), (''service'', ''services''), (''networkpolicy'', ''network policies'')]"

definition ListSpawnsInNamespace ::
  "KubeEnv \<Rightarrow> string \<Rightarrow> string \<Rightarrow> KubeState \<Rightarrow> (gerr + SpawnRef list) \<times> KubeState" where
  "ListSpawnsInNamespace c scope ns s =
     (case validateScopeNamespace (keLib c) scope ns of
        Some e \<Rightarrow> (Inl e, s)
      | None \<Rightarrow>
          (case discover_kinds c ns [ReqEquals LabelScope scope, ReqExists LabelSpawnID] discovery_kinds [] s of
             (Inl e, s1) \<Rightarrow> (Inl e, s1)
           | (Inr refs, s1) \<Rightarrow> (Inr (sort_key srefSpawnID (map snd refs)), s1)))"

definition ListSpawns :: "KubeEnv \<Rightarrow> string \<Rightarrow> KubeState \<Rightarrow> (gerr + SpawnRef list) \<times> KubeState" where
  "ListSpawns c scope s = ListSpawnsInNamespace c scope (kube_Namespace scope) s"

end
