(* ===== verification/Kube_Backend.thy ===== *)
theory Kube_Backend
  imports Kube_Client
begin

text \<open>
  The Kubernetes backend \<open>internal/backend/kube/kube.go\<close>: project enrolment, routing, the spawn
  with its rollback, waiting, teardown, recovery and the rotating readiness probe. The mutex and
  the atomic counter of \<open>Ready\<close> make a probe one step here; \<open>kbReadyNext\<close> is the 64-bit counter.
\<close>

section \<open>Enrolment and routing\<close>

record KubeBackend =
  kbScope :: string
  kbNamespaces :: "(string, string) gomap option"
  kbReadyNext :: "64 word"
  kbReadyFailed :: "(string, gerr) gomap"

definition kube_New :: KubeBackend where
  "kube_New = \<lparr>kbScope = [], kbNamespaces = None, kbReadyNext = 0, kbReadyFailed = []\<rparr>"

definition repo_char :: "char \<Rightarrow> bool" where
  "repo_char c = (is_alnum c \<or> c = CHR ''_'' \<or> c = CHR ''.'' \<or> c = CHR ''-'')"

definition validProjectRepo :: "string \<Rightarrow> bool" where
  "validProjectRepo repo =
     (case split_char CHR ''/'' repo of
        [ow, r] \<Rightarrow> ow \<noteq> [] \<and> is_alnum (hd ow) \<and> list_all repo_char ow \<and> list_all repo_char r \<and> list_ex is_alnum r
      | _ \<Rightarrow> False)"

fun enrol ::
  "KubeLib \<Rightarrow> string \<Rightarrow> string set \<Rightarrow> string set \<Rightarrow> (string, string) gomap \<Rightarrow> (string, string) gomap \<Rightarrow>
     gerr + (string, string) gomap" where
  "enrol l scope seenNamespaces seenLabels copy [] = Inr copy"
| "enrol l scope seenNamespaces seenLabels copy ((repo, ns) # rest) =
     (let parts = split_char CHR ''/'' repo; label = RepoLabel l repo in
      if length parts \<noteq> 2 \<or> parts ! 0 = [] \<or> parts ! 1 = [] \<or> \<not> validProjectRepo repo \<or> \<not> klLabelValue l label \<or> label \<in> seenLabels
      then Inl (Plain (''kube backend: invalid or conflicting repository '' @ repo))
      else if \<not> IsDNS1123Label l ns \<or> ns = ''default'' \<or> HasPrefix ns ''kube-'' \<or> ns = kube_Namespace scope \<or> ns \<in> seenNamespaces
      then Inl (Plain (''kube backend: invalid or conflicting project namespace '' @ ns))
      else enrol l scope (insert ns seenNamespaces) (insert label seenLabels) (AList.update repo ns copy) rest)"

definition NewForProjects ::
  "KubeLib \<Rightarrow> bool \<Rightarrow> string \<Rightarrow> (string, string) gomap \<Rightarrow> gerr + KubeBackend" where
  "NewForProjects l hasClient scope namespaces =
     (if \<not> hasClient \<or> scope = [] \<or> \<not> klLabelValue l scope \<or> namespaces = []
      then Inl (Plain ''kube backend: client, valid controller scope and project namespaces are required'')
      else (case enrol l scope {} {} [] namespaces of
              Inl e \<Rightarrow> Inl e
            | Inr copy \<Rightarrow> Inr (kube_New\<lparr>kbScope := scope, kbNamespaces := Some copy\<rparr>)))"

definition route :: "KubeBackend \<Rightarrow> string \<Rightarrow> string \<Rightarrow> string \<Rightarrow> gerr + string" where
  "route b scope repo namespace =
     (case kbNamespaces b of
        None \<Rightarrow>
          let ns = kube_Namespace scope in
          if namespace \<noteq> [] \<and> namespace \<noteq> ns
          then Inl (Plain ''kube backend: explicit namespaces require project enrollment'') else Inr ns
      | Some m \<Rightarrow>
          (case map_of m repo of
             None \<Rightarrow> Inl (Plain ''kube backend: unapproved scope, repository or namespace'')
           | Some ns \<Rightarrow>
               if scope \<noteq> kbScope b \<or> namespace \<noteq> [] \<and> namespace \<noteq> ns
               then Inl (Plain ''kube backend: unapproved scope, repository or namespace'') else Inr ns))"

definition validSpawnID :: "KubeLib \<Rightarrow> string \<Rightarrow> bool" where
  "validSpawnID l i = (i \<noteq> [] \<and> klLabelValue l i \<and> klDNS1123Subdomain l (''rs-runner-egress-'' @ i))"

definition kref :: "Handle \<Rightarrow> string \<Rightarrow> string" where
  "kref h k = lookup_or [] (hRefs h) k"

definition validateHandle :: "KubeLib \<Rightarrow> KubeBackend \<Rightarrow> Handle \<Rightarrow> gerr option" where
  "validateHandle l b h =
     (if kbNamespaces b = None then None
      else case route b (kref h ''scope'') (kref h ''repo'') (kref h ''namespace'') of
        Inl _ \<Rightarrow> Some (Plain ''kube backend: invalid handle ownership'')
      | Inr ns \<Rightarrow>
          if hBackend h \<noteq> ''kube'' \<or> \<not> validSpawnID l (hSpawnID h) \<or> kref h ''namespace'' \<noteq> ns \<or>
             kref h ''repo_label'' \<noteq> RepoLabel l (kref h ''repo'') \<or> kref h ''secret'' \<noteq> ''rs-secret-'' @ hSpawnID h \<or>
             kref h ''runner_pod'' \<noteq> ''rs-runner-'' @ hSpawnID h \<or>
             kref h ''proxy_pod'' \<noteq> [] \<and> kref h ''proxy_pod'' \<noteq> ''rs-proxy-'' @ hSpawnID h
          then Some (Plain ''kube backend: invalid handle ownership'') else None)"

section \<open>Spawning\<close>

fun check_dns :: "(ip \<times> nat) set \<Rightarrow> string list \<Rightarrow> gerr option" where
  "check_dns seen [] = None"
| "check_dns seen (cidr # cidrs) =
     (case ParsePrefix cidr of
        None \<Rightarrow> Some (Plain ''kube backend: KubeDNSServiceCIDRs must contain exact IPv4 /32 values'')
      | Some p \<Rightarrow>
          if \<not> Is4 (fst p) \<or> snd p \<noteq> 32 \<or> p \<noteq> Masked p
          then Some (Plain ''kube backend: KubeDNSServiceCIDRs must contain exact IPv4 /32 values'')
          else if p \<in> seen then Some (Plain ''kube backend: KubeDNSServiceCIDRs must contain unique CIDRs'')
          else check_dns (insert p seen) cidrs)"

text \<open>The checks on the input that precede every API call.\<close>

definition check_input :: "KubeLib \<Rightarrow> SpawnInput \<Rightarrow> gerr option" where
  "check_input l inp =
     (if inResourcesMemory inp \<le> 0 then Some (Plain ''kube backend: runner memory limit must be positive'')
      else if inResourcesNanoCPUs inp \<le> 0 then Some (Plain ''kube backend: runner CPU limit must be positive'')
      else case check_dns {} (inKubeDNSServiceCIDRs inp) of
        Some e \<Rightarrow> Some e
      | None \<Rightarrow>
          if inKubeDNSServiceCIDRs inp = [] then Some (Plain ''kube backend: KubeDNSServiceCIDRs must not be empty'')
          else if \<not> IsDNS1123Label l (inKubeDNSNamespace inp)
            then Some (Plain ''kube backend: KubeDNSNamespace must be a DNS-1123 label'')
          else if \<not> klQualifiedName l (inKubeDNSPodLabelKey inp)
            then Some (Plain ''kube backend: KubeDNSPodLabelKey must be a Kubernetes label key'')
          else if inKubeDNSPodLabelValue inp = [] then Some (Plain ''kube backend: KubeDNSPodLabelValue must not be empty'')
          else if \<not> klLabelValue l (inKubeDNSPodLabelValue inp)
            then Some (Plain ''kube backend: KubeDNSPodLabelValue must be a Kubernetes label value'')
          else None)"

definition readEgressFile :: "KubeEnv \<Rightarrow> SpawnInput \<Rightarrow> string \<Rightarrow> KubeState \<Rightarrow> (gerr + string) \<times> KubeState" where
  "readEgressFile c inp name s =
     (if inEgressConfigDir inp = [] then (Inl (Plain ''egress config directory is required''), s)
      else case keReadFile c (ksCalls s) (path_Clean (inEgressConfigDir inp @ ''/'' @ name)) of
        Inl e \<Rightarrow> (Inl (Wrap (''read '' @ name @ '': '') e []), k_tick s)
      | Inr content \<Rightarrow>
          if content = [] then (Inl (Plain (''read '' @ name @ '': config is empty'')), k_tick s)
          else (Inr content, k_tick s))"

text \<open>The three configurations; the one of dnsmasq is read only when it is enabled.\<close>

definition read_configs ::
  "KubeEnv \<Rightarrow> SpawnInput \<Rightarrow> KubeState \<Rightarrow> (gerr + string \<times> string \<times> string) \<times> KubeState" where
  "read_configs c inp s =
     (case readEgressFile c inp ''squid.conf'' s of
        (Inl e, s1) \<Rightarrow> (Inl e, s1)
      | (Inr squid, s1) \<Rightarrow>
          (case readEgressFile c inp ''haproxy.cfg'' s1 of
             (Inl e, s2) \<Rightarrow> (Inl e, s2)
           | (Inr haproxy, s2) \<Rightarrow>
               if inEnableDNSMasq inp
               then (case readEgressFile c inp ''dnsmasq.conf'' s2 of
                       (Inl e, s3) \<Rightarrow> (Inl e, s3)
                     | (Inr dnsmasq, s3) \<Rightarrow> (Inr (squid, haproxy, dnsmasq), s3))
               else (Inr (squid, haproxy, []), s2)))"

text \<open>The objects of a spawn; \<open>None\<close> is a panic on a quantity.\<close>

definition spawn_objects :: "KubeLib \<Rightarrow> SpawnInput \<Rightarrow> string \<Rightarrow> string \<times> string \<times> string \<Rightarrow> SpawnObjects option" where
  "spawn_objects l inp ns cfgs =
     (case cfgs of (squid, haproxy, dnsmasq) \<Rightarrow>
        let secret = SpawnSecret l inp squid haproxy dnsmasq; svc = ProxyService l inp;
            proxyServiceDNS = omName (svcMeta svc) @ ''.'' @ ns @ ''.svc'' in
        (case (ProxyPod l inp (omName (secMeta secret)), RunnerPod l inp (omName (secMeta secret)) proxyServiceDNS) of
           (Some proxyPod, Some runnerPod) \<Rightarrow>
             Some \<lparr>soSecret = secret, soService = svc,
                   soPolicies = [RunnerEgressNetworkPolicy l inp, ProxyEgressNetworkPolicy l inp, ProxyIngressNetworkPolicy l inp],
                   soProxyPod = proxyPod, soRunnerPod = runnerPod\<rparr>
         | _ \<Rightarrow> None))"

definition kube_handle :: "KubeLib \<Rightarrow> SpawnInput \<Rightarrow> string \<Rightarrow> SpawnObjects \<Rightarrow> Handle" where
  "kube_handle l inp ns objs =
     \<lparr>hSpawnID = inSpawnID inp, hBackend = ''kube'',
      hRefs = [(''namespace'', ns), (''scope'', inScope inp), (''repo'', inRepo inp),
        (''secret'', omName (secMeta (soSecret objs))), (''runner_pod'', omName (podMeta (soRunnerPod objs))),
        (''proxy_pod'', omName (podMeta (soProxyPod objs))), (''network_name'', []),
        (''egress_config_dir'', inEgressConfigDir inp), (''repo_label'', RepoLabel l (inRepo inp))]\<rparr>"

definition apply_or_rollback ::
  "KubeEnv \<Rightarrow> SpawnInput \<Rightarrow> string \<Rightarrow> SpawnObjects \<Rightarrow> KubeState \<Rightarrow> (Handle \<times> gerr option) \<times> KubeState" where
  "apply_or_rollback c inp ns objs s =
     (let h = kube_handle (keLib c) inp ns objs in
      case ApplySpawn c objs s of
        (None, s1) \<Rightarrow> ((h, None), s1)
      | (Some e, s1) \<Rightarrow>
          let applyErr = Wrap ''kube backend: apply spawn: '' e [] in
          (case DeleteSpawnScoped c (inScope inp) ns (omName (secMeta (soSecret objs))) (inSpawnID inp)
                  (RepoLabel (keLib c) (inRepo inp)) s1 of
             (Some ce, s2) \<Rightarrow> ((h, errors_Join [Some applyErr, Some (Wrap ''kube backend: rollback spawn: '' ce [])]), s2)
           | (None, s2) \<Rightarrow> ((zero_Handle, Some applyErr), s2)))"

definition kube_Spawn ::
  "KubeEnv \<Rightarrow> KubeBackend \<Rightarrow> SpawnInput \<Rightarrow> KubeState \<Rightarrow> (Handle \<times> gerr option) \<times> KubeState" where
  "kube_Spawn c b inp0 s =
     (case route b (inScope inp0) (inRepo inp0) (inNamespace inp0) of
        Inl e \<Rightarrow> ((zero_Handle, Some e), s)
      | Inr ns \<Rightarrow>
          if kbNamespaces b \<noteq> None \<and> \<not> validSpawnID (keLib c) (inSpawnID inp0)
          then ((zero_Handle, Some (Plain ''kube backend: invalid spawn ID'')), s)
          else let inp = inp0\<lparr>inNamespace := ns\<rparr> in
            (case check_input (keLib c) inp of
               Some e \<Rightarrow> ((zero_Handle, Some e), s)
             | None \<Rightarrow>
                 (case EnsureDefaultDenyPolicyInNamespace c (inScope inp) ns s of
                    (Some e, s1) \<Rightarrow> ((zero_Handle, Some (Wrap ''kube backend: ensure default-deny policy: '' e [])), s1)
                  | (None, s1) \<Rightarrow>
                      (case read_configs c inp s1 of
                         (Inl e, s2) \<Rightarrow> ((zero_Handle, Some (Wrap ''kube backend: '' e [])), s2)
                       | (Inr cfgs, s2) \<Rightarrow>
                           (case spawn_objects (keLib c) inp ns cfgs of
                              None \<Rightarrow> ((zero_Handle, Some (Plain ''panic: cannot parse quantity'')), s2)
                            | Some objs \<Rightarrow> apply_or_rollback c inp ns objs s2)))))"

section \<open>Waiting, teardown and recovery\<close>

definition kube_WaitForExit ::
  "nat \<Rightarrow> KubeEnv \<Rightarrow> KubeBackend \<Rightarrow> Handle \<Rightarrow> KubeState \<Rightarrow> (int \<times> bool) option \<times> KubeState" where
  "kube_WaitForExit fuel c b h s =
     (if validateHandle (keLib c) b h \<noteq> None then (Some (1, False), s)
      else case (if kbNamespaces b \<noteq> None
                 then WaitRunnerScoped fuel c (kbScope b) (kref h ''namespace'') (kref h ''runner_pod'') (hSpawnID h) (kref h ''repo_label'') s
                 else WaitRunner fuel c (kref h ''namespace'') (kref h ''runner_pod'') s) of
        (None, s1) \<Rightarrow> (None, s1)
      | (Some (phase, timedOut), s1) \<Rightarrow>
          (Some (if timedOut then (-1, True) else if phase = ''Succeeded'' then (0, False) else (1, False)), s1))"

definition remove_egress :: "KubeEnv \<Rightarrow> Handle \<Rightarrow> KubeState \<Rightarrow> gerr option \<times> KubeState" where
  "remove_egress c h s =
     (let egressDir = kref h ''egress_config_dir'' in
      if egressDir = [] then (None, s)
      else (map_option (\<lambda>e. Wrap (''kube backend: remove egress config '' @ egressDir @ '': '') e [])
              (keRemoveAll c (ksCalls s) egressDir), k_tick s))"

definition kube_Teardown ::
  "KubeEnv \<Rightarrow> KubeBackend \<Rightarrow> Handle \<Rightarrow> bool \<Rightarrow> KubeState \<Rightarrow> gerr option \<times> KubeState" where
  "kube_Teardown c b h force s =
     (case validateHandle (keLib c) b h of
        Some e \<Rightarrow> (Some e, s)
      | None \<Rightarrow>
          let ns = kref h ''namespace''; secretName = kref h ''secret''; repoLabel = kref h ''repo_label'';
              (deleteErr, s1) = (if kbNamespaces b \<noteq> None
                 then DeleteSpawnScoped c (kbScope b) ns secretName (hSpawnID h) repoLabel s
                 else DeleteSpawn c ns secretName (hSpawnID h) repoLabel s);
              (removeErr, s2) = remove_egress c h s1
          in (errors_Join [map_option (\<lambda>e. Wrap (''kube backend: teardown spawn '' @ hSpawnID h @ '': '') e []) deleteErr, removeErr], s2))"

fun foreign_ref :: "KubeLib \<Rightarrow> string \<Rightarrow> string set \<Rightarrow> SpawnRef list \<Rightarrow> bool" where
  "foreign_ref l repo seen [] = False"
| "foreign_ref l repo seen (r # rs) =
     (srefRepoLabel r \<noteq> RepoLabel l repo \<or> srefSpawnID r \<in> seen \<or> foreign_ref l repo (insert (srefSpawnID r) seen) rs)"

text \<open>The rounds over the enrolled namespaces. An error of the API server ends them; a spawn that
  another project's label or another namespace claims refuses the whole recovery.\<close>

fun recover_namespaces ::
  "KubeEnv \<Rightarrow> string \<Rightarrow> (string, string) gomap \<Rightarrow> string list \<Rightarrow> string set \<Rightarrow> SpawnRef list \<Rightarrow> KubeState \<Rightarrow>
     (gerr + SpawnRef list) \<times> KubeState" where
  "recover_namespaces c scope repos [] seen refs s = (Inr refs, s)"
| "recover_namespaces c scope repos (ns # nss) seen refs s =
     (case ListSpawnsInNamespace c scope ns s of
        (Inl e, s1) \<Rightarrow> (Inl (Wrap (''kube backend: reconcile scope '' @ scope @ '': '') e []), s1)
      | (Inr discovered, s1) \<Rightarrow>
          if foreign_ref (keLib c) (lookup_or [] repos ns) seen discovered
          then (Inl (Plain ''kube backend: conflicting recovered project ownership''), s1)
          else recover_namespaces c scope repos nss (seen \<union> srefSpawnID ` set discovered) (refs @ discovered) s1)"

definition recovered_handle :: "string \<Rightarrow> (string, string) gomap \<Rightarrow> SpawnRef \<Rightarrow> Handle" where
  "recovered_handle scope repos r =
     \<lparr>hSpawnID = srefSpawnID r, hBackend = ''kube'',
      hRefs = [(''namespace'', srefNamespace r), (''scope'', scope), (''repo'', lookup_or [] repos (srefNamespace r)),
        (''secret'', srefSecretName r), (''runner_pod'', srefRunnerPod r), (''proxy_pod'', []), (''network_name'', []),
        (''repo_label'', srefRepoLabel r)]\<rparr>"

definition kube_Reconcile ::
  "KubeEnv \<Rightarrow> KubeBackend \<Rightarrow> string \<Rightarrow> KubeState \<Rightarrow> (gerr + Handle list) \<times> KubeState" where
  "kube_Reconcile c b scope s =
     (case kbNamespaces b of
        None \<Rightarrow>
          (case ListSpawns c scope s of
             (Inl e, s1) \<Rightarrow> (Inl (Wrap (''kube backend: reconcile scope '' @ scope @ '': '') e []), s1)
           | (Inr refs, s1) \<Rightarrow> (Inr (map (recovered_handle scope []) refs), s1))
      | Some m \<Rightarrow>
          if scope \<noteq> kbScope b then (Inl (Plain ''kube backend: unapproved reconcile scope''), s)
          else let repos = fold (\<lambda>(repo, ns). AList.update ns repo) m [] in
            (case recover_namespaces c scope repos (sort (map snd m)) {} [] s of
               (Inl e, s1) \<Rightarrow> (Inl e, s1)
             | (Inr refs, s1) \<Rightarrow> (Inr (map (recovered_handle scope repos) refs), s1)))"

section \<open>Readiness\<close>

definition probe_target :: "KubeBackend \<Rightarrow> string list \<Rightarrow> string" where
  "probe_target b namespaces =
     (case find (\<lambda>ns. map_of (kbReadyFailed b) ns \<noteq> None) namespaces of
        Some ns \<Rightarrow> ns
      | None \<Rightarrow> namespaces ! (unat (kbReadyNext b) mod length namespaces))"

definition known_failures :: "KubeBackend \<Rightarrow> string list \<Rightarrow> gerr option" where
  "known_failures b namespaces = errors_Join (map (map_of (kbReadyFailed b)) namespaces)"

text \<open>An enrolment is never empty; the remainder by zero of an empty one would panic.\<close>

definition Ready ::
  "KubeEnv \<Rightarrow> string \<Rightarrow> KubeBackend \<times> KubeState \<Rightarrow> gerr option \<times> KubeBackend \<times> KubeState" where
  "Ready c scope bs =
     (case bs of (b, s) \<Rightarrow>
        (case kbNamespaces b of
           None \<Rightarrow> (case ListSpawns c scope s of (Inl e, s1) \<Rightarrow> (Some e, b, s1) | (Inr _, s1) \<Rightarrow> (None, b, s1))
         | Some m \<Rightarrow>
             if scope \<noteq> kbScope b then (Some (Plain ''kube backend: unapproved readiness scope''), b, s)
             else if m = [] then (Some (Plain ''panic: integer divide by zero''), b, s)
             else let namespaces = sort (map snd m); ns = probe_target b namespaces;
                      b1 = b\<lparr>kbReadyNext := kbReadyNext b + 1\<rparr>;
                      (r, s1) = ListSpawnsInNamespace c scope ns s;
                      b2 = (case r of Inl e \<Rightarrow> b1\<lparr>kbReadyFailed := AList.update ns e (kbReadyFailed b1)\<rparr>
                            | Inr _ \<Rightarrow> b1\<lparr>kbReadyFailed := AList.delete ns (kbReadyFailed b1)\<rparr>)
                  in (known_failures b2 namespaces, b2, s1)))"

end
