(* ===== verification/Kube_Thms.thy ===== *)
theory Kube_Thms
  imports Kube_Backend Runtime_Backend
begin

text \<open>
  The Kubernetes backend as an instance of the runtime contract. \<open>kube_live\<close> is read off the log
  of the calls: an object counts from the moment its creation was asked for, acknowledged or
  not, until a list whose selector covers it was answered without it. The namespace-wide
  default-deny policy belongs to no spawn and is not counted.
\<close>

section \<open>What the cluster may still have\<close>

type_synonym KResource = "string \<times> string \<times> string \<times> (string, string) gomap"

definition resource_of :: "KObj \<Rightarrow> KResource" where
  "resource_of x = (obj_kind x, omNamespace (obj_meta x), omName (obj_meta x), omLabels (obj_meta x))"

definition covered :: "string \<Rightarrow> string \<Rightarrow> Requirement list \<Rightarrow> KResource set" where
  "covered ns kind sel = {(k, n, name, labels). k = kind \<and> n = ns \<and> selects sel labels}"

fun klog_step :: "KEvent \<Rightarrow> KResource set \<Rightarrow> KResource set" where
  "klog_step (KTried x) S = (if map_of (omLabels (obj_meta x)) LabelSpawnID = None then S else insert (resource_of x) S)"
| "klog_step (KListed ns kind sel names) S = S - {r \<in> covered ns kind sel. fst (snd (snd r)) \<notin> set names}"
| "klog_step (KDeleted ns kind name) S = S"

definition kube_live :: "KubeState \<Rightarrow> KResource set" where
  "kube_live s = fold klog_step (ksLog s) {}"

definition handle_scope :: "KubeBackend \<Rightarrow> Handle \<Rightarrow> string" where
  "handle_scope b h = (if kbNamespaces b = None then TrimPrefix (kref h ''namespace'') ''runsecure-'' else kbScope b)"

definition spawn_resources :: "string \<Rightarrow> string \<Rightarrow> string \<Rightarrow> KResource set" where
  "spawn_resources ns scope spawnID =
     {(k, n, name, labels). k \<in> set (map fst exact_kinds) \<and> n = ns \<and> selects (spawn_selector scope spawnID) labels}"

definition kube_owned :: "KubeBackend \<Rightarrow> Handle \<Rightarrow> KResource set" where
  "kube_owned b h =
     (if hBackend h = ''kube'' then spawn_resources (kref h ''namespace'') (handle_scope b h) (hSpawnID h) else {})"

lemma kube_live_simps [simp]:
  "kube_live (k_log ev s) = klog_step ev (kube_live s)" "kube_live (k_tick s) = kube_live s"
  by (simp_all add: kube_live_def k_log_def k_tick_def)

section \<open>Lists, deletes and the confirmation\<close>

lemma k_list_live:
  "k_list c kind ns sel s = (Inl e, s') \<Longrightarrow> kube_live s' = kube_live s"
  "k_list c kind ns sel s = (Inr ms, s') \<Longrightarrow>
     kube_live s' = kube_live s - {r \<in> covered ns kind sel. fst (snd (snd r)) \<notin> omName ` set ms}"
  by (auto simp: k_list_def split: sum.splits)

lemma appendSpawnResource_Inr:
  assumes "appendSpawnResource rs kind m spawnID repo = Inr rs'"
  shows "rs' = rs @ [(kind, omName m)] \<and> expectedSpawnResourceRole kind (omName m) spawnID \<noteq> None"
  using assms by (auto simp: appendSpawnResource_def Let_def split: option.splits if_splits)

lemma append_all_Inr:
  "append_all rs kind ms spawnID repo = Inr rs' \<Longrightarrow>
     rs' = rs @ map (\<lambda>m. (kind, omName m)) ms \<and> (\<forall>m \<in> set ms. expectedSpawnResourceRole kind (omName m) spawnID \<noteq> None)"
proof (induction rs kind ms spawnID repo arbitrary: rs' rule: append_all.induct)
  case (2 rs kind m ms spawnID repo)
  then obtain r1 where r1: "appendSpawnResource rs kind m spawnID repo = Inr r1" "append_all r1 kind ms spawnID repo = Inr rs'"
    by (auto split: sum.splits)
  from 2(1) [OF r1] appendSpawnResource_Inr [OF r1(1)] show ?case by auto
qed simp

lemma list_kinds_cons:
  assumes "list_kinds c ns sel spawnID repo ((kind, what) # ks) rs s = (out, s')"
  obtains (refused) e where "k_list c kind ns sel s = (Inl e, s')" "isl out"
  | (foreign) ms where "k_list c kind ns sel s = (Inr ms, s')" "isl out"
  | (next_kind) ms rs1 s1 where "k_list c kind ns sel s = (Inr ms, s1)"
      "append_all rs kind ms spawnID repo = Inr rs1" "list_kinds c ns sel spawnID repo ks rs1 s1 = (out, s')"
proof -
  obtain r s1 where k: "k_list c kind ns sel s = (r, s1)" by force
  show thesis
  proof (cases r)
    case (Inl e)
    then show thesis using assms k refused by auto
  next
    case (Inr ms)
    show thesis
    proof (cases "append_all rs kind ms spawnID repo")
      case a: (Inl e)
      with assms k Inr have "out = Inl e" "s1 = s'" by simp_all
      then show thesis using k Inr foreign by simp
    next
      case a: (Inr rs1)
      with assms k Inr show thesis using next_kind by simp
    qed
  qed
qed

lemma list_kinds_live:
  "list_kinds c ns sel spawnID repo ks rs s = (out, s') \<Longrightarrow>
     kube_live s' \<subseteq> kube_live s \<and>
     (\<forall>rs'. out = Inr rs' \<longrightarrow> length rs \<le> length rs' \<and>
        (rs' = [] \<longrightarrow> (\<forall>kind \<in> fst ` set ks. kube_live s' \<inter> covered ns kind sel = {})))"
proof (induction c ns sel spawnID repo ks rs s arbitrary: out s' rule: list_kinds.induct)
  case (2 c ns sel spawnID repo kind what ks rs s)
  from 2(2) show ?case
  proof (cases rule: list_kinds_cons)
    case (refused e)
    then show ?thesis using k_list_live(1) by (cases out) auto
  next
    case (foreign ms)
    then show ?thesis using k_list_live(2) by (cases out) auto
  next
    case (next_kind ms rs1 s1)
    have ih: "kube_live s' \<subseteq> kube_live s1 \<and> (\<forall>rs'. out = Inr rs' \<longrightarrow> length rs1 \<le> length rs' \<and>
        (rs' = [] \<longrightarrow> (\<forall>kind \<in> fst ` set ks. kube_live s' \<inter> covered ns kind sel = {})))"
      by (rule 2(1) [OF next_kind(1) [symmetric] refl next_kind(2,3)])
    note l = k_list_live(2) [OF next_kind(1)] and a = append_all_Inr [OF next_kind(2)]
    have "ms = []" if "out = Inr []" using ih a that by auto
    then show ?thesis using ih l a by auto
  qed
qed simp

lemma covered_spawn: "spawn_resources ns scope i = (\<Union>kind \<in> fst ` set exact_kinds. covered ns kind (spawn_selector scope i))"
  by (auto simp: spawn_resources_def covered_def)

lemma listExact_live:
  assumes "listExactSpawnResources c ns scope i repo s = (out, s')"
  shows "kube_live s' \<subseteq> kube_live s" and "out = Inr [] \<Longrightarrow> kube_live s' \<inter> spawn_resources ns scope i = {}"
  using list_kinds_live [OF assms [unfolded listExactSpawnResources_def]] by (auto simp: covered_spawn)

lemma deleteSpawnResource_live: "deleteSpawnResource c ns r s = (e, s') \<Longrightarrow> kube_live s' = kube_live s"
proof -
  assume d: "deleteSpawnResource c ns r s = (e, s')"
  obtain kind name where r: "r = (kind, name)" by force
  define opts where "opts = \<lparr>doPropagation = (if kind = ''secret'' then ''Foreground'' else ''Background''),
    doGracePeriodSeconds = (if kind = ''pod'' then Some 0 else None)\<rparr>"
  obtain ke s1 where k: "k_delete c kind ns name opts s = (ke, s1)" by force
  have "s' = s \<or> s' = s1"
    using d unfolding r deleteSpawnResource_def Let_def prod.case opts_def [symmetric] k
    by (split if_split_asm) (simp, cases ke, simp_all)
  then show ?thesis using k by (auto simp: k_delete_def)
qed

lemma delete_all_live: "delete_all c ns rs s = (e, s') \<Longrightarrow> kube_live s' = kube_live s"
proof (induction rs arbitrary: s)
  case (Cons r rs)
  obtain e1 s1 where d: "deleteSpawnResource c ns r s = (e1, s1)" by force
  then show ?case
    using Cons deleteSpawnResource_live [OF d] by (cases e1) auto
qed simp

lemma wait_deleted_live:
  "wait_deleted t c ns scope i repo s = (e, s') \<Longrightarrow>
     kube_live s' \<subseteq> kube_live s \<and> (e = None \<longrightarrow> kube_live s' \<inter> spawn_resources ns scope i = {})"
proof (induction t arbitrary: s)
  case (0 s)
  obtain out s1 where l: "listExactSpawnResources c ns scope i repo s = (out, s1)" by force
  note ll = listExact_live [OF l]
  from 0 ll show ?case
    by (subst (asm) wait_deleted.simps) (auto simp: l split: sum.splits list.splits)
next
  case (Suc t s)
  obtain out s1 where l: "listExactSpawnResources c ns scope i repo s = (out, s1)" by force
  note ll = listExact_live [OF l]
  show ?case
  proof (cases "\<exists>r rs. out = Inr (r # rs)")
    case True
    then have "wait_deleted t c ns scope i repo s1 = (e, s')"
      using Suc.prems by (subst (asm) wait_deleted.simps) (auto simp: l)
    from Suc.IH [OF this] ll(1) show ?thesis by blast
  next
    case False
    then show ?thesis
      using Suc.prems ll by (subst (asm) wait_deleted.simps) (auto simp: l split: sum.splits list.splits)
  qed
qed

lemma DeleteSpawnScoped_cases:
  assumes "DeleteSpawnScoped c scope ns secret i repo s = (e, s')"
  obtains (invalid) "e \<noteq> None" "s' = s"
  | (unlisted) err where "listExactSpawnResources c ns scope i repo s = (Inl err, s')" "e \<noteq> None"
  | (undeleted) rs s1 where "listExactSpawnResources c ns scope i repo s = (Inr rs, s1)" "delete_all c ns rs s1 = (e, s')" "e \<noteq> None"
  | (confirmed) rs s1 s2 where "listExactSpawnResources c ns scope i repo s = (Inr rs, s1)" "delete_all c ns rs s1 = (None, s2)"
      "waitForSpawnDeleted c ns scope i repo s2 = (e, s')"
proof (cases "validateScopeNamespace (keLib c) scope ns = None \<and> validateExplicitSpawnIdentity (keLib c) secret i repo = None")
  case False
  then have "\<exists>x. DeleteSpawnScoped c scope ns secret i repo s = (Some x, s)"
    by (cases "validateScopeNamespace (keLib c) scope ns"; cases "validateExplicitSpawnIdentity (keLib c) secret i repo")
      (simp_all add: DeleteSpawnScoped_def)
  then obtain x where "DeleteSpawnScoped c scope ns secret i repo s = (Some x, s)" ..
  with assms have "e = Some x" "s' = s" by simp_all
  then show thesis using invalid by blast
next
  case True
  obtain out s1 where l: "listExactSpawnResources c ns scope i repo s = (out, s1)" by force
  show thesis
  proof (cases out)
    case (Inl err)
    with True l have "DeleteSpawnScoped c scope ns secret i repo s = (Some err, s1)" by (simp add: DeleteSpawnScoped_def)
    with assms have "e = Some err" "s' = s1" by simp_all
    then show thesis using unlisted l Inl by blast
  next
    case (Inr rs)
    obtain e2 s2 where d: "delete_all c ns rs s1 = (e2, s2)" by force
    then show thesis
      using assms True l Inr undeleted confirmed by (cases e2) (auto simp: DeleteSpawnScoped_def)
  qed
qed

lemma DeleteSpawnScoped_live:
  assumes "DeleteSpawnScoped c scope ns secret i repo s = (e, s')"
  shows "kube_live s' \<subseteq> kube_live s" and "e = None \<Longrightarrow> kube_live s' \<inter> spawn_resources ns scope i = {}"
proof -
  from assms have "kube_live s' \<subseteq> kube_live s \<and> (e = None \<longrightarrow> kube_live s' \<inter> spawn_resources ns scope i = {})"
  proof (cases rule: DeleteSpawnScoped_cases)
    case (unlisted err)
    then show ?thesis using listExact_live by blast
  next
    case (undeleted rs s1)
    then show ?thesis using listExact_live(1) [OF undeleted(1)] delete_all_live [OF undeleted(2)] by blast
  next
    case (confirmed rs s1 s2)
    note w = wait_deleted_live [OF confirmed(3) [unfolded waitForSpawnDeleted_def]]
    show ?thesis using w delete_all_live [OF confirmed(2)] listExact_live(1) [OF confirmed(1)] by blast
  qed blast
  then show "kube_live s' \<subseteq> kube_live s" "e = None \<Longrightarrow> kube_live s' \<inter> spawn_resources ns scope i = {}" by blast+
qed

lemma DeleteSpawn_live:
  assumes "DeleteSpawn c ns secret i repo s = (e, s')"
  shows "kube_live s' \<subseteq> kube_live s" and "e = None \<Longrightarrow> kube_live s' \<inter> spawn_resources ns (TrimPrefix ns ''runsecure-'') i = {}"
proof -
  have "e \<noteq> None \<and> s' = s \<or> DeleteSpawnScoped c (TrimPrefix ns ''runsecure-'') ns secret i repo s = (e, s')"
    using assms unfolding DeleteSpawn_def
  proof (cases "validateSpawnIdentity (keLib c) ns secret i repo")
    case (Pair scope err)
    show ?thesis
    proof (cases err)
      case None
      with Pair have "scope = TrimPrefix ns ''runsecure-''" by (auto simp: validateSpawnIdentity_def Let_def split: if_split_asm)
      with assms Pair None show ?thesis by (simp add: DeleteSpawn_def)
    next
      case (Some x)
      with Pair have "DeleteSpawn c ns secret i repo s = (Some x, s)" by (simp add: DeleteSpawn_def)
      with assms have "e = Some x" "s' = s" by simp_all
      then show ?thesis by blast
    qed
  qed
  then show "kube_live s' \<subseteq> kube_live s"
    "e = None \<Longrightarrow> kube_live s' \<inter> spawn_resources ns (TrimPrefix ns ''runsecure-'') i = {}"
    using DeleteSpawnScoped_live by blast+
qed

lemma remove_egress_live: "remove_egress c h s = (e, s') \<Longrightarrow> kube_live s' = kube_live s"
  by (auto simp: remove_egress_def Let_def split: if_splits)

lemma kube_Teardown_cases:
  assumes "kube_Teardown c b h force s = (e, s')"
  obtains (refused) "e \<noteq> None" "s' = s"
  | (tried) d r s1 where "(if kbNamespaces b \<noteq> None
       then DeleteSpawnScoped c (kbScope b) (kref h ''namespace'') (kref h ''secret'') (hSpawnID h) (kref h ''repo_label'') s
       else DeleteSpawn c (kref h ''namespace'') (kref h ''secret'') (hSpawnID h) (kref h ''repo_label'') s) = (d, s1)"
      "remove_egress c h s1 = (r, s')" "e = None \<longleftrightarrow> d = None \<and> r = None"
proof -
  obtain d s1 where d: "(if kbNamespaces b \<noteq> None
       then DeleteSpawnScoped c (kbScope b) (kref h ''namespace'') (kref h ''secret'') (hSpawnID h) (kref h ''repo_label'') s
       else DeleteSpawn c (kref h ''namespace'') (kref h ''secret'') (hSpawnID h) (kref h ''repo_label'') s) = (d, s1)" by force
  obtain r s2 where r: "remove_egress c h s1 = (r, s2)" by force
  show thesis
  proof (cases "validateHandle (keLib c) b h")
    case None
    have "(e, s') = (errors_Join [map_option (\<lambda>x. Wrap (''kube backend: teardown spawn '' @ hSpawnID h @ '': '') x []) d, r], s2)"
      using assms unfolding kube_Teardown_def Let_def None option.case d prod.case r by (rule sym)
    then have "s' = s2" "e = None \<longleftrightarrow> d = None \<and> r = None" by (simp_all only: prod.inject errors_Join_None_iff) auto
    then show thesis using tried [OF d] r by simp
  next
    case (Some x)
    then have "kube_Teardown c b h force s = (Some x, s)" by (simp add: kube_Teardown_def)
    with assms have "e = Some x" "s' = s" by simp_all
    then show thesis using refused by blast
  qed
qed

lemma kube_Teardown_live:
  assumes "kube_Teardown c b h force s = (e, s')"
  shows "kube_live s' \<subseteq> kube_live s" and "e = None \<Longrightarrow> kube_live s' \<inter> kube_owned b h = {}"
proof -
  from assms have "kube_live s' \<subseteq> kube_live s \<and> (e = None \<longrightarrow> kube_live s' \<inter> kube_owned b h = {})"
  proof (cases rule: kube_Teardown_cases)
    case (tried d r s1)
    note rl = remove_egress_live [OF tried(2)]
    show ?thesis
    proof (cases "kbNamespaces b = None")
      case True
      note dl = DeleteSpawn_live [OF tried(1) [unfolded True, simplified]]
      show ?thesis using dl rl tried(3) True by (simp add: kube_owned_def handle_scope_def)
    next
      case False
      have "DeleteSpawnScoped c (kbScope b) (kref h ''namespace'') (kref h ''secret'') (hSpawnID h) (kref h ''repo_label'') s = (d, s1)"
        using tried(1) False by simp
      note dl = DeleteSpawnScoped_live [OF this]
      have sc: "handle_scope b h = kbScope b" unfolding handle_scope_def by (rule if_not_P [OF False])
      show ?thesis using dl rl tried(3) unfolding kube_owned_def sc by auto
    qed
  qed blast
  then show "kube_live s' \<subseteq> kube_live s" "e = None \<Longrightarrow> kube_live s' \<inter> kube_owned b h = {}" by blast+
qed

section \<open>Spawning\<close>

lemma k_create_live:
  "k_create c x s = (r, s') \<Longrightarrow> kube_live s' \<subseteq> insert (resource_of x) (kube_live s)"
  by (auto simp: k_create_def split: if_split_asm)

lemma resource_stamp [simp]: "resource_of (stamp r x) = resource_of x"
  by (cases x) (simp_all add: resource_of_def)

lemma create_all_live:
  "create_all c r objs s = (e, s') \<Longrightarrow> kube_live s' \<subseteq> kube_live s \<union> resource_of ` snd ` set objs"
proof (induction c r objs s arbitrary: e s' rule: create_all.induct)
  case (2 c r what x objs s)
  obtain y s1 where k: "k_create c (stamp r x) s = (y, s1)" by force
  note l = k_create_live [OF k, simplified]
  show ?case
  proof (cases y)
    case (Inl err)
    then show ?thesis using 2(2) k l by auto
  next
    case (Inr m)
    then have "create_all c r objs s1 = (e, s')" using 2(2) k by simp
    from 2(1) [OF k [symmetric] Inr this] l show ?thesis by auto
  qed
qed simp

definition stack_resources :: "SpawnObjects \<Rightarrow> KResource set" where
  "stack_resources objs = resource_of ` (insert (OSecret (soSecret objs)) (snd ` set (dependants objs)))"

lemma ApplySpawn_live:
  assumes "ApplySpawn c objs s = (e, s')"
  shows "kube_live s' \<subseteq> kube_live s \<union> stack_resources objs"
proof -
  obtain y s1 where k: "k_create c (OSecret (soSecret objs)) s = (y, s1)" by force
  note l = k_create_live [OF k]
  show ?thesis
  proof (cases y)
    case (Inl err)
    then show ?thesis using assms k l by (auto simp: ApplySpawn_def Let_def stack_resources_def)
  next
    case (Inr m)
    show ?thesis
    proof (cases "keGetSecret c (ksCalls s1) (omNamespace (secMeta (soSecret objs))) (omName m)")
      case g: (Inl err)
      then have "s' = k_tick s1" using assms k Inr by (auto simp: ApplySpawn_def Let_def)
      then show ?thesis using l by (auto simp: stack_resources_def)
    next
      case g: (Inr sec)
      then have "create_all c (OwnerRef sec) (dependants objs) (k_tick s1) = (e, s')"
        using assms k Inr by (simp add: ApplySpawn_def Let_def)
      from create_all_live [OF this] l show ?thesis by (auto simp: stack_resources_def)
    qed
  qed
qed

text \<open>Every object of a spawn is in its namespace and carries its scope and its identifier.\<close>

lemma Labels_select [simp]: "selects (spawn_selector scope i) (Labels l inp role) \<longleftrightarrow> scope = inScope inp \<and> i = inSpawnID inp"
  by (auto simp: selects_def spawn_selector_def Labels_def LabelScope_def LabelSpawnID_def LabelRepo_def)

lemma spawn_objects_meta:
  assumes "spawn_objects l inp ns cfgs = Some objs"
  shows "stack_resources objs \<subseteq> spawn_resources (executionNamespace inp) (inScope inp) (inSpawnID inp)"
    and "omName (secMeta (soSecret objs)) = spawnResourceName ''secret'' (inSpawnID inp)"
proof -
  obtain a b d where cfgs: "cfgs = (a, b, d)" by (metis prod_cases3)
  obtain pp rp where pods: "ProxyPod l inp (spawnResourceName ''secret'' (inSpawnID inp)) = Some pp"
      "RunnerPod l inp (spawnResourceName ''secret'' (inSpawnID inp)) (spawnResourceName ''proxy-svc'' (inSpawnID inp) @ ''.'' @ ns @ ''.svc'') = Some rp"
    and objs: "objs = \<lparr>soSecret = SpawnSecret l inp a b d, soService = ProxyService l inp,
      soPolicies = [RunnerEgressNetworkPolicy l inp, ProxyEgressNetworkPolicy l inp, ProxyIngressNetworkPolicy l inp],
      soProxyPod = pp, soRunnerPod = rp\<rparr>"
    using assms unfolding spawn_objects_def cfgs prod.case Let_def
    by (auto simp: SpawnSecret_def ProxyService_def objectMeta_def split: option.splits)
  have m: "omNamespace (podMeta pp) = executionNamespace inp" "omLabels (podMeta pp) = Labels l inp RoleProxy"
    "omNamespace (podMeta rp) = executionNamespace inp" "omLabels (podMeta rp) = Labels l inp RoleRunner"
    using pods by (auto simp: ProxyPod_def RunnerPod_def Let_def objectMeta_def split: option.splits)
  show "omName (secMeta (soSecret objs)) = spawnResourceName ''secret'' (inSpawnID inp)"
    by (simp add: objs SpawnSecret_def objectMeta_def)
  show "stack_resources objs \<subseteq> spawn_resources (executionNamespace inp) (inScope inp) (inSpawnID inp)"
    unfolding stack_resources_def dependants_def objs
    by (simp add: resource_of_def spawn_resources_def exact_kinds_def m SpawnSecret_def ProxyService_def
        RunnerEgressNetworkPolicy_def ProxyEgressNetworkPolicy_def ProxyIngressNetworkPolicy_def objectMeta_def)
qed

lemma EnsureDefaultDeny_live:
  assumes "EnsureDefaultDenyPolicyInNamespace c scope ns s = (e, s')"
  shows "kube_live s' = kube_live s"
proof -
  define x where "x = OPolicy ((DefaultDenyNetworkPolicy scope)\<lparr>npMeta := (npMeta (DefaultDenyNetworkPolicy scope))\<lparr>omNamespace := ns\<rparr>\<rparr>)"
  obtain y s1 where k: "k_create c x s = (y, s1)" by force
  have "map_of (omLabels (obj_meta x)) LabelSpawnID = None"
    by (simp add: x_def DefaultDenyNetworkPolicy_def objectMeta_def LabelScope_def LabelSpawnID_def)
  then have "kube_live s1 = kube_live s" using k by (auto simp: k_create_def)
  moreover have "s' = s \<or> s' = s1"
    using assms unfolding EnsureDefaultDenyPolicyInNamespace_def Let_def x_def [symmetric] k
    by (cases "validateScopeNamespace (keLib c) scope ns"; cases y) simp_all
  ultimately show ?thesis by auto
qed

lemma readEgressFile_live: "readEgressFile c inp name s = (r, s') \<Longrightarrow> kube_live s' = kube_live s"
  by (auto simp: readEgressFile_def split: if_split_asm sum.split_asm)

lemma read_configs_live:
  assumes "read_configs c inp s = (r, s')"
  shows "kube_live s' = kube_live s"
proof -
  obtain a s1 where a: "readEgressFile c inp ''squid.conf'' s = (a, s1)" by force
  obtain b s2 where b: "readEgressFile c inp ''haproxy.cfg'' s1 = (b, s2)" by force
  obtain d s3 where d: "readEgressFile c inp ''dnsmasq.conf'' s2 = (d, s3)" by force
  have "s' = s1 \<or> s' = s2 \<or> s' = s3"
    using assms unfolding read_configs_def a b d prod.case by (cases a; cases b; cases d) (simp_all split: if_split_asm)
  then show ?thesis using readEgressFile_live [OF a] readEgressFile_live [OF b] readEgressFile_live [OF d] by auto
qed

lemma kube_Spawn_cases:
  assumes "kube_Spawn c b inp s = ((h, e), s')"
  obtains (early) "h = zero_Handle" "e \<noteq> None" "kube_live s' = kube_live s"
  | (tried) ns cfgs objs s2 where "route b (inScope inp) (inRepo inp) (inNamespace inp) = Inr ns" "kube_live s2 = kube_live s"
      "validateScopeNamespace (keLib c) (inScope inp) ns = None"
      "spawn_objects (keLib c) (inp\<lparr>inNamespace := ns\<rparr>) ns cfgs = Some objs"
      "apply_or_rollback c (inp\<lparr>inNamespace := ns\<rparr>) ns objs s2 = ((h, e), s')"
proof (cases "route b (inScope inp) (inRepo inp) (inNamespace inp)")
  case (Inl x)
  then have "kube_Spawn c b inp s = ((zero_Handle, Some x), s)" by (simp add: kube_Spawn_def)
  with assms show thesis using early by fastforce
next
  case (Inr ns)
  define inp' where "inp' = inp\<lparr>inNamespace := ns\<rparr>"
  obtain d s1 where d: "EnsureDefaultDenyPolicyInNamespace c (inScope inp') ns s = (d, s1)" by force
  obtain f s2 where f: "read_configs c inp' s1 = (f, s2)" by force
  note l = EnsureDefaultDeny_live [OF d] read_configs_live [OF f]
  have "validateScopeNamespace (keLib c) (inScope inp) ns = None" if "d = None"
    using d that by (auto simp: EnsureDefaultDenyPolicyInNamespace_def inp'_def split: option.split_asm)
  moreover have "h = zero_Handle \<and> e \<noteq> None \<and> (s' = s \<or> s' = s1 \<or> s' = s2) \<or>
      (\<exists>cfgs objs. d = None \<and> spawn_objects (keLib c) inp' ns cfgs = Some objs \<and> apply_or_rollback c inp' ns objs s2 = ((h, e), s'))"
  proof (cases "kbNamespaces b \<noteq> None \<and> \<not> validSpawnID (keLib c) (inSpawnID inp) \<or> check_input (keLib c) inp' \<noteq> None \<or> d \<noteq> None")
    case True
    have "\<exists>x st. kube_Spawn c b inp s = ((zero_Handle, Some x), st) \<and> (st = s \<or> st = s1)"
      unfolding kube_Spawn_def Inr sum.case Let_def inp'_def [symmetric] d f prod.case
      using True by (cases "check_input (keLib c) inp'"; cases d) simp_all
    with assms show ?thesis by auto
  next
    case False
    then have eq: "kube_Spawn c b inp s = (case f of Inl x \<Rightarrow> ((zero_Handle, Some (Wrap ''kube backend: '' x [])), s2)
        | Inr cfgs \<Rightarrow> (case spawn_objects (keLib c) inp' ns cfgs of None \<Rightarrow> ((zero_Handle, Some (Plain ''panic: cannot parse quantity'')), s2)
             | Some objs \<Rightarrow> apply_or_rollback c inp' ns objs s2))"
      unfolding kube_Spawn_def Inr sum.case Let_def inp'_def [symmetric] d f prod.case by (auto simp del: not_None_eq)
    show ?thesis
    proof (cases f)
      case (Inl x)
      with eq assms show ?thesis by auto
    next
      case f: (Inr cfgs)
      show ?thesis
      proof (cases "spawn_objects (keLib c) inp' ns cfgs")
        case None
        with eq assms f show ?thesis by auto
      next
        case (Some objs)
        with eq assms f have "apply_or_rollback c inp' ns objs s2 = ((h, e), s')" by simp
        moreover have "d = None" using False by simp
        ultimately show ?thesis using Some by (intro disjI2 exI conjI)
      qed
    qed
  qed
  ultimately show thesis using early tried [OF Inr] l unfolding inp'_def by metis
qed

lemma kube_handle_simps [simp]:
  "hBackend (kube_handle l inp ns objs) = ''kube''" "hSpawnID (kube_handle l inp ns objs) = inSpawnID inp"
  "kref (kube_handle l inp ns objs) ''namespace'' = ns"
  by (simp_all add: kube_handle_def kref_def)

lemma route_scope:
  assumes "route b scope repo namespace = Inr ns"
  shows "(if kbNamespaces b = None then TrimPrefix ns ''runsecure-'' else kbScope b) = scope"
    and "kbNamespaces b = None \<Longrightarrow> ns = kube_Namespace scope"
  using assms by (auto simp: route_def Let_def kube_Namespace_def TrimPrefix_def HasPrefix_def split: option.split_asm if_split_asm)

lemma kube_Spawn_owned:
  assumes "kube_Spawn c b inp s = ((h, e), s')"
  shows "kube_live s' \<subseteq> kube_live s \<union> kube_owned b h"
  using assms
proof (cases rule: kube_Spawn_cases)
  case (tried ns cfgs objs s2)
  define inp' where "inp' = inp\<lparr>inNamespace := ns\<rparr>"
  define h0 where "h0 = kube_handle (keLib c) inp' ns objs"
  have ns: "ns \<noteq> []" using tried(3) by (auto simp: validateScopeNamespace_def IsDNS1123Label_def split: if_split_asm)
  have own: "kube_owned b h0 = spawn_resources ns (inScope inp) (inSpawnID inp)"
    using route_scope(1) [OF tried(1)] by (simp add: kube_owned_def handle_scope_def h0_def inp'_def split del: if_split cong: if_cong)
  have res: "stack_resources objs \<subseteq> spawn_resources ns (inScope inp) (inSpawnID inp)"
    using spawn_objects_meta(1) [OF tried(4)] ns by (simp add: executionNamespace_def)
  obtain ae s3 where a: "ApplySpawn c objs s2 = (ae, s3)" by force
  note al = ApplySpawn_live [OF a]
  obtain ce s4 where d: "DeleteSpawnScoped c (inScope inp) ns (omName (secMeta (soSecret objs))) (inSpawnID inp) (RepoLabel (keLib c) (inRepo inp)) s3 = (ce, s4)" by force
  note dl = DeleteSpawnScoped_live [OF d]
  have "h = h0 \<and> (s' = s3 \<or> s' = s4) \<or> h = zero_Handle \<and> ce = None \<and> s' = s4"
    using tried(5) unfolding inp'_def [symmetric] apply_or_rollback_def Let_def h0_def [symmetric] a prod.case
    by (cases ae; cases ce) (auto simp: d inp'_def)
  moreover have "kube_live s3 \<subseteq> kube_live s \<union> spawn_resources ns (inScope inp) (inSpawnID inp)"
    using al res tried(2) by blast
  ultimately show ?thesis using dl own by (elim disjE conjE) (simp_all, blast+)
qed simp

lemma kube_Spawn_empty:
  assumes "hBackend h = []" and "kube_Spawn c b inp s = ((h, e), s')"
  shows "kube_owned b h = {}"
  using assms(1) by (simp add: kube_owned_def)

interpretation kube: runtime_backend "kube_Spawn c b" "kube_Teardown c b" kube_live "kube_owned b" for c b
  by unfold_locales
    (erule kube_Spawn_owned kube_Spawn_empty [rotated] kube_Teardown_live(1) kube_Teardown_live(2) [OF _ refl]; assumption?)+

section \<open>What a teardown deletes\<close>

text \<open>The calls a run adds to the log, and what they satisfy.\<close>

definition log_adds :: "(KEvent \<Rightarrow> bool) \<Rightarrow> KubeState \<Rightarrow> KubeState \<Rightarrow> bool" where
  "log_adds P s s' = (\<exists>evs. ksLog s' = ksLog s @ evs \<and> list_all P evs)"

lemma log_adds_refl [simp]: "log_adds P s s" "log_adds P s (k_tick s)"
  by (simp_all add: log_adds_def k_tick_def)

lemma log_adds_trans [trans]: "log_adds P s s1 \<Longrightarrow> log_adds P s1 s2 \<Longrightarrow> log_adds P s s2"
  unfolding log_adds_def by fastforce

lemma log_adds_log: "P ev \<Longrightarrow> log_adds P s (k_log ev (k_tick s))"
  by (simp add: log_adds_def k_log_def k_tick_def)

definition own_objects :: "string \<Rightarrow> (string \<times> string) set" where
  "own_objects i = {(''pod'', ''rs-runner-'' @ i), (''pod'', ''rs-proxy-'' @ i), (''service'', ''rs-proxy-svc-'' @ i),
     (''networkpolicy'', ''rs-runner-egress-'' @ i), (''networkpolicy'', ''rs-proxy-egress-'' @ i),
     (''networkpolicy'', ''rs-proxy-ingress-'' @ i), (''secret'', ''rs-secret-'' @ i)}"

fun deletes_own :: "string \<Rightarrow> string \<Rightarrow> KEvent \<Rightarrow> bool" where
  "deletes_own ns i (KTried x) = False"
| "deletes_own ns i (KListed n kind sel names) = True"
| "deletes_own ns i (KDeleted n kind name) = (n = ns \<and> (kind, name) \<in> own_objects i)"

lemma expected_own:
  assumes "kind \<in> fst ` set exact_kinds" and "expectedSpawnResourceRole kind name i \<noteq> None"
  shows "(kind, name) \<in> own_objects i"
proof -
  consider "kind = ''pod''" | "kind = ''service''" | "kind = ''networkpolicy''" | "kind = ''secret''"
    using assms(1) by (auto simp: exact_kinds_def)
  then show ?thesis
    using assms(2) by cases (simp_all add: expectedSpawnResourceRole_def own_objects_def spawnResourceName_def split: if_split_asm)
qed

lemma list_kinds_own:
  "list_kinds c ns sel i repo ks rs s = (out, s') \<Longrightarrow> fst ` set ks \<subseteq> fst ` set exact_kinds \<Longrightarrow> set rs \<subseteq> own_objects i \<Longrightarrow>
     log_adds (deletes_own ns i) s s' \<and> (\<forall>rs'. out = Inr rs' \<longrightarrow> set rs' \<subseteq> own_objects i)"
proof (induction c ns sel i repo ks rs s arbitrary: out s' rule: list_kinds.induct)
  case (2 c ns sel i repo kind what ks rs s)
  have k: "log_adds (deletes_own ns i) s t" if "k_list c kind ns sel s = (r, t)" for r t
    using that by (auto simp: k_list_def log_adds_log split: sum.splits)
  from 2(2) show ?case
  proof (cases rule: list_kinds_cons)
    case (next_kind ms rs1 s1)
    have "kind \<in> fst ` set exact_kinds" using 2(3) by simp
    then have "(kind, omName m) \<in> own_objects i" if "m \<in> set ms" for m
      using append_all_Inr [OF next_kind(2)] that by (intro expected_own) simp_all
    then have "set rs1 \<subseteq> own_objects i"
      using append_all_Inr [OF next_kind(2)] 2(4) by auto
    from 2(1) [OF next_kind(1) [symmetric] refl next_kind(2,3) _ this] 2(3)
    have ih: "log_adds (deletes_own ns i) s1 s' \<and> (\<forall>rs'. out = Inr rs' \<longrightarrow> set rs' \<subseteq> own_objects i)" by simp
    with log_adds_trans [OF k [OF next_kind(1)]] show ?thesis by blast
  qed (use k in auto)
qed simp

lemma listExact_own:
  assumes "listExactSpawnResources c ns scope i repo s = (out, s')"
  shows "log_adds (deletes_own ns i) s s'" and "out = Inr rs \<Longrightarrow> set rs \<subseteq> own_objects i"
  using list_kinds_own [OF assms [unfolded listExactSpawnResources_def]] by auto

lemma deleteSpawnResource_log:
  assumes "deleteSpawnResource c ns (kind, name) s = (e, s')"
  shows "s' = s \<or> s' = k_log (KDeleted ns kind name) (k_tick s)"
proof -
  define opts where "opts = \<lparr>doPropagation = (if kind = ''secret'' then ''Foreground'' else ''Background''),
    doGracePeriodSeconds = (if kind = ''pod'' then Some 0 else None)\<rparr>"
  obtain ke s1 where k: "k_delete c kind ns name opts s = (ke, s1)" by force
  have "s' = s \<or> s' = s1"
    using assms unfolding deleteSpawnResource_def Let_def prod.case opts_def [symmetric] k
    by (split if_split_asm) (simp, cases ke, simp_all)
  then show ?thesis using k by (auto simp: k_delete_def)
qed

lemma delete_all_own:
  "delete_all c ns rs s = (e, s') \<Longrightarrow> set rs \<subseteq> own_objects i \<Longrightarrow> log_adds (deletes_own ns i) s s'"
proof (induction rs arbitrary: s)
  case (Cons r rs)
  obtain kind name where r: "r = (kind, name)" by force
  obtain e1 s1 where d: "deleteSpawnResource c ns r s = (e1, s1)" by force
  have "deletes_own ns i (KDeleted ns kind name)" using Cons.prems(2) by (simp add: r)
  then have one: "log_adds (deletes_own ns i) s s1"
    using deleteSpawnResource_log [OF d [unfolded r]] log_adds_log by auto
  show ?case
  proof (cases e1)
    case None
    then have "delete_all c ns rs s1 = (e, s')" using Cons.prems(1) d by simp
    from Cons.IH [OF this] Cons.prems(2) have "log_adds (deletes_own ns i) s1 s'" by simp
    with one show ?thesis by (rule log_adds_trans)
  next
    case (Some x)
    then show ?thesis using Cons.prems(1) d one by simp
  qed
qed simp

lemma wait_deleted_own: "wait_deleted t c ns scope i repo s = (e, s') \<Longrightarrow> log_adds (deletes_own ns i) s s'"
proof (induction t arbitrary: s)
  case (0 s)
  obtain out s1 where l: "listExactSpawnResources c ns scope i repo s = (out, s1)" by force
  from 0 listExact_own(1) [OF l] show ?case
    by (subst (asm) wait_deleted.simps) (auto simp: l split: sum.splits list.splits)
next
  case (Suc t s)
  obtain out s1 where l: "listExactSpawnResources c ns scope i repo s = (out, s1)" by force
  note one = listExact_own(1) [OF l]
  from Suc.prems have "s' = s1 \<or> wait_deleted t c ns scope i repo s1 = (e, s')"
    by (subst (asm) wait_deleted.simps) (auto simp: l split: sum.splits list.splits)
  then show ?case using one log_adds_trans Suc.IH by blast
qed

lemma DeleteSpawnScoped_own:
  assumes "DeleteSpawnScoped c scope ns secret i repo s = (e, s')"
  shows "log_adds (deletes_own ns i) s s'"
  using assms
proof (cases rule: DeleteSpawnScoped_cases)
  case (unlisted err)
  then show ?thesis using listExact_own(1) by blast
next
  case (undeleted rs s1)
  note l = listExact_own [OF undeleted(1)]
  from l(1) delete_all_own [OF undeleted(2) l(2) [OF refl]] show ?thesis by (rule log_adds_trans)
next
  case (confirmed rs s1 s2)
  note l = listExact_own [OF confirmed(1)]
  from l(1) delete_all_own [OF confirmed(2) l(2) [OF refl]] have "log_adds (deletes_own ns i) s s2" by (rule log_adds_trans)
  from this wait_deleted_own [OF confirmed(3) [unfolded waitForSpawnDeleted_def]] show ?thesis by (rule log_adds_trans)
qed simp

lemma DeleteSpawn_own:
  assumes "DeleteSpawn c ns secret i repo s = (e, s')"
  shows "log_adds (deletes_own ns i) s s'"
proof -
  have "s' = s \<or> (\<exists>scope. DeleteSpawnScoped c scope ns secret i repo s = (e, s'))"
    using assms by (auto simp: DeleteSpawn_def split: prod.splits option.splits)
  then show ?thesis using DeleteSpawnScoped_own by auto
qed

lemma kube_Teardown_own:
  assumes "kube_Teardown c b h force s = (e, s')"
  shows "log_adds (deletes_own (kref h ''namespace'') (hSpawnID h)) s s'"
  using assms
proof (cases rule: kube_Teardown_cases)
  case (tried d r s1)
  have "log_adds (deletes_own (kref h ''namespace'') (hSpawnID h)) s s1"
    using tried(1) DeleteSpawnScoped_own DeleteSpawn_own by (auto split: if_split_asm)
  moreover have "s' = s1 \<or> s' = k_tick s1" using tried(2) by (auto simp: remove_egress_def Let_def split: if_split_asm)
  ultimately show ?thesis using log_adds_trans [OF _ log_adds_refl(2)] by auto
qed simp

lemma refused_teardown_silent:
  assumes "kube_Teardown c b h force s = (e, s')" and "validateHandle (keLib c) b h \<noteq> None"
  shows "s' = s"
  using assms by (auto simp: kube_Teardown_def)

end
