(* ===== verification/Egress_Model.thy ===== *)
theory Egress_Model
  imports Security_Model
begin

text \<open>
  The per-spawn proxy configuration: package \<open>internal/egress\<close>. A rendered file is the text of its
  lines; the functions \<open>*_lines\<close> follow the writes of the renderers in order. The file system of
  \<open>Render\<close> is an environment that may refuse any of its calls.
\<close>

section \<open>squid.conf\<close>

definition dash :: string where
  "dash = [CHR 0xE2, CHR 0x80, CHR 0x94]"

definition cidr_char :: "char \<Rightarrow> bool" where
  "cidr_char c = (is_digit c \<or> c \<in> set ''abcdefABCDEF:.'')"

text \<open>\<open>^[0-9a-fA-F:.]+/[0-9]{1,3}$\<close>\<close>

definition reCIDR :: "string \<Rightarrow> bool" where
  "reCIDR s =
     (case cut_char CHR ''/'' s of (a, b, found) \<Rightarrow>
        found \<and> a \<noteq> [] \<and> list_all cidr_char a \<and> digits1 b \<and> length b \<le> 3)"

definition GitHubCoreDomains :: "string list" where
  "GitHubCoreDomains =
     [''.github.com'', ''api.github.com'', ''.githubusercontent.com'', ''.actions.githubusercontent.com'',
      ''.objects.githubusercontent.com'', ''.github.githubassets.com'', ''.ghcr.io'', ''.pkg.github.com'',
      ''.pipelines.actions.githubusercontent.com'', ''.results-receiver.actions.githubusercontent.com'',
      ''.vstoken.actions.githubusercontent.com'', ''.blob.core.windows.net'']"

definition BuiltInEgressDomains :: "string list" where
  "BuiltInEgressDomains =
     [''.npmjs.org'', ''.pypi.org'', ''.files.pythonhosted.org'', ''.crates.io'', ''.nodejs.org'', ''.nodesource.com'',
      ''.playwright.azureedge.net'', ''.googleapis.com'', ''.google.com'', ''.semgrep.dev'', ''.rustup.rs'',
      ''.rust-lang.org'']"

definition sanitizeDomain :: "string \<Rightarrow> string" where
  "sanitizeDomain d = (if reDomain d then d else [])"

text \<open>The entries of a list that survive sanitising, each as a line.\<close>

definition clean_lines :: "string \<Rightarrow> string list \<Rightarrow> string list" where
  "clean_lines pre ds = map (\<lambda>d. pre @ d) (filter (\<lambda>d. d \<noteq> []) (map sanitizeDomain ds))"

definition allowed_cidrs :: "Policy \<Rightarrow> string list" where
  "allowed_cidrs p = filter reCIDR (map ipnet_String (plAllowedPrivateCIDRs p))"

definition is_wildcard :: "string \<Rightarrow> bool" where
  "is_wildcard w = (2 < length w \<and> w ! 0 = CHR ''*'' \<and> w ! 1 = CHR ''.'')"

definition squid_suffix :: "string \<Rightarrow> string" where
  "squid_suffix w = (if is_wildcard w then drop 1 w else w)"

definition domain_lines :: "RunnerYML \<Rightarrow> Policy \<Rightarrow> string list" where
  "domain_lines r p =
     clean_lines ''acl allowed_domains dstdomain .'' (ResolvedHTTPEgress r) @
     (if plAllowWildcards p then clean_lines ''acl allowed_domains dstdomain '' (map squid_suffix (plWildcardEntries p)) else [])"

definition squid_lines :: "RunnerYML \<Rightarrow> Policy \<Rightarrow> string list" where
  "squid_lines r p =
     [''# RunSecure squid.conf '' @ dash @ '' generated per-spawn. Do not edit.'', ''http_port 3128'',
      ''acl SSL_ports port 443'', ''acl CONNECT method CONNECT'', ''http_access deny CONNECT !SSL_ports''] @
     map (\<lambda>c. ''acl rs_private_dst dst '' @ c) BlockedEgressCIDRs @
     map (\<lambda>c. ''acl rs_allowed_private dst '' @ c) (allowed_cidrs p) @
     (if allowed_cidrs p \<noteq> [] then [''http_access allow rs_allowed_private''] else []) @
     [''http_access deny rs_private_dst''] @
     clean_lines ''acl rs_github_core dstdomain '' GitHubCoreDomains @ [''http_access allow rs_github_core''] @
     clean_lines ''acl rs_builtin_egress dstdomain '' BuiltInEgressDomains @ [''http_access allow rs_builtin_egress''] @
     domain_lines r p @
     (if domain_lines r p \<noteq> [] then [''http_access allow allowed_domains''] else []) @
     [''http_access deny all'', ''visible_hostname runsecure-proxy'', ''pid_filename /var/run/squid/squid.pid'',
      ''access_log stdio:/var/log/squid/access.log'', ''cache_log /var/log/squid/cache.log'', ''cache deny all'',
      ''coredump_dir /var/spool/squid'']"

definition RenderSquid :: "RunnerYML \<Rightarrow> Policy \<Rightarrow> string" where
  "RenderSquid r p = unlines (squid_lines r p)"

section \<open>haproxy.cfg\<close>

definition reHAProxyHost :: "string \<Rightarrow> bool" where
  "reHAProxyHost s = (s \<noteq> [] \<and> is_alnum (hd s) \<and> list_all host_char s)"

definition trim_brackets :: "string \<Rightarrow> string" where
  "trim_brackets s =
     (let br = (\<lambda>c. c = CHR ''['' \<or> c = CHR '']'') in rev (dropWhile br (rev (dropWhile br s))))"

definition isHostPortSafe :: "string \<Rightarrow> string \<Rightarrow> bool" where
  "isHostPortSafe host port =
     ((reHAProxyHost host \<or> ParseIP (trim_brackets host) \<noteq> None) \<and>
      digits1 port \<and> 0 < dec_val port \<and> dec_val port \<le> 65535)"

text \<open>\<open>strings.LastIndex\<close> of the colon; an index below one leaves the entry out.\<close>

definition cut_last_colon :: "string \<Rightarrow> (string \<times> string) option" where
  "cut_last_colon e =
     (case cut_char CHR '':'' (rev e) of (p, h, found) \<Rightarrow> if found \<and> h \<noteq> [] then Some (rev h, rev p) else None)"

definition haproxy_dst :: "string \<Rightarrow> string" where
  "haproxy_dst host =
     (case ParseIP (trim_brackets host) of
        Some a \<Rightarrow> ''  tcp-request content set-var(sess.rs_dst) '' @
          (case To4 a of IPv4 w \<Rightarrow> ''ipv4'' | IPv6 w \<Rightarrow> ''ipv6'') @ ''('' @ ip_String a @ '')''
      | None \<Rightarrow> ''  tcp-request content do-resolve(sess.rs_dst,default_dns,ipv4) str('' @ host @ '')'')"

definition haproxy_entry :: "Policy \<Rightarrow> string \<Rightarrow> string list" where
  "haproxy_entry p e =
     (case cut_last_colon e of
        None \<Rightarrow> []
      | Some (host, port) \<Rightarrow>
          if \<not> isHostPortSafe host port then []
          else
            [''frontend tcp_'' @ port, ''  bind :'' @ port, ''  tcp-request inspect-delay 5s'', haproxy_dst host,
             ''  tcp-request content reject unless { var(sess.rs_dst) -m found }''] @
            map (\<lambda>c. ''  acl rs_private_dst var(sess.rs_dst) -m ip '' @ c) BlockedEgressCIDRs @
            map (\<lambda>c. ''  acl rs_allowed_private var(sess.rs_dst) -m ip '' @ c) (allowed_cidrs p) @
            [''  tcp-request content reject if rs_private_dst'' @
               (if allowed_cidrs p \<noteq> [] then '' !rs_allowed_private'' else []),
             ''  tcp-request content set-dst var(sess.rs_dst)'', ''  default_backend backend_'' @ port, [],
             ''backend backend_'' @ port, ''  server srv_'' @ port @ '' 0.0.0.0:'' @ port, []])"

definition haproxy_head :: "string list" where
  "haproxy_head =
     [''# RunSecure haproxy.cfg '' @ dash @ '' generated per-spawn. Do not edit.'',
      ''global'', ''  maxconn 256'', [],
      ''defaults'', ''  mode tcp'', ''  timeout connect 10s'', ''  timeout client 60s'', ''  timeout server 60s'', [],
      ''resolvers default_dns'', ''  parse-resolv-conf'', ''  resolve_retries 3'', ''  timeout retry 1s'', ''  hold valid 10s'', []]"

definition RenderHAProxy :: "RunnerYML \<Rightarrow> Policy \<Rightarrow> string" where
  "RenderHAProxy r p = unlines (haproxy_head @ concat (map (haproxy_entry p) (ryTCPEgress r)))"

section \<open>dnsmasq.conf\<close>

definition resolveUpstreams :: "RunnerYML \<Rightarrow> string list" where
  "resolveUpstreams r =
     (let valid = filter (\<lambda>s. ParseIP s \<noteq> None) (dnsServers (ryDNS r))
      in if valid \<noteq> [] then valid else [''1.1.1.1'', ''9.9.9.9''])"

definition server_lines :: "string \<Rightarrow> string list \<Rightarrow> string list" where
  "server_lines fwd ds = map (\<lambda>d. ''server=/'' @ d @ ''/'' @ fwd) (filter (\<lambda>d. d \<noteq> []) (map sanitizeDomain ds))"

definition dnsmasq_lines :: "RunnerYML \<Rightarrow> Policy \<Rightarrow> string list" where
  "dnsmasq_lines r p =
     (let upstreams = resolveUpstreams r;
          forwardTo = (case upstreams of u # us \<Rightarrow> u | [] \<Rightarrow> ''1.1.1.1'') in
      [''# RunSecure dnsmasq.conf '' @ dash @ '' generated per-spawn. Do not edit.'', ''no-resolv''] @
      map (\<lambda>s. ''server='' @ s) upstreams @ [[]] @
      [(if dnsLogQueries (ryDNS r) = Some False then ''# log-queries disabled'' else ''log-queries''), []] @
      server_lines forwardTo (ResolvedHTTPEgress r) @
      (if plAllowDNSSuffixMatch p then server_lines forwardTo (map (drop 2) (filter is_wildcard (plWildcardEntries p))) else []) @
      [[], ''# Default-deny: NXDOMAIN for anything not listed.'', ''local=/./''])"

definition RenderDNSMasq :: "RunnerYML \<Rightarrow> Policy \<Rightarrow> string" where
  "RenderDNSMasq r p = unlines (dnsmasq_lines r p)"

section \<open>Writing the files\<close>

record FsEnv =
  feMkdirAll :: "string \<Rightarrow> gerr option"
  feWriteFile :: "string \<Rightarrow> gerr option"

text \<open>\<open>filepath.Join\<close> of two elements; an empty element is left out.\<close>

definition filepath_Join :: "string \<Rightarrow> string \<Rightarrow> string" where
  "filepath_Join a b =
     (if a = [] \<and> b = [] then [] else if a = [] then path_Clean b else if b = [] then path_Clean a
      else path_Clean (a @ ''/'' @ b))"

text \<open>What was written, oldest first, and the directory or the error.\<close>

fun write_files :: "FsEnv \<Rightarrow> (string \<times> string) list \<Rightarrow> (string \<times> string) list \<times> gerr option" where
  "write_files fs [] = ([], None)"
| "write_files fs ((path, content) # fls) =
     (case feWriteFile fs path of
        Some e \<Rightarrow> ([], Some e)
      | None \<Rightarrow> (case write_files fs fls of (ws, e) \<Rightarrow> ((path, content) # ws, e)))"

definition egress_hosts :: "RunnerYML \<Rightarrow> string list" where
  "egress_hosts r = ryTCPEgress r @ ResolvedHTTPEgress r"

definition Render :: "FsEnv \<Rightarrow> string \<Rightarrow> string \<Rightarrow> RunnerYML \<Rightarrow> Policy \<Rightarrow> (string \<times> string) list \<times> (gerr + string)" where
  "Render fs baseDir spawnID r p =
     (case CheckEgressIPLiterals (egress_hosts r) p of
        Some e \<Rightarrow> ([], Inl e)
      | None \<Rightarrow>
          let dir = filepath_Join baseDir spawnID in
          case feMkdirAll fs dir of
            Some e \<Rightarrow> ([], Inl (Wrap (''egress: mkdir '' @ dir @ '': '') e []))
          | None \<Rightarrow>
              (case write_files fs [(filepath_Join dir ''squid.conf'', RenderSquid r p),
                                    (filepath_Join dir ''haproxy.cfg'', RenderHAProxy r p),
                                    (filepath_Join dir ''dnsmasq.conf'', RenderDNSMasq r p)] of
                 (ws, Some e) \<Rightarrow> (ws, Inl e)
               | (ws, None) \<Rightarrow> (ws, Inr dir)))"

end
