(* ===== verification/Egress_Thms.thy ===== *)
theory Egress_Thms
  imports Egress_Model
begin

text \<open>
  What the rendered configuration guarantees: the rules of \<open>squid.conf\<close> and the listeners of
  \<open>haproxy.cfg\<close> read back from their text, and the guard against literal private addresses.
\<close>

section \<open>Lines\<close>

definition newline_free :: "string \<Rightarrow> bool" where
  "newline_free s = (CHR 0x0A \<notin> set s)"

lemma split_unlines: "list_all newline_free ls \<Longrightarrow> split_char (CHR 0x0A) (unlines ls) = ls @ [[]]"
proof (induction ls)
  case (Cons l ls)
  then show ?case by (simp add: unlines_def newline_free_def split_char_append)
qed (simp add: unlines_def)

lemma newline_free_append [simp]: "newline_free (a @ b) \<longleftrightarrow> newline_free a \<and> newline_free b"
  by (simp add: newline_free_def)

lemma newline_free_Cons [simp]: "newline_free (c # s) \<longleftrightarrow> c \<noteq> CHR 0x0A \<and> newline_free s" "newline_free []"
  by (auto simp: newline_free_def)

lemma host_char_no_newline: "list_all host_char s \<Longrightarrow> newline_free s"
  by (auto simp: newline_free_def list_all_iff host_char_def is_alnum_def is_digit_def is_lower_def is_upper_def)

lemma reDomain_host: "reDomain d \<Longrightarrow> list_all host_char d"
  by (cases d) (auto simp: reDomain_def host_char_def Let_def split: if_splits)

lemma cidr_char_no_newline: "list_all cidr_char s \<Longrightarrow> newline_free s"
  by (auto simp: newline_free_def list_all_iff cidr_char_def is_digit_def)

lemma reCIDR_newline: "reCIDR c \<Longrightarrow> newline_free c"
proof -
  assume r: "reCIDR c"
  obtain a b where ab: "cut_char CHR ''/'' c = (a, b, True)" using r by (auto simp: reCIDR_def split: prod.splits)
  then have "c = a @ CHR ''/'' # b" "list_all cidr_char a" "list_all is_digit b"
    using r cut_char_found [of "CHR ''/''" c a b] by (auto simp: reCIDR_def digits1_def)
  moreover have "list_all is_digit b \<Longrightarrow> newline_free b" by (auto simp: newline_free_def list_all_iff is_digit_def)
  ultimately show ?thesis using cidr_char_no_newline by simp
qed

lemma clean_entries: "filter (\<lambda>d. d \<noteq> []) (map sanitizeDomain ds) = filter reDomain ds"
  by (induction ds) (auto simp: sanitizeDomain_def reDomain_def)

lemma clean_lines_eq: "clean_lines pre ds = map (\<lambda>d. pre @ d) (filter reDomain ds)"
  by (simp only: clean_lines_def clean_entries)

lemma clean_lines_free: "newline_free pre \<Longrightarrow> list_all newline_free (clean_lines pre ds)"
  using reDomain_host host_char_no_newline by (auto simp: clean_lines_eq list_all_iff)

lemma blocked_free: "list_all newline_free BlockedEgressCIDRs"
  by (simp add: BlockedEgressCIDRs_def builtinBlockedCIDRs_def)

lemma cidr_lines_free: "newline_free pre \<Longrightarrow> list_all newline_free (map (\<lambda>c. pre @ c) (allowed_cidrs p))"
  using reCIDR_newline by (auto simp: allowed_cidrs_def list_all_iff)

lemma blocked_lines_free: "newline_free pre \<Longrightarrow> list_all newline_free (map (\<lambda>c. pre @ c) BlockedEgressCIDRs)"
  using blocked_free by (auto simp: list_all_iff)

lemma squid_lines_free: "list_all newline_free (squid_lines r p)"
  unfolding squid_lines_def domain_lines_def list_all_append
  by (intro conjI clean_lines_free cidr_lines_free blocked_lines_free) (auto simp: dash_def clean_lines_free)


section \<open>Every approved network is rendered\<close>

definition wf_net :: "ipnet \<Rightarrow> bool" where
  "wf_net n = (case n of Net4 m p \<Rightarrow> p \<le> 32 | Net6 m p \<Rightarrow> p \<le> 128)"

lemma ParseCIDR_wf: "ParseCIDR s = Inr n \<Longrightarrow> wf_net n"
  by (auto simp: ParseCIDR_def wf_net_def Let_def split: prod.splits if_splits option.splits ip.splits)

lemma join_with_all: "(\<And>x. x \<in> set xs \<Longrightarrow> list_all P x) \<Longrightarrow> list_all P sep \<Longrightarrow> list_all P (join_with sep xs)"
  by (induction sep xs rule: join_with.induct) auto

lemma show_int_digits: "0 \<le> z \<Longrightarrow> list_all is_digit (show_int z)"
  using show_nat_digits [of "nat z"] by (simp add: show_int_nonneg)

lemma v4_String_chars: "list_all cidr_char (v4_String w) \<and> v4_String w \<noteq> []"
proof
  have "list_all cidr_char (show_int (z mod 256))" for z
    using show_int_digits [of "z mod 256"] by (auto simp: list_all_iff cidr_char_def)
  then show "list_all cidr_char (v4_String w)"
    unfolding v4_String_def by (intro join_with_all) (auto simp: cidr_char_def)
  show "v4_String w \<noteq> []" by (simp add: v4_String_def)
qed

lemma hex_lower_char: "0 \<le> d \<Longrightarrow> d < 16 \<Longrightarrow> cidr_char (hex_lower d)"
proof -
  assume "0 \<le> d" "d < 16"
  then have "d \<in> set [0..15]" by simp
  moreover have "list_all (\<lambda>d. cidr_char (hex_lower d)) [0..15]" by code_simp
  ultimately show ?thesis by (auto simp: list_all_iff)
qed

lemma show_hex_chars: "list_all cidr_char (show_hex g)"
proof -
  define ds where "ds = map (\<lambda>k. g div 2 ^ k mod 16) [12, 8, 4, 0]"
  have "\<forall>d \<in> set ds. cidr_char (hex_lower d)" unfolding ds_def by (auto intro!: hex_lower_char)
  then have "\<forall>d \<in> set (dropWhile (\<lambda>d. d = 0) ds). cidr_char (hex_lower d)" using set_dropWhileD by fast
  then show ?thesis
    using hex_lower_char [of 0] unfolding show_hex_def ds_def [symmetric] Let_def by (simp add: list_all_iff)
qed

lemma v6_String_chars: "list_all cidr_char (v6_String w) \<and> v6_String w \<noteq> []"
proof -
  have colon: "list_all cidr_char '':''" "list_all cidr_char ''::''" by (simp_all add: cidr_char_def)
  have part: "list_all cidr_char (join_with '':'' (map show_hex gs))" for gs
    by (intro join_with_all) (use show_hex_chars colon in auto)
  have "join_with '':'' (map show_hex (v6_parts w)) \<noteq> []" by (simp add: v6_parts_def)
  then show ?thesis using part colon unfolding v6_String_def Let_def by (auto split: option.splits)
qed

lemma cidr_char_slash: "list_all cidr_char a \<Longrightarrow> CHR ''/'' \<notin> set a"
  by (auto simp: list_all_iff cidr_char_def is_digit_def)

lemma reCIDR_join: "list_all cidr_char a \<Longrightarrow> a \<noteq> [] \<Longrightarrow> k \<le> 128 \<Longrightarrow> reCIDR (a @ ''/'' @ show_int (int k))"
proof -
  assume a: "list_all cidr_char a" "a \<noteq> []" and k: "k \<le> 128"
  have "cut_char CHR ''/'' (a @ ''/'' @ show_int (int k)) = (a, show_int (int k), True)"
    using cidr_char_slash [OF a(1)] by (simp add: cut_char_found)
  moreover have "length (show_nat k) \<le> 3" using length_show_nat [of k 2] k by simp
  ultimately show ?thesis
    using a show_nat_digits [of k] by (simp add: reCIDR_def digits1_def show_int_nonneg)
qed

lemma reCIDR_String: "wf_net n \<Longrightarrow> reCIDR (ipnet_String n)"
  using v4_String_chars v6_String_chars
  by (cases n) (auto simp: ipnet_String_def wf_net_def simp del: append_Cons append_Nil intro!: reCIDR_join)

lemma allowed_cidrs_all: "(\<And>n. n \<in> set (plAllowedPrivateCIDRs p) \<Longrightarrow> wf_net n) \<Longrightarrow> allowed_cidrs p = map ipnet_String (plAllowedPrivateCIDRs p)"
  using reCIDR_String by (simp add: allowed_cidrs_def)

section \<open>The rules of squid.conf\<close>

definition access_rules :: "string \<Rightarrow> string list" where
  "access_rules conf = filter (\<lambda>l. HasPrefix l ''http_access '') (split_char (CHR 0x0A) conf)"

definition acl_values :: "string \<Rightarrow> string \<Rightarrow> string set" where
  "acl_values acl conf = {v. ''acl '' @ acl @ '' '' @ v \<in> set (split_char (CHR 0x0A) conf)}"

lemma HasPrefix_rec: "HasPrefix s []" "HasPrefix (a # s) (b # q) \<longleftrightarrow> a = b \<and> HasPrefix s q" "\<not> HasPrefix [] (b # q)"
  by (simp_all add: HasPrefix_def)

lemma prefix_map: "filter (\<lambda>l. HasPrefix l pre) (map (\<lambda>x. a @ x) xs) = (if HasPrefix a pre then map (\<lambda>x. a @ x) xs else [])"
  if "length pre \<le> length a"
  using that by (induction xs) (simp_all add: HasPrefix_def)

lemma prefix_clean: "length pre \<le> length a \<Longrightarrow>
    filter (\<lambda>l. HasPrefix l pre) (clean_lines a ds) = (if HasPrefix a pre then clean_lines a ds else [])"
  by (simp only: clean_lines_eq prefix_map)

lemma squid_rules:
  "access_rules (RenderSquid r p) =
     [''http_access deny CONNECT !SSL_ports''] @
     (if allowed_cidrs p \<noteq> [] then [''http_access allow rs_allowed_private''] else []) @
     [''http_access deny rs_private_dst'', ''http_access allow rs_github_core'', ''http_access allow rs_builtin_egress''] @
     (if domain_lines r p \<noteq> [] then [''http_access allow allowed_domains''] else []) @
     [''http_access deny all'']"
proof -
  let ?f = "filter (\<lambda>l. HasPrefix l ''http_access '')"
  have "?f (domain_lines r p) = []" unfolding domain_lines_def filter_append by (simp add: prefix_clean HasPrefix_rec)
  moreover have "?f (map (\<lambda>c. ''acl rs_private_dst dst '' @ c) xs) = []" "?f (map (\<lambda>c. ''acl rs_allowed_private dst '' @ c) xs) = []" for xs
    by (subst prefix_map, simp, simp add: HasPrefix_rec)+
  moreover have "?f (clean_lines ''acl rs_github_core dstdomain '' xs) = []" "?f (clean_lines ''acl rs_builtin_egress dstdomain '' xs) = []" for xs
    by (simp_all add: prefix_clean HasPrefix_rec)
  moreover have "access_rules (RenderSquid r p) = ?f (squid_lines r p)"
    unfolding access_rules_def RenderSquid_def split_unlines [OF squid_lines_free] by (simp add: HasPrefix_rec)
  moreover have "\<not> HasPrefix (''# RunSecure squid.conf '' @ dash @ '' generated per-spawn. Do not edit.'') ''http_access ''"
    by (simp add: HasPrefix_rec)
  ultimately show ?thesis
    unfolding squid_lines_def filter_append by (simp add: HasPrefix_rec del: append_Cons append_Nil map_eq_conv)
qed


lemma acl_lines: "acl_values acl (RenderSquid r p) = {v. ''acl '' @ acl @ '' '' @ v \<in> set (squid_lines r p)}"
  unfolding acl_values_def RenderSquid_def split_unlines [OF squid_lines_free] by simp

definition squid_domains :: "RunnerYML \<Rightarrow> Policy \<Rightarrow> string set" where
  "squid_domains r p =
     {CHR ''.'' # d | d. d \<in> set (ResolvedHTTPEgress r) \<and> reDomain d} \<union>
     (if plAllowWildcards p then {squid_suffix w | w. w \<in> set (plWildcardEntries p) \<and> reDomain (squid_suffix w)} else {})"

lemma squid_domain_values: "acl_values ''allowed_domains dstdomain'' (RenderSquid r p) = squid_domains r p"
proof -
  let ?q = "''acl allowed_domains dstdomain ''"
  have "?q @ v \<in> set (squid_lines r p) \<longleftrightarrow> ?q @ v \<in> set (domain_lines r p)" for v
    unfolding squid_lines_def set_append clean_lines_eq by auto
  moreover have "?q @ v \<in> set (domain_lines r p) \<longleftrightarrow> v \<in> squid_domains r p" for v
    unfolding domain_lines_def clean_lines_eq squid_domains_def by auto
  ultimately show ?thesis unfolding acl_lines by (simp only:) auto
qed

lemma squid_private_values: "acl_values ''rs_allowed_private dst'' (RenderSquid r p) = set (allowed_cidrs p)"
proof -
  let ?q = "''acl rs_allowed_private dst ''"
  have "?q @ v \<in> set (squid_lines r p) \<longleftrightarrow> v \<in> set (allowed_cidrs p)" for v
    unfolding squid_lines_def domain_lines_def set_append clean_lines_eq by auto
  then show ?thesis unfolding acl_lines by simp
qed

lemma domain_lines_empty: "domain_lines r p = [] \<longleftrightarrow> squid_domains r p = {}"
  unfolding domain_lines_def squid_domains_def clean_lines_eq by (auto simp: filter_empty_conv)


section \<open>Literal addresses\<close>

text \<open>The special-use ranges by first and last address.\<close>

definition special4 :: "32 word \<Rightarrow> bool" where
  "special4 w =
     list_ex (\<lambda>(lo, hi). lo \<le> uint w \<and> uint w \<le> hi)
       [(0x0A000000, 0x0AFFFFFF), (0xAC100000, 0xAC1FFFFF), (0xC0A80000, 0xC0A8FFFF), (0x7F000000, 0x7FFFFFFF),
        (0xA9FE0000, 0xA9FEFFFF), (0, 0x00FFFFFF), (0x64400000, 0x647FFFFF), (0xE0000000, 0xFFFFFFFF)]"

definition special6 :: "128 word \<Rightarrow> bool" where
  "special6 w \<longleftrightarrow>
     list_ex (\<lambda>(lo, hi). lo * 2 ^ 112 \<le> uint w \<and> uint w < (hi + 1) * 2 ^ 112)
       [(0xFE80, 0xFEBF), (0xFC00, 0xFDFF), (0xFF00, 0xFFFF)] \<or> uint w \<le> 1"

definition special_use :: "ip \<Rightarrow> bool" where
  "special_use a = (case a of IPv4 w \<Rightarrow> special4 w | IPv6 w \<Rightarrow> special6 w)"

lemma blockedRanges_eq:
  "blockedRanges = [Net4 0x0A000000 8, Net4 0xAC100000 12, Net4 0xC0A80000 16, Net4 0x7F000000 8, Net4 0xA9FE0000 16,
     Net4 0 8, Net4 0x64400000 10, Net4 0xE0000000 4, Net4 0xF0000000 4, Net6 1 128,
     Net6 0xFE800000000000000000000000000000 10, Net6 0xFC000000000000000000000000000000 7, Net6 0 128,
     Net6 0xFF000000000000000000000000000000 8]"
  by code_simp

lemma blockedRanges_no_panic: "mustBuildBlockedRanges ParseCIDR builtinBlockedCIDRs = Some blockedRanges"
proof -
  have "mustBuildBlockedRanges ParseCIDR builtinBlockedCIDRs \<noteq> None" by code_simp
  then show ?thesis by (auto simp: blockedRanges_def)
qed

lemma drop_bit_uint: "drop_bit k w = drop_bit k (v :: 'a::len word) \<longleftrightarrow> uint w div 2 ^ k = uint v div 2 ^ k"
proof -
  have "uint (drop_bit k x) = uint x div 2 ^ k" for x :: "'a word"
    by (metis drop_bit_eq_div uint_nat unat_drop_bit_eq of_nat_drop_bit)
  then show ?thesis by (metis word_uint_eq_iff)
qed

lemma div_eq_interval: "0 < c \<Longrightarrow> c dvd m \<Longrightarrow> (x :: int) div c = m div c \<longleftrightarrow> m \<le> x \<and> x < m + c"
proof -
  assume c: "0 < c" "c dvd m"
  then obtain q where m: "m = c * q" by (auto elim: dvdE)
  have "x div c = q \<longleftrightarrow> c * q \<le> x \<and> x < c * q + c"
  proof
    assume "x div c = q"
    then have "x = c * q + x mod c" by (metis mult_div_mod_eq)
    then show "c * q \<le> x \<and> x < c * q + c" using pos_mod_bound [OF c(1), of x] pos_mod_sign [OF c(1), of x] by linarith
  next
    assume "c * q \<le> x \<and> x < c * q + c"
    then show "x div c = q" by (intro int_div_pos_eq [of x c q "x - c * q"]) auto
  qed
  then show ?thesis using c(1) by (simp add: m)
qed

lemma contains4:
  "2 ^ (32 - k) dvd uint m \<Longrightarrow> net_Contains (Net4 m k) (IPv4 w) \<longleftrightarrow> uint m \<le> uint w \<and> uint w < uint m + 2 ^ (32 - k)"
  by (simp add: net_Contains_def drop_bit_uint div_eq_interval)

lemma contains6:
  "2 ^ (128 - k) dvd uint m \<Longrightarrow> net_Contains (Net6 m k) (IPv6 w) \<longleftrightarrow> uint m \<le> uint w \<and> uint w < uint m + 2 ^ (128 - k)"
  by (simp add: net_Contains_def drop_bit_uint div_eq_interval)

lemma contains_mixed: "\<not> net_Contains (Net4 m k) (IPv6 x)" "\<not> net_Contains (Net6 n k) (IPv4 y)"
  by (simp_all add: net_Contains_def)

lemma inBlockedRange_special: "inBlockedRange a \<noteq> None \<longleftrightarrow> special_use a"
proof -
  have "inBlockedRange a \<noteq> None \<longleftrightarrow> (\<exists>r \<in> set blockedRanges. net_Contains r a)"
    unfolding inBlockedRange_def by (auto simp: find_None_iff simp del: not_None_eq)
  also have "\<dots> \<longleftrightarrow> special_use a"
  proof (cases a)
    case (IPv4 w)
    have "0 \<le> uint w" "uint w < 2 ^ 32" using uint_lt2p [of w] by simp_all
    then show ?thesis
      unfolding IPv4 blockedRanges_eq by (simp add: contains4 contains_mixed special_use_def special4_def) linarith
  next
    case (IPv6 w)
    have "0 \<le> uint w" "uint w < 2 ^ 128" using uint_lt2p [of w] by simp_all
    then show ?thesis
      unfolding IPv6 blockedRanges_eq by (simp add: contains6 contains_mixed special_use_def special6_def) linarith
  qed
  finally show ?thesis .
qed


lemma check_literal_None:
  "check_literal p h = None \<longleftrightarrow>
     (\<forall>a. ParseIP (extractHost h) = Some a \<longrightarrow> special_use a \<longrightarrow> (\<exists>c \<in> set (plAllowedPrivateCIDRs p). net_Contains c a))"
proof (cases "ParseIP (extractHost h)")
  case (Some a)
  show ?thesis
    using inBlockedRange_special [of a]
    by (cases "inBlockedRange a") (auto simp: check_literal_def Some inAllowedCIDRs_def list_ex_iff)
qed (simp add: check_literal_def)

lemma CheckEgressIPLiterals_None:
  "CheckEgressIPLiterals hs p = None \<longleftrightarrow> (\<forall>h \<in> set hs. check_literal p h = None)"
  by (induction hs) (auto split: option.splits)

definition config_files :: "string \<Rightarrow> RunnerYML \<Rightarrow> Policy \<Rightarrow> (string \<times> string) list" where
  "config_files dir r p = [(filepath_Join dir ''squid.conf'', RenderSquid r p),
     (filepath_Join dir ''haproxy.cfg'', RenderHAProxy r p), (filepath_Join dir ''dnsmasq.conf'', RenderDNSMasq r p)]"

lemma write_files_prefix: "write_files fs fls = (ws, e) \<Longrightarrow> (e = None \<longrightarrow> ws = fls) \<and> prefix ws fls"
  by (induction fls arbitrary: ws e) (auto split: prod.splits option.splits)

lemma Render_cases:
  "Render fs base sid r p = (ws, res) \<Longrightarrow>
     (case CheckEgressIPLiterals (egress_hosts r) p of
        Some e \<Rightarrow> ws = [] \<and> res = Inl e
      | None \<Rightarrow> prefix ws (config_files (filepath_Join base sid) r p) \<and>
          (\<forall>dir. res = Inr dir \<longrightarrow> dir = filepath_Join base sid \<and> ws = config_files dir r p))"
proof -
  assume r: "Render fs base sid r p = (ws, res)"
  let ?dir = "filepath_Join base sid"
  show ?thesis
  proof (cases "CheckEgressIPLiterals (egress_hosts r) p")
    case None
    obtain w e where w: "write_files fs (config_files ?dir r p) = (w, e)" by force
    note wp = write_files_prefix [OF w]
    show ?thesis
    proof (cases "feMkdirAll fs ?dir")
      case (Some x)
      then show ?thesis using r None by (auto simp: Render_def Let_def)
    next
      case N: None
      then have "(ws, res) = (case e of Some e \<Rightarrow> (w, Inl e) | None \<Rightarrow> (w, Inr ?dir))"
        using r None w by (simp add: Render_def Let_def config_files_def)
      then show ?thesis using wp None by (auto split: option.splits)
    qed
  qed (use r in \<open>simp add: Render_def\<close>)
qed

section \<open>haproxy.cfg\<close>

lemma digits_free: "list_all is_digit s \<Longrightarrow> newline_free s"
  by (auto simp: newline_free_def list_all_iff is_digit_def)

lemma ip_String_free: "newline_free (ip_String a)"
  using v4_String_chars v6_String_chars cidr_char_no_newline by (auto simp: ip_String_def split: ip.splits)

lemma haproxy_dst_free: "isHostPortSafe host port \<Longrightarrow> newline_free (haproxy_dst host)"
  using ip_String_free host_char_no_newline
  by (auto simp: haproxy_dst_def isHostPortSafe_def reHAProxyHost_def split: option.splits ip.splits)

lemma haproxy_entry_free: "list_all newline_free (haproxy_entry p e)"
proof (cases "cut_last_colon e")
  case (Some hp)
  obtain host port where hp: "hp = (host, port)" by force
  show ?thesis
  proof (cases "isHostPortSafe host port")
    case True
    then have "newline_free port" using digits_free by (simp add: isHostPortSafe_def digits1_def)
    then show ?thesis
      using haproxy_dst_free [OF True] True cidr_lines_free [of "''  acl rs_allowed_private var(sess.rs_dst) -m ip ''" p]
        blocked_lines_free [of "''  acl rs_private_dst var(sess.rs_dst) -m ip ''"]
      unfolding haproxy_entry_def Some hp by (simp del: append_Cons append_Nil list_all_iff)
  qed (simp add: haproxy_entry_def Some hp)
qed (simp add: haproxy_entry_def)

definition bind_line :: "string \<Rightarrow> bool" where
  "bind_line l = HasPrefix l ''  bind :''"

lemma entry_binds:
  assumes "cut_last_colon e = Some (host, port)" and "isHostPortSafe host port"
  shows "filter bind_line (haproxy_entry p e) = [''  bind :'' @ port]"
proof -
  have "filter bind_line (map (\<lambda>c. ''  acl rs_private_dst var(sess.rs_dst) -m ip '' @ c) xs) = []"
    "filter bind_line (map (\<lambda>c. ''  acl rs_allowed_private var(sess.rs_dst) -m ip '' @ c) xs) = []" for xs
    by (simp_all add: bind_line_def HasPrefix_rec filter_empty_conv)
  moreover have "\<not> bind_line (haproxy_dst host)" by (simp add: haproxy_dst_def bind_line_def HasPrefix_rec split: option.splits)
  ultimately show ?thesis
    using assms(2) unfolding haproxy_entry_def assms(1)
    by (simp add: bind_line_def HasPrefix_rec del: filter_map)
qed

lemma head_free: "list_all newline_free haproxy_head" "filter bind_line haproxy_head = []"
  by (simp_all add: haproxy_head_def dash_def bind_line_def HasPrefix_rec)

lemma haproxy_binds:
  "filter bind_line (split_char (CHR 0x0A) (RenderHAProxy r p)) = concat (map (\<lambda>e. filter bind_line (haproxy_entry p e)) (ryTCPEgress r))"
proof -
  have "list_all newline_free (haproxy_head @ concat (map (haproxy_entry p) (ryTCPEgress r)))"
    using head_free(1) haproxy_entry_free by (auto simp: list_all_iff)
  from split_unlines [OF this] show ?thesis
    using head_free(2) by (simp add: RenderHAProxy_def filter_concat comp_def bind_line_def HasPrefix_rec)
qed

lemma cut_last_colon_entry:
  assumes "h \<noteq> []" "CHR '':'' \<notin> set t"
  shows "cut_last_colon (h @ CHR '':'' # t) = Some (h, t)"
proof -
  have "cut_char CHR '':'' (rev (h @ CHR '':'' # t)) = (rev t, rev h, True)" using assms by (simp add: cut_char_found)
  then show ?thesis using assms by (simp add: cut_last_colon_def)
qed


lemma split_char_head: "split_char d s = a # ws \<Longrightarrow> a \<noteq> [] \<Longrightarrow> s \<noteq> [] \<and> hd s = hd a"
  by (cases s) (auto split: if_splits list.splits)

lemma parse_v4_head: "parse_v4 s = Some w \<Longrightarrow> is_digit (hd s)"
proof -
  assume "parse_v4 s = Some w"
  then obtain a b c d x where s: "split_char CHR ''.'' s = [a, b, c, d]" "octet a = Some x"
    by (auto simp: parse_v4_def split: list.splits option.splits)
  then have "a \<noteq> []" "is_digit (hd a)"
    by (auto simp: octet_def int_part_def digits1_def list_all_iff split: if_splits)
  then show ?thesis using split_char_head [OF s(1)] by simp
qed

lemma host_no_special: "list_all host_char h \<Longrightarrow> c \<in> set '':%[]'' \<Longrightarrow> c \<notin> set h"
  by (auto simp: list_all_iff host_char_def is_alnum_def is_digit_def is_lower_def is_upper_def)

lemma ParseIP_host:
  assumes "list_all host_char h" "ParseIP (trim_brackets h) \<noteq> None"
  shows "is_alnum (hd h)"
proof -
  have br: "\<forall>c \<in> set h. c \<noteq> CHR ''['' \<and> c \<noteq> CHR '']''" using host_no_special [OF assms(1)] by auto
  have "trim_brackets h = h"
  proof (cases h rule: rev_cases)
    case (snoc t c)
    obtain b u where h: "h = b # u" using snoc by (cases t) auto
    have "dropWhile (\<lambda>c. c = CHR ''['' \<or> c = CHR '']'') h = h" using br h by simp
    moreover have "dropWhile (\<lambda>c. c = CHR ''['' \<or> c = CHR '']'') (rev h) = rev h" using br snoc by simp
    ultimately show ?thesis by (simp add: trim_brackets_def Let_def)
  qed (simp add: trim_brackets_def)
  then have "ParseAddr h \<noteq> None" using assms(2) by (simp add: ParseIP_def)
  then obtain c a where c: "find (\<lambda>c. c \<in> {CHR ''.'', CHR '':'', CHR ''%''}) h = Some c" and a: "ParseAddr h = Some a"
    by (auto simp: ParseAddr_def split: option.splits)
  then have "c \<in> set h" "c \<in> {CHR ''.'', CHR '':'', CHR ''%''}" unfolding find_Some_iff by (metis nth_mem)+
  then have "c = CHR ''.''" using host_no_special [OF assms(1)] by auto
  then obtain w where "parse_v4 h = Some w" using a c by (auto simp: ParseAddr_def)
  then show ?thesis using parse_v4_head by (simp add: is_alnum_def)
qed

lemma entry_frontends:
  assumes "tcp_entry e q" "port_allowed r q"
  shows "filter bind_line (haproxy_entry p e) = (if is_alnum (hd e) then [''  bind :'' @ last_after_colon e] else [])"
proof -
  obtain h where e: "e = h @ CHR '':'' # show_int q" "h \<noteq> []" "list_all host_char h" using assms(1) by (auto simp: tcp_entry_def)
  have q: "1 \<le> q" "q \<le> 65535" using assms(2) by (auto simp: port_allowed_def)
  then have digs: "list_all is_digit (show_int q)" "show_int q \<noteq> []" "dec_val (show_int q) = q"
    using show_nat_digits [of "nat q"] by (simp_all add: show_int_nonneg)
  have cut: "cut_last_colon e = Some (h, show_int q)"
    unfolding e(1) by (rule cut_last_colon_entry [OF e(2) colon_not_digits [OF digs(1)]])
  have "isHostPortSafe h (show_int q) \<longleftrightarrow> is_alnum (hd h)"
    using ParseIP_host [OF e(3)] e(2,3) digs q by (auto simp: isHostPortSafe_def reHAProxyHost_def digits1_def)
  moreover have "last_after_colon e = show_int q"
    using e digs by (simp add: last_after_colon_split colon_not_host colon_not_digits)
  moreover have "hd e = hd h" using e by simp
  ultimately show ?thesis using entry_binds [OF cut, of p] by (simp add: haproxy_entry_def cut)
qed

section \<open>The properties\<close>



definition sample_yml :: RunnerYML where
  "sample_yml = \<lparr>ryRuntime = ''node:24'', ryLabels = [], ryVersion = [],
     ryResources = \<lparr>resMemory = ''4g'', resCPUs = 2, resPIDs = 512\<rparr>, ryAllowDomains = [],
     ryHTTPEgress = [''example.com'', ''bad domain''], ryTCPEgress = [''db.example.com:22'', ''.db.example.com:23''],
     ryDNS = \<lparr>dnsHost = None, dnsServers = [], dnsHostsFile = [], dnsWhitelistFile = [], dnsLogQueries = None\<rparr>,
     ryOrchestrator = \<lparr>obTimeoutSeconds = 60, obSecurityOverrides = [], obSeccompProfile = []\<rparr>\<rparr>"


text \<open>C23: Rendering fails closed: when some egress entry is a literal address in a private or
  special-use range that no approved network covers, the spawn gets an error and no file is written;
  when rendering succeeds, exactly the three configuration files of that spawn were written, in full.\<close>

theorem render_fails_closed:
  assumes "Render fs base sid r p = (ws, res)"
  shows "((\<exists>h \<in> set (egress_hosts r). \<exists>a. ParseIP (extractHost h) = Some a \<and> special_use a \<and>
             \<not> (\<exists>c \<in> set (plAllowedPrivateCIDRs p). net_Contains c a)) \<longrightarrow> ws = [] \<and> (\<exists>e. res = Inl e)) \<and>
    (\<forall>dir. res = Inr dir \<longrightarrow> dir = filepath_Join base sid \<and> ws = config_files dir r p)"
proof (cases "CheckEgressIPLiterals (egress_hosts r) p")
  case None
  then show ?thesis
    using Render_cases [OF assms] unfolding CheckEgressIPLiterals_None check_literal_None by (auto simp: None)
next
  case (Some e)
  then show ?thesis using Render_cases [OF assms] by simp
qed

lemma render_fails_closed_witness:
  "fst (Render \<lparr>feMkdirAll = (\<lambda>d. None), feWriteFile = (\<lambda>f. None)\<rparr> ''/e'' ''id1''
     (sample_yml\<lparr>ryTCPEgress := [''169.254.169.254:8080'']\<rparr>) zero_Policy) = []"
proof -
  let ?fs = "\<lparr>feMkdirAll = (\<lambda>d. None), feWriteFile = (\<lambda>f. None)\<rparr>" and ?r = "sample_yml\<lparr>ryTCPEgress := [''169.254.169.254:8080'']\<rparr>"
  obtain ws res where r: "Render ?fs ''/e'' ''id1'' ?r zero_Policy = (ws, res)" by force
  have "ParseIP (extractHost ''169.254.169.254:8080'') = Some (IPv4 0xA9FEA9FE)" by code_simp
  moreover have "special_use (IPv4 0xA9FEA9FE)" by (simp add: special_use_def special4_def)
  moreover have "''169.254.169.254:8080'' \<in> set (egress_hosts ?r)" by (simp add: egress_hosts_def)
  moreover have "plAllowedPrivateCIDRs zero_Policy = []" by (simp add: zero_Policy_def)
  ultimately have "ws = []" using render_fails_closed [OF r] by auto
  then show ?thesis unfolding r by simp
qed

text \<open>C24: for a validated \<open>runner.yml\<close> the listeners of the rendered \<open>haproxy.cfg\<close> are exactly one per
  TCP entry whose host starts with a letter or a digit, each on that entry's port and in their order; an
  entry that starts with a dot or a dash passes validation but gets no listener.\<close>

theorem haproxy_listeners_exact:
  assumes "ValidateEgress r = None"
  shows "filter bind_line (split_char (CHR 0x0A) (RenderHAProxy r p)) =
    map (\<lambda>e. ''  bind :'' @ last_after_colon e) (filter (\<lambda>e. is_alnum (hd e)) (ryTCPEgress r))"
proof -
  have "check_tcp r [] (ryTCPEgress r) = None" using assms by (simp add: ValidateEgress_def split: option.splits)
  then obtain ps where ps: "list_all2 tcp_entry (ryTCPEgress r) ps" "list_all (port_allowed r) ps"
    by (auto simp: check_tcp_iff)
  have "concat (map (\<lambda>e. filter bind_line (haproxy_entry p e)) es) = map (\<lambda>e. ''  bind :'' @ last_after_colon e) (filter (\<lambda>e. is_alnum (hd e)) es)"
    if "list_all2 tcp_entry es qs" "list_all (port_allowed r) qs" for es qs
    using that
  proof (induction rule: list_all2_induct)
    case (Cons e es q qs)
    then show ?case using entry_frontends [of e q r p] by simp
  qed simp
  from this [OF ps] show ?thesis by (simp only: haproxy_binds)
qed

lemma haproxy_listeners_exact_witness:
  "filter bind_line (split_char (CHR 0x0A) (RenderHAProxy (sample_yml\<lparr>ryHTTPEgress := []\<rparr>) zero_Policy)) = [''  bind :22'']"
proof -
  have "ValidateEgress (sample_yml\<lparr>ryHTTPEgress := []\<rparr>) = None" by code_simp
  from haproxy_listeners_exact [OF this, of zero_Policy]
  have "filter bind_line (split_char (CHR 0x0A) (RenderHAProxy (sample_yml\<lparr>ryHTTPEgress := []\<rparr>) zero_Policy)) =
      map (\<lambda>e. ''  bind :'' @ last_after_colon e) (filter (\<lambda>e. is_alnum (hd e)) (ryTCPEgress sample_yml))" by simp
  also have "\<dots> = [''  bind :22'']" by code_simp
  finally show ?thesis .
qed

end
