(* ===== verification/Kube_Policy.thy ===== *)
theory Kube_Policy
  imports Kube_Objects Egress_Thms
begin

text \<open>
  What the network policies of a namespace let through, after the documented meaning of a
  Kubernetes NetworkPolicy: a pod that some policy of a direction selects is isolated in that
  direction, and then exactly the connections that some rule of such a policy matches are allowed;
  a rule matches when one of its peers and one of its ports do, an empty list matching all. The
  meaning of a policy is a specification here, the policies are the ones the builders make.
\<close>

section \<open>Meaning of the policies\<close>

text \<open>One end of a connection: its address and, for a pod, its namespace with the labels of the
  namespace and its own labels.\<close>

record Endpoint =
  epIP :: ip
  epPod :: "(string \<times> (string, string) gomap \<times> (string, string) gomap) option"

definition match_labels :: "(string, string) gomap \<Rightarrow> (string, string) gomap \<Rightarrow> bool" where
  "match_labels sel labels = list_all (\<lambda>(k, v). map_of labels k = Some v) sel"

definition in_cidr :: "ip \<Rightarrow> string \<Rightarrow> bool" where
  "in_cidr a cidr = (case ParseCIDR cidr of Inl _ \<Rightarrow> False | Inr n \<Rightarrow> net_Contains n a)"

definition peer_matches :: "string \<Rightarrow> NetworkPolicyPeer \<Rightarrow> Endpoint \<Rightarrow> bool" where
  "peer_matches polNs peer ep =
     (case peerIPBlock peer of
        Some ib \<Rightarrow> in_cidr (epIP ep) (ibCIDR ib) \<and> \<not> list_ex (in_cidr (epIP ep)) (ibExcept ib)
      | None \<Rightarrow>
          (case epPod ep of
             None \<Rightarrow> False
           | Some (ns, nsLabels, labels) \<Rightarrow>
               (case peerNamespaceSelector peer of None \<Rightarrow> ns = polNs | Some sel \<Rightarrow> match_labels sel nsLabels) \<and>
               (case peerPodSelector peer of None \<Rightarrow> True | Some sel \<Rightarrow> match_labels sel labels)))"

definition rule_matches :: "string \<Rightarrow> NetworkPolicyRule \<Rightarrow> Endpoint \<Rightarrow> Protocol \<Rightarrow> int \<Rightarrow> bool" where
  "rule_matches polNs r ep proto port =
     ((rulePeers r = [] \<or> list_ex (\<lambda>p. peer_matches polNs p ep) (rulePeers r)) \<and>
      (rulePorts r = [] \<or> list_ex (\<lambda>p. nppProtocol p = proto \<and> nppPort p = port) (rulePorts r)))"

definition applies_to :: "Endpoint \<Rightarrow> NetworkPolicy \<Rightarrow> bool" where
  "applies_to ep pol =
     (case epPod ep of None \<Rightarrow> False
      | Some (ns, _, labels) \<Rightarrow> omNamespace (npMeta pol) = ns \<and> match_labels (npPodSelector pol) labels)"

fun dir_rules :: "PolicyType \<Rightarrow> NetworkPolicy \<Rightarrow> NetworkPolicyRule list" where
  "dir_rules PolicyTypeIngress p = npIngress p"
| "dir_rules PolicyTypeEgress p = npEgress p"

definition allowed_by :: "PolicyType \<Rightarrow> NetworkPolicy list \<Rightarrow> Endpoint \<Rightarrow> Endpoint \<Rightarrow> Protocol \<Rightarrow> int \<Rightarrow> bool" where
  "allowed_by dir pols self other proto port =
     (let sel = filter (\<lambda>p. applies_to self p \<and> dir \<in> set (npPolicyTypes p)) pols
      in sel = [] \<or> list_ex (\<lambda>p. list_ex (\<lambda>r. rule_matches (omNamespace (npMeta p)) r other proto port) (dir_rules dir p)) sel)"

definition egress_allowed :: "NetworkPolicy list \<Rightarrow> Endpoint \<Rightarrow> Endpoint \<Rightarrow> Protocol \<Rightarrow> int \<Rightarrow> bool" where
  "egress_allowed pols src dst proto port = allowed_by PolicyTypeEgress pols src dst proto port"

definition ingress_allowed :: "NetworkPolicy list \<Rightarrow> Endpoint \<Rightarrow> Endpoint \<Rightarrow> Protocol \<Rightarrow> int \<Rightarrow> bool" where
  "ingress_allowed pols src dst proto port = allowed_by PolicyTypeIngress pols dst src proto port"

text \<open>The policies of a namespace in which the given spawns run.\<close>

definition spawn_policies :: "KubeLib \<Rightarrow> SpawnInput \<Rightarrow> NetworkPolicy list" where
  "spawn_policies l inp = [RunnerEgressNetworkPolicy l inp, ProxyEgressNetworkPolicy l inp, ProxyIngressNetworkPolicy l inp]"

definition namespace_policies :: "KubeLib \<Rightarrow> string \<Rightarrow> string \<Rightarrow> SpawnInput list \<Rightarrow> NetworkPolicy list" where
  "namespace_policies l scope ns inps =
     (DefaultDenyNetworkPolicy scope)\<lparr>npMeta := (npMeta (DefaultDenyNetworkPolicy scope))\<lparr>omNamespace := ns\<rparr>\<rparr> #
     concat (map (spawn_policies l) inps)"

text \<open>A pod of a spawn, with the role it plays.\<close>

definition spawn_pod :: "KubeLib \<Rightarrow> SpawnInput \<Rightarrow> string \<Rightarrow> (string, string) gomap \<Rightarrow> ip \<Rightarrow> Endpoint" where
  "spawn_pod l inp role nsLabels a =
     \<lparr>epIP = a, epPod = Some (executionNamespace inp, nsLabels, Labels l inp role)\<rparr>"

definition has_role :: "SpawnInput \<Rightarrow> string \<Rightarrow> Endpoint \<Rightarrow> bool" where
  "has_role inp role ep =
     (case epPod ep of None \<Rightarrow> False
      | Some (ns, _, labels) \<Rightarrow> ns = executionNamespace inp \<and> map_of labels LabelRole = Some role \<and> map_of labels LabelSpawnID = Some (inSpawnID inp))"

definition is_cluster_dns :: "SpawnInput \<Rightarrow> Endpoint \<Rightarrow> bool" where
  "is_cluster_dns inp ep =
     (list_ex (in_cidr (epIP ep)) (inKubeDNSServiceCIDRs inp) \<or>
      (case epPod ep of None \<Rightarrow> False
       | Some (_, nsLabels, labels) \<Rightarrow> map_of nsLabels ''kubernetes.io/metadata.name'' = Some (inKubeDNSNamespace inp) \<and>
           map_of labels (inKubeDNSPodLabelKey inp) = Some (inKubeDNSPodLabelValue inp)))"

definition service_ports :: "SpawnInput \<Rightarrow> (Protocol \<times> int) set" where
  "service_ports inp =
     {(ProtocolTCP, 3128)} \<union> (if inEnableDNSMasq inp then {(ProtocolUDP, 53), (ProtocolTCP, 53)} else {}) \<union>
     {(ProtocolTCP, i32 p) |p. p \<in> set (inTCPEgressPorts inp)}"

section \<open>Which policies select a pod\<close>

lemma match_labels_simps [simp]: "match_labels [] labels" "match_labels ((k, v) # sel) labels \<longleftrightarrow> map_of labels k = Some v \<and> match_labels sel labels"
  by (simp_all add: match_labels_def)

lemma map_of_Labels [simp]:
  "map_of (Labels l inp role) LabelRole = Some role" "map_of (Labels l inp role) LabelSpawnID = Some (inSpawnID inp)"
  by (simp_all add: Labels_def LabelRole_def LabelSpawnID_def LabelScope_def LabelRepo_def)

lemma role_selector_match [simp]:
  "match_labels (role_selector inp role) (Labels l inp' role') \<longleftrightarrow> role = role' \<and> inSpawnID inp = inSpawnID inp'"
  by (auto simp: role_selector_def)

lemma roles_differ [simp]: "RoleRunner \<noteq> RoleProxy" "RoleProxy \<noteq> RoleRunner"
  by (simp_all add: RoleRunner_def RoleProxy_def)

lemma applies_spawn_policy [simp]:
  "applies_to (spawn_pod l inp role nl a) (RunnerEgressNetworkPolicy l inp') \<longleftrightarrow>
     executionNamespace inp' = executionNamespace inp \<and> role = RoleRunner \<and> inSpawnID inp' = inSpawnID inp"
  "applies_to (spawn_pod l inp role nl a) (ProxyEgressNetworkPolicy l inp') \<longleftrightarrow>
     executionNamespace inp' = executionNamespace inp \<and> role = RoleProxy \<and> inSpawnID inp' = inSpawnID inp"
  "applies_to (spawn_pod l inp role nl a) (ProxyIngressNetworkPolicy l inp') \<longleftrightarrow>
     executionNamespace inp' = executionNamespace inp \<and> role = RoleProxy \<and> inSpawnID inp' = inSpawnID inp"
  by (auto simp: applies_to_def spawn_pod_def RunnerEgressNetworkPolicy_def ProxyEgressNetworkPolicy_def
      ProxyIngressNetworkPolicy_def objectMeta_def)

lemma policy_types [simp]:
  "npPolicyTypes (RunnerEgressNetworkPolicy l inp) = [PolicyTypeEgress]"
  "npPolicyTypes (ProxyEgressNetworkPolicy l inp) = [PolicyTypeEgress]"
  "npPolicyTypes (ProxyIngressNetworkPolicy l inp) = [PolicyTypeIngress]"
  by (simp_all add: RunnerEgressNetworkPolicy_def ProxyEgressNetworkPolicy_def ProxyIngressNetworkPolicy_def)

lemma policy_meta [simp]:
  "omNamespace (npMeta (RunnerEgressNetworkPolicy l inp)) = executionNamespace inp"
  "omNamespace (npMeta (ProxyEgressNetworkPolicy l inp)) = executionNamespace inp"
  "omNamespace (npMeta (ProxyIngressNetworkPolicy l inp)) = executionNamespace inp"
  by (simp_all add: RunnerEgressNetworkPolicy_def ProxyEgressNetworkPolicy_def ProxyIngressNetworkPolicy_def objectMeta_def)

lemma policy_rules:
  "npEgress (RunnerEgressNetworkPolicy l inp) =
     [\<lparr>rulePeers = [pod_peer (role_selector inp RoleProxy)], rulePorts = proxy_ports inp\<rparr>, dns_rule inp]"
  "npEgress (ProxyEgressNetworkPolicy l inp) =
     [dns_rule inp, \<lparr>rulePeers = [ip_peer worldCIDR blockedIPv4EgressCIDRs], rulePorts = []\<rparr>] @
     map (\<lambda>cidr. \<lparr>rulePeers = [ip_peer cidr []], rulePorts = []\<rparr>) (inAllowedPrivateCIDRs inp)"
  "npIngress (ProxyIngressNetworkPolicy l inp) =
     [\<lparr>rulePeers = [pod_peer (role_selector inp RoleRunner)], rulePorts = proxy_ports inp\<rparr>]"
  by (simp_all add: RunnerEgressNetworkPolicy_def ProxyEgressNetworkPolicy_def ProxyIngressNetworkPolicy_def)

text \<open>With the default-deny policy in force a pod of the namespace is isolated in both directions.\<close>

lemma allowed_by_isolated:
  assumes "epPod self = Some (ns, nl, labels)"
  shows "allowed_by dir (namespace_policies l scope ns inps) self other proto port \<longleftrightarrow>
    (\<exists>inp \<in> set inps. \<exists>p \<in> set (spawn_policies l inp). applies_to self p \<and> dir \<in> set (npPolicyTypes p) \<and>
       list_ex (\<lambda>r. rule_matches (omNamespace (npMeta p)) r other proto port) (dir_rules dir p))"
proof -
  define deny where "deny = (DefaultDenyNetworkPolicy scope)\<lparr>npMeta := (npMeta (DefaultDenyNetworkPolicy scope))\<lparr>omNamespace := ns\<rparr>\<rparr>"
  have "applies_to self deny" "dir \<in> set (npPolicyTypes deny)" "dir_rules dir deny = []"
    using assms by (cases dir; simp add: applies_to_def deny_def DefaultDenyNetworkPolicy_def)+
  then show ?thesis
    unfolding allowed_by_def namespace_policies_def deny_def [symmetric] Let_def
    by (auto simp: list_ex_iff)
qed

text \<open>Among spawns with distinct identifiers the pods of one are selected by its own policies only.\<close>

lemma spawn_pod_allowed:
  assumes "distinct (map inSpawnID inps)" and "inp \<in> set inps"
  shows "allowed_by dir (namespace_policies l scope (executionNamespace inp) inps) (spawn_pod l inp role nl a) other proto port \<longleftrightarrow>
    (\<exists>p \<in> set (spawn_policies l inp). applies_to (spawn_pod l inp role nl a) p \<and> dir \<in> set (npPolicyTypes p) \<and>
       list_ex (\<lambda>r. rule_matches (executionNamespace inp) r other proto port) (dir_rules dir p))"
proof -
  have same: "inp' = inp" if "inp' \<in> set inps" "inSpawnID inp' = inSpawnID inp" for inp'
    using assms that by (metis distinct_map inj_onD)
  have "epPod (spawn_pod l inp role nl a) = Some (executionNamespace inp, nl, Labels l inp role)" by (simp add: spawn_pod_def)
  from allowed_by_isolated [OF this] same assms(2) show ?thesis
    unfolding spawn_policies_def by (fastforce simp: bex_simps)
qed

section \<open>Which connections a rule admits\<close>

lemma proxy_ports_iff:
  "list_ex (\<lambda>p. nppProtocol p = proto \<and> nppPort p = port) (proxy_ports inp) \<longleftrightarrow> (proto, port) \<in> service_ports inp"
  unfolding list_ex_iff proxy_ports_def service_ports_def policy_port_def proxyPort_def dnsPort_def
  by (cases "inEnableDNSMasq inp") (auto simp: bex_Un image_iff)

lemma proxy_ports_ne [simp]: "proxy_ports inp \<noteq> []"
  by (simp add: proxy_ports_def)

lemma pod_peer_iff: "peer_matches (executionNamespace inp) (pod_peer (role_selector inp role)) ep \<longleftrightarrow> has_role inp role ep"
  by (auto simp: peer_matches_def pod_peer_def has_role_def role_selector_def split: option.split)

lemma ip_peer_iff: "peer_matches ns (ip_peer cidr exc) ep \<longleftrightarrow> in_cidr (epIP ep) cidr \<and> \<not> list_ex (in_cidr (epIP ep)) exc"
  by (simp add: peer_matches_def ip_peer_def)

lemma dns_rule_iff: "rule_matches ns (dns_rule inp) ep proto port \<longleftrightarrow> is_cluster_dns inp ep \<and> port = 53"
proof -
  have "list_ex (\<lambda>p. peer_matches ns p ep) (clusterDNSPeers inp) \<longleftrightarrow> is_cluster_dns inp ep"
    unfolding clusterDNSPeers_def is_cluster_dns_def
    by (auto simp: list_ex_iff ip_peer_iff peer_matches_def [of ns "\<lparr>peerPodSelector = _, peerNamespaceSelector = _, peerIPBlock = None\<rparr>"]
        split: option.split_asm option.split)
  moreover have "clusterDNSPeers inp \<noteq> []" by (simp add: clusterDNSPeers_def)
  ultimately show ?thesis
    unfolding rule_matches_def dns_rule_def by (cases proto) (auto simp: policy_port_def dnsPort_def)
qed

lemma proxy_rule_iff:
  "rule_matches (executionNamespace inp) \<lparr>rulePeers = [pod_peer (role_selector inp role)], rulePorts = proxy_ports inp\<rparr> ep proto port \<longleftrightarrow>
     has_role inp role ep \<and> (proto, port) \<in> service_ports inp"
  by (simp add: rule_matches_def pod_peer_iff proxy_ports_iff)

lemma runner_egress_iff:
  assumes "distinct (map inSpawnID inps)" and "inp \<in> set inps"
  shows "egress_allowed (namespace_policies l scope (executionNamespace inp) inps) (spawn_pod l inp RoleRunner nl a) dst proto port \<longleftrightarrow>
    has_role inp RoleProxy dst \<and> (proto, port) \<in> service_ports inp \<or> is_cluster_dns inp dst \<and> port = 53"
  unfolding egress_allowed_def spawn_pod_allowed [OF assms] spawn_policies_def
  by (simp add: policy_rules proxy_rule_iff dns_rule_iff)

lemma runner_ingress_none:
  assumes "distinct (map inSpawnID inps)" and "inp \<in> set inps"
  shows "\<not> ingress_allowed (namespace_policies l scope (executionNamespace inp) inps) src (spawn_pod l inp RoleRunner nl a) proto port"
  unfolding ingress_allowed_def spawn_pod_allowed [OF assms] spawn_policies_def by simp

lemma proxy_ingress_iff:
  assumes "distinct (map inSpawnID inps)" and "inp \<in> set inps"
  shows "ingress_allowed (namespace_policies l scope (executionNamespace inp) inps) src (spawn_pod l inp RoleProxy nl a) proto port \<longleftrightarrow>
    has_role inp RoleRunner src \<and> (proto, port) \<in> service_ports inp"
  unfolding ingress_allowed_def spawn_pod_allowed [OF assms] spawn_policies_def
  by (simp add: policy_rules proxy_rule_iff)

section \<open>The proxy's way out\<close>

lemma world_cidr: "in_cidr (IPv4 w) worldCIDR"
proof -
  have "ParseCIDR worldCIDR = Inr (Net4 0 0)" by code_simp
  then show ?thesis by (simp add: in_cidr_def net_Contains_def)
qed

lemma blockedIPv4_eq:
  "blockedIPv4EgressCIDRs = [''10.0.0.0/8'', ''172.16.0.0/12'', ''192.168.0.0/16'', ''127.0.0.0/8'', ''169.254.0.0/16'',
     ''0.0.0.0/8'', ''100.64.0.0/10'', ''224.0.0.0/4'', ''240.0.0.0/4'']"
  by code_simp

lemma blockedIPv4_parse:
  "map ParseCIDR blockedIPv4EgressCIDRs = map Inr [Net4 0x0A000000 8, Net4 0xAC100000 12, Net4 0xC0A80000 16, Net4 0x7F000000 8,
     Net4 0xA9FE0000 16, Net4 0 8, Net4 0x64400000 10, Net4 0xE0000000 4, Net4 0xF0000000 4]"
  by code_simp

lemma blockedIPv4_special: "list_ex (in_cidr (IPv4 w)) blockedIPv4EgressCIDRs \<longleftrightarrow> special4 w"
proof -
  have "list_ex (in_cidr (IPv4 w)) blockedIPv4EgressCIDRs \<longleftrightarrow>
      list_ex (\<lambda>x. case x of Inl _ \<Rightarrow> False | Inr n \<Rightarrow> net_Contains n (IPv4 w)) (map ParseCIDR blockedIPv4EgressCIDRs)"
    by (simp add: in_cidr_def list_ex_iff split: sum.splits)
  also have "\<dots> \<longleftrightarrow> special4 w"
  proof -
    have "0 \<le> uint w" "uint w < 2 ^ 32" using uint_lt2p [of w] by simp_all
    then show ?thesis unfolding blockedIPv4_parse by (simp add: contains4 special4_def) linarith
  qed
  finally show ?thesis .
qed

lemma ip_rule_iff:
  "rule_matches ns \<lparr>rulePeers = [ip_peer cidr exc], rulePorts = []\<rparr> ep proto port \<longleftrightarrow>
     in_cidr (epIP ep) cidr \<and> \<not> list_ex (in_cidr (epIP ep)) exc"
  by (simp add: rule_matches_def ip_peer_iff)

lemma proxy_egress_iff:
  assumes "distinct (map inSpawnID inps)" and "inp \<in> set inps" and "epIP dst = IPv4 w"
  shows "egress_allowed (namespace_policies l scope (executionNamespace inp) inps) (spawn_pod l inp RoleProxy nl a) dst proto port \<longleftrightarrow>
    is_cluster_dns inp dst \<and> port = 53 \<or> \<not> special4 w \<or> (\<exists>cidr \<in> set (inAllowedPrivateCIDRs inp). in_cidr (IPv4 w) cidr)"
  unfolding egress_allowed_def spawn_pod_allowed [OF assms(1,2)] spawn_policies_def
  by (auto simp: policy_rules dns_rule_iff ip_rule_iff assms(3) world_cidr blockedIPv4_special list_ex_iff [of _ "map _ _"])

end
