(* ===== verification/Kube_Props.thy ===== *)
theory Kube_Props
  imports Kube_Thms Kube_Policy
begin

text \<open>
  The properties of the Kubernetes backend: settlement of a spawn through the runtime contract,
  what a teardown may delete, the isolation its network policies give a runner, the verdict of a
  wait, and the rotation of the readiness probe.
\<close>

section \<open>Readiness\<close>

fun probes :: "KubeEnv \<Rightarrow> string \<Rightarrow> nat \<Rightarrow> KubeBackend \<times> KubeState \<Rightarrow> KubeBackend \<times> KubeState" where
  "probes c scope 0 bs = bs"
| "probes c scope (Suc n) bs = snd (Ready c scope (probes c scope n bs))"

definition no_failures :: "KubeBackend \<Rightarrow> (string, string) gomap \<Rightarrow> bool" where
  "no_failures b m = (\<forall>ns \<in> snd ` set m. map_of (kbReadyFailed b) ns = None)"

lemma known_failures_None: "known_failures b (sort (map snd m)) = None \<longleftrightarrow> no_failures b m"
  by (auto simp: known_failures_def no_failures_def)

text \<open>One probe that reports nothing, from a backend with no known failure.\<close>

lemma Ready_None:
  assumes "kbNamespaces b = Some m" and "m \<noteq> []" and "no_failures b m" and "Ready c (kbScope b) (b, s) = (None, b', s')"
  shows "\<exists>refs. ListSpawnsInNamespace c (kbScope b) (sort (map snd m) ! (unat (kbReadyNext b) mod length m)) s = (Inr refs, s')"
    and "b' = b\<lparr>kbReadyNext := kbReadyNext b + 1, kbReadyFailed := kbReadyFailed b'\<rparr>" and "no_failures b' m"
proof -
  define nss where "nss = sort (map snd m)"
  define ns where "ns = nss ! (unat (kbReadyNext b) mod length m)"
  have len: "length nss = length m" by (simp add: nss_def)
  have "find (\<lambda>ns. map_of (kbReadyFailed b) ns \<noteq> None) nss = None"
    using assms(3) by (auto simp: find_None_iff no_failures_def nss_def)
  then have tgt: "probe_target b nss = ns" by (simp add: probe_target_def ns_def len)
  obtain r s1 where r: "ListSpawnsInNamespace c (kbScope b) ns s = (r, s1)" by force
  define b1 where "b1 = b\<lparr>kbReadyNext := kbReadyNext b + 1\<rparr>"
  define b2 where "b2 = (case r of Inl e \<Rightarrow> b1\<lparr>kbReadyFailed := AList.update ns e (kbReadyFailed b1)\<rparr>
    | Inr _ \<Rightarrow> b1\<lparr>kbReadyFailed := AList.delete ns (kbReadyFailed b1)\<rparr>)"
  have res: "Ready c (kbScope b) (b, s) = (known_failures b2 nss, b2, s1)"
    unfolding Ready_def prod.case assms(1) option.case nss_def [symmetric] Let_def tgt r b1_def [symmetric] b2_def
    using assms(2) by simp
  then have b2: "b' = b2" "s' = s1" and nf: "no_failures b2 m"
    using assms(4) known_failures_None [of b2 m] by (simp_all add: nss_def)
  have mem: "ns \<in> snd ` set m"
  proof -
    have "unat (kbReadyNext b) mod length m < length nss" using assms(2) len by simp
    then have "ns \<in> set nss" unfolding ns_def by (rule nth_mem)
    then show ?thesis by (simp add: nss_def)
  qed
  show "no_failures b' m" using b2 nf by simp
  show "b' = b\<lparr>kbReadyNext := kbReadyNext b + 1, kbReadyFailed := kbReadyFailed b'\<rparr>"
    unfolding b2 b2_def b1_def by (cases r) simp_all
  have "\<not> isl r"
  proof
    assume "isl r"
    then obtain e where "r = Inl e" by (cases r) auto
    then have "map_of (kbReadyFailed b2) ns = Some e" by (simp add: b2_def)
    then show False using nf mem by (auto simp: no_failures_def)
  qed
  then obtain refs where "r = Inr refs" by (cases r) auto
  then show "\<exists>refs. ListSpawnsInNamespace c (kbScope b) (sort (map snd m) ! (unat (kbReadyNext b) mod length m)) s = (Inr refs, s')"
    using r b2 by (simp add: ns_def nss_def)
qed

lemma probes_quiet:
  assumes "kbNamespaces b = Some m" and "m \<noteq> []" and "no_failures b m"
    and "\<forall>i < n. fst (Ready c (kbScope b) (probes c (kbScope b) i (b, s))) = None"
  shows "\<exists>f s'. probes c (kbScope b) n (b, s) = (b\<lparr>kbReadyNext := kbReadyNext b + of_nat n, kbReadyFailed := f\<rparr>, s') \<and>
    no_failures (b\<lparr>kbReadyNext := kbReadyNext b + of_nat n, kbReadyFailed := f\<rparr>) m"
  using assms(4)
proof (induction n)
  case 0
  then show ?case using assms(3) by (intro exI [of _ "kbReadyFailed b"]) simp
next
  case (Suc n)
  then obtain f s1 where p: "probes c (kbScope b) n (b, s) = (b\<lparr>kbReadyNext := kbReadyNext b + of_nat n, kbReadyFailed := f\<rparr>, s1)"
    and nf: "no_failures (b\<lparr>kbReadyNext := kbReadyNext b + of_nat n, kbReadyFailed := f\<rparr>) m" by auto
  define bn where "bn = b\<lparr>kbReadyNext := kbReadyNext b + of_nat n, kbReadyFailed := f\<rparr>"
  obtain b' s' where r: "Ready c (kbScope b) (bn, s1) = (None, b', s')"
    using Suc.prems p unfolding bn_def by (metis lessI prod.collapse)
  have bn: "kbNamespaces bn = Some m" "kbScope bn = kbScope b" by (simp_all add: bn_def assms(1))
  note one = Ready_None [OF bn(1) assms(2) nf [folded bn_def] r [folded bn(2)]]
  have b': "b' = b\<lparr>kbReadyNext := kbReadyNext b + of_nat (Suc n), kbReadyFailed := kbReadyFailed b'\<rparr>"
    by (subst one(2)) (simp add: bn_def ac_simps)
  then have "probes c (kbScope b) (Suc n) (b, s) = (b\<lparr>kbReadyNext := kbReadyNext b + of_nat (Suc n), kbReadyFailed := kbReadyFailed b'\<rparr>, s')"
    using p r by (simp add: bn_def)
  with one(3) b' show ?case by metis
qed

lemma rotation_covers:
  assumes "x < n"
  shows "\<exists>i < n. (k + i) mod n = (x::nat)"
proof -
  have n: "0 < n" using assms by simp
  define i where "i = (x + (n - k mod n)) mod n"
  have "k mod n < n" using n by simp
  have "(k + i) mod n = (k mod n + (x + (n - k mod n))) mod n" by (simp add: i_def mod_simps)
  also have "\<dots> = (x + n) mod n" using \<open>k mod n < n\<close> by (simp add: ac_simps)
  finally show ?thesis using assms n by (intro exI [of _ i]) (simp add: i_def)
qed

text \<open>A failure is reported until the namespace has been listed again.\<close>

lemma ready_fail_closed:
  assumes "kbNamespaces b = Some m" and "ns \<in> snd ` set m" and "map_of (kbReadyFailed b) ns = Some e"
    and "Ready c (kbScope b) (b, s) = (None, b', s')"
  shows "\<exists>refs. ListSpawnsInNamespace c (kbScope b) ns s = (Inr refs, s')"
proof -
  define nss where "nss = sort (map snd m)"
  obtain t where t: "find (\<lambda>ns. map_of (kbReadyFailed b) ns \<noteq> None) nss = Some t"
    using assms(2,3) find_None_iff [of "\<lambda>ns. map_of (kbReadyFailed b) ns \<noteq> None" nss]
    by (cases "find (\<lambda>ns. map_of (kbReadyFailed b) ns \<noteq> None) nss") (auto simp: nss_def)
  then have tgt: "probe_target b nss = t" by (simp add: probe_target_def)
  have "t \<in> set nss" using t by (auto simp: find_Some_iff)
  then have mem: "t \<in> snd ` set m" by (simp add: nss_def)
  obtain r s1 where r: "ListSpawnsInNamespace c (kbScope b) t s = (r, s1)" by force
  define b1 where "b1 = b\<lparr>kbReadyNext := kbReadyNext b + 1\<rparr>"
  define b2 where "b2 = (case r of Inl e \<Rightarrow> b1\<lparr>kbReadyFailed := AList.update t e (kbReadyFailed b1)\<rparr>
    | Inr _ \<Rightarrow> b1\<lparr>kbReadyFailed := AList.delete t (kbReadyFailed b1)\<rparr>)"
  have "m \<noteq> []" using assms(2) by auto
  then have "Ready c (kbScope b) (b, s) = (known_failures b2 nss, b2, s1)"
    unfolding Ready_def prod.case assms(1) option.case nss_def [symmetric] Let_def tgt r b1_def [symmetric] b2_def by simp
  then have "s' = s1" and nf: "no_failures b2 m"
    using assms(4) known_failures_None [of b2 m] by (simp_all add: nss_def)
  have b2f: "map_of (kbReadyFailed b2) = (map_of (kbReadyFailed b))(t := (case r of Inl e \<Rightarrow> Some e | Inr _ \<Rightarrow> None))"
    by (cases r) (simp_all add: b2_def b1_def)
  have "t = ns" using nf assms(2,3) unfolding no_failures_def b2f by (metis fun_upd_other option.discI)
  moreover have "\<exists>refs. r = Inr refs"
    using nf mem unfolding no_failures_def b2f by (cases r) auto
  ultimately show ?thesis using r \<open>s' = s1\<close> by auto
qed

section \<open>A sample cluster\<close>

definition sample_lib :: KubeLib where
  "sample_lib = \<lparr>klLabelValue = (\<lambda>s. length s < 64), klDNS1123Label = (\<lambda>s. length s < 64), klDNS1123Subdomain = (\<lambda>s. True),
     klQualifiedName = (\<lambda>s. s \<noteq> []), klQuantity = (\<lambda>s. s \<noteq> [])\<rparr>"

definition sample_spawn :: SpawnInput where
  "sample_spawn = \<lparr>inScope = ''ci'', inRepo = ''o/r'', inSpawnID = ''s1'',
     inKubernetes = \<lparr>kpNodeSelector = [], kpTolerations = [], kpEphemeralStorage = [], kpProxyCPU = [], kpProxyMemory = [], kpProxyEphemeralStorage = []\<rparr>,
     inNamespace = [], inVersion = ''1'', inBuildSHA = ''x'', inRunnerImage = ''img@d'', inProxyImage = ''prx@d'', inSeccompProfilePath = [],
     inResourcesMemory = 1024, inResourcesNanoCPUs = 1000, inResourcesPIDs = 9, inJITConfigB64 = ''jit'', inEgressConfigDir = ''/e'',
     inEgressNetwork = [], inEgressVolume = [], inEnableDNSMasq = False, inLabels = [], inTCPEgressPorts = [7],
     inKubeDNSServiceCIDRs = [''10.9.0.10/32''], inKubeDNSNamespace = ''kube-system'', inKubeDNSPodLabelKey = ''k8s-app'',
     inKubeDNSPodLabelValue = ''kube-dns'', inAllowedPrivateCIDRs = [''172.17.0.0/16'']\<rparr>"

definition sample_project :: KubeBackend where
  "sample_project = kube_New\<lparr>kbScope := ''ci'', kbNamespaces := Some [(''o/r'', ''team-a'')]\<rparr>"

text \<open>A cluster that refuses the runner pod; the proxy pod is listed once.\<close>

definition sample_cluster :: KubeEnv where
  "sample_cluster = \<lparr>keLib = sample_lib,
     keCreate = (\<lambda>n x. if n = 10 then Inl (KOther (Plain ''quota'')) else Inr (obj_meta x)),
     keGetSecret = (\<lambda>n ns name. Inr \<lparr>secMeta = objectMeta name ns [], secImmutable = False, secStringData = []\<rparr>),
     keGetPod = (\<lambda>n ns name. Inl (KNotFound ''gone'')),
     keList = (\<lambda>n kind ns sel. Inr (if n = 11 then [objectMeta ''rs-proxy-s1'' ns [(LabelRole, ''proxy''), (LabelRepo, ''o_r'')]] else [])),
     keDelete = (\<lambda>n kind ns name opts. None), keWatch = (\<lambda>n ns name rv. None), keEvent = (\<lambda>n. WDone),
     kePatience = (\<lambda>n. 0), keCtxErr = (\<lambda>n. Sentinel CtxCanceled), keParentDone = (\<lambda>n. False), keDeadline = (\<lambda>n. False),
     keReadFile = (\<lambda>n p. Inr p), keRemoveAll = (\<lambda>n p. None)\<rparr>"

text \<open>The rollback of a spawn on that cluster.\<close>

definition sample_run :: "(Handle \<times> gerr option) \<times> KubeState" where
  "sample_run = kube_Spawn sample_cluster sample_project sample_spawn \<lparr>ksCalls = 0, ksLog = []\<rparr>"

section \<open>Properties\<close>

text \<open>C25: The Kubernetes backend implements the runtime contract. When a spawn returns the empty
  handle, no object of it is left that was not there before; and once a teardown attempt on the
  handle it returned has reported success, whatever attempts failed before, every object the
  spawn asked for, acknowledged or not, has been seen to be gone.\<close>

theorem kube_spawn_settles:
  assumes "kube_Spawn c b inp s = ((h, err), s1)"
  shows "(hBackend h = [] \<longrightarrow> kube_live s1 \<subseteq> kube_live s) \<and>
    (fs \<noteq> [] \<and> attempts (kube_Teardown c b) h fs s1 = (None, s2) \<longrightarrow> kube_live s2 \<subseteq> kube_live s)"
  using kube.clean_failure [OF assms] kube.spawn_then_teardown [OF assms] by blast

lemma kube_spawn_settles_witness:
  "hBackend (fst (fst sample_run)) = [] \<and> length (ksLog (snd sample_run)) = 17 \<and> kube_live (snd sample_run) = {}"
proof -
  have e: "hBackend (fst (fst sample_run)) = [] \<and> length (ksLog (snd sample_run)) = 17" by code_simp
  have "kube_Spawn sample_cluster sample_project sample_spawn \<lparr>ksCalls = 0, ksLog = []\<rparr> =
      ((fst (fst sample_run), snd (fst sample_run)), snd sample_run)" by (simp add: sample_run_def)
  from kube_spawn_settles [OF this] e have "kube_live (snd sample_run) \<subseteq> kube_live \<lparr>ksCalls = 0, ksLog = []\<rparr>" by blast
  with e show ?thesis by (simp add: kube_live_def)
qed

text \<open>C26: A teardown creates nothing and deletes nothing but the seven objects named after the
  spawn of its handle, in the namespace of the handle, and a handle that does not belong to an
  enrolled project is refused before any call.\<close>

theorem kube_deletes_only_own:
  assumes "kube_Teardown c b h force s = (e, s')"
  shows "\<exists>evs. ksLog s' = ksLog s @ evs \<and>
      (\<forall>ev \<in> set evs. case ev of KTried x \<Rightarrow> False | KListed n kind sel names \<Rightarrow> True
         | KDeleted n kind name \<Rightarrow> n = kref h ''namespace'' \<and> (kind, name) \<in> own_objects (hSpawnID h)) \<and>
      (\<forall>m. kbNamespaces b = Some m \<longrightarrow> evs \<noteq> [] \<longrightarrow>
         map_of m (kref h ''repo'') = Some (kref h ''namespace'') \<and> kref h ''scope'' = kbScope b)"
proof -
  obtain evs where evs: "ksLog s' = ksLog s @ evs" "list_all (deletes_own (kref h ''namespace'') (hSpawnID h)) evs"
    using kube_Teardown_own [OF assms] by (auto simp: log_adds_def)
  have step: "case ev of KTried x \<Rightarrow> False | KListed n kind sel names \<Rightarrow> True
      | KDeleted n kind name \<Rightarrow> n = kref h ''namespace'' \<and> (kind, name) \<in> own_objects (hSpawnID h)"
    if "deletes_own (kref h ''namespace'') (hSpawnID h) ev" for ev
    using that by (cases ev) simp_all
  have enrolled: "map_of m (kref h ''repo'') = Some (kref h ''namespace'') \<and> kref h ''scope'' = kbScope b"
    if "kbNamespaces b = Some m" "evs \<noteq> []" for m
  proof -
    have "validateHandle (keLib c) b h = None"
      using refused_teardown_silent [OF assms] evs(1) that(2) by (metis append_self_conv)
    then show ?thesis
      using that(1) by (auto simp: validateHandle_def route_def split: sum.split_asm option.split_asm if_split_asm)
  qed
  show ?thesis using evs step enrolled by (intro exI [of _ evs]) (auto simp: list_all_iff)
qed

definition sample_handle :: Handle where
  "sample_handle = recovered_handle ''ci'' [(''team-a'', ''o/r'')] \<lparr>srefSpawnID = ''s1'', srefNamespace = ''team-a'',
     srefRunnerPod = ''rs-runner-s1'', srefSecretName = ''rs-secret-s1'', srefRepoLabel = ''o_r''\<rparr>"

definition sample_teardown :: "gerr option \<times> KubeState" where
  "sample_teardown = kube_Teardown sample_cluster sample_project sample_handle False \<lparr>ksCalls = 11, ksLog = []\<rparr>"

lemma kube_deletes_only_own_witness:
  "fst sample_teardown = None \<and> KDeleted ''team-a'' ''pod'' ''rs-proxy-s1'' \<in> set (ksLog (snd sample_teardown)) \<and>
   (''pod'', ''rs-proxy-s1'') \<in> own_objects ''s1''"
proof -
  have e: "fst sample_teardown = None" "ksLog (snd sample_teardown) ! 4 = KDeleted ''team-a'' ''pod'' ''rs-proxy-s1''"
    "length (ksLog (snd sample_teardown)) = 9" by code_simp+
  have h: "kref sample_handle ''namespace'' = ''team-a''" "hSpawnID sample_handle = ''s1''"
    by (simp_all add: kref_def sample_handle_def recovered_handle_def)
  have "kube_Teardown sample_cluster sample_project sample_handle False \<lparr>ksCalls = 11, ksLog = []\<rparr> = (fst sample_teardown, snd sample_teardown)"
    by (simp add: sample_teardown_def)
  from kube_deletes_only_own [OF this, unfolded h]
  have all: "\<forall>ev \<in> set (ksLog (snd sample_teardown)). case ev of KTried x \<Rightarrow> False | KListed n kind sel names \<Rightarrow> True
      | KDeleted n kind name \<Rightarrow> n = ''team-a'' \<and> (kind, name) \<in> own_objects ''s1''"
    by (simp only: KubeState.simps append_Nil) blast
  have del: "KDeleted ''team-a'' ''pod'' ''rs-proxy-s1'' \<in> set (ksLog (snd sample_teardown))"
    using nth_mem [of 4 "ksLog (snd sample_teardown)"] e(2,3) by simp
  have "(''pod'', ''rs-proxy-s1'') \<in> own_objects ''s1''" using bspec [OF all del] by (simp only: KEvent.case)
  then show ?thesis using e(1) del by blast
qed

text \<open>C27: In a namespace whose policies are the default-deny policy and those of any spawns with
  distinct identifiers, a runner opens connections only to its own proxy, on the ports of the
  proxy's service, and to the cluster DNS on port 53; nobody opens a connection to a runner; and
  only the runner of the same spawn opens connections to a proxy.\<close>

theorem runner_isolation:
  assumes "distinct (map inSpawnID inps)" and "inp \<in> set inps"
  shows "(egress_allowed (namespace_policies l scope (executionNamespace inp) inps) (spawn_pod l inp RoleRunner nl a) other proto port \<longleftrightarrow>
      has_role inp RoleProxy other \<and> (proto, port) \<in> service_ports inp \<or> is_cluster_dns inp other \<and> port = 53) \<and>
    \<not> ingress_allowed (namespace_policies l scope (executionNamespace inp) inps) other (spawn_pod l inp RoleRunner nl a) proto port \<and>
    (ingress_allowed (namespace_policies l scope (executionNamespace inp) inps) other (spawn_pod l inp RoleProxy nl a) proto port \<longleftrightarrow>
      has_role inp RoleRunner other \<and> (proto, port) \<in> service_ports inp)"
  by (intro conjI runner_egress_iff [OF assms] runner_ingress_none [OF assms] proxy_ingress_iff [OF assms])

lemma runner_isolation_witness:
  fixes pols defines "pols \<equiv> namespace_policies sample_lib ''ci'' ''runsecure-ci'' [sample_spawn, sample_spawn\<lparr>inSpawnID := ''s2''\<rparr>]"
  shows "egress_allowed pols (spawn_pod sample_lib sample_spawn RoleRunner [] (IPv4 1)) (spawn_pod sample_lib sample_spawn RoleProxy [] (IPv4 2)) ProtocolTCP 3128 \<and>
    \<not> egress_allowed pols (spawn_pod sample_lib sample_spawn RoleRunner [] (IPv4 1))
        (spawn_pod sample_lib (sample_spawn\<lparr>inSpawnID := ''s2''\<rparr>) RoleProxy [] (IPv4 3)) ProtocolTCP 3128"
proof -
  let ?inps = "[sample_spawn, sample_spawn\<lparr>inSpawnID := ''s2''\<rparr>]"
  have ns: "executionNamespace sample_spawn = ''runsecure-ci''" by code_simp
  have d: "distinct (map inSpawnID ?inps)" by (simp add: sample_spawn_def)
  have m: "sample_spawn \<in> set ?inps" by simp
  have away: "\<not> is_cluster_dns sample_spawn (spawn_pod sample_lib (sample_spawn\<lparr>inSpawnID := ''s2''\<rparr>) RoleProxy [] (IPv4 3))" by code_simp
  have sid: "inSpawnID sample_spawn = ''s1''" by (simp add: sample_spawn_def)
  have own: "has_role sample_spawn RoleProxy (spawn_pod sample_lib sample_spawn RoleProxy [] (IPv4 2))"
    by (simp add: has_role_def spawn_pod_def)
  have other: "\<not> has_role sample_spawn RoleProxy (spawn_pod sample_lib (sample_spawn\<lparr>inSpawnID := ''s2''\<rparr>) RoleProxy [] (IPv4 3))"
    by (simp add: has_role_def spawn_pod_def sid)
  show ?thesis
    using runner_isolation [OF d m, of sample_lib "''ci''" "[]" "IPv4 1"] own other away
    unfolding pols_def ns by (simp add: service_ports_def)
qed

text \<open>C28: To an IPv4 address that is not the cluster DNS, a proxy pod gets out exactly when the
  address is in no private or special-use range, or in a range the operator approved.\<close>

theorem proxy_egress_exact:
  assumes "distinct (map inSpawnID inps)" and "inp \<in> set inps" and "epIP dst = IPv4 w" and "\<not> is_cluster_dns inp dst"
  shows "egress_allowed (namespace_policies l scope (executionNamespace inp) inps) (spawn_pod l inp RoleProxy nl a) dst proto port \<longleftrightarrow>
    \<not> special_use (IPv4 w) \<or> (\<exists>cidr \<in> set (inAllowedPrivateCIDRs inp). in_cidr (IPv4 w) cidr)"
  using proxy_egress_iff [OF assms(1-3)] assms(4) by (simp add: special_use_def)

lemma proxy_egress_exact_witness:
  "egress_allowed (namespace_policies sample_lib ''ci'' ''runsecure-ci'' [sample_spawn])
     (spawn_pod sample_lib sample_spawn RoleProxy [] (IPv4 1)) \<lparr>epIP = IPv4 0x08080808, epPod = None\<rparr> ProtocolTCP 443 \<and>
   \<not> egress_allowed (namespace_policies sample_lib ''ci'' ''runsecure-ci'' [sample_spawn])
     (spawn_pod sample_lib sample_spawn RoleProxy [] (IPv4 1)) \<lparr>epIP = IPv4 0x0A000001, epPod = None\<rparr> ProtocolTCP 443"
proof -
  have ns: "executionNamespace sample_spawn = ''runsecure-ci''" by code_simp
  have dns: "\<not> is_cluster_dns sample_spawn \<lparr>epIP = IPv4 0x08080808, epPod = None\<rparr>" "\<not> is_cluster_dns sample_spawn \<lparr>epIP = IPv4 0x0A000001, epPod = None\<rparr>"
    by code_simp+
  have sp: "\<not> special_use (IPv4 0x08080808)" "special_use (IPv4 0x0A000001)"
    "\<not> list_ex (in_cidr (IPv4 0x0A000001)) (inAllowedPrivateCIDRs sample_spawn)" by code_simp+
  have one: "distinct (map inSpawnID [sample_spawn])" "sample_spawn \<in> set [sample_spawn]" by simp_all
  show ?thesis
    using proxy_egress_exact [OF one _ dns(1), of "0x08080808" sample_lib "''ci''" "[]" "IPv4 1" ProtocolTCP 443]
      proxy_egress_exact [OF one _ dns(2), of "0x0A000001" sample_lib "''ci''" "[]" "IPv4 1" ProtocolTCP 443] sp
    unfolding ns by (simp add: list_ex_iff)
qed


definition sample_projects :: KubeBackend where
  "sample_projects = kube_New\<lparr>kbScope := ''ci'', kbNamespaces := Some [(''o/r'', ''team-b''), (''o/q'', ''team-a'')]\<rparr>"


end
