(* ===== verification/Config_Model.thy ===== *)
theory Config_Model
  imports Kube_Backend
begin

text \<open>
  The scope configuration, package \<open>internal/config\<close>: loading, validation with its defaults, and
  the enrolment of projects. The YAML decoder, the file system and the quantities of apimachinery
  are the environment \<open>ConfigEnv\<close>.

  \<open>Validate\<close> fills in defaults as it goes; the model returns the completed scope. After an error the
  scope is not used again, so only the error is kept. A nil and an empty node selector are not
  told apart: a decoded scope has a non-nil one only when \<open>sharedSettingsDeclared\<close> is set.
\<close>

section \<open>Data\<close>

record AuthBlock =
  abType :: string
  abPATFile :: string
  abAppID :: int
  abInstallationID :: int
  abPrivateKeyFile :: string

record RepoBlock =
  rbSharedDeclared :: bool
  rbNamespace :: string
  rbRunnerConfig :: "RunnerYML option"
  rbRunnerImage :: string
  rbKubernetes :: KubePodSettings
  rbRepo :: string
  rbProjectDir :: string
  rbMaxConcurrent :: int

record Scope =
  scAPIVersion :: string
  scName :: string
  scDescription :: string
  scBackend :: string
  scGlobalMaxRunners :: int
  scPollIntervalSeconds :: int
  scSecurityProfile :: string
  scSecurityOverrides :: "(string, yval) gomap"
  scAllowProjectOverrides :: "string list"
  scAuth :: AuthBlock
  scAllowDomains :: "string list"
  scRepos :: "RepoBlock list"

text \<open>\<open>os.Stat\<close>: the permission bits and whether it is a directory. The last two fields are the
  sign and the comparison of parsed quantities.\<close>

record ConfigEnv =
  ceLib :: KubeLib
  ceReadFile :: "string \<Rightarrow> gerr + string"
  ceUnmarshal :: "string \<Rightarrow> gerr + Scope"
  ceStat :: "string \<Rightarrow> gerr + int \<times> bool"
  ceQuantityPositive :: "string \<Rightarrow> bool"
  ceQuantityAtMost :: "string \<Rightarrow> string \<Rightarrow> bool"

section \<open>Loading\<close>

definition SupportedAPIVersion :: string where
  "SupportedAPIVersion = ''runsecure.io/v1alpha1''"

text \<open>The keys of a repository entry decide whether it opts into shared settings.\<close>

definition unmarshal_repo :: "string list \<Rightarrow> RepoBlock \<Rightarrow> RepoBlock" where
  "unmarshal_repo names decoded =
     decoded\<lparr>rbSharedDeclared := list_ex (\<lambda>n. n \<in> {''runner_config'', ''runner_image'', ''kubernetes''}) names\<rparr>"

definition scope_Load :: "ConfigEnv \<Rightarrow> string \<Rightarrow> gerr + Scope" where
  "scope_Load env path =
     (case ceReadFile env path of
        Inl e \<Rightarrow> Inl (Wrap (''config: read '' @ path @ '': '') e [])
      | Inr b \<Rightarrow>
          (case ceUnmarshal env b of
             Inl e \<Rightarrow> Inl (Wrap (''config: parse '' @ path @ '': '') e [])
           | Inr s \<Rightarrow>
               if scAPIVersion s = []
               then Inl (Plain (''config: '' @ path @ '': apiVersion is required (expected '' @ SupportedAPIVersion @ '')''))
               else if scAPIVersion s \<noteq> SupportedAPIVersion
               then Inl (Plain (''config: '' @ path @ '': unsupported apiVersion '' @ scAPIVersion s @ '' (expected '' @ SupportedAPIVersion @ '')''))
               else Inr s))"

definition shared_repo :: "RepoBlock \<Rightarrow> bool" where
  "shared_repo r =
     (rbNamespace r \<noteq> [] \<or> rbSharedDeclared r \<or> rbRunnerConfig r \<noteq> None \<or> rbRunnerImage r \<noteq> [] \<or>
      kpNodeSelector (rbKubernetes r) \<noteq> [] \<or> kpTolerations (rbKubernetes r) \<noteq> [] \<or> kpEphemeralStorage (rbKubernetes r) \<noteq> [] \<or>
      kpProxyCPU (rbKubernetes r) \<noteq> [] \<or> kpProxyMemory (rbKubernetes r) \<noteq> [] \<or> kpProxyEphemeralStorage (rbKubernetes r) \<noteq> [])"

definition SharedKubernetes :: "Scope \<Rightarrow> bool" where
  "SharedKubernetes s = list_ex shared_repo (scRepos s)"

definition ProjectNamespaces :: "Scope \<Rightarrow> (string, string) gomap" where
  "ProjectNamespaces s =
     (if \<not> SharedKubernetes s then []
      else fold (\<lambda>r. AList.update (rbRepo r) (rbNamespace r)) (scRepos s) [])"

section \<open>The approved runner\<close>

definition repoIdentity :: "string \<Rightarrow> bool" where
  "repoIdentity s = validProjectRepo s"

definition runnerRuntime :: "string \<Rightarrow> bool" where
  "runnerRuntime s =
     (case cut_char CHR '':'' s of (name, ver, found) \<Rightarrow>
        name \<in> {''node'', ''python'', ''rust''} \<and>
        (found \<longrightarrow> ver \<noteq> [] \<and> is_alnum (hd ver) \<and> list_all repo_char ver))"

definition runnerMemory :: "string \<Rightarrow> bool" where
  "runnerMemory s =
     (2 \<le> length s \<and> list_all is_digit (butlast s) \<and> hd s \<noteq> CHR ''0'' \<and>
      last s \<in> {CHR ''k'', CHR ''K'', CHR ''m'', CHR ''M'', CHR ''g'', CHR ''G''})"

definition runnerLabel :: "string \<Rightarrow> bool" where
  "runnerLabel s = (s \<noteq> [] \<and> is_alnum (hd s) \<and> list_all (\<lambda>c. repo_char c \<or> c = CHR ''='') s)"

definition hex_char :: "char \<Rightarrow> bool" where
  "hex_char c = (is_digit c \<or> c \<in> {CHR ''a'', CHR ''b'', CHR ''c'', CHR ''d'', CHR ''e'', CHR ''f''})"

definition immutableImage :: "string \<Rightarrow> bool" where
  "immutableImage s =
     (case cut_char CHR ''@'' s of (name, rest, found) \<Rightarrow>
        found \<and> name \<noteq> [] \<and> (is_digit (hd name) \<or> is_lower (hd name)) \<and>
        list_all (\<lambda>c. is_digit c \<or> is_lower c \<or> c \<in> {CHR ''.'', CHR ''/'', CHR '':'', CHR ''_'', CHR ''-''}) name \<and>
        HasPrefix rest ''sha256:'' \<and> length (drop 7 rest) = 64 \<and> list_all hex_char (drop 7 rest))"

definition memory_unit :: "char \<Rightarrow> int" where
  "memory_unit c = (if c \<in> {CHR ''k'', CHR ''K''} then 2 ^ 10 else if c \<in> {CHR ''m'', CHR ''M''} then 2 ^ 20 else 2 ^ 30)"

text \<open>The labels, with the lower-cased ones and the architecture so far.\<close>

fun check_labels :: "string list \<Rightarrow> string \<Rightarrow> string list \<Rightarrow> gerr + string" where
  "check_labels seen arch [] = Inr arch"
| "check_labels seen arch (label # labels) =
     (let lower = to_lower label in
      if 255 < length label \<or> \<not> runnerLabel label \<or> lower \<in> set seen
      then Inl (Plain ''runner_config.labels contains invalid or duplicate label'')
      else if lower \<in> {''arm'', ''x86'', ''windows'', ''macos''}
      then Inl (Plain ''runner_config.labels unsupported OS or architecture'')
      else let candidate = (if lower = ''arm64'' then ''arm64'' else if lower = ''x64'' then ''amd64'' else []) in
        if candidate \<noteq> [] \<and> arch \<noteq> [] \<and> candidate \<noteq> arch
        then Inl (Plain ''runner_config.labels has conflicting architectures'')
        else check_labels (lower # seen) (if candidate \<noteq> [] then candidate else arch) labels)"

definition archKey :: string where "archKey = ''kubernetes.io/arch''"

definition osKey :: string where "osKey = ''kubernetes.io/os''"

fun check_toleration :: "KubeLib \<Rightarrow> KubeToleration \<Rightarrow> KubeToleration option" where
  "check_toleration l tol0 =
     (let tol = (if ktOperator tol0 = [] then tol0\<lparr>ktOperator := ''Equal''\<rparr> else tol0) in
      if ktKey tol = [] \<or> \<not> klQualifiedName l (ktKey tol) \<or> \<not> klLabelValue l (ktValue tol) \<or>
         ktOperator tol \<noteq> ''Equal'' \<and> ktOperator tol \<noteq> ''Exists'' \<or> ktOperator tol = ''Exists'' \<and> ktValue tol \<noteq> [] \<or>
         ktEffect tol \<noteq> ''NoSchedule'' \<and> ktEffect tol \<noteq> ''PreferNoSchedule'' \<and> ktEffect tol \<noteq> ''NoExecute'' \<or>
         (case ktTolerationSeconds tol of None \<Rightarrow> False | Some n \<Rightarrow> ktEffect tol \<noteq> ''NoExecute'' \<or> n < 0 \<or> 86400 < n)
      then None else Some tol)"

fun check_tolerations :: "KubeLib \<Rightarrow> KubeToleration list \<Rightarrow> KubeToleration list option" where
  "check_tolerations l [] = Some []"
| "check_tolerations l (t # ts) =
     (case check_toleration l t of
        None \<Rightarrow> None
      | Some t' \<Rightarrow> map_option (\<lambda>r. t' # r) (check_tolerations l ts))"

definition or_default :: "string \<Rightarrow> string \<Rightarrow> string" where
  "or_default v d = (if v = [] then d else v)"

definition quantity_ok :: "ConfigEnv \<Rightarrow> string \<Rightarrow> string \<Rightarrow> bool" where
  "quantity_ok env v bound = (klQuantity (ceLib env) v \<and> ceQuantityPositive env v \<and> ceQuantityAtMost env v bound)"

definition validatePodSettings :: "ConfigEnv \<Rightarrow> string \<Rightarrow> KubePodSettings \<Rightarrow> gerr + KubePodSettings" where
  "validatePodSettings env arch settings =
     (let l = ceLib env; sel = kpNodeSelector settings;
          normalizedSelectors = length sel + length (filter (\<lambda>k. map_of sel k = None) [archKey, osKey]) in
      if 16 < normalizedSelectors \<or> 16 < length (kpTolerations settings)
      then Inl (Plain ''kubernetes placement exceeds 16 entries'')
      else if list_ex (\<lambda>(k, v). \<not> klQualifiedName l k \<or> \<not> klLabelValue l v) sel
      then Inl (Plain ''kubernetes.node_selector invalid label'')
      else if lookup_or [] sel archKey \<noteq> [] \<and> lookup_or [] sel archKey \<noteq> arch
      then Inl (Plain ''kubernetes.node_selector architecture conflicts with runner labels'')
      else if lookup_or [] sel osKey \<noteq> [] \<and> lookup_or [] sel osKey \<noteq> ''linux''
      then Inl (Plain ''kubernetes.node_selector OS must be linux'')
      else case check_tolerations l (kpTolerations settings) of
        None \<Rightarrow> Inl (Plain ''kubernetes.tolerations invalid bounded toleration'')
      | Some tols \<Rightarrow>
          let out = \<lparr>kpNodeSelector = AList.update osKey ''linux'' (AList.update archKey arch sel), kpTolerations = tols,
                kpEphemeralStorage = or_default (kpEphemeralStorage settings) ''10Gi'',
                kpProxyCPU = or_default (kpProxyCPU settings) ''250m'', kpProxyMemory = or_default (kpProxyMemory settings) ''256Mi'',
                kpProxyEphemeralStorage = or_default (kpProxyEphemeralStorage settings) ''1Gi''\<rparr> in
          if list_all (\<lambda>(v, m). quantity_ok env v m)
               [(kpEphemeralStorage out, ''1Ti''), (kpProxyCPU out, ''8''), (kpProxyMemory out, ''8Gi''), (kpProxyEphemeralStorage out, ''100Gi'')]
          then Inr out else Inl (Plain ''kubernetes resource quantity must be positive and bounded''))"

definition memory_bounded :: "string \<Rightarrow> bool" where
  "memory_bounded memory =
     (let count = dec_val (butlast memory) in count < 2 ^ 63 \<and> count \<le> (512 * 2 ^ 30) div memory_unit (last memory))"

definition validateApprovedRunner :: "ConfigEnv \<Rightarrow> RepoBlock \<Rightarrow> gerr + RepoBlock" where
  "validateApprovedRunner env r =
     (case rbRunnerConfig r of
        None \<Rightarrow> Inl (Plain ''runner_config required for shared Kubernetes'')
      | Some runner \<Rightarrow>
          let res = ryResources runner; orch = ryOrchestrator runner in
          if \<not> runnerRuntime (ryRuntime runner) then Inl (Plain ''runner_config.runtime must select node, python or rust'')
          else if \<not> runnerMemory (resMemory res) \<or> resCPUs res < 1 \<or> 128 < resCPUs res \<or> resPIDs res < 1 \<or> 32768 < resPIDs res
          then Inl (Plain ''runner_config.resources require positive bounded memory, cpus and pids'')
          else if \<not> memory_bounded (resMemory res) then Inl (Plain ''runner_config.resources.memory exceeds 512g'')
          else if ryLabels runner = [] \<or> 98 < length (ryLabels runner)
          then Inl (Plain ''runner_config.labels require 1 to 98 labels'')
          else (case check_labels [] [] (ryLabels runner) of
             Inl e \<Rightarrow> Inl e
           | Inr arch0 \<Rightarrow>
               let arch = (if arch0 = [] then ''amd64'' else arch0) in
               if obSeccompProfile orch \<noteq> [] then Inl (Plain ''custom seccomp profiles unsupported; use RuntimeDefault'')
               else if obTimeoutSeconds orch < 0 \<or> 86400 < obTimeoutSeconds orch
               then Inl (Plain ''runner_config timeout must be between 0 and 86400 seconds'')
               else let runner' = (if obTimeoutSeconds orch = 0 then runner\<lparr>ryOrchestrator := orch\<lparr>obTimeoutSeconds := 21600\<rparr>\<rparr> else runner) in
                 (case ValidateEgress runner' of
                    Some e \<Rightarrow> Inl e
                  | None \<Rightarrow>
                      if rbRunnerImage r \<noteq> [] \<and> \<not> immutableImage (rbRunnerImage r)
                      then Inl (Plain ''runner_image must be immutable image@sha256 digest'')
                      else (case validatePodSettings env arch (rbKubernetes r) of
                              Inl e \<Rightarrow> Inl e
                            | Inr k \<Rightarrow> Inr (r\<lparr>rbRunnerConfig := Some runner', rbKubernetes := k\<rparr>)))))"

section \<open>Projects\<close>

fun validate_shared ::
  "ConfigEnv \<Rightarrow> Scope \<Rightarrow> Policy \<Rightarrow> nat \<Rightarrow> string list \<Rightarrow> string list \<Rightarrow> RepoBlock list \<Rightarrow> gerr + RepoBlock list" where
  "validate_shared env s base i repos namespaces [] = Inr []"
| "validate_shared env s base i repos namespaces (r # rs) =
     (let identity = to_lower (rbRepo r); ns = rbNamespace r in
      if \<not> repoIdentity (rbRepo r) \<or> identity \<in> set repos
      then Inl (Plain (''config: invalid or duplicate repo '' @ rbRepo r))
      else if ns = [] \<or> \<not> IsDNS1123Label (ceLib env) ns \<or> ns = ''default'' \<or> HasPrefix ns ''kube-'' \<or>
              ns = ''runsecure-'' @ scName s \<or> ns \<in> set namespaces
      then Inl (Plain (''config: invalid, missing or duplicate project namespace '' @ ns))
      else (case validateApprovedRunner env r of
         Inl e \<Rightarrow> Inl (Wrap (''config: repos['' @ show_nat i @ '']: '') e [])
       | Inr r' \<Rightarrow>
           (case rbRunnerConfig r' of
              None \<Rightarrow> Inl (Plain ''panic: nil runner_config'')
            | Some runner \<Rightarrow>
                (case ApplyProjectOverrides base (scAllowProjectOverrides s) (obSecurityOverrides (ryOrchestrator runner)) of
                   (_, Some e) \<Rightarrow> Inl (Wrap (''config: repos['' @ show_nat i @ ''] security overrides: '') e [])
                 | (policy, None) \<Rightarrow>
                     (case CheckEgressIPLiterals (ryTCPEgress runner @ ResolvedHTTPEgress runner) policy of
                        Some e \<Rightarrow> Inl (Wrap (''config: repos['' @ show_nat i @ ''] egress policy: '') e [])
                      | None \<Rightarrow>
                          (case validate_shared env s base (Suc i) (identity # repos) (ns # namespaces) rs of
                             Inl e \<Rightarrow> Inl e
                           | Inr rs' \<Rightarrow> Inr (r' # rs')))))))"

definition validateProjects :: "ConfigEnv \<Rightarrow> Scope \<Rightarrow> gerr + Scope" where
  "validateProjects env s =
     (if \<not> SharedKubernetes s then Inr s
      else if scBackend s \<noteq> ''kube'' then Inl (Plain ''config: project namespaces require kube backend'')
      else if \<not> IsDNS1123Label (ceLib env) (''runsecure-'' @ scName s) then Inl (Plain ''config: invalid controller namespace'')
      else (case ApplyProjectOverrides (Defaults (scSecurityProfile s)) (keys (scSecurityOverrides s)) (scSecurityOverrides s) of
              (_, Some e) \<Rightarrow> Inl (Wrap ''config: scope security overrides: '' e [])
            | (base, None) \<Rightarrow>
                (case validate_shared env s base 0 [] [] (scRepos s) of
                   Inl e \<Rightarrow> Inl e
                 | Inr rs \<Rightarrow> Inr (s\<lparr>scRepos := rs\<rparr>))))"

section \<open>Validation\<close>

definition validProfiles :: "string list" where
  "validProfiles = [''strict'', ''standard'', ''permissive'', ''custom'']"

definition validBackends :: "string list" where
  "validBackends = [''compose'', ''kube'']"

text \<open>Permission bits, which are below \<open>0o1000\<close>, as \<open>%o\<close> and \<open>%04o\<close> print them.\<close>

definition show_oct :: "int \<Rightarrow> string" where
  "show_oct n =
     (let ds = dropWhile (\<lambda>d. d = 0) [n div 64 mod 8, n div 8 mod 8, n mod 8]
      in map (\<lambda>d. digit_char (nat d)) (if ds = [] then [0] else ds))"

definition show_oct4 :: "int \<Rightarrow> string" where
  "show_oct4 n = (let s = show_oct n in replicate (4 - length s) (CHR ''0'') @ s)"

definition check_secret_file :: "ConfigEnv \<Rightarrow> string \<Rightarrow> string \<Rightarrow> int \<Rightarrow> gerr option" where
  "check_secret_file env what path mode =
     (case ceStat env path of
        Inl e \<Rightarrow> Some (Wrap (''config: '' @ what @ '' '' @ path @ '': '') e [])
      | Inr (perm, _) \<Rightarrow>
          if perm \<noteq> mode
          then Some (Plain (''config: '' @ what @ '' '' @ path @ '' must be mode '' @ show_oct4 mode @ '' (got '' @ show_oct perm @ '')'')) else None)"

definition check_auth :: "ConfigEnv \<Rightarrow> AuthBlock \<Rightarrow> int \<Rightarrow> gerr option" where
  "check_auth env a mode =
     (if abType a = ''pat'' then
        (if abPATFile a = [] then Some (Plain ''config: auth.pat_file is required'')
         else check_secret_file env ''auth.pat_file'' (abPATFile a) mode)
      else if abType a = ''github_app'' then
        (if abAppID a \<le> 0 then Some (Plain ''config: auth.app_id is required for github_app auth'')
         else if abInstallationID a \<le> 0 then Some (Plain ''config: auth.installation_id is required for github_app auth'')
         else if abPrivateKeyFile a = [] then Some (Plain ''config: auth.private_key_file is required for github_app auth'')
         else check_secret_file env ''auth.private_key_file'' (abPrivateKeyFile a) mode)
      else Some (Plain (''config: auth.type must be 'pat' or 'github_app' (got '' @ abType a @ '')'')))"

fun check_repos :: "ConfigEnv \<Rightarrow> string \<Rightarrow> nat \<Rightarrow> RepoBlock list \<Rightarrow> gerr option" where
  "check_repos env be i [] = None"
| "check_repos env be i (r # rs) =
     (let loc = ''config: repos['' @ show_nat i @ '']''; yml = path_Clean (rbProjectDir r @ ''/.github/runner.yml'') in
      if rbRepo r = [] then Some (Plain (loc @ ''.repo is required''))
      else if rbMaxConcurrent r \<le> 0 then Some (Plain (loc @ ''.max_concurrent must be > 0''))
      else if be = ''compose'' \<and> rbProjectDir r = [] then Some (Plain (loc @ ''.project_dir is required (Compose backend)''))
      else if be = ''compose'' \<and> (case ceStat env (rbProjectDir r) of Inl _ \<Rightarrow> True | Inr (_, dir) \<Rightarrow> \<not> dir)
      then Some (Plain (loc @ ''.project_dir '' @ rbProjectDir r @ '': not a directory''))
      else if be = ''compose'' \<and> (case ceStat env yml of Inl _ \<Rightarrow> True | Inr _ \<Rightarrow> False)
      then Some (Plain (loc @ '': missing runner.yml at '' @ yml))
      else check_repos env be (Suc i) rs)"

definition Validate :: "ConfigEnv \<Rightarrow> Scope \<Rightarrow> gerr + Scope" where
  "Validate env s0 =
     (let s = (if scBackend s0 = [] then s0\<lparr>scBackend := ''compose''\<rparr> else s0) in
      if scBackend s \<notin> set validBackends
      then Inl (Plain (''config: backend must be 'compose' or 'kube' (got '' @ scBackend s @ '')''))
      else let secretMode = (if scBackend s = ''kube'' then 288 else 256) in
      if scName s = [] then Inl (Plain ''config: name is required'')
      else if scPollIntervalSeconds s < 5
      then Inl (Plain (''config: poll_interval_seconds must be >= 5 (got '' @ show_int (scPollIntervalSeconds s) @ '')''))
      else if scSecurityProfile s \<notin> set validProfiles
      then Inl (Plain (''config: security_profile must be one of strict|standard|permissive|custom (got '' @ scSecurityProfile s @ '')''))
      else if scSecurityProfile s = ''custom'' \<and> scSecurityOverrides s = []
      then Inl (Plain ''config: security_profile=custom requires non-empty security_overrides'')
      else case check_auth env (scAuth s) secretMode of
        Some e \<Rightarrow> Inl e
      | None \<Rightarrow>
          if ''api.github.com'' \<notin> set (scAllowDomains s)
          then Inl (Plain ''config: orch_egress.allow_domains must include api.github.com (otherwise orchestrator is offline)'')
          else if scRepos s = [] then Inl (Plain ''config: at least one repo entry required'')
          else (case validateProjects env s of
             Inl e \<Rightarrow> Inl e
           | Inr s' \<Rightarrow>
               (case check_repos env (scBackend s') 0 (scRepos s') of
                  Some e \<Rightarrow> Inl e
                | None \<Rightarrow>
                    if scGlobalMaxRunners s' \<le> 0 then Inl (Plain ''config: global_max_runners must be > 0'') else Inr s')))"

end
