(* ===== verification/Runner_Source.thy ===== *)
theory Runner_Source
  imports Config_Model Egress_Model
begin

text \<open>
  Where the workers get a repository's runner configuration and egress policy from: the parts of
  \<open>productionDeps\<close> and the small adapters of \<open>cmd/orchestrator/run.go\<close> that read the scope.

  \<open>RunnerSource\<close> is the state they share: the validated scope, the cache of snapshots, the
  scheduler state that holds the ETags, and the calls to GitHub. The YAML decoder and
  \<open>runneryml.Parse\<close>, which reads a local file, are arguments.
\<close>

section \<open>Environment variables and paths\<close>

definition envOr :: "(string \<Rightarrow> string) \<Rightarrow> string \<Rightarrow> string \<Rightarrow> string" where
  "envOr getenv k fallback = (let v = getenv k in if v \<noteq> [] then v else fallback)"

definition envIntOr :: "(string \<Rightarrow> string) \<Rightarrow> string \<Rightarrow> int \<Rightarrow> int" where
  "envIntOr getenv k fallback =
     (let v = getenv k in
      if v = [] then fallback
      else case sscanf_d v of None \<Rightarrow> fallback | Some n \<Rightarrow> if n \<le> 0 then fallback else n)"

definition filepath_join :: "string list \<Rightarrow> string" where
  "filepath_join parts = join_with ''/'' parts"

section \<open>Pinned images\<close>

definition last_index :: "string \<Rightarrow> string \<Rightarrow> nat option" where
  "last_index s m = find (\<lambda>i. HasPrefix (drop i s) m) (rev [0..<Suc (length s)])"

definition validateImmutableImageRef :: "string \<Rightarrow> string \<Rightarrow> gerr option" where
  "validateImmutableImageRef name v =
     (let err = Some (Plain (''kube backend: '' @ name @ '' must be an immutable image@sha256 digest'')) in
      case last_index v ''@sha256:'' of
        None \<Rightarrow> err
      | Some pos \<Rightarrow>
          if pos = 0 \<or> pos + 8 + 64 \<noteq> length v \<or> CHR ''@'' \<in> set (take pos v) \<or>
             list_ex (\<lambda>c. c \<in> {CHR '' '', CHR 0x09, CHR 0x0D, CHR 0x0A}) (take pos v) \<or>
             \<not> list_all hex_char (drop (pos + 8) v)
          then err else None)"

section \<open>Runner configuration\<close>

record RunnerSource =
  rsrcCache :: "(string, RunnerYMLSnapshot) gomap"
  rsrcState :: State
  rsrcGH :: GHState

record RunnerSourceEnv =
  rseScope :: Scope
  rseClient :: Client
  rseGetenv :: "string \<Rightarrow> string"
  rseYAML :: "string \<Rightarrow> gerr + RunnerYML"
  rseParse :: "string \<Rightarrow> gerr + RunnerYML"

definition zero_KubePodSettings :: KubePodSettings where
  "zero_KubePodSettings = \<lparr>kpNodeSelector = [], kpTolerations = [], kpEphemeralStorage = [], kpProxyCPU = [],
     kpProxyMemory = [], kpProxyEphemeralStorage = []\<rparr>"

definition yml_snapshot :: "RunnerYML \<Rightarrow> RunnerYMLSnapshot" where
  "yml_snapshot yml = \<lparr>rsnKubernetes = zero_KubePodSettings, rsnYML = yml, rsnImageDigest = []\<rparr>"

definition loadRunnerYMLFromAPI ::
  "RunnerSourceEnv \<Rightarrow> string \<Rightarrow> RunnerSource \<Rightarrow> (gerr + RunnerYMLSnapshot) \<times> RunnerSource" where
  "loadRunnerYMLFromAPI env repo p =
     (case GetRunnerYML (rseClient env) repo (LastETag (rsrcState p) repo) (rsrcGH p) of
        (Inl e, g) \<Rightarrow> (Inl (Wrap (''runner.yml API fetch for '' @ repo @ '': '') e []), p\<lparr>rsrcGH := g\<rparr>)
      | (Inr (body, newETag, notModified), g) \<Rightarrow>
          let p1 = p\<lparr>rsrcGH := g\<rparr> in
          if notModified then (Inl (Sentinel ErrRunnerYMLNotModified), p1)
          else (case ParseBytes (rseYAML env) body (''api:'' @ repo) of
                  Inl e \<Rightarrow> (Inl e, p1)
                | Inr yml \<Rightarrow>
                    (case ValidateEgress yml of
                       Some e \<Rightarrow> (Inl (Wrap ''runner.yml egress validation: '' e []), p1)
                     | None \<Rightarrow>
                         (Inr (yml_snapshot yml),
                          if newETag \<noteq> [] then p1\<lparr>rsrcState := SetLastETag repo newETag (rsrcState p1)\<rparr> else p1))))"

definition cachedRunnerYML :: "string \<Rightarrow> RunnerSource \<Rightarrow> RunnerYMLSnapshot option" where
  "cachedRunnerYML repo p = map_of (rsrcCache p) repo"

definition storeRunnerYML :: "string \<Rightarrow> RunnerYMLSnapshot \<Rightarrow> RunnerSource \<Rightarrow> RunnerSource" where
  "storeRunnerYML repo snap p = p\<lparr>rsrcCache := AList.update repo snap (rsrcCache p)\<rparr>"

text \<open>In shared mode the operator's own configuration is used and nothing is fetched.\<close>

definition approved_snapshot :: "RunnerSourceEnv \<Rightarrow> RepoBlock \<Rightarrow> gerr + RunnerYMLSnapshot" where
  "approved_snapshot env r =
     (if rbNamespace r = [] then Inl (Plain ''shared Kubernetes requires explicit project namespace enrollment'')
      else case rbRunnerConfig r of
        None \<Rightarrow> Inl (Plain ''shared Kubernetes requires approved runner_config'')
      | Some cfg \<Rightarrow>
          let image = (if rbRunnerImage r = [] then RunnerImageDigestFor (rseGetenv env) (ryRuntime cfg) else rbRunnerImage r) in
          (case validateImmutableImageRef ''runner_image'' image of
             Some e \<Rightarrow> Inl e
           | None \<Rightarrow> Inr \<lparr>rsnKubernetes = rbKubernetes r, rsnYML = cfg, rsnImageDigest = image\<rparr>))"

definition RunnerYMLContext ::
  "RunnerSourceEnv \<Rightarrow> string \<Rightarrow> RunnerSource \<Rightarrow> (gerr + RunnerYMLSnapshot) \<times> RunnerSource" where
  "RunnerYMLContext env repo p =
     (case find (\<lambda>r. rbRepo r = repo) (scRepos (rseScope env)) of
        None \<Rightarrow> (Inl (Plain ''unknown repo''), p)
      | Some r \<Rightarrow>
          if SharedKubernetes (rseScope env) then (approved_snapshot env r, p)
          else if scBackend (rseScope env) = ''kube'' then
            (case loadRunnerYMLFromAPI env repo p of
               (Inl e, p1) \<Rightarrow>
                 if err_is e ErrRunnerYMLNotModified
                 then (case cachedRunnerYML repo p1 of Some snap \<Rightarrow> (Inr snap, p1) | None \<Rightarrow> (Inl e, p1))
                 else (Inl e, p1)
             | (Inr snap, p1) \<Rightarrow> (Inr snap, storeRunnerYML repo snap p1))
          else (case rseParse env (filepath_join [rbProjectDir r, ''.github'', ''runner.yml'']) of
                  Inl e \<Rightarrow> (Inl e, p)
                | Inr yml \<Rightarrow>
                    (case ValidateEgress yml of
                       Some e \<Rightarrow> (Inl (Wrap ''runner.yml egress validation: '' e []), p)
                     | None \<Rightarrow> (Inr (yml_snapshot yml), storeRunnerYML repo (yml_snapshot yml) p))))"

section \<open>Egress policy\<close>

definition allOverrideKeys :: "string list" where
  "allOverrideKeys = [''allow_wildcards'', ''allow_doh'', ''allow_imds'', ''allow_kube_api'', ''allow_private_cidrs'']"

definition buildBasePolicy :: "string \<Rightarrow> (string, yval) gomap \<Rightarrow> string list \<Rightarrow> Policy \<times> gerr option" where
  "buildBasePolicy profile scopeOverrides allKeys = ApplyProjectOverrides (Defaults profile) allKeys scopeOverrides"

definition egressShim_Render ::
  "FsEnv \<Rightarrow> string \<Rightarrow> Policy \<Rightarrow> string list \<Rightarrow> string \<Rightarrow> RunnerYML \<Rightarrow> (string \<times> string) list \<times> (gerr + string \<times> string list)" where
  "egressShim_Render fs baseDir base allowKeys spawnID r =
     (case ApplyProjectOverrides base allowKeys (obSecurityOverrides (ryOrchestrator r)) of
        (_, Some e) \<Rightarrow> ([], Inl (Wrap ''security: project override invalid: '' e []))
      | (policy, None) \<Rightarrow>
          (case Render fs baseDir spawnID r policy of
             (ws, Inl e) \<Rightarrow> (ws, Inl e)
           | (ws, Inr dir) \<Rightarrow> (ws, Inr (dir, map ipnet_String (plAllowedPrivateCIDRs policy)))))"

end
