(* ===== verification/Startup_Model.thy ===== *)
theory Startup_Model
  imports Runner_Source Proxy_JSON Compose_Model
begin

text \<open>
  Start-up and shutdown: \<open>coldstart.go\<close>, \<open>backend_init.go\<close>, \<open>backend_readiness.go\<close>, \<open>shutdown.go\<close> and
  the selection of the backend in \<open>run.go\<close>.

  The Docker client, the GitHub client and the backend are the interfaces \<open>coldStartDocker\<close>,
  \<open>coldStartGitHub\<close>, \<open>recoveredNetworkCleaner\<close> and \<open>backend.Backend\<close> of the source: \<open>ColdEnv\<close> answers
  the \<open>n\<close>-th call. \<open>ColdState\<close> counts the calls and logs the ones that change something, with
  whether they succeeded.
\<close>

section \<open>Interfaces\<close>

datatype ColdEvent =
    CRunner string int bool
  | CContainer string bool
  | CNetwork string bool
  | CTorn Handle bool

record ColdState =
  cstCalls :: nat
  cstLog :: "ColdEvent list"

record ColdEnv =
  cdLib :: KubeLib
  cdListContainers :: "nat \<Rightarrow> string \<Rightarrow> gerr + Container list"
  cdDeleteContainer :: "nat \<Rightarrow> string \<Rightarrow> gerr option"
  cdListNetworks :: "nat \<Rightarrow> string \<Rightarrow> gerr + Network list"
  cdDeleteNetwork :: "nat \<Rightarrow> string \<Rightarrow> gerr option"
  cdListRunners :: "nat \<Rightarrow> string \<Rightarrow> gerr + Runner list"
  cdDeleteRunner :: "nat \<Rightarrow> string \<Rightarrow> int \<Rightarrow> gerr option"
  cdReconcile :: "nat \<Rightarrow> string \<Rightarrow> gerr + Handle list"
  cdTeardown :: "nat \<Rightarrow> Handle \<Rightarrow> gerr option"

definition c_tick :: "ColdState \<Rightarrow> ColdState" where
  "c_tick s = s\<lparr>cstCalls := cstCalls s + 1\<rparr>"

definition c_log :: "ColdEvent \<Rightarrow> ColdState \<Rightarrow> ColdState" where
  "c_log ev s = s\<lparr>cstLog := cstLog s @ [ev]\<rparr>"

text \<open>A list of changing calls in order, up to the first that fails.\<close>

fun run_all ::
  "(nat \<Rightarrow> 'x \<Rightarrow> gerr option) \<Rightarrow> ('x \<Rightarrow> bool \<Rightarrow> ColdEvent) \<Rightarrow> ('x \<Rightarrow> string) \<Rightarrow> 'x list \<Rightarrow> ColdState \<Rightarrow> gerr option \<times> ColdState" where
  "run_all f ev what [] s = (None, s)"
| "run_all f ev what (x # xs) s =
     (case f (cstCalls s) x of
        Some e \<Rightarrow> (Some (Wrap (''cold-start: '' @ what x @ '': '') e []), c_log (ev x False) (c_tick s))
      | None \<Rightarrow> run_all f ev what xs (c_log (ev x True) (c_tick s)))"

section \<open>Runner registrations\<close>

definition runnerHasLabel :: "Runner \<Rightarrow> string \<Rightarrow> bool" where
  "runnerHasLabel r wanted = list_ex (\<lambda>l. l = wanted) (ghrLabels r)"

definition validJITRunnerName :: "string \<Rightarrow> bool" where
  "validJITRunnerName name =
     (HasPrefix name ''rs-'' \<and> HasSuffix name ''-runner'' \<and> TrimSuffix (TrimPrefix name ''rs-'') ''-runner'' \<noteq> [])"

fun unique_values :: "string list \<Rightarrow> string list \<Rightarrow> string list" where
  "unique_values seen [] = []"
| "unique_values seen (v # vs) =
     (if v = [] \<or> v \<in> set seen then unique_values seen vs else v # unique_values (v # seen) vs)"

definition uniqueSorted :: "string list \<Rightarrow> string list" where
  "uniqueSorted vs = sort (unique_values [] vs)"

definition owned_runner :: "string \<Rightarrow> Runner \<Rightarrow> bool" where
  "owned_runner scope r = (runnerHasLabel r JITOwnerLabel \<and> runnerHasLabel r (JITScopeLabelPrefix @ scope))"

type_synonym recoveredRunnerDelete = "string \<times> string \<times> int"

text \<open>The runners of one repository: an error, or the registrations to delete, as repository, name
  and identifier.\<close>

fun classify_runners :: "string \<Rightarrow> string \<Rightarrow> string set \<Rightarrow> Runner list \<Rightarrow> gerr + recoveredRunnerDelete list" where
  "classify_runners scope repo wanted [] = Inr []"
| "classify_runners scope repo wanted (r # rs) =
     (let owned = owned_runner scope r in
      if ghrName r \<in> wanted \<and> \<not> owned
      then Inl (Plain (''cold-start: recovered runner '' @ ghrName r @ '' for '' @ repo @ '' lacks exact ownership labels''))
      else if \<not> owned then classify_runners scope repo wanted rs
      else if \<not> validJITRunnerName (ghrName r) \<or> ghrID r \<le> 0
      then Inl (Plain (''cold-start: owned runner '' @ ghrName r @ '' for '' @ repo @ '' has invalid identity''))
      else if ghrStatus r \<noteq> ''offline'' \<or> ghrBusy r
      then Inl (Plain (''cold-start: owned runner '' @ ghrName r @ '' for '' @ repo @ '' is active (status='' @ ghrStatus r @
                       '' busy='' @ (if ghrBusy r then ''true'' else ''false'') @ '')''))
      else (case classify_runners scope repo wanted rs of
              Inl e \<Rightarrow> Inl e
            | Inr ds \<Rightarrow> Inr ((repo, ghrName r, ghrID r) # ds)))"

fun classify_repos ::
  "ColdEnv \<Rightarrow> string \<Rightarrow> string set \<Rightarrow> string list \<Rightarrow> ColdState \<Rightarrow> (gerr + recoveredRunnerDelete list) \<times> ColdState" where
  "classify_repos c scope wanted [] s = (Inr [], s)"
| "classify_repos c scope wanted (repo # repos) s =
     (case cdListRunners c (cstCalls s) repo of
        Inl e \<Rightarrow> (Inl (Wrap (''cold-start: list runners for '' @ repo @ '': '') e []), c_tick s)
      | Inr runners \<Rightarrow>
          (case classify_runners scope repo wanted runners of
             Inl e \<Rightarrow> (Inl e, c_tick s)
           | Inr ds \<Rightarrow>
               (case classify_repos c scope wanted repos (c_tick s) of
                  (Inl e, s1) \<Rightarrow> (Inl e, s1)
                | (Inr ds', s1) \<Rightarrow> (Inr (ds @ ds'), s1))))"

definition cleanupRecoveredRunnerRegistrations ::
  "ColdEnv \<Rightarrow> string \<Rightarrow> string list \<Rightarrow> string set \<Rightarrow> ColdState \<Rightarrow> gerr option \<times> ColdState" where
  "cleanupRecoveredRunnerRegistrations c scope configuredRepos wanted s =
     (case classify_repos c scope wanted (uniqueSorted configuredRepos) s of
        (Inl e, s1) \<Rightarrow> (Some e, s1)
      | (Inr toDelete, s1) \<Rightarrow>
          run_all (\<lambda>n (repo, name, i). cdDeleteRunner c n repo i) (\<lambda>(repo, name, i). CRunner repo i)
            (\<lambda>(repo, name, i). ''delete runner '' @ show_int i @ '' for '' @ repo)
            (sort_key (\<lambda>d. fst d) (sort_key (\<lambda>d. fst (snd d)) (sort_key (\<lambda>d. snd (snd d)) toDelete))) s1)"

section \<open>Compose\<close>

definition label_of :: "Container \<Rightarrow> string \<Rightarrow> string" where
  "label_of ct k = lookup_or [] (dcLabels ct) k"

text \<open>The recovered containers: the runner names that must be registered, and the owned ones.\<close>

fun check_containers ::
  "string set \<Rightarrow> Container list \<Rightarrow> string set \<Rightarrow> Container list \<Rightarrow> gerr + string set \<times> Container list" where
  "check_containers allowed [] wanted owned = Inr (wanted, owned)"
| "check_containers allowed (ct # cts) wanted owned =
     (let role = label_of ct ''runsecure.role''; spawnID = label_of ct ''runsecure.spawn_id'' in
      if spawnID = [] then
        (if role = ''runner'' \<or> role = ''proxy''
         then Inl (Plain (''cold-start: recovered container '' @ dcID ct @ '' has invalid spawn labels''))
         else check_containers allowed cts wanted owned)
      else if role \<noteq> ''runner'' \<and> role \<noteq> ''proxy''
      then Inl (Plain (''cold-start: recovered container '' @ dcID ct @ '' has invalid spawn labels''))
      else if role \<noteq> ''runner'' then check_containers allowed cts wanted (owned @ [ct])
      else let name = ''rs-'' @ spawnID @ ''-runner'' in
        if label_of ct ''runsecure.repo'' \<notin> allowed \<or> dcName ct \<noteq> name
        then Inl (Plain (''cold-start: recovered runner '' @ dcID ct @ '' has invalid ownership labels''))
        else check_containers allowed cts (insert name wanted) (owned @ [ct]))"

definition cleanupRecoveredSpawns ::
  "ColdEnv \<Rightarrow> string \<Rightarrow> string list \<Rightarrow> ColdState \<Rightarrow> gerr option \<times> ColdState" where
  "cleanupRecoveredSpawns c scope configuredRepos s =
     (case cdListContainers c (cstCalls s) scope of
        Inl e \<Rightarrow> (Some (Wrap ''cold-start: list recovered containers: '' e []), c_tick s)
      | Inr containers \<Rightarrow>
          (case check_containers (set configuredRepos) containers {} [] of
             Inl e \<Rightarrow> (Some e, c_tick s)
           | Inr (wanted, owned) \<Rightarrow>
               (case cleanupRecoveredRunnerRegistrations c scope configuredRepos wanted (c_tick s) of
                  (Some e, s1) \<Rightarrow> (Some e, s1)
                | (None, s1) \<Rightarrow>
                    run_all (cdDeleteContainer c) CContainer (\<lambda>i. ''delete recovered container '' @ i) (sort (map dcID owned)) s1)))"

text \<open>Each network in the order of the identifiers; one without an identifier stops the loop.\<close>

fun delete_networks :: "ColdEnv \<Rightarrow> Network list \<Rightarrow> ColdState \<Rightarrow> gerr option \<times> ColdState" where
  "delete_networks c [] s = (None, s)"
| "delete_networks c (n # ns) s =
     (if dnID n = [] then (Some (Plain ''cold-start: recovered network has empty ID''), s)
      else case cdDeleteNetwork c (cstCalls s) (dnID n) of
        Some e \<Rightarrow> (Some (Wrap (''cold-start: delete recovered network '' @ dnID n @ '': '') e []), c_log (CNetwork (dnID n) False) (c_tick s))
      | None \<Rightarrow> delete_networks c ns (c_log (CNetwork (dnID n) True) (c_tick s)))"

definition cleanupRecoveredComposeNetworks :: "ColdEnv \<Rightarrow> string \<Rightarrow> ColdState \<Rightarrow> gerr option \<times> ColdState" where
  "cleanupRecoveredComposeNetworks c scope s =
     (case cdListNetworks c (cstCalls s) scope of
        Inl e \<Rightarrow> (Some (Wrap ''cold-start: list recovered networks: '' e []), c_tick s)
      | Inr nets \<Rightarrow> delete_networks c (sort_key dnID nets) (c_tick s))"

section \<open>Kubernetes\<close>

definition handle_error :: "string \<Rightarrow> gerr" where
  "handle_error spawnID = Plain (''cold-start: recovered kube spawn '' @ spawnID @ '' has invalid ownership'')"

fun validateRecoveredKubeHandles ::
  "KubeLib \<Rightarrow> string \<Rightarrow> string list \<Rightarrow> string set \<Rightarrow> Handle list \<Rightarrow> gerr + string set" where
  "validateRecoveredKubeHandles l scope repos seen [] = Inr {}"
| "validateRecoveredKubeHandles l scope repos seen (h # hs) =
     (let i = hSpawnID h in
      if hBackend h \<noteq> ''kube'' \<or> i = [] \<or> i \<in> seen \<or> kref h ''namespace'' \<noteq> kube_Namespace scope \<or>
         kref h ''secret'' \<noteq> ''rs-secret-'' @ i \<or> kref h ''runner_pod'' \<noteq> ''rs-runner-'' @ i \<or>
         kref h ''repo_label'' \<notin> RepoLabel l ` set repos
      then Inl (handle_error i)
      else (case validateRecoveredKubeHandles l scope repos (insert i seen) hs of
              Inl e \<Rightarrow> Inl e
            | Inr wanted \<Rightarrow> Inr (insert (''rs-'' @ i @ ''-runner'') wanted)))"

fun validateRecoveredKubeHandlesForProjects ::
  "KubeLib \<Rightarrow> string \<Rightarrow> (string, string) gomap \<Rightarrow> string set \<Rightarrow> Handle list \<Rightarrow> gerr + string set" where
  "validateRecoveredKubeHandlesForProjects l scope namespaces seen [] = Inr {}"
| "validateRecoveredKubeHandlesForProjects l scope namespaces seen (h # hs) =
     (let i = hSpawnID h; repo = kref h ''repo'' in
      case map_of namespaces repo of
        None \<Rightarrow> Inl (handle_error i)
      | Some ns \<Rightarrow>
          if ns = [] \<or> hBackend h \<noteq> ''kube'' \<or> i = [] \<or> i \<in> seen \<or> kref h ''scope'' \<noteq> scope \<or> kref h ''namespace'' \<noteq> ns \<or>
             kref h ''repo_label'' \<noteq> RepoLabel l repo \<or> kref h ''secret'' \<noteq> ''rs-secret-'' @ i \<or>
             kref h ''runner_pod'' \<noteq> ''rs-runner-'' @ i \<or> kref h ''proxy_pod'' \<noteq> [] \<and> kref h ''proxy_pod'' \<noteq> ''rs-proxy-'' @ i
          then Inl (handle_error i)
          else (case validateRecoveredKubeHandlesForProjects l scope namespaces (insert i seen) hs of
                  Inl e \<Rightarrow> Inl e
                | Inr wanted \<Rightarrow> Inr (insert (''rs-'' @ i @ ''-runner'') wanted)))"

definition cleanupRecoveredKubeSpawnsValidated ::
  "ColdEnv \<Rightarrow> string \<Rightarrow> string list \<Rightarrow> (Handle list \<Rightarrow> gerr + string set) \<Rightarrow> ColdState \<Rightarrow> gerr option \<times> ColdState" where
  "cleanupRecoveredKubeSpawnsValidated c scope configuredRepos validate s =
     (case cdReconcile c (cstCalls s) scope of
        Inl e \<Rightarrow> (Some (Wrap ''cold-start: reconcile recovered kube spawns: '' e []), c_tick s)
      | Inr handles \<Rightarrow>
          (case validate handles of
             Inl e \<Rightarrow> (Some e, c_tick s)
           | Inr wanted \<Rightarrow>
               (case cleanupRecoveredRunnerRegistrations c scope configuredRepos wanted (c_tick s) of
                  (Some e, s1) \<Rightarrow> (Some e, s1)
                | (None, s1) \<Rightarrow>
                    run_all (cdTeardown c) CTorn (\<lambda>h. ''teardown recovered kube spawn '' @ hSpawnID h) (sort_key hSpawnID handles) s1)))"

definition cleanupRecoveredKubeSpawns ::
  "ColdEnv \<Rightarrow> string \<Rightarrow> string list \<Rightarrow> ColdState \<Rightarrow> gerr option \<times> ColdState" where
  "cleanupRecoveredKubeSpawns c scope repos s =
     cleanupRecoveredKubeSpawnsValidated c scope repos (validateRecoveredKubeHandles (cdLib c) scope repos {}) s"

definition cleanupRecoveredKubeSpawnsForProjects ::
  "ColdEnv \<Rightarrow> string \<Rightarrow> (string, string) gomap \<Rightarrow> ColdState \<Rightarrow> gerr option \<times> ColdState" where
  "cleanupRecoveredKubeSpawnsForProjects c scope namespaces s =
     cleanupRecoveredKubeSpawnsValidated c scope (keys namespaces)
       (validateRecoveredKubeHandlesForProjects (cdLib c) scope namespaces {}) s"

section \<open>The environment of the Kubernetes backend\<close>

fun validate_images :: "(string \<Rightarrow> string) \<Rightarrow> string list \<Rightarrow> gerr option" where
  "validate_images getenv [] = None"
| "validate_images getenv (n # ns) =
     (case validateImmutableImageRef n (getenv n) of Some e \<Rightarrow> Some e | None \<Rightarrow> validate_images getenv ns)"

definition validateKubeImageEnvironment :: "(string \<Rightarrow> string) \<Rightarrow> gerr option" where
  "validateKubeImageEnvironment getenv =
     validate_images getenv [''RUNSECURE_PROXY_IMAGE'', ''RUNSECURE_RUNNER_IMAGE_DEFAULT'', ''RUNSECURE_RUNNER_IMAGE_NODE'',
       ''RUNSECURE_RUNNER_IMAGE_PYTHON'', ''RUNSECURE_RUNNER_IMAGE_RUST'']"

text \<open>Decoding of the peers with unknown fields refused: keys match up to case, null leaves a field
  at its zero value, the last of equal keys counts.\<close>

fun decode_peer_fields :: "(string \<times> json) list \<Rightarrow> string \<times> int \<Rightarrow> (string \<times> int) option" where
  "decode_peer_fields [] p = Some p"
| "decode_peer_fields ((k, v) # kvs) (cidr, port) =
     (if to_lower k = ''cidr'' then
        (case v of JStr t \<Rightarrow> decode_peer_fields kvs (t, port) | JNull \<Rightarrow> decode_peer_fields kvs (cidr, port) | _ \<Rightarrow> None)
      else if to_lower k = ''port'' then
        (case v of JNull \<Rightarrow> decode_peer_fields kvs (cidr, port)
         | _ \<Rightarrow> (case dec_int v of Some n \<Rightarrow> decode_peer_fields kvs (cidr, n) | None \<Rightarrow> None))
      else None)"

fun decode_peer :: "json \<Rightarrow> (string \<times> int) option" where
  "decode_peer (JObj kvs) = decode_peer_fields kvs ([], 0)"
| "decode_peer JNull = Some ([], 0)"
| "decode_peer _ = None"

fun decode_all :: "('a \<Rightarrow> 'b option) \<Rightarrow> 'a list \<Rightarrow> 'b list option" where
  "decode_all f [] = Some []"
| "decode_all f (x # xs) = (case f x of None \<Rightarrow> None | Some y \<Rightarrow> map_option (\<lambda>ys. y # ys) (decode_all f xs))"

fun decode_peers :: "json \<Rightarrow> (string \<times> int) list option" where
  "decode_peers (JArr vs) = decode_all decode_peer vs"
| "decode_peers JNull = Some []"
| "decode_peers _ = None"

definition exact_ipv4 :: "string \<Rightarrow> (ip \<times> nat) option" where
  "exact_ipv4 cidr =
     (case ParsePrefix cidr of
        None \<Rightarrow> None
      | Some p \<Rightarrow> if \<not> Is4 (fst p) \<or> snd p \<noteq> 32 \<or> p \<noteq> Masked p then None else Some p)"

fun check_peers :: "((ip \<times> nat) \<times> int) set \<Rightarrow> (string \<times> int) list \<Rightarrow> gerr option" where
  "check_peers seen [] = None"
| "check_peers seen ((cidr, port) # ps) =
     (case exact_ipv4 cidr of
        None \<Rightarrow> Some (Plain ''kube backend: RUNSECURE_KUBE_API_SERVER_PEERS must contain exact IPv4 /32 CIDRs'')
      | Some p \<Rightarrow>
          if port < 1 \<or> 65535 < port
          then Some (Plain ''kube backend: RUNSECURE_KUBE_API_SERVER_PEERS ports must be from 1 to 65535'')
          else if (p, port) \<in> seen
          then Some (Plain ''kube backend: RUNSECURE_KUBE_API_SERVER_PEERS must contain unique pairs'')
          else check_peers (insert (p, port) seen) ps)"

definition validateKubeAPIServerPeers :: "string \<Rightarrow> gerr option" where
  "validateKubeAPIServerPeers v =
     (case json_parse v of
        None \<Rightarrow> Some (Plain ''kube backend: RUNSECURE_KUBE_API_SERVER_PEERS must be a JSON array of exact cidr/port pairs'')
      | Some (doc, rest) \<Rightarrow>
          (case decode_peers doc of
             None \<Rightarrow> Some (Plain ''kube backend: RUNSECURE_KUBE_API_SERVER_PEERS must be a JSON array of exact cidr/port pairs'')
           | Some peers \<Rightarrow>
               if skip_ws rest \<noteq> []
               then Some (Plain ''kube backend: RUNSECURE_KUBE_API_SERVER_PEERS must contain exactly one JSON value'')
               else (case check_peers {} peers of
                       Some e \<Rightarrow> Some e
                     | None \<Rightarrow>
                         if peers = []
                         then Some (Plain ''kube backend: RUNSECURE_KUBE_API_SERVER_PEERS must contain at least one pair'') else None)))"

fun check_cidrs :: "string \<Rightarrow> (ip \<times> nat) set \<Rightarrow> string list \<Rightarrow> gerr option" where
  "check_cidrs name seen [] = None"
| "check_cidrs name seen (cidr # cidrs) =
     (case exact_ipv4 cidr of
        None \<Rightarrow> Some (Plain (''kube backend: '' @ name @ '' must contain only exact IPv4 /32 values''))
      | Some p \<Rightarrow>
          if p \<in> seen then Some (Plain (''kube backend: '' @ name @ '' must contain unique CIDRs''))
          else check_cidrs name (insert p seen) cidrs)"

definition validateKubeCIDRs :: "string \<Rightarrow> string \<Rightarrow> gerr option" where
  "validateKubeCIDRs name v =
     (let values = (if v = [] then [] else split_char CHR '','' v) in
      case check_cidrs name {} values of
        Some e \<Rightarrow> Some e
      | None \<Rightarrow>
          if values = [] then Some (Plain (''kube backend: '' @ name @ '' must contain at least one exact IPv4 /32'')) else None)"

definition validateKubeEnvironment :: "KubeLib \<Rightarrow> (string \<Rightarrow> string) \<Rightarrow> gerr option" where
  "validateKubeEnvironment l getenv =
     (case validateKubeImageEnvironment getenv of
        Some e \<Rightarrow> Some e
      | None \<Rightarrow>
          (case validateKubeAPIServerPeers (getenv ''RUNSECURE_KUBE_API_SERVER_PEERS'') of
             Some e \<Rightarrow> Some e
           | None \<Rightarrow>
               (case validateKubeCIDRs ''RUNSECURE_KUBE_DNS_SERVICE_CIDRS'' (getenv ''RUNSECURE_KUBE_DNS_SERVICE_CIDRS'') of
                  Some e \<Rightarrow> Some e
                | None \<Rightarrow>
                    if \<not> IsDNS1123Label l (getenv ''RUNSECURE_KUBE_DNS_NAMESPACE'')
                    then Some (Plain ''kube backend: RUNSECURE_KUBE_DNS_NAMESPACE must be a DNS-1123 label'')
                    else if \<not> klQualifiedName l (getenv ''RUNSECURE_KUBE_DNS_POD_LABEL_KEY'')
                    then Some (Plain ''kube backend: RUNSECURE_KUBE_DNS_POD_LABEL_KEY must be a Kubernetes label key'')
                    else if getenv ''RUNSECURE_KUBE_DNS_POD_LABEL_VALUE'' = []
                    then Some (Plain ''kube backend: RUNSECURE_KUBE_DNS_POD_LABEL_VALUE must not be empty'')
                    else if \<not> klLabelValue l (getenv ''RUNSECURE_KUBE_DNS_POD_LABEL_VALUE'')
                    then Some (Plain ''kube backend: RUNSECURE_KUBE_DNS_POD_LABEL_VALUE must be a Kubernetes label value'')
                    else None)))"

section \<open>Selecting and initializing the backend\<close>

datatype SelectedBackend = UseCompose | UseKube KubeBackend

definition configureKubeBackend :: "KubeLib \<Rightarrow> Scope \<Rightarrow> gerr + KubeBackend" where
  "configureKubeBackend l s =
     (if SharedKubernetes s then NewForProjects l True (scName s) (ProjectNamespaces s) else Inr kube_New)"

text \<open>\<open>kubeCtor\<close> and \<open>dockerCtor\<close> may fail to reach the cluster or the daemon.\<close>

definition selectBackend :: "Scope \<Rightarrow> bool \<Rightarrow> (gerr + KubeBackend) \<Rightarrow> gerr + SelectedBackend" where
  "selectBackend s hasDocker kubeCtor =
     (if scBackend s = ''kube'' then (case kubeCtor of Inl e \<Rightarrow> Inl e | Inr b \<Rightarrow> Inr (UseKube b))
      else if \<not> hasDocker then Inl (Plain ''compose backend requires a Docker client'')
      else Inr UseCompose)"

record InitEnv =
  ieConfig :: ConfigEnv
  ieCold :: ColdEnv
  ieGetenv :: "string \<Rightarrow> string"
  ieDockerCtor :: "string \<Rightarrow> gerr option"
  ieKubeCtor :: "Scope \<Rightarrow> gerr + KubeBackend"

definition initializeBackend ::
  "InitEnv \<Rightarrow> Scope \<Rightarrow> string list \<Rightarrow> ColdState \<Rightarrow> (gerr + SelectedBackend) \<times> ColdState" where
  "initializeBackend env s0 repoNames cs =
     (if scBackend s0 = ''kube'' then
        (case (if SharedKubernetes s0 then Validate (ieConfig env) s0 else Inr s0) of
           Inl e \<Rightarrow> (Inl e, cs)
         | Inr s \<Rightarrow>
             (case validateKubeEnvironment (cdLib (ieCold env)) (ieGetenv env) of
                Some e \<Rightarrow> (Inl e, cs)
              | None \<Rightarrow>
                  (case selectBackend s False (ieKubeCtor env s) of
                     Inl e \<Rightarrow> (Inl e, cs)
                   | Inr be \<Rightarrow>
                       (case (if SharedKubernetes s
                              then cleanupRecoveredKubeSpawnsForProjects (ieCold env) (scName s) (ProjectNamespaces s) cs
                              else cleanupRecoveredKubeSpawns (ieCold env) (scName s) repoNames cs) of
                          (Some e, cs1) \<Rightarrow> (Inl e, cs1)
                        | (None, cs1) \<Rightarrow> (Inr be, cs1)))))
      else if scBackend s0 = ''compose'' \<or> scBackend s0 = [] then
        (case ieDockerCtor env (envOr (ieGetenv env) ''DOCKER_HOST'' ''tcp://socket-proxy:2375'') of
           Some e \<Rightarrow> (Inl e, cs)
         | None \<Rightarrow>
             (case selectBackend s0 True (ieKubeCtor env s0) of
                Inl e \<Rightarrow> (Inl e, cs)
              | Inr be \<Rightarrow>
                  (case cleanupRecoveredSpawns (ieCold env) (scName s0) repoNames cs of
                     (Some e, cs1) \<Rightarrow> (Inl e, cs1)
                   | (None, cs1) \<Rightarrow>
                       (case cleanupRecoveredComposeNetworks (ieCold env) (scName s0) cs1 of
                          (Some e, cs2) \<Rightarrow> (Inl e, cs2)
                        | (None, cs2) \<Rightarrow> (Inr be, cs2)))))
      else (Inl (Plain (''unsupported backend '' @ scBackend s0)), cs))"

section \<open>Shutdown\<close>

record shutdownResult =
  sdForced :: bool
  sdWorkersStopped :: bool

definition forcedCleanupGrace :: duration where
  "forcedCleanupGrace = 20 * time_Second"

text \<open>The workers are done after the given time, or never. When the timer fires at the same time
  the select may take either branch; \<open>tie\<close> is its choice.\<close>

definition waitForWorkers :: "bool \<Rightarrow> duration option \<Rightarrow> duration \<Rightarrow> bool" where
  "waitForWorkers tie doneAfter timeout =
     (let t = max timeout 0 in
      case doneAfter of None \<Rightarrow> False | Some d \<Rightarrow> d < t \<or> d = t \<and> tie)"

datatype ShutdownStep = SDrain | SStopPolling | SJoinPoll | SCloseIntents | SStopWorkers

text \<open>The steps in order, and the result. \<open>drained\<close> is the time the workers still need on their own,
  \<open>forced\<close> the time they need once cancelled.\<close>

definition drainAndStop ::
  "bool \<Rightarrow> bool \<Rightarrow> duration \<Rightarrow> duration option \<Rightarrow> duration option \<Rightarrow> ShutdownStep list \<times> shutdownResult" where
  "drainAndStop tie1 tie2 drainTimeout drained forced =
     (let steps = [SDrain, SStopPolling, SJoinPoll, SCloseIntents] in
      if waitForWorkers tie1 drained drainTimeout then (steps, \<lparr>sdForced = False, sdWorkersStopped = True\<rparr>)
      else (steps @ [SStopWorkers], \<lparr>sdForced = True, sdWorkersStopped = waitForWorkers tie2 forced forcedCleanupGrace\<rparr>))"

end
