(* ===== verification/Startup_Thms.thy ===== *)
theory Startup_Thms
  imports Startup_Model Spawn_Model
begin

text \<open>
  Start-up: the recovery of what an earlier process left fails closed and only touches what the
  scope owns, a validated configuration of shared Kubernetes yields spawns that pass the checks of
  the backend, and its projects are kept apart.
\<close>

section \<open>Logs of the recovery\<close>

fun ev_ok :: "ColdEvent \<Rightarrow> bool" where
  "ev_ok (CRunner repo i ok) = ok"
| "ev_ok (CContainer i ok) = ok"
| "ev_ok (CNetwork i ok) = ok"
| "ev_ok (CTorn h ok) = ok"

fun is_runner :: "ColdEvent \<Rightarrow> bool" where
  "is_runner (CRunner repo i ok) = True"
| "is_runner _ = False"

text \<open>The events a stage adds: each satisfies \<open>P\<close>, and only the last may have failed, which the
  stage then reports.\<close>

definition adds :: "(ColdEvent \<Rightarrow> bool) \<Rightarrow> bool \<Rightarrow> ColdState \<Rightarrow> ColdState \<Rightarrow> ColdEvent list \<Rightarrow> bool" where
  "adds P ok s s' lg =
     (cstLog s' = cstLog s @ lg \<and> list_all P lg \<and> list_all ev_ok (butlast lg) \<and> (ok \<longrightarrow> list_all ev_ok lg))"

lemma cold_log_simps [simp]: "cstLog (c_tick s) = cstLog s" "cstLog (c_log ev s) = cstLog s @ [ev]"
  by (simp_all add: c_tick_def c_log_def)

lemma adds_nothing: "cstLog s' = cstLog s \<Longrightarrow> adds P ok s s' []"
  by (simp add: adds_def)

lemma adds_then:
  assumes "adds P True s s1 l1" and "adds P ok s1 s2 l2"
  shows "adds P ok s s2 (l1 @ l2)"
  using assms by (auto simp: adds_def butlast_append list_all_iff dest: in_set_butlastD)

lemma adds_mono: "adds P ok s s' lg \<Longrightarrow> (\<And>ev. P ev \<Longrightarrow> Q ev) \<Longrightarrow> adds Q ok s s' lg"
  by (auto simp: adds_def list_all_iff)

lemma adds_tick [simp]: "adds P ok (c_tick s) s' lg = adds P ok s s' lg"
  by (simp add: adds_def)

lemma run_all_adds:
  assumes "run_all f ev what xs s = (err, s')" and "\<And>x b. ev_ok (ev x b) = b"
    and "\<And>x b. x \<in> set xs \<Longrightarrow> P (ev x b)"
  shows "\<exists>lg. adds P (err = None) s s' lg \<and> (err = None \<longrightarrow> lg = map (\<lambda>x. ev x True) xs)"
  using assms(1,3)
proof (induction xs arbitrary: s)
  case Nil
  then show ?case by (auto intro: adds_nothing)
next
  case (Cons x xs)
  show ?case
  proof (cases "f (cstCalls s) x")
    case None
    then have "run_all f ev what xs (c_log (ev x True) (c_tick s)) = (err, s')" using Cons.prems(1) by simp
    then obtain lg where lg: "adds P (err = None) (c_log (ev x True) (c_tick s)) s' lg"
      "err = None \<longrightarrow> lg = map (\<lambda>x. ev x True) xs"
      using Cons.IH Cons.prems(2) by fastforce
    have "adds P True s (c_log (ev x True) (c_tick s)) [ev x True]"
      using Cons.prems(2) assms(2) by (simp add: adds_def)
    from adds_then [OF this lg(1)] lg(2) show ?thesis by auto
  next
    case (Some e)
    then show ?thesis using Cons.prems by (intro exI [of _ "[ev x False]"]) (auto simp: adds_def)
  qed
qed

section \<open>Runner registrations\<close>

text \<open>A listed registration of this scope that nobody uses.\<close>

definition removable :: "string \<Rightarrow> Runner \<Rightarrow> bool" where
  "removable scope r =
     (owned_runner scope r \<and> validJITRunnerName (ghrName r) \<and> 0 < ghrID r \<and> ghrStatus r = ''offline'' \<and> \<not> ghrBusy r)"

lemma classify_runners_spec:
  "classify_runners scope repo wanted rs = Inr ds \<Longrightarrow>
     ds = map (\<lambda>r. (repo, ghrName r, ghrID r)) (filter (owned_runner scope) rs) \<and>
     (\<forall>r\<in>set rs. owned_runner scope r \<longrightarrow> removable scope r) \<and> (\<forall>r\<in>set rs. ghrName r \<in> wanted \<longrightarrow> owned_runner scope r)"
  by (induction rs arbitrary: ds) (auto simp: Let_def removable_def split: if_splits sum.splits)

definition runner_listed :: "ColdEnv \<Rightarrow> string \<Rightarrow> string \<Rightarrow> int \<Rightarrow> bool" where
  "runner_listed c scope repo i = (\<exists>n rs r. cdListRunners c n repo = Inr rs \<and> r \<in> set rs \<and> removable scope r \<and> ghrID r = i)"

lemma classify_repos_spec:
  "classify_repos c scope wanted repos s = (res, s') \<Longrightarrow>
     cstLog s' = cstLog s \<and>
     (\<forall>ds. res = Inr ds \<longrightarrow>
        (\<forall>(repo, name, i)\<in>set ds. repo \<in> set repos \<and> runner_listed c scope repo i) \<and>
        (\<forall>repo\<in>set repos. \<exists>n rs. cdListRunners c n repo = Inr rs \<and>
           (\<forall>r\<in>set rs. owned_runner scope r \<longrightarrow> (repo, ghrName r, ghrID r) \<in> set ds)))"
proof (induction repos arbitrary: s res)
  case (Cons repo repos)
  show ?case
  proof (cases "cdListRunners c (cstCalls s) repo")
    case (Inr rs)
    show ?thesis
    proof (cases "classify_runners scope repo wanted rs")
      case (Inr ds0)
      note spec = classify_runners_spec [OF this]
      obtain res1 where rec: "classify_repos c scope wanted repos (c_tick s) = (res1, s')"
        and res: "res = (case res1 of Inl e \<Rightarrow> Inl e | Inr ds' \<Rightarrow> Inr (ds0 @ ds'))"
        using Cons.prems \<open>cdListRunners c (cstCalls s) repo = Inr rs\<close> Inr
        by (auto split: sum.splits prod.splits)
      have here: "\<forall>(repo', name, i)\<in>set ds0. repo' = repo \<and> runner_listed c scope repo i"
        using spec \<open>cdListRunners c (cstCalls s) repo = Inr rs\<close> by (fastforce simp: runner_listed_def)
      have all: "\<forall>r\<in>set rs. owned_runner scope r \<longrightarrow> (repo, ghrName r, ghrID r) \<in> set ds0"
        using spec by auto
      show ?thesis
      proof (intro conjI allI impI)
        show "cstLog s' = cstLog s" using Cons.IH [OF rec] by simp
      next
        fix ds assume "res = Inr ds"
        then obtain ds' where ds: "res1 = Inr ds'" "ds = ds0 @ ds'" using res by (auto split: sum.splits)
        note ih = Cons.IH [OF rec, THEN conjunct2, rule_format, OF ds(1)]
        show "\<forall>(repo', name, i)\<in>set ds. repo' \<in> set (repo # repos) \<and> runner_listed c scope repo' i"
          using ih here ds(2) by fastforce
        show "\<forall>repo'\<in>set (repo # repos). \<exists>n rs. cdListRunners c n repo' = Inr rs \<and>
           (\<forall>r\<in>set rs. owned_runner scope r \<longrightarrow> (repo', ghrName r, ghrID r) \<in> set ds)"
          using ih all \<open>cdListRunners c (cstCalls s) repo = Inr rs\<close> ds(2) by fastforce
      qed
    qed (use Cons.prems Inr in auto)
  qed (use Cons.prems in auto)
qed simp

lemma unique_values_set: "set (unique_values seen vs) = set vs - insert [] (set seen)"
  by (induction vs arbitrary: seen) auto

lemma uniqueSorted_set: "set (uniqueSorted vs) = set vs - {[]}"
  by (simp add: uniqueSorted_def unique_values_set)

text \<open>What a registration event may be about, and when the registrations are settled.\<close>

definition runner_event :: "ColdEnv \<Rightarrow> string \<Rightarrow> string list \<Rightarrow> ColdEvent \<Rightarrow> bool" where
  "runner_event c scope repos ev = (\<exists>repo i ok. ev = CRunner repo i ok \<and> repo \<in> set repos \<and> runner_listed c scope repo i)"

definition runners_removed :: "ColdEnv \<Rightarrow> string \<Rightarrow> string list \<Rightarrow> ColdEvent list \<Rightarrow> bool" where
  "runners_removed c scope repos lg =
     (\<forall>repo\<in>set repos. repo \<noteq> [] \<longrightarrow>
        (\<exists>n rs. cdListRunners c n repo = Inr rs \<and>
           (\<forall>r\<in>set rs. owned_runner scope r \<longrightarrow> CRunner repo (ghrID r) True \<in> set lg)))"

lemma registrations_adds:
  assumes "cleanupRecoveredRunnerRegistrations c scope repos wanted s = (err, s')"
  shows "\<exists>lg. adds (runner_event c scope repos) (err = None) s s' lg \<and> (err = None \<longrightarrow> runners_removed c scope repos lg)"
proof (cases "classify_repos c scope wanted (uniqueSorted repos) s")
  case (Pair res s1)
  note spec = classify_repos_spec [OF this]
  show ?thesis
  proof (cases res)
    case (Inl e)
    then show ?thesis
      using assms Pair spec by (auto simp: cleanupRecoveredRunnerRegistrations_def intro!: exI [of _ "[]"] adds_nothing)
  next
    case (Inr ds)
    let ?ev = "\<lambda>(repo :: string, name :: string, i). CRunner repo i"
    let ?xs = "sort_key (\<lambda>d. fst d) (sort_key (\<lambda>d. fst (snd d)) (sort_key (\<lambda>d. snd (snd d)) ds))"
    have run: "run_all (\<lambda>n (repo, name, i). cdDeleteRunner c n repo i) ?ev
         (\<lambda>(repo, name, i). ''delete runner '' @ show_int i @ '' for '' @ repo) ?xs s1 = (err, s')"
      using assms Pair Inr by (simp add: cleanupRecoveredRunnerRegistrations_def)
    note sp = spec [THEN conjunct2, rule_format, OF Inr]
    have "runner_event c scope repos (?ev x b)" if "x \<in> set ?xs" for x b
      using sp [THEN conjunct1] that by (fastforce simp: runner_event_def uniqueSorted_set)
    then obtain lg where lg: "adds (runner_event c scope repos) (err = None) s1 s' lg"
      "err = None \<longrightarrow> lg = map (\<lambda>x. ?ev x True) ?xs"
      using run_all_adds [OF run, of "runner_event c scope repos"] by fastforce
    have "adds (runner_event c scope repos) (err = None) s s' lg"
      using lg(1) spec by (simp add: adds_def)
    moreover have "runners_removed c scope repos lg" if "err = None"
      unfolding runners_removed_def
    proof (intro ballI impI)
      fix repo assume "repo \<in> set repos" "repo \<noteq> []"
      then obtain n rs where "cdListRunners c n repo = Inr rs"
        "\<forall>r\<in>set rs. owned_runner scope r \<longrightarrow> (repo, ghrName r, ghrID r) \<in> set ds"
        using sp [THEN conjunct2] unfolding uniqueSorted_set by blast
      then show "\<exists>n rs. cdListRunners c n repo = Inr rs \<and>
           (\<forall>r\<in>set rs. owned_runner scope r \<longrightarrow> CRunner repo (ghrID r) True \<in> set lg)"
        using lg(2) that by (force simp: image_iff)
    qed
    ultimately show ?thesis by blast
  qed
qed

section \<open>The stages\<close>

lemma check_containers_owned:
  "check_containers allowed cts wanted owned = Inr (wanted', owned') \<Longrightarrow>
     owned' = owned @ filter (\<lambda>ct. label_of ct ''runsecure.spawn_id'' \<noteq> []) cts \<and>
     (\<forall>ct\<in>set cts. label_of ct ''runsecure.spawn_id'' \<noteq> [] \<longrightarrow> label_of ct ''runsecure.role'' \<in> {''runner'', ''proxy''})"
proof (induction cts arbitrary: wanted owned)
  case (Cons ct cts)
  then show ?case by (auto simp: Let_def split: if_splits dest!: Cons.IH)
qed simp

definition container_event :: "ColdEnv \<Rightarrow> string \<Rightarrow> ColdEvent \<Rightarrow> bool" where
  "container_event c scope ev =
     (\<exists>i ok n cts ct. ev = CContainer i ok \<and> cdListContainers c n scope = Inr cts \<and> ct \<in> set cts \<and> dcID ct = i \<and>
        label_of ct ''runsecure.spawn_id'' \<noteq> [] \<and> label_of ct ''runsecure.role'' \<in> {''runner'', ''proxy''})"

definition containers_removed :: "ColdEnv \<Rightarrow> string \<Rightarrow> ColdEvent list \<Rightarrow> bool" where
  "containers_removed c scope lg =
     (\<exists>n cts. cdListContainers c n scope = Inr cts \<and>
        (\<forall>ct\<in>set cts. label_of ct ''runsecure.spawn_id'' \<noteq> [] \<longrightarrow> CContainer (dcID ct) True \<in> set lg))"

lemma containers_adds:
  assumes "cdListContainers c n scope = Inr cts" and "check_containers allowed cts {} [] = Inr (wanted, owned)"
    and "run_all (cdDeleteContainer c) CContainer what (sort (map dcID owned)) s = (err, s')"
  shows "\<exists>lg. adds (container_event c scope) (err = None) s s' lg \<and> (err = None \<longrightarrow> containers_removed c scope lg)"
proof -
  note spec = check_containers_owned [OF assms(2)]
  have "container_event c scope (CContainer x b)" if "x \<in> set (sort (map dcID owned))" for x b
    using that spec assms(1) by (fastforce simp: container_event_def)
  from run_all_adds [OF assms(3), of "container_event c scope", OF _ this] obtain lg where
    "adds (container_event c scope) (err = None) s s' lg"
    "err = None \<longrightarrow> lg = map (\<lambda>x. CContainer x True) (sort (map dcID owned))"
    by auto
  then show ?thesis using spec assms(1) by (fastforce simp: containers_removed_def)
qed

definition network_event :: "ColdEnv \<Rightarrow> string \<Rightarrow> ColdEvent \<Rightarrow> bool" where
  "network_event c scope ev =
     (\<exists>i ok n nets net. ev = CNetwork i ok \<and> cdListNetworks c n scope = Inr nets \<and> net \<in> set nets \<and> dnID net = i \<and> i \<noteq> [])"

definition networks_removed :: "ColdEnv \<Rightarrow> string \<Rightarrow> ColdEvent list \<Rightarrow> bool" where
  "networks_removed c scope lg =
     (\<exists>n nets. cdListNetworks c n scope = Inr nets \<and> (\<forall>net\<in>set nets. CNetwork (dnID net) True \<in> set lg))"

lemma delete_networks_adds:
  assumes "delete_networks c nets s = (err, s')"
    and "\<And>net b. net \<in> set nets \<Longrightarrow> dnID net \<noteq> [] \<Longrightarrow> P (CNetwork (dnID net) b)"
  shows "\<exists>lg. adds P (err = None) s s' lg \<and> (err = None \<longrightarrow> lg = map (\<lambda>net. CNetwork (dnID net) True) nets)"
  using assms
proof (induction nets arbitrary: s)
  case Nil
  then show ?case by (auto intro: adds_nothing)
next
  case (Cons net nets)
  consider "dnID net = []" | e where "dnID net \<noteq> []" "cdDeleteNetwork c (cstCalls s) (dnID net) = Some e"
    | "dnID net \<noteq> []" "cdDeleteNetwork c (cstCalls s) (dnID net) = None" by blast
  then show ?case
  proof cases
    case 1
    then show ?thesis using Cons.prems(1) by (auto intro!: exI [of _ "[]"] adds_nothing)
  next
    case 2
    then show ?thesis using Cons.prems by (intro exI [of _ "[CNetwork (dnID net) False]"]) (auto simp: adds_def)
  next
    case 3
    let ?s = "c_log (CNetwork (dnID net) True) (c_tick s)"
    have "delete_networks c nets ?s = (err, s')" using 3 Cons.prems(1) by simp
    then obtain lg where lg: "adds P (err = None) ?s s' lg" "err = None \<longrightarrow> lg = map (\<lambda>net. CNetwork (dnID net) True) nets"
      using Cons.IH Cons.prems(2) by fastforce
    have "adds P True s ?s [CNetwork (dnID net) True]" using Cons.prems(2) 3 by (simp add: adds_def)
    from adds_then [OF this lg(1)] lg(2) show ?thesis by auto
  qed
qed

lemma networks_adds:
  assumes "cleanupRecoveredComposeNetworks c scope s = (err, s')"
  shows "\<exists>lg. adds (network_event c scope) (err = None) s s' lg \<and> (err = None \<longrightarrow> networks_removed c scope lg)"
proof (cases "cdListNetworks c (cstCalls s) scope")
  case (Inl e)
  then show ?thesis
    using assms by (auto simp: cleanupRecoveredComposeNetworks_def intro!: exI [of _ "[]"] adds_nothing)
next
  case (Inr nets)
  then have run: "delete_networks c (sort_key dnID nets) (c_tick s) = (err, s')"
    using assms by (simp add: cleanupRecoveredComposeNetworks_def)
  have "network_event c scope (CNetwork (dnID net) b)" if "net \<in> set (sort_key dnID nets)" "dnID net \<noteq> []" for net b
    using that Inr by (fastforce simp: network_event_def)
  from delete_networks_adds [OF run, of "network_event c scope", OF this] obtain lg where
    "adds (network_event c scope) (err = None) s s' lg"
    "err = None \<longrightarrow> lg = map (\<lambda>net. CNetwork (dnID net) True) (sort_key dnID nets)"
    by auto
  then show ?thesis using Inr by (fastforce simp: networks_removed_def)
qed

text \<open>A recovered handle whose names all derive from its own spawn.\<close>

definition handle_named :: "Handle \<Rightarrow> bool" where
  "handle_named h =
     (hBackend h = ''kube'' \<and> hSpawnID h \<noteq> [] \<and> kref h ''secret'' = ''rs-secret-'' @ hSpawnID h \<and>
      kref h ''runner_pod'' = ''rs-runner-'' @ hSpawnID h)"

definition torn_event :: "ColdEnv \<Rightarrow> string \<Rightarrow> ColdEvent \<Rightarrow> bool" where
  "torn_event c scope ev =
     (\<exists>h ok n hs. ev = CTorn h ok \<and> cdReconcile c n scope = Inr hs \<and> h \<in> set hs \<and> handle_named h)"

definition handles_removed :: "ColdEnv \<Rightarrow> string \<Rightarrow> ColdEvent list \<Rightarrow> bool" where
  "handles_removed c scope lg = (\<exists>n hs. cdReconcile c n scope = Inr hs \<and> (\<forall>h\<in>set hs. CTorn h True \<in> set lg))"

lemma validated_handles_named:
  "validateRecoveredKubeHandles l scope repos seen hs = Inr wanted \<Longrightarrow> \<forall>h\<in>set hs. handle_named h"
  by (induction hs arbitrary: seen wanted) (auto simp: Let_def handle_named_def split: if_splits sum.splits)

lemma validated_project_handles_named:
  "validateRecoveredKubeHandlesForProjects l scope nss seen hs = Inr wanted \<Longrightarrow> \<forall>h\<in>set hs. handle_named h"
  by (induction hs arbitrary: seen wanted) (auto simp: Let_def handle_named_def split: if_splits sum.splits option.splits)

text \<open>The events of a recovery in two stages: first registrations, then the rest.\<close>

definition staged :: "ColdEnv \<Rightarrow> string \<Rightarrow> string list \<Rightarrow> (ColdEvent \<Rightarrow> bool) \<Rightarrow> bool \<Rightarrow> ColdState \<Rightarrow> ColdState \<Rightarrow>
    ColdEvent list \<Rightarrow> ColdEvent list \<Rightarrow> bool" where
  "staged c scope repos P ok s s' l1 l2 =
     (adds (\<lambda>ev. runner_event c scope repos ev \<or> P ev) ok s s' (l1 @ l2) \<and> list_all is_runner l1 \<and> list_all (\<lambda>ev. \<not> is_runner ev) l2)"

lemma two_stages:
  assumes "cleanupRecoveredRunnerRegistrations c scope repos wanted s = (err1, s1)"
    and "\<And>ev. P ev \<Longrightarrow> \<not> is_runner ev"
    and "err1 = None \<Longrightarrow> \<exists>l2. adds P (err = None) s1 s' l2 \<and> (err = None \<longrightarrow> Q l2)"
    and "err1 \<noteq> None \<Longrightarrow> err \<noteq> None \<and> s' = s1"
  shows "\<exists>l1 l2. staged c scope repos P (err = None) s s' l1 l2 \<and>
     (err = None \<longrightarrow> runners_removed c scope repos l1 \<and> Q l2)"
proof -
  obtain l1 where l1: "adds (runner_event c scope repos) (err1 = None) s s1 l1" "err1 = None \<longrightarrow> runners_removed c scope repos l1"
    using registrations_adds [OF assms(1)] by blast
  have r1: "list_all is_runner l1" using l1(1) by (auto simp: adds_def list_all_iff runner_event_def)
  let ?PQ = "\<lambda>ev. runner_event c scope repos ev \<or> P ev"
  show ?thesis
  proof (cases err1)
    case None
    then obtain l2 where l2: "adds P (err = None) s1 s' l2" "err = None \<longrightarrow> Q l2" using assms(3) by blast
    have "adds ?PQ True s s1 l1" using l1(1) None by (auto intro: adds_mono)
    moreover have "adds ?PQ (err = None) s1 s' l2" using l2(1) by (rule adds_mono) simp
    ultimately have "adds ?PQ (err = None) s s' (l1 @ l2)" by (rule adds_then)
    moreover have "list_all (\<lambda>ev. \<not> is_runner ev) l2" using l2(1) assms(2) by (auto simp: adds_def list_all_iff)
    ultimately show ?thesis using r1 l1(2) l2(2) None by (auto simp: staged_def)
  next
    case (Some e)
    then have "adds ?PQ False s s' l1" using l1(1) assms(4) by (auto simp: adds_def list_all_iff)
    then show ?thesis using r1 assms(4) Some by (intro exI [of _ l1] exI [of _ "[]"]) (auto simp: staged_def)
  qed
qed

lemma staged_nothing: "cstLog s' = cstLog s \<Longrightarrow> staged c scope repos P ok s s' [] []"
  by (simp add: staged_def adds_nothing)

lemma staged_tick [simp]: "staged c scope repos P ok (c_tick s) s' l1 l2 = staged c scope repos P ok s s' l1 l2"
  by (simp add: staged_def)

lemma staged_mono:
  "staged c scope repos P ok s s' l1 l2 \<Longrightarrow> (\<And>ev. P ev \<Longrightarrow> P' ev) \<Longrightarrow> staged c scope repos P' ok s s' l1 l2"
  by (auto simp: staged_def intro: adds_mono)

lemma compose_containers_staged:
  assumes "cleanupRecoveredSpawns c scope repos s = (err, s')"
  shows "\<exists>l1 l2. staged c scope repos (container_event c scope) (err = None) s s' l1 l2 \<and>
     (err = None \<longrightarrow> runners_removed c scope repos l1 \<and> containers_removed c scope l2)"
proof (cases "cdListContainers c (cstCalls s) scope")
  case (Inl e)
  then show ?thesis
    using assms by (auto simp: cleanupRecoveredSpawns_def intro!: exI [of _ "[]"] staged_nothing)
next
  case (Inr cts)
  note listed = this
  show ?thesis
  proof (cases "check_containers (set repos) cts {} []")
    case (Inl e)
    then show ?thesis
      using assms listed by (auto simp: cleanupRecoveredSpawns_def intro!: exI [of _ "[]"] staged_nothing)
  next
    case (Inr wo)
    then obtain wanted owned where wo: "check_containers (set repos) cts {} [] = Inr (wanted, owned)" by (cases wo) auto
    obtain err1 s1 where reg: "cleanupRecoveredRunnerRegistrations c scope repos wanted (c_tick s) = (err1, s1)"
      by fastforce
    have rest: "(case err1 of Some e \<Rightarrow> (Some e, s1) | None \<Rightarrow>
        run_all (cdDeleteContainer c) CContainer (\<lambda>i. ''delete recovered container '' @ i) (sort (map dcID owned)) s1) = (err, s')"
      using assms listed wo reg by (simp add: cleanupRecoveredSpawns_def split: option.splits)
    have "\<exists>l2. adds (container_event c scope) (err = None) s1 s' l2 \<and> (err = None \<longrightarrow> containers_removed c scope l2)"
      if "err1 = None" using containers_adds [OF listed wo] rest that by simp
    moreover have "err \<noteq> None \<and> s' = s1" if "err1 \<noteq> None" using rest that by auto
    ultimately show ?thesis
      using two_stages [OF reg, of "container_event c scope" err s' "containers_removed c scope"]
      by (fastforce simp: container_event_def)
  qed
qed

lemma kube_staged:
  assumes "cleanupRecoveredKubeSpawnsValidated c scope repos validate s = (err, s')"
    and "\<And>hs wanted. validate hs = Inr wanted \<Longrightarrow> \<forall>h\<in>set hs. handle_named h"
  shows "\<exists>l1 l2. staged c scope repos (torn_event c scope) (err = None) s s' l1 l2 \<and>
     (err = None \<longrightarrow> runners_removed c scope repos l1 \<and> handles_removed c scope l2)"
proof (cases "cdReconcile c (cstCalls s) scope")
  case (Inl e)
  then show ?thesis
    using assms(1) by (auto simp: cleanupRecoveredKubeSpawnsValidated_def intro!: exI [of _ "[]"] staged_nothing)
next
  case (Inr hs)
  note listed = this
  show ?thesis
  proof (cases "validate hs")
    case (Inl e)
    then show ?thesis
      using assms(1) listed by (auto simp: cleanupRecoveredKubeSpawnsValidated_def intro!: exI [of _ "[]"] staged_nothing)
  next
    case (Inr wanted)
    obtain err1 s1 where reg: "cleanupRecoveredRunnerRegistrations c scope repos wanted (c_tick s) = (err1, s1)"
      by fastforce
    have rest: "(case err1 of Some e \<Rightarrow> (Some e, s1) | None \<Rightarrow>
        run_all (cdTeardown c) CTorn (\<lambda>h. ''teardown recovered kube spawn '' @ hSpawnID h) (sort_key hSpawnID hs) s1) = (err, s')"
      using assms(1) listed Inr reg by (simp add: cleanupRecoveredKubeSpawnsValidated_def split: option.splits)
    have ev: "torn_event c scope (CTorn h b)" if "h \<in> set (sort_key hSpawnID hs)" for h b
      using that assms(2) [OF Inr] listed by (auto simp: torn_event_def)
    have "\<exists>l2. adds (torn_event c scope) (err = None) s1 s' l2 \<and> (err = None \<longrightarrow> handles_removed c scope l2)"
      if none: "err1 = None"
    proof -
      have run: "run_all (cdTeardown c) CTorn (\<lambda>h. ''teardown recovered kube spawn '' @ hSpawnID h) (sort_key hSpawnID hs) s1 = (err, s')"
        using rest none by simp
      from run_all_adds [OF run, of "torn_event c scope", OF _ ev] obtain lg where
        "adds (torn_event c scope) (err = None) s1 s' lg" "err = None \<longrightarrow> lg = map (\<lambda>h. CTorn h True) (sort_key hSpawnID hs)"
        by auto
      then show ?thesis using listed by (fastforce simp: handles_removed_def)
    qed
    moreover have "err \<noteq> None \<and> s' = s1" if "err1 \<noteq> None" using rest that by auto
    ultimately show ?thesis
      using two_stages [OF reg, of "torn_event c scope" err s' "handles_removed c scope"]
      by (fastforce simp: torn_event_def)
  qed
qed

section \<open>What validation keeps and promises\<close>

lemma approved_runner_keeps:
  "validateApprovedRunner env r = Inr r' \<Longrightarrow> rbRepo r' = rbRepo r \<and> rbNamespace r' = rbNamespace r"
  by (auto simp: validateApprovedRunner_def Let_def split: option.splits if_splits sum.splits)

lemma validate_shared_Cons:
  assumes "validate_shared env s base i repos nss (r # rs) = Inr rs'"
  obtains r1 rs1 where "validateApprovedRunner env r = Inr r1" and "rs' = r1 # rs1"
    and "validate_shared env s base (Suc i) (to_lower (rbRepo r) # repos) (rbNamespace r # nss) rs = Inr rs1"
    and "repoIdentity (rbRepo r)" and "to_lower (rbRepo r) \<notin> set repos"
    and "IsDNS1123Label (ceLib env) (rbNamespace r)" and "rbNamespace r \<notin> set nss"
    and "rbNamespace r \<noteq> [] \<and> rbNamespace r \<noteq> ''runsecure-'' @ scName s"
  using assms by (auto simp: Let_def split: option.splits if_splits sum.splits prod.splits)

lemma validate_shared_keeps:
  "validate_shared env s base i repos nss rs = Inr rs' \<Longrightarrow>
     map rbRepo rs' = map rbRepo rs \<and> map rbNamespace rs' = map rbNamespace rs"
proof (induction rs arbitrary: i repos nss rs')
  case (Cons r rs)
  from Cons.prems show ?case
    by (elim validate_shared_Cons) (auto dest!: Cons.IH approved_runner_keeps)
qed simp

text \<open>Repositories are distinct up to case, namespaces as they are.\<close>

lemma validate_shared_distinct:
  "validate_shared env s base i repos nss rs = Inr rs' \<Longrightarrow>
     distinct (map rbNamespace rs) \<and> set (map rbNamespace rs) \<inter> set nss = {} \<and>
     distinct (map (\<lambda>r. to_lower (rbRepo r)) rs) \<and> set (map (\<lambda>r. to_lower (rbRepo r)) rs) \<inter> set repos = {}"
proof (induction rs arbitrary: i repos nss rs')
  case (Cons r rs)
  from Cons.prems show ?case
    by (elim validate_shared_Cons) (fastforce dest!: Cons.IH)
qed simp

lemma validate_projects_keeps:
  assumes "validateProjects env s = Inr s'"
  shows "scName s' = scName s \<and> scBackend s' = scBackend s \<and> map rbRepo (scRepos s') = map rbRepo (scRepos s) \<and>
     map rbNamespace (scRepos s') = map rbNamespace (scRepos s)"
  using assms
  by (auto simp: validateProjects_def split: option.splits if_splits sum.splits prod.splits dest: validate_shared_keeps)

lemma validate_runs_projects:
  assumes "Validate env s0 = Inr s" and "scBackend s0 \<noteq> []"
  shows "validateProjects env s0 = Inr s"
  using assms by (auto simp: Validate_def Let_def split: option.splits if_splits sum.splits)

text \<open>A namespace is required of every project, so a validated shared scope is still shared.\<close>

lemma validate_shared_each:
  "validate_shared env s base i repos nss rs = Inr rs' \<Longrightarrow> r' \<in> set rs' \<Longrightarrow>
     \<exists>r. validateApprovedRunner env r = Inr r' \<and> IsDNS1123Label (ceLib env) (rbNamespace r') \<and>
        rbNamespace r' \<noteq> [] \<and> rbNamespace r' \<noteq> ''runsecure-'' @ scName s"
proof (induction rs arbitrary: i repos nss rs')
  case (Cons r rs)
  from Cons.prems(1) show ?case
  proof (rule validate_shared_Cons)
    fix r1 rs1 assume r1: "validateApprovedRunner env r = Inr r1" "rs' = r1 # rs1"
      and rec: "validate_shared env s base (Suc i) (to_lower (rbRepo r) # repos) (rbNamespace r # nss) rs = Inr rs1"
      and ns: "IsDNS1123Label (ceLib env) (rbNamespace r)" "rbNamespace r \<noteq> [] \<and> rbNamespace r \<noteq> ''runsecure-'' @ scName s"
    show ?thesis
    proof (cases "r' = r1")
      case True
      then show ?thesis using r1 ns approved_runner_keeps [OF r1(1)] by auto
    next
      case False
      then show ?thesis using Cons.IH [OF rec] r1(2) Cons.prems(2) by auto
    qed
  qed
qed simp

lemma shared_projects_valid:
  assumes "validateProjects env s0 = Inr s" and "SharedKubernetes s0"
  obtains base where "validate_shared env s0 base 0 [] [] (scRepos s0) = Inr (scRepos s)"
  using assms by (auto simp: validateProjects_def split: if_splits sum.splits prod.splits option.splits)

lemma validated_stays_shared:
  assumes "validateProjects env s0 = Inr s"
  shows "SharedKubernetes s = SharedKubernetes s0"
proof (cases "SharedKubernetes s0")
  case True
  then obtain base where v: "validate_shared env s0 base 0 [] [] (scRepos s0) = Inr (scRepos s)"
    using shared_projects_valid [OF assms True] by blast
  have "scRepos s0 \<noteq> []" using True by (auto simp: SharedKubernetes_def)
  then have "scRepos s \<noteq> []" using validate_shared_keeps [OF v] by (metis map_is_Nil_conv)
  then obtain r where r: "r \<in> set (scRepos s)" by (cases "scRepos s") auto
  then have "shared_repo r" using validate_shared_each [OF v r] by (auto simp: shared_repo_def)
  then show ?thesis using r True by (auto simp: SharedKubernetes_def list_ex_iff)
next
  case False
  then show ?thesis using assms by (auto simp: validateProjects_def)
qed

lemma update_all_keys:
  "fst ` set (fold (\<lambda>r. AList.update (f r) (g r)) rs m) = fst ` set m \<union> f ` set rs"
  by (induction rs arbitrary: m) (auto simp: dom_update)

lemma project_namespaces_keys:
  "SharedKubernetes s \<Longrightarrow> set (keys (ProjectNamespaces s)) = rbRepo ` set (scRepos s)"
  by (simp add: ProjectNamespaces_def update_all_keys)

section \<open>Cold start\<close>

text \<open>The repositories whose registrations are recovered.\<close>

definition cold_repos :: "Scope \<Rightarrow> string list \<Rightarrow> string list" where
  "cold_repos s repos = (if scBackend s = ''kube'' \<and> SharedKubernetes s then map rbRepo (scRepos s) else repos)"

definition stage_event :: "ColdEnv \<Rightarrow> string \<Rightarrow> ColdEvent \<Rightarrow> bool" where
  "stage_event c scope ev = (container_event c scope ev \<or> network_event c scope ev \<or> torn_event c scope ev)"

definition stage_removed :: "ColdEnv \<Rightarrow> Scope \<Rightarrow> ColdEvent list \<Rightarrow> bool" where
  "stage_removed c s lg =
     (if scBackend s = ''kube'' then handles_removed c (scName s) lg
      else containers_removed c (scName s) lg \<and> networks_removed c (scName s) lg)"

lemma removed_cong:
  assumes "set repos = set repos'"
  shows "runners_removed c scope repos = runners_removed c scope repos'"
    and "staged c scope repos P ok s s' l1 l2 = staged c scope repos' P ok s s' l1 l2"
  using assms by (simp_all add: runners_removed_def fun_eq_iff staged_def runner_event_def)

lemma removed_append:
  "containers_removed c scope l1 \<Longrightarrow> containers_removed c scope (l1 @ l2)"
  "networks_removed c scope l2 \<Longrightarrow> networks_removed c scope (l1 @ l2)"
  by (force simp: containers_removed_def) (force simp: networks_removed_def)

text \<open>The recovery of each backend, with the events it adds.\<close>

lemma compose_staged:
  assumes "cleanupRecoveredSpawns c scope repos s = (err1, s1)"
    and "err1 = None \<Longrightarrow> cleanupRecoveredComposeNetworks c scope s1 = (err, s2)"
    and "err1 \<noteq> None \<Longrightarrow> err = err1 \<and> s2 = s1"
  shows "\<exists>l1 l2. staged c scope repos (stage_event c scope) (err = None) s s2 l1 l2 \<and>
     (err = None \<longrightarrow> runners_removed c scope repos l1 \<and> containers_removed c scope l2 \<and> networks_removed c scope l2)"
proof -
  obtain l1 l2 where st: "staged c scope repos (container_event c scope) (err1 = None) s s1 l1 l2"
    "err1 = None \<longrightarrow> runners_removed c scope repos l1 \<and> containers_removed c scope l2"
    using compose_containers_staged [OF assms(1)] by blast
  have st': "staged c scope repos (stage_event c scope) (err1 = None) s s1 l1 l2"
    using st(1) by (rule staged_mono) (simp add: stage_event_def)
  show ?thesis
  proof (cases err1)
    case None
    obtain l3 where l3: "adds (network_event c scope) (err = None) s1 s2 l3" "err = None \<longrightarrow> networks_removed c scope l3"
      using networks_adds [OF assms(2) [OF None]] by blast
    let ?P = "\<lambda>ev. runner_event c scope repos ev \<or> stage_event c scope ev"
    have "adds ?P True s s1 (l1 @ l2)" using st' None by (simp add: staged_def)
    moreover have "adds ?P (err = None) s1 s2 l3" using l3(1) by (rule adds_mono) (simp add: stage_event_def)
    ultimately have "adds ?P (err = None) s s2 ((l1 @ l2) @ l3)" by (rule adds_then)
    moreover have "list_all (\<lambda>ev. \<not> is_runner ev) l3"
      using l3(1) by (auto simp: adds_def list_all_iff network_event_def)
    ultimately have "staged c scope repos (stage_event c scope) (err = None) s s2 l1 (l2 @ l3)"
      using st' by (simp add: staged_def)
    then show ?thesis using st(2) l3(2) None removed_append by blast
  next
    case (Some e)
    then show ?thesis using st' assms(3) by auto
  qed
qed

lemma kube_cold_start:
  assumes "(if SharedKubernetes s then cleanupRecoveredKubeSpawnsForProjects c scope (ProjectNamespaces s) cs
            else cleanupRecoveredKubeSpawns c scope repos cs) = (err, cs')"
    and "scBackend s = ''kube''"
  shows "\<exists>l1 l2. staged c scope (cold_repos s repos) (stage_event c scope) (err = None) cs cs' l1 l2 \<and>
     (err = None \<longrightarrow> runners_removed c scope (cold_repos s repos) l1 \<and> handles_removed c scope l2)"
proof -
  have "\<exists>l1 l2. staged c scope (cold_repos s repos) (torn_event c scope) (err = None) cs cs' l1 l2 \<and>
     (err = None \<longrightarrow> runners_removed c scope (cold_repos s repos) l1 \<and> handles_removed c scope l2)"
  proof (cases "SharedKubernetes s")
    case True
    have "set (keys (ProjectNamespaces s)) = set (cold_repos s repos)"
      using project_namespaces_keys [OF True] True assms(2) by (simp add: cold_repos_def)
    note cong = removed_cong [OF this]
    have "cleanupRecoveredKubeSpawnsValidated c scope (keys (ProjectNamespaces s))
       (validateRecoveredKubeHandlesForProjects (cdLib c) scope (ProjectNamespaces s) {}) cs = (err, cs')"
      using assms(1) True by (simp add: cleanupRecoveredKubeSpawnsForProjects_def)
    then show ?thesis unfolding cong [symmetric] by (rule kube_staged) (erule validated_project_handles_named)
  next
    case False
    have "cleanupRecoveredKubeSpawnsValidated c scope repos (validateRecoveredKubeHandles (cdLib c) scope repos {}) cs = (err, cs')"
      using assms(1) False by (simp add: cleanupRecoveredKubeSpawns_def)
    moreover have "cold_repos s repos = repos" using False by (simp add: cold_repos_def)
    ultimately show ?thesis using kube_staged [of c scope repos] validated_handles_named by simp
  qed
  then show ?thesis using staged_mono [of c scope _ "torn_event c scope" _ _ _ _ _ "stage_event c scope"]
    by (fastforce simp: stage_event_def)
qed

text \<open>How the initialization of the backend ends: before the recovery, or with its result.\<close>

lemma initializeBackend_cases:
  assumes "initializeBackend env s0 repos cs = (res, cs')"
  obtains (early) e where "res = Inl e" and "cs' = cs"
  | (kube) s err where "scBackend s0 = ''kube''"
      and "(if SharedKubernetes s0 then Validate (ieConfig env) s0 else Inr s0) = Inr s"
      and "(if SharedKubernetes s then cleanupRecoveredKubeSpawnsForProjects (ieCold env) (scName s) (ProjectNamespaces s) cs
            else cleanupRecoveredKubeSpawns (ieCold env) (scName s) repos cs) = (err, cs')"
      and "err = None \<longleftrightarrow> (\<exists>be. res = Inr be)"
  | (compose) err1 cs1 err where "scBackend s0 \<noteq> ''kube''"
      and "cleanupRecoveredSpawns (ieCold env) (scName s0) repos cs = (err1, cs1)"
      and "err1 = None \<Longrightarrow> cleanupRecoveredComposeNetworks (ieCold env) (scName s0) cs1 = (err, cs')"
      and "err1 \<noteq> None \<Longrightarrow> err = err1 \<and> cs' = cs1" and "err = None \<longleftrightarrow> (\<exists>be. res = Inr be)"
proof (cases "scBackend s0 = ''kube''")
  case True
  show ?thesis
  proof (cases "if SharedKubernetes s0 then Validate (ieConfig env) s0 else Inr s0")
    case (Inl e)
    then show ?thesis using assms True early by (auto simp: initializeBackend_def)
  next
    case (Inr s)
    obtain err cs1 where run: "(if SharedKubernetes s then cleanupRecoveredKubeSpawnsForProjects (ieCold env) (scName s) (ProjectNamespaces s) cs
            else cleanupRecoveredKubeSpawns (ieCold env) (scName s) repos cs) = (err, cs1)" by fastforce
    have "(\<exists>e. res = Inl e \<and> cs' = cs) \<or> cs' = cs1 \<and> (err = None \<longleftrightarrow> (\<exists>be. res = Inr be))"
      using assms [symmetric] True Inr run
      by (cases "selectBackend s False (ieKubeCtor env s)"; cases err) (auto simp: initializeBackend_def split: option.splits)
    then show ?thesis using early kube [OF True Inr] run by blast
  qed
next
  case False
  obtain err1 cs1 where one: "cleanupRecoveredSpawns (ieCold env) (scName s0) repos cs = (err1, cs1)" by fastforce
  obtain err2 cs2 where two: "cleanupRecoveredComposeNetworks (ieCold env) (scName s0) cs1 = (err2, cs2)" by fastforce
  have "(\<exists>e. res = Inl e \<and> cs' = cs) \<or>
      (if err1 = None then cs' = cs2 \<and> (err2 = None \<longleftrightarrow> (\<exists>be. res = Inr be)) else cs' = cs1 \<and> (\<exists>e. res = Inl e))"
    using assms [symmetric] False one two
    by (cases "selectBackend s0 True (ieKubeCtor env s0)"; cases err1; cases err2)
       (auto simp: initializeBackend_def split: option.splits if_splits)
  then show ?thesis
    using early compose [OF False one, of "if err1 = None then err2 else err1"] two by (auto split: if_splits)
qed

lemma cold_start_staged:
  assumes "initializeBackend env s0 repos cs = (res, cs')"
  shows "\<exists>l1 l2. staged (ieCold env) (scName s0) (cold_repos s0 repos) (stage_event (ieCold env) (scName s0)) (\<exists>be. res = Inr be) cs cs' l1 l2 \<and>
     ((\<exists>be. res = Inr be) \<longrightarrow> runners_removed (ieCold env) (scName s0) (cold_repos s0 repos) l1 \<and> stage_removed (ieCold env) s0 l2)"
  using assms
proof (cases rule: initializeBackend_cases)
  case early
  then show ?thesis by (intro exI [of _ "[]"] conjI staged_nothing) simp_all
next
  case (kube s err)
  have "s = s0 \<or> validateProjects (ieConfig env) s0 = Inr s"
    using kube(1,2) validate_runs_projects [of "ieConfig env" s0 s] by (auto split: if_splits)
  then have keeps: "scName s = scName s0" "scBackend s = ''kube''" "cold_repos s repos = cold_repos s0 repos"
    using validate_projects_keeps [of "ieConfig env" s0 s] validated_stays_shared [of "ieConfig env" s0 s] kube(1)
    by (auto simp: cold_repos_def)
  show ?thesis
    using kube_cold_start [OF kube(3) keeps(2)] kube(1,4) unfolding keeps stage_removed_def by simp
next
  case (compose err1 cs1 err)
  then show ?thesis using compose_staged [OF compose(2-4)] by (simp add: cold_repos_def stage_removed_def)
qed

lemma staged_split:
  assumes "staged c scope repos (stage_event c scope) ok s s' l1 l2"
  shows "cstLog s' = cstLog s @ l1 @ l2" and "\<forall>ev\<in>set l1. runner_event c scope repos ev"
    and "\<forall>ev\<in>set l2. stage_event c scope ev" and "\<forall>ev\<in>set (butlast (l1 @ l2)). ev_ok ev"
    and "ok \<Longrightarrow> \<forall>ev\<in>set (l1 @ l2). ev_ok ev"
proof -
  have sep: "stage_event c scope ev \<Longrightarrow> \<not> is_runner ev" "runner_event c scope repos ev \<Longrightarrow> is_runner ev" for ev
    by (auto simp: stage_event_def runner_event_def container_event_def network_event_def torn_event_def)
  have "\<forall>ev\<in>set (l1 @ l2). runner_event c scope repos ev \<or> stage_event c scope ev"
    "\<forall>ev\<in>set l1. is_runner ev" "\<forall>ev\<in>set l2. \<not> is_runner ev"
    using assms by (auto simp: staged_def adds_def list_all_iff)
  then show "\<forall>ev\<in>set l1. runner_event c scope repos ev" "\<forall>ev\<in>set l2. stage_event c scope ev"
    using sep by (metis Un_iff set_append)+
qed (use assms in \<open>simp_all add: staged_def adds_def list_all_iff\<close>)

text \<open>C30: recovery at start-up fails closed. Every change it makes is to something listed under the
  scope: an idle registration that carries both ownership labels, a container or network of the
  scope, or a handle whose names derive from its spawn. Registrations go first; the first failure
  is the last event, so no container or spawn is removed unless every registration was; and a
  backend is returned only when everything listed has been removed.\<close>

theorem cold_start_fails_closed:
  assumes "initializeBackend env s0 repos cs = (res, cs')"
  shows "\<exists>l1 l2. cstLog cs' = cstLog cs @ l1 @ l2 \<and>
     (\<forall>ev\<in>set l1. runner_event (ieCold env) (scName s0) (cold_repos s0 repos) ev) \<and>
     (\<forall>ev\<in>set l2. stage_event (ieCold env) (scName s0) ev) \<and>
     (\<forall>ev\<in>set (butlast (l1 @ l2)). ev_ok ev) \<and>
     (\<forall>be. res = Inr be \<longrightarrow> (\<forall>ev\<in>set (l1 @ l2). ev_ok ev) \<and>
        runners_removed (ieCold env) (scName s0) (cold_repos s0 repos) l1 \<and> stage_removed (ieCold env) s0 l2)"
proof -
  obtain l1 l2 where st: "staged (ieCold env) (scName s0) (cold_repos s0 repos) (stage_event (ieCold env) (scName s0)) (\<exists>be. res = Inr be) cs cs' l1 l2"
    and fin: "(\<exists>be. res = Inr be) \<longrightarrow> runners_removed (ieCold env) (scName s0) (cold_repos s0 repos) l1 \<and> stage_removed (ieCold env) s0 l2"
    using cold_start_staged [OF assms] by blast
  show ?thesis using staged_split [OF st] fin by blast
qed

text \<open>An example: a registration and a container are left over from an earlier process.\<close>

definition recovery_env :: InitEnv where
  "recovery_env =
     \<lparr>ieConfig = \<lparr>ceLib = \<lparr>klLabelValue = (\<lambda>s. True), klDNS1123Label = (\<lambda>s. True), klDNS1123Subdomain = (\<lambda>s. True),
         klQualifiedName = (\<lambda>s. True), klQuantity = (\<lambda>s. True)\<rparr>,
        ceReadFile = (\<lambda>p. Inl (Plain ''unused'')), ceUnmarshal = (\<lambda>b. Inl (Plain ''unused'')),
        ceStat = (\<lambda>p. Inr (256, True)), ceQuantityPositive = (\<lambda>q. True), ceQuantityAtMost = (\<lambda>q m. True)\<rparr>,
      ieCold = \<lparr>cdLib = \<lparr>klLabelValue = (\<lambda>s. True), klDNS1123Label = (\<lambda>s. True), klDNS1123Subdomain = (\<lambda>s. True),
         klQualifiedName = (\<lambda>s. True), klQuantity = (\<lambda>s. True)\<rparr>,
        cdListContainers = (\<lambda>n scope. Inr [\<lparr>dcID = ''c1'', dcName = ''rs-a-runner'',
          dcLabels = [(''runsecure.role'', ''runner''), (''runsecure.spawn_id'', ''a''), (''runsecure.repo'', ''o/r'')]\<rparr>]),
        cdDeleteContainer = (\<lambda>n i. Some (Plain ''docker 500'')), cdListNetworks = (\<lambda>n scope. Inr []),
        cdDeleteNetwork = (\<lambda>n i. None),
        cdListRunners = (\<lambda>n repo. Inr [\<lparr>ghrID = 7, ghrName = ''rs-a-runner'', ghrStatus = ''offline'', ghrBusy = False,
          ghrLabels = [''runsecure-jit'', ''runsecure-scope-ci'']\<rparr>]),
        cdDeleteRunner = (\<lambda>n repo i. None), cdReconcile = (\<lambda>n scope. Inr []), cdTeardown = (\<lambda>n h. None)\<rparr>,
      ieGetenv = (\<lambda>k. []), ieDockerCtor = (\<lambda>h. None), ieKubeCtor = (\<lambda>s. Inl (Plain ''unused''))\<rparr>"

definition recovery_scope :: Scope where
  "recovery_scope = \<lparr>scAPIVersion = SupportedAPIVersion, scName = ''ci'', scDescription = [], scBackend = ''compose'',
     scGlobalMaxRunners = 4, scPollIntervalSeconds = 10, scSecurityProfile = ''strict'', scSecurityOverrides = [],
     scAllowProjectOverrides = [], scAuth = \<lparr>abType = ''pat'', abPATFile = ''/run/pat'', abAppID = 0, abInstallationID = 0, abPrivateKeyFile = []\<rparr>,
     scAllowDomains = [''api.github.com''], scRepos = []\<rparr>"

definition recovery_run :: "(gerr + SelectedBackend) \<times> ColdState" where
  "recovery_run = initializeBackend recovery_env recovery_scope [''o/r''] \<lparr>cstCalls = 0, cstLog = []\<rparr>"

lemma cold_start_fails_closed_witness:
  "isl (fst recovery_run) \<and>
   (\<exists>l1 l2. [CRunner ''o/r'' 7 True, CContainer ''c1'' False] = l1 @ l2 \<and>
     (\<forall>ev\<in>set l1. runner_event (ieCold recovery_env) (scName recovery_scope) (cold_repos recovery_scope [''o/r'']) ev) \<and>
     (\<forall>ev\<in>set l2. stage_event (ieCold recovery_env) (scName recovery_scope) ev))"
proof -
  have run: "initializeBackend recovery_env recovery_scope [''o/r''] \<lparr>cstCalls = 0, cstLog = []\<rparr> = (fst recovery_run, snd recovery_run)"
    by (simp add: recovery_run_def)
  have lg: "cstLog (snd recovery_run) = [CRunner ''o/r'' 7 True, CContainer ''c1'' False]" "isl (fst recovery_run)" by code_simp+
  from cold_start_fails_closed [OF run] show ?thesis unfolding lg(1) using lg(2) by auto
qed

end
