(* ===== verification/Startup_Props.thy ===== *)
theory Startup_Props
  imports Startup_Thms Worker_Thms
begin

text \<open>
  What a validated configuration promises, and examples of start-up: spawns of a validated shared
  scope are well formed, and its projects are routed apart.
\<close>

section \<open>Spawns of a validated scope\<close>

lemma dec_val_mono: "list_all is_digit s \<Longrightarrow> 0 \<le> dec_val s"
proof (induction s rule: rev_induct)
  case (snoc c s)
  then show ?case by (simp add: dec_val_snoc digit_val_def is_digit_def)
qed (simp add: dec_val_def)

lemma dec_val_pos:
  "list_all is_digit s \<Longrightarrow> s \<noteq> [] \<Longrightarrow> hd s \<noteq> CHR ''0'' \<Longrightarrow> 0 < dec_val s"
proof (induction s rule: rev_induct)
  case (snoc c s)
  show ?case
  proof (cases "s = []")
    case True
    have "(of_char c :: nat) \<noteq> of_char CHR ''0''" using snoc.prems(3) True by (simp only: of_char_eq_iff) simp
    then show ?thesis using snoc.prems True by (simp add: dec_val_def digit_val_def is_digit_def)
  next
    case False
    then show ?thesis using snoc dec_val_mono [of "[c]"] by (simp add: dec_val_snoc dec_val_def)
  qed
qed simp

lemma sscanf_d_digits:
  assumes "list_all is_digit ds" and "ds \<noteq> []" and "dec_val ds < 2 ^ 63"
  shows "sscanf_d ds = Some (dec_val ds)"
proof -
  have hd: "is_digit (hd ds)" using assms(1,2) by (cases ds) auto
  then have h: "hd ds \<notin> {CHR '' '', CHR 0x09, CHR 0x0B, CHR 0x0C, CHR 0x0D, CHR ''-'', CHR ''+''}"
    by (auto simp: is_digit_def)
  have "dropWhile (\<lambda>c. c \<in> {CHR '' '', CHR 0x09, CHR 0x0B, CHR 0x0C, CHR 0x0D}) ds = ds"
    using h assms(2) by (cases ds) auto
  moreover have tw: "takeWhile is_digit ds = ds" using assms(1) by (simp add: takeWhile_eq_all_conv list_all_iff)
  ultimately show ?thesis
    using h assms dec_val_mono [OF assms(1)] by (simp add: sscanf_d_def Let_def tw del: takeWhile_eq_all_conv)
qed

lemma approved_memory:
  assumes "runnerMemory m" and "memory_bounded m"
  shows "fst (parseResources m cpus) = dec_val (butlast m) * memory_unit (last m)"
    and "0 < dec_val (butlast m) * memory_unit (last m)" and "dec_val (butlast m) * memory_unit (last m) \<le> 512 * 2 ^ 30"
proof -
  let ?n = "dec_val (butlast m)" and ?u = "memory_unit (last m)"
  have m: "list_all is_digit (butlast m)" "butlast m \<noteq> []" "hd (butlast m) \<noteq> CHR ''0''" "2 \<le> length m"
    and unit: "last m \<in> {CHR ''k'', CHR ''K'', CHR ''m'', CHR ''M'', CHR ''g'', CHR ''G''}"
    using assms(1) by (auto simp: runnerMemory_def Suc_le_length_iff numeral_2_eq_2)
  have u: "0 < ?u" by (simp add: memory_unit_def)
  show pos: "0 < ?n * ?u" using dec_val_pos [OF m(1-3)] u by simp
  have n: "?n < 2 ^ 63" "?n \<le> 512 * 2 ^ 30 div ?u" using assms(2) by (simp_all add: memory_bounded_def Let_def)
  show le: "?n * ?u \<le> 512 * 2 ^ 30" using n(2) by (auto simp: memory_unit_def split: if_splits)
  have "i64 (?n * ?u) = ?n * ?u" using pos le by (intro i64_id) auto
  then show "fst (parseResources m cpus) = ?n * ?u"
    using unit m(4) sscanf_d_digits [OF m(1,2) n(1)] by (auto simp: parseResources_def Let_def memory_unit_def)
qed

definition quantities_ok :: "KubeLib \<Rightarrow> KubePodSettings \<Rightarrow> bool" where
  "quantities_ok l k = (klQuantity l (kpEphemeralStorage k) \<and> klQuantity l (kpProxyCPU k) \<and> klQuantity l (kpProxyMemory k) \<and>
     klQuantity l (kpProxyEphemeralStorage k) \<and> kpEphemeralStorage k \<noteq> [] \<and> kpProxyCPU k \<noteq> [] \<and> kpProxyMemory k \<noteq> [] \<and>
     kpProxyEphemeralStorage k \<noteq> [])"

lemma or_default_nonempty: "d \<noteq> [] \<Longrightarrow> or_default v d \<noteq> []"
  by (simp add: or_default_def)

lemma pod_settings_quantities:
  assumes "validatePodSettings env arch k = Inr k'"
  shows "quantities_ok (ceLib env) k'"
  using assms unfolding validatePodSettings_def Let_def
  by (simp split: if_splits option.splits) (auto simp: quantities_ok_def quantity_ok_def or_default_nonempty)

lemma approved_runner_resources:
  assumes "validateApprovedRunner env r0 = Inr r"
  obtains cfg where "rbRunnerConfig r = Some cfg" and "runnerMemory (resMemory (ryResources cfg))"
    and "memory_bounded (resMemory (ryResources cfg))" and "1 \<le> resCPUs (ryResources cfg)" and "resCPUs (ryResources cfg) \<le> 128"
    and "quantities_ok (ceLib env) (rbKubernetes r)"
  using assms unfolding validateApprovedRunner_def Let_def
  by (simp split: option.splits if_splits sum.splits) (auto dest!: pod_settings_quantities)

section \<open>The environment\<close>

lemma check_cidrs_dns: "check_cidrs name seen cidrs = None \<Longrightarrow> check_dns seen cidrs = None"
  by (induction cidrs arbitrary: seen) (auto simp: exact_ipv4_def split: option.splits if_splits)

lemma validated_environment:
  assumes "validateKubeEnvironment l getenv = None"
  defines "cidrs \<equiv> split_char CHR '','' (getenv ''RUNSECURE_KUBE_DNS_SERVICE_CIDRS'')"
  shows "check_dns {} cidrs = None" and "cidrs \<noteq> []"
    and "IsDNS1123Label l (getenv ''RUNSECURE_KUBE_DNS_NAMESPACE'')"
    and "klQualifiedName l (getenv ''RUNSECURE_KUBE_DNS_POD_LABEL_KEY'')"
    and "getenv ''RUNSECURE_KUBE_DNS_POD_LABEL_VALUE'' \<noteq> []"
    and "klLabelValue l (getenv ''RUNSECURE_KUBE_DNS_POD_LABEL_VALUE'')"
  using assms(1) unfolding validateKubeEnvironment_def validateKubeCIDRs_def cidrs_def Let_def
  by (simp_all split: option.splits if_splits) (auto dest: check_cidrs_dns)

lemma quantity_given: "klQuantity l q \<Longrightarrow> q \<noteq> [] \<Longrightarrow> quantityOrDefault l q d = Some (QParsed q)"
  by (simp add: quantityOrDefault_def)

lemma pods_build:
  assumes "quantities_ok l (inKubernetes inp)"
  shows "spawn_objects l inp ns cfgs \<noteq> None"
  using assms
  by (cases cfgs) (simp add: spawn_objects_def ProxyPod_def RunnerPod_def proxyResourceBounds_def quantities_ok_def
      quantity_given Let_def)

lemma Validate_projects:
  assumes "Validate env s0 = Inr s"
  obtains s1 where "validateProjects env s1 = Inr s" and "scRepos s1 = scRepos s0" and "scName s1 = scName s0"
  using assms
  by (auto simp: Validate_def Let_def split: option.splits if_splits sum.splits)

lemma validated_repos:
  assumes "Validate env s0 = Inr s" and "SharedKubernetes s0"
  obtains base s1 where "validate_shared env s1 base 0 [] [] (scRepos s0) = Inr (scRepos s)" and "scName s1 = scName s"
    and "SharedKubernetes s"
proof -
  from assms(1) obtain s1 where s1: "validateProjects env s1 = Inr s" "scRepos s1 = scRepos s0" by (rule Validate_projects)
  have sh: "SharedKubernetes s1" using assms(2) s1(2) by (simp add: SharedKubernetes_def)
  from shared_projects_valid [OF s1(1) this] obtain base
    where "validate_shared env s1 base 0 [] [] (scRepos s1) = Inr (scRepos s)" .
  then show thesis
    using that validated_stays_shared [OF s1(1)] validate_projects_keeps [OF s1(1)] s1(2) sh by auto
qed


section \<open>Projects are kept apart\<close>

lemma update_all_lookup:
  "distinct (map f rs) \<Longrightarrow>
     map_of (fold (\<lambda>r. AList.update (f r) (g r)) rs m) k =
       (case find (\<lambda>r. f r = k) rs of Some r \<Rightarrow> Some (g r) | None \<Rightarrow> map_of m k)"
proof (induction rs arbitrary: m)
  case (Cons r rs)
  have "find (\<lambda>x. f x = f r) rs = None" using Cons.prems by (simp add: find_None_iff) (metis image_eqI)
  then show ?case using Cons by (auto split: option.splits)
qed simp

lemma update_all_distinct: "distinct (map fst m) \<Longrightarrow> distinct (map fst (fold (\<lambda>r. AList.update (f r) (g r)) rs m))"
  by (induction rs arbitrary: m) (auto simp: distinct_update)

lemma enrol_lookup:
  "enrol l scope nss labels copy m = Inr copy' \<Longrightarrow> distinct (map fst m) \<Longrightarrow>
     map_of copy' k = (case map_of m k of Some ns \<Rightarrow> Some ns | None \<Rightarrow> map_of copy k)"
proof (induction l scope nss labels copy m rule: enrol.induct)
  case (2 l scope nss labels copy repo ns rest)
  have "map_of rest repo = None" using "2.prems"(2) by (auto simp: map_of_eq_None_iff)
  then show ?case using 2 by (auto simp: Let_def split: if_splits option.splits)
qed simp

lemma find_unique: "distinct (map f rs) \<Longrightarrow> find (\<lambda>r. f r = k) rs = Some r \<longleftrightarrow> r \<in> set rs \<and> f r = k"
  by (induction rs) force+

lemma project_lookup:
  assumes "distinct (map rbRepo (scRepos s))" and "SharedKubernetes s"
  shows "map_of (ProjectNamespaces s) repo = Some ns \<longleftrightarrow> (\<exists>r\<in>set (scRepos s). rbRepo r = repo \<and> rbNamespace r = ns)"
proof -
  have "map_of (ProjectNamespaces s) repo = map_option rbNamespace (find (\<lambda>r. rbRepo r = repo) (scRepos s))"
    using assms by (simp add: ProjectNamespaces_def update_all_lookup split: option.splits)
  then show ?thesis using find_unique [OF assms(1)] by auto
qed

lemma configured_lookup:
  assumes "configureKubeBackend l s = Inr b" and "SharedKubernetes s"
  shows "\<exists>m. kbNamespaces b = Some m \<and> kbScope b = scName s \<and> (\<forall>repo. map_of m repo = map_of (ProjectNamespaces s) repo)"
proof -
  obtain m where m: "enrol l (scName s) {} {} [] (ProjectNamespaces s) = Inr m"
    "b = kube_New\<lparr>kbScope := scName s, kbNamespaces := Some m\<rparr>"
    using assms by (auto simp: configureKubeBackend_def NewForProjects_def split: if_splits sum.splits)
  have "distinct (keys (ProjectNamespaces s))" using assms(2) by (simp add: ProjectNamespaces_def update_all_distinct)
  then show ?thesis using enrol_lookup [OF m(1)] m(2) by (auto simp: kube_New_def split: option.splits)
qed

text \<open>C32: the backend configured for a validated shared scope routes exactly the enrolled repositories
  of its own scope, each to its own namespace; no two repositories share a namespace and none is
  the controller's.\<close>

theorem projects_isolated:
  assumes "Validate ce s0 = Inr s" and "SharedKubernetes s0" and "configureKubeBackend (ceLib ce) s = Inr b"
  shows "(\<forall>scope repo given ns. route b scope repo given = Inr ns \<longleftrightarrow>
        scope = scName s \<and> given \<in> {[], ns} \<and> (\<exists>r\<in>set (scRepos s). rbRepo r = repo \<and> rbNamespace r = ns)) \<and>
     distinct (map rbNamespace (scRepos s)) \<and> distinct (map (\<lambda>r. to_lower (rbRepo r)) (scRepos s)) \<and>
     kube_Namespace (scName s) \<notin> rbNamespace ` set (scRepos s)"
proof -
  from assms(1,2) obtain base s1 where v: "validate_shared ce s1 base 0 [] [] (scRepos s0) = Inr (scRepos s)"
    and name: "scName s1 = scName s" and sh: "SharedKubernetes s" by (rule validated_repos)
  note keeps = validate_shared_keeps [OF v] and dist = validate_shared_distinct [OF v]
  have lower: "map (\<lambda>r. to_lower (rbRepo r)) (scRepos s) = map (\<lambda>r. to_lower (rbRepo r)) (scRepos s0)"
    using arg_cong [OF conjunct1 [OF keeps], of "map to_lower"] by (simp add: comp_def)
  have d: "distinct (map rbNamespace (scRepos s))" "distinct (map (\<lambda>r. to_lower (rbRepo r)) (scRepos s))"
    using dist keeps lower by simp_all
  then have "distinct (map to_lower (map rbRepo (scRepos s)))" by (simp add: comp_def)
  then have dr: "distinct (map rbRepo (scRepos s))" using distinct_map [of to_lower "map rbRepo (scRepos s)"] by blast
  obtain m where m: "kbNamespaces b = Some m" "kbScope b = scName s"
    "\<forall>repo. map_of m repo = map_of (ProjectNamespaces s) repo"
    using configured_lookup [OF assms(3) sh] by blast
  have "route b scope repo given = Inr ns \<longleftrightarrow> scope = scName s \<and> given \<in> {[], ns} \<and> map_of (ProjectNamespaces s) repo = Some ns"
    for scope repo given ns
    using m by (auto simp: route_def split: option.splits if_splits)
  moreover have "kube_Namespace (scName s) \<notin> rbNamespace ` set (scRepos s)"
    using validate_shared_each [OF v] name by (fastforce simp: kube_Namespace_def)
  ultimately show ?thesis using d project_lookup [OF dr sh] by simp
qed

section \<open>Examples\<close>

definition any_lib :: KubeLib where
  "any_lib = \<lparr>klLabelValue = (\<lambda>s. True), klDNS1123Label = (\<lambda>s. True), klDNS1123Subdomain = (\<lambda>s. True),
     klQualifiedName = (\<lambda>s. True), klQuantity = (\<lambda>s. True)\<rparr>"

definition startup_config :: ConfigEnv where
  "startup_config = \<lparr>ceLib = any_lib, ceReadFile = (\<lambda>p. Inl (Plain ''unused'')), ceUnmarshal = (\<lambda>b. Inl (Plain ''unused'')),
     ceStat = (\<lambda>p. Inr (288, False)), ceQuantityPositive = (\<lambda>q. True), ceQuantityAtMost = (\<lambda>q m. True)\<rparr>"

definition startup_yml :: RunnerYML where
  "startup_yml = \<lparr>ryRuntime = ''node:20'', ryLabels = [''self-hosted'', ''ARM64''], ryVersion = [],
     ryResources = \<lparr>resMemory = ''8g'', resCPUs = 4, resPIDs = 512\<rparr>, ryAllowDomains = [], ryHTTPEgress = [''registry.npmjs.org''],
     ryTCPEgress = [], ryDNS = \<lparr>dnsHost = None, dnsServers = [], dnsHostsFile = [], dnsWhitelistFile = [], dnsLogQueries = None\<rparr>,
     ryOrchestrator = \<lparr>obTimeoutSeconds = 0, obSecurityOverrides = [], obSeccompProfile = []\<rparr>\<rparr>"

definition startup_repo :: "string \<Rightarrow> string \<Rightarrow> RepoBlock" where
  "startup_repo repo ns = \<lparr>rbSharedDeclared = True, rbNamespace = ns, rbRunnerConfig = Some startup_yml, rbRunnerImage = [],
     rbKubernetes = zero_KubePodSettings, rbRepo = repo, rbProjectDir = [], rbMaxConcurrent = 2\<rparr>"

definition startup_scope :: Scope where
  "startup_scope = \<lparr>scAPIVersion = SupportedAPIVersion, scName = ''ci'', scDescription = [], scBackend = ''kube'',
     scGlobalMaxRunners = 4, scPollIntervalSeconds = 10, scSecurityProfile = ''strict'', scSecurityOverrides = [],
     scAllowProjectOverrides = [], scAuth = \<lparr>abType = ''pat'', abPATFile = ''/run/pat'', abAppID = 0, abInstallationID = 0, abPrivateKeyFile = []\<rparr>,
     scAllowDomains = [''api.github.com''], scRepos = [startup_repo ''o/r'' ''team-a'', startup_repo ''o/q'' ''team-b'']\<rparr>"

definition startup_getenv :: "string \<Rightarrow> string" where
  "startup_getenv k =
     (if k = ''RUNSECURE_KUBE_API_SERVER_PEERS'' then ''[{\"cidr\":\"10.0.0.1/32\",\"port\":443}]''
      else if k = ''RUNSECURE_KUBE_DNS_SERVICE_CIDRS'' then ''10.96.0.10/32''
      else if HasPrefix k ''RUNSECURE_KUBE_DNS'' then ''kube-dns''
      else ''img@sha256:'' @ replicate 64 CHR ''0'')"

definition startup_valid :: Scope where
  "startup_valid = projr (Validate startup_config startup_scope)"

definition startup_source :: RunnerSourceEnv where
  "startup_source = \<lparr>rseScope = startup_valid, rseClient = eClient (seEnv worker_env), rseGetenv = startup_getenv,
     rseYAML = (\<lambda>b. Inl (Plain ''unused'')), rseParse = (\<lambda>p. Inl (Plain ''unused''))\<rparr>"

definition startup_worker :: SpawnEnv where
  "startup_worker = worker_env\<lparr>seGetenv := startup_getenv\<rparr>"

lemma startup_validates: "Validate startup_config startup_scope = Inr startup_valid" "SharedKubernetes startup_scope"
proof -
  have "\<not> isl (Validate startup_config startup_scope)" by code_simp
  then show "Validate startup_config startup_scope = Inr startup_valid" by (simp add: startup_valid_def sum.collapse)
  show "SharedKubernetes startup_scope" by code_simp
qed


definition startup_backend :: KubeBackend where
  "startup_backend = projr (configureKubeBackend any_lib startup_valid)"

lemma projects_isolated_witness:
  "route startup_backend ''ci'' ''o/q'' [] = Inr ''team-b'' \<and> route startup_backend ''ci'' ''o/q'' ''team-a'' \<noteq> Inr ''team-a''"
proof -
  have "\<not> isl (configureKubeBackend any_lib startup_valid)" by code_simp
  then have b: "configureKubeBackend (ceLib startup_config) startup_valid = Inr startup_backend"
    by (simp add: startup_backend_def startup_config_def sum.collapse)
  have "scName startup_valid = ''ci''" "map (\<lambda>r. (rbRepo r, rbNamespace r)) (scRepos startup_valid) = [(''o/r'', ''team-a''), (''o/q'', ''team-b'')]"
    by code_simp+
  then show ?thesis using projects_isolated [OF startup_validates b] by fastforce
qed

end
