(* ===== verification/Server_Model.thy ===== *)
theory Server_Model
  imports Startup_Model JSON_Text
begin

text \<open>
  What the orchestrator shows of itself: the handlers of \<open>internal/server\<close> for \<open>/healthz\<close>,
  \<open>/readyz\<close> and \<open>/metrics\<close>, the adapter \<open>serverDeps\<close> of \<open>cmd/orchestrator/run.go\<close> that feeds them,
  and the drift correction \<open>internal/state/drift.go\<close>.

  A handler maps the dependencies to a status and a body. The table of printable runes that
  \<open>strconv.Quote\<close> consults is an argument.
\<close>

section \<open>serverDeps\<close>

type_synonym APICallKey = "string \<times> string"

type_synonym SpawnKey = "string \<times> string \<times> string"

text \<open>\<open>sdReady\<close> is the answer of the installed readiness probe, if one is installed.\<close>

record serverDeps =
  sdState :: State
  sdNow :: time
  sdInterval :: int
  sdLastPoll :: "time option"
  sdPollStarted :: bool
  sdAPI :: "(APICallKey, int) gomap"
  sdSpawns :: "(SpawnKey, int) gomap"
  sdBreakers :: "breakerMap option"
  sdReady :: "gerr option option"

definition newServerDeps :: "State \<Rightarrow> time \<Rightarrow> int \<Rightarrow> serverDeps" where
  "newServerDeps st now intervalS =
     \<lparr>sdState = st, sdNow = now, sdInterval = intervalS, sdLastPoll = Some now, sdPollStarted = False, sdAPI = [],
      sdSpawns = [], sdBreakers = None, sdReady = None\<rparr>"

definition LastPollAt :: "serverDeps \<Rightarrow> time" where
  "LastPollAt d = (case sdLastPoll d of None \<Rightarrow> zero_time | Some t \<Rightarrow> t)"

text \<open>The breakers overlay the snapshot; a repository with a breaker only gets a zero entry.\<close>

definition StateSnapshot :: "serverDeps \<Rightarrow> Snapshot" where
  "StateSnapshot d =
     (let snap = take_Snapshot (sdState d) in
      case sdBreakers d of
        None \<Rightarrow> snap
      | Some m \<Rightarrow>
          snap\<lparr>snPerRepo := fold (\<lambda>(repo, opened) per. AList.update repo ((lookup_or zero_RepoState per repo)\<lparr>rsBreakerOpen := opened\<rparr>) per)
                              (bm_snapshot m) (snPerRepo snap)\<rparr>)"

definition setBackendReady :: "gerr option \<Rightarrow> serverDeps \<Rightarrow> serverDeps" where
  "setBackendReady answer d = d\<lparr>sdReady := Some answer\<rparr>"

definition BackendReady :: "serverDeps \<Rightarrow> gerr option" where
  "BackendReady d = (case sdReady d of None \<Rightarrow> Some (Plain ''backend not initialized'') | Some r \<Rightarrow> r)"

text \<open>Both counters are atomic 64-bit additions on an entry made on first use.\<close>

definition count_up :: "'k \<Rightarrow> ('k, int) gomap \<Rightarrow> ('k, int) gomap" where
  "count_up k m = AList.update k (i64 (lookup_or 0 m k + 1)) m"

definition recordAPICall :: "string \<Rightarrow> string \<Rightarrow> string \<Rightarrow> serverDeps \<Rightarrow> serverDeps" where
  "recordAPICall mthd path status d = d\<lparr>sdAPI := count_up (githubAPIEndpoint mthd path, status) (sdAPI d)\<rparr>"

definition recordSpawn :: "string \<Rightarrow> string \<Rightarrow> string \<Rightarrow> serverDeps \<Rightarrow> serverDeps" where
  "recordSpawn scope repo outcome d = d\<lparr>sdSpawns := count_up (scope, repo, outcome) (sdSpawns d)\<rparr>"

definition BreakerOpen :: "serverDeps \<Rightarrow> (string, bool) gomap" where
  "BreakerOpen d = (case sdBreakers d of None \<Rightarrow> [] | Some m \<Rightarrow> bm_snapshot m)"

text \<open>The probe of a backend: \<open>Ready\<close> where it has one, else a recovery listing.\<close>

definition checkBackendReady :: "(string \<Rightarrow> gerr option) option \<Rightarrow> (string \<Rightarrow> gerr + Handle list) \<Rightarrow> string \<Rightarrow> gerr option" where
  "checkBackendReady probe reconcile scope =
     (case probe of
        Some ready \<Rightarrow> ready scope
      | None \<Rightarrow> (case reconcile scope of Inl e \<Rightarrow> Some e | Inr _ \<Rightarrow> None))"

section \<open>Readiness and liveness\<close>

text \<open>Three poll intervals as a duration, with the wrap-around of both multiplications.\<close>

definition poll_limit :: "int \<Rightarrow> duration" where
  "poll_limit intervalS = i64 (i64 (3 * intervalS) * time_Second)"

definition repo_reasons :: "time \<Rightarrow> duration \<Rightarrow> string \<Rightarrow> RepoState \<Rightarrow> string list" where
  "repo_reasons now limit repo r =
     (if IsZero (rsLastPollSuccess r) then [''poll_never_succeeded:'' @ repo]
      else if limit \<le> time_Sub now (rsLastPollSuccess r) then [''poll_stale:'' @ repo] else []) @
     (if rsLastPollError r \<noteq> [] then [''poll_error:'' @ repo @ '':'' @ rsLastPollError r] else []) @
     map (\<lambda>(op, e). ''runner_operation_error:'' @ repo @ '':'' @ op @ '':'' @ oeClass e) (rsRunnerOperationError r) @
     (if rsBreakerOpen r then [''breaker_open:'' @ repo] else []) @
     (if 0 < rsTeardownBlocked r then [''teardown_blocked:'' @ repo] else [])"

definition readinessReasons :: "Snapshot \<Rightarrow> time \<Rightarrow> int \<Rightarrow> string list" where
  "readinessReasons snap now intervalS =
     (if \<not> snConfigLoaded snap then [''config_not_loaded''] else []) @
     (if snDraining snap then [''draining''] else []) @
     (if snRateLimited snap then [''rate_limited''] else []) @
     concat (map (\<lambda>(repo, r). repo_reasons now (poll_limit intervalS) repo r) (snPerRepo snap))"

definition readyz_body :: "string list \<Rightarrow> json" where
  "readyz_body reasons =
     (if reasons = [] then JObj [(''status'', JStr ''ready''), (''ready'', JBool True)]
      else JObj [(''status'', JStr ''not_ready''), (''ready'', JBool False), (''reasons'', JArr (map JStr reasons))])"

definition Readyz_ServeHTTP :: "serverDeps \<Rightarrow> int \<times> string" where
  "Readyz_ServeHTTP d =
     (let reasons = sort (readinessReasons (StateSnapshot d) (sdNow d) (sdInterval d) @
            (if BackendReady d \<noteq> None then [''backend_unreachable''] else []))
      in (if reasons = [] then 200 else 503, json_text (readyz_body reasons) @ [CHR 0x0A]))"

definition Healthz_ServeHTTP :: "serverDeps \<Rightarrow> int \<times> string" where
  "Healthz_ServeHTTP d =
     (if \<not> sdPollStarted d then (200, ''{\"status\":\"starting\"}'')
      else if poll_limit (sdInterval d) \<le> time_Sub (sdNow d) (LastPollAt d) then (500, ''{\"status\":\"stale\"}'')
      else (200, ''{\"status\":\"ok\"}''))"

section \<open>Metrics\<close>

text \<open>\<open>strconv.Quote\<close>, the verb \<open>%q\<close>.\<close>

definition rune_val :: "string \<Rightarrow> nat" where
  "rune_val r =
     (case r of
        [a] \<Rightarrow> byte a
      | [a, b] \<Rightarrow> (byte a - 192) * 64 + (byte b - 128)
      | [a, b, c] \<Rightarrow> (byte a - 224) * 4096 + (byte b - 128) * 64 + (byte c - 128)
      | [a, b, c, d] \<Rightarrow> (byte a - 240) * 262144 + (byte b - 128) * 4096 + (byte c - 128) * 64 + (byte d - 128)
      | _ \<Rightarrow> 0)"

definition hex_pad :: "nat \<Rightarrow> nat \<Rightarrow> string" where
  "hex_pad k n = map (\<lambda>i. json_hex (n div 16 ^ i mod 16)) (rev [0..<k])"

definition quote_ascii :: "char \<Rightarrow> string" where
  "quote_ascii c =
     (if c = CHR 0x22 \<or> c = CHR 0x5C then [CHR 0x5C, c]
      else if 32 \<le> byte c \<and> byte c < 127 then [c]
      else if c = CHR 0x07 then [CHR 0x5C, CHR ''a''] else if c = CHR 0x08 then [CHR 0x5C, CHR ''b'']
      else if c = CHR 0x0C then [CHR 0x5C, CHR ''f''] else if c = CHR 0x0A then [CHR 0x5C, CHR ''n'']
      else if c = CHR 0x0D then [CHR 0x5C, CHR ''r''] else if c = CHR 0x09 then [CHR 0x5C, CHR ''t'']
      else if c = CHR 0x0B then [CHR 0x5C, CHR ''v'']
      else [CHR 0x5C, CHR ''x''] @ hex_pad 2 (byte c))"

definition quote_rune :: "(nat \<Rightarrow> bool) \<Rightarrow> string \<Rightarrow> string" where
  "quote_rune isPrint r =
     (case r of
        [c] \<Rightarrow> quote_ascii c
      | _ \<Rightarrow> if isPrint (rune_val r) then r
             else if rune_val r < 65536 then [CHR 0x5C, CHR ''u''] @ hex_pad 4 (rune_val r)
             else [CHR 0x5C, CHR ''U''] @ hex_pad 8 (rune_val r))"

function quote_body :: "(nat \<Rightarrow> bool) \<Rightarrow> string \<Rightarrow> string" where
  "quote_body isPrint s =
     (if s = [] then []
      else case rune_len s of
        None \<Rightarrow> [CHR 0x5C, CHR ''x''] @ hex_pad 2 (byte (hd s)) @ quote_body isPrint (tl s)
      | Some n \<Rightarrow> quote_rune isPrint (take n s) @ quote_body isPrint (drop n s))"
  by pat_completeness auto
termination
  by (relation "measure (\<lambda>(p, s). length s)") (auto dest: rune_len_pos)

declare quote_body.simps [simp del]

definition Quote :: "(nat \<Rightarrow> bool) \<Rightarrow> string \<Rightarrow> string" where
  "Quote isPrint s = CHR 0x22 # quote_body isPrint s @ [CHR 0x22]"

text \<open>Seconds since 1970; the zero time is the first of January of year one.\<close>

definition unix_seconds :: "time \<Rightarrow> int" where
  "unix_seconds t = t div 1000000000 - 62135596800"

definition epochOrZero :: "time \<Rightarrow> int" where
  "epochOrZero t = (if IsZero t then 0 else unix_seconds t)"

definition sortedKeys :: "(string, 'v) gomap \<Rightarrow> string list" where
  "sortedKeys m = sort (keys m)"

definition sortedSpawnKeys :: "(SpawnKey, int) gomap \<Rightarrow> SpawnKey list" where
  "sortedSpawnKeys m =
     sort_key (\<lambda>k. fst k) (sort_key (\<lambda>k. fst (snd k)) (sort_key (\<lambda>k. snd (snd k)) (keys m)))"

definition sortedAPICallKeys :: "(APICallKey, int) gomap \<Rightarrow> APICallKey list" where
  "sortedAPICallKeys m = sort_key (\<lambda>(e, st). e @ ''|'' @ st) (keys m)"

definition metric_name :: "string \<Rightarrow> string" where
  "metric_name name = ''runsecure_orchestrator_'' @ name"

definition metric_head :: "string \<Rightarrow> string \<Rightarrow> string \<Rightarrow> string list" where
  "metric_head name help kind =
     [''# HELP '' @ metric_name name @ '' '' @ help, ''# TYPE '' @ metric_name name @ '' '' @ kind]"

text \<open>A sample: the name, the labels with quoted values, and an integer.\<close>

definition sample_line :: "(nat \<Rightarrow> bool) \<Rightarrow> string \<Rightarrow> (string \<times> string) list \<Rightarrow> int \<Rightarrow> string" where
  "sample_line isPrint name labels v =
     metric_name name @
     (if labels = [] then [] else ''{'' @ join_with '','' (map (\<lambda>(k, x). k @ ''='' @ Quote isPrint x) labels) @ ''}'') @
     '' '' @ show_int v"

definition repo_gauge ::
  "(nat \<Rightarrow> bool) \<Rightarrow> string \<Rightarrow> string \<Rightarrow> Snapshot \<Rightarrow> (RepoState \<Rightarrow> int) \<Rightarrow> string list" where
  "repo_gauge isPrint name help snap f =
     metric_head name help ''gauge'' @
     map (\<lambda>repo. sample_line isPrint name [(''repo'', repo)] (f (lookup_or zero_RepoState (snPerRepo snap) repo))) (sortedKeys (snPerRepo snap))"

definition plain_metric :: "(nat \<Rightarrow> bool) \<Rightarrow> string \<Rightarrow> string \<Rightarrow> string \<Rightarrow> int \<Rightarrow> string list" where
  "plain_metric isPrint name help kind v = metric_head name help kind @ [sample_line isPrint name [] v]"

definition poll_error_lines :: "(nat \<Rightarrow> bool) \<Rightarrow> Snapshot \<Rightarrow> string list" where
  "poll_error_lines isPrint snap =
     metric_head ''poll_error_info'' ''Last classified GitHub demand-refresh error.'' ''gauge'' @
     List.map_filter (\<lambda>repo.
        let class = rsLastPollError (lookup_or zero_RepoState (snPerRepo snap) repo) in
        if class \<noteq> [] then Some (sample_line isPrint ''poll_error_info'' [(''repo'', repo), (''class'', class)] 1) else None)
       (sortedKeys (snPerRepo snap))"

definition flag :: "bool \<Rightarrow> int" where
  "flag b = (if b then 1 else 0)"

definition repo_metrics :: "(nat \<Rightarrow> bool) \<Rightarrow> Snapshot \<Rightarrow> string list" where
  "repo_metrics p snap =
     repo_gauge p ''in_flight_runners'' ''In-flight ephemeral runners per repo.'' snap rsInFlight @
     repo_gauge p ''queued_jobs'' ''Eligible queued workflow jobs observed at the last successful poll.'' snap rsQueuedJobs @
     repo_gauge p ''repo_last_poll_attempt_timestamp_seconds'' ''Unix epoch of the last GitHub demand-refresh attempt.'' snap
       (\<lambda>r. epochOrZero (rsLastPollAt r)) @
     repo_gauge p ''repo_last_poll_success_timestamp_seconds'' ''Unix epoch of the last successful GitHub demand refresh.'' snap
       (\<lambda>r. epochOrZero (rsLastPollSuccess r)) @
     poll_error_lines p snap @
     repo_gauge p ''pending_runners'' ''Reserved runners not yet observed online.'' snap rsPending @
     repo_gauge p ''online_runners'' ''Online runners waiting for assignment.'' snap rsOnline @
     repo_gauge p ''assigned_runners'' ''Runners observed assigned to a job.'' snap rsAssigned @
     repo_gauge p ''teardown_blocked_reservations'' ''Reservations retained after backend teardown failure.'' snap rsTeardownBlocked"

definition counter_metrics :: "(nat \<Rightarrow> bool) \<Rightarrow> serverDeps \<Rightarrow> string list" where
  "counter_metrics p d =
     metric_head ''spawns_total'' ''Total spawn attempts.'' ''counter'' @
     map (\<lambda>(scope, repo, outcome). sample_line p ''spawns_total'' [(''scope'', scope), (''repo'', repo), (''outcome'', outcome)]
            (lookup_or 0 (sdSpawns d) (scope, repo, outcome))) (sortedSpawnKeys (sdSpawns d)) @
     metric_head ''api_calls_total'' ''Total GitHub API calls.'' ''counter'' @
     map (\<lambda>(ep, status). sample_line p ''api_calls_total'' [(''endpoint'', ep), (''status'', status)]
            (lookup_or 0 (sdAPI d) (ep, status))) (sortedAPICallKeys (sdAPI d))"

definition breaker_metrics :: "(nat \<Rightarrow> bool) \<Rightarrow> serverDeps \<Rightarrow> string list" where
  "breaker_metrics p d =
     metric_head ''breaker_open'' ''Circuit breaker state (1=open, 0=closed).'' ''gauge'' @
     map (\<lambda>repo. sample_line p ''breaker_open'' [(''repo'', repo)] (flag (lookup_or False (BreakerOpen d) repo))) (sortedKeys (BreakerOpen d))"

definition total_metrics :: "(nat \<Rightarrow> bool) \<Rightarrow> Snapshot \<Rightarrow> string list" where
  "total_metrics p snap =
     plain_metric p ''configured_capacity'' ''Configured global runner capacity.'' ''gauge'' (snConfiguredCapacity snap) @
     plain_metric p ''worker_capacity'' ''Spawn worker pool size.'' ''gauge'' (snWorkerCapacity snap) @
     plain_metric p ''assignments_total'' ''Runners observed assigned to jobs.'' ''counter'' (snAssignmentsTotal snap) @
     plain_metric p ''completed_runners_total'' ''Assigned runners whose process completed.'' ''counter'' (snCompletedTotal snap) @
     plain_metric p ''unassigned_exits_total'' ''Runners that exited without observed assignment.'' ''counter'' (snUnassignedExitsTotal snap) @
     plain_metric p ''deregistrations_total'' ''JIT runner registrations confirmed removed.'' ''counter'' (snDeregistrationsTotal snap) @
     plain_metric p ''teardown_failures_total'' ''Backend teardown failures that blocked scheduling.'' ''counter'' (snTeardownFailuresTotal snap) @
     plain_metric p ''teardown_reconciled_total'' ''Blocked teardowns resolved by exact-handle retry.'' ''counter'' (snTeardownReconciledTotal snap) @
     plain_metric p ''draining'' ''Whether the orchestrator is draining.'' ''gauge'' (flag (snDraining snap)) @
     metric_head ''build_info'' ''Build provenance for this orchestrator.'' ''gauge'' @
     [sample_line p ''build_info'' [(''version'', snVersion snap), (''build_sha'', snBuildSHA snap)] 1]"

definition renderMetrics :: "(nat \<Rightarrow> bool) \<Rightarrow> serverDeps \<Rightarrow> Snapshot \<Rightarrow> string list" where
  "renderMetrics p d snap =
     repo_metrics p snap @ counter_metrics p d @
     plain_metric p ''api_rate_limit_remaining'' ''GitHub rate-limit remaining.'' ''gauge'' (snRateLimitRemaining snap) @
     plain_metric p ''rate_limited'' ''Whether scheduling is paused by a GitHub rate limit.'' ''gauge'' (flag (snRateLimited snap)) @
     plain_metric p ''last_poll_timestamp_seconds'' ''Unix epoch of the last poll-loop tick.'' ''gauge'' (unix_seconds (LastPollAt d)) @
     breaker_metrics p d @ total_metrics p snap"

definition Metrics_ServeHTTP :: "(nat \<Rightarrow> bool) \<Rightarrow> serverDeps \<Rightarrow> int \<times> string" where
  "Metrics_ServeHTTP p d = (200, unlines (renderMetrics p d (StateSnapshot d)))"

section \<open>Drift\<close>

type_synonym PerRepoDelta = "string \<times> int"

definition docker_counts :: "Container list \<Rightarrow> (string, int) gomap" where
  "docker_counts listed =
     fold (\<lambda>ct m. if label_of ct ''runsecure.role'' \<noteq> ''runner'' then m
                  else AList.update (label_of ct ''runsecure.repo'') (lookup_or 0 m (label_of ct ''runsecure.repo'') + 1) m) listed []"

definition apply_delta :: "string \<Rightarrow> int \<Rightarrow> State \<Rightarrow> State" where
  "apply_delta repo delta s =
     ((DecrementInFlight repo) ^^ nat (- delta)) (((IncrementInFlight repo) ^^ nat delta) s)"

text \<open>The repositories in memory, then those only Docker has; the second loop walks a map.\<close>

fun correct_known :: "(string, int) gomap \<Rightarrow> string list \<Rightarrow> State \<Rightarrow> PerRepoDelta list \<times> State" where
  "correct_known counts [] s = ([], s)"
| "correct_known counts (repo # repos) s =
     (let got = lookup_or 0 counts repo; mem = InFlight s repo in
      if got = mem then correct_known counts repos s
      else case correct_known counts repos (apply_delta repo (got - mem) s) of (ds, s1) \<Rightarrow> ((repo, got - mem) # ds, s1))"

fun correct_new :: "string list \<Rightarrow> (string, int) gomap \<Rightarrow> State \<Rightarrow> PerRepoDelta list \<times> State" where
  "correct_new seen [] s = ([], s)"
| "correct_new seen ((repo, got) # counts) s =
     (if repo \<in> set seen \<or> got = 0 then correct_new seen counts s
      else case correct_new seen counts (apply_delta repo got s) of (ds, s1) \<Rightarrow> ((repo, got) # ds, s1))"

definition drift_Reconcile :: "Container list \<Rightarrow> State \<Rightarrow> (int \<times> PerRepoDelta list) \<times> State" where
  "drift_Reconcile listed s =
     (let counts = docker_counts listed; memRepos = AllRepos s;
          (ds1, s1) = correct_known counts memRepos s;
          (ds2, s2) = correct_new memRepos counts s1
      in ((sum_list (map snd (ds1 @ ds2)), ds1 @ ds2), s2))"

end
