(* ===== verification/Server_Thms.thy ===== *)
theory Server_Thms
  imports Server_Model State_Inv
begin

text \<open>
  The handlers say what they are meant to: readiness is exactly the conjunction of its conditions,
  no label value can break a metrics line, and the drift correction ends in agreement with Docker.
\<close>

section \<open>Readiness\<close>

lemma repo_reasons_Nil:
  "repo_reasons now limit repo r = [] \<longleftrightarrow>
     \<not> IsZero (rsLastPollSuccess r) \<and> time_Sub now (rsLastPollSuccess r) < limit \<and> rsLastPollError r = [] \<and>
     rsRunnerOperationError r = [] \<and> \<not> rsBreakerOpen r \<and> rsTeardownBlocked r \<le> 0"
  by (auto simp: repo_reasons_def)

definition repo_healthy :: "time \<Rightarrow> int \<Rightarrow> RepoState \<Rightarrow> bool" where
  "repo_healthy now intervalS r =
     (\<not> IsZero (rsLastPollSuccess r) \<and> time_Sub now (rsLastPollSuccess r) < poll_limit intervalS \<and>
      rsLastPollError r = [] \<and> rsRunnerOperationError r = [] \<and> rsTeardownBlocked r \<le> 0)"

lemma readinessReasons_Nil:
  "readinessReasons snap now intervalS = [] \<longleftrightarrow>
     snConfigLoaded snap \<and> \<not> snDraining snap \<and> \<not> snRateLimited snap \<and>
     (\<forall>(repo, r)\<in>set (snPerRepo snap). repo_healthy now intervalS r \<and> \<not> rsBreakerOpen r)"
  by (auto simp: readinessReasons_def repo_reasons_Nil repo_healthy_def)

lemma ready_status: "fst (Readyz_ServeHTTP d) = 200 \<longleftrightarrow>
    readinessReasons (StateSnapshot d) (sdNow d) (sdInterval d) = [] \<and> BackendReady d = None"
  by (auto simp: Readyz_ServeHTTP_def Let_def simp flip: set_empty)

text \<open>The snapshot that the breakers overlay.\<close>

lemma overlay_lookup:
  assumes "wf_map m"
  shows "map_of (fold (\<lambda>(repo, b) per. AList.update repo ((lookup_or zero_RepoState per repo)\<lparr>rsBreakerOpen := b\<rparr>) per) m per) repo =
    (case map_of m repo of
       Some b \<Rightarrow> Some ((lookup_or zero_RepoState per repo)\<lparr>rsBreakerOpen := b\<rparr>)
     | None \<Rightarrow> map_of per repo)"
  using assms
proof (induction m arbitrary: per)
  case (Cons kb m)
  obtain k b where kb: "kb = (k, b)" by fastforce
  have "map_of m k = None" using Cons.prems kb by (auto simp: map_of_eq_None_iff)
  then show ?case using Cons kb by (auto simp: lookup_or_def split: option.splits)
qed simp

lemma overlay_wf:
  "wf_map per \<Longrightarrow> wf_map (fold (\<lambda>(repo, b) per. AList.update repo ((lookup_or zero_RepoState per repo)\<lparr>rsBreakerOpen := b\<rparr>) per) m per)"
  by (induction m arbitrary: per) (auto simp: distinct_update)

lemma bm_snapshot_map: "map_of (bm_snapshot m) repo = map_option IsOpen (map_of m repo)" "wf_map (bm_snapshot m) = wf_map m"
  by (induction m) (auto simp: bm_snapshot_def image_iff)

text \<open>C33: the readiness endpoint answers 200 exactly when the configuration is loaded, the orchestrator
  is neither draining nor rate limited, the backend probe succeeds, every repository has been
  polled successfully within three intervals and has no poll error, no failed runner operation
  and no teardown debt, and every circuit breaker is closed and belongs to such a repository.\<close>

theorem readyz_exact:
  assumes "wf_map (perRepo (sdState d))" and "sdBreakers d = Some m" and "wf_map m"
  shows "fst (Readyz_ServeHTTP d) = 200 \<longleftrightarrow>
     configLoaded (sdState d) \<and> \<not> draining (sdState d) \<and> \<not> rateLimited (sdState d) \<and> BackendReady d = None \<and>
     (\<forall>(repo, r)\<in>set (perRepo (sdState d)). repo_healthy (sdNow d) (sdInterval d) r \<and> (map_of m repo = None \<longrightarrow> \<not> rsBreakerOpen r)) \<and>
     (\<forall>(repo, b)\<in>set m. \<not> IsOpen b \<and> repo \<in> set (keys (perRepo (sdState d))))"
proof -
  let ?per = "perRepo (sdState d)"
  let ?shown = "snPerRepo (StateSnapshot d)"
  have look: "map_of ?shown repo = (case map_of m repo of
       Some b \<Rightarrow> Some ((lookup_or zero_RepoState ?per repo)\<lparr>rsBreakerOpen := IsOpen b\<rparr>) | None \<Rightarrow> map_of ?per repo)" for repo
    using overlay_lookup [of "bm_snapshot m" ?per repo] assms(2,3)
    by (simp add: StateSnapshot_def take_Snapshot_def Let_def bm_snapshot_map split: option.splits)
  have wf: "wf_map ?shown"
    using overlay_wf [OF assms(1)] assms(2) by (simp add: StateSnapshot_def take_Snapshot_def Let_def)
  have zero: "\<not> repo_healthy (sdNow d) (sdInterval d) zero_RepoState"
    by (simp add: repo_healthy_def zero_RepoState_def IsZero_def zero_time_def)
  have upd: "repo_healthy now i (r\<lparr>rsBreakerOpen := b\<rparr>) = repo_healthy now i r" for now i r b
    by (simp add: repo_healthy_def)
  have flags: "snConfigLoaded (StateSnapshot d) = configLoaded (sdState d)" "snDraining (StateSnapshot d) = draining (sdState d)"
    "snRateLimited (StateSnapshot d) = rateLimited (sdState d)"
    by (simp_all add: StateSnapshot_def take_Snapshot_def Let_def split: option.splits)
  have all: "(\<forall>(repo, r)\<in>set ?shown. Q repo r) \<longleftrightarrow> (\<forall>repo r. map_of ?shown repo = Some r \<longrightarrow> Q repo r)" for Q
    using wf by (auto simp: map_of_is_SomeI dest: map_of_SomeD)
  have allp: "(\<forall>(repo, r)\<in>set ?per. Q repo r) \<longleftrightarrow> (\<forall>repo r. map_of ?per repo = Some r \<longrightarrow> Q repo r)" for Q
    using assms(1) by (auto simp: map_of_is_SomeI dest: map_of_SomeD)
  have allm: "(\<forall>(repo, b)\<in>set m. Q repo b) \<longleftrightarrow> (\<forall>repo b. map_of m repo = Some b \<longrightarrow> Q repo b)" for Q
    using assms(3) by (auto simp: map_of_is_SomeI dest: map_of_SomeD)
  have key: "repo \<in> set (keys ?per) \<longleftrightarrow> (\<exists>r. map_of ?per repo = Some r)" for repo
    using map_of_eq_None_iff [of ?per repo] by auto
  let ?h = "repo_healthy (sdNow d) (sdInterval d)"
  have pt: "(\<forall>r. map_of ?shown repo = Some r \<longrightarrow> ?h r \<and> \<not> rsBreakerOpen r) \<longleftrightarrow>
      (\<forall>r. map_of ?per repo = Some r \<longrightarrow> ?h r \<and> (map_of m repo = None \<longrightarrow> \<not> rsBreakerOpen r)) \<and>
      (\<forall>b. map_of m repo = Some b \<longrightarrow> \<not> IsOpen b \<and> (\<exists>r. map_of ?per repo = Some r))" for repo
    by (cases "map_of m repo"; cases "map_of ?per repo") (auto simp: look lookup_or_def zero upd)
  have "(\<forall>(repo, r)\<in>set ?shown. ?h r \<and> \<not> rsBreakerOpen r) \<longleftrightarrow>
      (\<forall>(repo, r)\<in>set ?per. ?h r \<and> (map_of m repo = None \<longrightarrow> \<not> rsBreakerOpen r)) \<and>
      (\<forall>(repo, b)\<in>set m. \<not> IsOpen b \<and> repo \<in> set (keys ?per))"
    unfolding all allp allm key by (simp only: pt) blast
  then show ?thesis unfolding ready_status readinessReasons_Nil flags by blast
qed

section \<open>Metrics\<close>

lemma rune_bytes_high:
  "rune_len s = Some n \<Longrightarrow> 1 < n \<Longrightarrow> c \<in> set (take n s) \<Longrightarrow> 128 \<le> byte c"
  by (cases s) (auto simp: cont_def numeral_eq_Suc split: if_splits list.splits)

lemma rune_len_le: "rune_len s = Some n \<Longrightarrow> n \<le> length s"
  by (cases s) (auto split: if_splits list.splits)

lemma json_hex_graphic: "n < 16 \<Longrightarrow> byte (json_hex n) \<in> {48..57} \<union> {97..102}"
  by (auto simp: json_hex_def byte_def)

lemma hex_pad_no_newline: "CHR 0x0A \<notin> set (hex_pad k n)"
proof
  assume "CHR 0x0A \<in> set (hex_pad k n)"
  then obtain i where "CHR 0x0A = json_hex (n div 16 ^ i mod 16)" by (auto simp: hex_pad_def)
  then have "byte (CHR 0x0A) \<in> {48..57} \<union> {97..102}" using json_hex_graphic [of "n div 16 ^ i mod 16"] by simp
  then show False by (simp add: byte_def)
qed

lemma quote_ascii_no_newline: "CHR 0x0A \<notin> set (quote_ascii c)"
  using hex_pad_no_newline [of 2 "byte c"] by (auto simp: quote_ascii_def byte_def)

lemma quote_rune_no_newline:
  assumes "rune_len s = Some n"
  shows "CHR 0x0A \<notin> set (quote_rune p (take n s))"
proof (cases "n = 1")
  case True
  then obtain c t where "s = c # t" using assms by (cases s) auto
  then show ?thesis using True quote_ascii_no_newline by (simp add: quote_rune_def)
next
  case False
  then have n: "1 < n" using rune_len_pos [OF assms] by simp
  then have high: "\<forall>c\<in>set (take n s). 128 \<le> byte c" using rune_bytes_high [OF assms] by blast
  have "CHR 0x0A \<notin> set (take n s)"
  proof
    assume "CHR 0x0A \<in> set (take n s)"
    then have "128 \<le> byte (CHR 0x0A)" using high by blast
    then show False by (simp add: byte_def)
  qed
  moreover have "length (take n s) = n" using rune_len_le [OF assms] by simp
  ultimately show ?thesis
    using n hex_pad_no_newline quote_ascii_no_newline by (auto simp: quote_rune_def split: list.splits)
qed

lemma quote_body_no_newline: "CHR 0x0A \<notin> set (quote_body p s)"
proof (induction p s rule: quote_body.induct)
  case (1 p s)
  show ?case
  proof (cases "s = []")
    case True
    then show ?thesis by (simp add: quote_body.simps)
  next
    case False
    then show ?thesis
      using 1 hex_pad_no_newline quote_rune_no_newline by (subst quote_body.simps) (auto split: option.splits)
  qed
qed

lemma Quote_no_newline: "CHR 0x0A \<notin> set (Quote p s)"
  using quote_body_no_newline by (simp add: Quote_def)

definition one_line :: "string \<Rightarrow> bool" where
  "one_line l = (CHR 0x0A \<notin> set l)"

lemma sample_one_line:
  assumes "one_line name" and "list_all (\<lambda>(k, x). one_line k) labels"
  shows "one_line (sample_line p name labels v)"
proof -
  have "CHR 0x0A \<notin> set (join_with '','' (map (\<lambda>(k, x). k @ ''='' @ Quote p x) labels))"
    using assms(2) Quote_no_newline by (intro join_with_no_newline) (auto simp: list_all_iff one_line_def)
  then show ?thesis using assms(1) show_int_no_newline by (simp add: sample_line_def metric_name_def one_line_def)
qed

lemma heads_one_line [simp]:
  "one_line [] = True" "one_line (c # l) = (c \<noteq> CHR 0x0A \<and> one_line l)" "one_line (l @ l') = (one_line l \<and> one_line l')"
  by (auto simp: one_line_def)

lemma metric_head_lines [simp]:
  "list_all one_line (metric_head name help kind) = (one_line name \<and> one_line help \<and> one_line kind)"
  by (auto simp: metric_head_def metric_name_def)

lemma repo_gauge_lines: "one_line name \<Longrightarrow> one_line help \<Longrightarrow> list_all one_line (repo_gauge p name help snap f)"
  by (auto simp: repo_gauge_def list_all_iff [of _ "map _ _"] intro!: sample_one_line)

lemma plain_metric_lines:
  "one_line name \<Longrightarrow> one_line help \<Longrightarrow> one_line kind \<Longrightarrow> list_all one_line (plain_metric p name help kind v)"
  by (auto simp: plain_metric_def intro!: sample_one_line)

lemma mapped_lines:
  "(\<And>x. x \<in> set xs \<Longrightarrow> one_line (f x)) \<Longrightarrow> list_all one_line (map f xs)"
  by (simp add: list_all_iff)

lemma poll_error_one_line: "list_all one_line (poll_error_lines p snap)"
  unfolding poll_error_lines_def list_all_append map_filter_def Let_def
  by (intro conjI) (simp, auto simp: list_all_iff [of _ "map _ _"] intro!: sample_one_line)

lemma repo_metrics_lines: "list_all one_line (repo_metrics p snap)"
  unfolding repo_metrics_def list_all_append
  by (intro conjI repo_gauge_lines poll_error_one_line) simp_all

lemma counter_metrics_lines: "list_all one_line (counter_metrics p d)"
  unfolding counter_metrics_def list_all_append
  by (intro conjI mapped_lines) (auto intro!: sample_one_line)

lemma breaker_metrics_lines: "list_all one_line (breaker_metrics p d)"
  unfolding breaker_metrics_def list_all_append
  by (intro conjI mapped_lines) (auto intro!: sample_one_line)

lemma total_metrics_lines: "list_all one_line (total_metrics p snap)"
  unfolding total_metrics_def list_all_append
  by (intro conjI plain_metric_lines) (auto intro!: sample_one_line)

lemma renderMetrics_lines: "list_all one_line (renderMetrics p d snap)"
  unfolding renderMetrics_def list_all_append
  by (intro conjI plain_metric_lines repo_metrics_lines counter_metrics_lines breaker_metrics_lines total_metrics_lines) simp_all

text \<open>Reading the body back as lines.\<close>

fun lines_of :: "string \<Rightarrow> string \<Rightarrow> string list" where
  "lines_of acc [] = (if acc = [] then [] else [rev acc])"
| "lines_of acc (c # s) = (if c = CHR 0x0A then rev acc # lines_of [] s else lines_of (c # acc) s)"

lemma lines_of_line: "one_line l \<Longrightarrow> lines_of acc (l @ CHR 0x0A # s) = (rev acc @ l) # lines_of [] s"
  by (induction l arbitrary: acc) auto

lemma lines_of_unlines: "list_all one_line ls \<Longrightarrow> lines_of [] (unlines ls) = ls"
  by (induction ls) (auto simp: unlines_def lines_of_line)

text \<open>No value that the orchestrator exposes can break a line of its metrics: whatever repositories,
  outcomes or error classes the labels carry, reading the body back by lines gives the metrics one
  by one.\<close>

theorem metrics_lines_intact:
  "lines_of [] (snd (Metrics_ServeHTTP p d)) = renderMetrics p d (StateSnapshot d)"
  by (simp add: Metrics_ServeHTTP_def lines_of_unlines renderMetrics_lines)

section \<open>Drift\<close>

lemma InFlight_Increment [simp]: "InFlight (IncrementInFlight repo s) r = InFlight s r + (if r = repo then 1 else 0)"
  by (simp add: InFlight_repo_of IncrementInFlight_def)

lemma InFlight_Decrement [simp]:
  "InFlight (DecrementInFlight repo s) r = InFlight s r - (if r = repo \<and> 0 < InFlight s r then 1 else 0)"
  by (simp add: InFlight_repo_of DecrementInFlight_def)

lemma InFlight_Increments: "InFlight ((IncrementInFlight repo ^^ n) s) r = InFlight s r + (if r = repo then int n else 0)"
  by (induction n) auto

lemma InFlight_Decrements:
  "int n \<le> InFlight s repo \<Longrightarrow> InFlight ((DecrementInFlight repo ^^ n) s) r = InFlight s r - (if r = repo then int n else 0)"
  by (induction n) auto

lemma InFlight_apply_delta:
  "0 \<le> InFlight s repo \<Longrightarrow> 0 \<le> InFlight s repo + delta \<Longrightarrow>
     InFlight (apply_delta repo delta s) r = InFlight s r + (if r = repo then delta else 0)"
  by (cases "0 \<le> delta") (simp_all add: apply_delta_def InFlight_Increments InFlight_Decrements)

definition listed_runners :: "Container list \<Rightarrow> string \<Rightarrow> int" where
  "listed_runners listed repo =
     int (length (filter (\<lambda>ct. label_of ct ''runsecure.role'' = ''runner'' \<and> label_of ct ''runsecure.repo'' = repo) listed))"

lemma docker_counts_spec:
  "lookup_or 0 (docker_counts listed) repo = listed_runners listed repo \<and> wf_map (docker_counts listed)"
proof -
  let ?f = "\<lambda>ct m. if label_of ct ''runsecure.role'' \<noteq> ''runner'' then m
       else AList.update (label_of ct ''runsecure.repo'') (lookup_or 0 m (label_of ct ''runsecure.repo'') + 1) m"
  have "wf_map m \<Longrightarrow> lookup_or 0 (fold ?f listed m) repo = lookup_or 0 m repo + listed_runners listed repo \<and> wf_map (fold ?f listed m)" for m
  proof (induction listed arbitrary: m)
    case (Cons ct listed)
    have "wf_map (?f ct m)" using Cons.prems by (simp add: distinct_update)
    from Cons.IH [OF this] show ?case by (auto simp: listed_runners_def lookup_or_def)
  qed (simp add: listed_runners_def)
  from this [of "[]"] show ?thesis by (simp add: docker_counts_def lookup_or_def)
qed

lemma correct_known_spec:
  assumes "correct_known counts repos s = (ds, s')" and "distinct repos" and "\<And>r. 0 \<le> InFlight s r" and "\<And>r. 0 \<le> lookup_or 0 counts r"
  shows "(\<forall>r. InFlight s' r = (if r \<in> set repos then lookup_or 0 counts r else InFlight s r)) \<and>
     ds = map (\<lambda>r. (r, lookup_or 0 counts r - InFlight s r)) (filter (\<lambda>r. lookup_or 0 counts r \<noteq> InFlight s r) repos)"
  using assms
proof (induction repos arbitrary: s ds)
  case (Cons repo repos)
  show ?case
  proof (cases "lookup_or 0 counts repo = InFlight s repo")
    case True
    then show ?thesis using Cons by (auto simp: Let_def)
  next
    case False
    let ?d = "lookup_or 0 counts repo - InFlight s repo" and ?s = "apply_delta repo (lookup_or 0 counts repo - InFlight s repo) s"
    obtain ds1 where rec: "correct_known counts repos ?s = (ds1, s')" and ds: "ds = (repo, ?d) # ds1"
      using Cons.prems(1) False by (auto simp: Let_def split: prod.splits)
    have fl: "InFlight ?s r = InFlight s r + (if r = repo then ?d else 0)" for r
      using Cons.prems(3,4) by (intro InFlight_apply_delta) simp_all
    have "0 \<le> InFlight ?s r" for r using fl Cons.prems(3,4) by simp
    from Cons.IH [OF rec _ this Cons.prems(4)] Cons.prems(2)
    have ih: "\<forall>r. InFlight s' r = (if r \<in> set repos then lookup_or 0 counts r else InFlight ?s r)"
      "ds1 = map (\<lambda>r. (r, lookup_or 0 counts r - InFlight ?s r)) (filter (\<lambda>r. lookup_or 0 counts r \<noteq> InFlight ?s r) repos)" by auto
    have "ds1 = map (\<lambda>r. (r, lookup_or 0 counts r - InFlight s r)) (filter (\<lambda>r. lookup_or 0 counts r \<noteq> InFlight s r) repos)"
      using Cons.prems(2) fl unfolding ih(2) by (intro map_cong filter_cong) auto
    then show ?thesis using ih(1) fl ds False by auto
  qed
qed simp

lemma correct_new_spec:
  assumes "correct_new seen counts s = (ds, s')" and "wf_map counts" and "\<forall>r\<in>set (keys counts) - set seen. InFlight s r = 0"
    and "\<forall>(r, n)\<in>set counts. 0 \<le> n"
  shows "(\<forall>r. InFlight s' r = (if r \<in> set seen then InFlight s r else case map_of counts r of None \<Rightarrow> InFlight s r | Some n \<Rightarrow> n)) \<and>
     ds = filter (\<lambda>(r, n). r \<notin> set seen \<and> n \<noteq> 0) counts"
  using assms
proof (induction counts arbitrary: s ds)
  case (Cons rn counts)
  obtain r n where rn: "rn = (r, n)" by fastforce
  have rc: "map_of counts r = None" "r \<notin> set (keys counts)" using Cons.prems(2) rn by (auto simp: map_of_eq_None_iff)
  show ?case
  proof (cases "r \<in> set seen \<or> n = 0")
    case True
    then have "correct_new seen counts s = (ds, s')" using Cons.prems(1) rn by simp
    from Cons.IH [OF this] Cons.prems(2-4) rn
    have "(\<forall>r. InFlight s' r = (if r \<in> set seen then InFlight s r else case map_of counts r of None \<Rightarrow> InFlight s r | Some n \<Rightarrow> n)) \<and>
     ds = filter (\<lambda>(r, n). r \<notin> set seen \<and> n \<noteq> 0) counts" by auto
    then show ?thesis using True rn rc Cons.prems(3) by auto
  next
    case False
    let ?s = "apply_delta r n s"
    obtain ds1 where rec: "correct_new seen counts ?s = (ds1, s')" and ds: "ds = (r, n) # ds1"
      using Cons.prems(1) False rn by (auto split: prod.splits)
    have z: "InFlight s r = 0" "0 \<le> n" using Cons.prems(3,4) False rn by auto
    have fl: "InFlight ?s q = InFlight s q + (if q = r then n else 0)" for q
      using z by (intro InFlight_apply_delta) simp_all
    have "\<forall>q\<in>set (keys counts) - set seen. InFlight ?s q = 0"
      using fl Cons.prems(3) rc rn by auto
    from Cons.IH [OF rec _ this] Cons.prems(2,4) rn
    have "\<forall>q. InFlight s' q = (if q \<in> set seen then InFlight ?s q else case map_of counts q of None \<Rightarrow> InFlight ?s q | Some n \<Rightarrow> n)"
      "ds1 = filter (\<lambda>(r, n). r \<notin> set seen \<and> n \<noteq> 0) counts" by auto
    then show ?thesis using fl ds False rn rc z by (auto split: option.splits)
  qed
qed simp

text \<open>C34: the drift correction ends in agreement with Docker: afterwards every repository's in-flight
  count is the number of its listed runner containers, and the reported corrections are exactly
  the nonzero differences, one per repository.\<close>

theorem drift_reconcile_exact:
  assumes "drift_Reconcile listed s = ((net, ds), s')" and "wf_map (perRepo s)" and "\<forall>r. 0 \<le> InFlight s r"
  shows "(\<forall>repo. InFlight s' repo = listed_runners listed repo) \<and> net = sum_list (map snd ds) \<and> distinct (map fst ds) \<and>
     (\<forall>repo delta. (repo, delta) \<in> set ds \<longleftrightarrow> delta = listed_runners listed repo - InFlight s repo \<and> delta \<noteq> 0)"
proof -
  let ?c = "docker_counts listed" and ?mem = "keys (perRepo s)"
  note c = docker_counts_spec [of listed]
  have wfc: "wf_map ?c" and look: "lookup_or 0 ?c r = listed_runners listed r" for r using c by auto
  have val: "(r, n) \<in> set ?c \<Longrightarrow> n = listed_runners listed r" for r n
    using look [of r] wfc by (simp add: lookup_or_def map_of_is_SomeI)
  have nn: "0 \<le> listed_runners listed r" for r by (simp add: listed_runners_def)
  obtain ds1 s1 where one: "correct_known ?c ?mem s = (ds1, s1)" by fastforce
  obtain ds2 s2 where two: "correct_new ?mem ?c s1 = (ds2, s2)" by fastforce
  have res: "ds = ds1 @ ds2" "s' = s2" "net = sum_list (map snd ds)"
    using assms(1) one two by (auto simp: drift_Reconcile_def AllRepos_def Let_def)
  note sp1 = correct_known_spec [OF one assms(2) assms(3) [rule_format], unfolded look, OF nn]
  have out: "InFlight s r = 0" if "r \<notin> set ?mem" for r
    using that by (simp add: InFlight_def map_of_eq_None_iff [symmetric])
  have "\<forall>r\<in>set (keys ?c) - set ?mem. InFlight s1 r = 0" using sp1 out by simp
  moreover have "\<forall>(r, n)\<in>set ?c. 0 \<le> n" using val nn by fastforce
  ultimately
  have sp2: "\<forall>r. InFlight s2 r = (if r \<in> set ?mem then InFlight s1 r else case map_of ?c r of None \<Rightarrow> InFlight s1 r | Some n \<Rightarrow> n)"
    "ds2 = filter (\<lambda>(r, n). r \<notin> set ?mem \<and> n \<noteq> 0) ?c" using correct_new_spec [OF two wfc] by blast+
  have "InFlight s' repo = listed_runners listed repo" for repo
    using sp1 sp2(1) res(2) out look [of repo] by (auto simp: lookup_or_def split: option.splits)
  moreover have "distinct (map fst ds)"
    using assms(2) wfc sp1 sp2(2) res(1) by (force simp: comp_def distinct_map_filter)
  moreover have "(repo, delta) \<in> set ds \<longleftrightarrow> delta = listed_runners listed repo - InFlight s repo \<and> delta \<noteq> 0" for repo delta
  proof (cases "repo \<in> set ?mem")
    case True
    then show ?thesis using sp1 sp2(2) res(1) by auto
  next
    case False
    have "(repo, delta) \<in> set ?c" if "delta = listed_runners listed repo" "delta \<noteq> 0"
      using that look [of repo] map_of_SomeD [of ?c repo] by (auto simp: lookup_or_def split: option.splits)
    then show ?thesis using False sp1 sp2(2) res(1) out [OF False] val by auto
  qed
  ultimately show ?thesis using res(3) by blast
qed

section \<open>Examples\<close>

definition server_example :: serverDeps where
  "server_example = (newServerDeps ((RecordPollSuccess ''o/r'' 0 1000000000 New)\<lparr>configLoaded := True\<rparr>) 2000000000 10)
     \<lparr>sdBreakers := Some [(''o/r'', NewBreaker 3 60)], sdReady := Some None\<rparr>"

lemma readyz_exact_witness: "fst (Readyz_ServeHTTP server_example) = 200 \<and> \<not> draining (sdState server_example)"
proof -
  have e: "wf_map (perRepo (sdState server_example))" "wf_map [(''o/r'', NewBreaker 3 60)]"
    "readinessReasons (StateSnapshot server_example) (sdNow server_example) (sdInterval server_example) = [] \<and> BackendReady server_example = None"
    by code_simp+
  have b: "sdBreakers server_example = Some [(''o/r'', NewBreaker 3 60)]" by (simp add: server_example_def)
  show ?thesis using readyz_exact [OF e(1) b e(2)] e(3) unfolding ready_status by blast
qed

definition drift_listing :: "Container list" where
  "drift_listing = [\<lparr>dcID = ''c1'', dcName = [], dcLabels = [(''runsecure.role'', ''runner''), (''runsecure.repo'', ''o/r'')]\<rparr>,
     \<lparr>dcID = ''c2'', dcName = [], dcLabels = [(''runsecure.role'', ''proxy''), (''runsecure.repo'', ''o/r'')]\<rparr>]"

definition drift_run :: "(int \<times> PerRepoDelta list) \<times> State" where
  "drift_run = drift_Reconcile drift_listing (IncrementInFlight ''o/q'' New)"

lemma drift_reconcile_exact_witness:
  "InFlight (snd drift_run) ''o/r'' = 1 \<and> InFlight (snd drift_run) ''o/q'' = 0 \<and> (''o/q'', -1) \<in> set (snd (fst drift_run))"
proof -
  have wf: "wf_map (perRepo (IncrementInFlight ''o/q'' New))" by code_simp
  have nn: "\<forall>r. 0 \<le> InFlight (IncrementInFlight ''o/q'' New) r"
    unfolding InFlight_Increment by (simp add: InFlight_def New_def)
  have run: "drift_Reconcile drift_listing (IncrementInFlight ''o/q'' New) = ((fst (fst drift_run), snd (fst drift_run)), snd drift_run)"
    by (simp add: drift_run_def)
  have l: "listed_runners drift_listing ''o/r'' = 1" "listed_runners drift_listing ''o/q'' = 0" by code_simp+
  have "InFlight (IncrementInFlight ''o/q'' New) ''o/q'' = 1" by code_simp
  then show ?thesis using drift_reconcile_exact [OF run wf nn] l by auto
qed

end
