(* ===== verification/Auth_Model.thy ===== *)
theory Auth_Model
  imports Server_Model Proxy_Model
begin

text \<open>
  Credentials: package \<open>internal/auth\<close> and \<open>buildAuthProvider\<close> of \<open>cmd/orchestrator/run.go\<close>. A
  personal access token is a file that is read again when its modification time changes; a GitHub
  App signs a short-lived JWT and exchanges it for an installation token, which it caches.

  \<open>AuthEnv\<close> is the outside: the file system, the clock, the RSA key parser and signer, the token
  endpoint and \<open>time.Parse\<close>. \<open>AuthState\<close> counts the calls and keeps the tokens the endpoint issued.
\<close>

section \<open>Environment\<close>

datatype PKCS8Key = RSAKey string | OtherKey

record AuthEnv =
  auStat :: "nat \<Rightarrow> string \<Rightarrow> gerr + int \<times> time"
  auRead :: "nat \<Rightarrow> string \<Rightarrow> gerr + string"
  auIsPrint :: "nat \<Rightarrow> bool"
  auNow :: "nat \<Rightarrow> time"
  auPEM :: "string \<Rightarrow> (string \<times> string) option"
  auPKCS1 :: "string \<Rightarrow> gerr + string"
  auPKCS8 :: "string \<Rightarrow> gerr + PKCS8Key"
  auSign :: "nat \<Rightarrow> string \<Rightarrow> int list \<Rightarrow> gerr + string"
  auNewRequest :: "string \<Rightarrow> gerr option"
  auPost :: "nat \<Rightarrow> string \<Rightarrow> string \<Rightarrow> gerr + int \<times> (gerr + string)"
  auParseTime :: "string \<Rightarrow> gerr + time"

record AuthState =
  asCalls :: nat
  asIssued :: "(string \<times> time) list"

definition a_tick :: "AuthState \<Rightarrow> AuthState" where
  "a_tick s = s\<lparr>asCalls := asCalls s + 1\<rparr>"

section \<open>Personal access tokens\<close>

record patProvider =
  ppFile :: string
  ppToken :: string
  ppMtime :: time

definition newPATProvider :: "AuthEnv \<Rightarrow> string \<Rightarrow> int \<Rightarrow> AuthState \<Rightarrow> (gerr + patProvider) \<times> AuthState" where
  "newPATProvider c patFile expectedMode s =
     (case auStat c (asCalls s) patFile of
        Inl e \<Rightarrow> (Inl (Wrap (''auth: stat pat file '' @ patFile @ '': '') e []), a_tick s)
      | Inr (perm, mtime) \<Rightarrow>
          if perm \<noteq> expectedMode
          then (Inl (Plain (''auth: pat file '' @ patFile @ '' must be mode '' @ show_oct4 expectedMode @ '' (got '' @ show_oct perm @ '')'')), a_tick s)
          else (case auRead c (asCalls (a_tick s)) patFile of
                  Inl e \<Rightarrow> (Inl (Wrap (''auth: read pat file '' @ patFile @ '': '') e []), a_tick (a_tick s))
                | Inr b \<Rightarrow> (Inr \<lparr>ppFile = patFile, ppToken = TrimSpace b, ppMtime = mtime\<rparr>, a_tick (a_tick s))))"

definition NewPATProvider :: "AuthEnv \<Rightarrow> string \<Rightarrow> AuthState \<Rightarrow> (gerr + patProvider) \<times> AuthState" where
  "NewPATProvider c patFile s = newPATProvider c patFile 256 s"

definition NewKubernetesPATProvider :: "AuthEnv \<Rightarrow> string \<Rightarrow> AuthState \<Rightarrow> (gerr + patProvider) \<times> AuthState" where
  "NewKubernetesPATProvider c patFile s = newPATProvider c patFile 288 s"

definition pat_reload :: "AuthEnv \<Rightarrow> time \<Rightarrow> patProvider \<Rightarrow> AuthState \<Rightarrow> gerr option \<times> patProvider \<times> AuthState" where
  "pat_reload c mtime p s =
     (case auRead c (asCalls s) (ppFile p) of
        Inl e \<Rightarrow> (Some (Wrap (''auth: read pat file '' @ ppFile p @ '': '') e []), p, a_tick s)
      | Inr b \<Rightarrow> (None, p\<lparr>ppToken := TrimSpace b, ppMtime := mtime\<rparr>, a_tick s))"

definition pat_Token :: "AuthEnv \<Rightarrow> patProvider \<Rightarrow> AuthState \<Rightarrow> (gerr + string) \<times> patProvider \<times> AuthState" where
  "pat_Token c p s =
     (case auStat c (asCalls s) (ppFile p) of
        Inl e \<Rightarrow> (Inl (Wrap (''auth: stat pat file '' @ ppFile p @ '': '') e []), p, a_tick s)
      | Inr (_, mtime) \<Rightarrow>
          if mtime = ppMtime p then (Inr (ppToken p), p, a_tick s)
          else (case pat_reload c mtime p (a_tick s) of
                  (Some e, p1, s1) \<Rightarrow> (Inl e, p1, s1)
                | (None, p1, s1) \<Rightarrow> (Inr (ppToken p1), p1, s1)))"

section \<open>GitHub Apps\<close>

record githubAppProvider =
  gaAppID :: int
  gaInstallationID :: int
  gaPrivateKey :: string
  gaAPIBaseURL :: string
  gaCachedTok :: string
  gaExpiresAt :: time

definition tokenRefreshBuffer :: duration where
  "tokenRefreshBuffer = 60 * time_Second"

definition jwtClockSkewBuffer :: duration where
  "jwtClockSkewBuffer = 60 * time_Second"

definition jwtMaxAge :: duration where
  "jwtMaxAge = 10 * time_Minute"

definition parseRSAPrivateKey :: "AuthEnv \<Rightarrow> string \<Rightarrow> gerr + string" where
  "parseRSAPrivateKey c pemBytes =
     (case auPEM c pemBytes of
        None \<Rightarrow> Inl (Plain ''no PEM block found'')
      | Some (kind, block) \<Rightarrow>
          if kind = ''RSA PRIVATE KEY'' then auPKCS1 c block
          else if kind = ''PRIVATE KEY'' then
            (case auPKCS8 c block of
               Inl e \<Rightarrow> Inl e
             | Inr (RSAKey k) \<Rightarrow> Inr k
             | Inr OtherKey \<Rightarrow> Inl (Plain ''PKCS8 key is not RSA''))
          else Inl (Plain (''unsupported PEM block type '' @ Quote (auIsPrint c) kind @ '' (want RSA PRIVATE KEY or PRIVATE KEY)'')))"

definition trim_right :: "char \<Rightarrow> string \<Rightarrow> string" where
  "trim_right c s = rev (dropWhile (\<lambda>x. x = c) (rev s))"

definition newGitHubAppProvider ::
  "AuthEnv \<Rightarrow> int \<Rightarrow> int \<Rightarrow> string \<Rightarrow> string \<Rightarrow> int \<Rightarrow> AuthState \<Rightarrow> (gerr + githubAppProvider) \<times> AuthState" where
  "newGitHubAppProvider c appID installationID pemFile apiBaseURL expectedMode s =
     (case auStat c (asCalls s) pemFile of
        Inl e \<Rightarrow> (Inl (Wrap (''auth: stat private key file '' @ pemFile @ '': '') e []), a_tick s)
      | Inr (perm, _) \<Rightarrow>
          if perm \<noteq> expectedMode
          then (Inl (Plain (''auth: private key file '' @ pemFile @ '' must be mode '' @ show_oct4 expectedMode @ '' (got '' @ show_oct perm @ '')'')), a_tick s)
          else (case auRead c (asCalls (a_tick s)) pemFile of
                  Inl e \<Rightarrow> (Inl (Wrap (''auth: read private key file '' @ pemFile @ '': '') e []), a_tick (a_tick s))
                | Inr pemBytes \<Rightarrow>
                    (case parseRSAPrivateKey c pemBytes of
                       Inl e \<Rightarrow> (Inl (Wrap (''auth: parse private key from '' @ pemFile @ '': '') e []), a_tick (a_tick s))
                     | Inr key \<Rightarrow>
                         (Inr \<lparr>gaAppID = appID, gaInstallationID = installationID, gaPrivateKey = key,
                               gaAPIBaseURL = trim_right CHR ''/'' apiBaseURL, gaCachedTok = [], gaExpiresAt = zero_time\<rparr>, a_tick (a_tick s)))))"

definition NewGitHubAppProvider ::
  "AuthEnv \<Rightarrow> int \<Rightarrow> int \<Rightarrow> string \<Rightarrow> string \<Rightarrow> AuthState \<Rightarrow> (gerr + githubAppProvider) \<times> AuthState" where
  "NewGitHubAppProvider c appID installationID pemFile apiBaseURL s =
     newGitHubAppProvider c appID installationID pemFile apiBaseURL 256 s"

definition NewKubernetesGitHubAppProvider ::
  "AuthEnv \<Rightarrow> int \<Rightarrow> int \<Rightarrow> string \<Rightarrow> string \<Rightarrow> AuthState \<Rightarrow> (gerr + githubAppProvider) \<times> AuthState" where
  "NewKubernetesGitHubAppProvider c appID installationID pemFile apiBaseURL s =
     newGitHubAppProvider c appID installationID pemFile apiBaseURL 288 s"

subsection \<open>The JWT\<close>

text \<open>\<open>base64.RawURLEncoding\<close>.\<close>

definition b64_alphabet :: string where
  "b64_alphabet = ''ABCDEFGHIJKLMNOPQRSTUVWXYZabcdefghijklmnopqrstuvwxyz0123456789-_''"

definition b64_char :: "nat \<Rightarrow> char" where
  "b64_char n = b64_alphabet ! n"

fun b64_encode :: "string \<Rightarrow> string" where
  "b64_encode (x # y # z # r) =
     [b64_char (byte x div 4), b64_char (byte x mod 4 * 16 + byte y div 16),
      b64_char (byte y mod 16 * 4 + byte z div 64), b64_char (byte z mod 64)] @ b64_encode r"
| "b64_encode [x, y] = [b64_char (byte x div 4), b64_char (byte x mod 4 * 16 + byte y div 16), b64_char (byte y mod 16 * 4)]"
| "b64_encode [x] = [b64_char (byte x div 4), b64_char (byte x mod 4 * 16)]"
| "b64_encode [] = []"

definition jwt_header :: json where
  "jwt_header = JObj [(''alg'', JStr ''RS256''), (''typ'', JStr ''JWT'')]"

definition jwt_claims :: "int \<Rightarrow> time \<Rightarrow> json" where
  "jwt_claims appID now =
     JObj [(''exp'', JNum (show_int (unix_seconds (now + jwtMaxAge)))), (''iat'', JNum (show_int (unix_seconds (now - jwtClockSkewBuffer)))),
           (''iss'', JNum (show_int appID))]"

definition signing_input :: "int \<Rightarrow> time \<Rightarrow> string" where
  "signing_input appID now = b64_encode (json_text jwt_header) @ ''.'' @ b64_encode (json_text (jwt_claims appID now))"

definition mintJWT :: "AuthEnv \<Rightarrow> githubAppProvider \<Rightarrow> AuthState \<Rightarrow> (gerr + string) \<times> AuthState" where
  "mintJWT c g s =
     (let inp = signing_input (gaAppID g) (auNow c (asCalls s)) in
      case auSign c (asCalls s) (gaPrivateKey g) (Sum256 inp) of
        Inl e \<Rightarrow> (Inl e, a_tick s)
      | Inr sig \<Rightarrow> (Inr (inp @ ''.'' @ b64_encode sig), a_tick s))"

subsection \<open>The installation token\<close>

text \<open>Field names match up to the case folding of \<open>encoding/json\<close>, which also folds the Kelvin sign
  and the long s.\<close>

fun json_fold :: "string \<Rightarrow> string" where
  "json_fold [] = []"
| "json_fold (c # s) =
     (if c = CHR 0xC5 \<and> take 1 s = [CHR 0xBF] then CHR ''s'' # json_fold (drop 1 s)
      else if c = CHR 0xE2 \<and> take 2 s = [CHR 0x84, CHR 0xAA] then CHR ''k'' # json_fold (drop 2 s)
      else to_lower [c] @ json_fold s)"

text \<open>Decoding into the two string fields; null leaves a field alone, the last of equal keys counts.\<close>

fun decode_token_fields :: "(string \<times> json) list \<Rightarrow> string \<times> string \<Rightarrow> (string \<times> string) option" where
  "decode_token_fields [] p = Some p"
| "decode_token_fields ((k, v) # kvs) (tok, expires) =
     (if json_fold k = ''token'' then
        (case v of JStr t \<Rightarrow> decode_token_fields kvs (t, expires) | JNull \<Rightarrow> decode_token_fields kvs (tok, expires) | _ \<Rightarrow> None)
      else if json_fold k = ''expires_at'' then
        (case v of JStr t \<Rightarrow> decode_token_fields kvs (tok, t) | JNull \<Rightarrow> decode_token_fields kvs (tok, expires) | _ \<Rightarrow> None)
      else decode_token_fields kvs (tok, expires))"

definition decode_token :: "string \<Rightarrow> (string \<times> string) option" where
  "decode_token body =
     (case json_parse body of
        None \<Rightarrow> None
      | Some (doc, rest) \<Rightarrow>
          if skip_ws rest \<noteq> [] then None
          else (case doc of JObj kvs \<Rightarrow> decode_token_fields kvs ([], []) | JNull \<Rightarrow> Some ([], []) | _ \<Rightarrow> None))"

definition token_url :: "githubAppProvider \<Rightarrow> string" where
  "token_url g = gaAPIBaseURL g @ ''/app/installations/'' @ show_int (gaInstallationID g) @ ''/access_tokens''"

definition read_token_response :: "AuthEnv \<Rightarrow> int \<times> (gerr + string) \<Rightarrow> gerr + string \<times> time" where
  "read_token_response c resp =
     (case snd resp of
        Inl e \<Rightarrow> Inl (Wrap ''auth: read installation token response: '' e [])
      | Inr body \<Rightarrow>
          if fst resp \<noteq> 201 \<and> fst resp \<noteq> 200
          then Inl (Plain (''auth: GitHub App token endpoint returned '' @ show_int (fst resp)))
          else (case decode_token body of
                  None \<Rightarrow> Inl (Plain ''auth: parse installation token response'')
                | Some (tok, expires) \<Rightarrow>
                    if tok = [] then Inl (Plain ''auth: installation token response missing 'token' field'')
                    else (case auParseTime c expires of
                            Inl e \<Rightarrow> Inl (Wrap (''auth: parse installation token expires_at '' @ Quote (auIsPrint c) expires @ '': '') e [])
                          | Inr t \<Rightarrow> Inr (tok, t))))"

definition requestInstallationToken ::
  "AuthEnv \<Rightarrow> githubAppProvider \<Rightarrow> string \<Rightarrow> AuthState \<Rightarrow> (gerr + string \<times> time) \<times> AuthState" where
  "requestInstallationToken c g jwt s =
     (case auNewRequest c (token_url g) of
        Some e \<Rightarrow> (Inl (Wrap ''auth: build installation token request: '' e []), s)
      | None \<Rightarrow>
          (case auPost c (asCalls s) (token_url g) jwt of
             Inl e \<Rightarrow> (Inl (Wrap ''auth: POST installation token: '' e []), a_tick s)
           | Inr resp \<Rightarrow>
               (case read_token_response c resp of
                  Inl e \<Rightarrow> (Inl e, a_tick s)
                | Inr te \<Rightarrow> (Inr te, (a_tick s)\<lparr>asIssued := asIssued s @ [te]\<rparr>))))"

definition app_Token :: "AuthEnv \<Rightarrow> githubAppProvider \<Rightarrow> AuthState \<Rightarrow> (gerr + string) \<times> githubAppProvider \<times> AuthState" where
  "app_Token c g s =
     (if gaCachedTok g \<noteq> [] \<and> tokenRefreshBuffer < time_Sub (gaExpiresAt g) (auNow c (asCalls s)) then (Inr (gaCachedTok g), g, a_tick s)
      else case mintJWT c g (a_tick s) of
        (Inl e, s1) \<Rightarrow> (Inl (Wrap ''auth: mint GitHub App JWT: '' e []), g, s1)
      | (Inr jwt, s1) \<Rightarrow>
          (case requestInstallationToken c g jwt s1 of
             (Inl e, s2) \<Rightarrow> (Inl e, g, s2)
           | (Inr (tok, expires), s2) \<Rightarrow> (Inr tok, g\<lparr>gaCachedTok := tok, gaExpiresAt := expires\<rparr>, s2)))"

section \<open>Selecting the provider\<close>

datatype AuthProvider = PATAuth patProvider | AppAuth githubAppProvider

definition buildAuthProvider :: "AuthEnv \<Rightarrow> Scope \<Rightarrow> string \<Rightarrow> AuthState \<Rightarrow> (gerr + AuthProvider) \<times> AuthState" where
  "buildAuthProvider c sc apiBaseURL s =
     (let a = scAuth sc in
      if abType a = ''pat'' then
        (case (if scBackend sc = ''kube'' then NewKubernetesPATProvider c (abPATFile a) s else NewPATProvider c (abPATFile a) s) of
           (Inl e, s1) \<Rightarrow> (Inl e, s1) | (Inr p, s1) \<Rightarrow> (Inr (PATAuth p), s1))
      else if abType a = ''github_app'' then
        (case (if scBackend sc = ''kube''
               then NewKubernetesGitHubAppProvider c (abAppID a) (abInstallationID a) (abPrivateKeyFile a) apiBaseURL s
               else NewGitHubAppProvider c (abAppID a) (abInstallationID a) (abPrivateKeyFile a) apiBaseURL s) of
           (Inl e, s1) \<Rightarrow> (Inl e, s1) | (Inr g, s1) \<Rightarrow> (Inr (AppAuth g), s1))
      else (Inl (Plain (''orchestrator: unknown auth.type '' @ Quote (auIsPrint c) (abType a))), s))"

end
