(* ===== verification/Auth_Thms.thy ===== *)
theory Auth_Thms
  imports Auth_Model
begin

text \<open>
  Credentials stay current: a token read from a file is the content of the file at the time of the
  call, an installation token is fresh or still has more than a minute to live, and a minted JWT
  says who signs it, since when and until when.
\<close>

section \<open>Token files\<close>

text \<open>The providers that calls can lead to; time passes between the calls.\<close>

inductive pat_reach :: "AuthEnv \<Rightarrow> string \<Rightarrow> patProvider \<Rightarrow> AuthState \<Rightarrow> bool" for c f where
  pat_new: "newPATProvider c f mode s = (Inr p, s') \<Longrightarrow> pat_reach c f p s'"
| pat_call: "pat_reach c f p s \<Longrightarrow> pat_Token c p s = (r, p', s') \<Longrightarrow> pat_reach c f p' s'"
| pat_wait: "pat_reach c f p s \<Longrightarrow> pat_reach c f p (s\<lparr>asCalls := asCalls s + k\<rparr>)"

text \<open>A file that changes over time; a change of the content shows in the modification time.\<close>

definition file_history :: "AuthEnv \<Rightarrow> string \<Rightarrow> (nat \<Rightarrow> string) \<Rightarrow> (nat \<Rightarrow> time) \<Rightarrow> bool" where
  "file_history c f content mtime =
     ((\<forall>n perm m. auStat c n f = Inr (perm, m) \<longrightarrow> m = mtime n) \<and> (\<forall>n b. auRead c n f = Inr b \<longrightarrow> b = content n) \<and>
      mono mtime \<and> (\<forall>i j. mtime i = mtime j \<longrightarrow> content i = content j))"

lemma file_historyD:
  assumes "file_history c f content mtime"
  shows "auStat c n f = Inr (perm, m) \<Longrightarrow> m = mtime n" and "auRead c n f = Inr b \<Longrightarrow> b = content n"
    and "i \<le> j \<Longrightarrow> mtime i \<le> mtime j" and "mtime i = mtime j \<Longrightarrow> content i = content j"
proof -
  note h = assms [unfolded file_history_def]
  show "auStat c n f = Inr (perm, m) \<Longrightarrow> m = mtime n" using h by blast
  show "auRead c n f = Inr b \<Longrightarrow> b = content n" using h by blast
  show "i \<le> j \<Longrightarrow> mtime i \<le> mtime j" using h monoD by blast
  show "mtime i = mtime j \<Longrightarrow> content i = content j" using h by blast
qed

definition pat_ok :: "(nat \<Rightarrow> string) \<Rightarrow> (nat \<Rightarrow> time) \<Rightarrow> patProvider \<Rightarrow> nat \<Rightarrow> bool" where
  "pat_ok content mtime p n = (\<exists>t r. t \<le> r \<and> r < n \<and> ppMtime p = mtime t \<and> ppToken p = TrimSpace (content r))"

lemma pat_okI: "t \<le> r \<Longrightarrow> r < n \<Longrightarrow> ppMtime p = mtime t \<Longrightarrow> ppToken p = TrimSpace (content r) \<Longrightarrow> pat_ok content mtime p n"
  unfolding pat_ok_def by blast

lemma pat_ok_later: "pat_ok content mtime p n \<Longrightarrow> n \<le> m \<Longrightarrow> pat_ok content mtime p m"
  unfolding pat_ok_def by (meson less_le_trans)

lemma a_tick_calls [simp]: "asCalls (a_tick s) = Suc (asCalls s)" "asIssued (a_tick s) = asIssued s"
  by (simp_all add: a_tick_def)

lemma pat_Token_cases:
  assumes "pat_Token c p s = (r, p', s')"
  obtains (failed) e where "r = Inl e" and "p' = p" and "asCalls s < asCalls s'"
  | (cached) perm where "r = Inr (ppToken p)" and "p' = p" and "s' = a_tick s"
      and "auStat c (asCalls s) (ppFile p) = Inr (perm, ppMtime p)"
  | (reread) b mtime perm where "r = Inr (TrimSpace b)" and "p' = p\<lparr>ppToken := TrimSpace b, ppMtime := mtime\<rparr>" and "s' = a_tick (a_tick s)"
      and "auStat c (asCalls s) (ppFile p) = Inr (perm, mtime)" and "auRead c (Suc (asCalls s)) (ppFile p) = Inr b"
proof (cases "auStat c (asCalls s) (ppFile p)")
  case (Inl e)
  then have "r = Inl (Wrap (''auth: stat pat file '' @ ppFile p @ '': '') e [])" "p' = p" "s' = a_tick s"
    using assms [symmetric, unfolded pat_Token_def] by simp_all
  then show ?thesis by (intro failed) simp_all
next
  case stat: (Inr pm)
  obtain perm m where pm: "pm = (perm, m)" by fastforce
  show ?thesis
  proof (cases "m = ppMtime p")
    case True
    then have "r = Inr (ppToken p)" "p' = p" "s' = a_tick s"
      using assms [symmetric, unfolded pat_Token_def] stat pm by simp_all
    then show ?thesis using stat pm True by (intro cached) simp_all
  next
    case False
    show ?thesis
    proof (cases "auRead c (Suc (asCalls s)) (ppFile p)")
      case (Inl e)
      then have "r = Inl (Wrap (''auth: read pat file '' @ ppFile p @ '': '') e [])" "p' = p" "s' = a_tick (a_tick s)"
        using assms [symmetric, unfolded pat_Token_def] stat pm False by (simp_all add: pat_reload_def)
      then show ?thesis by (intro failed) simp_all
    next
      case (Inr b)
      then have "r = Inr (TrimSpace b)" "p' = p\<lparr>ppToken := TrimSpace b, ppMtime := m\<rparr>" "s' = a_tick (a_tick s)"
        using assms [symmetric, unfolded pat_Token_def] stat pm False by (simp_all add: pat_reload_def)
      then show ?thesis using stat pm Inr by (intro reread) simp_all
    qed
  qed
qed

lemma pat_reach_ok:
  assumes "pat_reach c f p s" and "file_history c f content mtime"
  shows "ppFile p = f \<and> pat_ok content mtime p (asCalls s)"
  using assms(1)
proof (induction rule: pat_reach.induct)
  case (pat_new mode s p s')
  then obtain perm m b where m: "auStat c (asCalls s) f = Inr (perm, m)" "auRead c (Suc (asCalls s)) f = Inr b"
    "p = \<lparr>ppFile = f, ppToken = TrimSpace b, ppMtime = m\<rparr>" "s' = a_tick (a_tick s)"
    by (auto simp: newPATProvider_def split: sum.splits if_splits)
  have "m = mtime (asCalls s)" "b = content (Suc (asCalls s))" using m(1,2) file_historyD(1,2) [OF assms(2)] by blast+
  then show ?case using m(3,4) by (auto intro!: pat_okI [of "asCalls s" "Suc (asCalls s)"])
next
  case (pat_call p s r p' s')
  from pat_call.hyps(2) show ?case
  proof (cases rule: pat_Token_cases)
    case (failed e)
    then show ?thesis using pat_call.IH by (auto intro: pat_ok_later)
  next
    case (cached perm)
    then show ?thesis using pat_call.IH by (auto intro: pat_ok_later)
  next
    case (reread b m perm)
    have "m = mtime (asCalls s)" "b = content (Suc (asCalls s))"
      using reread(4,5) pat_call.IH file_historyD(1,2) [OF assms(2)] by blast+
    then show ?thesis
      using reread(2,3) pat_call.IH by (auto intro!: pat_okI [of "asCalls s" "Suc (asCalls s)"])
  qed
next
  case (pat_wait p s k)
  then show ?case by (auto intro: pat_ok_later)
qed


section \<open>Installation tokens\<close>

inductive app_reach :: "AuthEnv \<Rightarrow> githubAppProvider \<Rightarrow> AuthState \<Rightarrow> bool" for c where
  app_new: "newGitHubAppProvider c a i f u mode s = (Inr g, s') \<Longrightarrow> app_reach c g s'"
| app_call: "app_reach c g s \<Longrightarrow> app_Token c g s = (r, g', s') \<Longrightarrow> app_reach c g' s'"
| app_wait: "app_reach c g s \<Longrightarrow> app_reach c g (s\<lparr>asCalls := asCalls s + k\<rparr>)"

definition issued_last :: "githubAppProvider \<Rightarrow> AuthState \<Rightarrow> bool" where
  "issued_last g s = (gaCachedTok g \<noteq> [] \<longrightarrow> asIssued s \<noteq> [] \<and> last (asIssued s) = (gaCachedTok g, gaExpiresAt g))"

lemma mintJWT_issued: "mintJWT c g s = (r, s') \<Longrightarrow> asIssued s' = asIssued s"
  by (auto simp: mintJWT_def Let_def split: sum.splits)

lemma request_issued:
  "requestInstallationToken c g jwt s = (r, s') \<Longrightarrow>
     (case r of Inl e \<Rightarrow> asIssued s' = asIssued s | Inr te \<Rightarrow> fst te \<noteq> [] \<and> asIssued s' = asIssued s @ [te])"
  by (auto simp: requestInstallationToken_def read_token_response_def split: sum.splits option.splits prod.splits if_splits)

lemma app_Token_cases:
  assumes "app_Token c g s = (r, g', s')"
  obtains (failed) e where "r = Inl e" and "g' = g" and "asIssued s' = asIssued s"
  | (cached) "r = Inr (gaCachedTok g)" and "g' = g" and "asIssued s' = asIssued s" and "gaCachedTok g \<noteq> []"
      and "tokenRefreshBuffer < time_Sub (gaExpiresAt g) (auNow c (asCalls s))"
  | (minted) tok expires where "r = Inr tok" and "g' = g\<lparr>gaCachedTok := tok, gaExpiresAt := expires\<rparr>" and "tok \<noteq> []"
      and "asIssued s' = asIssued s @ [(tok, expires)]"
proof (cases "gaCachedTok g \<noteq> [] \<and> tokenRefreshBuffer < time_Sub (gaExpiresAt g) (auNow c (asCalls s))")
  case True
  have "r = Inr (gaCachedTok g)" "g' = g" "s' = a_tick s"
    using assms [symmetric, unfolded app_Token_def if_P [OF True]] by simp_all
  moreover have "gaCachedTok g \<noteq> []" "tokenRefreshBuffer < time_Sub (gaExpiresAt g) (auNow c (asCalls s))" using True by blast+
  ultimately show ?thesis using cached by simp
next
  case False
  obtain rj s1 where mint: "mintJWT c g (a_tick s) = (rj, s1)" by fastforce
  have i1: "asIssued s1 = asIssued s" using mintJWT_issued [OF mint] by simp
  show ?thesis
  proof (cases rj)
    case (Inl e)
    have "r = Inl (Wrap ''auth: mint GitHub App JWT: '' e [])" "g' = g" "s' = s1"
      using assms [symmetric, unfolded app_Token_def if_not_P [OF False] mint Inl prod.case sum.case] by simp_all
    then show ?thesis using i1 by (intro failed) simp_all
  next
    case (Inr jwt)
    obtain rt s2 where req: "requestInstallationToken c g jwt s1 = (rt, s2)" by fastforce
    note i2 = request_issued [OF req]
    note eq = assms [symmetric, unfolded app_Token_def if_not_P [OF False] mint Inr prod.case sum.case req]
    show ?thesis
    proof (cases rt)
      case (Inl e)
      then have "r = Inl e" "g' = g" "asIssued s' = asIssued s" using eq i1 i2 by simp_all
      then show ?thesis by (rule failed)
    next
      case (Inr te)
      obtain tok expires where te: "te = (tok, expires)" by fastforce
      have "r = Inr tok" "g' = g\<lparr>gaCachedTok := tok, gaExpiresAt := expires\<rparr>" "tok \<noteq> []"
        "asIssued s' = asIssued s @ [(tok, expires)]"
        using eq i1 i2 Inr te by simp_all
      then show ?thesis by (rule minted)
    qed
  qed
qed

lemma app_reach_issued: "app_reach c g s \<Longrightarrow> issued_last g s"
proof (induction rule: app_reach.induct)
  case (app_new a i f u mode s g s')
  then show ?case
    by (auto simp: issued_last_def newGitHubAppProvider_def split: sum.splits if_splits)
next
  case (app_call g s r g' s')
  from app_call.hyps(2) show ?case
    by (cases rule: app_Token_cases) (use app_call.IH in \<open>auto simp: issued_last_def\<close>)
next
  case (app_wait g s k)
  then show ?case by (simp add: issued_last_def)
qed

text \<open>C36: an installation token is never stale. Whatever calls and failures came before, a token that a
  GitHub App provider returns is not empty and is the last one the endpoint issued: issued by this
  very call, or issued before and with more than a minute left on the clock. A failed call leaves
  the provider as it was.\<close>

theorem app_token_fresh:
  assumes "app_reach c g s" and "app_Token c g s = (r, g', s')"
  shows "case r of
       Inl e \<Rightarrow> g' = g \<and> asIssued s' = asIssued s
     | Inr tok \<Rightarrow> tok \<noteq> [] \<and> (\<exists>expires. last (asIssued s') = (tok, expires) \<and>
         (asIssued s' = asIssued s @ [(tok, expires)] \<or>
          asIssued s' = asIssued s \<and> 60 * time_Second < time_Sub expires (auNow c (asCalls s))))"
  using assms(2)
proof (cases rule: app_Token_cases)
  case cached
  then show ?thesis
    using app_reach_issued [OF assms(1)] by (auto simp: issued_last_def tokenRefreshBuffer_def)
qed auto

section \<open>The signed token, read back\<close>

definition b64_index :: "char \<Rightarrow> nat option" where
  "b64_index c = (let n = length (takeWhile (\<lambda>x. x \<noteq> c) b64_alphabet) in if n < 64 then Some n else None)"

text \<open>A strict reader: the bits that a short last group leaves over must be zero.\<close>

fun b64_groups :: "nat list \<Rightarrow> nat list option" where
  "b64_groups (a # b # c # d # r) =
     map_option (\<lambda>ns. (a * 4 + b div 16) # (b mod 16 * 16 + c div 4) # (c mod 4 * 64 + d) # ns) (b64_groups r)"
| "b64_groups [a, b, c] = (if c mod 4 = 0 then Some [a * 4 + b div 16, b mod 16 * 16 + c div 4] else None)"
| "b64_groups [a, b] = (if b mod 16 = 0 then Some [a * 4 + b div 16] else None)"
| "b64_groups [a] = None"
| "b64_groups [] = Some []"

definition b64_decode :: "string \<Rightarrow> string option" where
  "b64_decode s = (case those (map b64_index s) of None \<Rightarrow> None | Some ns \<Rightarrow> map_option (map char_of) (b64_groups ns))"

definition read_json :: "string \<Rightarrow> json option" where
  "read_json s = (case json_parse s of Some (v, []) \<Rightarrow> Some v | _ \<Rightarrow> None)"

text \<open>A compact JWS: header, claims, signature and the bytes that were signed.\<close>

definition read_jwt :: "string \<Rightarrow> (json \<times> json \<times> string \<times> string) option" where
  "read_jwt tok =
     (case split_char CHR ''.'' tok of
        [h, p, g] \<Rightarrow>
          (case (Option.bind (b64_decode h) read_json, Option.bind (b64_decode p) read_json, b64_decode g) of
             (Some hdr, Some cl, Some sig) \<Rightarrow> Some (hdr, cl, sig, h @ ''.'' @ p)
           | _ \<Rightarrow> None)
      | _ \<Rightarrow> None)"

lemma b64_index_all: "list_all (\<lambda>n. b64_index (b64_char n) = Some n \<and> b64_char n \<noteq> CHR ''.'') [0..<64]"
  by code_simp

lemma b64_index_char: "n < 64 \<Longrightarrow> b64_index (b64_char n) = Some n" "n < 64 \<Longrightarrow> b64_char n \<noteq> CHR ''.''"
  using b64_index_all by (simp_all add: list_all_iff)

fun b64_values :: "string \<Rightarrow> nat list" where
  "b64_values (x # y # z # r) =
     [byte x div 4, byte x mod 4 * 16 + byte y div 16, byte y mod 16 * 4 + byte z div 64, byte z mod 64] @ b64_values r"
| "b64_values [x, y] = [byte x div 4, byte x mod 4 * 16 + byte y div 16, byte y mod 16 * 4]"
| "b64_values [x] = [byte x div 4, byte x mod 4 * 16]"
| "b64_values [] = []"

lemma b64_encode_values: "b64_encode s = map b64_char (b64_values s)"
  by (induction s rule: b64_encode.induct) simp_all

lemma byte_less: "byte c < 256"
  by (simp add: byte_def)

lemma b64_values_less: "n \<in> set (b64_values s) \<Longrightarrow> n < 64"
proof (induction s rule: b64_values.induct)
  case (1 x y z r)
  then show ?case using byte_less [of x] byte_less [of y] byte_less [of z] by auto
next
  case (2 x y)
  then show ?case using byte_less [of x] byte_less [of y] by auto
next
  case (3 x)
  then show ?case using byte_less [of x] by auto
qed simp

lemma join_bits:
  "n < k \<Longrightarrow> (m * k + n) div k = m" "n < k \<Longrightarrow> (m * k + n) mod k = n" for n k m :: nat
  by simp_all

lemma b64_groups_values: "b64_groups (b64_values s) = Some (map byte s)"
proof (induction s rule: b64_values.induct)
  case (1 x y z r)
  have "byte y div 16 < 16" "byte z div 64 < 4" using byte_less [of y] byte_less [of z] by simp_all
  then show ?case using 1 by (simp add: join_bits)
next
  case (2 x y)
  have "byte y div 16 < 16" using byte_less [of y] by simp
  then show ?case by (simp add: join_bits)
qed simp_all

lemma those_map_Some: "(\<And>n. n \<in> set ns \<Longrightarrow> f (g n) = Some n) \<Longrightarrow> those (map f (map g ns)) = Some ns"
  by (induction ns) auto

lemma b64_roundtrip: "b64_decode (b64_encode s) = Some s"
proof -
  have "those (map b64_index (map b64_char (b64_values s))) = Some (b64_values s)"
    using b64_values_less b64_index_char(1) by (intro those_map_Some) blast
  moreover have "map (char_of \<circ> byte) s = s" by (induction s) (simp_all add: byte_def)
  ultimately show ?thesis by (simp add: b64_decode_def b64_encode_values b64_groups_values)
qed

lemma b64_no_dot: "CHR ''.'' \<notin> set (b64_encode s)"
proof
  assume "CHR ''.'' \<in> set (b64_encode s)"
  then obtain n where n: "n \<in> set (b64_values s)" "CHR ''.'' = b64_char n" unfolding b64_encode_values by auto
  show False using b64_index_char(2) [OF b64_values_less [OF n(1)]] n(2) by simp
qed

lemma read_json_plain: "plain_json v \<Longrightarrow> read_json (json_text v) = Some v"
  by (simp add: read_json_def json_roundtrip)

lemma jwt_parts_plain: "plain_json jwt_header" "plain_json (jwt_claims a now)"
proof -
  show "plain_json jwt_header" by (simp add: jwt_header_def ascii_def byte_def)
  show "plain_json (jwt_claims a now)" by (auto simp: jwt_claims_def ascii_def byte_def)
qed

lemma split_char_three:
  assumes "d \<notin> set a" "d \<notin> set b" "d \<notin> set c"
  shows "split_char d (a @ d # b @ d # c) = [a, b, c]"
  using assms by (simp add: split_char_append split_char_notin)

text \<open>C37: a minted JWT reads back. Split at its dots and decoded, the token gives the RS256 header, the
  claims that the App signs (issued a minute before now, valid until ten minutes from now), and
  the signature that the key made of the SHA-256 digest of exactly the first two segments.\<close>

theorem jwt_roundtrip:
  assumes "mintJWT c g s = (Inr tok, s')"
  shows "\<exists>sig signed. read_jwt tok =
      Some (JObj [(''alg'', JStr ''RS256''), (''typ'', JStr ''JWT'')],
        JObj [(''exp'', JNum (show_int (unix_seconds (auNow c (asCalls s) + 600 * time_Second)))),
              (''iat'', JNum (show_int (unix_seconds (auNow c (asCalls s) - 60 * time_Second)))), (''iss'', JNum (show_int (gaAppID g)))],
        sig, signed) \<and>
      auSign c (asCalls s) (gaPrivateKey g) (Sum256 signed) = Inr sig"
proof -
  let ?now = "auNow c (asCalls s)"
  let ?h = "b64_encode (json_text jwt_header)" and ?p = "b64_encode (json_text (jwt_claims (gaAppID g) ?now))"
  obtain sig where sig: "auSign c (asCalls s) (gaPrivateKey g) (Sum256 (?h @ ''.'' @ ?p)) = Inr sig"
    and tok: "tok = (?h @ ''.'' @ ?p) @ ''.'' @ b64_encode sig"
    using assms by (auto simp: mintJWT_def Let_def signing_input_def split: sum.splits)
  have "split_char CHR ''.'' tok = [?h, ?p, b64_encode sig]"
    using split_char_three [OF b64_no_dot b64_no_dot b64_no_dot] by (simp add: tok)
  then have "read_jwt tok = Some (jwt_header, jwt_claims (gaAppID g) ?now, sig, ?h @ ''.'' @ ?p)"
    by (simp add: read_jwt_def b64_roundtrip read_json_plain jwt_parts_plain)
  then show ?thesis using sig by (auto simp: jwt_header_def jwt_claims_def jwtMaxAge_def jwtClockSkewBuffer_def time_Minute_def)
qed

section \<open>Witnesses\<close>

definition example_auth :: AuthEnv where
  "example_auth = \<lparr>auStat = \<lambda>n _. Inr (256, if n < 3 then 5 else 9), auRead = \<lambda>n _. Inr (if n < 3 then ''old '' else '' new''),
     auIsPrint = \<lambda>_. True, auNow = \<lambda>n. int n * time_Second, auPEM = \<lambda>s. Some (''RSA PRIVATE KEY'', s), auPKCS1 = Inr, auPKCS8 = \<lambda>s. Inr (RSAKey s),
     auSign = \<lambda>_ k _. Inr k, auNewRequest = \<lambda>_. None, auPost = \<lambda>n _ _. Inr (201, Inr ''{\"token\":\"t\",\"expires_at\":\"\"}''),
     auParseTime = \<lambda>_. Inr (600 * time_Second)\<rparr>"

lemma trim_examples: "TrimSpace ''old '' = ''old''" "TrimSpace '' new'' = ''new''"
  by code_simp+

definition example_start :: AuthState where
  "example_start = \<lparr>asCalls = 0, asIssued = []\<rparr>"

definition example_pat :: patProvider where
  "example_pat = \<lparr>ppFile = ''t'', ppToken = ''old'', ppMtime = 5\<rparr>"


definition example_app :: githubAppProvider where
  "example_app = \<lparr>gaAppID = 7, gaInstallationID = 9, gaPrivateKey = ''old '', gaAPIBaseURL = ''https://api'', gaCachedTok = [], gaExpiresAt = zero_time\<rparr>"

definition example_cached :: githubAppProvider where
  "example_cached = example_app\<lparr>gaCachedTok := ''t'', gaExpiresAt := 600 * time_Second\<rparr>"

lemma example_response: "read_token_response example_auth (201, Inr ''{\"token\":\"t\",\"expires_at\":\"\"}'') = Inr (''t'', 600 * time_Second)"
  by code_simp

lemma example_fetch:
  "app_Token example_auth example_app (example_start\<lparr>asCalls := 2\<rparr>) =
     (Inr ''t'', example_cached, \<lparr>asCalls = 5, asIssued = [(''t'', 600 * time_Second)]\<rparr>)"
proof -
  have req: "requestInstallationToken example_auth example_app j (example_start\<lparr>asCalls := 4\<rparr>) =
      (Inr (''t'', 600 * time_Second), \<lparr>asCalls = 5, asIssued = [(''t'', 600 * time_Second)]\<rparr>)" for j
  proof -
    have "auNewRequest example_auth u = None" "auPost example_auth n u j = Inr (201, Inr ''{\"token\":\"t\",\"expires_at\":\"\"}'')" for n u
      by (simp_all add: example_auth_def)
    then show ?thesis by (simp add: requestInstallationToken_def example_response example_start_def a_tick_def)
  qed
  obtain j where mint: "mintJWT example_auth example_app (example_start\<lparr>asCalls := 3\<rparr>) = (Inr j, example_start\<lparr>asCalls := 4\<rparr>)"
    by (simp add: mintJWT_def Let_def example_auth_def example_start_def a_tick_def)
  have "gaCachedTok example_app = []" by (simp add: example_app_def)
  then show ?thesis using mint req [of j]
    by (simp add: app_Token_def a_tick_def example_start_def example_cached_def)
qed

text \<open>The second call, later on, finds the cached token still good and returns it.\<close>

theorem app_token_fresh_witness:
  "fst (app_Token example_auth example_cached \<lparr>asCalls = 7, asIssued = [(''t'', 600 * time_Second)]\<rparr>) = Inr ''t'' \<and>
   (\<exists>expires. (''t'', 600 * time_Second) = (''t'', expires) \<and> 60 * time_Second < time_Sub expires (auNow example_auth 7))"
proof -
  let ?i = "[(''t'', 600 * time_Second)]"
  have "newGitHubAppProvider example_auth 7 9 ''k'' ''https://api/'' 256 example_start = (Inr example_app, example_start\<lparr>asCalls := 2\<rparr>)"
    by (simp add: newGitHubAppProvider_def parseRSAPrivateKey_def trim_right_def example_auth_def example_start_def example_app_def a_tick_def)
  from app_wait [OF app_call [OF app_new [OF this] example_fetch], of 2]
  have reach: "app_reach example_auth example_cached \<lparr>asCalls = 7, asIssued = ?i\<rparr>" by simp
  have call: "app_Token example_auth example_cached \<lparr>asCalls = 7, asIssued = ?i\<rparr> = (Inr ''t'', example_cached, \<lparr>asCalls = 8, asIssued = ?i\<rparr>)"
    by (simp add: app_Token_def example_cached_def example_app_def example_auth_def tokenRefreshBuffer_def time_Sub_def time_Second_def a_tick_def)
  show ?thesis using call app_token_fresh [OF reach call] by simp
qed

theorem jwt_roundtrip_witness:
  "\<exists>tok sig signed. fst (mintJWT example_auth example_app example_start) = Inr tok \<and> read_jwt tok =
      Some (JObj [(''alg'', JStr ''RS256''), (''typ'', JStr ''JWT'')],
        JObj [(''exp'', JNum ''-62135596200''), (''iat'', JNum ''-62135596860''), (''iss'', JNum ''7'')], sig, signed) \<and> sig = ''old ''"
proof -
  obtain tok where mint: "mintJWT example_auth example_app example_start = (Inr tok, a_tick example_start)"
    by (simp add: mintJWT_def Let_def example_auth_def)
  have nums: "show_int (unix_seconds (0 + 600 * time_Second)) = ''-62135596200''" "show_int (unix_seconds (0 - 60 * time_Second)) = ''-62135596860''" "show_int 7 = ''7''"
    by code_simp+
  have ex: "auNow example_auth (asCalls example_start) = 0" "gaAppID example_app = 7" "gaPrivateKey example_app = ''old ''"
    "auSign example_auth n k d = Inr k" for n k d
    by (simp_all add: example_auth_def example_start_def example_app_def)
  show ?thesis using mint jwt_roundtrip [OF mint, unfolded ex nums] by auto
qed

end
