(* ===== verification/Telemetry_Model.thy ===== *)
theory Telemetry_Model
  imports JSON_Text
begin

text \<open>
  Event preparation, \<open>infra/telemetry\<close>: the identity of the emitting process, the redaction of
  credentials by regular expressions, the recursive sanitising of a document, and \<open>Marshal\<close>.

  The expressions run on the runes of a string, as \<open>regexp\<close> does: \<open>rx_run\<close> lists the ends of the
  matches at a position, in the order in which a backtracking search prefers them, so its first
  element is the match that \<open>regexp\<close> finds there. A position is the rest of the string and whether the
  rune before it is a word character. \<open>UrlLib\<close> is \<open>net/url\<close>.
\<close>

section \<open>Regular expressions\<close>

definition rune_at :: "string \<Rightarrow> string \<times> string" where
  "rune_at s = (let n = (case rune_len s of None \<Rightarrow> 1 | Some n \<Rightarrow> n) in (take n s, drop n s))"

lemma rune_at_shorter: "rune_at s = (r, t) \<Longrightarrow> s \<noteq> [] \<Longrightarrow> length t < length s"
  by (cases "rune_len s") (auto simp: rune_at_def Let_def dest: rune_len_pos)

definition word_char :: "char \<Rightarrow> bool" where
  "word_char c =
     (let n = byte c in 48 \<le> n \<and> n \<le> 57 \<or> 65 \<le> n \<and> n \<le> 90 \<or> n = 95 \<or> 97 \<le> n \<and> n \<le> 122)"

definition word_rune :: "string \<Rightarrow> bool" where
  "word_rune r = (case r of [c] \<Rightarrow> word_char c | _ \<Rightarrow> False)"

datatype rx =
    RxEps
  | RxRune "string \<Rightarrow> bool"
  | RxSeq rx rx
  | RxAlt rx rx
  | RxStar rx
  | RxLazy rx
  | RxWordBoundary
  | RxEnd

type_synonym position = "bool \<times> string"

text \<open>No starred expression here matches the empty string, so the length of the string bounds
  the iterations of a star.\<close>

fun rx_run :: "nat \<Rightarrow> rx \<Rightarrow> position \<Rightarrow> position list" where
  "rx_run n RxEps x = [x]"
| "rx_run n (RxRune p) (w, s) =
     (if s = [] then [] else case rune_at s of (r, t) \<Rightarrow> if p r then [(word_rune r, t)] else [])"
| "rx_run n (RxSeq a b) x = concat (map (rx_run n b) (rx_run n a x))"
| "rx_run n (RxAlt a b) x = rx_run n a x @ rx_run n b x"
| "rx_run 0 (RxStar a) x = [x]"
| "rx_run (Suc n) (RxStar a) x = concat (map (rx_run n (RxStar a)) (rx_run n a x)) @ [x]"
| "rx_run 0 (RxLazy a) x = [x]"
| "rx_run (Suc n) (RxLazy a) x = x # concat (map (rx_run n (RxLazy a)) (rx_run n a x))"
| "rx_run n RxWordBoundary (w, s) = (if w \<noteq> (s \<noteq> [] \<and> word_rune (fst (rune_at s))) then [(w, s)] else [])"
| "rx_run n RxEnd (w, s) = (if s = [] then [(w, s)] else [])"

definition rx_first :: "rx \<Rightarrow> position \<Rightarrow> position option" where
  "rx_first r x = (case rx_run (length (snd x)) r x of [] \<Rightarrow> None | y # _ \<Rightarrow> Some y)"

function rx_search :: "rx \<Rightarrow> position \<Rightarrow> bool" where
  "rx_search r (w, s) =
     (if rx_first r (w, s) \<noteq> None then True
      else if s = [] then False else case rune_at s of (c, t) \<Rightarrow> rx_search r (word_rune c, t))"
  by pat_completeness auto
termination
  by (relation "measure (\<lambda>(r, w, s). length s)")
     (auto dest: rune_at_shorter [OF sym])

declare rx_search.simps [simp del]

text \<open>\<open>MatchString\<close>, and \<open>ReplaceAll\<close> with a function that gives the replacement of the match at a
  position and the position behind it.\<close>

definition MatchString :: "rx \<Rightarrow> string \<Rightarrow> bool" where
  "MatchString r s = rx_search r (False, s)"

type_synonym replacer = "position \<Rightarrow> (string \<times> position) option"

function replace_all :: "replacer \<Rightarrow> position \<Rightarrow> string" where
  "replace_all m (w, s) =
     (if s = [] then []
      else case m (w, s) of
        Some (out, (w1, t)) \<Rightarrow>
          if length t < length s then out @ replace_all m (w1, t)
          else (case rune_at s of (c, t1) \<Rightarrow> c @ replace_all m (word_rune c, t1))
      | None \<Rightarrow> (case rune_at s of (c, t1) \<Rightarrow> c @ replace_all m (word_rune c, t1)))"
  by pat_completeness auto
termination
  by (relation "measure (\<lambda>(m, w, s). length s)")
     (auto dest: rune_at_shorter [OF sym])

declare replace_all.simps [simp del]

definition replace_with :: "rx \<Rightarrow> string \<Rightarrow> replacer" where
  "replace_with r out x = map_option (\<lambda>y. (out, y)) (rx_first r x)"

definition consumed :: "position \<Rightarrow> position \<Rightarrow> string" where
  "consumed x y = take (length (snd x) - length (snd y)) (snd x)"

subsection \<open>Syntax of the expressions\<close>

definition rx_char :: "(char \<Rightarrow> bool) \<Rightarrow> rx" where
  "rx_char p = RxRune (\<lambda>r. case r of [c] \<Rightarrow> byte c < 128 \<and> p c | _ \<Rightarrow> False)"

definition rx_not :: "(char \<Rightarrow> bool) \<Rightarrow> rx" where
  "rx_not p = RxRune (\<lambda>r. case r of [c] \<Rightarrow> \<not> p c | _ \<Rightarrow> True)"

text \<open>Under \<open>(?i)\<close> the letters s and k also stand for the long s and the Kelvin sign.\<close>

definition folds :: "char \<Rightarrow> string \<Rightarrow> bool" where
  "folds c r =
     (r \<noteq> [] \<and> tl r = [] \<and> to_lower r = to_lower [c] \<or> c = CHR ''s'' \<and> r = [CHR 0xC5, CHR 0xBF] \<or>
      c = CHR ''k'' \<and> r = [CHR 0xE2, CHR 0x84, CHR 0xAA])"

definition rx_lit :: "string \<Rightarrow> rx" where
  "rx_lit s = foldr (\<lambda>c r. RxSeq (RxRune (\<lambda>x. x = [c])) r) s RxEps"

definition rx_fold :: "string \<Rightarrow> rx" where
  "rx_fold s = foldr (\<lambda>c r. RxSeq (RxRune (folds c)) r) s RxEps"

definition rx_seq :: "rx list \<Rightarrow> rx" where
  "rx_seq rs = foldr RxSeq rs RxEps"

fun rx_alts :: "rx list \<Rightarrow> rx" where
  "rx_alts [] = RxRune (\<lambda>_. False)"
| "rx_alts [r] = r"
| "rx_alts (r # rs) = RxAlt r (rx_alts rs)"

definition rx_opt :: "rx \<Rightarrow> rx" where
  "rx_opt r = RxAlt r RxEps"

definition rx_plus :: "rx \<Rightarrow> rx" where
  "rx_plus r = RxSeq r (RxStar r)"

definition space_char :: "char \<Rightarrow> bool" where
  "space_char c = (c = CHR '' '' \<or> c = CHR 0x09 \<or> c = CHR 0x0A \<or> c = CHR 0x0C \<or> c = CHR 0x0D)"

definition upper_digit :: "char \<Rightarrow> bool" where
  "upper_digit c = (let n = byte c in 48 \<le> n \<and> n \<le> 57 \<or> 65 \<le> n \<and> n \<le> 90)"

section \<open>Redaction\<close>

definition sensitiveKey :: rx where
  "sensitiveKey =
     rx_alts [rx_fold ''authorization'', rx_fold ''cookie'', rx_fold ''password'', rx_fold ''passwd'', rx_fold ''secret'', rx_fold ''token'',
       rx_fold ''credential'', rx_seq [rx_fold ''private'', rx_opt (rx_not (\<lambda>c. c = CHR 0x0A)), rx_fold ''key''],
       rx_seq [rx_fold ''jit'', rx_opt (rx_not (\<lambda>c. c = CHR 0x0A)), rx_fold ''config''],
       rx_seq [rx_fold ''encoded'', rx_opt (rx_not (\<lambda>c. c = CHR 0x0A)), rx_fold ''jit''],
       rx_seq [rx_fold ''access'', rx_opt (rx_not (\<lambda>c. c = CHR 0x0A)), rx_fold ''key''],
       rx_seq [rx_fold ''api'', rx_opt (rx_not (\<lambda>c. c = CHR 0x0A)), rx_fold ''key'']]"

definition pemKey :: rx where
  "pemKey =
     (let name = RxStar (rx_char (\<lambda>c. upper_digit c \<or> c = CHR '' '')) in
      rx_seq [rx_lit ''-----BEGIN '', name, rx_lit ''PRIVATE KEY-----'', RxLazy (rx_not (\<lambda>_. False)),
        RxAlt (rx_seq [rx_lit ''-----END '', name, rx_lit ''PRIVATE KEY-----'']) RxEnd])"

definition token_intro :: rx where
  "token_intro = RxAlt (rx_lit ''github_pat_'') (rx_seq [rx_lit ''gh'', rx_char (\<lambda>c. c \<in> set ''pousr''), rx_lit ''_''])"

definition githubToken :: rx where
  "githubToken = rx_seq [token_intro, rx_plus (rx_char word_char)]"

definition awsAccessKey :: rx where
  "awsAccessKey =
     rx_seq ([RxWordBoundary, RxAlt (rx_lit ''AKIA'') (rx_lit ''ASIA'')] @ replicate 16 (rx_char upper_digit) @ [RxWordBoundary])"

definition bearer :: rx where
  "bearer =
     rx_seq [RxWordBoundary, RxAlt (rx_fold ''Bearer'') (rx_fold ''Basic''), rx_plus (rx_char space_char),
       rx_plus (rx_not (\<lambda>c. space_char c \<or> c = CHR 0x22 \<or> c = CHR 0x27 \<or> c = CHR '','' \<or> c = CHR '';''))]"

definition jwt_token :: rx where
  "jwt_token =
     (let part = rx_plus (rx_char (\<lambda>c. word_char c \<or> c = CHR ''-'')) in
      rx_seq [RxWordBoundary, rx_lit ''eyJ'', part, rx_lit ''.'', part, rx_lit ''.'', part])"

definition httpURL :: rx where
  "httpURL =
     rx_seq [rx_lit ''http'', rx_opt (rx_lit ''s''), rx_lit ''://'',
       rx_plus (rx_not (\<lambda>c. space_char c \<or> c = CHR 0x22 \<or> c = CHR ''<'' \<or> c = CHR ''>''))]"

definition dash :: rx where
  "dash = rx_opt (rx_char (\<lambda>c. c = CHR ''_'' \<or> c = CHR ''-''))"

definition inline_name :: rx where
  "inline_name =
     rx_alts [rx_fold ''authorization'', rx_fold ''password'', rx_fold ''passwd'', rx_fold ''secret'', rx_fold ''token'', rx_fold ''credential'',
       rx_seq [rx_fold ''private'', dash, rx_fold ''key''],
       rx_seq [rx_opt (rx_seq [rx_fold ''encoded'', dash]), rx_fold ''jit'', dash, rx_fold ''config'', rx_opt (rx_seq [dash, rx_fold ''b64''])],
       rx_seq [rx_fold ''access'', dash, rx_fold ''key''], rx_seq [rx_fold ''api'', dash, rx_fold ''key''],
       rx_seq [rx_fold ''client'', dash, rx_fold ''secret''], rx_seq [rx_fold ''secret'', dash, rx_fold ''access'', dash, rx_fold ''key'']]"

definition inline_sep :: rx where
  "inline_sep =
     rx_seq [rx_opt (rx_char (\<lambda>c. c = CHR 0x22 \<or> c = CHR 0x27)), RxStar (rx_char space_char),
       rx_char (\<lambda>c. c = CHR '':'' \<or> c = CHR ''=''), RxStar (rx_char space_char)]"

definition quoted_text :: "char \<Rightarrow> rx" where
  "quoted_text q =
     rx_seq [rx_lit [q], RxStar (RxAlt (rx_seq [rx_lit [CHR 0x5C], rx_not (\<lambda>c. c = CHR 0x0A)]) (rx_not (\<lambda>c. c = q \<or> c = CHR 0x5C))), rx_lit [q]]"

definition inline_value :: rx where
  "inline_value =
     rx_alts [quoted_text (CHR 0x22), quoted_text (CHR 0x27),
       rx_plus (rx_not (\<lambda>c. space_char c \<or> c = CHR 0x22 \<or> c = CHR 0x27 \<or> c = CHR '','' \<or> c = CHR '';'' \<or> c = CHR ''}'' \<or> c = CHR '']''))]"

text \<open>The name and the separator stay, the value goes.\<close>

definition inlineSecret :: replacer where
  "inlineSecret x =
     (let n = length (snd x);
          ends = concat (map (\<lambda>y. map (\<lambda>z. (y, z)) (rx_run n inline_value y)) (rx_run n (RxSeq inline_name inline_sep) x))
      in case ends of [] \<Rightarrow> None | (y, z) # _ \<Rightarrow> Some (consumed x y @ [CHR 0x22] @ ''[REDACTED]'' @ [CHR 0x22], z))"

text \<open>The parts of a parsed URL that the redaction clears, and the rest of it.\<close>

record 'r URL =
  ulUser :: "string option"
  ulRawQuery :: string
  ulForceQuery :: bool
  ulFragment :: string
  ulRest :: 'r

record 'r UrlLib =
  ulParse :: "string \<Rightarrow> 'r URL option"
  ulString :: "'r URL \<Rightarrow> string"

definition clear_url :: "'r URL \<Rightarrow> 'r URL" where
  "clear_url u = u\<lparr>ulUser := None, ulRawQuery := [], ulForceQuery := False, ulFragment := []\<rparr>"

definition redact_url :: "'r UrlLib \<Rightarrow> string \<Rightarrow> string" where
  "redact_url U raw =
     (case ulParse U raw of
        None \<Rightarrow> ''[REDACTED URL]''
      | Some u \<Rightarrow> ulString U (clear_url u))"

definition url_replacer :: "'r UrlLib \<Rightarrow> replacer" where
  "url_replacer U x = map_option (\<lambda>y. (redact_url U (consumed x y), y)) (rx_first httpURL x)"

definition ReplaceAll :: "replacer \<Rightarrow> string \<Rightarrow> string" where
  "ReplaceAll m s = replace_all m (False, s)"

definition RedactString :: "'r UrlLib \<Rightarrow> string \<Rightarrow> string" where
  "RedactString U v =
     (let v1 = ReplaceAll (replace_with pemKey ''[REDACTED PRIVATE KEY]'') v;
          v2 = ReplaceAll (replace_with githubToken ''[REDACTED]'') v1;
          v3 = ReplaceAll (replace_with awsAccessKey ''[REDACTED]'') v2;
          v4 = ReplaceAll (replace_with bearer ''[REDACTED AUTHORIZATION]'') v3;
          v5 = ReplaceAll (replace_with jwt_token ''[REDACTED JWT]'') v4;
          v6 = ReplaceAll (url_replacer U) v5
      in ReplaceAll inlineSecret v6)"

fun sanitize :: "'r UrlLib \<Rightarrow> json \<Rightarrow> nat \<Rightarrow> json" where
  "sanitize U (JObj kvs) depth =
     (if 32 < depth then JStr ''[REDACTED DEPTH LIMIT]''
      else JObj (map (\<lambda>(k, v). (k, if MatchString sensitiveKey k then JStr ''[REDACTED]'' else sanitize U v (depth + 1))) kvs))"
| "sanitize U (JArr vs) depth =
     (if 32 < depth then JStr ''[REDACTED DEPTH LIMIT]'' else JArr (map (\<lambda>v. sanitize U v (depth + 1)) vs))"
| "sanitize U (JStr s) depth = (if 32 < depth then JStr ''[REDACTED DEPTH LIMIT]'' else JStr (RedactString U s))"
| "sanitize U v depth = (if 32 < depth then JStr ''[REDACTED DEPTH LIMIT]'' else v)"

section \<open>Identity\<close>

record Identity =
  idEnvironment :: string
  idKubernetes :: "(string, string) gomap"
  idCloud :: "(string, string) gomap"

definition env_fields :: "(string \<Rightarrow> string) \<Rightarrow> (string \<times> string) list \<Rightarrow> (string, string) gomap" where
  "env_fields getenv fs = filter (\<lambda>(k, v). v \<noteq> []) (map (\<lambda>(field, key). (field, getenv key)) fs)"

definition fromEnv :: "(string \<Rightarrow> string) \<Rightarrow> Identity" where
  "fromEnv getenv =
     (let provider = getenv ''RUNSECURE_CLOUD_PROVIDER'';
          stage = to_lower (getenv ''CORNERSTONE_ENV'');
          cloud = env_fields getenv [(''cloud.account.id'', ''RUNSECURE_CLOUD_ACCOUNT_ID''), (''cloud.region'', ''RUNSECURE_CLOUD_REGION''),
            (''cloud.zone'', ''RUNSECURE_CLOUD_ZONE'')]
      in \<lparr>idEnvironment =
            (if stage = ''development'' then ''Development'' else if stage = ''testing'' then ''Testing''
             else if stage = ''staging'' then ''Staging'' else if stage = ''production'' then ''Production'' else []),
          idKubernetes = env_fields getenv [(''k8s.cluster.name'', ''RUNSECURE_K8S_CLUSTER''), (''k8s.namespace.name'', ''RUNSECURE_POD_NAMESPACE''),
            (''k8s.pod.name'', ''RUNSECURE_POD_NAME''), (''k8s.pod.uid'', ''RUNSECURE_POD_UID''), (''k8s.node.name'', ''RUNSECURE_NODE_NAME'')],
          idCloud =
            (if provider \<in> set [''aws'', ''gcp'', ''azure'', ''digitalocean'', ''oci'', ''alibaba'', ''ibm'', ''tencent'']
             then AList.update ''cloud.provider'' provider cloud else cloud)\<rparr>)"

section \<open>Marshalling an event\<close>

text \<open>What decoding into \<open>any\<close> keeps of a document, in the order in which it is marshalled again: one
  member per key, the last one, sorted by key.\<close>

fun any_of :: "json \<Rightarrow> json" where
  "any_of (JObj kvs) = JObj (sort_key fst (fold (\<lambda>(k, v). AList.update k v) (map (\<lambda>(k, v). (k, any_of v)) kvs) []))"
| "any_of (JArr vs) = JArr (map any_of vs)"
| "any_of v = v"

definition str_members :: "(string, string) gomap \<Rightarrow> json" where
  "str_members m = JObj (map (\<lambda>(k, v). (k, JStr v)) m)"

definition add_absent :: "string \<Rightarrow> json \<Rightarrow> bool \<Rightarrow> (string, json) gomap \<Rightarrow> (string, json) gomap" where
  "add_absent key v wanted event = (if map_of event key = None \<and> wanted then AList.update key v event else event)"

definition with_identity :: "Identity \<Rightarrow> (string, json) gomap \<Rightarrow> (string, json) gomap" where
  "with_identity i event =
     add_absent ''cloud.context'' (str_members (idCloud i)) (idCloud i \<noteq> [])
      (add_absent ''k8s.context'' (str_members (idKubernetes i)) (idKubernetes i \<noteq> [])
        (add_absent ''deployment.environment'' (JStr (idEnvironment i)) (idEnvironment i \<noteq> []) event))"

definition Marshal :: "'r UrlLib \<Rightarrow> json \<Rightarrow> Identity \<Rightarrow> gerr + string" where
  "Marshal U doc i =
     (case json_parse (json_text doc) of
        Some (v, _) \<Rightarrow>
          (case any_of v of
             JObj event \<Rightarrow> Inr (json_text (any_of (sanitize U (JObj (with_identity i event)) 0)) @ [CHR 0x0A])
           | JNull \<Rightarrow> Inl (Plain ''telemetry: event must be an object'')
           | _ \<Rightarrow> Inl (Plain ''json: cannot unmarshal into map''))
      | None \<Rightarrow> Inl (Plain ''json: invalid document''))"

text \<open>The sink answers with the number of bytes it took and an error.\<close>

definition tel_Write :: "(string \<Rightarrow> nat \<times> gerr option) \<Rightarrow> string \<Rightarrow> gerr option" where
  "tel_Write w encoded =
     (case w encoded of (n, err) \<Rightarrow> if err = None \<and> n \<noteq> length encoded then Some (Plain ''short write'') else err)"

section \<open>The sinks of an emitter\<close>

text \<open>\<open>EmEnv\<close> answers for the two sinks, the clock and the UUID generator, call by call. \<open>emOut\<close> and
  \<open>emDiag\<close> are the bytes that the event sink and the diagnostic sink took; \<open>emDiagnostics\<close> says whether a
  diagnostic sink is installed.\<close>

record EmEnv =
  eeSink :: "nat \<Rightarrow> string \<Rightarrow> nat \<times> gerr option"
  eeDiag :: "nat \<Rightarrow> string \<Rightarrow> nat \<times> gerr option"
  eeUUID :: "nat \<Rightarrow> string"
  eeClock :: "nat \<Rightarrow> string"

record EventSinks =
  emCalls :: nat
  emOut :: string
  emDiag :: string
  emIdentity :: Identity
  emDiagnostics :: bool

definition em_tick :: "'a EventSinks_scheme \<Rightarrow> 'a EventSinks_scheme" where
  "em_tick s = s\<lparr>emCalls := emCalls s + 1\<rparr>"

definition sink_write :: "EmEnv \<Rightarrow> string \<Rightarrow> 'a EventSinks_scheme \<Rightarrow> gerr option \<times> 'a EventSinks_scheme" where
  "sink_write c encoded s =
     (tel_Write (eeSink c (emCalls s)) encoded, (em_tick s)\<lparr>emOut := emOut s @ take (fst (eeSink c (emCalls s) encoded)) encoded\<rparr>)"

definition diag_write :: "EmEnv \<Rightarrow> string \<Rightarrow> 'a EventSinks_scheme \<Rightarrow> 'a EventSinks_scheme" where
  "diag_write c encoded s = (em_tick s)\<lparr>emDiag := emDiag s @ take (fst (eeDiag c (emCalls s) encoded)) encoded\<rparr>"

end
