(* ===== verification/Cornerstone_Model.thy ===== *)
theory Cornerstone_Model
  imports Telemetry_Model
begin

text \<open>
  The event stream of the orchestrator, \<open>internal/cornerstone\<close>: the event and its validation, the
  emitter with its diagnostic sink, and a constructor per registered event.
\<close>

section \<open>Events\<close>

record ContainerContext =
  ccID :: string
  ccName :: string
  ccImageDigest :: string
  ccRuntime :: string
  ccExitCode :: "int option"

record NetworkContext =
  ncName :: string
  ncDriver :: string

record RateLimitContext =
  rcRemaining :: int
  rcLimit :: int
  rcResetISO :: string

record AuditContext =
  acAction :: string
  acResourceType :: string
  acResourceID :: string

record EventDetails =
  edEventCode :: string
  edSummary :: string
  edMessage :: string
  edSeverity :: int
  edResult :: string
  edFailureReason :: string
  edErrorData :: "(string, json) gomap"
  edStatus :: string
  edDuration :: int
  edTags :: "string list"

record Event =
  evUUID :: string
  evDefinitionUUID :: string
  evSignature :: string
  evSubType :: string
  evType :: string
  evTimeStamp :: string
  evEnvironment :: string
  evTraceID :: string
  evDetails :: EventDetails
  evContainer :: "ContainerContext option"
  evNetwork :: "NetworkContext option"
  evRateLimit :: "RateLimitContext option"
  evAudit :: "AuditContext option"

definition details_Validate :: "EventDetails \<Rightarrow> gerr option" where
  "details_Validate d =
     (if edResult d = ''failure'' \<and> edFailureReason d = [] then Some (Plain ''cornerstone: result=failure requires failure.reason'')
      else if edSeverity d < 0 \<or> 7 < edSeverity d then Some (Plain ''cornerstone: severity must be 0..7 (RFC 5424)'')
      else if edSummary d = [] then Some (Plain ''cornerstone: summary is required'')
      else None)"

definition omit_str :: "string \<Rightarrow> string \<Rightarrow> (string \<times> json) list" where
  "omit_str k v = omit (v = []) k (JStr v)"

definition json_container :: "ContainerContext \<Rightarrow> json" where
  "json_container c =
     JObj (omit_str ''container.id'' (ccID c) @ omit_str ''container.name'' (ccName c) @
       omit_str ''container.image.digest'' (ccImageDigest c) @ omit_str ''container.runtime'' (ccRuntime c) @
       (case ccExitCode c of None \<Rightarrow> [] | Some n \<Rightarrow> [(''container.exit.code'', json_int n)]))"

definition json_network :: "NetworkContext \<Rightarrow> json" where
  "json_network n = JObj (omit_str ''network.name'' (ncName n) @ omit_str ''network.driver'' (ncDriver n))"

definition json_rate_limit :: "RateLimitContext \<Rightarrow> json" where
  "json_rate_limit r =
     JObj ([(''rate.limit.remaining'', json_int (rcRemaining r)), (''rate.limit.limit'', json_int (rcLimit r))] @
       omit_str ''rate.limit.reset'' (rcResetISO r))"

definition json_audit :: "AuditContext \<Rightarrow> json" where
  "json_audit a =
     JObj (omit_str ''audit.action'' (acAction a) @ omit_str ''audit.resource.type'' (acResourceType a) @
       omit_str ''audit.resource.id'' (acResourceID a))"

definition json_details :: "EventDetails \<Rightarrow> json" where
  "json_details d =
     JObj (omit_str ''event.code'' (edEventCode d) @ [(''summary'', JStr (edSummary d))] @ omit_str ''message'' (edMessage d) @
       [(''severity'', json_int (edSeverity d)), (''result'', JStr (edResult d))] @ omit_str ''failure.reason'' (edFailureReason d) @
       omit (edErrorData d = []) ''error.data'' (JObj (sort_key fst (edErrorData d))) @ omit_str ''status'' (edStatus d) @
       omit (edDuration d = 0) ''duration'' (json_int (edDuration d)) @ omit (edTags d = []) ''tags'' (json_strs (edTags d)))"

definition opt_member :: "string \<Rightarrow> ('a \<Rightarrow> json) \<Rightarrow> 'a option \<Rightarrow> (string \<times> json) list" where
  "opt_member k f v = (case v of None \<Rightarrow> [] | Some x \<Rightarrow> [(k, f x)])"

definition json_event :: "Event \<Rightarrow> json" where
  "json_event ev =
     JObj ([(''event.uuid'', JStr (evUUID ev))] @ omit_str ''event.definition.uuid'' (evDefinitionUUID ev) @
       [(''event.signature'', JStr (evSignature ev))] @ omit_str ''event.sub.type'' (evSubType ev) @
       [(''event.type'', JStr (evType ev)), (''time.stamp'', JStr (evTimeStamp ev))] @
       omit_str ''deployment.environment'' (evEnvironment ev) @ omit_str ''trace.id'' (evTraceID ev) @
       [(''event.details'', json_details (evDetails ev))] @ opt_member ''container.context'' json_container (evContainer ev) @
       opt_member ''network.context'' json_network (evNetwork ev) @ opt_member ''rate.limit.context'' json_rate_limit (evRateLimit ev) @
       opt_member ''audit.context'' json_audit (evAudit ev))"

section \<open>Registry\<close>

definition ProjectSignature :: string where
  "ProjectSignature = ''runsecure-orchestrator-v1''"

definition event_name :: "string \<Rightarrow> string" where
  "event_name name = ''runsecure.orchestrator.'' @ name"

definition eventDefinitions :: "(string \<times> string) list" where
  "eventDefinitions =
     map (\<lambda>(name, uuid). (event_name name, uuid))
      [(''auth.degraded'', ''6f2a4b18-9c1d-4e3f-8a2b-1c5d7e9f0a1f''), (''breaker.closed'', ''6f2a4b18-9c1d-4e3f-8a2b-1c5d7e9f0a1b''),
       (''breaker.opened'', ''6f2a4b18-9c1d-4e3f-8a2b-1c5d7e9f0a1a''), (''config.invalid'', ''6f2a4b18-9c1d-4e3f-8a2b-1c5d7e9f0a21''),
       (''config.reloaded'', ''6f2a4b18-9c1d-4e3f-8a2b-1c5d7e9f0a20''), (''drift.reconciled'', ''6f2a4b18-9c1d-4e3f-8a2b-1c5d7e9f0a1e''),
       (''health.probe'', ''6f2a4b18-9c1d-4e3f-8a2b-1c5d7e9f0a22''), (''job.assigned'', ''2c0f457f-c0bc-461e-83d4-51e471e74a70''),
       (''poll.queued_jobs_observed'', ''6f2a4b18-9c1d-4e3f-8a2b-1c5d7e9f0a12''), (''poll.tick'', ''6f2a4b18-9c1d-4e3f-8a2b-1c5d7e9f0a11''),
       (''process.failed'', ''ad794f8c-bccf-4029-a81e-dead04a2ab3c''), (''process.message'', ''bb6fad91-e9d5-469d-a310-45deb7d78e80''),
       (''process.started'', ''31e356a8-ac36-45c4-802f-7a8228627475''), (''process.stopping'', ''4b57e441-ddad-43c9-b4fe-f18f212562ea''),
       (''ratelimit.paused'', ''6f2a4b18-9c1d-4e3f-8a2b-1c5d7e9f0a1c''), (''ratelimit.resumed'', ''6f2a4b18-9c1d-4e3f-8a2b-1c5d7e9f0a1d''),
       (''runner.completed'', ''298c8cdc-02cb-4b40-ab6c-c4ad65857525''), (''runner.exited_unassigned'', ''20578baf-f72a-4412-adc1-c5a1ce936751''),
       (''runner.leak_cleaned'', ''6f2a4b18-9c1d-4e3f-8a2b-1c5d7e9f0a19''), (''runner.online'', ''d1edd05b-1ce9-439c-9af2-31f60e5aad43''),
       (''spawn.completed'', ''6f2a4b18-9c1d-4e3f-8a2b-1c5d7e9f0a16''), (''spawn.failed'', ''6f2a4b18-9c1d-4e3f-8a2b-1c5d7e9f0a17''),
       (''spawn.jit_acquired'', ''6f2a4b18-9c1d-4e3f-8a2b-1c5d7e9f0a14''), (''spawn.runner_created'', ''6f2a4b18-9c1d-4e3f-8a2b-1c5d7e9f0a15''),
       (''spawn.started'', ''6f2a4b18-9c1d-4e3f-8a2b-1c5d7e9f0a13''), (''spawn.timeout_forced_teardown'', ''6f2a4b18-9c1d-4e3f-8a2b-1c5d7e9f0a18''),
       (''telemetry.failed'', ''e3d8ecc5-c08d-4da2-81e9-ab5c9c839746'')]"

section \<open>The emitter\<close>

text \<open>\<open>emBackend\<close> is the validated backend of the spawns.\<close>

record Emitter = EventSinks +
  emBackend :: string

definition zero_details :: EventDetails where
  "zero_details =
     \<lparr>edEventCode = [], edSummary = [], edMessage = [], edSeverity = 0, edResult = [], edFailureReason = [], edErrorData = [],
      edStatus = [], edDuration = 0, edTags = []\<rparr>"

definition zero_event :: Event where
  "zero_event =
     \<lparr>evUUID = [], evDefinitionUUID = [], evSignature = [], evSubType = [], evType = [], evTimeStamp = [], evEnvironment = [],
      evTraceID = [], evDetails = zero_details, evContainer = None, evNetwork = None, evRateLimit = None, evAudit = None\<rparr>"

definition failure_event :: "string \<Rightarrow> string \<Rightarrow> string \<Rightarrow> Event" where
  "failure_event uid now reason =
     zero_event\<lparr>evUUID := uid, evDefinitionUUID := lookup_or [] eventDefinitions (event_name ''telemetry.failed''),
       evSignature := ProjectSignature, evSubType := event_name ''telemetry.failed'', evType := ''Activity'', evTimeStamp := now,
       evDetails := zero_details\<lparr>edSummary := ''Cornerstone event could not be emitted'', edSeverity := 3, edResult := ''failure'',
         edFailureReason := reason\<rparr>\<rparr>"

definition reportFailure :: "'r UrlLib \<Rightarrow> EmEnv \<Rightarrow> string \<Rightarrow> Emitter \<Rightarrow> Emitter" where
  "reportFailure U c reason s =
     (if \<not> emDiagnostics s then s
      else let ev = failure_event (eeUUID c (emCalls s)) (eeClock c (emCalls (em_tick s))) reason; s1 = em_tick (em_tick s) in
        case Marshal U (json_event ev) (emIdentity s) of Inl _ \<Rightarrow> s1 | Inr encoded \<Rightarrow> diag_write c encoded s1)"

text \<open>The envelope: identifier, signature and time, where the caller left them empty.\<close>

definition envelope :: "EmEnv \<Rightarrow> Event \<Rightarrow> Emitter \<Rightarrow> Event \<times> Emitter" where
  "envelope c ev s =
     (let (ev1, s1) = (if evUUID ev = [] then (ev\<lparr>evUUID := eeUUID c (emCalls s)\<rparr>, em_tick s) else (ev, s));
          ev2 = (if evSignature ev1 = [] then ev1\<lparr>evSignature := ProjectSignature\<rparr> else ev1)
      in if evTimeStamp ev2 = [] then (ev2\<lparr>evTimeStamp := eeClock c (emCalls s1)\<rparr>, em_tick s1) else (ev2, s1))"

definition kube_event :: "Event \<Rightarrow> Event" where
  "kube_event ev =
     (case evContainer ev of
        None \<Rightarrow> ev
      | Some ctx \<Rightarrow>
          ev\<lparr>evContainer := Some (ctx\<lparr>ccRuntime := []\<rparr>), evNetwork := None,
             evDetails := (evDetails ev)\<lparr>edErrorData := AList.update ''backend'' (JStr ''kube'') (edErrorData (evDetails ev))\<rparr>\<rparr>)"

text \<open>The event that is written, or the error: registered, of the right definition, and valid.\<close>

definition checked_event :: "string \<Rightarrow> Event \<Rightarrow> gerr + Event" where
  "checked_event backend ev =
     (case map_of eventDefinitions (evSubType ev) of
        None \<Rightarrow> Inl (Plain ''cornerstone: unregistered or mismatched event definition'')
      | Some definition_uuid \<Rightarrow>
          if evDefinitionUUID ev \<noteq> [] \<and> evDefinitionUUID ev \<noteq> definition_uuid
          then Inl (Plain ''cornerstone: unregistered or mismatched event definition'')
          else let ev1 = ev\<lparr>evDefinitionUUID := definition_uuid\<rparr>; ev2 = (if backend = ''kube'' then kube_event ev1 else ev1) in
            (case details_Validate (evDetails ev2) of Some e \<Rightarrow> Inl e | None \<Rightarrow> Inr ev2))"

definition Emit :: "'r UrlLib \<Rightarrow> EmEnv \<Rightarrow> Event \<Rightarrow> Emitter \<Rightarrow> gerr option \<times> Emitter" where
  "Emit U c ev s =
     (let (ev1, s1) = envelope c ev s in
      case checked_event (emBackend s) ev1 of
        Inl e \<Rightarrow> (Some e, reportFailure U c ''validation_failed'' s1)
      | Inr ev2 \<Rightarrow>
          (case Marshal U (json_event ev2) (emIdentity s1) of
             Inl e \<Rightarrow> (Some (Wrap ''cornerstone: marshal: '' e []), reportFailure U c ''marshal_failed'' s1)
           | Inr b \<Rightarrow>
               (case sink_write c b s1 of
                  (Some e, s2) \<Rightarrow> (Some (Wrap ''cornerstone: write: '' e []), reportFailure U c ''write_failed'' s2)
                | (None, s2) \<Rightarrow> (None, s2))))"

definition SetBackend :: "string \<Rightarrow> Emitter \<Rightarrow> Emitter" where
  "SetBackend backend s = s\<lparr>emBackend := backend\<rparr>"

section \<open>Typed events\<close>

definition scopeRepoTags :: "string \<Rightarrow> string \<Rightarrow> string list" where
  "scopeRepoTags scope repo = [''scope:'' @ scope, ''repo:'' @ repo]"

definition named_event :: "string \<Rightarrow> string \<Rightarrow> EventDetails \<Rightarrow> Event" where
  "named_event name kind d = zero_event\<lparr>evSubType := event_name name, evType := kind, evDetails := d\<rparr>"

definition details :: "string \<Rightarrow> int \<Rightarrow> string \<Rightarrow> EventDetails" where
  "details summary severity result = zero_details\<lparr>edSummary := summary, edSeverity := severity, edResult := result\<rparr>"

definition docker_context :: "string \<Rightarrow> ContainerContext" where
  "docker_context name = \<lparr>ccID = [], ccName = name, ccImageDigest = [], ccRuntime = ''docker'', ccExitCode = None\<rparr>"

definition spawn_event :: "string \<Rightarrow> string \<Rightarrow> EventDetails \<Rightarrow> Event" where
  "spawn_event name spawnID d = (named_event name ''Change'' d)\<lparr>evTraceID := ''spawn-'' @ spawnID\<rparr>"

definition SpawnStarted :: "string \<Rightarrow> string \<Rightarrow> string \<Rightarrow> string \<Rightarrow> string \<Rightarrow> Event" where
  "SpawnStarted scope repo spawnID containerName imageDigest =
     (spawn_event ''spawn.started'' spawnID
       ((details ''spawn intent acquired semaphores'' 6 ''success'')\<lparr>edStatus := ''Started'', edTags := scopeRepoTags scope repo\<rparr>))
     \<lparr>evContainer := Some ((docker_context containerName)\<lparr>ccImageDigest := imageDigest\<rparr>)\<rparr>"

definition SpawnJITAcquired :: "string \<Rightarrow> string \<Rightarrow> string \<Rightarrow> string \<Rightarrow> int \<Rightarrow> Event" where
  "SpawnJITAcquired scope repo spawnID containerName runnerID =
     (spawn_event ''spawn.jit_acquired'' spawnID
       ((details (''JIT config acquired (runner id '' @ show_int runnerID @ '')'') 6 ''success'')
          \<lparr>edStatus := ''In Progress'', edTags := scopeRepoTags scope repo\<rparr>))
     \<lparr>evContainer := Some (docker_context containerName)\<rparr>"

definition SpawnRunnerCreated :: "string \<Rightarrow> string \<Rightarrow> string \<Rightarrow> string \<Rightarrow> string \<Rightarrow> string \<Rightarrow> Event" where
  "SpawnRunnerCreated scope repo spawnID containerName imageDigest networkName =
     (spawn_event ''spawn.runner_created'' spawnID
       ((details ''spawn stack created on isolated network'' 6 ''success'')\<lparr>edStatus := ''In Progress'', edTags := scopeRepoTags scope repo\<rparr>))
     \<lparr>evContainer := Some ((docker_context containerName)\<lparr>ccImageDigest := imageDigest\<rparr>),
      evNetwork := Some \<lparr>ncName = networkName, ncDriver = ''bridge''\<rparr>\<rparr>"

definition SpawnCompleted :: "string \<Rightarrow> string \<Rightarrow> string \<Rightarrow> string \<Rightarrow> string \<Rightarrow> string \<Rightarrow> int \<Rightarrow> int \<Rightarrow> Event" where
  "SpawnCompleted scope repo spawnID containerID containerName imageDigest exitCode durationMillis =
     (spawn_event ''spawn.completed'' spawnID
       ((details ''ephemeral runner completed job'' 6 ''success'')
          \<lparr>edStatus := ''Completed'', edDuration := durationMillis, edTags := scopeRepoTags scope repo\<rparr>))
     \<lparr>evContainer := Some ((docker_context containerName)\<lparr>ccID := containerID, ccImageDigest := imageDigest, ccExitCode := Some exitCode\<rparr>)\<rparr>"

definition SpawnFailed :: "string \<Rightarrow> string \<Rightarrow> string \<Rightarrow> string \<Rightarrow> string \<Rightarrow> string \<Rightarrow> (string, json) gomap \<Rightarrow> Event" where
  "SpawnFailed scope repo spawnID containerName failureReason detail extra =
     (spawn_event ''spawn.failed'' spawnID
       ((details ''spawn failed'' 3 ''failure'')
          \<lparr>edFailureReason := failureReason,
           edErrorData := fold (\<lambda>(k, v). AList.update k v) extra (if detail \<noteq> [] then [(''detail'', JStr detail)] else []),
           edStatus := ''Failed'', edTags := scopeRepoTags scope repo\<rparr>))
     \<lparr>evContainer := Some (docker_context containerName)\<rparr>"

definition SpawnTimeoutForcedTeardown :: "string \<Rightarrow> string \<Rightarrow> string \<Rightarrow> string \<Rightarrow> int \<Rightarrow> int \<Rightarrow> Event" where
  "SpawnTimeoutForcedTeardown scope repo spawnID containerName configured elapsed =
     (spawn_event ''spawn.timeout_forced_teardown'' spawnID
       ((details ''spawn force-torn-down after wall-clock timeout'' 4 ''failure'')
          \<lparr>edFailureReason := ''wall_clock_timeout'',
           edErrorData := [(''configured_timeout_seconds'', json_int configured), (''elapsed_seconds'', json_int elapsed)],
           edStatus := ''Failed'', edTags := scopeRepoTags scope repo\<rparr>))
     \<lparr>evContainer := Some (docker_context containerName)\<rparr>"

definition RunnerLeakCleaned :: "string \<Rightarrow> string \<Rightarrow> string \<Rightarrow> int \<Rightarrow> Event" where
  "RunnerLeakCleaned scope repo spawnID runnerID =
     (spawn_event ''runner.leak_cleaned'' spawnID
       ((details ''cleaned up orphan GitHub runner registration'' 5 ''success'')\<lparr>edTags := scopeRepoTags scope repo\<rparr>))
     \<lparr>evAudit := Some \<lparr>acAction = ''github_runner_delete'', acResourceType = ''github_runner'', acResourceID = show_int runnerID\<rparr>\<rparr>"

definition runnerLifecycleEvent :: "string \<Rightarrow> string \<Rightarrow> string \<Rightarrow> string \<Rightarrow> string \<Rightarrow> int \<Rightarrow> string \<Rightarrow> string \<Rightarrow> Event" where
  "runnerLifecycleEvent name scope repo spawnID containerName runnerID summary status =
     (spawn_event name spawnID
       ((details summary 6 ''success'')
          \<lparr>edStatus := status, edErrorData := [(''github_runner_id'', json_int runnerID)], edTags := scopeRepoTags scope repo\<rparr>))
     \<lparr>evContainer := Some (docker_context containerName),
      evAudit := Some \<lparr>acAction = ''github_runner_observe'', acResourceType = ''github_runner'', acResourceID = show_int runnerID\<rparr>\<rparr>"

definition RunnerOnline :: "string \<Rightarrow> string \<Rightarrow> string \<Rightarrow> string \<Rightarrow> int \<Rightarrow> Event" where
  "RunnerOnline scope repo spawnID containerName runnerID =
     runnerLifecycleEvent ''runner.online'' scope repo spawnID containerName runnerID ''JIT runner registered online'' ''In Progress''"

definition JobAssigned :: "string \<Rightarrow> string \<Rightarrow> string \<Rightarrow> string \<Rightarrow> int \<Rightarrow> Event" where
  "JobAssigned scope repo spawnID containerName runnerID =
     runnerLifecycleEvent ''job.assigned'' scope repo spawnID containerName runnerID ''GitHub assigned a job to the JIT runner'' ''In Progress''"

definition with_exit_code :: "int \<Rightarrow> EventDetails \<Rightarrow> EventDetails" where
  "with_exit_code n d = d\<lparr>edErrorData := AList.update ''exit_code'' (json_int n) (edErrorData d)\<rparr>"

definition RunnerCompleted :: "string \<Rightarrow> string \<Rightarrow> string \<Rightarrow> string \<Rightarrow> int \<Rightarrow> int \<Rightarrow> int \<Rightarrow> Event" where
  "RunnerCompleted scope repo spawnID containerName runnerID exitCode durationMillis =
     (let ev = runnerLifecycleEvent ''runner.completed'' scope repo spawnID containerName runnerID ''assigned JIT runner completed'' ''Completed''
      in ev\<lparr>evDetails := with_exit_code exitCode ((evDetails ev)\<lparr>edDuration := durationMillis\<rparr>),
            evContainer := map_option (\<lambda>x. x\<lparr>ccExitCode := Some exitCode\<rparr>) (evContainer ev)\<rparr>)"

definition RunnerExitedUnassigned :: "string \<Rightarrow> string \<Rightarrow> string \<Rightarrow> string \<Rightarrow> int \<Rightarrow> int \<Rightarrow> Event" where
  "RunnerExitedUnassigned scope repo spawnID containerName runnerID exitCode =
     (let ev = runnerLifecycleEvent ''runner.exited_unassigned'' scope repo spawnID containerName runnerID
                 ''JIT runner exited without receiving a job'' ''Failed''
      in ev\<lparr>evDetails := with_exit_code exitCode
              ((evDetails ev)\<lparr>edSeverity := 3, edResult := ''failure'', edFailureReason := ''runner_exited_unassigned''\<rparr>),
            evContainer := map_option (\<lambda>x. x\<lparr>ccExitCode := Some exitCode\<rparr>) (evContainer ev)\<rparr>)"

definition BreakerOpened :: "string \<Rightarrow> string \<Rightarrow> int \<Rightarrow> Event" where
  "BreakerOpened scope repo failures =
     named_event ''breaker.opened'' ''Change''
       ((details ''circuit breaker opened'' 4 ''success'')
          \<lparr>edErrorData := [(''consecutive_failures'', json_int failures)], edTags := scopeRepoTags scope repo\<rparr>)"

definition BreakerClosed :: "string \<Rightarrow> string \<Rightarrow> Event" where
  "BreakerClosed scope repo =
     named_event ''breaker.closed'' ''Change'' ((details ''circuit breaker closed'' 6 ''success'')\<lparr>edTags := scopeRepoTags scope repo\<rparr>)"

definition RatelimitPaused :: "string \<Rightarrow> int \<Rightarrow> int \<Rightarrow> string \<Rightarrow> Event" where
  "RatelimitPaused scope remaining limit resetISO =
     (named_event ''ratelimit.paused'' ''Change''
       ((details ''API rate-limit exhausted; pausing scope'' 4 ''success'')\<lparr>edTags := [''scope:'' @ scope]\<rparr>))
     \<lparr>evRateLimit := Some \<lparr>rcRemaining = remaining, rcLimit = limit, rcResetISO = resetISO\<rparr>\<rparr>"

definition RatelimitResumed :: "string \<Rightarrow> int \<Rightarrow> int \<Rightarrow> string \<Rightarrow> Event" where
  "RatelimitResumed scope remaining limit resetISO =
     (named_event ''ratelimit.resumed'' ''Change''
       ((details ''rate-limit window cleared; resuming scope'' 6 ''success'')\<lparr>edTags := [''scope:'' @ scope]\<rparr>))
     \<lparr>evRateLimit := Some \<lparr>rcRemaining = remaining, rcLimit = limit, rcResetISO = resetISO\<rparr>\<rparr>"

definition PollTick :: "string \<Rightarrow> int \<Rightarrow> int \<Rightarrow> string \<Rightarrow> Event" where
  "PollTick scope remaining limit resetISO =
     (named_event ''poll.tick'' ''Activity'' ((details ''poll cycle tick'' 7 ''success'')\<lparr>edTags := [''scope:'' @ scope]\<rparr>))
     \<lparr>evRateLimit := Some \<lparr>rcRemaining = remaining, rcLimit = limit, rcResetISO = resetISO\<rparr>\<rparr>"

definition PollQueuedJobsObserved :: "string \<Rightarrow> string \<Rightarrow> int \<Rightarrow> Event" where
  "PollQueuedJobsObserved scope repo count =
     named_event ''poll.queued_jobs_observed'' ''Activity''
       ((details (show_int count @ '' queued jobs observed'') 6 ''success'')
          \<lparr>edErrorData := [(''queued_count'', json_int count)], edTags := scopeRepoTags scope repo\<rparr>)"

definition DriftReconciled :: "string \<Rightarrow> string \<Rightarrow> int \<Rightarrow> Event" where
  "DriftReconciled scope repo delta =
     (named_event ''drift.reconciled'' ''Change''
       ((details ''drift reconciled against docker state'' 5 ''success'')
          \<lparr>edErrorData := [(''delta'', json_int delta)], edTags := scopeRepoTags scope repo\<rparr>))
     \<lparr>evAudit := Some \<lparr>acAction = ''drift_reconcile'', acResourceType = ''in_flight_counter'', acResourceID = []\<rparr>\<rparr>"

definition AuthDegraded :: "string \<Rightarrow> string \<Rightarrow> int \<Rightarrow> Event" where
  "AuthDegraded scope repo status =
     named_event ''auth.degraded'' ''Activity''
       ((details ''PAT auth degraded'' 3 ''failure'')
          \<lparr>edFailureReason := ''github_auth_rejected'', edErrorData := [(''http_status'', json_int status)],
           edTags := (''scope:'' @ scope) # (if repo \<noteq> [] then [''repo:'' @ repo] else [])\<rparr>)"

definition ConfigReloaded :: "string \<Rightarrow> Event" where
  "ConfigReloaded scope =
     (named_event ''config.reloaded'' ''Change'' ((details ''PAT secret reloaded from disk'' 6 ''success'')\<lparr>edTags := [''scope:'' @ scope]\<rparr>))
     \<lparr>evAudit := Some \<lparr>acAction = ''pat_rotated'', acResourceType = ''credential'', acResourceID = []\<rparr>\<rparr>"

definition ConfigInvalid :: "string \<Rightarrow> string \<Rightarrow> string \<Rightarrow> Event" where
  "ConfigInvalid scope path failureReason =
     named_event ''config.invalid'' ''Activity''
       ((details ''config invalid'' 3 ''failure'')
          \<lparr>edFailureReason := failureReason, edErrorData := [(''path'', JStr path)], edTags := [''scope:'' @ scope]\<rparr>)"

definition HealthProbe :: Event where
  "HealthProbe = named_event ''health.probe'' ''Activity'' (details ''/healthz probe'' 7 ''success'')"

definition ProcessStarted :: "string \<Rightarrow> string \<Rightarrow> string \<Rightarrow> Event" where
  "ProcessStarted version revision backend =
     named_event ''process.started'' ''Activity''
       ((details ''controller initialization started'' 6 ''success'')
          \<lparr>edStatus := ''Started'', edErrorData := [(''version'', JStr version), (''revision'', JStr revision), (''backend'', JStr backend)]\<rparr>)"

definition ProcessStopping :: "string \<Rightarrow> Event" where
  "ProcessStopping reason =
     named_event ''process.stopping'' ''Activity''
       ((details ''controller draining admitted work'' 5 ''success'')\<lparr>edStatus := ''In Progress'', edErrorData := [(''reason'', JStr reason)]\<rparr>)"

definition ProcessFailed :: "string \<Rightarrow> Event" where
  "ProcessFailed reason =
     named_event ''process.failed'' ''Activity''
       ((details ''controller process failed'' 3 ''failure'')\<lparr>edStatus := ''Failed'', edFailureReason := reason\<rparr>)"

definition ProcessMessage :: "string \<Rightarrow> Event" where
  "ProcessMessage message =
     named_event ''process.message'' ''Activity'' ((details ''controller operational diagnostic'' 4 ''success'')\<lparr>edMessage := message\<rparr>)"

text \<open>The writer that the HTTP server logs to: the text is dropped.\<close>

definition emitter_Write :: "'r UrlLib \<Rightarrow> EmEnv \<Rightarrow> string \<Rightarrow> Emitter \<Rightarrow> (int \<times> gerr option) \<times> Emitter" where
  "emitter_Write U c p s =
     (case Emit U c (ProcessMessage ''HTTP server diagnostic'') s of
        (Some e, s1) \<Rightarrow> ((0, Some e), s1)
      | (None, s1) \<Rightarrow> ((int (length p), None), s1))"

end
