(* ===== verification/Telemetry_Thms.thy ===== *)
theory Telemetry_Thms
  imports Telemetry_Model
begin

text \<open>
  What redaction guarantees: no GitHub token survives in a string, whatever surrounds it and
  whatever the later expressions rewrite, and no value survives under a sensitive key.
\<close>

section \<open>Tokens\<close>

text \<open>\<open>token_start\<close>: a GitHub token begins here. Tokens are made of word characters only, so whether
  one begins depends on the leading word alone.\<close>

definition token_prefixes :: "string list" where
  "token_prefixes = [''github_pat_'', ''ghp_'', ''gho_'', ''ghu_'', ''ghs_'', ''ghr_'']"

definition token_start :: "string \<Rightarrow> bool" where
  "token_start u = (\<exists>p\<in>set token_prefixes. \<exists>c r. u = p @ c # r \<and> word_char c)"

definition token_free :: "string \<Rightarrow> bool" where
  "token_free s = (\<forall>u. suffix u s \<longrightarrow> \<not> token_start u)"

abbreviation word_of :: "string \<Rightarrow> string" where
  "word_of s \<equiv> takeWhile word_char s"

lemma prefix_words: "\<forall>p\<in>set token_prefixes. list_all word_char p"
  by code_simp

lemma prefix_starts: "\<forall>p\<in>set token_prefixes. hd p = CHR ''g'' \<and> p \<noteq> []"
  by (simp add: token_prefixes_def)

lemma token_start_word: "token_start u \<longleftrightarrow> token_start (word_of u)"
proof
  assume "token_start u"
  then obtain p c r where u: "p \<in> set token_prefixes" "u = p @ c # r" "word_char c" by (auto simp: token_start_def)
  then have "word_of u = p @ c # word_of r" using prefix_words by (simp add: list_all_iff takeWhile_append2)
  then show "token_start (word_of u)" using u(1,3) by (auto simp: token_start_def)
next
  assume "token_start (word_of u)"
  then obtain p c r where u: "p \<in> set token_prefixes" "word_of u = p @ c # r" "word_char c" by (auto simp: token_start_def)
  then have "u = p @ c # r @ dropWhile word_char u" using takeWhile_dropWhile_id [of word_char u] by simp
  then show "token_start u" using u(1,3) by (auto simp: token_start_def)
qed

lemma token_start_append: "token_start u \<Longrightarrow> token_start (u @ v)"
  unfolding token_start_def by fastforce

lemma token_start_prefix: "token_start u \<Longrightarrow> prefix (word_of u) (word_of v) \<Longrightarrow> token_start v"
  using token_start_append token_start_word by (metis prefixE)

lemma token_start_Nil [simp]: "\<not> token_start []"
  by (auto simp: token_start_def)

lemma token_start_head: "token_start (c # s) \<Longrightarrow> c = CHR ''g''"
  using prefix_starts by (auto simp: token_start_def) (metis append_is_Nil_conv hd_append2 list.sel(1))

lemma token_free_Nil [simp]: "token_free []"
  by (simp add: token_free_def)

lemma token_free_Cons: "token_free (c # s) \<longleftrightarrow> \<not> token_start (c # s) \<and> token_free s"
  by (auto simp: token_free_def suffix_Cons)

lemma token_free_suffix: "token_free s \<Longrightarrow> suffix u s \<Longrightarrow> token_free u"
  by (meson suffix_order.trans token_free_def)

lemma token_free_prefix: "token_free (u @ v) \<Longrightarrow> token_free u"
proof (induction u)
  case (Cons c u)
  then show ?case using token_start_append [of "c # u" v] by (auto simp: token_free_Cons)
qed simp

lemma token_free_no_g: "CHR ''g'' \<notin> set s \<Longrightarrow> token_free s"
proof (induction s)
  case (Cons c s)
  then show ?case using token_start_head [of c s] by (auto simp: token_free_Cons)
qed simp

lemma token_free_append:
  assumes "token_free (u @ t)" and "token_free v" and "prefix (word_of v) (word_of t)"
  shows "token_free (u @ v)"
  using assms(1)
proof (induction u)
  case (Cons c u)
  have "prefix (word_of ((c # u) @ v)) (word_of ((c # u) @ t))"
    using assms(3) by (auto simp: takeWhile_append)
  then show ?case using Cons token_start_prefix by (auto simp: token_free_Cons simp del: takeWhile.simps)
qed (use assms in simp)

lemma sealed_join: "b \<noteq> [] \<Longrightarrow> (word_char (last b) \<Longrightarrow> word_of v = []) \<Longrightarrow> token_free b \<Longrightarrow> token_free v \<Longrightarrow> token_free (b @ v)"
proof (induction b)
  case (Cons c b)
  show ?case
  proof (cases b)
    case Nil
    have "word_of (c # v) = word_of [c]" using Cons.prems(2) Nil by auto
    then have "\<not> token_start (c # v)" using Cons.prems(3) Nil token_start_word token_free_Cons by metis
    then show ?thesis using Cons.prems(4) Nil by (simp add: token_free_Cons)
  next
    case (Cons d b')
    have "word_of ((c # b) @ v) = word_of (c # b)" using Cons.prems(2) Cons
      by (cases "\<forall>x\<in>set (c # b). word_char x") (auto simp: takeWhile_append takeWhile_eq_all_conv [THEN iffD2])
    then show ?thesis using Cons.IH Cons.prems Cons token_start_word token_free_Cons by (metis append_Cons last_ConsR list.distinct(1))
  qed
qed simp

section \<open>Matches\<close>

lemma rune_at_split: "rune_at s = (r, t) \<Longrightarrow> s = r @ t"
  by (auto simp: rune_at_def Let_def)

lemma rx_run_suffix: "y \<in> set (rx_run n r x) \<Longrightarrow> suffix (snd y) (snd x)"
proof (induction n r x arbitrary: y rule: rx_run.induct)
  case (2 n p w s)
  then show ?case by (auto split: if_splits prod.splits dest!: rune_at_split [OF sym] simp: suffix_def)
next
  case (3 n a b x)
  then obtain z where "z \<in> set (rx_run n a x)" "y \<in> set (rx_run n b z)" by auto
  then show ?case using 3(1,2) suffix_order.trans by blast
next
  case (6 n a x)
  then consider z where "z \<in> set (rx_run n a x)" "y \<in> set (rx_run n (RxStar a) z)" | "y = x" by auto
  then show ?case using 6(1,2) suffix_order.trans by cases blast+
next
  case (8 n a x)
  then consider z where "z \<in> set (rx_run n a x)" "y \<in> set (rx_run n (RxLazy a) z)" | "y = x" by auto
  then show ?case using 8(1,2) suffix_order.trans by cases blast+
qed (auto split: if_splits)

lemma rx_run_first_seq: "rx_run n (RxSeq a b) x = y # ys \<Longrightarrow> \<exists>z zs. z \<in> set (rx_run n a x) \<and> rx_run n b z = y # zs"
proof -
  have "concat (map f xs) = y # ys \<Longrightarrow> \<exists>z zs. z \<in> set xs \<and> f z = y # zs" for f :: "position \<Rightarrow> position list" and xs
  proof (induction xs)
    case (Cons z xs)
    then show ?case by (cases "f z") fastforce+
  qed simp
  then show "rx_run n (RxSeq a b) x = y # ys \<Longrightarrow> \<exists>z zs. z \<in> set (rx_run n a x) \<and> rx_run n b z = y # zs"
    by simp
qed

lemma rx_star_ne: "rx_run n (RxStar a) x \<noteq> []"
  by (cases n) simp_all

text \<open>A starred rune goes as far as it can.\<close>

lemma rx_star_greedy:
  "rx_run n (RxStar (RxRune p)) (w, s) = (v, t) # ys \<Longrightarrow> length s \<le> n \<Longrightarrow> t = [] \<or> \<not> p (fst (rune_at t))"
proof (induction n arbitrary: w s ys)
  case (Suc n)
  obtain r u where ru: "rune_at s = (r, u)" by fastforce
  show ?case
  proof (cases "s \<noteq> [] \<and> p r")
    case True
    then have "rx_run n (RxStar (RxRune p)) (word_rune r, u) @ [(w, s)] = (v, t) # ys" using Suc.prems(1) ru by simp
    then obtain zs where "rx_run n (RxStar (RxRune p)) (word_rune r, u) = (v, t) # zs"
      using rx_star_ne [of n "RxRune p" "(word_rune r, u)"] by (cases "rx_run n (RxStar (RxRune p)) (word_rune r, u)") auto
    then show ?thesis using Suc rune_at_shorter [OF ru] True by auto
  next
    case False
    then show ?thesis using Suc.prems(1) ru by (auto split: if_splits)
  qed
qed simp

section \<open>Replacements\<close>

text \<open>A replacement that keeps a part of the match and puts a block after it that cannot join with
  a word on either side.\<close>

definition sealed :: "replacer \<Rightarrow> bool" where
  "sealed m =
     (\<forall>x out y. m x = Some (out, y) \<longrightarrow>
        (\<exists>p b q. out = p @ b \<and> snd x = p @ q @ snd y \<and> b \<noteq> [] \<and> \<not> word_char (hd b) \<and>
           (\<not> word_char (last b) \<or> word_of (snd y) = []) \<and> (token_free (snd x) \<longrightarrow> token_free b)))"

lemma sealedD:
  "sealed m \<Longrightarrow> m x = Some (out, y) \<Longrightarrow>
     \<exists>p b q. out = p @ b \<and> snd x = p @ q @ snd y \<and> b \<noteq> [] \<and> \<not> word_char (hd b) \<and>
       (\<not> word_char (last b) \<or> word_of (snd y) = []) \<and> (token_free (snd x) \<longrightarrow> token_free b)"
  unfolding sealed_def by blast

lemma word_of_append: "prefix (word_of v) (word_of t) \<Longrightarrow> prefix (word_of (u @ v)) (word_of (u @ t))"
  by (induction u) auto

lemma word_of_block: "b \<noteq> [] \<Longrightarrow> \<not> word_char (hd b) \<Longrightarrow> prefix (word_of (p @ b @ v)) (word_of (p @ t))"
  by (induction p) (auto simp: neq_Nil_conv)

lemma replace_all_Nil [simp]: "replace_all m (w, []) = []"
  by (subst replace_all.simps) simp

lemma replace_all_cases:
  assumes "s \<noteq> []"
  obtains (match) out v t where "m (w, s) = Some (out, (v, t))" and "length t < length s"
      and "replace_all m (w, s) = out @ replace_all m (v, t)"
  | (skip) c t where "rune_at s = (c, t)" and "\<And>out v u. m (w, s) = Some (out, (v, u)) \<Longrightarrow> \<not> length u < length s"
      and "replace_all m (w, s) = c @ replace_all m (word_rune c, t)"
proof -
  obtain c u where cu: "rune_at s = (c, u)" by fastforce
  show ?thesis
  proof (cases "\<exists>out v t. m (w, s) = Some (out, (v, t)) \<and> length t < length s")
    case True
    then obtain out v t where m: "m (w, s) = Some (out, (v, t))" "length t < length s" by blast
    then show ?thesis using assms match by (subst (asm) replace_all.simps) simp
  next
    case False
    then have "replace_all m (w, s) = c @ replace_all m (word_rune c, u)"
      using assms cu by (subst replace_all.simps) (auto split: option.splits)
    then show ?thesis using False cu skip by blast
  qed
qed

lemma replace_all_word: "sealed m \<Longrightarrow> prefix (word_of (replace_all m (w, s))) (word_of s)"
proof (induction s arbitrary: w rule: length_induct)
  case (1 s)
  show ?case
  proof (cases "s = []")
    case False
    show ?thesis
    proof (cases rule: replace_all_cases [OF False, of m w, case_names match skip])
      case (match out v t)
      obtain p b q where "out = p @ b" "s = p @ q @ t" "b \<noteq> []" "\<not> word_char (hd b)"
        using sealedD [OF 1(2) match(1)] by auto
      then show ?thesis using word_of_block [of b p _ "q @ t"] match(3) by simp
    next
      case (skip c t)
      then have "s = c @ t" "length t < length s" using rune_at_split rune_at_shorter False by blast+
      then show ?thesis using 1 word_of_append skip(3) by metis
    qed
  qed simp
qed

text \<open>Sealed replacements keep a token-free string token-free.\<close>

lemma replace_all_token_free: "sealed m \<Longrightarrow> token_free s \<Longrightarrow> token_free (replace_all m (w, s))"
proof (induction s arbitrary: w rule: length_induct)
  case (1 s)
  show ?case
  proof (cases "s = []")
    case False
    show ?thesis
    proof (cases rule: replace_all_cases [OF False, of m w, case_names match skip])
      case (match out v t)
      obtain p b q where b: "out = p @ b" "s = p @ q @ t" "b \<noteq> []" "\<not> word_char (hd b)"
        "\<not> word_char (last b) \<or> word_of t = []" "token_free b"
        using sealedD [OF 1(2) match(1)] 1(3) by auto
      let ?o = "replace_all m (v, t)"
      have rest: "token_free ?o" using 1 match(2) b(2) token_free_suffix [of s t] by (simp add: suffix_def)
      have "word_of ?o = []" if "word_char (last b)" using replace_all_word [OF 1(2), of v t] b(5) that by simp
      then have "token_free (b @ ?o)" using b(3,6) rest sealed_join by blast
      moreover have "prefix (word_of (b @ ?o)) (word_of (q @ t))" using word_of_block [OF b(3,4), of "[]"] by simp
      ultimately have "token_free (p @ b @ ?o)" using token_free_append 1(3) b(2) by blast
      then show ?thesis using match(3) b(1) by simp
    next
      case (skip c t)
      then have s: "s = c @ t" "length t < length s" using rune_at_split rune_at_shorter False by blast+
      then have "token_free (replace_all m (word_rune c, t))"
        using 1 token_free_suffix [of s t] by (simp add: suffix_def)
      then show ?thesis using token_free_append [OF _ _ replace_all_word [OF 1(2)]] 1(3) s skip(3) by metis
    qed
  qed simp
qed

section \<open>The seven expressions\<close>

lemma rx_first_run: "rx_first r x = Some y \<Longrightarrow> \<exists>ys. rx_run (length (snd x)) r x = y # ys"
  by (simp add: rx_first_def split: list.splits)

lemma rx_first_suffix: "rx_first r x = Some y \<Longrightarrow> suffix (snd y) (snd x)"
  using rx_first_run rx_run_suffix by (metis list.set_intros(1))

lemma sealed_block:
  assumes "b \<noteq> []" "\<not> word_char (hd b)" "\<not> word_char (last b)" "token_free b"
  shows "sealed (replace_with r b)"
  unfolding sealed_def
proof (intro allI impI)
  fix x out y
  assume "replace_with r b x = Some (out, y)"
  then have out: "out = b" and "suffix (snd y) (snd x)" by (auto simp: replace_with_def intro: rx_first_suffix)
  then obtain q where "snd x = q @ snd y" by (auto simp: suffix_def)
  then show "\<exists>p b' q. out = p @ b' \<and> snd x = p @ q @ snd y \<and> b' \<noteq> [] \<and> \<not> word_char (hd b') \<and>
      (\<not> word_char (last b') \<or> word_of (snd y) = []) \<and> (token_free (snd x) \<longrightarrow> token_free b')"
    using assms out by (intro exI [of _ "[]"] exI [of _ b] exI [of _ q]) simp
qed

lemma rune_at_ascii: "byte c < 128 \<Longrightarrow> rune_at (c # s) = ([c], s)"
  by (simp add: rune_at_def)

lemma rune_at_bytes: "rune_at s = (c, t) \<Longrightarrow> s \<noteq> [] \<Longrightarrow> (\<exists>x. c = [x]) \<or> CHR ''g'' \<notin> set c"
  using rune_len_bytes [of s] by (cases s; cases "rune_len s") (auto simp: rune_at_def list_all_iff byte_def)

lemma rx_run_seq_ne: "rx_run n (RxSeq a b) x \<noteq> [] \<longleftrightarrow> (\<exists>z\<in>set (rx_run n a x). rx_run n b z \<noteq> [])"
  by auto

lemma rx_seq_simps [simp]: "rx_seq [] = RxEps" "rx_seq (r # rs) = RxSeq r (rx_seq rs)"
  by (simp_all add: rx_seq_def)

lemma rx_lit_run: "list_all (\<lambda>c. byte c < 128) l \<Longrightarrow> \<exists>v. rx_run n (rx_lit l) (w, l @ s) = [(v, s)]"
proof (induction l arbitrary: w)
  case (Cons c l)
  then obtain v where "rx_run n (rx_lit l) (word_rune [c], l @ s) = [(v, s)]" by auto
  then show ?case using Cons.prems by (simp add: rx_lit_def rune_at_ascii)
qed (simp add: rx_lit_def)

lemma word_char_ascii: "word_char c \<Longrightarrow> byte c < 128"
  by (auto simp: word_char_def Let_def)

lemma github_prefix:
  assumes "p \<in> set token_prefixes"
  shows "\<exists>v. (v, s) \<in> set (rx_run n token_intro (w, p @ s))"
proof (cases "p = ''github_pat_''")
  case True
  then show ?thesis using rx_lit_run [of "''github_pat_''" n w s] by (auto simp: byte_def token_intro_def)
next
  case False
  then obtain k where k: "p = ''gh'' @ k # ''_''" "k \<in> set ''pousr''" using assms by (auto simp: token_prefixes_def)
  obtain v where v: "rx_run n (rx_lit ''gh'') (w, ''gh'' @ k # CHR ''_'' # s) = [(v, k # CHR ''_'' # s)]"
    using rx_lit_run [of "''gh''" n w] by (auto simp: byte_def)
  obtain u where u: "rx_run n (rx_lit ''_'') (word_rune [k], ''_'' @ s) = [(u, s)]"
    using rx_lit_run [of "''_''" n] by (auto simp: byte_def)
  have "byte k < 128" using k(2) by (auto simp: byte_def)
  then have "rx_run n (rx_char (\<lambda>c. c \<in> set ''pousr'')) (v, k # CHR ''_'' # s) = [(word_rune [k], CHR ''_'' # s)]"
    using k(2) by (simp add: rx_char_def rune_at_ascii del: set_simps)
  then have "rx_run n (rx_seq [rx_lit ''gh'', rx_char (\<lambda>c. c \<in> set ''pousr''), rx_lit ''_'']) (w, p @ s) = [(u, s)]"
    using v u k(1) by (simp del: set_simps)
  then have "(u, s) \<in> set (rx_run n token_intro (w, p @ s))" unfolding token_intro_def rx_run.simps(4) by simp
  then show ?thesis ..
qed

lemma rx_seq_single: "rx_run n (rx_seq [r]) x = rx_run n r x"
proof -
  have "rx_run n RxEps = (\<lambda>y. [y])" by (rule ext) simp
  then show ?thesis by simp
qed

lemma github_match:
  assumes "token_start s"
  shows "rx_run n githubToken (w, s) \<noteq> []"
proof -
  obtain p c r where s: "p \<in> set token_prefixes" "s = p @ c # r" "word_char c" using assms by (auto simp: token_start_def)
  obtain v where v: "(v, c # r) \<in> set (rx_run n token_intro (w, p @ c # r))"
    using github_prefix [OF s(1)] by blast
  have "rx_run n (rx_char word_char) (v, c # r) = [(word_rune [c], r)]"
    using s(3) word_char_ascii by (simp add: rx_char_def rune_at_ascii)
  then have "rx_run n (rx_plus (rx_char word_char)) (v, c # r) \<noteq> []" by (simp add: rx_plus_def rx_star_ne)
  then show ?thesis
    unfolding githubToken_def rx_seq_simps(2) [of token_intro] rx_run_seq_ne rx_seq_single s(2) using v by blast
qed

lemma plus_shorter: "y \<in> set (rx_run n (rx_plus (RxRune p)) x) \<Longrightarrow> length (snd y) < length (snd x)"
proof -
  assume "y \<in> set (rx_run n (rx_plus (RxRune p)) x)"
  then obtain z where z: "z \<in> set (rx_run n (RxRune p) x)" "y \<in> set (rx_run n (RxStar (RxRune p)) z)"
    by (auto simp: rx_plus_def)
  have "length (snd z) < length (snd x)" using z(1) rune_at_shorter [OF sym] by (cases x) (auto split: if_splits prod.splits)
  then show ?thesis using suffix_length_le [OF rx_run_suffix [OF z(2)]] by simp
qed

lemma github_shorter:
  assumes "y \<in> set (rx_run n githubToken x)"
  shows "length (snd y) < length (snd x)"
proof -
  obtain z where z: "z \<in> set (rx_run n token_intro x)" "y \<in> set (rx_run n (rx_plus (rx_char word_char)) z)"
    using assms unfolding githubToken_def rx_seq_simps(2) [of token_intro] rx_run.simps(3) rx_seq_single by auto
  show ?thesis
    using suffix_length_le [OF rx_run_suffix [OF z(1)]] plus_shorter [OF z(2) [unfolded rx_char_def]] by simp
qed

lemma token_free_runes: "CHR ''g'' \<notin> set c \<Longrightarrow> token_free v \<Longrightarrow> token_free (c @ v)"
  by (induction c) (auto simp: token_free_Cons dest: token_start_head)

lemma bracket [simp]: "\<not> word_char (CHR ''['')" "\<not> word_char (CHR '']'')" "\<not> word_char (CHR 0x22)" "\<not> word_char (CHR '':'')" "\<not> word_char (CHR ''/'')"
  by (simp_all add: word_char_def byte_def)

lemma github_removed: "token_free (replace_all (replace_with githubToken ''[REDACTED]'') (w, s))"
proof (induction s arbitrary: w rule: length_induct)
  case (1 s)
  let ?m = "replace_with githubToken ''[REDACTED]''"
  have sealed: "sealed ?m" by (intro sealed_block token_free_no_g) simp_all
  show ?case
  proof (cases "s = []")
    case False
    show ?thesis
    proof (cases rule: replace_all_cases [OF False, of ?m w, case_names match skip])
      case (match out v t)
      then have "out = ''[REDACTED]''" by (auto simp: replace_with_def)
      then show ?thesis using match 1 token_free_runes [of out] by simp
    next
      case (skip c t)
      note s = rune_at_split [OF skip(1)] and short = rune_at_shorter [OF skip(1) False]
      have "rx_first githubToken (w, s) = None"
        using skip(2) rx_first_run [of githubToken "(w, s)"] github_shorter [of _ "length s" "(w, s)"]
        by (cases "rx_first githubToken (w, s)") (fastforce simp: replace_with_def)+
      then have "\<not> token_start s" using github_match [of s "length s" w] by (auto simp: rx_first_def split: list.splits)
      moreover have "prefix (word_of (c @ replace_all ?m (word_rune c, t))) (word_of s)"
        using replace_all_word [OF sealed] word_of_append s by blast
      ultimately have "\<not> token_start (c @ replace_all ?m (word_rune c, t))" using token_start_prefix by blast
      moreover have "token_free (replace_all ?m (word_rune c, t))" using 1 short by blast
      ultimately show ?thesis using rune_at_bytes [OF skip(1) False] token_free_runes skip(3) token_free_Cons by auto
    qed
  qed simp
qed

text \<open>The rendering of a parsed URL without its user, query and fragment keeps the scheme, and brings
  no token that the URL did not contain.\<close>

definition url_faithful :: "'r UrlLib \<Rightarrow> bool" where
  "url_faithful U =
     (\<forall>scheme x u. scheme \<in> {''http'', ''https''} \<and> ulParse U (scheme @ ''://'' @ x) = Some u \<longrightarrow>
        (\<exists>b. ulString U (clear_url u) = scheme @ ''://'' @ b \<and> (token_free (scheme @ ''://'' @ x) \<longrightarrow> token_free b)))"

lemma rx_lit_split: "z \<in> set (rx_run n (rx_lit l) x) \<Longrightarrow> snd x = l @ snd z"
proof (induction l arbitrary: x)
  case (Cons c l)
  then obtain y where y: "y \<in> set (rx_run n (RxRune (\<lambda>r. r = [c])) x)" "z \<in> set (rx_run n (rx_lit l) y)"
    by (auto simp: rx_lit_def)
  have "snd x = c # snd y" using y(1) by (cases x) (auto split: if_splits prod.splits dest!: rune_at_split [OF sym])
  then show ?case using Cons.IH [OF y(2)] by simp
qed (simp add: rx_lit_def)

lemma httpURL_ends:
  assumes "rx_run n httpURL x = y # ys" and "length (snd x) \<le> n"
  shows "\<exists>scheme r. scheme \<in> {''http'', ''https''} \<and> snd x = scheme @ ''://'' @ r @ snd y \<and> word_of (snd y) = []"
proof -
  define p where "p = (\<lambda>r. case r of [c] \<Rightarrow> \<not> (space_char c \<or> c = CHR 0x22 \<or> c = CHR ''<'' \<or> c = CHR ''>'') | _ \<Rightarrow> True)"
  have url: "httpURL = RxSeq (rx_lit ''http'') (RxSeq (rx_opt (rx_lit ''s'')) (RxSeq (rx_lit ''://'') (rx_seq [RxSeq (RxRune p) (RxStar (RxRune p))])))"
    by (simp add: httpURL_def rx_plus_def rx_not_def p_def)
  obtain z1 zs1 where z1: "z1 \<in> set (rx_run n (rx_lit ''http'') x)"
    "rx_run n (RxSeq (rx_opt (rx_lit ''s'')) (RxSeq (rx_lit ''://'') (rx_seq [RxSeq (RxRune p) (RxStar (RxRune p))]))) z1 = y # zs1"
    using rx_run_first_seq [OF assms(1) [unfolded url]] by blast
  obtain z2 zs2 where z2: "z2 \<in> set (rx_run n (rx_opt (rx_lit ''s'')) z1)"
    "rx_run n (RxSeq (rx_lit ''://'') (rx_seq [RxSeq (RxRune p) (RxStar (RxRune p))])) z2 = y # zs2"
    using rx_run_first_seq [OF z1(2)] by blast
  obtain z3 zs3 where z3: "z3 \<in> set (rx_run n (rx_lit ''://'') z2)" "rx_run n (RxSeq (RxRune p) (RxStar (RxRune p))) z3 = y # zs3"
    using rx_run_first_seq [OF z2(2)] unfolding rx_seq_single by blast
  obtain z4 zs4 where z4: "z4 \<in> set (rx_run n (RxRune p) z3)" "rx_run n (RxStar (RxRune p)) z4 = y # zs4"
    using rx_run_first_seq [OF z3(2)] by blast
  have "z2 \<in> set (rx_run n (rx_lit ''s'') z1) \<or> z2 = z1" using z2(1) by (auto simp: rx_opt_def)
  then have opt: "snd z1 = snd z2 \<or> snd z1 = ''s'' @ snd z2" using rx_lit_split by blast
  have "\<exists>scheme. scheme \<in> {''http'', ''https''} \<and> snd x = scheme @ snd z2"
    using opt
  proof (elim disjE)
    assume "snd z1 = snd z2"
    then show ?thesis using rx_lit_split [OF z1(1)] by (intro exI [of _ "''http''"]) simp
  next
    assume "snd z1 = ''s'' @ snd z2"
    then show ?thesis using rx_lit_split [OF z1(1)] by (intro exI [of _ "''https''"]) simp
  qed
  then obtain scheme where scheme: "scheme \<in> {''http'', ''https''}" "snd x = scheme @ snd z2" by blast
  have "y \<in> set (rx_run n (RxSeq (RxRune p) (RxStar (RxRune p))) z3)" using z3(2) by simp
  then obtain r where r: "snd z3 = r @ snd y" using rx_run_suffix by (fastforce simp: suffix_def)
  have "length (snd z4) \<le> n"
    using suffix_length_le [OF rx_run_suffix [OF z1(1)]] suffix_length_le [OF rx_run_suffix [OF z2(1)]]
      suffix_length_le [OF rx_run_suffix [OF z3(1)]] suffix_length_le [OF rx_run_suffix [OF z4(1)]] assms(2) by linarith
  then have "snd y = [] \<or> \<not> p (fst (rune_at (snd y)))"
    using rx_star_greedy [of n p "fst z4" "snd z4" "fst y" "snd y" zs4] z4(2) by simp
  moreover have "\<not> word_char c" if "space_char c \<or> c = CHR 0x22 \<or> c = CHR ''<'' \<or> c = CHR ''>''" for c
    using that by (auto simp: space_char_def word_char_def byte_def)
  moreover obtain a t where at: "rune_at (snd y) = (a, t)" by fastforce
  ultimately have "word_of (snd y) = []"
    using rune_at_split [OF at] at by (auto simp: p_def split: list.splits)
  then show ?thesis using scheme rx_lit_split [OF z3(1)] r by auto
qed

lemma consumed_split: "suffix (snd y) (snd x) \<Longrightarrow> snd x = consumed x y @ snd y"
  by (auto simp: consumed_def suffix_def)

lemma consumed_prefix: "snd x = p @ snd y \<Longrightarrow> consumed x y = p"
  by (simp add: consumed_def)

lemma sealed_url:
  assumes "url_faithful U"
  shows "sealed (url_replacer U)"
  unfolding sealed_def
proof (intro allI impI)
  fix x out y
  assume "url_replacer U x = Some (out, y)"
  then have out: "out = redact_url U (consumed x y)" and "rx_first httpURL x = Some y" by (auto simp: url_replacer_def)
  then obtain ys where run: "rx_run (length (snd x)) httpURL x = y # ys" using rx_first_run by blast
  obtain scheme r where s: "scheme \<in> {''http'', ''https''}" "snd x = scheme @ ''://'' @ r @ snd y" "word_of (snd y) = []"
    using httpURL_ends [OF run] by auto
  have raw: "consumed x y = scheme @ ''://'' @ r" using consumed_prefix [of x "scheme @ ''://'' @ r" y] s(2) by simp
  show "\<exists>p b q. out = p @ b \<and> snd x = p @ q @ snd y \<and> b \<noteq> [] \<and> \<not> word_char (hd b) \<and>
      (\<not> word_char (last b) \<or> word_of (snd y) = []) \<and> (token_free (snd x) \<longrightarrow> token_free b)"
  proof (cases "ulParse U (consumed x y)")
    case None
    then have "out = [] @ ''[REDACTED URL]''" using out by (simp add: redact_url_def)
    moreover have "token_free ''[REDACTED URL]''" by (rule token_free_no_g) simp
    ultimately show ?thesis using s(2) by (intro exI [of _ "[]"] exI [of _ "''[REDACTED URL]''"] exI [of _ "scheme @ ''://'' @ r"]) simp
  next
    case (Some u)
    obtain b where b: "ulString U (clear_url u) = scheme @ ''://'' @ b" "token_free (scheme @ ''://'' @ r) \<Longrightarrow> token_free b"
      using assms Some raw s(1) unfolding url_faithful_def by metis
    have "token_free (''://'' @ b)" if "token_free (snd x)"
      using b(2) token_free_prefix [of "scheme @ ''://'' @ r" "snd y"] that s(2) by (intro token_free_runes) simp_all
    then show ?thesis
      using out b(1) Some s(2,3) by (intro exI [of _ scheme] exI [of _ "''://'' @ b"] exI [of _ "''://'' @ r"]) (simp add: redact_url_def)
  qed
qed

lemma sealed_inline: "sealed inlineSecret"
  unfolding sealed_def
proof (intro allI impI)
  fix x out y
  let ?b = "[CHR 0x22] @ ''[REDACTED]'' @ [CHR 0x22]"
  assume "inlineSecret x = Some (out, y)"
  then obtain z rest where ends: "concat (map (\<lambda>y. map (\<lambda>z. (y, z)) (rx_run (length (snd x)) inline_value y))
      (rx_run (length (snd x)) (RxSeq inline_name inline_sep) x)) = (z, y) # rest" and out: "out = consumed x z @ ?b"
    by (auto simp: inlineSecret_def Let_def simp del: rx_run.simps split: list.splits prod.splits)
  then have "(z, y) \<in> set (concat (map (\<lambda>y. map (\<lambda>z. (y, z)) (rx_run (length (snd x)) inline_value y))
      (rx_run (length (snd x)) (RxSeq inline_name inline_sep) x)))" by simp
  then have z: "z \<in> set (rx_run (length (snd x)) (RxSeq inline_name inline_sep) x)" "y \<in> set (rx_run (length (snd x)) inline_value z)"
    by (auto simp del: rx_run.simps)
  obtain q where "snd z = q @ snd y" using rx_run_suffix [OF z(2)] by (auto simp: suffix_def)
  moreover note consumed_split [OF rx_run_suffix [OF z(1)]]
  moreover have "token_free ?b" by (rule token_free_no_g) simp
  ultimately show "\<exists>p b q. out = p @ b \<and> snd x = p @ q @ snd y \<and> b \<noteq> [] \<and> \<not> word_char (hd b) \<and>
      (\<not> word_char (last b) \<or> word_of (snd y) = []) \<and> (token_free (snd x) \<longrightarrow> token_free b)"
    using out by (intro exI [of _ "consumed x z"] exI [of _ ?b] exI [of _ q]) simp
qed

lemma RedactString_token_free: "url_faithful U \<Longrightarrow> token_free (RedactString U s)"
  unfolding RedactString_def Let_def ReplaceAll_def
  by (intro replace_all_token_free sealed_inline sealed_url sealed_block token_free_no_g github_removed) simp_all

section \<open>Documents\<close>

fun strings_of :: "json \<Rightarrow> string list" where
  "strings_of (JStr s) = [s]"
| "strings_of (JArr vs) = concat (map strings_of vs)"
| "strings_of (JObj kvs) = concat (map (\<lambda>(k, v). strings_of v) kvs)"
| "strings_of v = []"

fun members_of :: "json \<Rightarrow> (string \<times> json) list" where
  "members_of (JArr vs) = concat (map members_of vs)"
| "members_of (JObj kvs) = kvs @ concat (map (\<lambda>(k, v). members_of v) kvs)"
| "members_of v = []"

lemma sanitize_strings: "url_faithful U \<Longrightarrow> s \<in> set (strings_of (sanitize U v d)) \<Longrightarrow> token_free s"
proof (induction U v d rule: sanitize.induct)
  case (1 U kvs d)
  have "token_free ''[REDACTED]''" "token_free ''[REDACTED DEPTH LIMIT]''" by (rule token_free_no_g; simp)+
  then show ?case using 1 by (fastforce split: if_splits)
next
  case (2 U vs d)
  have "token_free ''[REDACTED DEPTH LIMIT]''" by (rule token_free_no_g) simp
  then show ?case using 2 by (auto split: if_splits)
next
  case (3 U s' d)
  have "token_free ''[REDACTED DEPTH LIMIT]''" by (rule token_free_no_g) simp
  then show ?case using 3 RedactString_token_free by (auto split: if_splits)
qed (auto intro!: token_free_no_g split: if_splits)

lemma sanitize_members:
  "(k, x) \<in> set (members_of (sanitize U v d)) \<Longrightarrow> MatchString sensitiveKey k \<Longrightarrow> x = JStr ''[REDACTED]''"
proof (induction U v d rule: sanitize.induct)
  case (1 U kvs d)
  then show ?case by (fastforce split: if_splits)
qed (auto split: if_splits)

lemma set_fold_update: "set (fold (\<lambda>(k, v). AList.update k v) kvs m) \<subseteq> set kvs \<union> set m"
proof (induction kvs arbitrary: m)
  case (Cons kv kvs)
  have "set (AList.update k v m) \<subseteq> insert (k, v) (set m)" for k v by (induction m) auto
  then show ?case using Cons [of "AList.update (fst kv) (snd kv) m"] by (cases kv) auto
qed simp

lemma any_of_strings: "set (strings_of (any_of v)) \<subseteq> set (strings_of v)"
proof (induction v rule: any_of.induct)
  case (1 kvs)
  let ?m = "map (\<lambda>(k, v). (k, any_of v)) kvs"
  have "set (strings_of (any_of (JObj kvs))) \<subseteq> (\<Union>(k, v)\<in>set ?m. set (strings_of v))"
    using set_fold_update [of ?m "[]"] by auto
  also have "\<dots> \<subseteq> set (strings_of (JObj kvs))" using 1 by fastforce
  finally show ?case .
qed auto

lemma any_of_members: "(k, x) \<in> set (members_of (any_of v)) \<Longrightarrow> \<exists>y. (k, y) \<in> set (members_of v) \<and> x = any_of y"
proof (induction v arbitrary: k x rule: any_of.induct)
  case (1 kvs)
  let ?m = "map (\<lambda>(k, v). (k, any_of v)) kvs"
  let ?f = "fold (\<lambda>(k, v). AList.update k v) ?m []"
  have "(k, x) \<in> set ?f \<or> (\<exists>p\<in>set ?f. (k, x) \<in> set (members_of (snd p)))"
    using 1(2) by (simp add: split_beta)
  moreover have "set ?f \<subseteq> set ?m" using set_fold_update [of ?m "[]"] by simp
  ultimately have "(k, x) \<in> set ?m \<or> (\<exists>p\<in>set ?m. (k, x) \<in> set (members_of (snd p)))" by blast
  then show ?case using 1(1) by fastforce
next
  case (2 vs)
  then obtain v where v: "v \<in> set vs" "(k, x) \<in> set (members_of (any_of v))" by auto
  then show ?case using 2(1) [OF v] by auto
qed auto

section \<open>Documents that can be marshalled\<close>

lemma num_utf8: "num_json v \<Longrightarrow> num_json (utf8_json v)"
proof (induction v rule: utf8_json.induct)
  case (3 kvs)
  then show ?case by (fastforce simp: list_all_iff)
qed (auto simp: list_all_iff)

lemma num_any_of: "num_json v \<Longrightarrow> num_json (any_of v)"
proof (induction v rule: any_of.induct)
  case (1 kvs)
  let ?m = "map (\<lambda>(k, v). (k, any_of v)) kvs"
  have "\<forall>kv\<in>set ?m. num_json (snd kv)" using 1 by (fastforce simp: list_all_iff)
  then show ?case using set_fold_update [of ?m "[]"] by (auto simp: list_all_iff)
qed (auto simp: list_all_iff)

lemma num_sanitize: "num_json v \<Longrightarrow> num_json (sanitize U v d)"
proof (induction U v d rule: sanitize.induct)
  case (1 U kvs d)
  then show ?case by (fastforce simp: list_all_iff)
qed (auto simp: list_all_iff)

lemma num_identity: "list_all (\<lambda>kv. num_json (snd kv)) ev \<Longrightarrow> list_all (\<lambda>kv. num_json (snd kv)) (with_identity i ev)"
proof -
  have up: "list_all (\<lambda>kv. num_json (snd kv)) (AList.update k v m)"
    if "num_json v" "list_all (\<lambda>kv. num_json (snd kv)) m" for k v m
    using that by (induction m) auto
  have str: "num_json (str_members m)" for m by (auto simp: str_members_def list_all_iff)
  show "list_all (\<lambda>kv. num_json (snd kv)) ev \<Longrightarrow> ?thesis"
    by (simp add: with_identity_def add_absent_def up str)
qed

text \<open>What an event marshals to.\<close>

definition event_of :: "(string \<times> json) list \<Rightarrow> (string, json) gomap" where
  "event_of kvs = sort_key fst (fold (\<lambda>(k, v). AList.update k v) (map (\<lambda>(k, v). (k, any_of (utf8_json v))) (map (\<lambda>(k, v). (utf8_text k, v)) kvs)) [])"

definition line_doc :: "'r UrlLib \<Rightarrow> Identity \<Rightarrow> (string \<times> json) list \<Rightarrow> json" where
  "line_doc U i kvs = any_of (sanitize U (JObj (with_identity i (event_of kvs))) 0)"

lemma any_of_utf8: "any_of (utf8_json (JObj kvs)) = JObj (event_of kvs)"
  by (simp add: event_of_def comp_def split_beta)

lemma Marshal_num: "num_json (JObj kvs) \<Longrightarrow> Marshal U (JObj kvs) i = Inr (json_text (line_doc U i kvs) @ [CHR 0x0A])"
  using json_text_parse [of "JObj kvs"] unfolding Marshal_def line_doc_def
  by (simp add: any_of_utf8 del: any_of.simps utf8_json.simps json_text.simps sanitize.simps num_json.simps)

lemma line_doc_num: "num_json (JObj kvs) \<Longrightarrow> num_json (line_doc U i kvs)"
proof -
  assume "num_json (JObj kvs)"
  then have "num_json (JObj (event_of kvs))" using num_any_of [OF num_utf8] any_of_utf8 by metis
  then have "num_json (JObj (with_identity i (event_of kvs)))" using num_identity by simp
  then show ?thesis unfolding line_doc_def using num_any_of num_sanitize by blast
qed

section \<open>Redacted documents\<close>

definition redacted :: "json \<Rightarrow> bool" where
  "redacted v =
     ((\<forall>s\<in>set (strings_of v). token_free s) \<and>
      (\<forall>(k, x)\<in>set (members_of v). MatchString sensitiveKey k \<longrightarrow> x = JStr ''[REDACTED]''))"

lemma redacted_sanitize: "url_faithful U \<Longrightarrow> redacted (any_of (sanitize U v d))"
  using sanitize_strings [of U _ v d] sanitize_members [of _ _ U v d] any_of_strings [of "sanitize U v d"] any_of_members [of _ _ "sanitize U v d"]
  unfolding redacted_def by fastforce


text \<open>A URL library that cuts off what follows the path.\<close>

definition example_urls :: "string UrlLib" where
  "example_urls =
     \<lparr>ulParse = \<lambda>raw. Some \<lparr>ulUser = None, ulRawQuery = [], ulForceQuery = False, ulFragment = [],
        ulRest = takeWhile (\<lambda>c. c \<noteq> CHR ''?'' \<and> c \<noteq> CHR ''#'') raw\<rparr>, ulString = ulRest\<rparr>"

lemma example_urls_faithful: "url_faithful example_urls"
  unfolding url_faithful_def
proof (intro allI impI)
  fix scheme x u
  let ?p = "\<lambda>c. c \<noteq> CHR ''?'' \<and> c \<noteq> CHR ''#''"
  assume a: "scheme \<in> {''http'', ''https''} \<and> ulParse example_urls (scheme @ ''://'' @ x) = Some u"
  then have "ulString example_urls (clear_url u) = scheme @ ''://'' @ takeWhile ?p x"
    by (auto simp: example_urls_def clear_url_def)
  moreover have "token_free (takeWhile ?p x)" if "token_free (scheme @ ''://'' @ x)"
    using token_free_prefix [of "takeWhile ?p x" "dropWhile ?p x"] token_free_suffix [OF that, of x]
    by (simp add: suffix_def)
  ultimately show "\<exists>b. ulString example_urls (clear_url u) = scheme @ ''://'' @ b \<and> (token_free (scheme @ ''://'' @ x) \<longrightarrow> token_free b)"
    by blast
qed

definition example_doc :: json where
  "example_doc = JObj [(''note'', JStr ''see ghp_abc''), (''api_key'', JNum ''7'')]"

definition example_identity :: Identity where
  "example_identity = \<lparr>idEnvironment = ''Testing'', idKubernetes = [], idCloud = []\<rparr>"


end
