(* ===== verification/Cornerstone_Thms.thy ===== *)
theory Cornerstone_Thms
  imports Cornerstone_Model Telemetry_Thms
begin

text \<open>
  The event stream: every typed event is accepted and leaves as one line that names its registered
  definition, and a stream that every emission reported as written reads back as exactly the
  events. \<open>event_emitter\<close> is the contract of an emitter.
\<close>

section \<open>The contract of an emitter\<close>

definition event_line :: "string \<Rightarrow> bool" where
  "event_line line = (\<exists>v. num_json v \<and> redacted v \<and> line = json_text v @ [CHR 0x0A])"

fun emit_all :: "('e \<Rightarrow> 's \<Rightarrow> gerr option \<times> 's) \<Rightarrow> 'e list \<Rightarrow> 's \<Rightarrow> gerr option list \<times> 's" where
  "emit_all emit [] s = ([], s)"
| "emit_all emit (e # es) s = (case emit e s of (r, s1) \<Rightarrow> case emit_all emit es s1 of (rs, s2) \<Rightarrow> (r # rs, s2))"

locale event_emitter =
  fixes emit :: "'e \<Rightarrow> 's \<Rightarrow> gerr option \<times> 's" and out :: "'s \<Rightarrow> string"
    and good :: "'e \<Rightarrow> bool" and inv :: "'s \<Rightarrow> bool"
  assumes written: "inv s \<Longrightarrow> good e \<Longrightarrow> emit e s = (None, s') \<Longrightarrow> \<exists>line. event_line line \<and> out s' = out s @ line"
    and failed: "inv s \<Longrightarrow> good e \<Longrightarrow> emit e s = (Some x, s') \<Longrightarrow> \<exists>line p. event_line line \<and> prefix p line \<and> out s' = out s @ p"
    and kept: "inv s \<Longrightarrow> emit e s = (r, s') \<Longrightarrow> inv s'"
begin

text \<open>If every emission reports success, the sink holds whole lines, one per event.\<close>

lemma all_written:
  "inv s \<Longrightarrow> list_all good es \<Longrightarrow> emit_all emit es s = (rs, s') \<Longrightarrow> list_all (\<lambda>r. r = None) rs \<Longrightarrow>
     \<exists>vs. length vs = length es \<and> list_all (\<lambda>v. num_json v \<and> redacted v) vs \<and> out s' = out s @ unlines (map json_text vs)"
proof (induction es arbitrary: s rs)
  case Nil
  then show ?case by (intro exI [of _ "[]"]) (simp add: unlines_def)
next
  case (Cons e es)
  obtain r s1 where e: "emit e s = (r, s1)" by fastforce
  obtain rs1 where es: "emit_all emit es s1 = (rs1, s')" "rs = r # rs1" using Cons.prems(3) e by (auto split: prod.splits)
  then have r: "r = None" using Cons.prems(4) by simp
  obtain v where v: "num_json v" "redacted v" "out s1 = out s @ json_text v @ [CHR 0x0A]"
    using written [of s e s1] Cons.prems(1,2) e r by (auto simp: event_line_def)
  obtain vs where "length vs = length es" "list_all (\<lambda>v. num_json v \<and> redacted v) vs" "out s' = out s1 @ unlines (map json_text vs)"
    using Cons.IH [of s1 rs1] kept [OF Cons.prems(1) e] Cons.prems(2,4) es by auto
  then show ?case using v by (intro exI [of _ "v # vs"]) (simp add: unlines_def)
qed

end

lemma split_lines: "list_all num_json vs \<Longrightarrow> split_char CHR 0x0A (unlines (map json_text vs)) = map json_text vs @ [[]]"
  by (induction vs) (auto simp: unlines_def split_char_append json_text_no_newline)

section \<open>The orchestrator's emitter\<close>

definition int_data :: "Event \<Rightarrow> bool" where
  "int_data ev = list_all (\<lambda>kv. num_json (snd kv)) (edErrorData (evDetails ev))"

lemma num_fields [simp]:
  "list_all (\<lambda>kv. num_json (snd kv)) (omit z k v) = (z \<or> num_json v)"
  "list_all (\<lambda>kv. num_json (snd kv)) (omit_str k t)"
  "num_json (json_int n)" "num_json (json_strs xs)"
  by (auto simp: omit_def omit_str_def json_int_def json_strs_def list_all_iff)

lemma num_opt_member [simp]: "(\<And>x. num_json (f x)) \<Longrightarrow> list_all (\<lambda>kv. num_json (snd kv)) (opt_member k f x)"
  by (simp add: opt_member_def split: option.splits)

lemma num_contexts: "num_json (json_container x)" "num_json (json_network y)" "num_json (json_rate_limit z)" "num_json (json_audit w)"
  by (simp_all add: json_container_def json_network_def json_rate_limit_def json_audit_def split: option.splits)

lemma num_details: "list_all (\<lambda>kv. num_json (snd kv)) (edErrorData d) \<Longrightarrow> num_json (json_details d)"
  by (simp add: json_details_def) (simp add: list_all_iff)

lemma num_event: "int_data ev \<Longrightarrow> num_json (json_event ev)"
  by (simp add: json_event_def int_data_def num_contexts num_details)

lemma json_event_obj: "\<exists>kvs. json_event ev = JObj kvs"
  by (simp add: json_event_def)

lemma int_data_envelope: "int_data (fst (envelope c ev s)) = int_data ev"
  by (simp add: envelope_def int_data_def Let_def split: prod.splits)

lemma num_update: "num_json v \<Longrightarrow> list_all (\<lambda>kv. num_json (snd kv)) m \<Longrightarrow> list_all (\<lambda>kv. num_json (snd kv)) (AList.update k v m)"
  by (induction m) auto

lemma checked_int_data: "checked_event b ev = Inr ev' \<Longrightarrow> int_data ev \<Longrightarrow> int_data ev'"
  by (auto simp: checked_event_def kube_event_def int_data_def Let_def num_update split: option.splits if_splits)

lemma reportFailure_out [simp]: "emOut (reportFailure U c reason s) = emOut s"
  by (simp add: reportFailure_def Let_def diag_write_def em_tick_def split: sum.splits)

lemma envelope_out: "emOut (snd (envelope c ev s)) = emOut s" "emBackend (snd (envelope c ev s)) = emBackend s"
    "emIdentity (snd (envelope c ev s)) = emIdentity s"
  by (simp_all add: envelope_def em_tick_def Let_def split: prod.splits)

definition event_text :: "'r UrlLib \<Rightarrow> Identity \<Rightarrow> (string \<times> json) list \<Rightarrow> string" where
  "event_text U i kvs = json_text (line_doc U i kvs) @ [CHR 0x0A]"

lemma Emit_cases:
  assumes "Emit U c ev s = (r, s')" and "int_data ev"
  obtains (rejected) e where "r = Some e" and "emOut s' = emOut s" and "checked_event (emBackend s) (fst (envelope c ev s)) = Inl e"
  | (sent) ev' kvs n where "checked_event (emBackend s) (fst (envelope c ev s)) = Inr ev'" and "json_event ev' = JObj kvs" and "num_json (JObj kvs)"
      and "r = map_option (\<lambda>e. Wrap ''cornerstone: write: '' e []) (tel_Write (eeSink c n) (event_text U (emIdentity s) kvs))"
      and "emOut s' = emOut s @ take (fst (eeSink c n (event_text U (emIdentity s) kvs))) (event_text U (emIdentity s) kvs)"
proof -
  obtain ev1 s1 where ev1: "envelope c ev s = (ev1, s1)" by fastforce
  note s1 = envelope_out [of c ev s, unfolded ev1, simplified]
  show ?thesis
  proof (cases "checked_event (emBackend s) ev1")
    case (Inl e)
    then show ?thesis using assms(1) [symmetric] rejected [of e] ev1 s1 by (simp add: Emit_def)
  next
    case (Inr ev')
    obtain kvs where kvs: "json_event ev' = JObj kvs" using json_event_obj by blast
    have num: "num_json (JObj kvs)"
      using num_event [OF checked_int_data [OF Inr]] int_data_envelope [of c ev s] assms(2) ev1 kvs by simp
    let ?line = "event_text U (emIdentity s) kvs"
    have m: "Marshal U (json_event ev') (emIdentity s1) = Inr ?line" using Marshal_num [OF num] kvs s1 by (simp add: event_text_def)
    obtain w s2 where w: "sink_write c ?line s1 = (w, s2)" by fastforce
    have "w = tel_Write (eeSink c (emCalls s1)) ?line" "emOut s2 = emOut s @ take (fst (eeSink c (emCalls s1) ?line)) ?line"
      using w s1 by (auto simp: sink_write_def)
    then show ?thesis
      using sent [of ev' kvs "emCalls s1"] assms(1) [symmetric] ev1 Inr kvs num m w
      by (simp add: Emit_def split: option.splits)
  qed
qed

lemma line_doc_redacted: "url_faithful U \<Longrightarrow> redacted (line_doc U i kvs)"
  unfolding line_doc_def by (rule redacted_sanitize)

lemma tel_Write_None: "tel_Write w b = None \<Longrightarrow> take (fst (w b)) b = b"
  by (auto simp: tel_Write_def split: prod.splits if_splits)

lemma event_line_text: "url_faithful U \<Longrightarrow> num_json (JObj kvs) \<Longrightarrow> event_line (event_text U i kvs)"
  unfolding event_line_def event_text_def using line_doc_num line_doc_redacted by blast

lemma event_line_null: "event_line (json_text JNull @ [CHR 0x0A])"
  unfolding event_line_def by (intro exI [of _ JNull]) (simp add: redacted_def)

lemma Emit_written:
  assumes "url_faithful U" and "int_data ev" and "Emit U c ev s = (None, s')"
  shows "\<exists>line. event_line line \<and> emOut s' = emOut s @ line"
  using assms(3,2)
proof (cases rule: Emit_cases)
  case (sent ev' kvs n)
  then have "tel_Write (eeSink c n) (event_text U (emIdentity s) kvs) = None" by (metis option.map_disc_iff)
  then show ?thesis using tel_Write_None sent(5) event_line_text [OF assms(1) sent(3)] by metis
qed simp

lemma Emit_failed:
  assumes "url_faithful U" and "int_data ev" and "Emit U c ev s = (Some x, s')"
  shows "\<exists>line p. event_line line \<and> prefix p line \<and> emOut s' = emOut s @ p"
  using assms(3,2)
proof (cases rule: Emit_cases)
  case (rejected e)
  then show ?thesis using event_line_null Nil_prefix by (metis append_Nil2)
next
  case (sent ev' kvs n)
  then show ?thesis using event_line_text [OF assms(1) sent(3)] take_is_prefix by metis
qed

lemma accepted_emit:
  assumes "int_data ev" and "checked_event (emBackend s) (fst (envelope c ev s)) = Inr ev'" and "\<forall>n line. eeSink c n line = (length line, None)"
  shows "\<exists>s'. Emit U c ev s = (None, s') \<and> emBackend s' = emBackend s"
proof -
  obtain r s' where emit: "Emit U c ev s = (r, s')" by fastforce
  obtain ev1 s1 where ev1: "envelope c ev s = (ev1, s1)" by fastforce
  have "emBackend s1 = emBackend s" using envelope_out(2) [of c ev s] ev1 by simp
  from emit assms(1) show ?thesis
  proof (cases rule: Emit_cases)
    case (sent ev'' kvs n)
    then have "r = None" using assms(3) by (simp add: tel_Write_def)
    then show ?thesis using emit ev1 \<open>emBackend s1 = emBackend s\<close>
      by (auto simp: Emit_def sink_write_def em_tick_def split: sum.splits option.splits)
  qed (use assms(2) in simp)
qed

interpretation orchestrator: event_emitter "Emit U c" emOut int_data "\<lambda>_. url_faithful U" for U c
  by unfold_locales (assumption | erule (2) Emit_written | erule (2) Emit_failed)+


section \<open>Strings that redaction leaves alone\<close>

fun needs :: "char set \<Rightarrow> rx \<Rightarrow> bool" where
  "needs C (RxRune p) = (\<forall>r. p r \<longrightarrow> set r \<inter> C \<noteq> {})"
| "needs C (RxSeq a b) = (needs C a \<or> needs C b)"
| "needs C (RxAlt a b) = (needs C a \<and> needs C b)"
| "needs C r = False"

lemma needs_run: "y \<in> set (rx_run n r x) \<Longrightarrow> needs C r \<Longrightarrow> set (snd x) \<inter> C \<noteq> {}"
proof (induction n r x arbitrary: y rule: rx_run.induct)
  case (2 n p w s)
  obtain a t where r: "rune_at s = (a, t)" by fastforce
  have "p a" using 2(1) r by (auto split: if_splits)
  then have "set a \<inter> C \<noteq> {}" using 2(2) by simp
  then show ?case using rune_at_split [OF r] by auto
next
  case (3 n a b x)
  then obtain z where z: "z \<in> set (rx_run n a x)" "y \<in> set (rx_run n b z)" by auto
  show ?case
  proof (cases "needs C a")
    case True
    then show ?thesis using 3(1) z(1) by blast
  next
    case False
    then have "set (snd z) \<inter> C \<noteq> {}" using 3 z by auto
    then show ?thesis using set_mono_suffix [OF rx_run_suffix [OF z(1)]] by blast
  qed
qed (auto split: if_splits)

lemma replace_all_none:
  "(\<And>w u. suffix u s \<Longrightarrow> m (w, u) = None) \<Longrightarrow> replace_all m (w, s) = s"
proof (induction s arbitrary: w rule: length_induct)
  case (1 s)
  show ?case
  proof (cases "s = []")
    case False
    show ?thesis
    proof (cases rule: replace_all_cases [OF False, of m w, case_names match skip])
      case (match out v t)
      then show ?thesis using 1(2) [of s w] by simp
    next
      case (skip c t)
      note s = rune_at_split [OF skip(1)] and short = rune_at_shorter [OF skip(1) False]
      have "m (v, u) = None" if "suffix u t" for v u using 1(2) that s suffix_appendI by blast
      then have "replace_all m (word_rune c, t) = t" using 1(1) short by blast
      then show ?thesis using skip(3) s by simp
    qed
  qed simp
qed

lemma github_only:
  assumes "y \<in> set (rx_run n githubToken x)"
  shows "token_start (snd x)"
proof -
  obtain z where z: "z \<in> set (rx_run n token_intro x)" "y \<in> set (rx_run n (rx_plus (rx_char word_char)) z)"
    using assms unfolding githubToken_def rx_seq_simps(2) [of token_intro] rx_run.simps(3) rx_seq_single by auto
  obtain c r where c: "snd z = c # r" "word_char c"
  proof -
    obtain u where "u \<in> set (rx_run n (rx_char word_char) z)" using z(2) by (auto simp: rx_plus_def)
    moreover obtain w v where "z = (w, v)" by fastforce
    moreover obtain a t where "rune_at v = (a, t)" by fastforce
    ultimately show thesis using that rune_at_split [of v a t]
      by (auto simp: rx_char_def split: if_splits list.splits)
  qed
  have one: "snd a = k # snd b" if "b \<in> set (rx_run n (rx_char (\<lambda>c. c \<in> set ''pousr'')) a)" "k = hd (snd a)" for a b k
  proof -
    obtain w v where "a = (w, v)" by fastforce
    moreover obtain e t where "rune_at v = (e, t)" by fastforce
    ultimately show ?thesis using that rune_at_split [of v e t]
      by (auto simp: rx_char_def split: if_splits list.splits)
  qed
  have "\<exists>p\<in>set token_prefixes. snd x = p @ snd z"
  proof (cases "z \<in> set (rx_run n (rx_lit ''github_pat_'') x)")
    case True
    then have "snd x = ''github_pat_'' @ snd z" by (rule rx_lit_split)
    then show ?thesis by (intro bexI [of _ "''github_pat_''"]) (simp_all add: token_prefixes_def)
  next
    case False
    then have "z \<in> set (rx_run n (rx_seq [rx_lit ''gh'', rx_char (\<lambda>c. c \<in> set ''pousr''), rx_lit ''_'']) x)"
      using z(1) unfolding token_intro_def rx_run.simps(4) by auto
    then obtain a b where ab: "a \<in> set (rx_run n (rx_lit ''gh'') x)" "b \<in> set (rx_run n (rx_char (\<lambda>c. c \<in> set ''pousr'')) a)"
      "z \<in> set (rx_run n (rx_lit ''_'') b)"
      unfolding rx_seq_simps(2) [of "rx_lit ''gh''"] rx_seq_simps(2) [of "rx_char _"] rx_seq_single rx_run.simps(3) by auto
    have k: "hd (snd a) \<in> set ''pousr''"
    proof -
      obtain w v where "a = (w, v)" by fastforce
      moreover obtain e t where "rune_at v = (e, t)" by fastforce
      ultimately show ?thesis using ab(2) rune_at_split [of v e t]
        by (auto simp: rx_char_def split: if_splits list.splits)
    qed
    have "snd x = ''gh'' @ hd (snd a) # ''_'' @ snd z"
      using rx_lit_split [OF ab(1)] one [OF ab(2)] rx_lit_split [OF ab(3)] by simp
    then show ?thesis using k by (intro bexI [of _ "''gh'' @ hd (snd a) # ''_''"]) (auto simp: token_prefixes_def)
  qed
  then show ?thesis using c by (auto simp: token_start_def)
qed

end
