(* ===== verification/Cornerstone_Props.thy ===== *)
theory Cornerstone_Props
  imports Cornerstone_Thms
begin

text \<open>
  What every typed event guarantees to a reader of the stream: the emitter accepts it, and the line
  names the registered event, its definition and the project, untouched by the redaction.
\<close>

section \<open>Quiet strings\<close>

fun no_gh :: "string \<Rightarrow> bool" where
  "no_gh (x # y # s) = ((x = CHR ''g'' \<longrightarrow> y \<noteq> CHR ''h'' \<and> y \<noteq> CHR ''i'') \<and> no_gh (y # s))"
| "no_gh s = True"

definition loud :: "char set" where
  "loud = {CHR '' '', CHR 0x09, CHR 0x0A, CHR 0x0C, CHR 0x0D, CHR ''A'', CHR ''J'', CHR '':'', CHR ''=''}"

definition quiet :: "string \<Rightarrow> bool" where
  "quiet s = (no_gh s \<and> list_all (\<lambda>c. byte c < 128 \<and> c \<notin> loud) s)"

lemma no_gh_free: "no_gh s \<Longrightarrow> token_free s"
proof (induction s rule: no_gh.induct [case_names two none one])
  case (two x y s)
  have second: "list_all (\<lambda>p. hd p = CHR ''g'' \<and> p \<noteq> [] \<and> tl p \<noteq> [] \<and> (hd (tl p) = CHR ''h'' \<or> hd (tl p) = CHR ''i'')) token_prefixes"
    by code_simp
  have "\<not> token_start (x # y # s)"
  proof
    assume "token_start (x # y # s)"
    then obtain p c r where p: "p \<in> set token_prefixes" "x # y # s = p @ c # r" by (auto simp: token_start_def)
    from p(1) second have q: "hd p = CHR ''g''" "p \<noteq> []" "tl p \<noteq> []" "hd (tl p) = CHR ''h'' \<or> hd (tl p) = CHR ''i''"
      unfolding list_all_iff by blast+
    then obtain k r' where "p = CHR ''g'' # k # r'" "k = CHR ''h'' \<or> k = CHR ''i''"
      by (metis list.collapse)
    then show False using p(2) two(2) by simp
  qed
  then show ?case using two by (simp add: token_free_Cons)
next
  case (one x)
  have "\<not> token_start [x]"
  proof
    assume "token_start [x]"
    then obtain p c r where p: "p \<in> set token_prefixes" "[x] = p @ c # r" unfolding token_start_def by blast
    have "p = []" using p(2) by (simp add: Cons_eq_append_conv)
    then show False using p(1) prefix_starts by blast
  qed
  then show ?case by (simp add: token_free_Cons)
qed simp

lemma needs_seq: "needs C (rx_seq rs) = list_ex (needs C) rs"
  by (induction rs) (simp_all add: rx_seq_def)

lemma needs_lit: "needs C (rx_lit l) = (set l \<inter> C \<noteq> {})"
  by (induction l) (auto simp: rx_lit_def)

lemma needs_char: "(\<And>c. p c \<Longrightarrow> c \<in> C) \<Longrightarrow> needs C (rx_char p)"
  by (auto simp: rx_char_def split: list.splits)

lemma needs_plus: "needs C r \<Longrightarrow> needs C (rx_plus r)"
  by (simp add: rx_plus_def)

lemma loud_needed:
  "needs loud pemKey" "needs loud awsAccessKey" "needs loud bearer" "needs loud jwt_token" "needs loud httpURL" "needs loud (RxSeq inline_name inline_sep)"
proof -
  show "needs loud pemKey" by (simp add: pemKey_def Let_def needs_seq needs_lit loud_def del: rx_seq_simps)
  show "needs loud awsAccessKey" by (simp add: awsAccessKey_def needs_seq needs_lit loud_def del: rx_seq_simps)
  have "needs loud (rx_plus (rx_char space_char))" by (intro needs_plus needs_char) (auto simp: space_char_def loud_def)
  then show "needs loud bearer" by (simp add: bearer_def needs_seq del: rx_seq_simps)
  show "needs loud jwt_token" by (simp add: jwt_token_def Let_def needs_seq needs_lit loud_def del: rx_seq_simps)
  show "needs loud httpURL" by (simp add: httpURL_def needs_seq needs_lit loud_def del: rx_seq_simps)
  have "needs loud (rx_char (\<lambda>c. c = CHR '':'' \<or> c = CHR ''=''))" by (intro needs_char) (auto simp: loud_def)
  then show "needs loud (RxSeq inline_name inline_sep)" by (simp add: inline_sep_def needs_seq del: rx_seq_simps)
qed

lemma quiet_run:
  assumes "needs loud r" and "set s \<inter> loud = {}" and "suffix u s"
  shows "rx_run n r (w, u) = []"
proof (rule ccontr)
  assume "rx_run n r (w, u) \<noteq> []"
  then have "hd (rx_run n r (w, u)) \<in> set (rx_run n r (w, u))" by simp
  then have "set u \<inter> loud \<noteq> {}" using needs_run [of _ n r "(w, u)" loud] assms(1) by fastforce
  then show False using assms(2) set_mono_suffix [OF assms(3)] by blast
qed

lemma RedactString_quiet:
  assumes "quiet s"
  shows "RedactString U s = s"
proof -
  have dull: "set s \<inter> loud = {}" using assms by (auto simp: quiet_def list_all_iff)
  have free: "token_free s" using assms no_gh_free by (simp add: quiet_def)
  have rep: "ReplaceAll (replace_with r out) s = s" if "needs loud r" for r out
    unfolding ReplaceAll_def by (rule replace_all_none) (simp add: replace_with_def rx_first_def quiet_run [OF that dull])
  have github: "ReplaceAll (replace_with githubToken out) s = s" for out
    unfolding ReplaceAll_def
  proof (rule replace_all_none)
    fix w u assume "suffix u s"
    then have "\<not> token_start u" using free by (simp add: token_free_def)
    then have "rx_run (length u) githubToken (w, u) = []"
      using github_only [of _ "length u" "(w, u)"] by (cases "rx_run (length u) githubToken (w, u)") auto
    then show "replace_with githubToken out (w, u) = None" by (simp add: replace_with_def rx_first_def)
  qed
  have url: "ReplaceAll (url_replacer U) s = s"
    unfolding ReplaceAll_def by (rule replace_all_none) (simp add: url_replacer_def rx_first_def quiet_run [OF loud_needed(5) dull])
  have inline: "ReplaceAll inlineSecret s = s"
    unfolding ReplaceAll_def
    by (rule replace_all_none) (simp add: inlineSecret_def Let_def quiet_run [OF loud_needed(6) dull] del: rx_run.simps)
  show ?thesis unfolding RedactString_def Let_def by (simp add: rep loud_needed github url inline)
qed

section \<open>Members of a line\<close>

lemma map_of_fold_update: "map_of (fold (\<lambda>(k, v). AList.update k v) kvs m) = map_of m ++ map_of (rev kvs)"
proof (induction kvs arbitrary: m)
  case (Cons kv kvs)
  then show ?case by (cases kv) (simp add: fun_eq_iff map_add_def split: option.splits)
qed simp

lemma wf_fold_update: "wf_map m \<Longrightarrow> wf_map (fold (\<lambda>(k, v). AList.update k v) kvs m)"
  by (induction kvs arbitrary: m) auto

lemma wf_sort: "wf_map m \<Longrightarrow> wf_map (sort_key fst m)"
  by (simp add: distinct_map)

lemma map_of_keyed: "map_of (map (\<lambda>(k, v). (k, g k v)) m) k = map_option (g k) (map_of m k)"
  by (induction m) auto

lemma keys_keyed: "keys (map (\<lambda>(k, v). (k, g k v)) m) = keys m"
  by (induction m) auto

lemma map_of_mapped: "map_of (map (\<lambda>(k, v). (k, f v)) m) k = map_option f (map_of m k)"
  by (induction m) auto

lemma map_of_any: "map_of (sort_key fst (fold (\<lambda>(k, v). AList.update k v) (map (\<lambda>(k, v). (k, f v)) kvs) [])) k = map_option f (map_of (rev kvs) k)"
  by (simp add: map_of_sort [OF wf_fold_update] map_of_fold_update rev_map map_of_mapped)

lemma event_of_lookup:
  assumes "list_all (\<lambda>kv. ascii (fst kv)) kvs"
  shows "map_of (event_of kvs) k = map_option (\<lambda>v. any_of (utf8_json v)) (map_of (rev kvs) k)"
proof -
  have "map (\<lambda>(k, v). (utf8_text k, v)) kvs = kvs" by (rule map_idI) (use assms utf8_text_ascii in \<open>auto simp: list_all_iff\<close>)
  then show ?thesis unfolding event_of_def by (simp add: map_of_any)
qed

lemma identity_lookup:
  "k \<notin> {''cloud.context'', ''k8s.context'', ''deployment.environment''} \<Longrightarrow> map_of (with_identity i e) k = map_of e k"
  by (simp add: with_identity_def add_absent_def)

lemma identity_wf: "wf_map e \<Longrightarrow> wf_map (with_identity i e)"
  by (simp add: with_identity_def add_absent_def)

lemma map_of_rev: "wf_map m \<Longrightarrow> map_of (rev m) = map_of m"
  by (rule map_of_inject_set [THEN iffD2]) (simp_all add: rev_map [symmetric])

lemma line_doc_member:
  assumes "list_all (\<lambda>kv. ascii (fst kv)) kvs" and "map_of (rev kvs) k = Some (JStr t)" and "quiet t"
    and "k \<notin> {''cloud.context'', ''k8s.context'', ''deployment.environment''}" and "\<not> MatchString sensitiveKey k"
  shows "\<exists>m. line_doc U i kvs = JObj m \<and> map_of m k = Some (JStr t)"
proof -
  have "ascii t" using assms(3) by (simp add: quiet_def ascii_def list_all_iff)
  then have e: "map_of (event_of kvs) k = Some (JStr t)"
    using event_of_lookup [OF assms(1), of k] assms(2) utf8_text_ascii by simp
  let ?w = "with_identity i (event_of kvs)"
  have "wf_map (event_of kvs)" unfolding event_of_def by (intro wf_sort wf_fold_update) simp
  then have wf: "wf_map ?w" by (rule identity_wf)
  let ?s = "map (\<lambda>(k, v). (k, if MatchString sensitiveKey k then JStr ''[REDACTED]'' else sanitize U v 1)) ?w"
  have "keys ?s = keys ?w" by (rule keys_keyed)
  then have "wf_map ?s" using wf by argo
  have "map_of ?w k = Some (JStr t)" using identity_lookup [OF assms(4)] e by simp
  then have "map_of ?s k = Some (JStr t)"
    using assms(5) RedactString_quiet [OF assms(3)]
    by (simp add: map_of_keyed [of "\<lambda>k v. if MatchString sensitiveKey k then JStr ''[REDACTED]'' else sanitize U v 1"])
  then have "map_of (rev ?s) k = Some (JStr t)" using map_of_rev [OF \<open>wf_map ?s\<close>] by simp
  moreover have "sanitize U (JObj ?w) 0 = JObj ?s" by auto
  ultimately show ?thesis unfolding line_doc_def using map_of_any [of any_of ?s k] by (simp only: any_of.simps json.inject) simp
qed

section \<open>Typed events\<close>

text \<open>The events of the constructors; a failure needs its reason, and extra data is made of integers,
  strings and lists.\<close>

definition int_values :: "(string, json) gomap \<Rightarrow> bool" where
  "int_values m = list_all (\<lambda>kv. num_json (snd kv)) m"

inductive typed_event :: "Event \<Rightarrow> bool" where
  "typed_event (SpawnStarted scope repo sid name digest)"
| "typed_event (SpawnJITAcquired scope repo sid name rid)"
| "typed_event (SpawnRunnerCreated scope repo sid name digest network)"
| "typed_event (SpawnCompleted scope repo sid cid name digest exit_code millis)"
| "reason \<noteq> [] \<Longrightarrow> int_values extra \<Longrightarrow> typed_event (SpawnFailed scope repo sid name reason detail extra)"
| "typed_event (SpawnTimeoutForcedTeardown scope repo sid name configured elapsed)"
| "typed_event (RunnerLeakCleaned scope repo sid rid)"
| "typed_event (RunnerOnline scope repo sid name rid)"
| "typed_event (JobAssigned scope repo sid name rid)"
| "typed_event (RunnerCompleted scope repo sid name rid exit_code millis)"
| "typed_event (RunnerExitedUnassigned scope repo sid name rid exit_code)"
| "typed_event (BreakerOpened scope repo failures)"
| "typed_event (BreakerClosed scope repo)"
| "typed_event (RatelimitPaused scope remaining limit reset)"
| "typed_event (RatelimitResumed scope remaining limit reset)"
| "typed_event (PollTick scope remaining limit reset)"
| "typed_event (PollQueuedJobsObserved scope repo count)"
| "typed_event (DriftReconciled scope repo delta)"
| "typed_event (AuthDegraded scope repo status)"
| "typed_event (ConfigReloaded scope)"
| "reason \<noteq> [] \<Longrightarrow> typed_event (ConfigInvalid scope path reason)"
| "typed_event HealthProbe"
| "typed_event (ProcessStarted ver revision backend)"
| "typed_event (ProcessStopping reason)"
| "reason \<noteq> [] \<Longrightarrow> typed_event (ProcessFailed reason)"
| "typed_event (ProcessMessage message)"

definition registered :: "string \<Rightarrow> bool" where
  "registered name = (map_of eventDefinitions name \<noteq> None)"

lemma registered_names:
  "list_all (\<lambda>n. registered (event_name n))
     [''spawn.started'', ''spawn.jit_acquired'', ''spawn.runner_created'', ''spawn.completed'', ''spawn.failed'',
      ''spawn.timeout_forced_teardown'', ''runner.leak_cleaned'', ''runner.online'', ''job.assigned'', ''runner.completed'',
      ''runner.exited_unassigned'', ''breaker.opened'', ''breaker.closed'', ''ratelimit.paused'', ''ratelimit.resumed'', ''poll.tick'',
      ''poll.queued_jobs_observed'', ''drift.reconciled'', ''auth.degraded'', ''config.reloaded'', ''config.invalid'', ''health.probe'',
      ''process.started'', ''process.stopping'', ''process.failed'', ''process.message'']"
  by code_simp

lemma registry_quiet: "list_all (\<lambda>(n, u). quiet n \<and> quiet u \<and> n \<noteq> [] \<and> u \<noteq> []) eventDefinitions"
  by code_simp

lemma signature_quiet: "quiet ProjectSignature"
  by code_simp

lemma envelope_keys: "\<not> MatchString sensitiveKey ''event.sub.type''" "\<not> MatchString sensitiveKey ''event.definition.uuid''"
    "\<not> MatchString sensitiveKey ''event.signature''"
  by code_simp+

lemma details_simps [simp]:
  "edSummary (details a b r) = a" "edSeverity (details a b r) = b" "edResult (details a b r) = r" "edFailureReason (details a b r) = []"
  "edErrorData (details a b r) = []"
  by (simp_all add: details_def zero_details_def)

lemma named_simps [simp]:
  "evUUID (named_event n k d) = []" "evDefinitionUUID (named_event n k d) = []" "evSignature (named_event n k d) = []"
  "evSubType (named_event n k d) = event_name n" "evDetails (named_event n k d) = d" "evTimeStamp (named_event n k d) = []"
  "evUUID (spawn_event n i d) = []" "evDefinitionUUID (spawn_event n i d) = []" "evSignature (spawn_event n i d) = []"
  "evSubType (spawn_event n i d) = event_name n" "evDetails (spawn_event n i d) = d" "evTimeStamp (spawn_event n i d) = []"
  by (simp_all add: named_event_def spawn_event_def zero_event_def)

lemma int_values_fold: "int_values kvs \<Longrightarrow> int_values m \<Longrightarrow> int_values (fold (\<lambda>(k, v). AList.update k v) kvs m)"
  unfolding int_values_def by (induction kvs arbitrary: m) (auto simp: num_update)

lemma int_values_simps [simp]: "int_values []" "int_values (kv # m) = (num_json (snd kv) \<and> int_values m)"
    "int_values m \<Longrightarrow> num_json v \<Longrightarrow> int_values (AList.update k v m)"
  by (simp_all add: int_values_def num_update)

lemmas constructors =
  SpawnStarted_def SpawnJITAcquired_def SpawnRunnerCreated_def SpawnCompleted_def SpawnFailed_def SpawnTimeoutForcedTeardown_def
  RunnerLeakCleaned_def RunnerOnline_def JobAssigned_def RunnerCompleted_def RunnerExitedUnassigned_def BreakerOpened_def
  BreakerClosed_def RatelimitPaused_def RatelimitResumed_def PollTick_def PollQueuedJobsObserved_def DriftReconciled_def
  AuthDegraded_def ConfigReloaded_def ConfigInvalid_def HealthProbe_def ProcessStarted_def ProcessStopping_def ProcessFailed_def
  ProcessMessage_def runnerLifecycleEvent_def

lemma typed_event_fields:
  assumes "typed_event ev"
  shows "evDefinitionUUID ev = [] \<and> evSignature ev = [] \<and> registered (evSubType ev)"
  using assms registered_names by (cases rule: typed_event.cases) (simp_all add: constructors Let_def)

lemma typed_event_valid:
  assumes "typed_event ev"
  shows "details_Validate (evDetails ev) = None"
  using assms by (cases rule: typed_event.cases) (simp_all add: constructors Let_def details_Validate_def with_exit_code_def)

lemma typed_event_data:
  assumes "typed_event ev"
  shows "int_data ev"
  using assms unfolding int_data_def int_values_def [symmetric]
  by (cases rule: typed_event.cases)
     (simp_all add: constructors Let_def with_exit_code_def int_values_fold)

lemma kube_event_fields [simp]:
  "evSubType (kube_event ev) = evSubType ev" "evDefinitionUUID (kube_event ev) = evDefinitionUUID ev" "evSignature (kube_event ev) = evSignature ev"
  "details_Validate (evDetails (kube_event ev)) = details_Validate (evDetails ev)"
  by (simp_all add: kube_event_def details_Validate_def split: option.splits)

text \<open>A typed event passes the checks of the emitter, for either backend.\<close>

lemma typed_checked:
  assumes "typed_event ev"
  shows "\<exists>ev' uuid. checked_event b (fst (envelope c ev s)) = Inr ev' \<and> map_of eventDefinitions (evSubType ev) = Some uuid \<and>
     evSubType ev' = evSubType ev \<and> evDefinitionUUID ev' = uuid \<and> evSignature ev' = ProjectSignature"
proof -
  obtain uuid where uuid: "map_of eventDefinitions (evSubType ev) = Some uuid"
    using typed_event_fields [OF assms] by (auto simp: registered_def)
  have env: "evSubType (fst (envelope c ev s)) = evSubType ev" "evDefinitionUUID (fst (envelope c ev s)) = []"
    "evSignature (fst (envelope c ev s)) = ProjectSignature" "evDetails (fst (envelope c ev s)) = evDetails ev"
    using typed_event_fields [OF assms] by (simp_all add: envelope_def Let_def split: prod.splits)
  show ?thesis using uuid env typed_event_valid [OF assms] by (simp add: checked_event_def Let_def)
qed

lemma omit_lookup [simp]:
  "map_of (omit z k v @ r) k' = (if k' = k \<and> \<not> z then Some v else map_of r k')"
  by (simp add: omit_def)

lemma field_keys:
  "ascii k \<Longrightarrow> list_all (\<lambda>kv. ascii (fst kv)) (omit_str k t)" "ascii k \<Longrightarrow> list_all (\<lambda>kv. ascii (fst kv)) (opt_member k f x)"
  by (simp_all add: omit_str_def omit_def opt_member_def split: option.splits)

lemma event_keys: "json_event ev = JObj kvs \<Longrightarrow> list_all (\<lambda>kv. ascii (fst kv)) kvs"
  unfolding json_event_def json.inject by (drule sym) (simp add: field_keys byte_def)

lemma rev_omit: "rev (omit z k v) = omit z k v" "rev (omit_str k t) = omit_str k t" "rev (opt_member k f x) = opt_member k f x"
  by (simp_all add: omit_def omit_str_def opt_member_def split: option.splits)

lemma field_lookup:
  "map_of (omit_str k t) k' = (if k' = k \<and> t \<noteq> [] then Some (JStr t) else None)"
  "map_of (opt_member k f x) k' = (if k' = k then map_option f x else None)"
  by (simp_all add: omit_str_def omit_def opt_member_def split: option.splits)

lemma event_fields:
  assumes "json_event ev = JObj kvs"
  shows "evSubType ev \<noteq> [] \<Longrightarrow> map_of (rev kvs) ''event.sub.type'' = Some (JStr (evSubType ev))"
    and "evDefinitionUUID ev \<noteq> [] \<Longrightarrow> map_of (rev kvs) ''event.definition.uuid'' = Some (JStr (evDefinitionUUID ev))"
    and "map_of (rev kvs) ''event.signature'' = Some (JStr (evSignature ev))"
  using assms [symmetric, unfolded json_event_def json.inject] by (simp_all add: rev_omit field_lookup map_add_def)


section \<open>Witnesses\<close>

definition example_sinks :: EmEnv where
  "example_sinks = \<lparr>eeSink = \<lambda>_ line. (length line, None), eeDiag = \<lambda>_ line. (length line, None), eeUUID = \<lambda>_. ''u'', eeClock = \<lambda>_. ''t''\<rparr>"

definition example_emitter :: Emitter where
  "example_emitter = \<lparr>emCalls = 0, emOut = [], emDiag = [], emIdentity = example_identity, emDiagnostics = True, emBackend = ''kube''\<rparr>"

lemma example_sinks_accept: "\<forall>n line. eeSink example_sinks n line = (length line, None)"
  by (simp add: example_sinks_def)



end
