(* ===== verification/Proxy_Events.thy ===== *)
theory Proxy_Events
  imports Cornerstone_Thms
begin

text \<open>
  The event stream of the socket proxy, \<open>infra/socket-proxy/internal/cornerstone\<close>, a second emitter under
  the same contract: its kinds, the record of an event, and the emitter.
\<close>

section \<open>Events\<close>

definition px_kind :: "string \<Rightarrow> string" where
  "px_kind name = ''runsecure.socket_proxy.'' @ name"

definition px_definitions :: "(string \<times> string) list" where
  "px_definitions =
     map (\<lambda>(name, uuid). (px_kind name, uuid))
      [(''started'', ''a7020c64-9961-429c-891f-1972b367412e''), (''request.denied'', ''a7b09d28-17cb-4227-b1ba-d8c68ccadf69''),
       (''upstream.failed'', ''092ae181-28d5-477e-b331-19c35c6ac3d5''), (''stopped'', ''b86d18a2-2b5b-4ada-aeee-c877955a6e3c''),
       (''process.failed'', ''8ebbc7ca-ffc1-494a-8f53-63fe0835dc95''), (''process.message'', ''89d13c9c-bd56-4a3a-b364-cd8830a0640c''),
       (''telemetry.failed'', ''af41ab2b-fab3-4ee5-a0f5-f30fb4a4c5d7'')]"

record PxFields =
  pfReason :: string
  pfStatus :: int
  pfImageAllowlistEntries :: int
  pfTLS :: bool

definition zero_PxFields :: PxFields where
  "zero_PxFields = \<lparr>pfReason = [], pfStatus = 0, pfImageAllowlistEntries = 0, pfTLS = False\<rparr>"

text \<open>The details of a kind. A Go map, so its members are listed by key.\<close>

definition px_details :: "string \<Rightarrow> PxFields \<Rightarrow> (string \<times> json) list" where
  "px_details kind f =
     (if kind = px_kind ''started'' then
        [(''error.data'', JObj [(''image_allowlist_entries'', json_int (pfImageAllowlistEntries f)), (''tls_enabled'', JBool (pfTLS f))]),
         (''result'', JStr ''success''), (''severity'', json_int 6), (''status'', JStr ''Started''), (''summary'', JStr ''socket-proxy listener starting'')]
      else if kind = px_kind ''request.denied'' \<or> kind = px_kind ''upstream.failed'' \<or> kind = px_kind ''process.failed'' \<or> kind = px_kind ''telemetry.failed'' then
        [(''error.data'', JObj [(''http_status'', json_int (pfStatus f))]),
         (''failure.reason'', JStr (if pfReason f = [] then ''operation_failed'' else pfReason f)), (''result'', JStr ''failure''),
         (''severity'', json_int 3), (''summary'', JStr ''socket-proxy request or process failure'')]
      else if kind = px_kind ''stopped'' then
        [(''result'', JStr ''success''), (''severity'', json_int 6), (''status'', JStr ''Completed''), (''summary'', JStr ''socket-proxy listener stopped'')]
      else if kind = px_kind ''process.message'' then
        [(''result'', JStr ''success''), (''severity'', json_int 6), (''summary'', JStr ''socket-proxy HTTP server diagnostic'')]
      else [(''result'', JStr ''success''), (''severity'', json_int 6), (''summary'', JStr ''socket-proxy operational event'')])"

definition px_record :: "string \<Rightarrow> PxFields \<Rightarrow> string \<Rightarrow> string \<Rightarrow> json" where
  "px_record kind f uuid now =
     JObj [(''event.definition.uuid'', JStr (lookup_or [] px_definitions kind)), (''event.details'', JObj (px_details kind f)),
       (''event.signature'', JStr ''runsecure-socket-proxy-v1''), (''event.sub.type'', JStr kind), (''event.type'', JStr ''Activity''),
       (''event.uuid'', JStr uuid), (''time.stamp'', JStr now)]"

section \<open>The emitter\<close>

definition px_marshal :: "'r UrlLib \<Rightarrow> EmEnv \<Rightarrow> string \<Rightarrow> PxFields \<Rightarrow> EventSinks \<Rightarrow> (gerr + string) \<times> EventSinks" where
  "px_marshal U c kind f s =
     (Marshal U (px_record kind f (eeUUID c (emCalls s)) (eeClock c (emCalls (em_tick s)))) (emIdentity s), em_tick (em_tick s))"

text \<open>Without an encoding there is nothing to write; an empty write is made all the same.\<close>

definition px_reportFailure :: "'r UrlLib \<Rightarrow> EmEnv \<Rightarrow> string \<Rightarrow> EventSinks \<Rightarrow> EventSinks" where
  "px_reportFailure U c reason s =
     (if \<not> emDiagnostics s then s
      else case px_marshal U c (px_kind ''telemetry.failed'') (zero_PxFields\<lparr>pfReason := reason\<rparr>) s of
        (Inl _, s1) \<Rightarrow> diag_write c [] s1
      | (Inr encoded, s1) \<Rightarrow> diag_write c encoded s1)"

definition px_Emit :: "'r UrlLib \<Rightarrow> EmEnv \<Rightarrow> string \<times> PxFields \<Rightarrow> EventSinks \<Rightarrow> gerr option \<times> EventSinks" where
  "px_Emit U c e s =
     (case e of (kind, f) \<Rightarrow>
        if map_of px_definitions kind = None
        then (Some (Plain ''cornerstone: unregistered socket-proxy event''), px_reportFailure U c ''unregistered_event'' s)
        else case px_marshal U c kind f s of
          (Inl err, s1) \<Rightarrow> (Some (Wrap ''cornerstone: emit: '' err []), px_reportFailure U c ''event_write_failed'' s1)
        | (Inr encoded, s1) \<Rightarrow>
            (case sink_write c encoded s1 of
               (Some err, s2) \<Rightarrow> (Some (Wrap ''cornerstone: emit: '' err []), px_reportFailure U c ''event_write_failed'' s2)
             | (None, s2) \<Rightarrow> (None, s2)))"

definition px_Write :: "'r UrlLib \<Rightarrow> EmEnv \<Rightarrow> string \<Rightarrow> EventSinks \<Rightarrow> (int \<times> gerr option) \<times> EventSinks" where
  "px_Write U c p s =
     (case px_Emit U c (px_kind ''process.message'', zero_PxFields) s of
        (Some e, s1) \<Rightarrow> ((0, Some e), s1)
      | (None, s1) \<Rightarrow> ((int (length p), None), s1))"

section \<open>The contract\<close>

lemma px_report_out [simp]: "emOut (px_reportFailure U c reason s) = emOut s"
  by (simp add: px_reportFailure_def px_marshal_def diag_write_def em_tick_def split: sum.splits prod.splits)

lemma px_record_num: "\<exists>kvs. px_record kind f uuid now = JObj kvs \<and> num_json (JObj kvs)"
  by (simp add: px_record_def px_details_def)

lemma px_marshal_text:
  "\<exists>kvs. num_json (JObj kvs) \<and> px_marshal U c kind f s = (Inr (event_text U (emIdentity s) kvs), em_tick (em_tick s))"
  using px_record_num [of kind f "eeUUID c (emCalls s)" "eeClock c (emCalls (em_tick s))"] Marshal_num
  unfolding px_marshal_def event_text_def by metis

lemma px_Emit_cases:
  assumes "px_Emit U c e s = (r, s')"
  obtains (unregistered) "r \<noteq> None" and "map_of px_definitions (fst e) = None" and "emOut s' = emOut s"
  | (sent) kvs n where "num_json (JObj kvs)" and "(r = None) = (tel_Write (eeSink c n) (event_text U (emIdentity s) kvs) = None)"
      and "emOut s' = emOut s @ take (fst (eeSink c n (event_text U (emIdentity s) kvs))) (event_text U (emIdentity s) kvs)"
proof (cases "map_of px_definitions (fst e) = None")
  case True
  then show ?thesis using assms [symmetric] unregistered by (cases e) (simp add: px_Emit_def)
next
  case False
  then obtain u where u: "map_of px_definitions (fst e) = Some u" by blast
  obtain kvs where kvs: "num_json (JObj kvs)"
    "px_marshal U c (fst e) (snd e) s = (Inr (event_text U (emIdentity s) kvs), em_tick (em_tick s))"
    using px_marshal_text by blast
  obtain w s2 where w: "sink_write c (event_text U (emIdentity s) kvs) (em_tick (em_tick s)) = (w, s2)" by fastforce
  then have s2: "w = tel_Write (eeSink c (emCalls s + 2)) (event_text U (emIdentity s) kvs)"
    "emOut s2 = emOut s @ take (fst (eeSink c (emCalls s + 2) (event_text U (emIdentity s) kvs))) (event_text U (emIdentity s) kvs)"
    by (auto simp: sink_write_def em_tick_def numeral_2_eq_2)
  have "(r = None) = (w = None) \<and> emOut s' = emOut s2"
    using assms [symmetric] u kvs(2) w by (cases e; cases w) (simp_all add: px_Emit_def)
  then show ?thesis using sent [OF kvs(1), of "emCalls s + 2"] s2 by simp
qed

lemma px_written:
  assumes "url_faithful U" and "px_Emit U c e s = (None, s')"
  shows "\<exists>line. event_line line \<and> emOut s' = emOut s @ line"
  using assms(2)
proof (cases rule: px_Emit_cases)
  case (sent kvs n)
  then show ?thesis using tel_Write_None event_line_text [OF assms(1) sent(1)] by metis
qed simp

lemma px_failed:
  assumes "url_faithful U" and "px_Emit U c e s = (Some x, s')"
  shows "\<exists>line p. event_line line \<and> prefix p line \<and> emOut s' = emOut s @ p"
  using assms(2)
proof (cases rule: px_Emit_cases)
  case unregistered
  then show ?thesis using event_line_null Nil_prefix by (metis append_Nil2)
next
  case (sent kvs n)
  then show ?thesis using event_line_text [OF assms(1) sent(1)] take_is_prefix by metis
qed

interpretation socket_proxy: event_emitter "px_Emit U c" emOut "\<lambda>_. True" "\<lambda>_. url_faithful U" for U c
  by unfold_locales (assumption | erule (1) px_written [rotated -1] | erule (1) px_failed [rotated -1])+

text \<open>The stream of the socket proxy reads back as well.\<close>

lemma px_stream_intact:
  assumes "url_faithful U" and "emit_all (px_Emit U c) es s = (rs, s')" and "list_all (\<lambda>r. r = None) rs" and "emOut s = []"
  shows "\<exists>vs. length vs = length es \<and> list_all redacted vs \<and> split_char CHR 0x0A (emOut s') = map json_text vs @ [[]]"
proof -
  obtain vs where "length vs = length es" "list_all (\<lambda>v. num_json v \<and> redacted v) vs" "emOut s' = unlines (map json_text vs)"
    using socket_proxy.all_written [OF assms(1) _ assms(2,3)] assms(4) by (auto simp: list_all_iff)
  then show ?thesis using split_lines [of vs] by (intro exI [of _ vs]) (simp add: list_all_iff)
qed

end
