(* ===== verification/Spec2Isabelle.thy ===== *)
theory Spec2Isabelle
  imports Lifecycle_Thms GH_Thms Stack_Thms Kube_Props Startup_Props Server_Thms Auth_Thms Cornerstone_Props Proxy_Events
begin

text \<open>
  RunSecure: an autoscaler for ephemeral GitHub Actions runners.
\<close>

end
